(* ===== verification/Prelude.thy ===== *)
theory Prelude
  imports Main "HOL-Library.List_Lexorder" "HOL-Library.Char_ord"
begin

text \<open>
  Shared vocabulary of the development: results that may raise, tables of rows, and the text
  predicates the source spells as regular expressions.

  \<^item> A Python call that returns or raises is a value of \<open>'e + 'a\<close>: \<open>Inl e\<close> is the raised
    exception, \<open>Inr x\<close> the returned value.  A method of a SQLite repository runs in one
    transaction, so it is a function from the database to such a result that carries the new
    database on success; a raise rolls the transaction back, which is the old database.
  \<^item> A SQL table is the list of its rows in \<open>rowid\<close> order.
  \<^item> A Python \<open>str\<close> is its UTF-8 byte sequence, a HOL \<open>string\<close>; \<open>len(s)\<close> counts code points
    (\<open>py_len\<close>), \<open>len(s.encode("utf-8"))\<close> counts bytes (\<open>length\<close>).
\<close>

named_theorems table_simps \<open>rewriting of lookups in updated tables\<close>
named_theorems result_simps \<open>inversion of results that may raise\<close>

section \<open>Results that may raise\<close>

definition bindE :: "'e + 'a \<Rightarrow> ('a \<Rightarrow> 'e + 'b) \<Rightarrow> 'e + 'b" where
  "bindE r f = (case r of Inl e \<Rightarrow> Inl e | Inr x \<Rightarrow> f x)"

lemma bindE_simps [simp]:
  "bindE (Inl e) f = Inl e"
  "bindE (Inr x) f = f x"
  by (simp_all add: bindE_def)

lemma bindE_Inr [result_simps]: "bindE r f = Inr y \<longleftrightarrow> (\<exists>x. r = Inr x \<and> f x = Inr y)"
  by (cases r) auto

lemma bindE_Inl [result_simps]:
  "bindE r f = Inl e \<longleftrightarrow> r = Inl e \<or> (\<exists>x. r = Inr x \<and> f x = Inl e)"
  by (cases r) auto

lemma if_Inl_Inr [simp]: "(if c then Inl e else r) = Inr y \<longleftrightarrow> \<not> c \<and> r = Inr y"
  by simp

section \<open>Tables\<close>

text \<open>\<open>SELECT * FROM t WHERE p LIMIT 1\<close> on a key, and \<open>UPDATE t SET .. WHERE p\<close>.\<close>

definition select1 :: "('r \<Rightarrow> bool) \<Rightarrow> 'r list \<Rightarrow> 'r option" where
  "select1 p t = List.find p t"

definition update_where :: "('r \<Rightarrow> bool) \<Rightarrow> ('r \<Rightarrow> 'r) \<Rightarrow> 'r list \<Rightarrow> 'r list" where
  "update_where p f t = map (\<lambda>r. if p r then f r else r) t"

definition delete_where :: "('r \<Rightarrow> bool) \<Rightarrow> 'r list \<Rightarrow> 'r list" where
  "delete_where p t = filter (\<lambda>r. \<not> p r) t"

text \<open>\<open>cursor.rowcount\<close> of an update.\<close>

definition count_where :: "('r \<Rightarrow> bool) \<Rightarrow> 'r list \<Rightarrow> nat" where
  "count_where p t = length (filter p t)"

lemma select1_simps [simp]:
  "select1 p [] = None"
  "select1 p (r # t) = (if p r then Some r else select1 p t)"
  by (simp_all add: select1_def)

lemma select1_Some: "select1 p t = Some r \<Longrightarrow> r \<in> set t \<and> p r"
  by (induction t) (auto split: if_splits)

lemma select1_None: "select1 p t = None \<longleftrightarrow> (\<forall>r \<in> set t. \<not> p r)"
  by (induction t) auto

lemma select1_append:
  "select1 p (t @ u) = (case select1 p t of None \<Rightarrow> select1 p u | Some r \<Rightarrow> Some r)"
  by (induction t) auto

lemma update_where_simps [simp]:
  "update_where p f [] = []"
  "update_where p f (r # t) = (if p r then f r else r) # update_where p f t"
  "length (update_where p f t) = length t"
  by (simp_all add: update_where_def)

lemma update_where_append [simp]:
  "update_where p f (t @ u) = update_where p f t @ update_where p f u"
  by (simp add: update_where_def)

lemma set_update_where: "set (update_where p f t) = (\<lambda>r. if p r then f r else r) ` set t"
  by (simp add: update_where_def)

lemma update_where_id: "(\<And>r. r \<in> set t \<Longrightarrow> \<not> p r) \<Longrightarrow> update_where p f t = t"
  by (induction t) auto

lemma map_update_where:
  "(\<And>r. g (f r) = g r) \<Longrightarrow> map g (update_where p f t) = map g t"
  by (induction t) auto

lemma count_where_update:
  "(\<And>r. p r \<Longrightarrow> \<not> q r \<and> \<not> q (f r)) \<Longrightarrow> count_where q (update_where p f t) = count_where q t"
  by (induction t) (auto simp: count_where_def)

text \<open>
  A column with pairwise different values is a key: the row a key selects is the only row with
  that key, and an update that keeps the key is seen by exactly that lookup.
\<close>

lemma key_unique:
  "distinct (map key t) \<Longrightarrow> r \<in> set t \<Longrightarrow> s \<in> set t \<Longrightarrow> key r = key s \<Longrightarrow> r = s"
  by (induction t) (auto simp: rev_image_eqI)

lemma select1_key [table_simps]:
  "distinct (map key t) \<Longrightarrow> r \<in> set t \<Longrightarrow> key r = k \<Longrightarrow> select1 (\<lambda>x. key x = k) t = Some r"
proof (induction t)
  case Nil
  then show ?case by simp
next
  case (Cons a t)
  then show ?case by (cases "a = r") (force simp: rev_image_eqI)+
qed

lemma count_where_key:
  "distinct (map key t) \<Longrightarrow> r \<in> set t \<Longrightarrow> key r = k \<Longrightarrow> count_where (\<lambda>x. key x = k) t = 1"
proof (induction t)
  case (Cons a t)
  have "count_where (\<lambda>x. key x = k) t = 0" if "key a = k"
    using Cons.prems that by (auto simp: count_where_def filter_empty_conv rev_image_eqI)
  with Cons show ?case by (cases "key a = k") (auto simp: count_where_def)
qed simp

lemma select1_update_same:
  assumes "\<And>r. key (f r) = key r"
  shows "select1 (\<lambda>r. key r = k) (update_where (\<lambda>r. key r = k) f t) =
         map_option f (select1 (\<lambda>r. key r = k) t)"
  by (induction t) (auto simp: assms)

lemma select1_update_other:
  assumes "\<And>r. key (f r) = key r" "k \<noteq> k'"
  shows "select1 (\<lambda>r. key r = k) (update_where (\<lambda>r. key r = k') f t) =
         select1 (\<lambda>r. key r = k) t"
  by (induction t) (auto simp: assms)

section \<open>Text\<close>

text \<open>Code points of a UTF-8 string: the bytes that are not continuation bytes.\<close>

definition utf8_continuation :: "char \<Rightarrow> bool" where
  "utf8_continuation c \<longleftrightarrow> 128 \<le> (of_char c :: nat) \<and> (of_char c :: nat) < 192"

definition py_len :: "string \<Rightarrow> nat" where
  "py_len s = length (filter (\<lambda>c. \<not> utf8_continuation c) s)"

lemma py_len_Nil [simp]: "py_len [] = 0"
  by (simp add: py_len_def)

lemma py_len_le: "py_len s \<le> length s"
  by (simp add: py_len_def)

definition char_between :: "char \<Rightarrow> char \<Rightarrow> char \<Rightarrow> bool" where
  "char_between lo hi c \<longleftrightarrow> (of_char lo :: nat) \<le> of_char c \<and> (of_char c :: nat) \<le> of_char hi"

definition is_digit :: "char \<Rightarrow> bool" where
  "is_digit c \<longleftrightarrow> char_between CHR ''0'' CHR ''9'' c"

definition is_lower :: "char \<Rightarrow> bool" where
  "is_lower c \<longleftrightarrow> char_between CHR ''a'' CHR ''z'' c"

definition is_upper :: "char \<Rightarrow> bool" where
  "is_upper c \<longleftrightarrow> char_between CHR ''A'' CHR ''Z'' c"

text \<open>\<open>[0-9a-f]\<close> and \<open>[0-9A-Fa-f]\<close>.\<close>

definition is_lower_hex :: "char \<Rightarrow> bool" where
  "is_lower_hex c \<longleftrightarrow> is_digit c \<or> char_between CHR ''a'' CHR ''f'' c"

definition is_hex :: "char \<Rightarrow> bool" where
  "is_hex c \<longleftrightarrow> is_lower_hex c \<or> char_between CHR ''A'' CHR ''F'' c"

text \<open>\<open>s.startswith(p)\<close> and \<open>s.removeprefix(p)\<close>.\<close>

fun starts_with :: "string \<Rightarrow> string \<Rightarrow> bool" where
  "starts_with [] s = True"
| "starts_with (p # ps) [] = False"
| "starts_with (p # ps) (c # cs) = (p = c \<and> starts_with ps cs)"

definition remove_prefix :: "string \<Rightarrow> string \<Rightarrow> string" where
  "remove_prefix p s = (if starts_with p s then drop (length p) s else s)"

lemma starts_with_iff: "starts_with p s \<longleftrightarrow> (\<exists>t. s = p @ t)"
  by (induction p s rule: starts_with.induct) auto

lemma starts_with_append [simp]: "starts_with p (p @ s)"
  by (induction p) auto

lemma remove_prefix_append [simp]: "remove_prefix p (p @ s) = s"
  by (simp add: remove_prefix_def)

end
