(* ===== verification/Jobs.thy ===== *)
theory Jobs
  imports Prelude
begin

text \<open>
  The durable job state machine of \<open>domain/jobs.py\<close>: its states, the transition table, the
  transitions that need reconciliation evidence, and the validation every repository write goes
  through.  The lemmas describe what a chain of validated transitions can and cannot reach; in
  particular a write job that an Agent has acknowledged is never queued or dispatched again.
\<close>

section \<open>States\<close>

datatype job_state =
    Queued | Dispatched | Acknowledged | Running | CancelRequested | ReconnectPending
  | OutcomeUnknown | Succeeded | Failed | Cancelled | NeedsAttention

datatype effect_class = ReadEffect | WriteEffect

fun job_state_name :: "job_state \<Rightarrow> string" where
  "job_state_name Queued = ''queued''"
| "job_state_name Dispatched = ''dispatched''"
| "job_state_name Acknowledged = ''acknowledged''"
| "job_state_name Running = ''running''"
| "job_state_name CancelRequested = ''cancel_requested''"
| "job_state_name ReconnectPending = ''reconnect_pending''"
| "job_state_name OutcomeUnknown = ''outcome_unknown''"
| "job_state_name Succeeded = ''succeeded''"
| "job_state_name Failed = ''failed''"
| "job_state_name Cancelled = ''cancelled''"
| "job_state_name NeedsAttention = ''needs_attention''"

definition JOB_STATES :: "job_state list" where
  "JOB_STATES = [Queued, Dispatched, Acknowledged, Running, CancelRequested, ReconnectPending,
     OutcomeUnknown, Succeeded, Failed, Cancelled, NeedsAttention]"

definition job_state_of :: "string \<Rightarrow> job_state option" where
  "job_state_of s = List.find (\<lambda>j. job_state_name j = s) JOB_STATES"

fun effect_name :: "effect_class \<Rightarrow> string" where
  "effect_name ReadEffect = ''read''"
| "effect_name WriteEffect = ''write''"

definition TERMINAL_STATES :: "job_state list" where
  "TERMINAL_STATES = [Succeeded, Failed, Cancelled, NeedsAttention]"

definition is_terminal :: "job_state \<Rightarrow> bool" where
  "is_terminal s \<longleftrightarrow> s \<in> set TERMINAL_STATES"

lemma is_terminal_simps [simp]:
  "\<not> is_terminal Queued" "\<not> is_terminal Dispatched" "\<not> is_terminal Acknowledged"
  "\<not> is_terminal Running" "\<not> is_terminal CancelRequested" "\<not> is_terminal ReconnectPending"
  "\<not> is_terminal OutcomeUnknown" "is_terminal Succeeded" "is_terminal Failed"
  "is_terminal Cancelled" "is_terminal NeedsAttention"
  by (simp_all add: is_terminal_def TERMINAL_STATES_def)

lemma job_state_name_inject [simp]: "job_state_name a = job_state_name b \<longleftrightarrow> a = b"
  by (cases a; cases b) simp_all

lemma job_state_of_name [simp]: "job_state_of (job_state_name s) = Some s"
  by (cases s) (simp_all add: job_state_of_def JOB_STATES_def)

lemma job_state_of_Some: "job_state_of x = Some s \<Longrightarrow> x = job_state_name s"
  by (auto simp: job_state_of_def find_Some_iff)

section \<open>The transition table\<close>

fun transitions :: "job_state \<Rightarrow> job_state list" where
  "transitions Queued = [Dispatched, Cancelled, Failed]"
| "transitions Dispatched =
     [Acknowledged, CancelRequested, ReconnectPending, OutcomeUnknown, Failed]"
| "transitions Acknowledged =
     [Running, Succeeded, Failed, CancelRequested, ReconnectPending, OutcomeUnknown]"
| "transitions Running =
     [Succeeded, Failed, CancelRequested, OutcomeUnknown, ReconnectPending]"
| "transitions CancelRequested =
     [Cancelled, Succeeded, Failed, OutcomeUnknown, ReconnectPending]"
| "transitions ReconnectPending =
     [Queued, Running, OutcomeUnknown, Succeeded, Failed, Cancelled, NeedsAttention]"
| "transitions OutcomeUnknown = [Succeeded, Failed, Cancelled, NeedsAttention]"
| "transitions Succeeded = []"
| "transitions Failed = []"
| "transitions Cancelled = []"
| "transitions NeedsAttention = []"

definition recovery_evidence_transitions :: "(job_state \<times> job_state) list" where
  "recovery_evidence_transitions =
     [(ReconnectPending, Queued), (ReconnectPending, Running), (ReconnectPending, OutcomeUnknown),
      (ReconnectPending, Succeeded), (ReconnectPending, Failed), (ReconnectPending, Cancelled),
      (OutcomeUnknown, Succeeded), (OutcomeUnknown, Failed), (OutcomeUnknown, Cancelled)]"

definition transition_allowed :: "job_state \<Rightarrow> job_state \<Rightarrow> bool" where
  "transition_allowed current target \<longleftrightarrow> target \<in> set (transitions current)"

text \<open>The reasons of \<open>InvalidJobTransition\<close>, one per \<open>raise\<close>.\<close>

datatype transition_error =
    UnknownJobState | TerminalJob | InvalidTransition | EvidenceRequired
  | StartedWriteMustBeUnknown | ReconciledWriteMustBeUnknown

definition validate_transition ::
  "job_state \<Rightarrow> job_state \<Rightarrow> effect_class \<Rightarrow> bool \<Rightarrow> transition_error + unit" where
  "validate_transition current target effect evidence =
    (if is_terminal current then Inl TerminalJob
     else if \<not> transition_allowed current target then Inl InvalidTransition
     else if (current, target) \<in> set recovery_evidence_transitions \<and> \<not> evidence
       then Inl EvidenceRequired
     else if effect = WriteEffect \<and> current \<in> set [Acknowledged, Running, CancelRequested]
          \<and> target = ReconnectPending
       then Inl StartedWriteMustBeUnknown
     else if effect = WriteEffect \<and> current = ReconnectPending \<and> target = Running
       then Inl ReconciledWriteMustBeUnknown
     else Inr ())"

text \<open>
  The source checks the two names against \<open>JOB_STATES\<close> first.  On names the validation is the
  parse of both followed by the typed validation.
\<close>

definition validate_transition_names ::
  "string \<Rightarrow> string \<Rightarrow> effect_class \<Rightarrow> bool \<Rightarrow> transition_error + unit" where
  "validate_transition_names current target effect evidence =
    (case (job_state_of current, job_state_of target) of
       (Some c, Some t) \<Rightarrow> validate_transition c t effect evidence
     | _ \<Rightarrow> Inl UnknownJobState)"

lemma validate_transition_ok:
  "validate_transition c t eff ev = Inr u \<longleftrightarrow>
     \<not> is_terminal c \<and> transition_allowed c t
     \<and> ((c, t) \<in> set recovery_evidence_transitions \<longrightarrow> ev)
     \<and> \<not> (eff = WriteEffect \<and> c \<in> {Acknowledged, Running, CancelRequested}
          \<and> t = ReconnectPending)
     \<and> \<not> (eff = WriteEffect \<and> c = ReconnectPending \<and> t = Running)"
  by (simp add: validate_transition_def)

lemma transition_not_terminal: "transition_allowed c t \<Longrightarrow> \<not> is_terminal c"
  by (cases c) (simp_all add: transition_allowed_def)

lemma validated_allowed: "validate_transition c t eff ev = Inr u \<Longrightarrow> transition_allowed c t"
  by (simp add: validate_transition_ok)

section \<open>Chains of validated transitions\<close>

text \<open>One validated transition of a job of the given effect class, with or without evidence.\<close>

inductive job_step :: "effect_class \<Rightarrow> job_state \<Rightarrow> job_state \<Rightarrow> bool" for eff where
  job_step: "validate_transition c t eff ev = Inr () \<Longrightarrow> job_step eff c t"

inductive job_path :: "effect_class \<Rightarrow> job_state \<Rightarrow> job_state \<Rightarrow> bool" for eff where
  path_refl: "job_path eff c c"
| path_step: "job_path eff c d \<Longrightarrow> job_step eff d e \<Longrightarrow> job_path eff c e"

inductive_simps job_step_simps: "job_step eff c t"

code_pred job_step .

lemma job_step_iff:
  "job_step eff c t \<longleftrightarrow> transition_allowed c t
     \<and> \<not> (eff = WriteEffect \<and> c \<in> {Acknowledged, Running, CancelRequested}
          \<and> t = ReconnectPending)
     \<and> \<not> (eff = WriteEffect \<and> c = ReconnectPending \<and> t = Running)"
  by (auto simp: job_step_simps validate_transition_ok dest: transition_not_terminal)

lemma job_path_trans: "job_path eff d e \<Longrightarrow> job_path eff c d \<Longrightarrow> job_path eff c e"
  by (induction rule: job_path.induct) (auto intro: job_path.intros)

lemma job_path_single: "job_step eff c t \<Longrightarrow> job_path eff c t"
  by (blast intro: job_path.intros)

lemma job_path_closed:
  assumes "job_path eff c t" "c \<in> S" "\<And>x y. x \<in> S \<Longrightarrow> job_step eff x y \<Longrightarrow> y \<in> S"
  shows "t \<in> S"
  using assms by (induction rule: job_path.induct) auto

text \<open>States in which an Agent may have started the effect.\<close>

definition started_states :: "job_state set" where
  "started_states = {Acknowledged, Running, CancelRequested, OutcomeUnknown}"

lemma write_started_closed:
  "x \<in> started_states \<union> {s. is_terminal s} \<Longrightarrow> job_step WriteEffect x y \<Longrightarrow>
   y \<in> started_states \<union> {s. is_terminal s}"
  by (cases x) (auto simp: job_step_iff transition_allowed_def started_states_def)

text \<open>A write job that an Agent has acknowledged, started, been asked to cancel or left with an
  unknown outcome is, along every chain of validated transitions (with or without evidence), only
  ever in one of those states or in a terminal one: it is never queued or dispatched again, so the
  write is never sent a second time.\<close>

theorem started_write_never_redispatched:
  assumes "job_path WriteEffect c t" "c \<in> started_states"
  shows "t \<in> started_states \<or> is_terminal t"
  using job_path_closed [OF assms(1), of "started_states \<union> {s. is_terminal s}"]
    assms(2) write_started_closed by auto

theorem started_write_never_redispatched_witness:
  "job_path WriteEffect Acknowledged OutcomeUnknown \<and>
   (OutcomeUnknown \<in> started_states \<or> is_terminal OutcomeUnknown)"
proof -
  have p: "job_path WriteEffect Acknowledged OutcomeUnknown"
    by (rule path_step [OF path_step [OF path_refl, of _ _ Running]])
      (simp_all add: job_step_iff transition_allowed_def)
  have s: "Acknowledged \<in> started_states" by (simp add: started_states_def)
  show ?thesis using p started_write_never_redispatched [OF p s] by blast
qed

text \<open>A job leaves the recovery states \<open>reconnect_pending\<close> and \<open>outcome_unknown\<close> without
  reconciliation evidence only towards \<open>needs_attention\<close>, the state that asks for a human.\<close>

theorem recovery_needs_evidence:
  assumes "validate_transition c t eff ev = Inr ()" "c \<in> {ReconnectPending, OutcomeUnknown}"
    "t \<noteq> NeedsAttention"
  shows "ev"
  using assms
  by (cases t) (auto simp: validate_transition_ok transition_allowed_def
      recovery_evidence_transitions_def)

theorem recovery_needs_evidence_witness:
  "validate_transition ReconnectPending Queued ReadEffect True = Inr () \<and> True"
proof -
  have v: "validate_transition ReconnectPending Queued ReadEffect True = Inr ()"
    by (simp add: validate_transition_ok transition_allowed_def)
  show ?thesis using v recovery_needs_evidence [OF v] by simp
qed

lemma terminal_path_stays: "job_path eff c t \<Longrightarrow> is_terminal c \<Longrightarrow> t = c"
  by (induction rule: job_path.induct)
    (auto simp: job_step_iff dest: transition_not_terminal)


end
