(* ===== verification/PyValue.thy ===== *)
theory PyValue
  imports Complex_Main Prelude
begin

text \<open>
  Python's JSON values: what \<open>json.loads\<close> returns and what the repositories store in their JSON
  columns.  A dict is the association list of its items in insertion order; \<open>py_eq\<close> is Python's
  \<open>==\<close> (numbers compare by value across \<open>bool\<close>, \<open>int\<close> and \<open>float\<close>, dicts ignore order);
  \<open>jget\<close> is \<open>dict.get\<close>.  \<open>json_dumps\<close> is \<open>json.dumps\<close> with \<open>ensure_ascii=False\<close>,
  \<open>sort_keys=True\<close>, the separators \<open>(",", ":")\<close> and \<open>allow_nan=False\<close>; it is partial because
  a non-finite float raises.  Two parts of the standard library are parameters, collected in the
  record \<open>pylib\<close>: the hexadecimal SHA-256 digest and the shortest text of a float.
\<close>

section \<open>Values\<close>

datatype pyfloat = FFin rat | FPosInf | FNegInf | FNaN

datatype json =
    JNull
  | JBool bool
  | JInt int
  | JFloat pyfloat
  | JStr string
  | JList "json list"
  | JObj "(string \<times> json) list"

record pylib =
  sha256_hex :: "string \<Rightarrow> string"
  float_repr :: "rat \<Rightarrow> string"

text \<open>\<open>isinstance\<close> tests; \<open>bool\<close> is a subclass of \<open>int\<close>.\<close>

fun is_dict :: "json \<Rightarrow> bool" where
  "is_dict (JObj _) = True" | "is_dict _ = False"

fun is_list :: "json \<Rightarrow> bool" where
  "is_list (JList _) = True" | "is_list _ = False"

fun is_str :: "json \<Rightarrow> bool" where
  "is_str (JStr _) = True" | "is_str _ = False"

fun is_bool :: "json \<Rightarrow> bool" where
  "is_bool (JBool _) = True" | "is_bool _ = False"

fun is_int :: "json \<Rightarrow> bool" where
  "is_int (JInt _) = True" | "is_int (JBool _) = True" | "is_int _ = False"

text \<open>\<open>dict.get(k)\<close> and \<open>dict.get(k, d)\<close>; the source only applies them to dicts.\<close>

fun jitems :: "json \<Rightarrow> (string \<times> json) list" where
  "jitems (JObj kvs) = kvs" | "jitems _ = []"

definition jlookup :: "json \<Rightarrow> string \<Rightarrow> json option" where
  "jlookup v k = map_of (jitems v) k"

definition jget_default :: "json \<Rightarrow> string \<Rightarrow> json \<Rightarrow> json" where
  "jget_default v k d = (case jlookup v k of None \<Rightarrow> d | Some w \<Rightarrow> w)"

definition jget :: "json \<Rightarrow> string \<Rightarrow> json" where
  "jget v k = jget_default v k JNull"

definition jkeys :: "json \<Rightarrow> string list" where
  "jkeys v = map fst (jitems v)"

text \<open>\<open>set(d) == {k1, .., kn}\<close>.\<close>

definition keys_are :: "json \<Rightarrow> string list \<Rightarrow> bool" where
  "keys_are v ks \<longleftrightarrow> set (jkeys v) = set ks"

fun jelems :: "json \<Rightarrow> json list" where
  "jelems (JList xs) = xs" | "jelems _ = []"

fun jstr :: "json \<Rightarrow> string" where
  "jstr (JStr s) = s" | "jstr _ = []"

fun jint :: "json \<Rightarrow> int" where
  "jint (JInt i) = i" | "jint (JBool b) = (if b then 1 else 0)" | "jint _ = 0"

text \<open>\<open>{**d, k: w}\<close>: the key keeps its place when present and is appended otherwise.\<close>

fun put_item :: "string \<Rightarrow> json \<Rightarrow> (string \<times> json) list \<Rightarrow> (string \<times> json) list" where
  "put_item k w [] = [(k, w)]"
| "put_item k w ((k', v) # kvs) = (if k' = k then (k, w) # kvs else (k', v) # put_item k w kvs)"

definition jput :: "string \<Rightarrow> json \<Rightarrow> json \<Rightarrow> json" where
  "jput k w v = JObj (put_item k w (jitems v))"

lemma map_of_put_item [simp]: "map_of (put_item k w kvs) = (map_of kvs)(k \<mapsto> w)"
  by (induction k w kvs rule: put_item.induct) (auto simp: fun_eq_iff)

lemma jlookup_jput [simp]: "jlookup (jput k w v) k' = (if k' = k then Some w else jlookup v k')"
  by (simp add: jlookup_def jput_def)

lemma jget_jput [simp]: "jget (jput k w v) k' = (if k' = k then w else jget v k')"
  by (simp add: jget_def jget_default_def)

lemma is_dict_jput [simp]: "is_dict (jput k w v)"
  by (simp add: jput_def)

lemma set_put_item_keys [simp]: "fst ` set (put_item k w kvs) = insert k (fst ` set kvs)"
  by (induction k w kvs rule: put_item.induct) auto

lemma set_jkeys_jput [simp]: "set (jkeys (jput k w v)) = insert k (set (jkeys v))"
  by (simp add: jkeys_def jput_def)

lemma jlookup_None: "jlookup v k = None \<longleftrightarrow> k \<notin> set (jkeys v)"
  by (simp add: jlookup_def jkeys_def map_of_eq_None_iff)

section \<open>Python equality\<close>

fun pynum :: "json \<Rightarrow> pyfloat option" where
  "pynum (JBool b) = Some (FFin (if b then 1 else 0))"
| "pynum (JInt i) = Some (FFin (of_int i))"
| "pynum (JFloat f) = Some f"
| "pynum _ = None"

fun float_eq :: "pyfloat \<Rightarrow> pyfloat \<Rightarrow> bool" where
  "float_eq FNaN _ = False"
| "float_eq a b = (a = b)"

function py_eq :: "json \<Rightarrow> json \<Rightarrow> bool" where
  "py_eq (JObj kvs) w =
     (is_dict w \<and> length kvs = length (jitems w)
      \<and> list_all (\<lambda>p. case map_of (jitems w) (fst p) of
                         None \<Rightarrow> False | Some v \<Rightarrow> py_eq (snd p) v) kvs)"
| "py_eq (JList xs) w =
     (is_list w \<and> length xs = length (jelems w)
      \<and> list_all (\<lambda>p. py_eq (fst p) (snd p)) (zip xs (jelems w)))"
| "py_eq (JStr s) w = (w = JStr s)"
| "py_eq JNull w = (w = JNull)"
| "py_eq (JBool b) w = (case pynum w of None \<Rightarrow> False | Some y \<Rightarrow> float_eq (FFin (if b then 1 else 0)) y)"
| "py_eq (JInt i) w = (case pynum w of None \<Rightarrow> False | Some y \<Rightarrow> float_eq (FFin (of_int i)) y)"
| "py_eq (JFloat f) w = (case pynum w of None \<Rightarrow> False | Some y \<Rightarrow> float_eq f y)"
  by pat_completeness auto

lemma size_snd_item: "(k, v) \<in> set kvs \<Longrightarrow> size v < size (JObj kvs)"
  by (induction kvs) auto

lemma size_elem: "x \<in> set xs \<Longrightarrow> size x < size (JList xs)"
  by (induction xs) auto

termination py_eq
  by (relation "measure (\<lambda>(v, w). size v)")
    (auto dest: size_snd_item size_elem set_zip_leftD simp del: json.size)

text \<open>Without NaN and repeated keys, every value equals itself.\<close>

function plain :: "json \<Rightarrow> bool" where
  "plain (JObj kvs) = (distinct (map fst kvs) \<and> list_all (\<lambda>p. plain (snd p)) kvs)"
| "plain (JList xs) = list_all plain xs"
| "plain (JFloat f) = (f \<noteq> FNaN)"
| "plain (JStr s) = True" | "plain JNull = True" | "plain (JBool b) = True"
| "plain (JInt i) = True"
  by pat_completeness auto
termination plain
  by (relation "measure size") (auto dest: size_snd_item size_elem simp del: json.size)

lemma py_eq_refl: "plain v \<Longrightarrow> py_eq v v"
proof (induction v rule: plain.induct)
  case (1 kvs)
  then show ?case by (auto simp: list_all_iff)
next
  case (2 xs)
  then show ?case by (auto simp: list_all_iff set_zip)
next
  case (3 f)
  then show ?case by (cases f) auto
qed auto

section \<open>Encoding\<close>

fun hex_digit :: "nat \<Rightarrow> char" where
  "hex_digit n = (if n < 10 then char_of (48 + n) else char_of (87 + n))"

text \<open>The escapes of the C encoder: the two mandatory ones, the named controls, the others.\<close>

definition escape_char :: "char \<Rightarrow> string" where
  "escape_char c =
    (if c = CHR 0x22 then [CHR 0x5C, CHR 0x22]
     else if c = CHR 0x5C then [CHR 0x5C, CHR 0x5C]
     else if c = CHR 0x0A then [CHR 0x5C, CHR ''n'']
     else if c = CHR 0x0D then [CHR 0x5C, CHR ''r'']
     else if c = CHR 0x09 then [CHR 0x5C, CHR ''t'']
     else if c = CHR 0x0C then [CHR 0x5C, CHR ''f'']
     else if c = CHR 0x08 then [CHR 0x5C, CHR ''b'']
     else if (of_char c :: nat) < 32
       then CHR 0x5C # ''u00'' @ [hex_digit (of_char c div 16), hex_digit (of_char c mod 16)]
     else [c])"

definition json_string :: "string \<Rightarrow> string" where
  "json_string s = CHR 0x22 # concat (map escape_char s) @ [CHR 0x22]"

function decimal :: "nat \<Rightarrow> string" where
  "decimal n = (if n < 10 then [char_of (48 + n)] else decimal (n div 10) @ [char_of (48 + n mod 10)])"
  by pat_completeness auto
termination decimal
  by (relation "measure id") auto

declare decimal.simps [simp del]

definition int_text :: "int \<Rightarrow> string" where
  "int_text i = (if i < 0 then CHR ''-'' # decimal (nat (- i)) else decimal (nat i))"

fun join_with :: "char \<Rightarrow> string list \<Rightarrow> string" where
  "join_with c [] = []"
| "join_with c [s] = s"
| "join_with c (s # t # ss) = s @ [c] @ join_with c (t # ss)"

fun all_some :: "'a option list \<Rightarrow> 'a list option" where
  "all_some [] = Some []"
| "all_some (None # xs) = None"
| "all_some (Some x # xs) = map_option ((#) x) (all_some xs)"

function json_dumps :: "pylib \<Rightarrow> json \<Rightarrow> string option" where
  "json_dumps L JNull = Some ''null''"
| "json_dumps L (JBool b) = Some (if b then ''true'' else ''false'')"
| "json_dumps L (JInt i) = Some (int_text i)"
| "json_dumps L (JFloat f) = (case f of FFin q \<Rightarrow> Some (float_repr L q) | _ \<Rightarrow> None)"
| "json_dumps L (JStr s) = Some (json_string s)"
| "json_dumps L (JList xs) =
     (case all_some (map (json_dumps L) xs) of
        None \<Rightarrow> None | Some ts \<Rightarrow> Some (CHR ''['' # join_with CHR '','' ts @ '']''))"
| "json_dumps L (JObj kvs) =
     (case all_some (map (\<lambda>p. map_option (\<lambda>t. (fst p, t)) (json_dumps L (snd p))) kvs) of
        None \<Rightarrow> None
      | Some items \<Rightarrow> Some (CHR ''{'' # join_with CHR '',''
          (map (\<lambda>p. json_string (fst p) @ CHR '':'' # snd p) (sort_key fst items)) @ ''}''))"
  by pat_completeness auto
termination json_dumps
  by (relation "measure (\<lambda>(L, v). size v)") (auto dest: size_snd_item size_elem simp del: json.size)

text \<open>The same encoder with \<open>allow_nan=True\<close>, the default of \<open>json.dumps\<close>: it never raises.\<close>

fun float_text :: "pylib \<Rightarrow> pyfloat \<Rightarrow> string" where
  "float_text L (FFin q) = float_repr L q"
| "float_text L FPosInf = ''Infinity''"
| "float_text L FNegInf = ''-Infinity''"
| "float_text L FNaN = ''NaN''"

function json_encode :: "pylib \<Rightarrow> json \<Rightarrow> string" where
  "json_encode L JNull = ''null''"
| "json_encode L (JBool b) = (if b then ''true'' else ''false'')"
| "json_encode L (JInt i) = int_text i"
| "json_encode L (JFloat f) = float_text L f"
| "json_encode L (JStr s) = json_string s"
| "json_encode L (JList xs) = CHR ''['' # join_with CHR '','' (map (json_encode L) xs) @ '']''"
| "json_encode L (JObj kvs) =
     CHR ''{'' # join_with CHR '','' (map (\<lambda>p. json_string (fst p) @ CHR '':'' # snd p)
       (sort_key fst (map (\<lambda>p. (fst p, json_encode L (snd p))) kvs))) @ ''}''"
  by pat_completeness auto
termination json_encode
  by (relation "measure (\<lambda>(L, v). size v)") (auto dest: size_snd_item size_elem simp del: json.size)

text \<open>Decimal text can be read back, so it separates numbers.\<close>

definition read_decimal :: "string \<Rightarrow> nat" where
  "read_decimal s = foldl (\<lambda>n c. 10 * n + (of_char c - 48)) 0 s"

lemma read_decimal_decimal: "read_decimal (decimal n) = n"
proof (induction n rule: decimal.induct)
  case (1 n)
  have "48 + d < 256" if "d < 10" for d :: nat using that by simp
  then have "of_char (char_of (48 + d) :: char) = 48 + d" if "d < 10" for d :: nat
    using that by (simp add: of_char_of)
  then show ?case
    using 1 by (subst decimal.simps) (simp add: read_decimal_def)
qed

lemma decimal_chars: "list_all is_digit (decimal n)"
proof (induction n rule: decimal.induct)
  case (1 n)
  have "is_digit (char_of (48 + d))" if "d < 10" for d :: nat
    using that by (simp add: is_digit_def char_between_def of_char_of)
  then show ?case using 1 by (subst decimal.simps) simp
qed

lemma int_text_inject_pos: "0 < i \<Longrightarrow> 0 < j \<Longrightarrow> int_text i = int_text j \<longleftrightarrow> i = j"
  by (metis int_text_def int_nat_eq not_less order_less_imp_le read_decimal_decimal)

lemma int_text_pos_chars: "0 < i \<Longrightarrow> list_all is_digit (int_text i)"
  by (simp add: int_text_def decimal_chars)

section \<open>Optional values and truth values\<close>

text \<open>\<open>==\<close> on an optional JSON value.\<close>

fun opt_json_eq :: "json option \<Rightarrow> json option \<Rightarrow> bool" where
  "opt_json_eq None None = True"
| "opt_json_eq (Some v) (Some w) = py_eq v w"
| "opt_json_eq _ _ = False"

text \<open>Python's truth value of a JSON value.\<close>

fun json_truthy :: "json \<Rightarrow> bool" where
  "json_truthy JNull = False"
| "json_truthy (JBool b) = b"
| "json_truthy (JInt i) = (i \<noteq> 0)"
| "json_truthy (JFloat f) = (f \<noteq> FFin 0)"
| "json_truthy (JStr s) = (s \<noteq> [])"
| "json_truthy (JList xs) = (xs \<noteq> [])"
| "json_truthy (JObj kvs) = (kvs \<noteq> [])"

end
