(* ===== verification/Contracts.thy ===== *)
theory Contracts
  imports PyValue "HOL-Library.Multiset"
begin

text \<open>
  The canonical forms and digests of \<open>autocad_contracts/agent_protocol.py\<close> that every other part
  hashes with: bounded JSON, canonical JSON and its digest, capability lists, package manifests and
  drawing revisions.  A \<open>ValueError\<close> is \<open>Inl\<close> of its reason.
\<close>

section \<open>Bounded JSON\<close>

definition MAX_CAPABILITIES :: nat where "MAX_CAPABILITIES = 64"
definition MAX_CAPABILITY_BYTES :: nat where "MAX_CAPABILITY_BYTES = 64"
definition MAX_JSON_DEPTH :: nat where "MAX_JSON_DEPTH = 16"
definition MAX_JSON_CONTAINER_ITEMS :: nat where "MAX_JSON_CONTAINER_ITEMS = 10000"
definition MAX_JSON_STRING_BYTES :: nat where "MAX_JSON_STRING_BYTES = 65536"
definition MAX_JSON_KEY_BYTES :: nat where "MAX_JSON_KEY_BYTES = 256"
definition MAX_PACKAGES :: nat where "MAX_PACKAGES = 32"

lemmas bound_defs = MAX_CAPABILITIES_def MAX_CAPABILITY_BYTES_def MAX_JSON_DEPTH_def
  MAX_JSON_CONTAINER_ITEMS_def MAX_JSON_STRING_BYTES_def MAX_JSON_KEY_BYTES_def MAX_PACKAGES_def

datatype value_error =
    NestingTooDeep | NotFinite | StringTooLong | ListTooLong | ObjectTooLong | KeyTooLong
  | TooManyCapabilities | CapabilityNotString | CapabilityInvalid
  | TooManyPackages | PackageInvalid | PackagesNotUnique
  | DigestNotString | DigestInvalid | RevisionEntities

text \<open>A loop whose body may raise stops at the first raise.\<close>

fun first_error :: "('e + unit) list \<Rightarrow> 'e + unit" where
  "first_error [] = Inr ()"
| "first_error (Inl e # rs) = Inl e"
| "first_error (Inr _ # rs) = first_error rs"

lemma first_error_map [simp]:
  "first_error (map f xs) = Inr u \<longleftrightarrow> (\<forall>x \<in> set xs. f x = Inr ())"
proof (induction xs)
  case (Cons x xs)
  then show ?case by (cases "f x") auto
qed simp

function bounded_at :: "nat \<Rightarrow> json \<Rightarrow> value_error + unit" where
  "bounded_at d JNull = (if MAX_JSON_DEPTH < d then Inl NestingTooDeep else Inr ())"
| "bounded_at d (JBool _) = (if MAX_JSON_DEPTH < d then Inl NestingTooDeep else Inr ())"
| "bounded_at d (JInt _) = (if MAX_JSON_DEPTH < d then Inl NestingTooDeep else Inr ())"
| "bounded_at d (JFloat f) =
     (if MAX_JSON_DEPTH < d then Inl NestingTooDeep
      else case f of FFin _ \<Rightarrow> Inr () | _ \<Rightarrow> Inl NotFinite)"
| "bounded_at d (JStr s) =
     (if MAX_JSON_DEPTH < d then Inl NestingTooDeep
      else if MAX_JSON_STRING_BYTES < length s then Inl StringTooLong else Inr ())"
| "bounded_at d (JList xs) =
     (if MAX_JSON_DEPTH < d then Inl NestingTooDeep
      else if MAX_JSON_CONTAINER_ITEMS < length xs then Inl ListTooLong
      else first_error (map (\<lambda>x. bounded_at (Suc d) x) xs))"
| "bounded_at d (JObj kvs) =
     (if MAX_JSON_DEPTH < d then Inl NestingTooDeep
      else if MAX_JSON_CONTAINER_ITEMS < length kvs then Inl ObjectTooLong
      else first_error (map (\<lambda>p.
             if fst p = [] \<or> MAX_JSON_KEY_BYTES < length (fst p) then Inl KeyTooLong
             else bounded_at (Suc d) (snd p)) kvs))"
  by pat_completeness auto
termination bounded_at
  by (relation "measure (\<lambda>(d, v). size v)") (auto dest: size_snd_item size_elem simp del: json.size)

definition validate_bounded_json :: "json \<Rightarrow> value_error + unit" where
  "validate_bounded_json v = bounded_at 0 v"

text \<open>The nesting of a value, and all its string leaves and keys.\<close>

definition list_max :: "nat list \<Rightarrow> nat" where
  "list_max ns = foldr max ns 0"

lemma list_max_le [simp]: "list_max ns \<le> m \<longleftrightarrow> (\<forall>n \<in> set ns. n \<le> m)"
  by (induction ns) (auto simp: list_max_def)

function jdepth :: "json \<Rightarrow> nat" where
  "jdepth (JList xs) = list_max (map (\<lambda>x. Suc (jdepth x)) xs)"
| "jdepth (JObj kvs) = list_max (map (\<lambda>p. Suc (jdepth (snd p))) kvs)"
| "jdepth JNull = 0" | "jdepth (JBool b) = 0" | "jdepth (JInt i) = 0" | "jdepth (JFloat f) = 0"
| "jdepth (JStr s) = 0"
  by pat_completeness auto
termination jdepth
  by (relation "measure size") (auto dest: size_snd_item size_elem simp del: json.size)

function jstrings :: "json \<Rightarrow> string list" where
  "jstrings (JList xs) = concat (map jstrings xs)"
| "jstrings (JObj kvs) = concat (map (\<lambda>p. fst p # jstrings (snd p)) kvs)"
| "jstrings (JStr s) = [s]"
| "jstrings JNull = []" | "jstrings (JBool b) = []" | "jstrings (JInt i) = []"
| "jstrings (JFloat f) = []"
  by pat_completeness auto
termination jstrings
  by (relation "measure size") (auto dest: size_snd_item size_elem simp del: json.size)

lemma bounded_at_le: "bounded_at d v = Inr () \<Longrightarrow> d \<le> MAX_JSON_DEPTH"
  by (cases v) (simp_all add: not_less)

lemma bounded_at_list:
  "bounded_at d (JList xs) = Inr () \<longleftrightarrow> d \<le> MAX_JSON_DEPTH
     \<and> length xs \<le> MAX_JSON_CONTAINER_ITEMS \<and> (\<forall>x \<in> set xs. bounded_at (Suc d) x = Inr ())"
  by (auto simp: not_less)

lemma bounded_at_obj:
  "bounded_at d (JObj kvs) = Inr () \<longleftrightarrow> d \<le> MAX_JSON_DEPTH
     \<and> length kvs \<le> MAX_JSON_CONTAINER_ITEMS
     \<and> (\<forall>p \<in> set kvs. fst p \<noteq> [] \<and> length (fst p) \<le> MAX_JSON_KEY_BYTES
          \<and> bounded_at (Suc d) (snd p) = Inr ())"
  by (auto simp: not_less)

lemma bounded_at_depth: "bounded_at d v = Inr () \<Longrightarrow> d + jdepth v \<le> MAX_JSON_DEPTH"
proof (induction v arbitrary: d rule: jdepth.induct)
  case (1 xs)
  from 1(2) have d: "d \<le> MAX_JSON_DEPTH" by (rule bounded_at_le)
  from 1 have "\<forall>x \<in> set xs. Suc (jdepth x) \<le> MAX_JSON_DEPTH - d"
    unfolding bounded_at_list by fastforce
  then have "jdepth (JList xs) \<le> MAX_JSON_DEPTH - d" by simp
  with d show ?case by linarith
next
  case (2 kvs)
  from 2(2) have d: "d \<le> MAX_JSON_DEPTH" by (rule bounded_at_le)
  from 2 have "\<forall>p \<in> set kvs. Suc (jdepth (snd p)) \<le> MAX_JSON_DEPTH - d"
    unfolding bounded_at_obj by fastforce
  then have "jdepth (JObj kvs) \<le> MAX_JSON_DEPTH - d" by simp
  with d show ?case by linarith
qed (simp_all add: not_less)

lemma bounded_at_strings:
  "bounded_at d v = Inr () \<Longrightarrow> s \<in> set (jstrings v) \<Longrightarrow> length s \<le> MAX_JSON_STRING_BYTES"
proof (induction v arbitrary: d rule: jstrings.induct)
  case (1 xs)
  then show ?case unfolding bounded_at_list by auto
next
  case (2 kvs)
  from 2(3) obtain p where p: "p \<in> set kvs" "s = fst p \<or> s \<in> set (jstrings (snd p))" by auto
  from 2(2) p(1) have b: "length (fst p) \<le> MAX_JSON_KEY_BYTES" "bounded_at (Suc d) (snd p) = Inr ()"
    unfolding bounded_at_obj by auto
  show ?case
    using p b 2(1) [OF p(1) b(2)]
    by (auto simp: MAX_JSON_KEY_BYTES_def MAX_JSON_STRING_BYTES_def)
qed (auto split: if_splits)



section \<open>Canonical JSON and its digest\<close>

text \<open>\<open>validate_bounded_json\<close> has excluded the non-finite floats, the only values \<open>json.dumps\<close>
  refuses, so the encoding of an accepted value exists (\<open>bounded_dumps\<close>).\<close>

definition canonical_json :: "pylib \<Rightarrow> json \<Rightarrow> value_error + string" where
  "canonical_json L v =
    (case validate_bounded_json v of
       Inl e \<Rightarrow> Inl e
     | Inr _ \<Rightarrow> (case json_dumps L v of None \<Rightarrow> Inl NotFinite | Some t \<Rightarrow> Inr t))"

definition canonical_payload_hash :: "pylib \<Rightarrow> json \<Rightarrow> value_error + string" where
  "canonical_payload_hash L v = bindE (canonical_json L v) (\<lambda>t. Inr (sha256_hex L t))"

lemma all_some_map [simp]:
  "(\<exists>ys. all_some (map f xs) = Some ys) \<longleftrightarrow> (\<forall>x \<in> set xs. f x \<noteq> None)"
proof (induction xs)
  case (Cons x xs)
  then show ?case by (cases "f x") auto
qed simp

lemma bounded_dumps: "bounded_at d v = Inr () \<Longrightarrow> \<exists>t. json_dumps L v = Some t"
proof (induction v arbitrary: d rule: jstrings.induct)
  case (1 xs)
  then have "\<forall>x \<in> set xs. json_dumps L x \<noteq> None" unfolding bounded_at_list by fastforce
  then obtain ts where "all_some (map (json_dumps L) xs) = Some ts"
    by (metis (mono_tags) all_some_map)
  then show ?case by simp
next
  case (2 kvs)
  then have "\<forall>p \<in> set kvs. map_option (\<lambda>t. (fst p, t)) (json_dumps L (snd p)) \<noteq> None"
    unfolding bounded_at_obj by fastforce
  then obtain ts where
    "all_some (map (\<lambda>p. map_option (\<lambda>t. (fst p, t)) (json_dumps L (snd p))) kvs) = Some ts"
    by (metis (mono_tags, lifting) all_some_map)
  then show ?case by simp
qed (auto split: pyfloat.splits)

lemma payload_hash_defined_helper:
  "(\<exists>h. canonical_payload_hash L v = Inr h) = (validate_bounded_json v = Inr ())"
proof (cases "validate_bounded_json v")
  case (Inr u)
  then obtain t where "json_dumps L v = Some t"
    using bounded_dumps [of 0 v L] by (auto simp: validate_bounded_json_def)
  with Inr show ?thesis by (simp add: canonical_payload_hash_def canonical_json_def)
qed (simp add: canonical_payload_hash_def canonical_json_def)

text \<open>\<open>canonical_json\<close> and \<open>canonical_payload_hash\<close> return for every bounded value, and raise
  exactly where \<open>validate_bounded_json\<close> raises.\<close>

theorem payload_hash_defined:
  "((\<exists>h. canonical_payload_hash L v = Inr h) = (validate_bounded_json v = Inr ())) \<and>
   (\<forall>e. canonical_payload_hash L v = Inl e \<longleftrightarrow> validate_bounded_json v = Inl e)"
proof (cases "validate_bounded_json v")
  case (Inr u)
  then obtain h where "canonical_payload_hash L v = Inr h"
    using payload_hash_defined_helper [of L v] by auto
  with Inr show ?thesis by simp
qed (simp add: canonical_payload_hash_def canonical_json_def)

definition all_lower_hex :: "nat \<Rightarrow> string \<Rightarrow> bool" where
  "all_lower_hex n s \<longleftrightarrow> length s = n \<and> list_all is_lower_hex s"

text \<open>\<open>^[0-9a-f]{64}$\<close> and \<open>^sha256:[0-9a-f]{64}$\<close>.\<close>

definition raw_sha256 :: "string \<Rightarrow> bool" where
  "raw_sha256 s \<longleftrightarrow> all_lower_hex 64 s"

definition prefixed_sha256 :: "string \<Rightarrow> bool" where
  "prefixed_sha256 s \<longleftrightarrow> starts_with ''sha256:'' s \<and> raw_sha256 (drop 7 s)"

definition normalize_sha256_digest :: "json \<Rightarrow> bool \<Rightarrow> value_error + string" where
  "normalize_sha256_digest v allow_legacy_raw =
    (case v of
       JStr s \<Rightarrow>
         (if prefixed_sha256 s then Inr s
          else if allow_legacy_raw \<and> raw_sha256 s then Inr (''sha256:'' @ s)
          else Inl DigestInvalid)
     | _ \<Rightarrow> Inl DigestNotString)"

text \<open>\<open>normalize_sha256_digest\<close> returns only digests in the strict \<open>sha256:<64hex>\<close> form, and
  normalising its own result strictly changes nothing.\<close>

theorem normalize_digest_strict:
  assumes "normalize_sha256_digest v legacy = Inr d"
  shows "prefixed_sha256 d \<and> normalize_sha256_digest (JStr d) False = Inr d"
proof -
  have "prefixed_sha256 d"
    using assms by (auto simp: normalize_sha256_digest_def prefixed_sha256_def split: json.splits if_splits)
  then show ?thesis by (simp add: normalize_sha256_digest_def)
qed

theorem normalize_digest_strict_witness:
  "prefixed_sha256 (''sha256:'' @ replicate 64 (CHR ''a''))"
proof -
  have v: "normalize_sha256_digest (JStr (replicate 64 (CHR ''a''))) True
             = Inr (''sha256:'' @ replicate 64 (CHR ''a''))"
    by (simp add: normalize_sha256_digest_def prefixed_sha256_def raw_sha256_def all_lower_hex_def
        is_lower_hex_def char_between_def list_all_iff numeral_eq_Suc)
  show ?thesis using normalize_digest_strict [OF v] by blast
qed

section \<open>Capabilities\<close>

text \<open>
  \<open>str.strip()\<close> removes Unicode white space at both ends: the byte sequences below are the UTF-8
  encodings of the code points for which \<open>str.isspace\<close> holds.  \<open>str.lower()\<close> maps \<open>A\<close>..\<open>Z\<close>
  and, among the other code points, only the Kelvin sign (U+212A) to an ASCII letter; every other
  non-ASCII character stays non-ASCII, so it fails the pattern whatever it is mapped to and is
  left alone here.
\<close>

definition whitespace_codes :: "nat list list" where
  "whitespace_codes =
     map (\<lambda>n. [n]) [9, 10, 11, 12, 13, 28, 29, 30, 31, 32]
     @ [[194, 133], [194, 160], [225, 154, 128], [226, 128, 168], [226, 128, 169],
        [226, 128, 175], [226, 129, 159], [227, 128, 128]]
     @ map (\<lambda>n. [226, 128, n]) [128 ..< 139]"

definition whitespace :: "string list" where
  "whitespace = map (map char_of) whitespace_codes"

lemma whitespace_nonempty: "w \<in> set whitespace \<Longrightarrow> w \<noteq> []"
  by (auto simp: whitespace_def whitespace_codes_def)

function lstrip :: "string \<Rightarrow> string" where
  "lstrip s =
    (case List.find (\<lambda>w. starts_with w s) whitespace of
       None \<Rightarrow> s | Some w \<Rightarrow> lstrip (drop (length w) s))"
  by pat_completeness auto
termination lstrip
proof (relation "measure length")
  fix s w
  assume "List.find (\<lambda>w. starts_with w s) whitespace = Some w"
  then have "w \<in> set whitespace" "starts_with w s" by (auto simp: find_Some_iff)
  then show "(drop (length w) s, s) \<in> measure length"
    using whitespace_nonempty [of w] by (auto simp: starts_with_iff)
qed simp

function rstrip :: "string \<Rightarrow> string" where
  "rstrip s =
    (case List.find (\<lambda>w. starts_with (rev w) (rev s)) whitespace of
       None \<Rightarrow> s | Some w \<Rightarrow> rstrip (take (length s - length w) s))"
  by pat_completeness auto
termination rstrip
proof (relation "measure length")
  fix s w
  assume "List.find (\<lambda>w. starts_with (rev w) (rev s)) whitespace = Some w"
  then have w: "w \<in> set whitespace" "starts_with (rev w) (rev s)" by (auto simp: find_Some_iff)
  then obtain t where "rev s = rev w @ t" by (auto simp: starts_with_iff)
  then have "length s = length w + length t" by (metis length_append length_rev)
  then show "(take (length s - length w) s, s) \<in> measure length"
    using whitespace_nonempty [OF w(1)] by (cases w) auto
qed simp

declare lstrip.simps [simp del] rstrip.simps [simp del]

definition py_strip :: "string \<Rightarrow> string" where
  "py_strip s = rstrip (lstrip s)"

fun py_lower :: "string \<Rightarrow> string" where
  "py_lower (a # b # c # s) =
    (if map of_char [a, b, c] = [226, 132, 170 :: nat] then CHR ''k'' # py_lower s
     else (if is_upper a then char_of ((of_char a :: nat) + 32) else a) # py_lower (b # c # s))"
| "py_lower (a # s) = (if is_upper a then char_of ((of_char a :: nat) + 32) else a) # py_lower s"
| "py_lower [] = []"

text \<open>
  The automaton of \<open>[a-z][a-z0-9]*(?:[._-][a-z0-9]+)*(?:/[1-9][0-9]*)?\<close>; without the last group it
  is the package identifier pattern.
\<close>

datatype name_state = NameStart | InSegment | AfterSeparator | AfterSlash | InVersion | NameReject

fun name_step :: "bool \<Rightarrow> name_state \<Rightarrow> char \<Rightarrow> name_state" where
  "name_step versioned NameStart c = (if is_lower c then InSegment else NameReject)"
| "name_step versioned InSegment c =
    (if is_lower c \<or> is_digit c then InSegment
     else if c \<in> set [CHR ''.'', CHR ''_'', CHR ''-''] then AfterSeparator
     else if versioned \<and> c = CHR ''/'' then AfterSlash else NameReject)"
| "name_step versioned AfterSeparator c =
    (if is_lower c \<or> is_digit c then InSegment else NameReject)"
| "name_step versioned AfterSlash c =
    (if is_digit c \<and> c \<noteq> CHR ''0'' then InVersion else NameReject)"
| "name_step versioned InVersion c = (if is_digit c then InVersion else NameReject)"
| "name_step versioned NameReject c = NameReject"

definition matches_name :: "bool \<Rightarrow> string \<Rightarrow> bool" where
  "matches_name versioned s \<longleftrightarrow>
     foldl (name_step versioned) NameStart s \<in> set [InSegment, InVersion]"

definition canonical_capability :: "json \<Rightarrow> value_error + string" where
  "canonical_capability c =
    (case c of
       JStr s \<Rightarrow>
         (let value = py_lower (py_strip s)
          in if value = [] \<or> MAX_CAPABILITY_BYTES < length value \<or> \<not> matches_name True value
             then Inl CapabilityInvalid else Inr value)
     | _ \<Rightarrow> Inl CapabilityNotString)"

fun collect_results :: "('e + 'a) list \<Rightarrow> 'e + 'a list" where
  "collect_results [] = Inr []"
| "collect_results (r # rs) = bindE r (\<lambda>x. bindE (collect_results rs) (\<lambda>xs. Inr (x # xs)))"

definition canonical_capabilities :: "json list \<Rightarrow> value_error + string list" where
  "canonical_capabilities capabilities =
    (if MAX_CAPABILITIES < length capabilities then Inl TooManyCapabilities
     else bindE (collect_results (map canonical_capability capabilities))
            (\<lambda>normalized. Inr (sort (remdups normalized))))"

definition canonical_capability_hash :: "pylib \<Rightarrow> json list \<Rightarrow> value_error + string" where
  "canonical_capability_hash L capabilities =
    bindE (canonical_capabilities capabilities)
      (\<lambda>manifest. canonical_payload_hash L (JList (map JStr manifest)))"

text \<open>A name the automaton accepts is spelled in an alphabet without white space or capitals.\<close>

definition name_char :: "char \<Rightarrow> bool" where
  "name_char c \<longleftrightarrow> is_lower c \<or> is_digit c \<or> c \<in> set ''._-/''"

lemmas name_defs = name_char_def is_lower_def is_upper_def is_digit_def char_between_def

lemma foldl_reject [simp]: "foldl (name_step v) NameReject s = NameReject"
  by (induction s) auto

lemma foldl_name_chars: "foldl (name_step v) q s \<noteq> NameReject \<Longrightarrow> list_all name_char s"
proof (induction s arbitrary: q)
  case (Cons c s)
  then have "name_step v q c \<noteq> NameReject" by auto
  then have "name_char c" by (cases q) (auto simp: name_char_def split: if_splits)
  with Cons show ?case by simp
qed simp

lemma matches_name_chars: "matches_name v s \<Longrightarrow> list_all name_char s"
  by (rule foldl_name_chars [of v NameStart]) (auto simp: matches_name_def)

lemma name_char_code: "name_char c \<Longrightarrow> 45 \<le> (of_char c :: nat) \<and> (of_char c :: nat) < 123"
  by (auto simp: name_defs)

lemma whitespace_code_ends:
  "\<forall>ns \<in> set whitespace_codes. ns \<noteq> [] \<and> hd ns < 256 \<and> last ns < 256
     \<and> (hd ns < 45 \<or> 123 \<le> hd ns) \<and> (last ns < 45 \<or> 123 \<le> last ns)"
  by (auto simp: whitespace_codes_def)

lemma whitespace_ends:
  assumes "w \<in> set whitespace"
  shows "\<not> name_char (hd w)" "\<not> name_char (last w)"
proof -
  from assms obtain ns where ns: "ns \<in> set whitespace_codes" "w = map char_of ns"
    by (auto simp: whitespace_def)
  with whitespace_code_ends have h: "hd w = char_of (hd ns)" "last w = char_of (last ns)"
    by (simp_all add: hd_map last_map)
  have "of_char (hd w) = hd ns" "of_char (last w) = last ns"
    using whitespace_code_ends ns(1) by (simp_all add: h)
  with whitespace_code_ends ns(1) show "\<not> name_char (hd w)" "\<not> name_char (last w)"
    by (auto dest!: name_char_code)
qed

lemma strip_name:
  assumes "list_all name_char s"
  shows "py_strip s = s"
proof -
  have l: "lstrip s = s"
  proof -
    have "\<not> starts_with w s" if "w \<in> set whitespace" for w
      using whitespace_ends(1) [OF that] whitespace_nonempty [OF that] assms
      by (cases w) (auto simp: starts_with_iff)
    then have "List.find (\<lambda>w. starts_with w s) whitespace = None" by (auto simp: find_None_iff)
    then show ?thesis by (simp add: lstrip.simps)
  qed
  have "\<not> starts_with (rev w) (rev s)" if "w \<in> set whitespace" for w
  proof
    assume "starts_with (rev w) (rev s)"
    then have "s = rev (drop (length w) (rev s)) @ w"
      by (auto simp: starts_with_iff) (metis rev_append rev_rev_ident)
    then have "list_all name_char w" using assms by (metis list_all_append)
    then show False
      using whitespace_ends(2) [OF that] whitespace_nonempty [OF that] by (simp add: list_all_iff)
  qed
  then have "List.find (\<lambda>w. starts_with (rev w) (rev s)) whitespace = None"
    by (auto simp: find_None_iff)
  with l show ?thesis by (simp add: py_strip_def rstrip.simps)
qed

lemma name_char_not_upper: "name_char c \<Longrightarrow> \<not> is_upper c"
  by (auto simp: name_defs)

lemma lower_name: "list_all name_char s \<Longrightarrow> py_lower s = s"
proof (induction s rule: py_lower.induct)
  case (1 a b c s)
  then have "\<not> is_upper a" "map of_char [a, b, c] \<noteq> [226, 132, 170 :: nat]"
    using name_char_not_upper [of a] name_char_code [of a] by simp_all
  with 1 show ?case by simp
qed (simp_all add: name_char_not_upper)

lemma canonical_capability_ok:
  "canonical_capability c = Inr k \<Longrightarrow> canonical_capability (JStr k) = Inr k"
  by (auto simp: canonical_capability_def Let_def strip_name lower_name matches_name_chars
      split: json.splits)

lemma collect_results_map:
  "collect_results (map f xs) = Inr ys \<longleftrightarrow> list_all2 (\<lambda>x y. f x = Inr y) xs ys"
proof (induction xs arbitrary: ys)
  case (Cons x xs)
  then show ?case by (auto simp: list_all2_Cons1 bindE_Inr)
qed auto

lemma canonical_capabilities_ok:
  assumes "canonical_capabilities cs = Inr ks"
  shows "sorted ks" "distinct ks" "length ks \<le> MAX_CAPABILITIES"
    "\<forall>k \<in> set ks. canonical_capability (JStr k) = Inr k"
    "set ks = {k. \<exists>c \<in> set cs. canonical_capability c = Inr k}"
proof -
  from assms obtain ns where len: "length cs \<le> MAX_CAPABILITIES"
    and ns: "list_all2 (\<lambda>c k. canonical_capability c = Inr k) cs ns"
    and ks: "ks = sort (remdups ns)"
    by (auto simp: canonical_capabilities_def bindE_Inr collect_results_map)
  show "sorted ks" "distinct ks" by (simp_all add: ks)
  show "length ks \<le> MAX_CAPABILITIES"
    using len list_all2_lengthD [OF ns] by (simp add: ks) (meson le_trans length_remdups_leq)
  show st: "set ks = {k. \<exists>c \<in> set cs. canonical_capability c = Inr k}"
    using ns by (fastforce simp: ks list_all2_conv_all_nth in_set_conv_nth)
  show "\<forall>k \<in> set ks. canonical_capability (JStr k) = Inr k"
    using canonical_capability_ok by (auto simp: st)
qed

lemma canonical_capabilities_of:
  assumes "length cs \<le> MAX_CAPABILITIES" "\<forall>c \<in> set cs. \<exists>k. canonical_capability c = Inr k"
  shows "canonical_capabilities cs =
    Inr (sorted_list_of_set {k. \<exists>c \<in> set cs. canonical_capability c = Inr k})"
proof -
  from assms(2) have "\<exists>ns. list_all2 (\<lambda>c k. canonical_capability c = Inr k) cs ns"
    by (induction cs) (auto simp: list_all2_Cons1)
  then obtain ns where ns: "list_all2 (\<lambda>c k. canonical_capability c = Inr k) cs ns" by blast
  then have "collect_results (map canonical_capability cs) = Inr ns"
    by (simp add: collect_results_map)
  moreover have "set ns = {k. \<exists>c \<in> set cs. canonical_capability c = Inr k}"
    using ns by (fastforce simp: list_all2_conv_all_nth in_set_conv_nth)
  ultimately show ?thesis
    using assms(1) by (simp add: canonical_capabilities_def sorted_list_of_set_sort_remdups
        flip: \<open>set ns = _\<close>)
qed



section \<open>Package manifests\<close>

record package_entry =
  pk_id :: string
  pk_version :: string
  pk_sha256 :: string

text \<open>\<open>PackageManifestEntry.model_validate\<close>: strict strings, no extra field, the declared bounds.\<close>

definition validate_package :: "json \<Rightarrow> value_error + package_entry" where
  "validate_package v =
    (case (jget v ''package_id'', jget v ''version'', jget v ''sha256'') of
       (JStr i, JStr ver, JStr sha) \<Rightarrow>
         (if is_dict v \<and> keys_are v [''package_id'', ''version'', ''sha256'']
             \<and> 1 \<le> py_len i \<and> py_len i \<le> 128 \<and> matches_name False i
             \<and> 1 \<le> py_len ver \<and> py_len ver \<le> 64 \<and> raw_sha256 sha
          then Inr \<lparr>pk_id = i, pk_version = ver, pk_sha256 = sha\<rparr>
          else Inl PackageInvalid)
     | _ \<Rightarrow> Inl PackageInvalid)"

definition dump_package :: "package_entry \<Rightarrow> json" where
  "dump_package p = JObj [(''package_id'', JStr (pk_id p)), (''version'', JStr (pk_version p)),
     (''sha256'', JStr (pk_sha256 p))]"

definition package_key :: "package_entry \<Rightarrow> string \<times> string" where
  "package_key p = (pk_id p, pk_version p)"

definition package_order :: "package_entry \<Rightarrow> string list" where
  "package_order p = [pk_id p, pk_version p, pk_sha256 p]"

definition canonical_packages :: "json list \<Rightarrow> value_error + package_entry list" where
  "canonical_packages packages =
    (if MAX_PACKAGES < length packages then Inl TooManyPackages
     else bindE (collect_results (map validate_package packages))
       (\<lambda>normalized.
          if distinct (map package_key normalized) then Inr (sort_key package_order normalized)
          else Inl PackagesNotUnique))"

definition canonical_package_manifest_hash :: "pylib \<Rightarrow> json list \<Rightarrow> value_error + string" where
  "canonical_package_manifest_hash L packages =
    bindE (canonical_packages packages)
      (\<lambda>ps. canonical_payload_hash L (JList (map dump_package ps)))"

lemma package_order_inject [simp]: "package_order p = package_order q \<longleftrightarrow> p = q"
  by (cases p; cases q) (simp add: package_order_def)

lemma distinct_package_key: "distinct (map package_key ps) \<Longrightarrow> distinct (map package_order ps)"
  by (induction ps) (auto simp: package_key_def package_order_def)

lemma sort_key_perm:
  assumes "mset xs = mset ys" "distinct (map f xs)"
  shows "sort_key f xs = sort_key f ys"
proof (rule sort_key_inj_key_eq)
  show "mset xs = mset (sort_key f ys)" using assms(1) by simp
  show "inj_on f (set xs)" using assms(2) by (simp add: distinct_map)
qed simp

lemma collect_results_perm:
  assumes "mset xs = mset ys" "collect_results (map f xs) = Inr zs"
  shows "\<exists>ws. collect_results (map f ys) = Inr ws \<and> mset ws = mset zs"
proof -
  define g where "g x = (case f x of Inr z \<Rightarrow> z)" for x
  have all: "f x = Inr (g x)" if "x \<in> set xs" for x
    using that assms(2)
    by (fastforce simp: collect_results_map list_all2_conv_all_nth in_set_conv_nth g_def)
  have eq: "collect_results (map f us) = Inr (map g us)" if "set us \<subseteq> set xs" for us
    using that all by (induction us) auto
  have "zs = map g xs" using eq [of xs] assms(2) by simp
  moreover have "collect_results (map f ys) = Inr (map g ys)"
    using eq [of ys] assms(1) by (metis mset_eq_setD subset_refl)
  ultimately show ?thesis using assms(1) by (metis mset_map)
qed

text \<open>The canonical package manifest, and with it the manifest hash a handshake is checked
  against, does not depend on the order in which the Agent lists its packages; entries are unique
  by identifier and version.\<close>

theorem canonical_packages_order:
  assumes "canonical_packages ps = Inr cs" "mset qs = mset ps"
  shows "canonical_packages qs = Inr cs \<and> distinct (map package_key cs) \<and>
    canonical_package_manifest_hash L qs = canonical_package_manifest_hash L ps"
proof -
  from assms(1) obtain ns where len: "length ps \<le> MAX_PACKAGES"
    and ns: "collect_results (map validate_package ps) = Inr ns"
    and d: "distinct (map package_key ns)" and cs: "cs = sort_key package_order ns"
    by (auto simp: canonical_packages_def bindE_Inr split: if_splits)
  from collect_results_perm [OF assms(2) [symmetric] ns] obtain ws
    where ws: "collect_results (map validate_package qs) = Inr ws" "mset ws = mset ns" by blast
  have "sort_key package_order ns = sort_key package_order ws"
    using sort_key_perm ws(2) distinct_package_key [OF d] by metis
  moreover have "distinct (map package_key ws)"
    using d ws(2) by (metis mset_map mset_eq_imp_distinct_iff)
  moreover have "length qs = length ps" using assms(2) by (metis size_mset)
  ultimately have q: "canonical_packages qs = Inr cs"
    using ws(1) len by (simp add: canonical_packages_def cs)
  have "distinct (map package_key cs)"
    using d unfolding cs by (metis mset_map mset_eq_imp_distinct_iff mset_sort)
  with q assms(1) show ?thesis by (simp add: canonical_package_manifest_hash_def)
qed

theorem canonical_packages_order_witness:
  "let sha = replicate 64 (CHR ''0'');
       a = JObj [(''package_id'', JStr ''a''), (''version'', JStr ''1''), (''sha256'', JStr sha)];
       b = JObj [(''package_id'', JStr ''b''), (''version'', JStr ''1''), (''sha256'', JStr sha)]
   in canonical_packages [b, a] = canonical_packages [a, b]"
proof -
  let ?sha = "replicate 64 (CHR ''0'')"
  let ?a = "JObj [(''package_id'', JStr ''a''), (''version'', JStr ''1''), (''sha256'', JStr ?sha)]"
  let ?b = "JObj [(''package_id'', JStr ''b''), (''version'', JStr ''1''), (''sha256'', JStr ?sha)]"
  have sha: "raw_sha256 ?sha"
    by (simp add: raw_sha256_def all_lower_hex_def is_lower_hex_def name_defs list_all_iff)
  have len: "py_len ''a'' = 1" "py_len ''b'' = 1" "py_len ''1'' = 1"
    by (simp_all add: py_len_def utf8_continuation_def)
  have v: "canonical_packages [?a, ?b] = Inr
      [\<lparr>pk_id = ''a'', pk_version = ''1'', pk_sha256 = ?sha\<rparr>,
       \<lparr>pk_id = ''b'', pk_version = ''1'', pk_sha256 = ?sha\<rparr>]"
    by (simp add: canonical_packages_def validate_package_def jget_def jget_default_def jlookup_def
        keys_are_def jkeys_def sha len matches_name_def name_defs bound_defs package_key_def
        package_order_def insert_commute less_eq_char_def less_char_def)
  show ?thesis using canonical_packages_order [OF v, of "[?b, ?a]"] v by (simp add: Let_def)
qed

section \<open>Drawing revisions\<close>

definition entity_id_of :: "json \<Rightarrow> string" where
  "entity_id_of e = jstr (jget e ''entity_id'')"

definition has_entity_id :: "json \<Rightarrow> bool" where
  "has_entity_id e \<longleftrightarrow> is_dict e \<and> is_str (jget e ''entity_id'') \<and> entity_id_of e \<noteq> []"

text \<open>
  Sorting raises \<open>KeyError\<close> or \<open>TypeError\<close> on an entity without a comparable identifier, and the
  check after it rejects what is not a non-empty string; both are the same \<open>ValueError\<close>.
\<close>

definition revision_payload :: "json \<Rightarrow> json \<Rightarrow> json list \<Rightarrow> value_error + json" where
  "revision_payload document_identity drawing entities =
    bindE (validate_bounded_json document_identity) (\<lambda>_.
    bindE (validate_bounded_json drawing) (\<lambda>_.
    bindE (validate_bounded_json (JList entities)) (\<lambda>_.
      if \<not> list_all has_entity_id entities then Inl RevisionEntities
      else Inr (JObj
        [(''revision_schema'', JStr ''cad.revision/1''),
         (''document_identity'', document_identity),
         (''drawing'', drawing),
         (''entities'', JList (sort_key entity_id_of entities))]))))"

definition document_revision :: "pylib \<Rightarrow> json \<Rightarrow> json \<Rightarrow> json list \<Rightarrow> value_error + string" where
  "document_revision L document_identity drawing entities =
    bindE (revision_payload document_identity drawing entities) (canonical_payload_hash L)"

lemma bounded_list_perm:
  "mset xs = mset ys \<Longrightarrow>
   (validate_bounded_json (JList xs) = Inr ()) = (validate_bounded_json (JList ys) = Inr ())"
  unfolding validate_bounded_json_def bounded_at_list by (metis mset_eq_setD size_mset)

text \<open>A drawing revision is order independent: two observations of the same entities, listed in
  any order, have the same revision digest, as long as the entity identifiers are distinct.\<close>

theorem document_revision_order:
  assumes "document_revision L doc drw es = Inr r" "mset fs = mset es"
    "distinct (map entity_id_of es)"
  shows "document_revision L doc drw fs = Inr r"
proof -
  have ids: "list_all has_entity_id fs = list_all has_entity_id es"
    using assms(2) by (metis Ball_set mset_eq_setD)
  have srt: "sort_key entity_id_of fs = sort_key entity_id_of es"
    using sort_key_perm assms(2,3) by metis
  have "validate_bounded_json (JList es) = Inr ()"
    using assms(1) by (auto simp: document_revision_def revision_payload_def bindE_Inr)
  then have "validate_bounded_json (JList fs) = Inr ()"
    using bounded_list_perm [OF assms(2)] by simp
  with assms(1) show ?thesis
    by (auto simp: document_revision_def revision_payload_def bindE_Inr ids srt)
qed

theorem document_revision_order_witness:
  "let a = JObj [(''entity_id'', JStr ''a'')]; b = JObj [(''entity_id'', JStr ''b'')];
       L = \<lparr>sha256_hex = (\<lambda>s. s), float_repr = (\<lambda>q. [])\<rparr>
   in document_revision L JNull JNull [b, a] = document_revision L JNull JNull [a, b] \<and>
      (\<exists>r. document_revision L JNull JNull [a, b] = Inr r)"
proof -
  let ?a = "JObj [(''entity_id'', JStr ''a'')]" let ?b = "JObj [(''entity_id'', JStr ''b'')]"
  let ?L = "\<lparr>sha256_hex = (\<lambda>s. s), float_repr = (\<lambda>q. [])\<rparr>"
  have "\<exists>p. revision_payload JNull JNull [?a, ?b] = Inr p \<and> validate_bounded_json p = Inr ()"
    by (simp add: revision_payload_def validate_bounded_json_def bound_defs has_entity_id_def
        entity_id_of_def jget_def jget_default_def jlookup_def less_eq_char_def less_char_def)
  then obtain p where p: "revision_payload JNull JNull [?a, ?b] = Inr p"
    "validate_bounded_json p = Inr ()" by blast
  from p(2) obtain h where "canonical_payload_hash ?L p = Inr h"
    by (metis payload_hash_defined_helper)
  then have v: "document_revision ?L JNull JNull [?a, ?b] = Inr h"
    by (simp add: document_revision_def p(1))
  have d: "distinct (map entity_id_of [?a, ?b])"
    by (simp add: entity_id_of_def jget_def jget_default_def jlookup_def)
  show ?thesis using document_revision_order [OF v, of "[?b, ?a]"] d v by (simp add: Let_def)
qed

end
