(* ===== verification/Systems.thy ===== *)
theory Systems
  imports Prelude
begin

text \<open>
  The contracts several components share, as locales over a step relation.  A store that is only
  changed by its operations keeps an invariant (\<open>invariant_system\<close>), keeps what it has declared
  final (\<open>durable_system\<close>), and keeps a measure from going down (\<open>monotone_system\<close>).  Each is
  interpreted on the step relation of the component that provides it.
\<close>

inductive steps :: "('s \<Rightarrow> 's \<Rightarrow> bool) \<Rightarrow> 's \<Rightarrow> 's \<Rightarrow> bool" for step where
  steps_refl: "steps step s s"
| steps_snoc: "steps step s t \<Longrightarrow> step t u \<Longrightarrow> steps step s u"

lemma steps_single: "step s t \<Longrightarrow> steps step s t"
  by (rule steps_snoc [of step s s, OF steps_refl])

lemma steps_trans: "steps step t u \<Longrightarrow> steps step s t \<Longrightarrow> steps step s u"
  by (induction rule: steps.induct) (auto intro: steps.intros)

locale invariant_system =
  fixes step :: "'s \<Rightarrow> 's \<Rightarrow> bool"
    and inv :: "'s \<Rightarrow> bool"
  assumes step_inv: "step s t \<Longrightarrow> inv s \<Longrightarrow> inv t"
begin

lemma steps_inv: "steps step s t \<Longrightarrow> inv s \<Longrightarrow> inv t"
  by (induction rule: steps.induct) (auto intro: step_inv)

end

text \<open>
  \<open>row s k\<close> is the durable record stored under \<open>k\<close>, \<open>final\<close> says that it has reached its end and
  \<open>core\<close> is the part that then never changes.
\<close>

locale durable_system = invariant_system step inv
  for step :: "'s \<Rightarrow> 's \<Rightarrow> bool" and inv :: "'s \<Rightarrow> bool" +
  fixes row :: "'s \<Rightarrow> 'k \<Rightarrow> 'r option"
    and final :: "'r \<Rightarrow> bool"
    and core :: "'r \<Rightarrow> 'c"
  assumes step_final:
    "step s t \<Longrightarrow> inv s \<Longrightarrow> row s k = Some r \<Longrightarrow> final r \<Longrightarrow>
     \<exists>r'. row t k = Some r' \<and> final r' \<and> core r' = core r"
begin

lemma steps_final:
  "steps step s t \<Longrightarrow> inv s \<Longrightarrow> row s k = Some r \<Longrightarrow> final r \<Longrightarrow>
   \<exists>r'. row t k = Some r' \<and> final r' \<and> core r' = core r"
proof (induction rule: steps.induct)
  case (steps_snoc s t u)
  then obtain r' where r': "row t k = Some r'" "final r'" "core r' = core r" by blast
  have "inv t" using steps_snoc by (blast intro: steps_inv)
  from step_final [OF steps_snoc(2) this r'(1,2)] r'(3) show ?case by auto
qed auto

end

locale monotone_system = invariant_system step inv
  for step :: "'s \<Rightarrow> 's \<Rightarrow> bool" and inv :: "'s \<Rightarrow> bool" +
  fixes level :: "'s \<Rightarrow> 'm::order"
  assumes step_level: "step s t \<Longrightarrow> inv s \<Longrightarrow> level s \<le> level t"
begin

lemma steps_level: "steps step s t \<Longrightarrow> inv s \<Longrightarrow> level s \<le> level t"
proof (induction rule: steps.induct)
  case (steps_snoc s t u)
  then show ?case using step_level [of t u] steps_inv [of s t] by (auto intro: order_trans)
qed simp

end

end
