(* ===== verification/Registry.thy ===== *)
theory Registry
  imports Systems PyValue "HOL-Library.AList"
begin

text \<open>
  The in-memory presence registry of one Gateway worker, \<open>connection_registry.py\<close>: the sequence
  window of an \<open>AgentConnection\<close> and the \<open>ConnectionRegistry\<close> that maps a device to its current
  connection.  Connections are mutable objects that sockets and handlers share, so they live in a
  heap and the registry's dict holds references; \<open>is\<close> is equality of references.  Times are
  microseconds.  Each method of the registry holds its lock for its whole body, so a method is one
  atomic step; closing a socket happens outside the lock and is returned as an action.
\<close>

section \<open>Connections\<close>

record agent_connection =
  cn_device_id :: string
  cn_session_id :: string
  cn_websocket :: nat
  cn_protocol_version :: string
  cn_capabilities :: "string list"
  cn_capability_hash :: string
  cn_last_heartbeat :: int
  cn_last_sequence :: int
  cn_busy :: bool
  cn_current_job_id :: "string option"
  cn_agent_version :: "string option"
  cn_runtime_state :: "string option"
  cn_document_name :: "string option"
  cn_paused :: bool
  cn_current_command_id :: "string option"
  cn_packages :: "json list"
  cn_package_manifest_hash :: "string option"
  cn_capability_manifest :: "json option"
  cn_capability_manifest_hash :: "string option"
  cn_operation_registry_hash :: "string option"
  cn_registry_version :: "string option"
  cn_write_lock_enabled :: bool
  cn_hard_pause :: bool
  cn_active_document_id :: "string option"
  cn_active_document_revision :: "string option"
  cn_replaced_session_id :: "string option"
  cn_send_timeout_seconds :: rat
  cn_sequence_fingerprints :: "(int \<times> string) list"

definition post_init :: "agent_connection \<Rightarrow> string + agent_connection" where
  "post_init c =
    (if \<not> (1/10 \<le> cn_send_timeout_seconds c \<and> cn_send_timeout_seconds c \<le> 30)
     then Inl ''send_timeout_seconds must be between 0.1 and 30'' else Inr c)"

definition RECENT_SEQUENCE_LIMIT :: nat where "RECENT_SEQUENCE_LIMIT = 256"

datatype sequence_decision = SeqAccepted | SeqDuplicate | SeqRejected | SeqNotCurrent

text \<open>The loop that evicts the oldest fingerprints.\<close>

function evict_oldest :: "(int \<times> string) list \<Rightarrow> (int \<times> string) list" where
  "evict_oldest fps = (if RECENT_SEQUENCE_LIMIT < length fps then evict_oldest (tl fps) else fps)"
  by pat_completeness auto
termination evict_oldest
  by (relation "measure length") auto

declare evict_oldest.simps [simp del]

definition record_sequence ::
  "agent_connection \<Rightarrow> int \<Rightarrow> string \<Rightarrow> sequence_decision \<times> agent_connection" where
  "record_sequence c sequence fingerprint =
    (case map_of (cn_sequence_fingerprints c) sequence of
       Some existing \<Rightarrow> (if existing = fingerprint then (SeqDuplicate, c) else (SeqRejected, c))
     | None \<Rightarrow>
         (if sequence \<le> cn_last_sequence c then (SeqRejected, c)
          else (SeqAccepted,
                c\<lparr>cn_last_sequence := sequence,
                  cn_sequence_fingerprints :=
                    evict_oldest (cn_sequence_fingerprints c @ [(sequence, fingerprint)])\<rparr>)))"

text \<open>Bookkeeping of the window: bounded, strictly increasing, not beyond the last sequence.\<close>

definition window_ok :: "agent_connection \<Rightarrow> bool" where
  "window_ok c \<longleftrightarrow>
     length (cn_sequence_fingerprints c) \<le> RECENT_SEQUENCE_LIMIT
     \<and> sorted_wrt (<) (map fst (cn_sequence_fingerprints c))
     \<and> (\<forall>s \<in> set (map fst (cn_sequence_fingerprints c)). s \<le> cn_last_sequence c)"

lemma evict_oldest_drop: "\<exists>n. evict_oldest fps = drop n fps"
proof (induction fps rule: evict_oldest.induct)
  case (1 fps)
  show ?case
  proof (cases "RECENT_SEQUENCE_LIMIT < length fps")
    case True
    with 1 obtain n where "evict_oldest (tl fps) = drop n (tl fps)" by blast
    with True have "evict_oldest fps = drop (Suc n) fps"
      by (simp add: evict_oldest.simps [of fps] drop_Suc)
    then show ?thesis ..
  next
    case False
    then show ?thesis by (intro exI [of _ 0]) (simp add: evict_oldest.simps [of fps])
  qed
qed

lemma evict_oldest_length: "length (evict_oldest fps) \<le> RECENT_SEQUENCE_LIMIT"
proof (induction fps rule: evict_oldest.induct)
  case (1 fps)
  then show ?case by (subst evict_oldest.simps) simp
qed

lemma evict_oldest_set: "set (evict_oldest fps) \<subseteq> set fps"
  using evict_oldest_drop [of fps] set_drop_subset by metis

lemma evict_oldest_sorted:
  "sorted_wrt (<) (map fst fps) \<Longrightarrow> sorted_wrt (<) (map fst (evict_oldest fps))"
  using evict_oldest_drop [of fps] by (metis drop_map sorted_wrt_drop)

lemma record_sequence_window:
  assumes w: "window_ok c"
  shows "window_ok (snd (record_sequence c s f))"
proof (cases "map_of (cn_sequence_fingerprints c) s \<noteq> None \<or> s \<le> cn_last_sequence c")
  case True
  then have "snd (record_sequence c s f) = c"
    by (auto simp: record_sequence_def split: option.splits)
  then show ?thesis using w by simp
next
  case False
  let ?fps = "cn_sequence_fingerprints c @ [(s, f)]"
  have "sorted_wrt (<) (map fst ?fps)"
    using w False by (force simp: window_ok_def sorted_wrt_append)
  moreover have "\<forall>x \<in> set (map fst (evict_oldest ?fps)). x \<le> s"
    using w False evict_oldest_set [of ?fps] by (force simp: window_ok_def)
  moreover have "snd (record_sequence c s f) =
      c\<lparr>cn_last_sequence := s, cn_sequence_fingerprints := evict_oldest ?fps\<rparr>"
    using False by (simp add: record_sequence_def)
  ultimately show ?thesis
    using evict_oldest_length [of ?fps] evict_oldest_sorted [of ?fps] by (simp add: window_ok_def)
qed

lemma record_sequence_last:
  "record_sequence c s f = (d, c') \<Longrightarrow>
   (if d = SeqAccepted then cn_last_sequence c < s \<and> cn_last_sequence c' = s else c' = c)"
  by (auto simp: record_sequence_def split: option.splits if_splits)

text \<open>The messages one connection processes, in order, and the sequence numbers it accepts.\<close>

fun accepted_sequences :: "agent_connection \<Rightarrow> (int \<times> string) list \<Rightarrow> int list" where
  "accepted_sequences c [] = []"
| "accepted_sequences c ((s, f) # ms) =
    (case record_sequence c s f of
       (d, c') \<Rightarrow> (if d = SeqAccepted then [s] else []) @ accepted_sequences c' ms)"

lemma accepted_above: "s \<in> set (accepted_sequences c ms) \<Longrightarrow> cn_last_sequence c < s"
proof (induction c ms rule: accepted_sequences.induct)
  case (2 c s' f ms)
  obtain d c' where r: "record_sequence c s' f = (d, c')" by (cases "record_sequence c s' f")
  have "s = s' \<and> d = SeqAccepted \<or> cn_last_sequence c' < s"
    using 2 r by (auto split: if_splits)
  then show ?case using record_sequence_last [OF r] by (auto split: if_splits)
qed simp

text \<open>Whatever messages arrive and in whatever order, the sequence numbers one connection accepts
  are strictly increasing: no number is accepted twice, and the window of remembered fingerprints
  never holds more than 256 entries.\<close>

theorem accepted_strictly_increasing:
  "sorted_wrt (<) (accepted_sequences c ms) \<and>
   (window_ok c \<longrightarrow>
      length (cn_sequence_fingerprints (foldl (\<lambda>c (s, f). snd (record_sequence c s f)) c ms)) \<le> 256)"
proof
  show "sorted_wrt (<) (accepted_sequences c ms)"
  proof (induction c ms rule: accepted_sequences.induct)
    case (2 c s f ms)
    obtain d c' where r: "record_sequence c s f = (d, c')" by (cases "record_sequence c s f")
    then show ?case
      using 2 record_sequence_last [OF r] accepted_above [of _ c' ms] by auto
  qed simp
  have "window_ok c \<Longrightarrow> window_ok (foldl (\<lambda>c (s, f). snd (record_sequence c s f)) c ms)"
    by (induction ms arbitrary: c) (auto intro: record_sequence_window)
  then show "window_ok c \<longrightarrow> length (cn_sequence_fingerprints
      (foldl (\<lambda>c (s, f). snd (record_sequence c s f)) c ms)) \<le> 256"
    by (simp add: window_ok_def RECENT_SEQUENCE_LIMIT_def)
qed

section \<open>The registry\<close>

text \<open>
  The heap holds every connection object of the worker, the dict maps a device to a reference in
  insertion order (\<open>AList.update\<close> keeps the place of an existing key, as a dict does).  A double
  is at least \<open>0.1\<close> exactly when it is at least the rational \<open>1/10\<close>, as no double lies between.
\<close>

type_synonym conn_ref = nat

record connection_registry =
  rg_stale_after_seconds :: int
  rg_close_timeout_seconds :: rat
  rg_connections :: "(string \<times> conn_ref) list"
  rg_heap :: "conn_ref \<Rightarrow> agent_connection"

datatype close_action = CloseSocket (closed_socket: nat) (close_code: int) (close_reason: string)

definition registry_init ::
  "(conn_ref \<Rightarrow> agent_connection) \<Rightarrow> int \<Rightarrow> rat \<Rightarrow> string + connection_registry" where
  "registry_init heap stale_after_seconds close_timeout_seconds =
    (if \<not> (1 \<le> stale_after_seconds \<and> stale_after_seconds \<le> 3600)
     then Inl ''stale_after_seconds must be between 1 and 3600''
     else if \<not> (1/10 \<le> close_timeout_seconds \<and> close_timeout_seconds \<le> 30)
     then Inl ''close_timeout_seconds must be between 0.1 and 30''
     else Inr \<lparr>rg_stale_after_seconds = stale_after_seconds,
               rg_close_timeout_seconds = close_timeout_seconds,
               rg_connections = [], rg_heap = heap\<rparr>)"

definition registry_get :: "string \<Rightarrow> connection_registry \<Rightarrow> conn_ref option" where
  "registry_get device_id g = map_of (rg_connections g) device_id"

definition registry_add ::
  "conn_ref \<Rightarrow> connection_registry \<Rightarrow> (conn_ref option \<times> close_action list) \<times> connection_registry"
where
  "registry_add r g =
    (let c = rg_heap g r;
         previous = registry_get (cn_device_id c) g;
         conns = AList.update (cn_device_id c) r (rg_connections g)
     in case previous of
          None \<Rightarrow> ((None, []), g\<lparr>rg_connections := conns\<rparr>)
        | Some p \<Rightarrow>
            let old = rg_heap g p;
                c' = (if cn_session_id old \<noteq> cn_session_id c
                      then c\<lparr>cn_replaced_session_id := Some (cn_session_id old)\<rparr> else c);
                closes = (if cn_websocket old \<noteq> cn_websocket c
                          then [CloseSocket (cn_websocket old) 4001 ''connection replaced''] else [])
            in ((Some p, closes),
                g\<lparr>rg_connections := conns, rg_heap := (rg_heap g)(r := c')\<rparr>))"

definition registry_remove ::
  "string \<Rightarrow> string \<Rightarrow> connection_registry \<Rightarrow> bool \<times> connection_registry" where
  "registry_remove device_id session_id g =
    (case registry_get device_id g of
       None \<Rightarrow> (False, g)
     | Some r \<Rightarrow>
         if cn_session_id (rg_heap g r) = session_id
         then (True, g\<lparr>rg_connections := AList.delete device_id (rg_connections g)\<rparr>)
         else (False, g))"

definition is_current :: "conn_ref \<Rightarrow> connection_registry \<Rightarrow> bool" where
  "is_current r g \<longleftrightarrow>
    (case registry_get (cn_device_id (rg_heap g r)) g of
       None \<Rightarrow> False
     | Some cur \<Rightarrow> cur = r \<and> cn_session_id (rg_heap g cur) = cn_session_id (rg_heap g r))"

text \<open>\<open>(now - last_heartbeat).total_seconds() <= stale_after_seconds\<close>, in microseconds.\<close>

definition heartbeat_fresh :: "int \<Rightarrow> conn_ref \<Rightarrow> connection_registry \<Rightarrow> bool" where
  "heartbeat_fresh now r g \<longleftrightarrow>
    now - cn_last_heartbeat (rg_heap g r) \<le> rg_stale_after_seconds g * 1000000"

definition is_current_and_fresh :: "int \<Rightarrow> conn_ref \<Rightarrow> connection_registry \<Rightarrow> bool" where
  "is_current_and_fresh now r g \<longleftrightarrow>
    (case registry_get (cn_device_id (rg_heap g r)) g of
       None \<Rightarrow> False
     | Some cur \<Rightarrow> cur = r \<and> cn_session_id (rg_heap g cur) = cn_session_id (rg_heap g r)
                  \<and> heartbeat_fresh now cur g)"

definition registry_all :: "connection_registry \<Rightarrow> conn_ref list" where
  "registry_all g = map snd (rg_connections g)"

definition accept_sequence ::
  "conn_ref \<Rightarrow> int \<Rightarrow> string \<Rightarrow> connection_registry \<Rightarrow> sequence_decision \<times> connection_registry" where
  "accept_sequence r sequence fingerprint g =
    (case registry_get (cn_device_id (rg_heap g r)) g of
       None \<Rightarrow> (SeqNotCurrent, g)
     | Some cur \<Rightarrow>
         if cur \<noteq> r \<or> cn_session_id (rg_heap g cur) \<noteq> cn_session_id (rg_heap g r)
         then (SeqNotCurrent, g)
         else case record_sequence (rg_heap g r) sequence fingerprint of
                (d, c) \<Rightarrow> (d, g\<lparr>rg_heap := (rg_heap g)(r := c)\<rparr>))"

text \<open>The fields of a heartbeat message.\<close>

record heartbeat_fields =
  hb_sequence :: int
  hb_busy :: bool
  hb_current_job_id :: "string option"
  hb_runtime_state :: "string option"
  hb_document_name :: "string option"
  hb_paused :: "bool option"
  hb_current_command_id :: "string option"
  hb_write_lock_enabled :: "bool option"
  hb_hard_pause :: "bool option"
  hb_active_document_id :: "string option"
  hb_active_document_revision :: "string option"
  hb_phase6_state_present :: bool

definition apply_heartbeat :: "int \<Rightarrow> heartbeat_fields \<Rightarrow> agent_connection \<Rightarrow> agent_connection" where
  "apply_heartbeat now h c =
    (let c1 = c\<lparr>cn_last_heartbeat := now,
                cn_last_sequence := max (cn_last_sequence c) (hb_sequence h),
                cn_busy := hb_busy h,
                cn_current_job_id := hb_current_job_id h,
                cn_runtime_state := hb_runtime_state h,
                cn_document_name := hb_document_name h,
                cn_paused := (case hb_paused h of None \<Rightarrow> cn_paused c | Some p \<Rightarrow> p),
                cn_current_command_id := hb_current_command_id h\<rparr>
     in if hb_phase6_state_present h
        then c1\<lparr>cn_write_lock_enabled := (hb_write_lock_enabled h = Some True),
                cn_hard_pause := (hb_hard_pause h = Some True),
                cn_active_document_id := hb_active_document_id h,
                cn_active_document_revision := hb_active_document_revision h\<rparr>
        else c1)"

definition mark_heartbeat ::
  "int \<Rightarrow> string \<Rightarrow> string \<Rightarrow> heartbeat_fields \<Rightarrow> connection_registry \<Rightarrow> bool \<times> connection_registry"
where
  "mark_heartbeat now device_id session_id h g =
    (case registry_get device_id g of
       None \<Rightarrow> (False, g)
     | Some r \<Rightarrow>
         if cn_session_id (rg_heap g r) \<noteq> session_id then (False, g)
         else (True, g\<lparr>rg_heap := (rg_heap g)(r := apply_heartbeat now h (rg_heap g r))\<rparr>))"

definition stale_connections :: "int \<Rightarrow> connection_registry \<Rightarrow> conn_ref list" where
  "stale_connections now g = filter (\<lambda>r. \<not> heartbeat_fresh now r g) (registry_all g)"

definition stale_devices :: "int \<Rightarrow> connection_registry \<Rightarrow> string list" where
  "stale_devices now g = map (\<lambda>r. cn_device_id (rg_heap g r)) (stale_connections now g)"

definition is_fresh :: "int \<Rightarrow> string \<Rightarrow> connection_registry \<Rightarrow> bool" where
  "is_fresh now device_id g \<longleftrightarrow>
    (case registry_get device_id g of None \<Rightarrow> False | Some r \<Rightarrow> heartbeat_fresh now r g)"

text \<open>
  \<open>close_all\<close> leaves the dict alone.  \<open>close_device\<close> awaits the close between reading the
  connection and removing it: \<open>between\<close> is what the other tasks do meanwhile, \<open>failed\<close> says whether
  the close raised or timed out, in which case the exception leaves after the removal (\<open>None\<close>).
\<close>

definition close_all :: "connection_registry \<Rightarrow> close_action list" where
  "close_all g =
    map (\<lambda>r. CloseSocket (cn_websocket (rg_heap g r)) 1001 ''gateway shutdown'') (registry_all g)"

definition close_device ::
  "(connection_registry \<Rightarrow> connection_registry) \<Rightarrow> bool \<Rightarrow> string \<Rightarrow> int \<Rightarrow> string \<Rightarrow>
   connection_registry \<Rightarrow> (bool option \<times> close_action list) \<times> connection_registry" where
  "close_device between failed device_id code reason g =
    (case registry_get device_id g of
       None \<Rightarrow> ((Some False, []), g)
     | Some r \<Rightarrow>
         let g' = between g;
             g'' = snd (registry_remove device_id (cn_session_id (rg_heap g' r)) g')
         in ((if failed then None else Some True,
              [CloseSocket (cn_websocket (rg_heap g r)) code reason]), g''))"

section \<open>What the registry keeps\<close>

text \<open>One entry per device, filed under the device of its connection, and sound windows.\<close>

definition registry_ok :: "connection_registry \<Rightarrow> bool" where
  "registry_ok g \<longleftrightarrow>
     distinct (map fst (rg_connections g))
     \<and> (\<forall>(d, r) \<in> set (rg_connections g). cn_device_id (rg_heap g r) = d)
     \<and> (\<forall>r. window_ok (rg_heap g r))"

inductive registry_step :: "connection_registry \<Rightarrow> connection_registry \<Rightarrow> bool" where
  step_add: "registry_step g (snd (registry_add r g))"
| step_remove: "registry_step g (snd (registry_remove d s g))"
| step_accept: "registry_step g (snd (accept_sequence r n f g))"
| step_heartbeat: "registry_step g (snd (mark_heartbeat now d s h g))"

inductive_cases registry_stepE: "registry_step g g'"

lemma registry_get_ok:
  "registry_ok g \<Longrightarrow> registry_get d g = Some r \<Longrightarrow> cn_device_id (rg_heap g r) = d"
  unfolding registry_ok_def registry_get_def by (auto dest!: map_of_SomeD)

text \<open>No method touches the identity of a connection object, or lowers its last sequence.\<close>

definition same_identity :: "agent_connection \<Rightarrow> agent_connection \<Rightarrow> bool" where
  "same_identity c c' \<longleftrightarrow>
     cn_device_id c' = cn_device_id c \<and> cn_session_id c' = cn_session_id c
     \<and> cn_websocket c' = cn_websocket c \<and> cn_last_sequence c \<le> cn_last_sequence c'
     \<and> (window_ok c \<longrightarrow> window_ok c')"

lemma same_identity_refl [simp]: "same_identity c c"
  by (simp add: same_identity_def)

lemma record_sequence_identity: "same_identity c (snd (record_sequence c s f))"
  using record_sequence_window [of c s f]
  by (auto simp: same_identity_def record_sequence_def split: option.splits)

lemma apply_heartbeat_identity: "same_identity c (apply_heartbeat now h c)"
  by (force simp: same_identity_def apply_heartbeat_def window_ok_def Let_def max_def)

lemma replaced_identity: "same_identity c (c\<lparr>cn_replaced_session_id := x\<rparr>)"
  by (simp add: same_identity_def window_ok_def)

lemmas identity_intros = same_identity_refl record_sequence_identity apply_heartbeat_identity
  replaced_identity

lemma accept_sequence_identity:
  "same_identity (rg_heap g x) (rg_heap (snd (accept_sequence r n f g)) x)"
  using record_sequence_identity [of "rg_heap g r" n f]
  by (auto simp: accept_sequence_def split: option.splits prod.splits)

lemma registry_step_identity:
  "registry_step g g' \<Longrightarrow> same_identity (rg_heap g x) (rg_heap g' x)"
  by (elim registry_stepE)
    (auto simp: registry_add_def registry_remove_def mark_heartbeat_def Let_def
      intro: identity_intros accept_sequence_identity split: option.splits)

lemma accept_sequence_connections:
  "rg_connections (snd (accept_sequence r n f g)) = rg_connections g"
  by (simp add: accept_sequence_def split: option.splits prod.splits)

lemma registry_step_connections:
  "registry_step g g' \<Longrightarrow>
   rg_connections g' = rg_connections g
   \<or> (\<exists>r. rg_connections g' = AList.update (cn_device_id (rg_heap g r)) r (rg_connections g))
   \<or> (\<exists>d. rg_connections g' = AList.delete d (rg_connections g))"
  by (elim registry_stepE)
    (auto simp: registry_add_def registry_remove_def mark_heartbeat_def Let_def
      accept_sequence_connections split: option.splits)

lemma set_update_subset: "set (AList.update k v l) \<subseteq> insert (k, v) (set l)"
  by (induction l) auto

lemma set_delete_subset: "set (AList.delete k l) \<subseteq> set l"
  by (induction l) auto

lemma registry_step_ok:
  assumes st: "registry_step g g'" and ok: "registry_ok g"
  shows "registry_ok g'"
proof -
  have id: "cn_device_id (rg_heap g' x) = cn_device_id (rg_heap g x)"
    "window_ok (rg_heap g' x)" for x
    using registry_step_identity [OF st, of x] ok by (auto simp: same_identity_def registry_ok_def)
  have "distinct (map fst (rg_connections g'))"
    using registry_step_connections [OF st] ok
    by (auto simp: registry_ok_def distinct_update distinct_delete)
  moreover have "cn_device_id (rg_heap g r) = d" if "(d, r) \<in> set (rg_connections g')" for d r
    using registry_step_connections [OF st] ok that set_update_subset set_delete_subset
    unfolding registry_ok_def by fastforce
  ultimately show ?thesis using id by (auto simp: registry_ok_def)
qed

interpretation presence: invariant_system registry_step registry_ok
  by unfold_locales (rule registry_step_ok)

interpretation seqno: monotone_system registry_step registry_ok
  "\<lambda>g. cn_last_sequence (rg_heap g r)" for r
  by unfold_locales (use registry_step_identity in \<open>auto simp: same_identity_def\<close>)

section \<open>Properties of the registry\<close>

lemma registry_get_delete:
  "registry_get d (g\<lparr>rg_connections := AList.delete d' (rg_connections g)\<rparr>) =
   (if d = d' then None else registry_get d g)"
  by (simp add: registry_get_def delete_conv')

lemma add_replaces:
  "registry_get d (snd (registry_add r g)) =
   (if d = cn_device_id (rg_heap g r) then Some r else registry_get d g)"
  by (simp add: registry_add_def registry_get_def Let_def update_conv' split: option.split)

lemma add_session: "cn_session_id (rg_heap (snd (registry_add r g)) x) = cn_session_id (rg_heap g x)"
  by (simp add: registry_add_def Let_def split: option.split)

lemma remove_other_session:
  "registry_get d g = Some r \<Longrightarrow> cn_session_id (rg_heap g r) \<noteq> s \<Longrightarrow> registry_remove d s g = (False, g)"
  by (simp add: registry_remove_def)

text \<open>C30. When a device reconnects, cleaning up its old session never evicts the new connection:
  neither a late \<open>remove\<close> for the old session, nor a \<open>close_device\<close> that read the old
  connection before the new one was added and finishes (or fails) after it.\<close>

theorem replacement_survives_cleanup:
  assumes "registry_get (cn_device_id (rg_heap g new)) g = Some old"
    and "cn_session_id (rg_heap g old) \<noteq> cn_session_id (rg_heap g new)"
  defines "d \<equiv> cn_device_id (rg_heap g new)"
  shows "registry_remove d (cn_session_id (rg_heap g old)) (snd (registry_add new g)) =
           (False, snd (registry_add new g)) \<and>
         registry_get d (snd (close_device (\<lambda>g. snd (registry_add new g)) failed d code reason g)) =
           Some new"
  using assms by (simp add: close_device_def remove_other_session add_replaces add_session Let_def)

text \<open>A concrete registry: the device \<open>d\<close> is connected with session \<open>s1\<close> and reconnects with \<open>s2\<close>.\<close>

definition sample_connection :: "string \<Rightarrow> nat \<Rightarrow> agent_connection" where
  "sample_connection session socket =
    \<lparr>cn_device_id = ''d'', cn_session_id = session, cn_websocket = socket,
     cn_protocol_version = ''1.0'', cn_capabilities = [''observe'', ''query''],
     cn_capability_hash = '''', cn_last_heartbeat = 0, cn_last_sequence = 0, cn_busy = False,
     cn_current_job_id = None, cn_agent_version = None, cn_runtime_state = None,
     cn_document_name = None, cn_paused = False, cn_current_command_id = None, cn_packages = [],
     cn_package_manifest_hash = None, cn_capability_manifest = None,
     cn_capability_manifest_hash = None, cn_operation_registry_hash = None,
     cn_registry_version = None, cn_write_lock_enabled = False, cn_hard_pause = False,
     cn_active_document_id = None, cn_active_document_revision = None,
     cn_replaced_session_id = None, cn_send_timeout_seconds = 5, cn_sequence_fingerprints = []\<rparr>"

definition sample_registry :: connection_registry where
  "sample_registry =
    \<lparr>rg_stale_after_seconds = 45, rg_close_timeout_seconds = 2,
     rg_connections = [(''d'', 0)],
     rg_heap = (\<lambda>r. if r = 0 then sample_connection ''s1'' 7 else sample_connection ''s2'' 8)\<rparr>"

lemma sample_window: "window_ok (sample_connection s w)"
  by (simp add: window_ok_def sample_connection_def)

lemma accepted_strictly_increasing_witness:
  "length (cn_sequence_fingerprints (foldl (\<lambda>c (s, f). snd (record_sequence c s f))
     (sample_connection ''s1'' 7) [(1, ''a''), (2, ''b'')])) \<le> 256"
  using accepted_strictly_increasing [of "sample_connection ''s1'' 7" "[(1, ''a''), (2, ''b'')]"] sample_window
  by blast

lemma sample_registry_ok: "registry_ok sample_registry"
  by (simp add: registry_ok_def sample_registry_def sample_window)
    (simp add: sample_connection_def)

lemma replacement_survives_cleanup_witness:
  "registry_get ''d'' (snd (close_device (\<lambda>g. snd (registry_add 1 g)) True ''d'' 4001 ''x''
     sample_registry)) = Some 1"
proof -
  have "cn_device_id (rg_heap sample_registry 1) = ''d''"
    by (simp add: sample_registry_def sample_connection_def)
  moreover have "registry_get ''d'' sample_registry = Some 0"
    by (simp add: sample_registry_def registry_get_def)
  moreover have "cn_session_id (rg_heap sample_registry 0) \<noteq> cn_session_id (rg_heap sample_registry 1)"
    by (simp add: sample_registry_def sample_connection_def)
  ultimately show ?thesis
    using replacement_survives_cleanup [of sample_registry 1 0 True 4001 "''x''"] by simp
qed

text \<open>A connection that has been superseded is inert: every message it still delivers is answered
  \<open>not_current\<close>, its heartbeats are refused, and neither changes the registry.\<close>

theorem superseded_connection_inert:
  assumes "registry_get (cn_device_id (rg_heap g r)) g = Some cur" and "cur \<noteq> r"
    and "cn_session_id (rg_heap g cur) \<noteq> cn_session_id (rg_heap g r)"
  shows "accept_sequence r n f g = (SeqNotCurrent, g) \<and>
         mark_heartbeat now (cn_device_id (rg_heap g r)) (cn_session_id (rg_heap g r)) h g = (False, g) \<and>
         \<not> is_current r g \<and> \<not> is_current_and_fresh now r g"
  using assms
  by (simp add: accept_sequence_def mark_heartbeat_def is_current_def is_current_and_fresh_def)

lemma superseded_connection_inert_witness:
  "accept_sequence 1 9 ''f'' sample_registry = (SeqNotCurrent, sample_registry)"
proof -
  have "registry_get (cn_device_id (rg_heap sample_registry 1)) sample_registry = Some 0"
    by (simp add: sample_registry_def registry_get_def sample_connection_def)
  moreover have "cn_session_id (rg_heap sample_registry 0) \<noteq> cn_session_id (rg_heap sample_registry 1)"
    by (simp add: sample_registry_def sample_connection_def)
  ultimately show ?thesis
    using superseded_connection_inert [of sample_registry 1 0 9 "''f''"] by simp
qed

text \<open>Over any run of registry operations each device keeps at most one entry, filed under the
  device of its connection, windows stay within their bound, and the last sequence of a connection
  never goes back; a device is reported stale exactly when it is connected and not fresh.\<close>

theorem registry_runs:
  assumes "steps registry_step g g'" and "registry_ok g"
  shows "registry_ok g' \<and> cn_last_sequence (rg_heap g r) \<le> cn_last_sequence (rg_heap g' r) \<and>
         (d \<in> set (stale_devices now g') \<longleftrightarrow>
            registry_get d g' \<noteq> None \<and> \<not> is_fresh now d g')"
proof -
  have ok: "registry_ok g'" using assms by (rule presence.steps_inv)
  have key: "registry_get d g' = Some x \<longleftrightarrow> (d, x) \<in> set (rg_connections g')" for x
    using ok by (auto simp: registry_ok_def registry_get_def map_of_eq_Some_iff)
  have dev: "(e, x) \<in> set (rg_connections g') \<Longrightarrow> cn_device_id (rg_heap g' x) = e" for e x
    using ok by (auto simp: registry_ok_def)
  have "d \<in> set (stale_devices now g') \<longleftrightarrow>
      (\<exists>x. (d, x) \<in> set (rg_connections g') \<and> \<not> heartbeat_fresh now x g')"
    using dev by (force simp: stale_devices_def stale_connections_def registry_all_def)
  also have "\<dots> \<longleftrightarrow> registry_get d g' \<noteq> None \<and> \<not> is_fresh now d g'"
    unfolding key [symmetric] is_fresh_def by (auto split: option.split)
  finally show ?thesis using ok seqno.steps_level [OF assms] by simp
qed

lemma registry_runs_witness:
  "registry_ok (snd (registry_add 1 sample_registry)) \<and>
   (''d'' \<in> set (stale_devices 45000001 (snd (registry_add 1 sample_registry))) \<longleftrightarrow>
    registry_get ''d'' (snd (registry_add 1 sample_registry)) \<noteq> None \<and>
    \<not> is_fresh 45000001 ''d'' (snd (registry_add 1 sample_registry)))"
  using registry_runs [OF steps_single [where step = registry_step, OF step_add] sample_registry_ok]
  by blast

end
