(* ===== verification/Workflow.thy ===== *)
theory Workflow
  imports PyValue Systems Jobs
begin

text \<open>
  The pure workflow rules of \<open>workflows/state.py\<close>: the state machines of a workflow run and of one
  of its steps, the deterministic idempotency key of a child action and the retry rule.  The source
  passes states as strings, so the validators take names.
\<close>

section \<open>Run and step states\<close>

datatype run_state =
    RunCreated | RunRunning | RunWaitingForUser | RunWaitingForTrustedApproval | RunWaitingForJob
  | RunWaitingForRecovery | RunPaused | RunSucceeded | RunFailed | RunCancelled | RunNeedsAttention

datatype step_state =
    StepPending | StepReady | StepDispatchPending | StepRunning | StepWaiting | StepSucceeded
  | StepFailed | StepSkipped | StepCancelled | StepNeedsAttention

fun run_state_name :: "run_state \<Rightarrow> string" where
  "run_state_name RunCreated = ''created''"
| "run_state_name RunRunning = ''running''"
| "run_state_name RunWaitingForUser = ''waiting_for_user''"
| "run_state_name RunWaitingForTrustedApproval = ''waiting_for_trusted_approval''"
| "run_state_name RunWaitingForJob = ''waiting_for_job''"
| "run_state_name RunWaitingForRecovery = ''waiting_for_recovery''"
| "run_state_name RunPaused = ''paused''"
| "run_state_name RunSucceeded = ''succeeded''"
| "run_state_name RunFailed = ''failed''"
| "run_state_name RunCancelled = ''cancelled''"
| "run_state_name RunNeedsAttention = ''needs_attention''"

fun step_state_name :: "step_state \<Rightarrow> string" where
  "step_state_name StepPending = ''pending''"
| "step_state_name StepReady = ''ready''"
| "step_state_name StepDispatchPending = ''dispatch_pending''"
| "step_state_name StepRunning = ''running''"
| "step_state_name StepWaiting = ''waiting''"
| "step_state_name StepSucceeded = ''succeeded''"
| "step_state_name StepFailed = ''failed''"
| "step_state_name StepSkipped = ''skipped''"
| "step_state_name StepCancelled = ''cancelled''"
| "step_state_name StepNeedsAttention = ''needs_attention''"

definition RUN_STATES :: "run_state list" where
  "RUN_STATES = [RunCreated, RunRunning, RunWaitingForUser, RunWaitingForTrustedApproval,
     RunWaitingForJob, RunWaitingForRecovery, RunPaused, RunSucceeded, RunFailed, RunCancelled,
     RunNeedsAttention]"

definition STEP_STATES :: "step_state list" where
  "STEP_STATES = [StepPending, StepReady, StepDispatchPending, StepRunning, StepWaiting,
     StepSucceeded, StepFailed, StepSkipped, StepCancelled, StepNeedsAttention]"

definition TERMINAL_RUN_STATES :: "run_state list" where
  "TERMINAL_RUN_STATES = [RunSucceeded, RunFailed, RunCancelled, RunNeedsAttention]"

definition TERMINAL_STEP_STATES :: "step_state list" where
  "TERMINAL_STEP_STATES =
    [StepSucceeded, StepFailed, StepSkipped, StepCancelled, StepNeedsAttention]"

fun run_transitions :: "run_state \<Rightarrow> run_state list" where
  "run_transitions RunCreated = [RunRunning, RunCancelled, RunFailed]"
| "run_transitions RunRunning =
     [RunWaitingForUser, RunWaitingForTrustedApproval, RunWaitingForJob, RunWaitingForRecovery,
      RunPaused, RunSucceeded, RunFailed, RunCancelled, RunNeedsAttention]"
| "run_transitions RunWaitingForUser =
     [RunRunning, RunPaused, RunCancelled, RunFailed, RunNeedsAttention]"
| "run_transitions RunWaitingForTrustedApproval =
     [RunWaitingForJob, RunWaitingForRecovery, RunRunning, RunPaused, RunCancelled, RunFailed,
      RunNeedsAttention]"
| "run_transitions RunWaitingForJob =
     [RunRunning, RunWaitingForRecovery, RunPaused, RunSucceeded, RunFailed, RunNeedsAttention]"
| "run_transitions RunWaitingForRecovery =
     [RunRunning, RunWaitingForTrustedApproval, RunWaitingForJob, RunPaused, RunSucceeded,
      RunFailed, RunNeedsAttention]"
| "run_transitions RunPaused = [RunRunning, RunCancelled, RunFailed, RunNeedsAttention]"
| "run_transitions _ = []"

fun step_transitions :: "step_state \<Rightarrow> step_state list" where
  "step_transitions StepPending = [StepReady, StepSkipped, StepCancelled]"
| "step_transitions StepReady = [StepDispatchPending, StepRunning, StepSkipped, StepCancelled]"
| "step_transitions StepDispatchPending =
     [StepRunning, StepWaiting, StepFailed, StepCancelled, StepNeedsAttention]"
| "step_transitions StepRunning =
     [StepWaiting, StepSucceeded, StepFailed, StepCancelled, StepNeedsAttention]"
| "step_transitions StepWaiting =
     [StepRunning, StepSucceeded, StepFailed, StepCancelled, StepNeedsAttention]"
| "step_transitions _ = []"

definition run_state_of :: "string \<Rightarrow> run_state option" where
  "run_state_of s = List.find (\<lambda>j. run_state_name j = s) RUN_STATES"

definition step_state_of :: "string \<Rightarrow> step_state option" where
  "step_state_of s = List.find (\<lambda>j. step_state_name j = s) STEP_STATES"

definition is_terminal_run :: "string \<Rightarrow> bool" where
  "is_terminal_run s \<longleftrightarrow> s \<in> set (map run_state_name TERMINAL_RUN_STATES)"

datatype workflow_error =
    UnknownWorkflowState string string
  | InvalidWorkflowTransition string string
  | UnknownWorkflowStepState string string
  | InvalidWorkflowStepTransition string string
  | RetryClassInvalid
  | WriteRetryRequiresRecovery

definition validate_run_transition :: "string \<Rightarrow> string \<Rightarrow> workflow_error + unit" where
  "validate_run_transition current target =
    (case (run_state_of current, run_state_of target) of
       (Some c, Some t) \<Rightarrow>
         if t \<notin> set (run_transitions c) then Inl (InvalidWorkflowTransition current target)
         else Inr ()
     | _ \<Rightarrow> Inl (UnknownWorkflowState current target))"

definition validate_step_transition :: "string \<Rightarrow> string \<Rightarrow> workflow_error + unit" where
  "validate_step_transition current target =
    (case (step_state_of current, step_state_of target) of
       (Some c, Some t) \<Rightarrow>
         if t \<notin> set (step_transitions c) then Inl (InvalidWorkflowStepTransition current target)
         else Inr ()
     | _ \<Rightarrow> Inl (UnknownWorkflowStepState current target))"

section \<open>Child keys and retries\<close>

definition workflow_ACTIONS :: "string list" where
  "workflow_ACTIONS = [''observe'', ''query'', ''plan'', ''prepare'', ''preview'', ''commit'',
     ''validate'', ''rollback'']"

definition SCENE_ACTIONS :: "string list" where
  "SCENE_ACTIONS = [''build_scene'', ''query_scene'', ''validate_scene'']"

definition digest_matches :: "string \<Rightarrow> bool" where
  "digest_matches s \<longleftrightarrow> starts_with ''sha256:'' s \<and> length (drop 7 s) = 64
     \<and> list_all is_lower_hex (drop 7 s)"

datatype child_key_error =
    InvalidKeyComponents | SceneKeyRequiresDigest | DigestOnlyForScene

definition child_idempotency_key ::
  "pylib \<Rightarrow> string \<Rightarrow> string \<Rightarrow> int \<Rightarrow> string \<Rightarrow> string option \<Rightarrow> child_key_error + string" where
  "child_idempotency_key L run_id step_id attempt action source_digest =
    (if run_id = [] \<or> step_id = [] \<or> attempt < 1
        \<or> action \<notin> set workflow_ACTIONS \<union> set SCENE_ACTIONS
     then Inl InvalidKeyComponents
     else if action \<in> set SCENE_ACTIONS then
       (case source_digest of
          None \<Rightarrow> Inl SceneKeyRequiresDigest
        | Some d \<Rightarrow>
            if \<not> digest_matches d then Inl SceneKeyRequiresDigest
            else Inr (''wf:scene:'' @ sha256_hex L
                   (join_with (char_of (0::nat)) [run_id, step_id, int_text attempt, action, d])))
     else if source_digest \<noteq> None then Inl DigestOnlyForScene
     else Inr (''wf:'' @ join_with CHR '':'' [run_id, step_id, int_text attempt, action]))"

definition validate_safe_retry ::
  "string \<Rightarrow> string option \<Rightarrow> string \<Rightarrow> workflow_error + unit" where
  "validate_safe_retry retry_class child_state effect =
    (if retry_class \<notin> set [''pure'', ''read'', ''metadata'', ''not_started'']
     then Inl RetryClassInvalid
     else if effect = ''write'' \<and> child_state \<in> set (map Some [''started'', ''running'',
       ''acknowledged'', ''outcome_unknown'', ''recovery'', ''released''])
     then Inl WriteRetryRequiresRecovery else Inr ())"

section \<open>Lemmas\<close>

lemma run_state_name_inject [simp]: "run_state_name a = run_state_name b \<longleftrightarrow> a = b"
  by (cases a; cases b) simp_all

lemma step_state_name_inject [simp]: "step_state_name a = step_state_name b \<longleftrightarrow> a = b"
  by (cases a; cases b) simp_all

lemma run_state_of_name [simp]: "run_state_of (run_state_name s) = Some s"
  by (cases s) (simp_all add: run_state_of_def RUN_STATES_def)

lemma step_state_of_name [simp]: "step_state_of (step_state_name s) = Some s"
  by (cases s) (simp_all add: step_state_of_def STEP_STATES_def)

lemma run_state_of_Some: "run_state_of x = Some s \<longleftrightarrow> x = run_state_name s"
proof
  assume "run_state_of x = Some s"
  then show "x = run_state_name s" by (auto simp: run_state_of_def find_Some_iff)
qed simp

lemma step_state_of_Some: "step_state_of x = Some s \<longleftrightarrow> x = step_state_name s"
proof
  assume "step_state_of x = Some s"
  then show "x = step_state_name s" by (auto simp: step_state_of_def find_Some_iff)
qed simp

inductive run_step :: "string \<Rightarrow> string \<Rightarrow> bool" where
  run_step: "validate_run_transition s t = Inr () \<Longrightarrow> run_step s t"

inductive_simps run_step_iff: "run_step s t"

inductive workflow_step_step :: "string \<Rightarrow> string \<Rightarrow> bool" where
  workflow_step_step: "validate_step_transition s t = Inr () \<Longrightarrow> workflow_step_step s t"

inductive_simps workflow_step_step_iff: "workflow_step_step s t"

lemma validate_run_ok:
  "validate_run_transition s t = Inr () \<longleftrightarrow>
   (\<exists>a b. s = run_state_name a \<and> t = run_state_name b \<and> b \<in> set (run_transitions a))"
  by (auto simp: validate_run_transition_def run_state_of_Some split: option.splits)

lemma validate_step_ok:
  "validate_step_transition s t = Inr () \<longleftrightarrow>
   (\<exists>a b. s = step_state_name a \<and> t = step_state_name b \<and> b \<in> set (step_transitions a))"
  by (auto simp: validate_step_transition_def step_state_of_Some split: option.splits)

lemma terminal_run_iff: "is_terminal_run (run_state_name a) \<longleftrightarrow> run_transitions a = []"
  by (cases a) (simp_all add: is_terminal_run_def TERMINAL_RUN_STATES_def)

lemma terminal_step_iff: "a \<in> set TERMINAL_STEP_STATES \<longleftrightarrow> step_transitions a = []"
  by (cases a) (simp_all add: TERMINAL_STEP_STATES_def)

definition known_run :: "string \<Rightarrow> bool" where
  "known_run s \<longleftrightarrow> s \<in> set (map run_state_name RUN_STATES)"

lemma known_run_name: "known_run s \<longleftrightarrow> (\<exists>a. s = run_state_name a)"
proof -
  have "a \<in> set RUN_STATES" for a by (cases a) (simp_all add: RUN_STATES_def)
  then show ?thesis by (auto simp: known_run_def)
qed

interpretation runs: durable_system run_step known_run "\<lambda>s (k :: unit). Some s" is_terminal_run "\<lambda>s. s"
proof unfold_locales
  fix s t assume "run_step s t" then show "known_run t"
    by (auto simp: run_step_iff validate_run_ok known_run_name)
next
  fix s t r and k :: unit
  assume "run_step s t" "Some s = Some r" "is_terminal_run r"
  then show "\<exists>r'. Some t = Some r' \<and> is_terminal_run r' \<and> r' = r"
    by (auto simp: run_step_iff validate_run_ok terminal_run_iff)
qed

lemma run_step_names: "b \<in> set (run_transitions a) \<Longrightarrow> steps run_step (run_state_name a) (run_state_name b)"
  by (rule steps_single) (auto simp: run_step_iff validate_run_ok)

lemma no_step_to_created: "\<not> run_step s ''created''"
proof
  assume "run_step s ''created''"
  then obtain b c where b: "''created'' = run_state_name b" "b \<in> set (run_transitions c)"
    by (auto simp: run_step_iff validate_run_ok)
  then have "b = RunCreated" by (cases b) simp_all
  with b(2) show False by (cases c) simp_all
qed

text \<open>The life of a workflow run: from every state a chain of validated transitions reaches a
  terminal state, a terminal state is never left again, and no chain leads back to \<open>created\<close>.\<close>

theorem workflow_run_lifecycle:
  "(\<exists>t. steps run_step (run_state_name a) t \<and> is_terminal_run t) \<and>
   (steps run_step (run_state_name a) t \<longrightarrow>
      (is_terminal_run (run_state_name a) \<longrightarrow> t = run_state_name a) \<and>
      (t = ''created'' \<longrightarrow> a = RunCreated))"
proof (intro conjI impI)
  show "\<exists>t. steps run_step (run_state_name a) t \<and> is_terminal_run t"
  proof (cases "run_transitions a = []")
    case True
    then show ?thesis
      by (intro exI [of _ "run_state_name a"] conjI steps_refl) (simp add: terminal_run_iff)
  next
    case False
    then have "RunFailed \<in> set (run_transitions a)" by (cases a) simp_all
    from run_step_names [OF this] show ?thesis using terminal_run_iff [of RunFailed] by auto
  qed
next
  assume st: "steps run_step (run_state_name a) t"
  show "t = run_state_name a" if "is_terminal_run (run_state_name a)"
    using runs.steps_final [OF st] that by (auto simp: known_run_name)
  show "a = RunCreated" if "t = ''created''"
    using st that no_step_to_created by (cases a) (auto elim: steps.cases)
qed

theorem workflow_run_lifecycle_witness:
  "\<not> steps run_step ''running'' ''created''"
  using workflow_run_lifecycle [of RunRunning "''created''"] by auto

text \<open>Cutting at the last separator.\<close>

lemma last_segment: "c \<notin> set b \<Longrightarrow> rev (takeWhile (\<lambda>x. x \<noteq> c) (rev (a @ c # b))) = b"
proof -
  assume "c \<notin> set b"
  then have "takeWhile (\<lambda>x. x \<noteq> c) (rev b @ c # rev a) = rev b"
    by (subst takeWhile_append2) auto
  then show ?thesis by simp
qed

lemma last_separator:
  assumes "c \<notin> set b" "c \<notin> set b'"
  shows "a @ c # b = a' @ c # b' \<longleftrightarrow> a = a' \<and> b = b'"
proof
  assume eq: "a @ c # b = a' @ c # b'"
  have "b = b'" using last_segment [of c b a] last_segment [of c b' a'] assms by (simp add: eq)
  then show "a = a' \<and> b = b'" using eq by simp
qed simp

lemma action_no_colon: "action \<in> set workflow_ACTIONS \<Longrightarrow> CHR '':'' \<notin> set action"
  by (auto simp: workflow_ACTIONS_def)

lemma digits_no_colon: "list_all is_digit s \<Longrightarrow> CHR '':'' \<notin> set s"
  by (auto simp: list_all_iff is_digit_def char_between_def)

lemma child_key_plain:
  assumes "child_idempotency_key L run_id step_id attempt action None = Inr key"
  shows "key = (''wf:'' @ run_id @ '':'' @ step_id) @ CHR '':'' # (int_text attempt @ CHR '':'' # action)"
    and "0 < attempt" and "action \<in> set workflow_ACTIONS"
  using assms by (auto simp: child_idempotency_key_def split: if_splits)

lemma key_inject_core:
  assumes "CHR '':'' \<notin> set a" "CHR '':'' \<notin> set a'" "CHR '':'' \<notin> set n" "CHR '':'' \<notin> set n'"
    and "(p @ CHR '':'' # (n @ CHR '':'' # a)) = (p' @ CHR '':'' # (n' @ CHR '':'' # a'))"
  shows "p = p' \<and> n = n' \<and> a = a'"
proof -
  have "(p @ CHR '':'' # n) @ CHR '':'' # a = (p' @ CHR '':'' # n') @ CHR '':'' # a'"
    using assms(5) by simp
  then have "p @ CHR '':'' # n = p' @ CHR '':'' # n'" "a = a'"
    using last_separator [OF assms(1,2)] by blast+
  then show ?thesis using last_separator [OF assms(3,4)] by blast
qed

text \<open>Child idempotency keys of ordinary actions do not collide: two calls that return the same
  key have the same attempt and action, and, as run ids all have the same length, the same run and
  the same step.\<close>

theorem child_key_injective:
  assumes "child_idempotency_key L run_id step_id attempt action None = Inr key"
    and "child_idempotency_key L run_id' step_id' attempt' action' None = Inr key"
    and "length run_id = length run_id'"
  shows "run_id = run_id' \<and> step_id = step_id' \<and> attempt = attempt' \<and> action = action'"
proof -
  note k = child_key_plain [OF assms(1)] and k' = child_key_plain [OF assms(2)]
  have "''wf:'' @ run_id @ '':'' @ step_id = ''wf:'' @ run_id' @ '':'' @ step_id' \<and>
      int_text attempt = int_text attempt' \<and> action = action'"
    using k k' by (intro key_inject_core action_no_colon digits_no_colon int_text_pos_chars) simp_all
  then show ?thesis using k(2) k'(2) assms(3) by (auto simp: int_text_inject_pos)
qed

theorem child_key_injective_witness:
  "child_idempotency_key \<lparr>sha256_hex = (\<lambda>s. s), float_repr = (\<lambda>q. [])\<rparr> ''wfr:1'' ''a'' 2 ''query'' None =
     Inr ''wf:wfr:1:a:2:query''"
proof -
  let ?L = "\<lparr>sha256_hex = (\<lambda>s. s), float_repr = (\<lambda>q :: rat. [])\<rparr>"
  have 1: "child_idempotency_key ?L ''wfr:1'' ''a'' 2 ''query'' None = Inr ''wf:wfr:1:a:2:query''"
    by (simp add: child_idempotency_key_def workflow_ACTIONS_def SCENE_ACTIONS_def int_text_def
        decimal.simps char_of_def bit_numeral_rec bit_0)
  from child_key_injective [OF 1 1 refl] 1 show ?thesis by blast
qed

text \<open>The retry rule refuses every write whose child an Agent has acknowledged, started or lost.\<close>

lemma retry_ok:
  "validate_safe_retry rc child eff = Inr () \<longleftrightarrow>
   rc \<in> {''pure'', ''read'', ''metadata'', ''not_started''} \<and>
   (eff = ''write'' \<longrightarrow> child \<notin> Some ` {''started'', ''running'', ''acknowledged'',
      ''outcome_unknown'', ''recovery'', ''released''})"
  by (auto simp: validate_safe_retry_def)

text \<open>
  The rule lists states by name and leaves out two states of a durable job in which a write may have
  started as well: \<open>reconnect_pending\<close> and \<open>cancel_requested\<close>, both one step after \<open>running\<close>.
\<close>

lemma retry_gap:
  "validate_safe_retry ''not_started'' (Some (job_state_name ReconnectPending)) ''write'' = Inr ()"
  "validate_safe_retry ''not_started'' (Some (job_state_name CancelRequested)) ''write'' = Inr ()"
  "{ReconnectPending, CancelRequested} \<subseteq> set (transitions Running)"
  by (simp_all add: validate_safe_retry_def)

end
