(* ===== verification/Ledger.thy ===== *)
theory Ledger
  imports Systems PyValue "HOL-Library.AList" "HOL-Library.Product_Lexorder"
begin

text \<open>
  The desktop Agent's durable command ledger, \<open>ledger.py\<close>: the tables \<open>commands\<close>, \<open>settings\<close> and
  \<open>execution_evidence\<close> and every operation of \<open>CommandLedger\<close>.  An operation runs in one
  transaction under the ledger's lock, so it maps the database to a result that carries the new
  database; a raise rolls back.  JSON columns hold the value that \<open>json.loads\<close> returns for them;
  the current time is a parameter (\<open>now\<close>, the text of \<open>_now()\<close>).
\<close>

section \<open>Rows\<close>

datatype ledger_state =
    LReceived | LAccepted | LStarted | LSucceeded | LFailed | LCancelled | LOutcomeUnknown

datatype ledger_error =
    LedgerConflict string
  | LedgerValueError

definition LEDGER_TERMINAL :: "ledger_state list" where
  "LEDGER_TERMINAL = [LSucceeded, LFailed, LCancelled, LOutcomeUnknown]"

record ledger_entry =
  le_command_id :: string
  le_job_id :: string
  le_idempotency_key :: string
  le_payload_hash :: string
  le_state :: ledger_state
  le_result :: "json option"
  le_error_code :: "string option"
  le_package_id :: string
  le_package_version :: string
  le_package_sha256 :: string
  le_session_id :: string
  le_device_id :: string
  le_sequence :: int
  le_cancel_requested :: bool
  le_kind :: string
  le_binding :: "json option"

text \<open>A row of \<open>commands\<close> is an entry and its two time stamps; \<open>_entry\<close> drops them.\<close>

record command_row = ledger_entry +
  lr_created_at :: string
  lr_updated_at :: string

definition entry_of :: "command_row \<Rightarrow> ledger_entry" where
  "entry_of row = ledger_entry.truncate row"

record evidence_event =
  ee_event_id :: string
  ee_job_id :: string
  ee_command_id :: string
  ee_source :: string
  ee_source_sequence :: int
  ee_milestone :: string
  ee_outcome :: string
  ee_summary :: string
  ee_details :: json
  ee_source_timestamp :: string
  ee_event_digest :: string

record evidence_row = evidence_event +
  er_created_at :: string

definition evidence_of :: "evidence_row \<Rightarrow> evidence_event" where
  "evidence_of row = evidence_event.truncate row"

record ledger_db =
  lg_commands :: "command_row list"
  lg_settings :: "(string \<times> string) list"
  lg_evidence :: "evidence_row list"

definition empty_ledger :: ledger_db where
  "empty_ledger = \<lparr>lg_commands = [], lg_settings = [], lg_evidence = []\<rparr>"

section \<open>Commands\<close>

definition ledger_get :: "string \<Rightarrow> ledger_db \<Rightarrow> ledger_entry option" where
  "ledger_get command_id db =
    map_option entry_of (select1 (\<lambda>r. le_command_id r = command_id) (lg_commands db))"

record received_command =
  rc_command_id :: string
  rc_job_id :: string
  rc_idempotency_key :: string
  rc_payload_hash :: string
  rc_package_id :: string
  rc_version :: string
  rc_sha256 :: string
  rc_session_id :: string
  rc_device_id :: string
  rc_kind :: string
  rc_binding :: "json option"

text \<open>\<open>SELECT .. WHERE device_id = ? AND idempotency_key = ? ORDER BY created_at LIMIT 1\<close>\<close>

definition oldest_with_key :: "string \<Rightarrow> string \<Rightarrow> ledger_db \<Rightarrow> command_row option" where
  "oldest_with_key device_id key db =
    (case sort_key lr_created_at
       (filter (\<lambda>r. le_device_id r = device_id \<and> le_idempotency_key r = key) (lg_commands db)) of
       [] \<Rightarrow> None | r # _ \<Rightarrow> Some r)"

definition received_row :: "string \<Rightarrow> received_command \<Rightarrow> command_row" where
  "received_row now c =
    \<lparr>le_command_id = rc_command_id c, le_job_id = rc_job_id c,
     le_idempotency_key = rc_idempotency_key c, le_payload_hash = rc_payload_hash c,
     le_state = LReceived, le_result = None, le_error_code = None,
     le_package_id = rc_package_id c, le_package_version = rc_version c,
     le_package_sha256 = rc_sha256 c, le_session_id = rc_session_id c,
     le_device_id = rc_device_id c, le_sequence = 0, le_cancel_requested = False,
     le_kind = rc_kind c, le_binding = rc_binding c,
     lr_created_at = now, lr_updated_at = now\<rparr>"

definition record_received ::
  "string \<Rightarrow> received_command \<Rightarrow> ledger_db \<Rightarrow> ledger_error + ((ledger_entry \<times> bool) \<times> ledger_db)"
where
  "record_received now c db =
    (let by_id = select1 (\<lambda>r. le_command_id r = rc_command_id c) (lg_commands db);
         row = (case by_id of
                  None \<Rightarrow> oldest_with_key (rc_device_id c) (rc_idempotency_key c) db
                | Some r \<Rightarrow> Some r)
     in case row of
          Some r \<Rightarrow>
            if le_payload_hash r \<noteq> rc_payload_hash c \<or> le_idempotency_key r \<noteq> rc_idempotency_key c
               \<or> le_device_id r \<noteq> rc_device_id c \<or> le_kind r \<noteq> rc_kind c
               \<or> \<not> opt_json_eq (le_binding r) (rc_binding c)
            then Inl (LedgerConflict (if by_id \<noteq> None then ''replay_payload_mismatch''
                                      else ''idempotency_conflict''))
            else if le_command_id r = rc_command_id c \<and> le_job_id r \<noteq> rc_job_id c
            then Inl (LedgerConflict ''replay_payload_mismatch'')
            else Inr ((entry_of r, False), db)
        | None \<Rightarrow>
            let r = received_row now c
            in Inr ((entry_of r, True), db\<lparr>lg_commands := lg_commands db @ [r]\<rparr>))"

fun ledger_order :: "ledger_state \<Rightarrow> nat" where
  "ledger_order LReceived = 0"
| "ledger_order LAccepted = 1"
| "ledger_order LStarted = 2"
| "ledger_order LSucceeded = 3"
| "ledger_order LFailed = 3"
| "ledger_order LCancelled = 3"
| "ledger_order LOutcomeUnknown = 3"

definition transition_row ::
  "string \<Rightarrow> ledger_state \<Rightarrow> json option \<Rightarrow> string option \<Rightarrow> int option \<Rightarrow> command_row \<Rightarrow> command_row"
where
  "transition_row now state result error_code sequence r =
    r\<lparr>le_state := state, le_result := result, le_error_code := error_code,
      le_sequence := (case sequence of None \<Rightarrow> le_sequence r | Some n \<Rightarrow> n),
      lr_updated_at := now\<rparr>"

definition ledger_transition ::
  "string \<Rightarrow> string \<Rightarrow> ledger_state \<Rightarrow> json option \<Rightarrow> string option \<Rightarrow> int option \<Rightarrow> ledger_db \<Rightarrow>
   ledger_error + (ledger_entry \<times> ledger_db)" where
  "ledger_transition now command_id state result error_code sequence db =
    (case ledger_get command_id db of
       None \<Rightarrow> Inl (LedgerConflict ''command_not_found'')
     | Some current \<Rightarrow>
         if le_state current \<in> set LEDGER_TERMINAL then
           (if le_state current = state \<and> opt_json_eq (le_result current) result
               \<and> le_error_code current = error_code
            then Inr (current, db)
            else Inl (LedgerConflict ''terminal_result_conflict''))
         else if ledger_order state < ledger_order (le_state current)
         then Inl (LedgerConflict ''invalid_transition'')
         else
           let db' = db\<lparr>lg_commands := update_where (\<lambda>r. le_command_id r = command_id)
                 (transition_row now state result error_code sequence) (lg_commands db)\<rparr>
           in Inr (the (ledger_get command_id db'), db'))"

definition request_cancel :: "string \<Rightarrow> string \<Rightarrow> ledger_db \<Rightarrow> ledger_entry option \<times> ledger_db" where
  "request_cancel now command_id db =
    (case ledger_get command_id db of
       None \<Rightarrow> (None, db)
     | Some _ \<Rightarrow>
         let db' = db\<lparr>lg_commands := update_where (\<lambda>r. le_command_id r = command_id)
               (\<lambda>r. r\<lparr>le_cancel_requested := True, lr_updated_at := now\<rparr>) (lg_commands db)\<rparr>
         in (ledger_get command_id db', db'))"

datatype reconcile_status = NotStarted | StartedStatus | TerminalStatus

definition reconcile_status ::
  "string \<Rightarrow> string \<Rightarrow> ledger_db \<Rightarrow> ledger_error + (reconcile_status \<times> ledger_entry option)" where
  "reconcile_status command_id payload_hash db =
    (case ledger_get command_id db of
       None \<Rightarrow> Inr (NotStarted, None)
     | Some e \<Rightarrow>
         if le_payload_hash e \<noteq> payload_hash then Inl (LedgerConflict ''replay_payload_mismatch'')
         else if le_state e \<in> {LReceived, LAccepted} then Inr (NotStarted, Some e)
         else if le_state e = LStarted then Inr (StartedStatus, Some e)
         else Inr (TerminalStatus, Some e))"

text \<open>The two counts are the \<open>rowcount\<close>s of the two updates, which run one after the other.\<close>

definition recover_interrupted_programs :: "string \<Rightarrow> ledger_db \<Rightarrow> (nat \<times> nat) \<times> ledger_db" where
  "recover_interrupted_programs now db =
    (let commit = (\<lambda>r. le_state r = LStarted \<and> le_kind r = ''program_commit'');
         other = (\<lambda>r. le_state r = LStarted
                   \<and> le_kind r \<in> set [''program_preview'', ''program_validate'']);
         t1 = update_where commit
           (\<lambda>r. r\<lparr>le_state := LOutcomeUnknown, le_error_code := Some ''outcome_unknown'',
                  lr_updated_at := now\<rparr>) (lg_commands db);
         t2 = update_where other
           (\<lambda>r. r\<lparr>le_state := LFailed, le_error_code := Some ''agent_restarted'',
                  lr_updated_at := now\<rparr>) t1
     in ((count_where commit (lg_commands db), count_where other t1), db\<lparr>lg_commands := t2\<rparr>))"

section \<open>Settings\<close>

definition setting :: "string \<Rightarrow> ledger_db \<Rightarrow> string option" where
  "setting key db = map_of (lg_settings db) key"

text \<open>\<open>INSERT .. ON CONFLICT(key) DO UPDATE SET value=excluded.value\<close>\<close>

definition put_setting :: "string \<Rightarrow> string \<Rightarrow> ledger_db \<Rightarrow> ledger_db" where
  "put_setting key value db = db\<lparr>lg_settings := AList.update key value (lg_settings db)\<rparr>"

definition set_paused :: "bool \<Rightarrow> ledger_db \<Rightarrow> ledger_db" where
  "set_paused paused db = put_setting ''paused'' (if paused then ''1'' else ''0'') db"

definition is_paused :: "ledger_db \<Rightarrow> bool" where
  "is_paused db \<longleftrightarrow> setting ''paused'' db = Some ''1''"

definition initialize_write_lock :: "bool \<Rightarrow> ledger_db \<Rightarrow> bool \<times> ledger_db" where
  "initialize_write_lock enabled db =
    (case setting ''write_lock'' db of
       None \<Rightarrow> (enabled, put_setting ''write_lock'' (if enabled then ''1'' else ''0'') db)
     | Some v \<Rightarrow> (v = ''1'', db))"

definition set_write_lock :: "bool \<Rightarrow> ledger_db \<Rightarrow> ledger_db" where
  "set_write_lock enabled db = put_setting ''write_lock'' (if enabled then ''1'' else ''0'') db"

definition is_write_lock_enabled :: "ledger_db \<Rightarrow> bool" where
  "is_write_lock_enabled db \<longleftrightarrow> setting ''write_lock'' db = Some ''1''"

text \<open>\<open>int(row[0])\<close>: only \<open>next_sequence\<close> writes this setting, always as decimal text; anything
  else raises a \<open>ValueError\<close> here.\<close>

definition stored_sequence :: "ledger_db \<Rightarrow> ledger_error + nat" where
  "stored_sequence db =
    (case setting ''sequence'' db of
       None \<Rightarrow> Inr 0
     | Some s \<Rightarrow> if s \<noteq> [] \<and> list_all is_digit s then Inr (read_decimal s) else Inl LedgerValueError)"

definition next_sequence :: "ledger_db \<Rightarrow> ledger_error + (nat \<times> ledger_db)" where
  "next_sequence db =
    bindE (stored_sequence db) (\<lambda>n. Inr (n + 1, put_setting ''sequence'' (decimal (n + 1)) db))"

definition last_sequence :: "ledger_db \<Rightarrow> ledger_error + nat" where
  "last_sequence db = stored_sequence db"

section \<open>Execution evidence\<close>

definition SENSITIVE_EVIDENCE_KEYS :: "string list" where
  "SENSITIVE_EVIDENCE_KEYS = [''access_token'', ''authorization'', ''cookie'', ''password'',
     ''pipe_secret'', ''private_key'', ''refresh_token'', ''secret'', ''token'']"

text \<open>
  \<open>str.casefold\<close> as far as a comparison with ASCII words can see it: upper case letters, and the
  code points whose folding is ASCII text (U+00DF, U+017F, U+1E9E, U+212A and the Latin ligatures
  U+FB00 to U+FB06).  Every other code point beyond ASCII folds to text that is not ASCII.
\<close>

definition folded_sequences :: "(string \<times> string) list" where
  "folded_sequences =
    [([CHR 0xC3, CHR 0x9F], ''ss''), ([CHR 0xC5, CHR 0xBF], ''s''),
     ([CHR 0xE1, CHR 0xBA, CHR 0x9E], ''ss''), ([CHR 0xE2, CHR 0x84, CHR 0xAA], ''k''),
     ([CHR 0xEF, CHR 0xAC, CHR 0x80], ''ff''), ([CHR 0xEF, CHR 0xAC, CHR 0x81], ''fi''),
     ([CHR 0xEF, CHR 0xAC, CHR 0x82], ''fl''), ([CHR 0xEF, CHR 0xAC, CHR 0x83], ''ffi''),
     ([CHR 0xEF, CHR 0xAC, CHR 0x84], ''ffl''), ([CHR 0xEF, CHR 0xAC, CHR 0x85], ''st''),
     ([CHR 0xEF, CHR 0xAC, CHR 0x86], ''st'')]"

function casefold :: "string \<Rightarrow> string" where
  "casefold [] = []"
| "casefold (c # cs) =
     (case List.find (\<lambda>p. starts_with (fst p) (c # cs)) folded_sequences of
        Some p \<Rightarrow> snd p @ casefold (drop (max 1 (length (fst p))) (c # cs))
      | None \<Rightarrow> (if is_upper c then char_of ((of_char c :: nat) + 32) else c) # casefold cs)"
  by pat_completeness auto
termination casefold
  by (relation "measure length") auto

definition details_invalid :: "ledger_error + unit" where
  "details_invalid = Inl (LedgerConflict ''evidence_details_invalid'')"

function validate_evidence_detail :: "json \<Rightarrow> nat \<Rightarrow> ledger_error + unit" where
  "validate_evidence_detail (JList xs) depth =
     (if 3 < depth \<or> 64 < length xs then details_invalid
      else if list_all (\<lambda>x. validate_evidence_detail x (depth + 1) = Inr ()) xs then Inr ()
      else details_invalid)"
| "validate_evidence_detail (JObj kvs) depth =
     (if 3 < depth \<or> 32 < length kvs then details_invalid
      else if list_all (\<lambda>p. \<not> (fst p = [] \<or> 128 < py_len (fst p)
                              \<or> casefold (fst p) \<in> set SENSITIVE_EVIDENCE_KEYS)
                         \<and> validate_evidence_detail (snd p) (depth + 1) = Inr ()) kvs
      then Inr () else details_invalid)"
| "validate_evidence_detail (JStr s) depth =
     (if 3 < depth \<or> 1024 < py_len s then details_invalid else Inr ())"
| "validate_evidence_detail JNull depth = (if 3 < depth then details_invalid else Inr ())"
| "validate_evidence_detail (JBool b) depth = (if 3 < depth then details_invalid else Inr ())"
| "validate_evidence_detail (JInt i) depth = (if 3 < depth then details_invalid else Inr ())"
| "validate_evidence_detail (JFloat f) depth = (if 3 < depth then details_invalid else Inr ())"
  by pat_completeness auto
termination validate_evidence_detail
  by (relation "measure (\<lambda>(v, d). size v)") (auto dest: size_snd_item size_elem simp del: json.size)

text \<open>\<open>==\<close> of two \<open>LedgerEvidenceEvent\<close>s: field by field, the details as JSON values.\<close>

definition evidence_eq :: "evidence_event \<Rightarrow> evidence_event \<Rightarrow> bool" where
  "evidence_eq a b \<longleftrightarrow>
     a\<lparr>ee_details := JNull\<rparr> = b\<lparr>ee_details := JNull\<rparr> \<and> py_eq (ee_details a) (ee_details b)"

definition evidence_digest :: "pylib \<Rightarrow> evidence_event \<Rightarrow> string" where
  "evidence_digest L e =
    ''sha256:'' @ sha256_hex L (json_encode L (JObj
      [(''event_id'', JStr (ee_event_id e)), (''job_id'', JStr (ee_job_id e)),
       (''command_id'', JStr (ee_command_id e)), (''source'', JStr (ee_source e)),
       (''source_sequence'', JInt (ee_source_sequence e)),
       (''milestone'', JStr (ee_milestone e)), (''outcome'', JStr (ee_outcome e)),
       (''summary'', JStr (ee_summary e)), (''details'', ee_details e),
       (''source_timestamp'', JStr (ee_source_timestamp e))]))"

definition stored_evidence :: "string \<Rightarrow> evidence_event \<Rightarrow> evidence_row" where
  "stored_evidence now e = evidence_event.extend e (evidence_row.fields now)"

text \<open>What a caller of \<open>append_evidence\<close> passes.\<close>

record evidence_args =
  ea_event_id :: string
  ea_command_id :: string
  ea_source :: string
  ea_source_sequence :: int
  ea_milestone :: string
  ea_outcome :: string
  ea_summary :: string
  ea_details :: "json option"
  ea_source_timestamp :: "string option"

definition conflict_if :: "bool \<Rightarrow> string \<Rightarrow> ledger_error + unit" where
  "conflict_if b code = (if b then Inl (LedgerConflict code) else Inr ())"

definition empty_or_longer :: "nat \<Rightarrow> string \<Rightarrow> bool" where
  "empty_or_longer n s \<longleftrightarrow> s = [] \<or> n < py_len s"

definition validate_evidence_args :: "evidence_args \<Rightarrow> ledger_error + unit" where
  "validate_evidence_args a =
    bindE (conflict_if (ea_source a \<notin> {''agent'', ''host''}) ''evidence_source_invalid'') (\<lambda>_.
    bindE (conflict_if (ea_source_sequence a < 0) ''evidence_sequence_invalid'') (\<lambda>_.
    bindE (conflict_if (empty_or_longer 256 (ea_event_id a)) ''evidence_event_id_invalid'') (\<lambda>_.
    bindE (conflict_if (empty_or_longer 128 (ea_milestone a)) ''evidence_milestone_invalid'') (\<lambda>_.
    bindE (conflict_if (empty_or_longer 64 (ea_outcome a)) ''evidence_outcome_invalid'') (\<lambda>_.
    conflict_if (empty_or_longer 512 (ea_summary a)) ''evidence_summary_invalid'')))))"

text \<open>\<open>details or {}\<close>\<close>

definition safe_details :: "json option \<Rightarrow> json" where
  "safe_details d = (case d of None \<Rightarrow> JObj [] | Some v \<Rightarrow> if json_truthy v then v else JObj [])"

definition evidence_candidate :: "pylib \<Rightarrow> string \<Rightarrow> string \<Rightarrow> evidence_args \<Rightarrow> evidence_event" where
  "evidence_candidate L now job_id a =
    (let e = \<lparr>ee_event_id = ea_event_id a, ee_job_id = job_id, ee_command_id = ea_command_id a,
              ee_source = ea_source a, ee_source_sequence = ea_source_sequence a,
              ee_milestone = ea_milestone a, ee_outcome = ea_outcome a, ee_summary = ea_summary a,
              ee_details = safe_details (ea_details a),
              ee_source_timestamp =
                (case ea_source_timestamp a of None \<Rightarrow> now | Some t \<Rightarrow> if t = [] then now else t),
              ee_event_digest = []\<rparr>
     in e\<lparr>ee_event_digest := evidence_digest L e\<rparr>)"

definition same_source :: "evidence_event \<Rightarrow> evidence_row \<Rightarrow> bool" where
  "same_source e r \<longleftrightarrow> ee_job_id r = ee_job_id e \<and> ee_source r = ee_source e"

text \<open>The write transaction of \<open>append_evidence\<close>; \<open>latest\<close> is \<open>MAX(source_sequence)\<close>.\<close>

definition insert_evidence ::
  "string \<Rightarrow> evidence_event \<Rightarrow> ledger_db \<Rightarrow> ledger_error + ((evidence_event \<times> bool) \<times> ledger_db)" where
  "insert_evidence now e db =
    (case select1 (\<lambda>r. ee_event_id r = ee_event_id e
             \<or> (same_source e r \<and> ee_source_sequence r = ee_source_sequence e)) (lg_evidence db) of
       Some r \<Rightarrow>
         if evidence_eq (evidence_of r) e then Inr ((evidence_of r, False), db)
         else Inl (LedgerConflict ''evidence_conflict'')
     | None \<Rightarrow>
         let seen = map ee_source_sequence (filter (same_source e) (lg_evidence db))
         in if seen \<noteq> [] \<and> ee_source_sequence e \<le> Max (set seen)
            then Inl (LedgerConflict ''evidence_sequence_rejected'')
            else Inr ((e, True), db\<lparr>lg_evidence := lg_evidence db @ [stored_evidence now e]\<rparr>))"

definition append_evidence ::
  "pylib \<Rightarrow> string \<Rightarrow> evidence_args \<Rightarrow> ledger_db \<Rightarrow>
   ledger_error + ((evidence_event \<times> bool) \<times> ledger_db)" where
  "append_evidence L now a db =
    bindE (validate_evidence_args a) (\<lambda>_.
    case ledger_get (ea_command_id a) db of
      None \<Rightarrow> Inl (LedgerConflict ''command_not_found'')
    | Some entry \<Rightarrow>
        let d = safe_details (ea_details a) in
        bindE (conflict_if (\<not> is_dict d \<or> 32 < length (jitems d)) ''evidence_details_invalid'') (\<lambda>_.
        bindE (validate_evidence_detail d 0) (\<lambda>_.
        bindE (conflict_if (8192 < length (json_encode L d)) ''evidence_details_invalid'') (\<lambda>_.
        insert_evidence now (evidence_candidate L now (le_job_id entry) a) db))))"

text \<open>\<open>ORDER BY source_timestamp, source, source_sequence LIMIT ?\<close>\<close>

definition list_evidence :: "string \<Rightarrow> int \<Rightarrow> ledger_db \<Rightarrow> ledger_error + evidence_event list" where
  "list_evidence command_id limit db =
    (if limit < 1 \<or> 256 < limit then Inl (LedgerConflict ''evidence_limit_invalid'')
     else if ledger_get command_id db = None then Inr []
     else Inr (map evidence_of (take (nat limit)
       (sort_key (\<lambda>r. (ee_source_timestamp r, ee_source r, ee_source_sequence r))
         (filter (\<lambda>r. ee_command_id r = command_id) (lg_evidence db))))))"

definition reconcile_evidence ::
  "string \<Rightarrow> string \<Rightarrow> ledger_db \<Rightarrow>
   ledger_error + (reconcile_status \<times> ledger_entry option \<times> evidence_event list)" where
  "reconcile_evidence command_id payload_hash db =
    bindE (reconcile_status command_id payload_hash db) (\<lambda>(status, entry).
    bindE (list_evidence command_id 256 db) (\<lambda>events. Inr (status, entry, events)))"

section \<open>What the ledger keeps\<close>

definition command_key :: "command_row \<Rightarrow> string \<times> string" where
  "command_key r = (le_device_id r, le_idempotency_key r)"

definition evidence_increasing :: "evidence_row list \<Rightarrow> bool" where
  "evidence_increasing rows \<longleftrightarrow>
     sorted_wrt (\<lambda>r r'. ee_job_id r = ee_job_id r' \<and> ee_source r = ee_source r' \<longrightarrow>
                        ee_source_sequence r < ee_source_sequence r') rows"

definition ledger_ok :: "ledger_db \<Rightarrow> bool" where
  "ledger_ok db \<longleftrightarrow>
     distinct (map le_command_id (lg_commands db))
     \<and> distinct (map command_key (lg_commands db))
     \<and> distinct (map ee_event_id (lg_evidence db))
     \<and> evidence_increasing (lg_evidence db)"

inductive ledger_step :: "ledger_db \<Rightarrow> ledger_db \<Rightarrow> bool" where
  step_received: "record_received now c db = Inr (r, db') \<Longrightarrow> ledger_step db db'"
| step_transition: "ledger_transition now k st res err sq db = Inr (e, db') \<Longrightarrow> ledger_step db db'"
| step_cancel: "request_cancel now k db = (e, db') \<Longrightarrow> ledger_step db db'"
| step_recover: "recover_interrupted_programs now db = (n, db') \<Longrightarrow> ledger_step db db'"
| step_evidence: "append_evidence L now a db = Inr (e, db') \<Longrightarrow> ledger_step db db'"
| step_setting: "ledger_step db (put_setting k v db)"

inductive_cases ledger_stepE: "ledger_step db db'"

text \<open>What one operation does to the tables: append a fresh command, rewrite commands keeping their
  keys and what is final, or append a piece of evidence.\<close>

definition keeps_row :: "command_row \<Rightarrow> command_row \<Rightarrow> bool" where
  "keeps_row r r' \<longleftrightarrow>
     le_command_id r' = le_command_id r \<and> le_idempotency_key r' = le_idempotency_key r
     \<and> le_device_id r' = le_device_id r \<and> le_payload_hash r' = le_payload_hash r
     \<and> le_job_id r' = le_job_id r \<and> le_kind r' = le_kind r \<and> le_binding r' = le_binding r
     \<and> (le_cancel_requested r \<longrightarrow> le_cancel_requested r')
     \<and> ledger_order (le_state r) \<le> ledger_order (le_state r')
     \<and> (le_state r \<in> set LEDGER_TERMINAL \<longrightarrow>
          le_state r' = le_state r \<and> le_result r' = le_result r \<and> le_error_code r' = le_error_code r)"

lemma keeps_row_refl [simp]: "keeps_row r r"
  by (simp add: keeps_row_def)

lemma keeps_row_trans: "keeps_row r s \<Longrightarrow> keeps_row s t \<Longrightarrow> keeps_row r t"
  by (auto simp: keeps_row_def)

definition rewritten :: "command_row list \<Rightarrow> command_row list \<Rightarrow> bool" where
  "rewritten t t' \<longleftrightarrow> (\<exists>f. t' = map f t \<and> (\<forall>r \<in> set t. keeps_row r (f r)))"

lemma rewrites_refl [simp]: "rewritten t t"
  unfolding rewritten_def by (intro exI [of _ "\<lambda>r. r"]) simp

lemma rewrites_update_where:
  "(\<And>r. r \<in> set t \<Longrightarrow> p r \<Longrightarrow> keeps_row r (f r)) \<Longrightarrow> rewritten t (update_where p f t)"
  unfolding rewritten_def update_where_def by (intro exI [of _ "\<lambda>r. if p r then f r else r"]) auto

lemma rewrites_trans: "rewritten t u \<Longrightarrow> rewritten u v \<Longrightarrow> rewritten t v"
  unfolding rewritten_def
proof (elim exE conjE)
  fix f g assume *: "u = map f t" "v = map g u" "\<forall>r\<in>set t. keeps_row r (f r)"
    "\<forall>r\<in>set u. keeps_row r (g r)"
  show "\<exists>h. v = map h t \<and> (\<forall>r\<in>set t. keeps_row r (h r))"
    by (intro exI [of _ "\<lambda>r. g (f r)"]) (use * keeps_row_trans in auto)
qed

lemma rewrites_keys:
  assumes "rewritten t t'"
  shows "map le_command_id t' = map le_command_id t" "map command_key t' = map command_key t"
  using assms by (auto simp: rewritten_def keeps_row_def command_key_def)

lemma rewrites_select1:
  assumes "rewritten t t'" "select1 (\<lambda>r. le_command_id r = k) t = Some r"
  shows "\<exists>r'. select1 (\<lambda>r. le_command_id r = k) t' = Some r' \<and> keeps_row r r'"
proof -
  obtain f where f: "t' = map f t" "\<forall>r \<in> set t. keeps_row r (f r)"
    using assms(1) by (auto simp: rewritten_def)
  have "select1 (\<lambda>r. le_command_id r = k) (map f t) = map_option f (select1 (\<lambda>r. le_command_id r = k) t)"
    using f(2) by (induction t) (auto simp: keeps_row_def)
  then show ?thesis using assms(2) f select1_Some [OF assms(2)] by auto
qed

lemma ledger_get_Some:
  "ledger_get k db = Some e \<longleftrightarrow>
   (\<exists>r. select1 (\<lambda>r. le_command_id r = k) (lg_commands db) = Some r \<and> e = entry_of r)"
  by (auto simp: ledger_get_def)

lemma entry_of_simps [simp]:
  "le_command_id (entry_of r) = le_command_id r" "le_state (entry_of r) = le_state r"
  "le_result (entry_of r) = le_result r" "le_error_code (entry_of r) = le_error_code r"
  "le_payload_hash (entry_of r) = le_payload_hash r" "le_job_id (entry_of r) = le_job_id r"
  "le_idempotency_key (entry_of r) = le_idempotency_key r"
  "le_device_id (entry_of r) = le_device_id r" "le_kind (entry_of r) = le_kind r"
  "le_binding (entry_of r) = le_binding r" "le_cancel_requested (entry_of r) = le_cancel_requested r"
  "le_sequence (entry_of r) = le_sequence r"
  by (simp_all add: entry_of_def ledger_entry.truncate_def)

lemma terminal_order: "s \<in> set LEDGER_TERMINAL \<longleftrightarrow> ledger_order s = 3"
  by (cases s) (simp_all add: LEDGER_TERMINAL_def)

lemma transition_rewrites:
  assumes "ledger_ok db" "ledger_transition now k st res err sq db = Inr (e, db')"
  shows "rewritten (lg_commands db) (lg_commands db') \<and> lg_evidence db' = lg_evidence db"
proof -
  obtain r where r: "select1 (\<lambda>r. le_command_id r = k) (lg_commands db) = Some r"
    using assms(2) by (auto simp: ledger_transition_def ledger_get_def split: option.splits)
  have uniq: "x = r" if "x \<in> set (lg_commands db)" "le_command_id x = k" for x
    using that select1_Some [OF r] assms(1) key_unique [of le_command_id "lg_commands db" x r]
    by (auto simp: ledger_ok_def)
  show ?thesis
  proof (cases "le_state r \<in> set LEDGER_TERMINAL")
    case True
    then show ?thesis
      using assms(2) r by (auto simp: ledger_transition_def ledger_get_def split: if_splits)
  next
    case False
    then have "\<not> ledger_order st < ledger_order (le_state r)"
      and db': "lg_commands db' = update_where (\<lambda>r. le_command_id r = k)
            (transition_row now st res err sq) (lg_commands db)" "lg_evidence db' = lg_evidence db"
      using assms(2) r
      by (auto simp: ledger_transition_def ledger_get_def Let_def split: if_splits)
    then have "keeps_row r (transition_row now st res err sq r)"
      using False by (simp add: keeps_row_def transition_row_def)
    then show ?thesis using db' uniq by (auto intro: rewrites_update_where)
  qed
qed

lemma cancel_rewrites:
  "request_cancel now k db = (e, db') \<Longrightarrow>
   rewritten (lg_commands db) (lg_commands db') \<and> lg_evidence db' = lg_evidence db"
  by (auto simp: request_cancel_def Let_def keeps_row_def split: option.splits
      intro!: rewrites_update_where)

lemma recover_rewrites:
  "recover_interrupted_programs now db = (n, db') \<Longrightarrow>
   rewritten (lg_commands db) (lg_commands db') \<and> lg_evidence db' = lg_evidence db"
  by (auto simp: recover_interrupted_programs_def Let_def keeps_row_def LEDGER_TERMINAL_def
      intro!: rewrites_trans [OF rewrites_update_where rewrites_update_where])

lemma oldest_with_key_None:
  "oldest_with_key d k db = None \<longleftrightarrow> (d, k) \<notin> set (map command_key (lg_commands db))"
proof -
  have "oldest_with_key d k db = None \<longleftrightarrow>
      filter (\<lambda>r. le_device_id r = d \<and> le_idempotency_key r = k) (lg_commands db) = []"
    unfolding oldest_with_key_def
    by (cases "sort_key lr_created_at (filter (\<lambda>r. le_device_id r = d \<and> le_idempotency_key r = k)
          (lg_commands db))")
      (auto dest: arg_cong [where f = set])
  then show ?thesis by (auto simp: filter_empty_conv command_key_def)
qed

lemma oldest_with_key_Some:
  assumes "oldest_with_key d k db = Some r"
  shows "r \<in> set (lg_commands db) \<and> command_key r = (d, k)"
proof -
  let ?rows = "filter (\<lambda>r. le_device_id r = d \<and> le_idempotency_key r = k) (lg_commands db)"
  obtain xs where xs: "sort_key lr_created_at ?rows = r # xs"
    using assms by (auto simp: oldest_with_key_def split: list.splits)
  have "r \<in> set (sort_key lr_created_at ?rows)" unfolding xs by simp
  then show ?thesis by (simp add: command_key_def)
qed

lemma received_cases:
  assumes "record_received now c db = Inr ((e, created), db')"
  shows "if created
         then db' = db\<lparr>lg_commands := lg_commands db @ [received_row now c]\<rparr> \<and>
              e = entry_of (received_row now c) \<and>
              rc_command_id c \<notin> set (map le_command_id (lg_commands db)) \<and>
              (rc_device_id c, rc_idempotency_key c) \<notin> set (map command_key (lg_commands db))
         else db' = db \<and> (\<exists>r \<in> set (lg_commands db). e = entry_of r \<and>
              command_key r = (rc_device_id c, rc_idempotency_key c) \<and>
              le_payload_hash r = rc_payload_hash c \<and> le_kind r = rc_kind c)"
proof (cases "select1 (\<lambda>r. le_command_id r = rc_command_id c) (lg_commands db)")
  case (Some r)
  then show ?thesis
    using assms select1_Some [OF Some]
    by (auto simp: record_received_def command_key_def split: if_splits intro!: bexI [of _ r])
next
  case id: None
  show ?thesis
  proof (cases "oldest_with_key (rc_device_id c) (rc_idempotency_key c) db")
    case None
    with id show ?thesis
      using assms None [unfolded oldest_with_key_None] id [unfolded select1_None]
      by (auto simp: record_received_def Let_def)
  next
    case (Some r)
    with id show ?thesis
      using assms oldest_with_key_Some [OF Some]
      by (auto simp: record_received_def split: if_splits intro!: bexI [of _ r])
  qed
qed

lemma above_Max: "\<not> (xs \<noteq> [] \<and> n \<le> Max (set xs)) \<Longrightarrow> x \<in> set xs \<Longrightarrow> x < (n :: int)"
proof -
  assume a: "\<not> (xs \<noteq> [] \<and> n \<le> Max (set xs))" and x: "x \<in> set xs"
  have "Max (set xs) < n" using a x by auto
  then show "x < n" using x by (intro le_less_trans [of x "Max (set xs)" n] Max_ge) auto
qed

lemma insert_evidence_cases:
  assumes "insert_evidence now e db = Inr ((e', created), db')"
  shows "lg_commands db' = lg_commands db \<and> lg_settings db' = lg_settings db \<and>
         (if created
          then e' = e \<and> lg_evidence db' = lg_evidence db @ [stored_evidence now e] \<and>
               ee_event_id e \<notin> set (map ee_event_id (lg_evidence db)) \<and>
               (\<forall>r \<in> set (lg_evidence db). same_source e r \<longrightarrow> ee_source_sequence r < ee_source_sequence e)
          else db' = db \<and> evidence_eq e' e)"
proof (cases "select1 (\<lambda>r. ee_event_id r = ee_event_id e
             \<or> (same_source e r \<and> ee_source_sequence r = ee_source_sequence e)) (lg_evidence db)")
  case (Some r)
  then show ?thesis using assms by (auto simp: insert_evidence_def split: if_splits)
next
  case None
  let ?seen = "map ee_source_sequence (filter (same_source e) (lg_evidence db))"
  from None assms have a: "\<not> (?seen \<noteq> [] \<and> ee_source_sequence e \<le> Max (set ?seen))"
    and b: "created" "e' = e" "db' = db\<lparr>lg_evidence := lg_evidence db @ [stored_evidence now e]\<rparr>"
    by (auto simp: insert_evidence_def Let_def simp del: set_map split: if_splits)
  have "ee_source_sequence r < ee_source_sequence e"
    if "r \<in> set (lg_evidence db)" "same_source e r" for r
    using that by (intro above_Max [OF a]) auto
  moreover have "ee_event_id e \<notin> set (map ee_event_id (lg_evidence db))"
    using None by (auto simp: select1_None)
  ultimately show ?thesis using b by simp
qed

lemma stored_evidence_simps [simp]:
  "ee_event_id (stored_evidence now e) = ee_event_id e"
  "ee_job_id (stored_evidence now e) = ee_job_id e"
  "ee_source (stored_evidence now e) = ee_source e"
  "ee_source_sequence (stored_evidence now e) = ee_source_sequence e"
  "evidence_of (stored_evidence now e) = e"
  by (simp_all add: stored_evidence_def evidence_event.defs evidence_row.defs evidence_of_def)

lemma append_evidence_insert:
  "append_evidence L now a db = Inr (r, db') \<Longrightarrow>
   \<exists>entry. ledger_get (ea_command_id a) db = Some entry \<and>
     insert_evidence now (evidence_candidate L now (le_job_id entry) a) db = Inr (r, db')"
  by (auto simp: append_evidence_def Let_def result_simps split: option.splits)

lemma ledger_step_shape:
  assumes "ledger_step db db'" "ledger_ok db"
  shows "(\<exists>r. lg_commands db' = lg_commands db @ [r] \<and> lg_evidence db' = lg_evidence db \<and>
            le_command_id r \<notin> set (map le_command_id (lg_commands db)) \<and>
            command_key r \<notin> set (map command_key (lg_commands db))) \<or>
         (rewritten (lg_commands db) (lg_commands db') \<and> lg_evidence db' = lg_evidence db) \<or>
         (\<exists>r. lg_commands db' = lg_commands db \<and> lg_evidence db' = lg_evidence db @ [r] \<and>
            ee_event_id r \<notin> set (map ee_event_id (lg_evidence db)) \<and>
            (\<forall>x \<in> set (lg_evidence db). ee_job_id x = ee_job_id r \<and> ee_source x = ee_source r \<longrightarrow>
               ee_source_sequence x < ee_source_sequence r))"
  using assms(1)
proof cases
  case (step_received now c r)
  then show ?thesis
    using received_cases [of now c db "fst r" "snd r" db']
    by (cases r) (auto simp: received_row_def command_key_def split: if_splits)
next
  case (step_evidence L now a e)
  from append_evidence_insert [OF this] obtain c where
    "insert_evidence now c db = Inr ((fst e, snd e), db')" by auto
  from insert_evidence_cases [OF this] show ?thesis
    by (auto simp: same_source_def split: if_splits)
next
  case step_transition
  then show ?thesis using transition_rewrites [OF assms(2)] by blast
next
  case step_cancel
  then show ?thesis using cancel_rewrites by blast
next
  case step_recover
  then show ?thesis using recover_rewrites by blast
next
  case step_setting
  then show ?thesis by (simp add: put_setting_def)
qed

lemma ledger_step_ok: "ledger_step db db' \<Longrightarrow> ledger_ok db \<Longrightarrow> ledger_ok db'"
  using ledger_step_shape [of db db']
  by (auto simp: ledger_ok_def rewrites_keys evidence_increasing_def sorted_wrt_append)

lemma ledger_step_row:
  assumes "ledger_step db db'" "ledger_ok db"
    and "select1 (\<lambda>r. le_command_id r = k) (lg_commands db) = Some r"
  shows "\<exists>r'. select1 (\<lambda>r. le_command_id r = k) (lg_commands db') = Some r' \<and> keeps_row r r'"
  using ledger_step_shape [OF assms(1,2)] assms(3)
  by (elim disjE exE conjE) (auto simp: select1_append rewrites_select1)

definition terminal_entry :: "ledger_entry \<Rightarrow> bool" where
  "terminal_entry e \<longleftrightarrow> le_state e \<in> set LEDGER_TERMINAL"

text \<open>What a terminal entry never changes: identity, payload, state, result and error.\<close>

definition entry_core ::
  "ledger_entry \<Rightarrow> string \<times> string \<times> string \<times> ledger_state \<times> json option \<times> string option" where
  "entry_core e = (le_job_id e, le_idempotency_key e, le_payload_hash e, le_state e, le_result e,
     le_error_code e)"

interpretation ledger: durable_system ledger_step ledger_ok "\<lambda>db k. ledger_get k db"
  terminal_entry entry_core
proof unfold_locales
  fix s t k r
  assume "ledger_step s t" "ledger_ok s" "ledger_get k s = Some r" "terminal_entry r"
  then show "\<exists>r'. ledger_get k t = Some r' \<and> terminal_entry r' \<and> entry_core r' = entry_core r"
    using ledger_step_row [of s t k]
    by (fastforce simp: ledger_get_Some keeps_row_def terminal_entry_def entry_core_def)
qed (rule ledger_step_ok)

text \<open>The progress of a command: 0 before it is recorded, then one more than its order.\<close>

definition command_progress :: "string \<Rightarrow> ledger_db \<Rightarrow> nat" where
  "command_progress k db =
    (case ledger_get k db of None \<Rightarrow> 0 | Some e \<Rightarrow> Suc (ledger_order (le_state e)))"

interpretation progress: monotone_system ledger_step ledger_ok "command_progress k" for k
proof unfold_locales
  fix s t assume "ledger_step s t" "ledger_ok s"
  then show "command_progress k s \<le> command_progress k t"
    using ledger_step_row [of s t k]
    by (fastforce simp: command_progress_def ledger_get_def keeps_row_def split: option.splits)
qed

interpretation evidence_log: monotone_system ledger_step ledger_ok "\<lambda>db. set (lg_evidence db)"
  by unfold_locales (use ledger_step_shape in fastforce)

lemma evidence_prefix:
  "steps ledger_step db db' \<Longrightarrow> ledger_ok db \<Longrightarrow> \<exists>es. lg_evidence db' = lg_evidence db @ es"
proof (induction rule: steps.induct)
  case (steps_snoc s t u)
  from ledger_step_shape [OF steps_snoc(2) ledger.steps_inv [OF steps_snoc(1,4)]]
  have "\<exists>es. lg_evidence u = lg_evidence t @ es" by auto
  then show ?case using steps_snoc by fastforce
qed simp

lemma row_of_key:
  "ledger_ok db \<Longrightarrow> r \<in> set (lg_commands db) \<Longrightarrow>
   select1 (\<lambda>x. le_command_id x = le_command_id r) (lg_commands db) = Some r"
  by (auto simp: ledger_ok_def intro: select1_key)

lemma steps_row:
  "steps ledger_step db db' \<Longrightarrow> ledger_ok db \<Longrightarrow>
   select1 (\<lambda>r. le_command_id r = k) (lg_commands db) = Some r \<Longrightarrow>
   \<exists>r'. select1 (\<lambda>r. le_command_id r = k) (lg_commands db') = Some r' \<and> keeps_row r r'"
proof (induction rule: steps.induct)
  case (steps_snoc s t u)
  then obtain r' where r': "select1 (\<lambda>r. le_command_id r = k) (lg_commands t) = Some r'" "keeps_row r r'"
    by blast
  from ledger_step_row [OF steps_snoc(2) ledger.steps_inv [OF steps_snoc(1,4)] r'(1)]
  show ?case using r'(2) keeps_row_trans by blast
qed auto

lemma empty_ledger_ok: "ledger_ok empty_ledger"
  by (simp add: ledger_ok_def empty_ledger_def evidence_increasing_def)

section \<open>Properties of the ledger\<close>

text \<open>C27. A terminal result on the Agent is immutable: over any run of ledger operations (restarts
  included) a terminal command keeps its state, result, error, payload and job, and a later
  transition either repeats exactly that outcome and changes nothing, or is refused.\<close>

theorem terminal_result_immutable:
  assumes "steps ledger_step db db'" and "ledger_ok db"
    and "ledger_get k db = Some e" and "le_state e \<in> set LEDGER_TERMINAL"
  shows "\<exists>e'. ledger_get k db' = Some e' \<and> entry_core e' = entry_core e \<and>
    ledger_transition now k st res err sq db' =
      (if st = le_state e \<and> opt_json_eq (le_result e) res \<and> err = le_error_code e
       then Inr (e', db') else Inl (LedgerConflict ''terminal_result_conflict''))"
proof -
  obtain e' where e': "ledger_get k db' = Some e'" "terminal_entry e'" "entry_core e' = entry_core e"
    using ledger.steps_final [OF assms(1-3)] assms(4) by (auto simp: terminal_entry_def)
  then show ?thesis
    by (intro exI [of _ e']) (auto simp: ledger_transition_def entry_core_def terminal_entry_def)
qed

definition sample_received :: "string \<Rightarrow> received_command" where
  "sample_received kind =
    \<lparr>rc_command_id = ''c1'', rc_job_id = ''j1'', rc_idempotency_key = ''k1'',
     rc_payload_hash = ''h1'', rc_package_id = ''p'', rc_version = ''1.0.0'', rc_sha256 = ''s'',
     rc_session_id = ''s1'', rc_device_id = ''d1'', rc_kind = kind, rc_binding = None\<rparr>"

text \<open>A ledger with one command in a given state.\<close>

definition sample_ledger :: "ledger_state \<Rightarrow> ledger_db" where
  "sample_ledger st = empty_ledger
     \<lparr>lg_commands := [(received_row ''t0'' (sample_received ''program_commit''))\<lparr>le_state := st\<rparr>]\<rparr>"

lemmas sample_ledger_defs = sample_ledger_def sample_received_def received_row_def empty_ledger_def

lemma sample_ledger_ok: "ledger_ok (sample_ledger st)"
  by (simp add: ledger_ok_def sample_ledger_defs evidence_increasing_def)

lemma sample_ledger_get:
  "ledger_get ''c1'' (sample_ledger st) =
   Some (entry_of ((received_row ''t0'' (sample_received ''program_commit''))\<lparr>le_state := st\<rparr>))"
  by (simp add: ledger_get_def sample_ledger_def sample_received_def received_row_def)

theorem terminal_result_immutable_witness:
  "ledger_transition ''t1'' ''c1'' LFailed None (Some ''x'') None (sample_ledger LSucceeded) =
     Inl (LedgerConflict ''terminal_result_conflict'')"
  using terminal_result_immutable [OF steps_refl sample_ledger_ok sample_ledger_get,
      of LSucceeded "''t1''" LFailed None "Some ''x''" None]
  by (auto simp: LEDGER_TERMINAL_def)

text \<open>A command that was started is never again reported as not started, whatever the ledger goes
  through afterwards: its progress only grows, so reconciliation answers \<open>started\<close> or \<open>terminal\<close>.\<close>

theorem started_stays_started:
  assumes "steps ledger_step db db'" and "ledger_ok db"
    and "ledger_get k db = Some e" and "ledger_order LStarted \<le> ledger_order (le_state e)"
  shows "\<exists>e' s. reconcile_status k (le_payload_hash e) db' = Inr (s, Some e') \<and> s \<noteq> NotStarted \<and>
    ledger_order (le_state e) \<le> ledger_order (le_state e')"
proof -
  obtain r where r: "select1 (\<lambda>r. le_command_id r = k) (lg_commands db) = Some r" "e = entry_of r"
    using assms(3) by (auto simp: ledger_get_Some)
  obtain r' where r': "select1 (\<lambda>r. le_command_id r = k) (lg_commands db') = Some r'" "keeps_row r r'"
    using steps_row [OF assms(1,2) r(1)] by blast
  have "2 \<le> ledger_order (le_state r')" "le_payload_hash r' = le_payload_hash r"
    using r' r(2) assms(4) by (auto simp: keeps_row_def)
  then show ?thesis
    using r r' by (cases "le_state r'")
      (auto simp: reconcile_status_def ledger_get_def keeps_row_def)
qed

theorem started_stays_started_witness:
  "\<exists>e' s. reconcile_status ''c1'' ''h1'' (snd (recover_interrupted_programs ''t1'' (sample_ledger LStarted)))
     = Inr (s, Some e') \<and> s \<noteq> NotStarted"
proof -
  have "ledger_step (sample_ledger LStarted)
      (snd (recover_interrupted_programs ''t1'' (sample_ledger LStarted)))"
    by (rule ledger_step.step_recover [OF surjective_pairing])
  from started_stays_started [OF steps_single [where step = ledger_step, OF this] sample_ledger_ok
      sample_ledger_get]
  show ?thesis by (auto simp: sample_received_def received_row_def)
qed

lemma received_created:
  assumes "record_received now c db = Inr ((e, created), db1)"
  shows "\<exists>r. r \<in> set (lg_commands db1) \<and> e = entry_of r \<and>
    command_key r = (rc_device_id c, rc_idempotency_key c) \<and>
    le_payload_hash r = rc_payload_hash c \<and> le_kind r = rc_kind c"
proof (cases created)
  case True
  then show ?thesis
    using received_cases [OF assms]
    by (intro exI [of _ "received_row now c"]) (simp add: command_key_def received_row_def)
next
  case False
  then show ?thesis using received_cases [OF assms] by auto
qed

text \<open>C26. A request is recorded once: after a command was received, and whatever the ledger goes
  through, receiving a command with the same device and idempotency key never creates a second row;
  it returns the recorded command unchanged, and only when the payload hash and kind are the same.\<close>

theorem received_exactly_once:
  assumes "ledger_ok db" and "record_received now c db = Inr ((e, created), db1)"
    and "steps ledger_step db1 db2" and "record_received now' c' db2 = Inr ((e', created'), db3)"
    and "rc_device_id c' = rc_device_id c" and "rc_idempotency_key c' = rc_idempotency_key c"
  shows "\<not> created' \<and> db3 = db2 \<and> ledger_get (le_command_id e) db2 = Some e' \<and>
    rc_payload_hash c' = rc_payload_hash c \<and> rc_kind c' = rc_kind c"
proof -
  have ok1: "ledger_ok db1"
    using ledger_step_ok [OF ledger_step.step_received [OF assms(2)] assms(1)] .
  have ok2: "ledger_ok db2" using assms(3) ok1 by (rule ledger.steps_inv)
  obtain r where r: "r \<in> set (lg_commands db1)" "e = entry_of r"
    "command_key r = (rc_device_id c, rc_idempotency_key c)"
    "le_payload_hash r = rc_payload_hash c" "le_kind r = rc_kind c"
    using received_created [OF assms(2)] by blast
  obtain r2 where r2: "select1 (\<lambda>x. le_command_id x = le_command_id r) (lg_commands db2) = Some r2"
    "keeps_row r r2"
    using steps_row [OF assms(3) ok1 row_of_key [OF ok1 r(1)]] by blast
  have mem: "r2 \<in> set (lg_commands db2)" using select1_Some [OF r2(1)] by blast
  have key: "command_key r2 = (rc_device_id c', rc_idempotency_key c')"
    using r(3) r2(2) assms(5,6) by (simp add: command_key_def keeps_row_def)
  then have "\<not> created'"
    using received_cases [OF assms(4)] mem by (metis image_eqI list.set_map)
  then obtain r' where r': "db3 = db2" "r' \<in> set (lg_commands db2)" "e' = entry_of r'"
    "command_key r' = command_key r2" "le_payload_hash r' = rc_payload_hash c'"
    "le_kind r' = rc_kind c'"
    using received_cases [OF assms(4)] key by auto
  have "r' = r2"
    using key_unique [of command_key "lg_commands db2" r' r2] r' mem ok2 by (auto simp: ledger_ok_def)
  then show ?thesis
    using \<open>\<not> created'\<close> r r' r2 by (auto simp: keeps_row_def ledger_get_def)
qed

theorem received_exactly_once_witness:
  "\<exists>e' created' db3.
     record_received ''t2'' ((sample_received ''observe'')\<lparr>rc_command_id := ''c9''\<rparr>)
       (snd (projr (record_received ''t1'' (sample_received ''observe'') empty_ledger))) =
       Inr ((e', created'), db3) \<and> \<not> created'"
proof -
  have first: "record_received ''t1'' (sample_received ''observe'') empty_ledger =
      Inr ((entry_of (received_row ''t1'' (sample_received ''observe'')), True),
           empty_ledger\<lparr>lg_commands := [received_row ''t1'' (sample_received ''observe'')]\<rparr>)"
    by (simp add: record_received_def oldest_with_key_def empty_ledger_def Let_def)
  then obtain e' created' db3 where second: "record_received ''t2'' ((sample_received ''observe'')\<lparr>rc_command_id := ''c9''\<rparr>)
       (snd (projr (record_received ''t1'' (sample_received ''observe'') empty_ledger))) =
       Inr ((e', created'), db3)"
    by (simp add: record_received_def oldest_with_key_def empty_ledger_def Let_def received_row_def
        sample_received_def entry_of_def) blast
  with received_exactly_once [OF empty_ledger_ok first steps_refl, of "''t2''"
        "(sample_received ''observe'')\<lparr>rc_command_id := ''c9''\<rparr>" e' created' db3] first
  have "\<not> created'" by simp
  with second show ?thesis by blast
qed

text \<open>Execution evidence is append-only and ordered: a run of the ledger only adds events at the
  end, event ids stay unique, and for each job and source the stored sequence numbers strictly
  increase in the order they were appended.\<close>

theorem evidence_append_only:
  assumes "steps ledger_step db db'" and "ledger_ok db"
  shows "(\<exists>es. lg_evidence db' = lg_evidence db @ es) \<and>
    distinct (map ee_event_id (lg_evidence db')) \<and>
    sorted_wrt (<) (map ee_source_sequence
      (filter (\<lambda>r. ee_job_id r = j \<and> ee_source r = s) (lg_evidence db')))"
proof -
  have ok: "ledger_ok db'" using assms by (rule ledger.steps_inv)
  have "sorted_wrt (<) (map ee_source_sequence (filter (\<lambda>r. ee_job_id r = j \<and> ee_source r = s) rows))"
    if "evidence_increasing rows" for rows
    using that by (induction rows) (auto simp: evidence_increasing_def)
  then show ?thesis using evidence_prefix [OF assms] ok by (simp add: ledger_ok_def)
qed

text \<open>A ledger and the arguments of one host event for its command.\<close>

definition sample_evidence :: "int \<Rightarrow> evidence_args" where
  "sample_evidence n =
    \<lparr>ea_event_id = ''e1'', ea_command_id = ''c1'', ea_source = ''host'', ea_source_sequence = n,
     ea_milestone = ''m'', ea_outcome = ''ok'', ea_summary = ''s'', ea_details = None,
     ea_source_timestamp = None\<rparr>"

definition ledger_sample_lib :: pylib where
  "ledger_sample_lib = \<lparr>sha256_hex = (\<lambda>s. s), float_repr = (\<lambda>q. [])\<rparr>"

lemma sample_append:
  "\<exists>e db. append_evidence ledger_sample_lib ''t'' (sample_evidence 4) (sample_ledger LStarted) =
     Inr ((e, True), db) \<and> length (lg_evidence db) = 1"
proof -
  have v: "validate_evidence_args (sample_evidence 4) = Inr ()"
    by (simp add: validate_evidence_args_def conflict_if_def empty_or_longer_def sample_evidence_def
        py_len_def utf8_continuation_def)
  have d: "safe_details (ea_details (sample_evidence 4)) = JObj []"
    and c: "ea_command_id (sample_evidence 4) = ''c1''"
    by (simp_all add: sample_evidence_def safe_details_def)
  have e: "lg_evidence (sample_ledger LStarted) = []"
    by (simp add: sample_ledger_def empty_ledger_def)
  show ?thesis
    by (simp add: append_evidence_def v c d sample_ledger_get conflict_if_def insert_evidence_def e)
qed

theorem evidence_append_only_witness:
  "\<exists>e db. append_evidence ledger_sample_lib ''t'' (sample_evidence 4) (sample_ledger LStarted) =
     Inr ((e, True), db) \<and> (\<exists>es. lg_evidence db = lg_evidence (sample_ledger LStarted) @ es) \<and>
     length (lg_evidence db) = 1"
proof -
  obtain e db where db: "append_evidence ledger_sample_lib ''t'' (sample_evidence 4)
      (sample_ledger LStarted) = Inr ((e, True), db)" "length (lg_evidence db) = 1"
    using sample_append by blast
  from evidence_append_only [OF steps_single [where step = ledger_step,
      OF ledger_step.step_evidence [OF db(1)]] sample_ledger_ok] db show ?thesis by blast
qed

text \<open>C36. Restart recovery: afterwards no program command is left started; a started commit has an
  unknown outcome (never a retryable one), a started preview or validation has failed, every other
  command is untouched, and the counts returned are the numbers of rows changed.\<close>

theorem recovery_of_interrupted_programs:
  assumes "recover_interrupted_programs now db = ((unknown, failed), db')"
  shows "length (lg_commands db') = length (lg_commands db) \<and>
    (\<forall>i < length (lg_commands db).
       let r = lg_commands db ! i; r' = lg_commands db' ! i in
       if le_state r = LStarted \<and> le_kind r = ''program_commit''
       then le_state r' = LOutcomeUnknown \<and> le_error_code r' = Some ''outcome_unknown''
       else if le_state r = LStarted \<and> le_kind r \<in> {''program_preview'', ''program_validate''}
       then le_state r' = LFailed \<and> le_error_code r' = Some ''agent_restarted''
       else r' = r) \<and>
    unknown = count_where (\<lambda>r. le_state r = LStarted \<and> le_kind r = ''program_commit'') (lg_commands db) \<and>
    failed = count_where (\<lambda>r. le_state r = LStarted \<and>
      le_kind r \<in> {''program_preview'', ''program_validate''}) (lg_commands db)"
proof -
  have "failed = count_where (\<lambda>r. le_state r = LStarted \<and>
      le_kind r \<in> set [''program_preview'', ''program_validate''])
      (update_where (\<lambda>r. le_state r = LStarted \<and> le_kind r = ''program_commit'')
        (\<lambda>r. r\<lparr>le_state := LOutcomeUnknown, le_error_code := Some ''outcome_unknown'',
               lr_updated_at := now\<rparr>) (lg_commands db))"
    using assms by (auto simp: recover_interrupted_programs_def Let_def)
  also have "\<dots> = count_where (\<lambda>r. le_state r = LStarted \<and>
      le_kind r \<in> set [''program_preview'', ''program_validate'']) (lg_commands db)"
    by (rule count_where_update) auto
  finally have "failed = count_where (\<lambda>r. le_state r = LStarted \<and>
      le_kind r \<in> {''program_preview'', ''program_validate''}) (lg_commands db)"
    by simp
  moreover have "unknown = count_where (\<lambda>r. le_state r = LStarted \<and> le_kind r = ''program_commit'')
      (lg_commands db)"
    using assms by (auto simp: recover_interrupted_programs_def Let_def)
  moreover have "lg_commands db' = update_where
      (\<lambda>r. le_state r = LStarted \<and> le_kind r \<in> set [''program_preview'', ''program_validate''])
      (\<lambda>r. r\<lparr>le_state := LFailed, le_error_code := Some ''agent_restarted'', lr_updated_at := now\<rparr>)
      (update_where (\<lambda>r. le_state r = LStarted \<and> le_kind r = ''program_commit'')
        (\<lambda>r. r\<lparr>le_state := LOutcomeUnknown, le_error_code := Some ''outcome_unknown'',
               lr_updated_at := now\<rparr>) (lg_commands db))"
    using assms by (auto simp: recover_interrupted_programs_def Let_def)
  ultimately show ?thesis by (auto simp: update_where_def Let_def)
qed

theorem recovery_of_interrupted_programs_witness:
  "fst (recover_interrupted_programs ''t'' (sample_ledger LStarted)) = (1, 0)"
proof -
  obtain u f db' where r: "recover_interrupted_programs ''t'' (sample_ledger LStarted) = ((u, f), db')"
    by (metis prod.exhaust)
  from recovery_of_interrupted_programs [OF r] r show ?thesis
    by (simp add: count_where_def sample_ledger_defs)
qed

text \<open>Outgoing sequence numbers: \<open>next_sequence\<close> returns one more than \<open>last_sequence\<close>, the new
  value is what \<open>last_sequence\<close> reads back, and the other settings are untouched.\<close>

theorem next_sequence_increments:
  assumes "next_sequence db = Inr (n, db')"
  shows "last_sequence db = Inr (n - 1) \<and> 0 < n \<and> last_sequence db' = Inr n \<and>
    (k \<noteq> ''sequence'' \<longrightarrow> setting k db' = setting k db)"
proof -
  have "decimal n \<noteq> []" by (subst decimal.simps) simp
  then show ?thesis
    using assms
    by (auto simp: next_sequence_def last_sequence_def stored_sequence_def setting_def
        put_setting_def result_simps update_conv' decimal_chars read_decimal_decimal)
qed

theorem next_sequence_increments_witness:
  "last_sequence (snd (projr (next_sequence empty_ledger))) = Inr 1"
proof -
  have n: "next_sequence empty_ledger = Inr (1, put_setting ''sequence'' (decimal 1) empty_ledger)"
    by (simp add: next_sequence_def stored_sequence_def setting_def empty_ledger_def)
  from next_sequence_increments [OF n, of "''paused''"] n show ?thesis by simp
qed

end
