(* ===== verification/StoreTables.thy ===== *)
theory StoreTables
  imports Jobs Contracts Systems
begin

text \<open>
  The Gateway's SQLite store, \<open>sqlite/repositories.py\<close>: its tables \<open>devices\<close>, \<open>agent_sessions\<close>,
  \<open>jobs\<close>, \<open>job_events\<close> and \<open>snapshots\<close>, its errors, the JSON column encoder and the request
  fingerprint.  A method of \<open>SqliteRepository\<close> that writes runs in one transaction: it maps the
  database to a result carrying the new database, and a raise is a rollback.  The tables that other
  repositories own are the field \<open>st_other\<close>, of any type.  JSON columns hold the value
  \<open>json.loads\<close> returns for them, the JSON list of capability names and of packages as typed lists.
  The clock and the fresh identifiers of \<open>new_id\<close> are parameters.
\<close>

section \<open>Errors\<close>

text \<open>\<open>RepositoryConflict\<close>, \<open>InvalidJobTransition\<close>, \<open>ValueError\<close>, the errors of \<open>sqlite3\<close>, the
  \<open>KeyError\<close> or \<open>TypeError\<close> of a subscript that finds nothing, pydantic's \<open>ValidationError\<close>, the
  errors of reading and comparing timestamps, and the \<open>AttributeError\<close> of \<open>get\<close> on a value that is
  no dict.\<close>

datatype store_error =
    Conflict string
  | BadTransition transition_error
  | StoreValueError value_error
  | IntegrityError
  | BindingError
  | MissingField
  | InvalidRecord
  | TimestampError
  | AttributeError

fun lift_transition :: "transition_error + 'a \<Rightarrow> store_error + 'a" where
  "lift_transition (Inl e) = Inl (BadTransition e)"
| "lift_transition (Inr x) = Inr x"

fun lift_value :: "value_error + 'a \<Rightarrow> store_error + 'a" where
  "lift_value (Inl e) = Inl (StoreValueError e)"
| "lift_value (Inr x) = Inr x"

fun conflict_on_error :: "string \<Rightarrow> value_error + 'a \<Rightarrow> store_error + 'a" where
  "conflict_on_error code (Inl e) = Inl (Conflict code)"
| "conflict_on_error code (Inr x) = Inr x"

lemma lift_Inr [simp]:
  "lift_transition r = Inr x \<longleftrightarrow> r = Inr x" "lift_value r' = Inr y \<longleftrightarrow> r' = Inr y"
  "conflict_on_error code r'' = Inr z \<longleftrightarrow> r'' = Inr z"
  by (cases r, simp_all) (cases r', simp_all, (cases r'', simp_all)?)+

definition guard :: "bool \<Rightarrow> string \<Rightarrow> store_error + unit" where
  "guard ok code = (if ok then Inr () else Inl (Conflict code))"

lemma guard_simps [simp]:
  "guard ok code = Inr u \<longleftrightarrow> ok" "guard ok code = Inl e \<longleftrightarrow> \<not> ok \<and> e = Conflict code"
  by (auto simp: guard_def)

section \<open>Columns\<close>

text \<open>\<open>_json\<close>: the encoder without NaN and a limit on the encoded bytes.\<close>

definition json_column :: "pylib \<Rightarrow> nat \<Rightarrow> json \<Rightarrow> store_error + json" where
  "json_column L limit v =
    (case json_dumps L v of
       None \<Rightarrow> Inl (Conflict ''payload_invalid'')
     | Some encoded \<Rightarrow>
         if limit < length encoded then Inl (Conflict ''payload_too_large'') else Inr v)"

fun opt_json_column :: "pylib \<Rightarrow> nat \<Rightarrow> json option \<Rightarrow> store_error + json option" where
  "opt_json_column L limit None = Inr None"
| "opt_json_column L limit (Some v) = bindE (json_column L limit v) (\<lambda>w. Inr (Some w))"

definition JSON_LIMIT :: nat where "JSON_LIMIT = 512000"

lemma json_column_Inr: "json_column L n v = Inr w \<Longrightarrow> w = v"
  by (auto simp: json_column_def split: option.splits if_splits)

lemma opt_json_column_Inr: "opt_json_column L n v = Inr w \<Longrightarrow> w = v"
  by (cases v) (auto simp: result_simps dest: json_column_Inr)

text \<open>\<open>COALESCE(new, old)\<close>.\<close>

fun coalesce :: "'a option \<Rightarrow> 'a option \<Rightarrow> 'a option" where
  "coalesce None old = old"
| "coalesce (Some v) old = Some v"

definition store_capabilities :: "json list \<Rightarrow> store_error + string list" where
  "store_capabilities capabilities =
    conflict_on_error ''capabilities_invalid'' (canonical_capabilities capabilities)"

text \<open>\<open>capability_manifest_hash\<close>, also called \<open>_capability_list_hash\<close>.\<close>

definition capability_list_hash :: "pylib \<Rightarrow> json list \<Rightarrow> store_error + string" where
  "capability_list_hash L capabilities =
    bindE (store_capabilities capabilities)
      (\<lambda>canonical. lift_value (canonical_capability_hash L (map JStr canonical)))"

definition request_fingerprint ::
  "pylib \<Rightarrow> string \<Rightarrow> effect_class \<Rightarrow> string \<Rightarrow> store_error + string" where
  "request_fingerprint L kind effect payload_hash =
    (let v = JObj [(''effect_class'', JStr (effect_name effect)), (''kind'', JStr kind),
                   (''payload_hash'', JStr payload_hash), (''version'', JStr ''cad.request/1'')]
     in bindE (json_column L 16384 v) (\<lambda>_. Inr (sha256_hex L (the (json_dumps L v)))))"

section \<open>Rows\<close>

datatype device_status = DeviceOnline | DeviceOffline | DeviceIncompatible

text \<open>The columns that devices and sessions share: what an Agent says of itself.\<close>

record agent_columns =
  ac_capabilities :: "string list"
  ac_capability_hash :: "string option"
  ac_agent_version :: "string option"
  ac_packages :: "package_entry list"
  ac_package_manifest_hash :: "string option"
  ac_capability_manifest :: "json option"
  ac_capability_manifest_hash :: "string option"
  ac_operation_registry_hash :: "string option"
  ac_registry_version :: "string option"
  ac_write_lock_enabled :: bool
  ac_hard_pause :: bool
  ac_active_document_id :: "string option"
  ac_active_document_revision :: "string option"

record device_row =
  dv_device_id :: string
  dv_owner_subject :: string
  dv_display_name :: string
  dv_status :: device_status
  dv_fixture_auth_ref :: string
  dv_created_at :: string
  dv_updated_at :: string
  dv_runtime_state :: "string option"
  dv_document_name :: "string option"
  dv_paused :: bool
  dv_runtime_updated_at :: "string option"
  dv_agent :: agent_columns

record session_row =
  ss_session_id :: string
  ss_device_id :: string
  ss_protocol_version :: string
  ss_connected_at :: string
  ss_last_heartbeat_at :: string
  ss_disconnected_at :: "string option"
  ss_last_sequence :: int
  ss_agent :: agent_columns

record job_row =
  jb_job_id :: string
  jb_owner_subject :: string
  jb_device_id :: string
  jb_kind :: string
  jb_effect_class :: effect_class
  jb_state :: job_state
  jb_state_version :: nat
  jb_deadline_at :: "string option"
  jb_command_id :: string
  jb_idempotency_key :: string
  jb_payload_hash :: string
  jb_payload :: json
  jb_progress :: "json option"
  jb_result :: "json option"
  jb_error_code :: "string option"
  jb_error_summary :: "string option"
  jb_request_fingerprint :: "string option"
  jb_last_agent_sequence :: int
  jb_cancel_requested_at :: "string option"
  jb_created_at :: string
  jb_updated_at :: string

datatype event_type = StateEvent | ProgressEvent

record event_row =
  ev_job_id :: string
  ev_sequence :: nat
  ev_event_type :: event_type
  ev_state :: "job_state option"
  ev_progress :: "json option"
  ev_error_code :: "string option"
  ev_result :: "json option"
  ev_created_at :: string

record snapshot_row =
  sn_snapshot_id :: string
  sn_owner_subject :: string
  sn_device_id :: string
  sn_job_id :: string
  sn_revision :: nat
  sn_document_revision :: string
  sn_observation_level :: string
  sn_drawing :: json
  sn_entity_summary :: json
  sn_entities :: json
  sn_created_at :: string
  sn_revision_strength :: "string option"
  sn_commit_safe :: bool

record 'x store_db =
  st_devices :: "device_row list"
  st_sessions :: "session_row list"
  st_jobs :: "job_row list"
  st_events :: "event_row list"
  st_snapshots :: "snapshot_row list"
  st_other :: 'x

definition empty_store :: "'x \<Rightarrow> 'x store_db" where
  "empty_store other = \<lparr>st_devices = [], st_sessions = [], st_jobs = [], st_events = [],
     st_snapshots = [], st_other = other\<rparr>"

text \<open>Lookups by primary key.\<close>

definition device_row_of :: "string \<Rightarrow> 'x store_db \<Rightarrow> device_row option" where
  "device_row_of device_id db = select1 (\<lambda>r. dv_device_id r = device_id) (st_devices db)"

definition session_row_of :: "string \<Rightarrow> 'x store_db \<Rightarrow> session_row option" where
  "session_row_of session_id db = select1 (\<lambda>r. ss_session_id r = session_id) (st_sessions db)"

definition job_row_of :: "string \<Rightarrow> 'x store_db \<Rightarrow> job_row option" where
  "job_row_of job_id db = select1 (\<lambda>r. jb_job_id r = job_id) (st_jobs db)"

definition session_active :: "session_row \<Rightarrow> bool" where
  "session_active r \<longleftrightarrow> ss_disconnected_at r = None"

end
