(* ===== verification/StoreSessions.thy ===== *)
theory StoreSessions
  imports StoreTables
begin

text \<open>
  Devices and Agent sessions of the store: seeding and listing devices, activating a session (which
  replaces the device's previous one), heartbeats, staleness, closing, and the disconnect of every
  session at start-up.
\<close>

section \<open>Devices\<close>

definition no_agent_columns :: "string list \<Rightarrow> string option \<Rightarrow> agent_columns" where
  "no_agent_columns capabilities hash =
    \<lparr>ac_capabilities = capabilities, ac_capability_hash = hash, ac_agent_version = None,
     ac_packages = [], ac_package_manifest_hash = None, ac_capability_manifest = None,
     ac_capability_manifest_hash = None, ac_operation_registry_hash = None,
     ac_registry_version = None, ac_write_lock_enabled = False, ac_hard_pause = False,
     ac_active_document_id = None, ac_active_document_revision = None\<rparr>"

definition seed_device ::
  "pylib \<Rightarrow> string \<Rightarrow> string \<Rightarrow> string \<Rightarrow> string \<Rightarrow> json list \<Rightarrow> string \<Rightarrow> 'x store_db \<Rightarrow>
   store_error + 'x store_db" where
  "seed_device L now owner device_id display_name capabilities fixture_auth_ref db =
    bindE (store_capabilities capabilities) (\<lambda>normalized.
    bindE (capability_list_hash L (map JStr normalized)) (\<lambda>hash.
    bindE (json_column L 16384 (JList (map JStr normalized))) (\<lambda>_.
    Inr (case device_row_of device_id db of
           Some _ \<Rightarrow> db\<lparr>st_devices := update_where (\<lambda>r. dv_device_id r = device_id)
             (\<lambda>r. r\<lparr>dv_owner_subject := owner, dv_display_name := display_name,
                    dv_fixture_auth_ref := fixture_auth_ref, dv_updated_at := now\<rparr>)
             (st_devices db)\<rparr>
         | None \<Rightarrow> db\<lparr>st_devices := st_devices db @
             [\<lparr>dv_device_id = device_id, dv_owner_subject = owner, dv_display_name = display_name,
               dv_status = DeviceOffline, dv_fixture_auth_ref = fixture_auth_ref,
               dv_created_at = now, dv_updated_at = now, dv_runtime_state = None,
               dv_document_name = None, dv_paused = False, dv_runtime_updated_at = None,
               dv_agent = no_agent_columns normalized (Some hash)\<rparr>]\<rparr>))))"

definition list_devices ::
  "string \<Rightarrow> bool \<Rightarrow> string option \<Rightarrow> 'x store_db \<Rightarrow> device_row list" where
  "list_devices owner online_only capability db =
    (let rows = sort_key dv_device_id
           (filter (\<lambda>r. dv_owner_subject r = owner \<and> (online_only \<longrightarrow> dv_status r = DeviceOnline))
             (st_devices db))
     in case capability of
          None \<Rightarrow> rows
        | Some c \<Rightarrow> if c = [] then rows else filter (\<lambda>r. c \<in> set (ac_capabilities (dv_agent r))) rows)"

definition get_device :: "string \<Rightarrow> string \<Rightarrow> 'x store_db \<Rightarrow> device_row option" where
  "get_device owner device_id db =
    select1 (\<lambda>r. dv_owner_subject r = owner \<and> dv_device_id r = device_id) (st_devices db)"

definition update_device ::
  "string \<Rightarrow> (device_row \<Rightarrow> device_row) \<Rightarrow> 'x store_db \<Rightarrow> 'x store_db" where
  "update_device device_id f db =
    db\<lparr>st_devices := update_where (\<lambda>r. dv_device_id r = device_id) f (st_devices db)\<rparr>"

definition set_device_status ::
  "string \<Rightarrow> string \<Rightarrow> device_status \<Rightarrow> 'x store_db \<Rightarrow> 'x store_db" where
  "set_device_status now device_id status db =
    update_device device_id (\<lambda>r. r\<lparr>dv_status := status, dv_updated_at := now\<rparr>) db"

section \<open>Activation\<close>

record activation =
  av_device_id :: string
  av_session_id :: string
  av_protocol_version :: string
  av_capabilities :: "json list"
  av_capability_hash :: string
  av_last_sequence :: int
  av_agent_version :: "string option"
  av_packages :: "json list"
  av_package_manifest_hash :: "string option"
  av_runtime_state :: "string option"
  av_document_name :: "string option"
  av_paused :: "bool option"
  av_capability_manifest :: "json option"
  av_capability_manifest_hash :: "string option"
  av_operation_registry_hash :: "string option"
  av_registry_version :: "string option"
  av_write_lock_enabled :: bool
  av_hard_pause :: bool
  av_active_document_id :: "string option"
  av_active_document_revision :: "string option"

record activated =
  ad_session_id :: string
  ad_device_id :: string
  ad_agent :: agent_columns
  ad_capability_changed :: bool
  ad_replaced_session_ids :: "string list"
  ad_last_sequence :: int

text \<open>The checks before the transaction, and the columns it will write.\<close>

definition activation_columns :: "pylib \<Rightarrow> activation \<Rightarrow> store_error + agent_columns" where
  "activation_columns L a =
    bindE (store_capabilities (av_capabilities a)) (\<lambda>normalized.
    bindE (capability_list_hash L (map JStr normalized)) (\<lambda>computed.
    bindE (guard (av_capability_hash a = computed) ''capability_hash_mismatch'') (\<lambda>_.
    bindE (guard (0 \<le> av_last_sequence a) ''sequence_rejected'') (\<lambda>_.
    bindE (lift_value (canonical_packages (av_packages a))) (\<lambda>packages.
    bindE (lift_value (canonical_package_manifest_hash L (map dump_package packages))) (\<lambda>package_hash.
    bindE (guard (av_package_manifest_hash a \<in> {None, Some package_hash}) ''package_hash_mismatch'')
      (\<lambda>_.
    Inr \<lparr>ac_capabilities = normalized, ac_capability_hash = Some computed,
         ac_agent_version = av_agent_version a, ac_packages = packages,
         ac_package_manifest_hash = Some package_hash,
         ac_capability_manifest = av_capability_manifest a,
         ac_capability_manifest_hash = av_capability_manifest_hash a,
         ac_operation_registry_hash = av_operation_registry_hash a,
         ac_registry_version = av_registry_version a,
         ac_write_lock_enabled = av_write_lock_enabled a, ac_hard_pause = av_hard_pause a,
         ac_active_document_id = av_active_document_id a,
         ac_active_document_revision = av_active_document_revision a\<rparr>)))))))"

definition open_session ::
  "string \<Rightarrow> activation \<Rightarrow> agent_columns \<Rightarrow> session_row list \<Rightarrow> session_row list" where
  "open_session now a cols rows =
    (if select1 (\<lambda>r. ss_session_id r = av_session_id a) rows = None
     then rows @ [\<lparr>ss_session_id = av_session_id a, ss_device_id = av_device_id a,
            ss_protocol_version = av_protocol_version a, ss_connected_at = now,
            ss_last_heartbeat_at = now, ss_disconnected_at = None,
            ss_last_sequence = av_last_sequence a, ss_agent = cols\<rparr>]
     else update_where (\<lambda>r. ss_session_id r = av_session_id a)
            (\<lambda>r. r\<lparr>ss_disconnected_at := None, ss_last_heartbeat_at := now,
                   ss_last_sequence := max (ss_last_sequence r) (av_last_sequence a),
                   ss_agent := cols\<rparr>) rows)"

definition replaced_by :: "activation \<Rightarrow> session_row \<Rightarrow> bool" where
  "replaced_by a r \<longleftrightarrow> ss_device_id r = av_device_id a \<and> session_active r
     \<and> ss_session_id r \<noteq> av_session_id a"

definition device_online :: "string \<Rightarrow> activation \<Rightarrow> agent_columns \<Rightarrow> device_row \<Rightarrow> device_row" where
  "device_online now a cols r =
    r\<lparr>dv_status := DeviceOnline, dv_agent := cols, dv_runtime_state := av_runtime_state a,
      dv_document_name := av_document_name a, dv_paused := (av_paused a = Some True),
      dv_runtime_updated_at := Some now, dv_updated_at := now\<rparr>"

definition activate_session ::
  "pylib \<Rightarrow> string \<Rightarrow> activation \<Rightarrow> 'x store_db \<Rightarrow> store_error + (activated \<times> 'x store_db)" where
  "activate_session L now a db =
    bindE (activation_columns L a) (\<lambda>cols.
    case device_row_of (av_device_id a) db of
      None \<Rightarrow> Inl (Conflict ''not_found'')
    | Some device \<Rightarrow>
        bindE (case session_row_of (av_session_id a) db of
                 None \<Rightarrow> Inr ()
               | Some s \<Rightarrow> guard (ss_device_id s = av_device_id a
                              \<and> ss_protocol_version s = av_protocol_version a) ''session_mismatch'')
          (\<lambda>_.
        let replaced = map ss_session_id
              (sort_key (\<lambda>r. [ss_connected_at r, ss_session_id r])
                (filter (replaced_by a) (st_sessions db)));
            closed = update_where (replaced_by a)
              (\<lambda>r. r\<lparr>ss_disconnected_at := Some now\<rparr>) (st_sessions db)
        in bindE (json_column L 16384 (JList (map JStr (ac_capabilities cols)))) (\<lambda>_.
           bindE (opt_json_column L 65536 (av_capability_manifest a)) (\<lambda>_.
           bindE (json_column L 65536 (JList (map dump_package (ac_packages cols)))) (\<lambda>_.
           let sessions = open_session now a cols closed;
               changed = (ac_capabilities (dv_agent device) \<noteq> ac_capabilities cols
                  \<or> ac_capability_hash (dv_agent device) \<noteq> ac_capability_hash cols);
               sequence = ss_last_sequence
                 (the (select1 (\<lambda>r. ss_session_id r = av_session_id a) sessions))
           in Inr (\<lparr>ad_session_id = av_session_id a, ad_device_id = av_device_id a,
                    ad_agent = cols, ad_capability_changed = changed,
                    ad_replaced_session_ids = replaced, ad_last_sequence = sequence\<rparr>,
                   update_device (av_device_id a) (device_online now a cols)
                     (db\<lparr>st_sessions := sessions\<rparr>)))))))"

text \<open>\<open>create_session\<close>: an activation with the capabilities the device already has.\<close>

definition plain_activation ::
  "string \<Rightarrow> string \<Rightarrow> string \<Rightarrow> string list \<Rightarrow> string \<Rightarrow> activation" where
  "plain_activation device_id session_id protocol_version capabilities hash =
    \<lparr>av_device_id = device_id, av_session_id = session_id,
     av_protocol_version = protocol_version, av_capabilities = map JStr capabilities,
     av_capability_hash = hash, av_last_sequence = 0, av_agent_version = None, av_packages = [],
     av_package_manifest_hash = None, av_runtime_state = None, av_document_name = None,
     av_paused = None, av_capability_manifest = None, av_capability_manifest_hash = None,
     av_operation_registry_hash = None, av_registry_version = None,
     av_write_lock_enabled = False, av_hard_pause = False, av_active_document_id = None,
     av_active_document_revision = None\<rparr>"

definition create_session ::
  "pylib \<Rightarrow> string \<Rightarrow> string \<Rightarrow> string \<Rightarrow> string \<Rightarrow> 'x store_db \<Rightarrow>
   store_error + (activated \<times> 'x store_db)" where
  "create_session L now device_id session_id protocol_version db =
    (case device_row_of device_id db of
       None \<Rightarrow> Inl (Conflict ''not_found'')
     | Some device \<Rightarrow>
         let capabilities = ac_capabilities (dv_agent device)
         in bindE (capability_list_hash L (map JStr capabilities)) (\<lambda>hash.
            activate_session L now
              (plain_activation device_id session_id protocol_version capabilities hash) db))"

section \<open>Heartbeats and the end of sessions\<close>

record session_heartbeat =
  sh_sequence :: int
  sh_runtime_state :: "string option"
  sh_document_name :: "string option"
  sh_paused :: "bool option"
  sh_write_lock_enabled :: "bool option"
  sh_hard_pause :: "bool option"
  sh_active_document_id :: "string option"
  sh_active_document_revision :: "string option"
  sh_phase6_state_present :: bool

text \<open>The four \<open>CASE WHEN phase6_state_present\<close> columns.\<close>

definition heartbeat_columns :: "session_heartbeat \<Rightarrow> agent_columns \<Rightarrow> agent_columns" where
  "heartbeat_columns h c =
    (if sh_phase6_state_present h
     then c\<lparr>ac_write_lock_enabled := (sh_write_lock_enabled h = Some True),
            ac_hard_pause := (sh_hard_pause h = Some True),
            ac_active_document_id := sh_active_document_id h,
            ac_active_document_revision := sh_active_document_revision h\<rparr>
     else c)"

definition active_session_of :: "string \<Rightarrow> string \<Rightarrow> session_row \<Rightarrow> bool" where
  "active_session_of session_id device_id r \<longleftrightarrow>
     ss_session_id r = session_id \<and> ss_device_id r = device_id \<and> session_active r"

definition heartbeat_session ::
  "string \<Rightarrow> string \<Rightarrow> string \<Rightarrow> session_heartbeat \<Rightarrow> 'x store_db \<Rightarrow>
   store_error + (bool \<times> 'x store_db)" where
  "heartbeat_session now session_id device_id h db =
    (if sh_sequence h < 0 then Inl (Conflict ''sequence_rejected'')
     else
       let target = active_session_of session_id device_id;
           db1 = db\<lparr>st_sessions := update_where target
               (\<lambda>r. r\<lparr>ss_last_heartbeat_at := now,
                      ss_last_sequence := max (ss_last_sequence r) (sh_sequence h),
                      ss_agent := heartbeat_columns h (ss_agent r)\<rparr>) (st_sessions db)\<rparr>
       in if count_where target (st_sessions db) \<noteq> 1 then Inr (False, db1)
          else Inr (True, update_device device_id
            (\<lambda>r. r\<lparr>dv_status := DeviceOnline, dv_runtime_state := sh_runtime_state h,
                   dv_document_name := sh_document_name h,
                   dv_paused := (case sh_paused h of None \<Rightarrow> dv_paused r | Some p \<Rightarrow> p),
                   dv_agent := heartbeat_columns h (dv_agent r),
                   dv_runtime_updated_at := Some now, dv_updated_at := now\<rparr>) db1))"

definition mark_session_stale ::
  "string \<Rightarrow> string \<Rightarrow> string \<Rightarrow> 'x store_db \<Rightarrow> bool \<times> 'x store_db" where
  "mark_session_stale now session_id device_id db =
    (case select1 (active_session_of session_id device_id) (st_sessions db) of
       None \<Rightarrow> (False, db)
     | Some _ \<Rightarrow> (True, set_device_status now device_id DeviceOffline db))"

definition get_active_session :: "string \<Rightarrow> 'x store_db \<Rightarrow> session_row option" where
  "get_active_session device_id db =
    select1 (\<lambda>r. ss_device_id r = device_id \<and> session_active r) (st_sessions db)"

definition close_session ::
  "string \<Rightarrow> string \<Rightarrow> string option \<Rightarrow> 'x store_db \<Rightarrow> store_error + (bool \<times> 'x store_db)" where
  "close_session now session_id device_id db =
    (case session_row_of session_id db of
       None \<Rightarrow> Inr (False, db)
     | Some row \<Rightarrow>
         let actual = ss_device_id row in
         if device_id \<noteq> None \<and> device_id \<noteq> Some actual then Inl (Conflict ''session_mismatch'')
         else
           let target = (\<lambda>r. ss_session_id r = session_id \<and> session_active r);
               db1 = db\<lparr>st_sessions := update_where target
                   (\<lambda>r. r\<lparr>ss_disconnected_at := Some now\<rparr>) (st_sessions db)\<rparr>
           in if count_where target (st_sessions db) = 1 then
                (case select1 (\<lambda>r. ss_device_id r = actual \<and> session_active r
                        \<and> ss_session_id r \<noteq> session_id) (st_sessions db1) of
                   None \<Rightarrow> Inr (True, set_device_status now actual DeviceOffline db1)
                 | Some _ \<Rightarrow> Inr (True, db1))
              else Inr (False, db1))"

definition mark_sessions_disconnected :: "string \<Rightarrow> 'x store_db \<Rightarrow> 'x store_db" where
  "mark_sessions_disconnected now db =
    db\<lparr>st_sessions := update_where session_active
         (\<lambda>r. r\<lparr>ss_disconnected_at := Some now\<rparr>) (st_sessions db),
       st_devices := update_where (\<lambda>r. dv_status r = DeviceOnline)
         (\<lambda>r. r\<lparr>dv_status := DeviceOffline, dv_updated_at := now\<rparr>) (st_devices db)\<rparr>"

end
