(* ===== verification/StoreJobs.thy ===== *)
theory StoreJobs
  imports StoreTables
begin

text \<open>
  Durable jobs, their event log and their snapshots: creation with an idempotency key, claiming for
  dispatch, validated transitions under optimistic locking, cancellation, progress, the event page
  query and the atomic finalisation of an Agent's result.
\<close>

section \<open>Events\<close>

text \<open>\<open>COALESCE(MAX(sequence), 0) + 1\<close>\<close>

definition next_event_sequence :: "string \<Rightarrow> event_row list \<Rightarrow> nat" where
  "next_event_sequence job_id events =
    foldr max (map ev_sequence (filter (\<lambda>e. ev_job_id e = job_id) events)) 0 + 1"

definition append_event ::
  "pylib \<Rightarrow> string \<Rightarrow> string \<Rightarrow> event_type \<Rightarrow> job_state option \<Rightarrow> json option \<Rightarrow> json option \<Rightarrow>
   string option \<Rightarrow> 'x store_db \<Rightarrow> store_error + 'x store_db" where
  "append_event L now job_id event_type state progress result error_code db =
    bindE (opt_json_column L 16384 progress) (\<lambda>_.
    bindE (opt_json_column L JSON_LIMIT result) (\<lambda>_.
    Inr (db\<lparr>st_events := st_events db @
      [\<lparr>ev_job_id = job_id, ev_sequence = next_event_sequence job_id (st_events db),
        ev_event_type = event_type, ev_state = state, ev_progress = progress,
        ev_error_code = error_code, ev_result = result, ev_created_at = now\<rparr>]\<rparr>)))"

section \<open>Creation\<close>

record job_request =
  jr_owner_subject :: string
  jr_device_id :: string
  jr_kind :: string
  jr_effect_class :: effect_class
  jr_payload :: json
  jr_idempotency_key :: string
  jr_deadline_at :: "string option"

text \<open>
  \<open>wire_hash\<close> is \<open>program_wire_payload_hash\<close>, the hash of the Agent message that a program payload
  becomes; every other payload is hashed as it is.
\<close>

definition uses_wire_hash :: "json \<Rightarrow> bool" where
  "uses_wire_hash payload \<longleftrightarrow>
     is_dict (jget payload ''binding'')
     \<and> jget (jget payload ''binding'') ''schema_version'' = JStr ''cad.execution-binding/1''"

definition request_hash ::
  "pylib \<Rightarrow> (string \<Rightarrow> effect_class \<Rightarrow> json \<Rightarrow> value_error + string) \<Rightarrow> job_request \<Rightarrow>
   store_error + string" where
  "request_hash L wire_hash q =
    conflict_on_error ''payload_invalid''
      (if uses_wire_hash (jr_payload q)
       then wire_hash (jr_kind q) (jr_effect_class q) (jr_payload q)
       else canonical_payload_hash L (jr_payload q))"

definition queued_row ::
  "string \<Rightarrow> string \<Rightarrow> string \<Rightarrow> string \<Rightarrow> string \<Rightarrow> job_request \<Rightarrow> job_row" where
  "queued_row now job_id command_id payload_hash fingerprint q =
    \<lparr>jb_job_id = job_id, jb_owner_subject = jr_owner_subject q, jb_device_id = jr_device_id q,
     jb_kind = jr_kind q, jb_effect_class = jr_effect_class q, jb_state = Queued,
     jb_state_version = 0, jb_deadline_at = jr_deadline_at q, jb_command_id = command_id,
     jb_idempotency_key = jr_idempotency_key q, jb_payload_hash = payload_hash,
     jb_payload = jr_payload q, jb_progress = None, jb_result = None, jb_error_code = None,
     jb_error_summary = None, jb_request_fingerprint = Some fingerprint,
     jb_last_agent_sequence = 0, jb_cancel_requested_at = None, jb_created_at = now,
     jb_updated_at = now\<rparr>"

definition request_key :: "job_row \<Rightarrow> string \<times> string \<times> string" where
  "request_key r = (jb_owner_subject r, jb_device_id r, jb_idempotency_key r)"

definition same_request :: "job_row \<Rightarrow> job_request \<Rightarrow> string \<Rightarrow> string \<Rightarrow> bool" where
  "same_request r q payload_hash fingerprint \<longleftrightarrow>
     jb_kind r = jr_kind q \<and> jb_effect_class r = jr_effect_class q
     \<and> jb_payload_hash r = payload_hash
     \<and> jb_request_fingerprint r \<in> {None, Some fingerprint}"

definition update_job :: "string \<Rightarrow> (job_row \<Rightarrow> job_row) \<Rightarrow> 'x store_db \<Rightarrow> 'x store_db" where
  "update_job job_id f db =
    db\<lparr>st_jobs := update_where (\<lambda>r. jb_job_id r = job_id) f (st_jobs db)\<rparr>"

definition create_job ::
  "pylib \<Rightarrow> (string \<Rightarrow> effect_class \<Rightarrow> json \<Rightarrow> value_error + string) \<Rightarrow> string \<Rightarrow> string \<Rightarrow> string \<Rightarrow>
   job_request \<Rightarrow> 'x store_db \<Rightarrow> store_error + ((job_row \<times> bool) \<times> 'x store_db)" where
  "create_job L wire_hash now new_job_id new_command_id q db =
    bindE (request_hash L wire_hash q) (\<lambda>payload_hash.
    bindE (request_fingerprint L (jr_kind q) (jr_effect_class q) payload_hash) (\<lambda>fingerprint.
    if select1 (\<lambda>r. dv_device_id r = jr_device_id q \<and> dv_owner_subject r = jr_owner_subject q)
         (st_devices db) = None
    then Inl (Conflict ''not_found'')
    else case select1 (\<lambda>r. request_key r =
                (jr_owner_subject q, jr_device_id q, jr_idempotency_key q)) (st_jobs db) of
      Some existing \<Rightarrow>
        if \<not> same_request existing q payload_hash fingerprint
        then Inl (Conflict ''idempotency_conflict'')
        else if jb_request_fingerprint existing = None then
          let db' = db\<lparr>st_jobs := update_where
                (\<lambda>r. jb_job_id r = jb_job_id existing \<and> jb_request_fingerprint r = None)
                (\<lambda>r. r\<lparr>jb_request_fingerprint := Some fingerprint\<rparr>) (st_jobs db)\<rparr>
          in Inr ((the (job_row_of (jb_job_id existing) db'), True), db')
        else Inr ((existing, True), db)
    | None \<Rightarrow>
        if new_job_id \<in> set (map jb_job_id (st_jobs db))
           \<or> new_command_id \<in> set (map jb_command_id (st_jobs db))
        then Inl IntegrityError
        else
          let row = queued_row now new_job_id new_command_id payload_hash fingerprint q
          in bindE (json_column L JSON_LIMIT (jr_payload q)) (\<lambda>_.
             bindE (append_event L now new_job_id StateEvent (Some Queued) None None None
                      (db\<lparr>st_jobs := st_jobs db @ [row]\<rparr>)) (\<lambda>db'.
             Inr ((the (job_row_of new_job_id db'), False), db')))))"

section \<open>Lookups\<close>

definition get_job :: "string \<Rightarrow> string \<Rightarrow> 'x store_db \<Rightarrow> job_row option" where
  "get_job owner job_id db =
    select1 (\<lambda>r. jb_owner_subject r = owner \<and> jb_job_id r = job_id) (st_jobs db)"

definition get_job_by_command :: "string \<Rightarrow> string \<Rightarrow> 'x store_db \<Rightarrow> job_row option" where
  "get_job_by_command device_id command_id db =
    select1 (\<lambda>r. jb_device_id r = device_id \<and> jb_command_id r = command_id) (st_jobs db)"

definition jobs_for_device :: "string \<Rightarrow> 'x store_db \<Rightarrow> job_row list" where
  "jobs_for_device device_id db =
    sort_key jb_created_at
      (filter (\<lambda>r. jb_device_id r = device_id \<and> \<not> is_terminal (jb_state r)) (st_jobs db))"

definition all_nonterminal_jobs :: "'x store_db \<Rightarrow> job_row list" where
  "all_nonterminal_jobs db =
    sort_key jb_created_at (filter (\<lambda>r. \<not> is_terminal (jb_state r)) (st_jobs db))"

text \<open>One page of the event log: the events after the cursor, and the cursor of the next page.\<close>

definition list_events ::
  "string \<Rightarrow> string \<Rightarrow> nat \<Rightarrow> nat \<Rightarrow> 'x store_db \<Rightarrow> event_row list \<times> string option" where
  "list_events owner job_id cursor limit db =
    (case get_job owner job_id db of
       None \<Rightarrow> ([], None)
     | Some _ \<Rightarrow>
         let rows = take (limit + 1) (sort_key ev_sequence
               (filter (\<lambda>e. ev_job_id e = job_id \<and> cursor < ev_sequence e) (st_events db)));
             values = take limit rows
         in (values, if limit < length rows \<and> values \<noteq> []
                     then Some (decimal (ev_sequence (last values))) else None))"

section \<open>Transitions\<close>

text \<open>
  The optimistic update of every transition: the row is rewritten where its state and version are
  still the ones read; any other row count than one is a conflict.
\<close>

definition cas_update ::
  "string \<Rightarrow> job_state \<Rightarrow> nat \<Rightarrow> (job_row \<Rightarrow> job_row) \<Rightarrow> 'x store_db \<Rightarrow>
   store_error + 'x store_db" where
  "cas_update job_id state version f db =
    (let target = (\<lambda>r. jb_job_id r = job_id \<and> jb_state r = state \<and> jb_state_version r = version)
     in if count_where target (st_jobs db) \<noteq> 1 then Inl (Conflict ''cas_conflict'')
        else Inr (db\<lparr>st_jobs := update_where target f (st_jobs db)\<rparr>))"

definition claim_job ::
  "pylib \<Rightarrow> string \<Rightarrow> string \<Rightarrow> 'x store_db \<Rightarrow> store_error + (job_row option \<times> 'x store_db)" where
  "claim_job L now job_id db =
    (case job_row_of job_id db of
       None \<Rightarrow> Inr (None, db)
     | Some row \<Rightarrow>
         if jb_state row \<noteq> Queued then Inr (None, db)
         else case cas_update job_id Queued (jb_state_version row)
                (\<lambda>r. r\<lparr>jb_state := Dispatched, jb_state_version := jb_state_version r + 1,
                       jb_updated_at := now\<rparr>) db of
             Inl _ \<Rightarrow> Inr (None, db)
           | Inr db1 \<Rightarrow>
               bindE (append_event L now job_id StateEvent (Some Dispatched) None None None db1)
                 (\<lambda>db2. Inr (job_row_of job_id db2, db2)))"

record job_change =
  jc_target :: job_state
  jc_expected_version :: "nat option"
  jc_evidence :: bool
  jc_result :: "json option"
  jc_error_code :: "string option"
  jc_error_summary :: "string option"

definition result_snapshot :: "json option \<Rightarrow> json" where
  "result_snapshot result =
    (case result of None \<Rightarrow> JNull | Some v \<Rightarrow> if is_dict v then jget v ''snapshot'' else JNull)"

definition transitioned_row :: "string \<Rightarrow> job_change \<Rightarrow> job_row \<Rightarrow> job_row" where
  "transitioned_row now c r =
    r\<lparr>jb_state := jc_target c, jb_state_version := jb_state_version r + 1,
      jb_result := coalesce (jc_result c) (jb_result r),
      jb_error_code := coalesce (jc_error_code c) (jb_error_code r),
      jb_error_summary := coalesce (jc_error_summary c) (jb_error_summary r),
      jb_cancel_requested_at :=
        (if jc_target c = CancelRequested
         then coalesce (jb_cancel_requested_at r) (Some now) else jb_cancel_requested_at r),
      jb_updated_at := now\<rparr>"

definition transition_job ::
  "pylib \<Rightarrow> string \<Rightarrow> string \<Rightarrow> job_change \<Rightarrow> 'x store_db \<Rightarrow>
   store_error + (job_row option \<times> 'x store_db)" where
  "transition_job L now job_id c db =
    (if is_dict (result_snapshot (jc_result c)) then Inl (Conflict ''atomic_finalization_required'')
     else case job_row_of job_id db of
       None \<Rightarrow> Inr (None, db)
     | Some row \<Rightarrow>
         bindE (guard (\<not> (jc_target c = Succeeded \<and> jb_kind row = ''observe''))
                 ''atomic_finalization_required'') (\<lambda>_.
         bindE (lift_transition (validate_transition (jb_state row) (jc_target c)
                 (jb_effect_class row) (jc_evidence c))) (\<lambda>_.
         bindE (guard (jc_expected_version c \<in> {None, Some (jb_state_version row)}) ''cas_conflict'')
           (\<lambda>_.
         bindE (opt_json_column L JSON_LIMIT (jc_result c)) (\<lambda>_.
         bindE (cas_update job_id (jb_state row) (jb_state_version row) (transitioned_row now c) db)
           (\<lambda>db1.
         bindE (append_event L now job_id StateEvent (Some (jc_target c)) None (jc_result c)
                 (jc_error_code c) db1) (\<lambda>db2.
         Inr (job_row_of job_id db2, db2))))))))"

text \<open>
  The state a cancellation request leads to.  The source's update also asks for
  \<open>cancel_requested_at IS NULL\<close>; the row it read in the same transaction has none, so that condition
  never decides, and its branch for a concurrently stored intent is not reachable.
\<close>

definition cancel_target :: "job_state \<Rightarrow> effect_class \<Rightarrow> store_error + job_state" where
  "cancel_target current effect =
    (if current = Queued then
       bindE (lift_transition (validate_transition current Cancelled effect False))
         (\<lambda>_. Inr Cancelled)
     else if current \<in> {Dispatched, Acknowledged, Running} then
       bindE (lift_transition (validate_transition current CancelRequested effect False))
         (\<lambda>_. Inr CancelRequested)
     else if current \<in> {CancelRequested, ReconnectPending, OutcomeUnknown} then Inr current
     else Inl (Conflict ''invalid_state''))"

definition request_job_cancel ::
  "pylib \<Rightarrow> string \<Rightarrow> string \<Rightarrow> nat option \<Rightarrow> 'x store_db \<Rightarrow>
   store_error + (job_row option \<times> 'x store_db)" where
  "request_job_cancel L now job_id expected_version db =
    (case job_row_of job_id db of
       None \<Rightarrow> Inr (None, db)
     | Some row \<Rightarrow>
         if is_terminal (jb_state row) \<or> jb_cancel_requested_at row \<noteq> None then Inr (Some row, db)
         else
           bindE (guard (expected_version \<in> {None, Some (jb_state_version row)}) ''cas_conflict'')
             (\<lambda>_.
           bindE (cancel_target (jb_state row) (jb_effect_class row)) (\<lambda>target.
           bindE (cas_update job_id (jb_state row) (jb_state_version row)
                   (\<lambda>r. r\<lparr>jb_state := target, jb_state_version := jb_state_version r + 1,
                          jb_cancel_requested_at := Some now, jb_updated_at := now\<rparr>) db) (\<lambda>db1.
           bindE (append_event L now job_id StateEvent (Some target) None
                   (Some (JObj [(''cancel_requested'', JBool True)])) None db1) (\<lambda>db2.
           Inr (job_row_of job_id db2, db2))))))"

section \<open>Progress\<close>

record progress_report =
  pr_phase :: string
  pr_percent :: int
  pr_message :: string
  pr_sequence :: int
  pr_expected_version :: "nat option"

definition progress_json :: "progress_report \<Rightarrow> json" where
  "progress_json p = JObj [(''phase'', JStr (pr_phase p)), (''percent'', JInt (pr_percent p)),
     (''message'', JStr (pr_message p)), (''sequence'', JInt (pr_sequence p))]"

definition append_progress ::
  "pylib \<Rightarrow> string \<Rightarrow> string \<Rightarrow> progress_report \<Rightarrow> 'x store_db \<Rightarrow>
   store_error + (job_row option \<times> 'x store_db)" where
  "append_progress L now job_id p db =
    (case job_row_of job_id db of
       None \<Rightarrow> Inr (None, db)
     | Some row \<Rightarrow>
         if is_terminal (jb_state row) then Inl (Conflict ''terminal_immutable'')
         else if jb_state row \<notin> {Acknowledged, Running, CancelRequested}
         then Inl (Conflict ''message_order_invalid'')
         else if pr_expected_version p \<notin> {None, Some (jb_state_version row)}
         then Inl (Conflict ''cas_conflict'')
         else if pr_sequence p < jb_last_agent_sequence row
         then Inl (Conflict ''sequence_rejected'')
         else if pr_sequence p = jb_last_agent_sequence row \<and> jb_progress row \<noteq> None then
           (if \<not> py_eq (the (jb_progress row)) (progress_json p)
            then Inl (Conflict ''sequence_rejected'') else Inr (Some row, db))
         else
           bindE (json_column L 16384 (progress_json p)) (\<lambda>_.
           bindE (cas_update job_id (jb_state row) (jb_state_version row)
                   (\<lambda>r. r\<lparr>jb_progress := Some (progress_json p),
                          jb_last_agent_sequence := pr_sequence p, jb_updated_at := now\<rparr>) db) (\<lambda>db1.
           bindE (append_event L now job_id ProgressEvent (Some (jb_state row))
                   (Some (progress_json p)) None None db1) (\<lambda>db2.
           Inr (job_row_of job_id db2, db2)))))"

section \<open>Snapshots and results\<close>

text \<open>What \<open>sqlite3\<close> stores for a JSON value in a text column.\<close>

fun sql_text_value :: "pylib \<Rightarrow> json \<Rightarrow> store_error + string option" where
  "sql_text_value L JNull = Inr None"
| "sql_text_value L (JBool b) = Inr (Some (if b then ''1'' else ''0''))"
| "sql_text_value L (JInt i) = Inr (Some (int_text i))"
| "sql_text_value L (JFloat f) =
     Inr (case f of FNaN \<Rightarrow> None | FFin q \<Rightarrow> Some (float_repr L q)
          | FPosInf \<Rightarrow> Some ''Inf'' | FNegInf \<Rightarrow> Some ''-Inf'')"
| "sql_text_value L (JStr s) = Inr (Some s)"
| "sql_text_value L _ = Inl BindingError"

definition nonempty_text :: "nat \<Rightarrow> json \<Rightarrow> bool" where
  "nonempty_text limit v \<longleftrightarrow> is_str v \<and> jstr v \<noteq> [] \<and> length (jstr v) \<le> limit"

text \<open>The fields of a snapshot are well formed and its level is the one the job asked for.\<close>

definition snapshot_evidence :: "json \<Rightarrow> json" where
  "snapshot_evidence snapshot =
    (if json_truthy (jget snapshot ''revision_evidence'') then jget snapshot ''revision_evidence''
     else JObj [])"

definition snapshot_fields_ok :: "json \<Rightarrow> json \<Rightarrow> bool" where
  "snapshot_fields_ok payload snapshot \<longleftrightarrow>
    (let level = jget_default snapshot ''observation_level'' (JStr ''summary'')
     in nonempty_text 128 (jget snapshot ''snapshot_id'')
        \<and> nonempty_text 256 (jget snapshot ''document_revision'')
        \<and> level \<in> {JStr ''summary'', JStr ''detail''}
        \<and> level = jget_default payload ''observation_level'' (JStr ''summary'')
        \<and> is_dict (jget_default snapshot ''drawing'' (JObj []))
        \<and> is_dict (jget_default snapshot ''entity_summary'' (JObj []))
        \<and> is_list (jget_default snapshot ''entities'' (JList []))
        \<and> is_dict (snapshot_evidence snapshot))"

definition new_snapshot_row :: "string \<Rightarrow> job_row \<Rightarrow> json \<Rightarrow> string option \<Rightarrow> snapshot_row" where
  "new_snapshot_row now job snapshot strength =
    \<lparr>sn_snapshot_id = jstr (jget snapshot ''snapshot_id''),
     sn_owner_subject = jb_owner_subject job, sn_device_id = jb_device_id job,
     sn_job_id = jb_job_id job, sn_revision = 1,
     sn_document_revision = jstr (jget snapshot ''document_revision''),
     sn_observation_level = jstr (jget_default snapshot ''observation_level'' (JStr ''summary'')),
     sn_drawing = jget_default snapshot ''drawing'' (JObj []),
     sn_entity_summary = jget_default snapshot ''entity_summary'' (JObj []),
     sn_entities = jget_default snapshot ''entities'' (JList []),
     sn_created_at = now, sn_revision_strength = strength,
     sn_commit_safe = json_truthy (jget (snapshot_evidence snapshot) ''commit_safe'')\<rparr>"

definition insert_snapshot ::
  "pylib \<Rightarrow> string \<Rightarrow> job_row \<Rightarrow> json \<Rightarrow> 'x store_db \<Rightarrow> store_error + 'x store_db" where
  "insert_snapshot L now job snapshot db =
    (let drawing = jget_default snapshot ''drawing'' (JObj []);
         summary = jget_default snapshot ''entity_summary'' (JObj []);
         entities = jget_default snapshot ''entities'' (JList []);
         evidence = snapshot_evidence snapshot
     in bindE (guard (snapshot_fields_ok (jb_payload job) snapshot) ''snapshot_invalid'') (\<lambda>_.
        bindE (guard (select1 (\<lambda>r. sn_job_id r = jb_job_id job) (st_snapshots db) = None)
          ''snapshot_conflict'') (\<lambda>_.
        bindE (guard (select1 (\<lambda>r. sn_snapshot_id r = jstr (jget snapshot ''snapshot_id''))
          (st_snapshots db) = None) ''snapshot_conflict'') (\<lambda>_.
        bindE (json_column L JSON_LIMIT drawing) (\<lambda>_.
        bindE (json_column L JSON_LIMIT summary) (\<lambda>_.
        bindE (json_column L JSON_LIMIT entities) (\<lambda>_.
        bindE (sql_text_value L (jget evidence ''revision_strength'')) (\<lambda>strength.
        Inr (db\<lparr>st_snapshots := st_snapshots db @ [new_snapshot_row now job snapshot strength]\<rparr>)))))))))"

definition get_snapshot :: "string \<Rightarrow> string \<Rightarrow> 'x store_db \<Rightarrow> snapshot_row option" where
  "get_snapshot owner snapshot_id db =
    select1 (\<lambda>r. sn_owner_subject r = owner \<and> sn_snapshot_id r = snapshot_id) (st_snapshots db)"

record job_outcome =
  jo_job_id :: string
  jo_device_id :: string
  jo_command_id :: string
  jo_payload_hash :: string
  jo_target :: job_state
  jo_result :: "json option"
  jo_error_code :: "string option"
  jo_error_summary :: "string option"
  jo_snapshot :: "json option"
  jo_session_id :: "string option"
  jo_expected_version :: "nat option"
  jo_agent_sequence :: "int option"
  jo_evidence :: bool

text \<open>A \<open>terminal_hook\<close> works on the tables of the other repositories, in the same transaction.\<close>

type_synonym 'x terminal_hook = "(job_row \<Rightarrow> 'x \<Rightarrow> store_error + 'x) option"

definition run_hook ::
  "'x terminal_hook \<Rightarrow> job_row \<Rightarrow> 'x store_db \<Rightarrow> store_error + 'x store_db" where
  "run_hook hook row db =
    (case hook of
       None \<Rightarrow> Inr db
     | Some h \<Rightarrow> bindE (h row (st_other db)) (\<lambda>other. Inr (db\<lparr>st_other := other\<rparr>)))"

text \<open>The checks before the transaction return the snapshot to store, if any.\<close>

definition effective_snapshot :: "job_outcome \<Rightarrow> store_error + json option" where
  "effective_snapshot ou =
    bindE (guard (is_terminal (jo_target ou)) ''terminal_state_required'') (\<lambda>_.
    bindE (guard (case jo_agent_sequence ou of None \<Rightarrow> True | Some n \<Rightarrow> 0 \<le> n) ''sequence_rejected'')
      (\<lambda>_.
    let in_result = result_snapshot (jo_result ou);
        snapshot = (case jo_snapshot ou of
                      Some s \<Rightarrow> Some s
                    | None \<Rightarrow> if is_dict in_result then Some in_result else None)
    in case snapshot of
         None \<Rightarrow> Inr None
       | Some s \<Rightarrow> bindE (guard (py_eq s in_result \<and> jo_target ou = Succeeded)
                     ''snapshot_result_invalid'') (\<lambda>_. Inr (Some s))))"

definition outcome_identity :: "job_outcome \<Rightarrow> job_row \<Rightarrow> 'x store_db \<Rightarrow> store_error + unit" where
  "outcome_identity ou row db =
    bindE (guard (jb_device_id row = jo_device_id ou \<and> jb_command_id row = jo_command_id ou)
      ''message_identity_mismatch'') (\<lambda>_.
    bindE (guard (jb_payload_hash row = jo_payload_hash ou) ''payload_mismatch'') (\<lambda>_.
    case jo_session_id ou of
      None \<Rightarrow> Inr ()
    | Some s \<Rightarrow> guard (\<exists>r \<in> set (st_sessions db). ss_session_id r = s
                 \<and> ss_device_id r = jo_device_id ou \<and> session_active r) ''session_mismatch''))"

definition same_outcome :: "job_outcome \<Rightarrow> job_row \<Rightarrow> bool" where
  "same_outcome ou row \<longleftrightarrow>
     jb_state row = jo_target ou \<and> opt_json_eq (jb_result row) (jo_result ou)
     \<and> jb_error_code row = jo_error_code ou \<and> jb_error_summary row = jo_error_summary ou"

definition stale_agent_sequence :: "job_outcome \<Rightarrow> job_row \<Rightarrow> bool" where
  "stale_agent_sequence ou row \<longleftrightarrow>
    (case jo_agent_sequence ou of
       None \<Rightarrow> False
     | Some n \<Rightarrow> n < jb_last_agent_sequence row
         \<or> (n = jb_last_agent_sequence row
            \<and> (jb_last_agent_sequence row \<noteq> 0 \<or> jb_progress row \<noteq> None)))"

definition finalized_row :: "string \<Rightarrow> job_outcome \<Rightarrow> job_row \<Rightarrow> job_row" where
  "finalized_row now ou r =
    r\<lparr>jb_state := jo_target ou, jb_state_version := jb_state_version r + 1,
      jb_result := jo_result ou, jb_error_code := jo_error_code ou,
      jb_error_summary := jo_error_summary ou,
      jb_last_agent_sequence := (case jo_agent_sequence ou of
        None \<Rightarrow> jb_last_agent_sequence r | Some n \<Rightarrow> n),
      jb_updated_at := now\<rparr>"

text \<open>The boolean of the result is \<open>duplicate_terminal\<close>.\<close>

definition finalize_job_result ::
  "pylib \<Rightarrow> string \<Rightarrow> 'x terminal_hook \<Rightarrow> job_outcome \<Rightarrow> 'x store_db \<Rightarrow>
   store_error + ((job_row \<times> bool) option \<times> 'x store_db)" where
  "finalize_job_result L now hook ou db =
    bindE (effective_snapshot ou) (\<lambda>snapshot.
    case job_row_of (jo_job_id ou) db of
      None \<Rightarrow> Inr (None, db)
    | Some row \<Rightarrow>
        bindE (outcome_identity ou row db) (\<lambda>_.
        if is_terminal (jb_state row) then
          (if same_outcome ou row
           then bindE (run_hook hook row db) (\<lambda>db'. Inr (Some (row, True), db'))
           else Inl (Conflict ''terminal_result_conflict''))
        else
          bindE (guard (jo_expected_version ou \<in> {None, Some (jb_state_version row)}) ''cas_conflict'')
            (\<lambda>_.
          bindE (lift_transition (validate_transition (jb_state row) (jo_target ou)
                  (jb_effect_class row) (jo_evidence ou))) (\<lambda>_.
          bindE (guard (\<not> stale_agent_sequence ou row) ''sequence_rejected'') (\<lambda>_.
          bindE (guard (\<not> (jb_kind row = ''observe'' \<and> jo_target ou = Succeeded
                         \<and> snapshot = None)) ''snapshot_required'') (\<lambda>_.
          bindE (case snapshot of None \<Rightarrow> Inr db | Some s \<Rightarrow> insert_snapshot L now row s db) (\<lambda>db1.
          bindE (run_hook hook row db1) (\<lambda>db2.
          bindE (opt_json_column L JSON_LIMIT (jo_result ou)) (\<lambda>_.
          bindE (cas_update (jo_job_id ou) (jb_state row) (jb_state_version row)
                  (finalized_row now ou) db2) (\<lambda>db3.
          bindE (append_event L now (jo_job_id ou) StateEvent (Some (jo_target ou)) None
                  (jo_result ou) (jo_error_code ou) db3) (\<lambda>db4.
          Inr (map_option (\<lambda>r. (r, False)) (job_row_of (jo_job_id ou) db4), db4))))))))))))"

end
