(* ===== verification/StoreLog.thy ===== *)
theory StoreLog
  imports StoreJobs
begin

text \<open>
  What the job operations of the store keep.  Every operation is first reduced to one of four
  effects on the tables \<open>jobs\<close> and \<open>job_events\<close> (\<open>job_delta\<close>); the invariant \<open>jobs_ok\<close> and the facts
  about finished jobs are then proved once per effect: keys are unique, the events of a job are
  numbered 1, 2, .., its state events spell the chain of validated transitions that led to its
  state, and a finished job never changes.
\<close>

section \<open>The log of a job\<close>

definition job_events :: "string \<Rightarrow> event_row list \<Rightarrow> event_row list" where
  "job_events k es = filter (\<lambda>e. ev_job_id e = k) es"

definition state_trail :: "string \<Rightarrow> event_row list \<Rightarrow> job_state option list" where
  "state_trail k es = map ev_state (filter (\<lambda>e. ev_event_type e = StateEvent) (job_events k es))"

text \<open>A trail of states: it starts queued, each entry repeats the last state (a cancellation noted in
  a recovery state) or follows it by a validated transition.\<close>

inductive trail_to :: "effect_class \<Rightarrow> job_state option list \<Rightarrow> job_state \<Rightarrow> bool" for eff where
  trail_start: "trail_to eff [Some Queued] Queued"
| trail_stay: "trail_to eff t s \<Longrightarrow> s \<noteq> Dispatched \<Longrightarrow> trail_to eff (t @ [Some s]) s"
| trail_step: "trail_to eff t s \<Longrightarrow> job_step eff s s' \<Longrightarrow> trail_to eff (t @ [Some s']) s'"

definition log_ok :: "job_row \<Rightarrow> event_row list \<Rightarrow> bool" where
  "log_ok r es \<longleftrightarrow>
     trail_to (jb_effect_class r) (state_trail (jb_job_id r) es) (jb_state r)
     \<and> length (state_trail (jb_job_id r) es) = jb_state_version r + 1"

definition numbered :: "event_row list \<Rightarrow> bool" where
  "numbered es \<longleftrightarrow>
     (\<forall>k. map ev_sequence (job_events k es) = [1..<Suc (length (job_events k es))])"

definition jobs_ok :: "'x store_db \<Rightarrow> bool" where
  "jobs_ok db \<longleftrightarrow>
     distinct (map jb_job_id (st_jobs db)) \<and> distinct (map jb_command_id (st_jobs db))
     \<and> distinct (map request_key (st_jobs db))
     \<and> ev_job_id ` set (st_events db) \<subseteq> jb_job_id ` set (st_jobs db)
     \<and> numbered (st_events db)
     \<and> (\<forall>r \<in> set (st_jobs db). log_ok r (st_events db))"

lemma job_events_append [simp]: "job_events k (es @ fs) = job_events k es @ job_events k fs"
  by (simp add: job_events_def)

lemma job_events_single [simp]: "job_events k [e] = (if ev_job_id e = k then [e] else [])"
  by (simp add: job_events_def)

lemma state_trail_append [simp]: "state_trail k (es @ fs) = state_trail k es @ state_trail k fs"
  by (simp add: state_trail_def)

lemma state_trail_single:
  "state_trail k [e] = (if ev_job_id e = k \<and> ev_event_type e = StateEvent then [ev_state e] else [])"
  by (simp add: state_trail_def)

lemma trail_path: "trail_to eff t s \<Longrightarrow> job_path eff Queued s"
  by (induction rule: trail_to.induct) (auto intro: job_path.intros)

lemma foldr_max_snoc: "foldr max (xs @ [y]) (0 :: nat) = max (foldr max xs 0) y"
  by (induction xs) (simp_all add: max.assoc)

lemma foldr_max_upt: "foldr max [Suc 0..<Suc n] 0 = n"
proof (induction n)
  case (Suc n)
  have "[Suc 0..<Suc (Suc n)] = [Suc 0..<Suc n] @ [Suc n]" by simp
  then have "foldr max [Suc 0..<Suc (Suc n)] 0 = max (foldr max [Suc 0..<Suc n] 0) (Suc n)"
    by (simp only: foldr_max_snoc)
  then show ?case using Suc by simp
qed simp

lemma next_event_sequence_numbered:
  "numbered es \<Longrightarrow> next_event_sequence k es = Suc (length (job_events k es))"
  unfolding numbered_def next_event_sequence_def job_events_def [symmetric]
  by (simp del: upt_Suc add: foldr_max_upt)

lemma numbered_append:
  assumes "numbered es" "ev_sequence e = next_event_sequence (ev_job_id e) es"
  shows "numbered (es @ [e])"
  using assms next_event_sequence_numbered [OF assms(1), of "ev_job_id e"]
  by (auto simp: numbered_def)

section \<open>The effects of an operation\<close>

definition new_event :: "string \<Rightarrow> event_row list \<Rightarrow> event_row \<Rightarrow> bool" where
  "new_event k es e \<longleftrightarrow> ev_job_id e = k \<and> ev_sequence e = next_event_sequence k es"

text \<open>The fields of a job that never change.\<close>

definition job_identity where
  "job_identity r = (jb_job_id r, jb_owner_subject r, jb_device_id r, jb_kind r, jb_effect_class r,
     jb_command_id r, jb_idempotency_key r, jb_payload_hash r, jb_payload r, jb_deadline_at r,
     jb_created_at r)"

text \<open>What a finished job shows its readers: everything but the fingerprint of old rows.\<close>

definition job_content :: "job_row \<Rightarrow> job_row" where
  "job_content r = r\<lparr>jb_request_fingerprint := None\<rparr>"

definition keeps_job :: "job_row \<Rightarrow> job_row \<Rightarrow> bool" where
  "keeps_job r r' \<longleftrightarrow>
     job_identity r' = job_identity r
     \<and> (jb_cancel_requested_at r \<noteq> None \<longrightarrow> jb_cancel_requested_at r' = jb_cancel_requested_at r)
     \<and> jb_state_version r \<le> jb_state_version r'
     \<and> (is_terminal (jb_state r) \<longrightarrow> job_content r' = job_content r)"

text \<open>One appended event and the row it describes, before and after.\<close>

definition logged :: "job_row \<Rightarrow> job_row \<Rightarrow> event_row \<Rightarrow> bool" where
  "logged r r' e \<longleftrightarrow>
     (ev_event_type e = StateEvent \<and> ev_state e = Some (jb_state r')
        \<and> jb_state_version r' = jb_state_version r + 1
        \<and> (jb_state r' = jb_state r \<and> jb_state r \<noteq> Dispatched
             \<or> job_step (jb_effect_class r) (jb_state r) (jb_state r')))
     \<or> (ev_event_type e = ProgressEvent \<and> jb_state r' = jb_state r
        \<and> jb_state_version r' = jb_state_version r)"

inductive job_delta :: "'x store_db \<Rightarrow> 'x store_db \<Rightarrow> bool" for db db' where
  delta_none: "st_jobs db' = st_jobs db \<Longrightarrow> st_events db' = st_events db \<Longrightarrow> job_delta db db'"
| delta_created:
    "st_jobs db' = st_jobs db @ [row] \<Longrightarrow> st_events db' = st_events db @ [e] \<Longrightarrow>
     jb_job_id row \<notin> set (map jb_job_id (st_jobs db)) \<Longrightarrow>
     jb_command_id row \<notin> set (map jb_command_id (st_jobs db)) \<Longrightarrow>
     request_key row \<notin> set (map request_key (st_jobs db)) \<Longrightarrow>
     jb_state row = Queued \<Longrightarrow> jb_state_version row = 0 \<Longrightarrow>
     new_event (jb_job_id row) (st_events db) e \<Longrightarrow> ev_event_type e = StateEvent \<Longrightarrow>
     ev_state e = Some Queued \<Longrightarrow> job_delta db db'"
| delta_logged:
    "job_row_of k db = Some row \<Longrightarrow> st_jobs db' = st_jobs (update_job k f db) \<Longrightarrow>
     st_events db' = st_events db @ [e] \<Longrightarrow> keeps_job row (f row) \<Longrightarrow>
     new_event k (st_events db) e \<Longrightarrow> logged row (f row) e \<Longrightarrow> \<not> is_terminal (jb_state row) \<Longrightarrow>
     (jb_kind row = ''observe'' \<Longrightarrow> jb_state (f row) = Succeeded \<Longrightarrow>
        k \<in> sn_job_id ` set (st_snapshots db')) \<Longrightarrow>
     job_delta db db'"
| delta_silent:
    "job_row_of k db = Some row \<Longrightarrow> st_jobs db' = st_jobs (update_job k f db) \<Longrightarrow>
     st_events db' = st_events db \<Longrightarrow> keeps_job row (f row) \<Longrightarrow>
     job_content (f row) = job_content row \<Longrightarrow> job_delta db db'"

lemma job_row_of_Some:
  "job_row_of k db = Some r \<Longrightarrow> r \<in> set (st_jobs db) \<and> jb_job_id r = k"
  unfolding job_row_of_def using select1_Some by fast

lemma job_row_unique:
  "distinct (map jb_job_id (st_jobs db)) \<Longrightarrow> job_row_of k db = Some r \<Longrightarrow> x \<in> set (st_jobs db) \<Longrightarrow>
   jb_job_id x = k \<Longrightarrow> x = r"
  using job_row_of_Some [of k db r] key_unique [of jb_job_id "st_jobs db" x r] by auto

lemma job_row_of_mem:
  "distinct (map jb_job_id (st_jobs db)) \<Longrightarrow> r \<in> set (st_jobs db) \<Longrightarrow>
   job_row_of (jb_job_id r) db = Some r"
  unfolding job_row_of_def by (rule select1_key) auto

text \<open>On the row that was read, the optimistic update always finds exactly one row.\<close>

lemma cas_update_current:
  assumes "distinct (map jb_job_id (st_jobs db))" "job_row_of k db = Some row"
  shows "cas_update k (jb_state row) (jb_state_version row) f db = Inr (update_job k f db)"
proof -
  let ?p = "\<lambda>r. jb_job_id r = k \<and> jb_state r = jb_state row \<and> jb_state_version r = jb_state_version row"
  have eq: "?p x \<longleftrightarrow> jb_job_id x = k" if "x \<in> set (st_jobs db)" for x
    using job_row_unique [OF assms that] by auto
  have "filter ?p (st_jobs db) = filter (\<lambda>r. jb_job_id r = k) (st_jobs db)"
    by (rule filter_cong) (use eq in auto)
  moreover have "count_where (\<lambda>r. jb_job_id r = k) (st_jobs db) = 1"
    using count_where_key [OF assms(1)] job_row_of_Some [OF assms(2)] by blast
  moreover have "update_where ?p f (st_jobs db) = update_where (\<lambda>r. jb_job_id r = k) f (st_jobs db)"
    unfolding update_where_def by (rule map_cong) (use eq in auto)
  ultimately show ?thesis by (simp add: cas_update_def update_job_def count_where_def)
qed

section \<open>The effects preserve the invariant\<close>

lemma update_job_jobs:
  "st_jobs (update_job k f db) = map (\<lambda>r. if jb_job_id r = k then f r else r) (st_jobs db)"
  by (simp add: update_job_def update_where_def)

lemma keeps_job_keys:
  assumes "keeps_job r r'"
  shows "jb_job_id r' = jb_job_id r" "jb_command_id r' = jb_command_id r"
    "request_key r' = request_key r" "jb_effect_class r' = jb_effect_class r"
    "jb_owner_subject r' = jb_owner_subject r" "jb_device_id r' = jb_device_id r"
  using assms by (auto simp: keeps_job_def job_identity_def request_key_def)

text \<open>An update of the one row with a given id, seen through any column it keeps.\<close>

lemma update_job_column:
  assumes "distinct (map jb_job_id (st_jobs db))" "job_row_of k db = Some row"
    and "g (f row) = g row"
  shows "map g (st_jobs (update_job k f db)) = map g (st_jobs db)"
  unfolding update_job_jobs map_map
proof (rule map_cong [OF refl])
  fix x assume "x \<in> set (st_jobs db)"
  then show "(g \<circ> (\<lambda>r. if jb_job_id r = k then f r else r)) x = g x"
    using job_row_unique [OF assms(1,2), of x] assms(3) by auto
qed

lemma update_job_rows:
  assumes "distinct (map jb_job_id (st_jobs db))" "job_row_of k db = Some row"
  shows "set (st_jobs (update_job k f db)) = insert (f row) {r \<in> set (st_jobs db). jb_job_id r \<noteq> k}"
  using job_row_unique [OF assms] job_row_of_Some [OF assms(2)]
  by (auto simp: update_job_jobs)

lemma update_job_row_of:
  assumes "distinct (map jb_job_id (st_jobs db))" "job_row_of k db = Some row"
    and "jb_job_id (f row) = k" and "st_jobs db' = st_jobs (update_job k f db)"
  shows "job_row_of j db' = (if j = k then Some (f row) else job_row_of j db)"
proof -
  have ids: "map jb_job_id (st_jobs db') = map jb_job_id (st_jobs db)"
    using update_job_column [of db k row jb_job_id f] assms job_row_of_Some [OF assms(2)] by simp
  have d: "distinct (map jb_job_id (st_jobs db'))" using ids assms(1) by simp
  show ?thesis
  proof (cases "j = k")
    case True
    have "f row \<in> set (st_jobs db')" using update_job_rows [OF assms(1,2), of f] assms(4) by simp
    then show ?thesis using job_row_of_mem [OF d] assms(3) True by auto
  next
    case False
    have "select1 (\<lambda>r. jb_job_id r = j) (map (\<lambda>r. if jb_job_id r = k then f r else r) t) =
        select1 (\<lambda>r. jb_job_id r = j) t"
      if "\<forall>r \<in> set t. jb_job_id r = k \<longrightarrow> r = row" for t
      using that False assms(3) by (induction t) auto
    then show ?thesis
      using False job_row_unique [OF assms(1,2)]
      by (simp add: job_row_of_def assms(4) update_job_jobs)
  qed
qed

lemma logged_log_ok:
  assumes "log_ok row es" "logged row r' e" "keeps_job row r'" "new_event (jb_job_id row) es e"
  shows "log_ok r' (es @ [e])"
  using assms
  by (auto simp: logged_def log_ok_def state_trail_single new_event_def keeps_job_keys
      intro: trail_to.intros)

lemma log_ok_other: "log_ok r es \<Longrightarrow> ev_job_id e \<noteq> jb_job_id r \<Longrightarrow> log_ok r (es @ [e])"
  by (simp add: log_ok_def state_trail_single)

lemma job_content_log:
  "job_content r' = job_content r \<Longrightarrow> log_ok r es \<Longrightarrow> log_ok r' es"
  by (cases r; cases r') (simp add: job_content_def log_ok_def)

lemma updated_keys:
  assumes "jobs_ok db" "job_row_of k db = Some row" "keeps_job row (f row)"
    and "st_jobs db' = st_jobs (update_job k f db)"
  shows "distinct (map jb_job_id (st_jobs db'))" "distinct (map jb_command_id (st_jobs db'))"
    "distinct (map request_key (st_jobs db'))"
    "jb_job_id ` set (st_jobs db') = jb_job_id ` set (st_jobs db)"
proof -
  have d: "distinct (map jb_job_id (st_jobs db))" using assms(1) by (simp add: jobs_ok_def)
  note col = update_job_column [OF d assms(2)] keeps_job_keys [OF assms(3)]
  show "distinct (map jb_job_id (st_jobs db'))" "distinct (map jb_command_id (st_jobs db'))"
    "distinct (map request_key (st_jobs db'))"
    using assms(1) by (simp_all add: assms(4) col jobs_ok_def)
  have "map jb_job_id (st_jobs db') = map jb_job_id (st_jobs db)" by (simp add: assms(4) col)
  then show "jb_job_id ` set (st_jobs db') = jb_job_id ` set (st_jobs db)"
    by (metis list.set_map)
qed

lemma created_log_ok:
  assumes "jb_job_id row \<notin> ev_job_id ` set es" "jb_state row = Queued" "jb_state_version row = 0"
    and "ev_job_id e = jb_job_id row" "ev_event_type e = StateEvent" "ev_state e = Some Queued"
  shows "log_ok row (es @ [e])"
proof -
  have "job_events (jb_job_id row) es = []"
    using assms(1) by (force simp: job_events_def filter_empty_conv)
  then have "state_trail (jb_job_id row) es = []" by (simp add: state_trail_def)
  then show ?thesis
    using assms by (auto simp: log_ok_def state_trail_single intro: trail_start)
qed

lemma job_delta_ok:
  assumes "job_delta db db'" "jobs_ok db"
  shows "jobs_ok db'"
  using assms(1)
proof cases
  case delta_none
  then show ?thesis using assms(2) by (simp add: jobs_ok_def)
next
  case (delta_created row e)
  have fresh: "jb_job_id row \<notin> ev_job_id ` set (st_events db)"
    using assms(2) delta_created by (auto simp: jobs_ok_def)
  have "log_ok row (st_events db @ [e])"
    using created_log_ok [OF fresh] delta_created by (simp add: new_event_def)
  moreover have "log_ok r (st_events db @ [e])" if "r \<in> set (st_jobs db)" for r
    using that assms(2) delta_created
    by (intro log_ok_other) (auto simp: jobs_ok_def new_event_def rev_image_eqI)
  moreover have "numbered (st_events db @ [e])"
    using assms(2) delta_created by (intro numbered_append) (auto simp: jobs_ok_def new_event_def)
  ultimately show ?thesis
    using assms(2) delta_created by (auto simp: jobs_ok_def new_event_def)
next
  case (delta_logged k row f e)
  have d: "distinct (map jb_job_id (st_jobs db))" using assms(2) by (simp add: jobs_ok_def)
  have row: "row \<in> set (st_jobs db)" "jb_job_id row = k"
    using job_row_of_Some [OF delta_logged(1)] by auto
  have rows: "set (st_jobs db') = insert (f row) {r \<in> set (st_jobs db). jb_job_id r \<noteq> k}"
    using update_job_rows [OF d delta_logged(1), of f] delta_logged(2) by simp
  have "log_ok (f row) (st_events db @ [e])"
    using assms(2) row delta_logged by (intro logged_log_ok [of row]) (auto simp: jobs_ok_def)
  moreover have "log_ok r (st_events db @ [e])" if "r \<in> set (st_jobs db)" "jb_job_id r \<noteq> k" for r
    using that assms(2) delta_logged by (intro log_ok_other) (auto simp: jobs_ok_def new_event_def)
  moreover have "numbered (st_events db @ [e])"
    using assms(2) delta_logged by (intro numbered_append) (auto simp: jobs_ok_def new_event_def)
  ultimately have "numbered (st_events db')" "\<forall>r \<in> set (st_jobs db'). log_ok r (st_events db')"
    using delta_logged(3) by (auto simp: rows)
  moreover have "ev_job_id ` set (st_events db') \<subseteq> jb_job_id ` set (st_jobs db)"
    using assms(2) row delta_logged(3,5) by (auto simp: jobs_ok_def new_event_def)
  ultimately show ?thesis
    using updated_keys [OF assms(2) delta_logged(1,4,2)] by (simp add: jobs_ok_def)
next
  case (delta_silent k row f)
  have d: "distinct (map jb_job_id (st_jobs db))" using assms(2) by (simp add: jobs_ok_def)
  have row: "row \<in> set (st_jobs db)" using job_row_of_Some [OF delta_silent(1)] by auto
  have rows: "set (st_jobs db') = insert (f row) {r \<in> set (st_jobs db). jb_job_id r \<noteq> k}"
    using update_job_rows [OF d delta_silent(1), of f] delta_silent(2) by simp
  have "log_ok (f row) (st_events db)"
    using assms(2) row delta_silent(5) by (auto simp: jobs_ok_def intro: job_content_log)
  then show ?thesis
    using updated_keys [OF assms(2) delta_silent(1,4,2)] assms(2) delta_silent(3)
    by (auto simp: jobs_ok_def rows)
qed

text \<open>What an effect leaves of a job that exists.\<close>

lemma job_delta_row:
  assumes "job_delta db db'" "jobs_ok db" "job_row_of j db = Some r"
  shows "\<exists>r'. job_row_of j db' = Some r' \<and> keeps_job r r' \<and>
    (jb_state r' = jb_state r \<or> job_step (jb_effect_class r) (jb_state r) (jb_state r'))"
  using assms(1)
proof cases
  case delta_none
  then show ?thesis using assms(3) by (auto simp: job_row_of_def keeps_job_def)
next
  case (delta_created row e)
  then show ?thesis using assms(3) by (auto simp: job_row_of_def select1_append keeps_job_def)
next
  case (delta_logged k row f e)
  have d: "distinct (map jb_job_id (st_jobs db))" using assms(2) by (simp add: jobs_ok_def)
  have "jb_job_id (f row) = k"
    using job_row_of_Some [OF delta_logged(1)] keeps_job_keys(1) [OF delta_logged(4)] by simp
  then show ?thesis
    using update_job_row_of [OF d delta_logged(1) _ delta_logged(2), of j] assms(3) delta_logged
    by (auto simp: logged_def keeps_job_def split: if_splits)
next
  case (delta_silent k row f)
  have d: "distinct (map jb_job_id (st_jobs db))" using assms(2) by (simp add: jobs_ok_def)
  have "jb_job_id (f row) = k"
    using job_row_of_Some [OF delta_silent(1)] keeps_job_keys(1) [OF delta_silent(4)] by simp
  moreover have "jb_state (f row) = jb_state row"
    using delta_silent(5) by (cases row; cases "f row") (simp add: job_content_def)
  ultimately show ?thesis
    using update_job_row_of [OF d delta_silent(1) _ delta_silent(2), of j] assms(3) delta_silent
    by (auto simp: keeps_job_def split: if_splits)
qed

section \<open>Every operation has one of the effects\<close>

text \<open>The tables a job operation leaves alone.\<close>

definition same_presence :: "'x store_db \<Rightarrow> 'x store_db \<Rightarrow> bool" where
  "same_presence db db' \<longleftrightarrow> st_devices db' = st_devices db \<and> st_sessions db' = st_sessions db"

lemma append_event_Inr:
  assumes "append_event L now k ty st pg res err db = Inr db'"
  shows "\<exists>e. db' = db\<lparr>st_events := st_events db @ [e]\<rparr> \<and> new_event k (st_events db) e \<and>
    ev_event_type e = ty \<and> ev_state e = st \<and> ev_result e = res \<and> ev_error_code e = err \<and>
    ev_progress e = pg"
  using assms by (auto simp: append_event_def result_simps new_event_def)

text \<open>An optimistic update of the row that was read, followed by its event.\<close>

lemma update_and_log:
  assumes "jobs_ok db" "job_row_of k db = Some row"
    and "cas_update k (jb_state row) (jb_state_version row) f db1 = Inr db2"
    and "append_event L now k ty st pg res err db2 = Inr db3"
    and "st_jobs db1 = st_jobs db" "st_events db1 = st_events db"
    and "st_devices db1 = st_devices db" "st_sessions db1 = st_sessions db"
    and "jb_job_id (f row) = k"
  shows "\<exists>e. st_jobs db3 = st_jobs (update_job k f db) \<and> st_events db3 = st_events db @ [e] \<and>
    new_event k (st_events db) e \<and> ev_event_type e = ty \<and> ev_state e = st \<and>
    same_presence db db3 \<and> st_snapshots db3 = st_snapshots db1 \<and> st_other db3 = st_other db1 \<and>
    job_row_of k db3 = Some (f row)"
proof -
  have d: "distinct (map jb_job_id (st_jobs db1))" "job_row_of k db1 = Some row"
    using assms(1,2,5) by (simp_all add: jobs_ok_def job_row_of_def)
  have db2: "db2 = update_job k f db1"
    using cas_update_current [OF d, of f] assms(3) by simp
  obtain e where e: "db3 = db2\<lparr>st_events := st_events db2 @ [e]\<rparr>" "new_event k (st_events db2) e"
    "ev_event_type e = ty" "ev_state e = st"
    using append_event_Inr [OF assms(4)] by blast
  have jobs: "st_jobs db3 = st_jobs (update_job k f db)"
    using assms(5) by (simp add: e(1) db2 update_job_jobs)
  have "job_row_of k db3 = Some (f row)"
    using update_job_row_of [OF _ assms(2) assms(9) jobs, of k] assms(1) by (simp add: jobs_ok_def)
  then show ?thesis
    using e assms(5-8) by (intro exI [of _ e]) (simp add: jobs db2 update_job_def same_presence_def)
qed

lemma create_job_delta:
  assumes "create_job L wire now nj nc q db = Inr ((r, existing), db')" "jobs_ok db"
  shows "job_delta db db' \<and> same_presence db db' \<and> st_snapshots db' = st_snapshots db \<and>
    st_other db' = st_other db \<and> job_row_of (jb_job_id r) db' = Some r \<and>
    request_key r = (jr_owner_subject q, jr_device_id q, jr_idempotency_key q) \<and>
    jb_kind r = jr_kind q \<and> jb_effect_class r = jr_effect_class q \<and>
    request_hash L wire q = Inr (jb_payload_hash r) \<and>
    (if existing
     then map job_content (st_jobs db') = map job_content (st_jobs db) \<and>
          st_events db' = st_events db
     else st_jobs db' = st_jobs db @ [r] \<and> jb_job_id r = nj \<and> jb_state r = Queued \<and>
          request_key r \<notin> set (map request_key (st_jobs db)))"
proof -
  have d: "distinct (map jb_job_id (st_jobs db))" using assms(2) by (simp add: jobs_ok_def)
  obtain ph fp where h: "request_hash L wire q = Inr ph"
    "request_fingerprint L (jr_kind q) (jr_effect_class q) ph = Inr fp"
    using assms(1) by (auto simp: create_job_def result_simps)
  let ?key = "(jr_owner_subject q, jr_device_id q, jr_idempotency_key q)"
  show ?thesis
  proof (cases "select1 (\<lambda>r. request_key r = ?key) (st_jobs db)")
    case (Some row)
    note row = select1_Some [OF Some]
    then have of_id: "job_row_of (jb_job_id row) db = Some row" using job_row_of_mem [OF d] by blast
    have same: "same_request row q ph fp"
      using assms(1) h Some by (auto simp: create_job_def result_simps split: if_splits)
    show ?thesis
    proof (cases "jb_request_fingerprint row")
      case None
      let ?f = "\<lambda>r. r\<lparr>jb_request_fingerprint := Some fp\<rparr>"
      let ?p = "\<lambda>r. jb_job_id r = jb_job_id row \<and> jb_request_fingerprint r = None"
      have "update_where ?p ?f (st_jobs db) = update_where (\<lambda>r. jb_job_id r = jb_job_id row) ?f (st_jobs db)"
        unfolding update_where_def
      proof (rule map_cong [OF refl])
        fix x assume "x \<in> set (st_jobs db)"
        then show "(if ?p x then ?f x else x) = (if jb_job_id x = jb_job_id row then ?f x else x)"
          using job_row_unique [OF d of_id, of x] None by (cases "jb_job_id x = jb_job_id row") auto
      qed
      then have db': "db' = update_job (jb_job_id row) ?f db"
        and r: "r = the (job_row_of (jb_job_id row) db')" "existing"
        using assms(1) h Some None same
        by (auto simp: create_job_def result_simps Let_def update_job_def split: if_splits)
      have get: "job_row_of (jb_job_id row) db' = Some (?f row)"
        using update_job_row_of [OF d of_id, of ?f db' "jb_job_id row"] by (simp add: db')
      have "keeps_job row (?f row)" "job_content (?f row) = job_content row"
        by (simp_all add: keeps_job_def job_identity_def job_content_def)
      then have "job_delta db db'"
        using of_id by (intro delta_silent [of _ _ row _ ?f]) (simp_all add: db' update_job_def)
      moreover have "map job_content (st_jobs db') = map job_content (st_jobs db)"
        unfolding db' by (rule update_job_column [OF d of_id]) (simp add: job_content_def)
      ultimately show ?thesis
        using r get same h row
        by (simp add: db' update_job_def same_presence_def same_request_def request_key_def)
    next
      case (Some fp')
      then have "db' = db" "r = row" "existing"
        using assms(1) h \<open>select1 _ _ = Some row\<close> same
        by (auto simp: create_job_def result_simps split: if_splits)
      then show ?thesis
        using of_id same h row by (simp add: delta_none same_presence_def same_request_def)
    qed
  next
    case None
    let ?row = "queued_row now nj nc ph fp q"
    let ?db1 = "db\<lparr>st_jobs := st_jobs db @ [?row]\<rparr>"
    have fresh: "nj \<notin> set (map jb_job_id (st_jobs db))" "nc \<notin> set (map jb_command_id (st_jobs db))"
      and r: "append_event L now nj StateEvent (Some Queued) None None None ?db1 = Inr db'"
        "r = the (job_row_of nj db')" "\<not> existing"
      using assms(1) h None by (auto simp: create_job_def result_simps Let_def split: if_splits)
    obtain e where e: "db' = ?db1\<lparr>st_events := st_events ?db1 @ [e]\<rparr>"
      "new_event nj (st_events ?db1) e" "ev_event_type e = StateEvent" "ev_state e = Some Queued"
      using append_event_Inr [OF r(1)] by blast
    have "job_row_of nj db' = Some ?row"
      using fresh(1)
      by (auto simp: e(1) job_row_of_def select1_append queued_row_def select1_None
          split: option.split dest: select1_Some)
    moreover have "?key \<notin> set (map request_key (st_jobs db))"
      using None [unfolded select1_None] by auto
    moreover have "job_delta db db'"
      using fresh e \<open>?key \<notin> _\<close>
      by (intro delta_created [of _ _ ?row e]) (auto simp: queued_row_def request_key_def)
    ultimately show ?thesis
      using e r h by (simp add: queued_row_def request_key_def same_presence_def)
  qed
qed

definition only_jobs :: "'x store_db \<Rightarrow> 'x store_db \<Rightarrow> bool" where
  "only_jobs db db' \<longleftrightarrow> job_delta db db' \<and> same_presence db db' \<and>
     st_snapshots db' = st_snapshots db \<and> st_other db' = st_other db"

lemma only_jobs_refl [simp]: "only_jobs db db"
  by (simp add: only_jobs_def same_presence_def delta_none)

text \<open>An update of the row that was read, with its event, is one of the effects.\<close>

lemma update_and_log_delta:
  assumes "jobs_ok db" "job_row_of k db = Some row"
    and "cas_update k (jb_state row) (jb_state_version row) f db = Inr db2"
    and "append_event L now k ty st pg res err db2 = Inr db3"
    and "keeps_job row (f row)" "\<not> is_terminal (jb_state row)"
    and "\<And>e. ev_event_type e = ty \<Longrightarrow> ev_state e = st \<Longrightarrow> logged row (f row) e"
    and "\<not> (jb_kind row = ''observe'' \<and> jb_state (f row) = Succeeded)"
  shows "only_jobs db db3 \<and> job_row_of k db3 = Some (f row)"
proof -
  have "jb_job_id (f row) = k"
    using job_row_of_Some [OF assms(2)] keeps_job_keys(1) [OF assms(5)] by simp
  from update_and_log [OF assms(1-4) refl refl refl refl this]
  show ?thesis
    using assms(2,5-8) by (auto simp: only_jobs_def intro: delta_logged)
qed

lemma job_step_validated: "validate_transition c t eff ev = Inr u \<Longrightarrow> job_step eff c t"
  by (auto intro: job_step)

lemma claim_job_delta:
  assumes "claim_job L now k db = Inr (x, db')" "jobs_ok db"
  shows "only_jobs db db' \<and>
    (case x of
       None \<Rightarrow> db' = db \<and> (\<forall>row. job_row_of k db = Some row \<longrightarrow> jb_state row \<noteq> Queued)
     | Some r \<Rightarrow> job_row_of k db' = Some r \<and> jb_state r = Dispatched \<and>
         (\<exists>row. job_row_of k db = Some row \<and> jb_state row = Queued))"
proof (cases "\<exists>row. job_row_of k db = Some row \<and> jb_state row = Queued")
  case True
  then obtain row where row: "job_row_of k db = Some row" "jb_state row = Queued" by blast
  let ?f = "\<lambda>r. r\<lparr>jb_state := Dispatched, jb_state_version := jb_state_version r + 1, jb_updated_at := now\<rparr>"
  have cas: "cas_update k Queued (jb_state_version row) ?f db = Inr (update_job k ?f db)"
    using cas_update_current [of db k row ?f] assms(2) row by (simp add: jobs_ok_def)
  obtain db2 where db2: "append_event L now k StateEvent (Some Dispatched) None None None
      (update_job k ?f db) = Inr db2" "x = job_row_of k db2" "db' = db2"
    using assms(1) row cas by (auto simp: claim_job_def result_simps)
  have "validate_transition Queued Dispatched (jb_effect_class row) False = Inr ()"
    by (simp add: validate_transition_ok transition_allowed_def recovery_evidence_transitions_def)
  then have "job_step (jb_effect_class row) Queued Dispatched" by (rule job_step_validated)
  then have "only_jobs db db2 \<and> job_row_of k db2 = Some (?f row)"
    using row cas
    by (intro update_and_log_delta [OF assms(2) row(1) _ db2(1)])
      (auto simp: keeps_job_def job_identity_def logged_def)
  then show ?thesis using db2 row by simp
next
  case False
  then have "x = None" "db' = db"
    using assms(1) by (auto simp: claim_job_def split: option.splits if_splits)
  then show ?thesis using False by auto
qed

lemma transition_job_delta:
  assumes "transition_job L now k c db = Inr (x, db')" "jobs_ok db"
  shows "only_jobs db db' \<and>
    (case x of
       None \<Rightarrow> db' = db \<and> job_row_of k db = None
     | Some r \<Rightarrow> job_row_of k db' = Some r \<and>
         (\<exists>row. job_row_of k db = Some row \<and> r = transitioned_row now c row \<and>
            validate_transition (jb_state row) (jc_target c) (jb_effect_class row) (jc_evidence c) = Inr () \<and>
            jc_expected_version c \<in> {None, Some (jb_state_version row)}))"
proof (cases "job_row_of k db")
  case None
  then show ?thesis using assms(1) by (auto simp: transition_job_def split: if_splits)
next
  case (Some row)
  then obtain db1 db2 where s:
    "validate_transition (jb_state row) (jc_target c) (jb_effect_class row) (jc_evidence c) = Inr ()"
    "jc_expected_version c \<in> {None, Some (jb_state_version row)}"
    "\<not> (jb_kind row = ''observe'' \<and> jc_target c = Succeeded)"
    "cas_update k (jb_state row) (jb_state_version row) (transitioned_row now c) db = Inr db1"
    "append_event L now k StateEvent (Some (jc_target c)) None (jc_result c) (jc_error_code c) db1
       = Inr db2"
    "x = job_row_of k db2" "db' = db2"
    using assms(1) by (auto simp: transition_job_def result_simps split: if_splits)
  have nt: "\<not> is_terminal (jb_state row)" using s(1) by (simp add: validate_transition_ok)
  have "only_jobs db db2 \<and> job_row_of k db2 = Some (transitioned_row now c row)"
    using nt job_step_validated [OF s(1)] s(3)
    by (intro update_and_log_delta [OF assms(2) Some s(4,5)])
      (auto simp: keeps_job_def job_identity_def logged_def transitioned_row_def)
  then show ?thesis using s Some by auto
qed

lemma cancel_target_step:
  "cancel_target s eff = Inr t \<Longrightarrow>
   \<not> is_terminal s \<and> (t = s \<or> job_step eff s t) \<and> t \<in> {Cancelled, CancelRequested, ReconnectPending, OutcomeUnknown}
   \<and> (t = Cancelled \<longrightarrow> s = Queued)"
  by (auto simp: cancel_target_def result_simps validate_transition_ok split: if_splits
      intro!: job_step)

lemma request_job_cancel_delta:
  assumes "request_job_cancel L now k ver db = Inr (x, db')" "jobs_ok db"
  shows "only_jobs db db' \<and> x = job_row_of k db' \<and>
    (\<forall>row. job_row_of k db = Some row \<longrightarrow>
       (if is_terminal (jb_state row) \<or> jb_cancel_requested_at row \<noteq> None then db' = db
        else \<exists>t. cancel_target (jb_state row) (jb_effect_class row) = Inr t \<and>
          x = Some (row\<lparr>jb_state := t, jb_state_version := jb_state_version row + 1,
                        jb_cancel_requested_at := Some now, jb_updated_at := now\<rparr>)))"
proof (cases "job_row_of k db")
  case None
  then show ?thesis using assms(1) by (auto simp: request_job_cancel_def)
next
  case (Some row)
  show ?thesis
  proof (cases "is_terminal (jb_state row) \<or> jb_cancel_requested_at row \<noteq> None")
    case True
    then show ?thesis using Some assms(1) by (auto simp: request_job_cancel_def split: if_splits)
  next
    case False
    let ?f = "\<lambda>t r. r\<lparr>jb_state := t, jb_state_version := jb_state_version r + 1,
                        jb_cancel_requested_at := Some now, jb_updated_at := now\<rparr>"
    obtain t db1 db2 where s: "cancel_target (jb_state row) (jb_effect_class row) = Inr t"
      "cas_update k (jb_state row) (jb_state_version row) (?f t) db = Inr db1"
      "append_event L now k StateEvent (Some t) None
         (Some (JObj [(''cancel_requested'', JBool True)])) None db1 = Inr db2"
      "x = job_row_of k db2" "db' = db2"
      using assms(1) Some False by (auto simp: request_job_cancel_def result_simps split: if_splits)
    have "only_jobs db db2 \<and> job_row_of k db2 = Some (?f t row)"
      using False cancel_target_step [OF s(1)]
      by (intro update_and_log_delta [OF assms(2) Some s(2,3)])
        (auto simp: keeps_job_def job_identity_def logged_def)
    then show ?thesis using s Some False by auto
  qed
qed

lemma append_progress_delta:
  assumes "append_progress L now k p db = Inr (x, db')" "jobs_ok db"
  shows "only_jobs db db' \<and> x = job_row_of k db' \<and>
    (\<forall>row r. job_row_of k db = Some row \<longrightarrow> x = Some r \<longrightarrow>
       jb_state r = jb_state row \<and> jb_state_version r = jb_state_version row \<and>
       jb_last_agent_sequence row \<le> jb_last_agent_sequence r \<and>
       jb_state row \<in> {Acknowledged, Running, CancelRequested})"
proof (cases "job_row_of k db")
  case None
  then show ?thesis using assms(1) by (auto simp: append_progress_def)
next
  case (Some row)
  have pre: "\<not> is_terminal (jb_state row)" "jb_state row \<in> {Acknowledged, Running, CancelRequested}"
    "jb_last_agent_sequence row \<le> pr_sequence p"
    using assms(1) Some by (auto simp: append_progress_def split: if_splits)
  show ?thesis
  proof (cases "pr_sequence p = jb_last_agent_sequence row \<and> jb_progress row \<noteq> None")
    case True
    then show ?thesis
      using Some assms(1) pre by (auto simp: append_progress_def split: if_splits)
  next
    case False
    let ?f = "\<lambda>r. r\<lparr>jb_progress := Some (progress_json p),
                     jb_last_agent_sequence := pr_sequence p, jb_updated_at := now\<rparr>"
    obtain db1 db2 where s: "cas_update k (jb_state row) (jb_state_version row) ?f db = Inr db1"
      "append_event L now k ProgressEvent (Some (jb_state row)) (Some (progress_json p)) None None db1
         = Inr db2" "x = job_row_of k db2" "db' = db2"
      using assms(1) Some False pre by (auto simp: append_progress_def result_simps split: if_splits)
    have "only_jobs db db2 \<and> job_row_of k db2 = Some (?f row)"
      using pre
      by (intro update_and_log_delta [OF assms(2) Some s(1,2)])
        (auto simp: keeps_job_def job_identity_def logged_def)
    then show ?thesis using s Some pre by auto
  qed
qed

section \<open>Finalisation\<close>

lemma insert_snapshot_Inr:
  assumes "insert_snapshot L now job s db = Inr db'"
  shows "\<exists>sn. db' = db\<lparr>st_snapshots := st_snapshots db @ [sn]\<rparr> \<and> sn_job_id sn = jb_job_id job \<and>
    sn_owner_subject sn = jb_owner_subject job \<and> sn_device_id sn = jb_device_id job \<and>
    sn_snapshot_id sn = jstr (jget s ''snapshot_id'') \<and>
    sn_job_id sn \<notin> sn_job_id ` set (st_snapshots db) \<and>
    sn_snapshot_id sn \<notin> sn_snapshot_id ` set (st_snapshots db) \<and>
    snapshot_fields_ok (jb_payload job) s"
proof -
  obtain st where "db' = db\<lparr>st_snapshots := st_snapshots db @ [new_snapshot_row now job s st]\<rparr>"
    "snapshot_fields_ok (jb_payload job) s"
    "select1 (\<lambda>r. sn_job_id r = jb_job_id job) (st_snapshots db) = None"
    "select1 (\<lambda>r. sn_snapshot_id r = jstr (jget s ''snapshot_id'')) (st_snapshots db) = None"
    using assms by (auto simp: insert_snapshot_def Let_def result_simps)
  then show ?thesis
    by (intro exI [of _ "new_snapshot_row now job s st"])
      (auto simp: new_snapshot_row_def select1_None)
qed

lemma run_hook_Inr:
  "run_hook hook row db = Inr db' \<Longrightarrow> \<exists>x. db' = db\<lparr>st_other := x\<rparr>"
  by (auto simp: run_hook_def result_simps split: option.splits)
    (metis store_db.surjective store_db.update_convs(6))+

lemma effective_snapshot_Inr:
  "effective_snapshot ou = Inr snapshot \<Longrightarrow>
   is_terminal (jo_target ou) \<and> (snapshot \<noteq> None \<longrightarrow> jo_target ou = Succeeded)"
  by (auto simp: effective_snapshot_def Let_def result_simps split: option.splits if_splits)

text \<open>A successful finalisation either repeats a stored outcome or performs one validated
  transition, with at most one new snapshot.\<close>

definition finalizes :: "'x store_db \<Rightarrow> 'x store_db \<Rightarrow> job_outcome \<Rightarrow> job_row \<Rightarrow> job_row \<Rightarrow> bool" where
  "finalizes db db' ou row r \<longleftrightarrow>
     validate_transition (jb_state row) (jo_target ou) (jb_effect_class row) (jo_evidence ou) = Inr () \<and>
     is_terminal (jo_target ou) \<and> \<not> stale_agent_sequence ou row \<and>
     jb_state r = jo_target ou \<and> jb_result r = jo_result ou \<and> jb_error_code r = jo_error_code ou \<and>
     keeps_job row r \<and> jb_state_version r = jb_state_version row + 1 \<and>
     (st_snapshots db' = st_snapshots db \<and> \<not> (jb_kind row = ''observe'' \<and> jo_target ou = Succeeded) \<or>
      (\<exists>sn. st_snapshots db' = st_snapshots db @ [sn] \<and> jo_target ou = Succeeded \<and>
         sn_job_id sn = jb_job_id row \<and> sn_owner_subject sn = jb_owner_subject row \<and>
         sn_device_id sn = jb_device_id row \<and>
         sn_job_id sn \<notin> sn_job_id ` set (st_snapshots db) \<and>
         sn_snapshot_id sn \<notin> sn_snapshot_id ` set (st_snapshots db)))"

lemma finalize_cases:
  assumes "finalize_job_result L now hook ou db = Inr (x, db')" "jobs_ok db"
  shows "job_delta db db' \<and> same_presence db db' \<and>
    (case job_row_of (jo_job_id ou) db of
       None \<Rightarrow> x = None \<and> db' = db
     | Some row \<Rightarrow>
         outcome_identity ou row db = Inr () \<and>
         (\<exists>r dup. x = Some (r, dup) \<and> job_row_of (jo_job_id ou) db' = Some r \<and>
           (if dup
            then r = row \<and> is_terminal (jb_state row) \<and> same_outcome ou row \<and>
                 st_jobs db' = st_jobs db \<and> st_events db' = st_events db \<and>
                 st_snapshots db' = st_snapshots db
            else \<not> is_terminal (jb_state row) \<and> finalizes db db' ou row r)))"
proof -
  obtain snapshot where snapshot: "effective_snapshot ou = Inr snapshot"
    using assms(1) by (auto simp: finalize_job_result_def result_simps)
  note eff = effective_snapshot_Inr [OF snapshot]
  show ?thesis
  proof (cases "job_row_of (jo_job_id ou) db")
    case None
    then show ?thesis
      using assms(1) snapshot
      by (auto simp: finalize_job_result_def same_presence_def intro: delta_none)
  next
    case (Some row)
    have identity: "outcome_identity ou row db = Inr ()"
      using assms(1) snapshot Some by (auto simp: finalize_job_result_def result_simps)
    show ?thesis
    proof (cases "is_terminal (jb_state row)")
      case True
      then obtain db1 where db1: "same_outcome ou row" "run_hook hook row db = Inr db1"
        "x = Some (row, True)" "db' = db1"
        using assms(1) snapshot Some identity
        by (auto simp: finalize_job_result_def result_simps split: if_splits)
      obtain y where y: "db1 = db\<lparr>st_other := y\<rparr>" using run_hook_Inr [OF db1(2)] by blast
      show ?thesis
        using True db1 y Some identity
        by (auto simp: same_presence_def job_row_of_def intro: delta_none)
    next
      case False
      then obtain db1 db2 db3 db4 where s:
        "validate_transition (jb_state row) (jo_target ou) (jb_effect_class row) (jo_evidence ou) = Inr ()"
        "\<not> stale_agent_sequence ou row"
        "\<not> (jb_kind row = ''observe'' \<and> jo_target ou = Succeeded \<and> snapshot = None)"
        "(case snapshot of None \<Rightarrow> Inr db | Some v \<Rightarrow> insert_snapshot L now row v db) = Inr db1"
        "run_hook hook row db1 = Inr db2"
        "cas_update (jo_job_id ou) (jb_state row) (jb_state_version row) (finalized_row now ou) db2
           = Inr db3"
        "append_event L now (jo_job_id ou) StateEvent (Some (jo_target ou)) None (jo_result ou)
           (jo_error_code ou) db3 = Inr db4"
        "x = map_option (\<lambda>r. (r, False)) (job_row_of (jo_job_id ou) db4)" "db' = db4"
        using assms(1) snapshot Some identity
        by (auto simp: finalize_job_result_def result_simps split: if_splits)
      have db1: "st_jobs db1 = st_jobs db" "st_events db1 = st_events db"
        "st_devices db1 = st_devices db" "st_sessions db1 = st_sessions db"
        using s(4) insert_snapshot_Inr by (cases snapshot; fastforce)+
      obtain y where y: "db2 = db1\<lparr>st_other := y\<rparr>" using run_hook_Inr [OF s(5)] by blast
      have row: "jb_job_id row = jo_job_id ou" using job_row_of_Some [OF Some] by simp
      have keeps: "keeps_job row (finalized_row now ou row)"
        using False by (simp add: keeps_job_def job_identity_def finalized_row_def)
      obtain e where e: "st_jobs db4 = st_jobs (update_job (jo_job_id ou) (finalized_row now ou) db)"
        "st_events db4 = st_events db @ [e]" "new_event (jo_job_id ou) (st_events db) e"
        "ev_event_type e = StateEvent" "ev_state e = Some (jo_target ou)" "same_presence db db4"
        "st_snapshots db4 = st_snapshots db2" "job_row_of (jo_job_id ou) db4 = Some (finalized_row now ou row)"
        using update_and_log [OF assms(2) Some s(6,7)] db1 row
        by (auto simp: y finalized_row_def)
      have fin: "finalizes db db4 ou row (finalized_row now ou row)"
      proof (cases snapshot)
        case None
        then show ?thesis
          using s(1-4) eff keeps e(7)
          by (auto simp: finalizes_def finalized_row_def y)
      next
        case (Some v)
        then obtain sn where "db1 = db\<lparr>st_snapshots := st_snapshots db @ [sn]\<rparr>"
          "sn_job_id sn = jb_job_id row" "sn_owner_subject sn = jb_owner_subject row"
          "sn_device_id sn = jb_device_id row" "sn_job_id sn \<notin> sn_job_id ` set (st_snapshots db)"
          "sn_snapshot_id sn \<notin> sn_snapshot_id ` set (st_snapshots db)"
          using s(4) insert_snapshot_Inr [of L now row v db db1] by auto
        then show ?thesis
          using s(1,2) eff keeps e(7) Some
          by (auto simp: finalizes_def finalized_row_def y)
      qed
      have "logged row (finalized_row now ou row) e"
        using e(4,5) job_step_validated [OF s(1)] by (simp add: logged_def finalized_row_def)
      moreover have "jo_job_id ou \<in> sn_job_id ` set (st_snapshots db4)"
        if "jb_kind row = ''observe''" "jb_state (finalized_row now ou row) = Succeeded"
        using that fin row by (auto simp: finalizes_def finalized_row_def)
      ultimately have delta: "job_delta db db4"
        using Some e(1-3) keeps False by (intro delta_logged)
      show ?thesis
        using fin delta e(6,8) s(8,9) Some identity False by auto
    qed
  qed
qed

end
