(* ===== verification/Store.thy ===== *)
theory Store
  imports StoreSessions StoreLog
begin

text \<open>
  The Gateway store as one system: a step is any successful repository operation, by any caller, with
  any arguments.  The invariant \<open>store_ok\<close> joins the job log of \<open>StoreLog\<close> with the session rules
  (one live session per device) and the snapshot rules (a snapshot belongs to a succeeded job of the
  same owner and device, and a succeeded observation has one).  The contracts of \<open>Systems\<close> are
  interpreted on this step relation; the properties of the repository follow from them.
\<close>

section \<open>Sessions and snapshots\<close>

definition sessions_ok :: "'x store_db \<Rightarrow> bool" where
  "sessions_ok db \<longleftrightarrow>
     distinct (map dv_device_id (st_devices db)) \<and> distinct (map ss_session_id (st_sessions db))
     \<and> (\<forall>r \<in> set (st_sessions db). \<forall>r' \<in> set (st_sessions db).
          session_active r \<and> session_active r' \<and> ss_device_id r = ss_device_id r' \<longrightarrow>
          ss_session_id r = ss_session_id r')"

definition snapshots_ok :: "'x store_db \<Rightarrow> bool" where
  "snapshots_ok db \<longleftrightarrow>
     distinct (map sn_job_id (st_snapshots db)) \<and> distinct (map sn_snapshot_id (st_snapshots db))
     \<and> (\<forall>sn \<in> set (st_snapshots db). \<exists>r. job_row_of (sn_job_id sn) db = Some r \<and>
          jb_state r = Succeeded \<and> sn_owner_subject sn = jb_owner_subject r \<and>
          sn_device_id sn = jb_device_id r)
     \<and> (\<forall>r \<in> set (st_jobs db). jb_kind r = ''observe'' \<and> jb_state r = Succeeded \<longrightarrow>
          jb_job_id r \<in> sn_job_id ` set (st_snapshots db))"

definition store_ok :: "'x store_db \<Rightarrow> bool" where
  "store_ok db \<longleftrightarrow> jobs_ok db \<and> sessions_ok db \<and> snapshots_ok db"

definition same_jobs :: "'x store_db \<Rightarrow> 'x store_db \<Rightarrow> bool" where
  "same_jobs db db' \<longleftrightarrow> st_jobs db' = st_jobs db \<and> st_events db' = st_events db \<and>
     st_snapshots db' = st_snapshots db \<and> st_other db' = st_other db"

inductive store_step :: "'x store_db \<Rightarrow> 'x store_db \<Rightarrow> bool" where
  step_seed: "seed_device L now own dv nm caps ref db = Inr db' \<Longrightarrow> store_step db db'"
| step_status: "store_step db (set_device_status now dv st db)"
| step_activate: "activate_session L now a db = Inr (ad, db') \<Longrightarrow> store_step db db'"
| step_heartbeat: "heartbeat_session now s dv h db = Inr (b, db') \<Longrightarrow> store_step db db'"
| step_stale: "mark_session_stale now s dv db = (b, db') \<Longrightarrow> store_step db db'"
| step_close: "close_session now s dvo db = Inr (b, db') \<Longrightarrow> store_step db db'"
| step_disconnect: "store_step db (mark_sessions_disconnected now db)"
| step_create: "create_job L wire now nj nc q db = Inr (x, db') \<Longrightarrow> store_step db db'"
| step_claim: "claim_job L now k db = Inr (y, db') \<Longrightarrow> store_step db db'"
| step_transition: "transition_job L now k c db = Inr (y, db') \<Longrightarrow> store_step db db'"
| step_cancel: "request_job_cancel L now k ver db = Inr (y, db') \<Longrightarrow> store_step db db'"
| step_progress: "append_progress L now k p db = Inr (y, db') \<Longrightarrow> store_step db db'"
| step_finalize: "finalize_job_result L now hook ou db = Inr (z, db') \<Longrightarrow> store_step db db'"

lemma create_session_step:
  "create_session L now dv s pv db = Inr (ad, db') \<Longrightarrow> store_step db db'"
  by (auto simp: create_session_def Let_def result_simps intro: step_activate split: option.splits)

section \<open>Session operations keep the session rules\<close>

text \<open>Three shapes: sessions are only closed or touched, a device is rewritten, a session is opened.\<close>

definition session_touch :: "session_row \<Rightarrow> session_row \<Rightarrow> bool" where
  "session_touch r r' \<longleftrightarrow> ss_session_id r' = ss_session_id r \<and> ss_device_id r' = ss_device_id r
     \<and> (session_active r' \<longrightarrow> session_active r)"

definition device_touch :: "device_row list \<Rightarrow> device_row list \<Rightarrow> bool" where
  "device_touch t t' \<longleftrightarrow> (distinct (map dv_device_id t) \<longrightarrow> distinct (map dv_device_id t'))"

lemma device_touch_intros [intro]:
  "device_touch t t"
  "(\<And>r. dv_device_id (f r) = dv_device_id r) \<Longrightarrow> device_touch t (update_where p f t)"
  by (simp_all add: device_touch_def map_update_where)

lemma touched_sessions_ok:
  assumes "sessions_ok db" "device_touch (st_devices db) (st_devices db')"
    and "st_sessions db' = update_where p f (st_sessions db)" "\<And>r. session_touch r (f r)"
  shows "sessions_ok db'"
proof -
  have "map ss_session_id (st_sessions db') = map ss_session_id (st_sessions db)"
    unfolding assms(3) using assms(4) by (intro map_update_where) (simp add: session_touch_def)
  moreover have "\<exists>r0 \<in> set (st_sessions db). session_touch r0 r" if "r \<in> set (st_sessions db')" for r
    using that assms(4) unfolding assms(3) by (auto simp: set_update_where session_touch_def)
  ultimately show ?thesis
    using assms(1,2) unfolding sessions_ok_def session_touch_def device_touch_def by metis
qed

lemma untouched_sessions: "st_sessions db' = st_sessions db \<Longrightarrow>
  st_sessions db' = update_where (\<lambda>r. False) id (st_sessions db)"
  by (simp add: update_where_id)

lemma activate_cases:
  assumes "activate_session L now a db = Inr (ad, db')"
  shows "\<exists>cols. activation_columns L a = Inr cols \<and> ad_agent ad = cols \<and>
    ad_session_id ad = av_session_id a \<and> ad_device_id ad = av_device_id a \<and>
    st_sessions db' = open_session now a cols
      (update_where (replaced_by a) (\<lambda>r. r\<lparr>ss_disconnected_at := Some now\<rparr>) (st_sessions db)) \<and>
    st_devices db' = update_where (\<lambda>r. dv_device_id r = av_device_id a) (device_online now a cols)
      (st_devices db) \<and>
    same_jobs db db' \<and>
    (\<forall>s. session_row_of (av_session_id a) db = Some s \<longrightarrow> ss_device_id s = av_device_id a) \<and>
    set (ad_replaced_session_ids ad) = ss_session_id ` {r \<in> set (st_sessions db). replaced_by a r}"
  using assms
  by (auto simp: activate_session_def result_simps Let_def update_device_def same_jobs_def
      split: option.splits)

text \<open>After an activation the live sessions of the device are exactly the new one.\<close>

lemma opened_sessions:
  assumes "distinct (map ss_session_id t)"
    and "\<And>s. s \<in> set t \<Longrightarrow> ss_session_id s = av_session_id a \<Longrightarrow> ss_device_id s = av_device_id a"
    and "t' = open_session now a cols
      (update_where (replaced_by a) (\<lambda>r. r\<lparr>ss_disconnected_at := Some now\<rparr>) t)"
  shows "distinct (map ss_session_id t') \<and>
    (\<exists>r \<in> set t'. ss_session_id r = av_session_id a \<and> ss_device_id r = av_device_id a \<and>
      session_active r \<and> ss_agent r = cols) \<and>
    (\<forall>r \<in> set t'. session_active r \<longrightarrow>
      (if ss_device_id r = av_device_id a then ss_session_id r = av_session_id a else r \<in> set t))"
proof -
  let ?closed = "update_where (replaced_by a) (\<lambda>r. r\<lparr>ss_disconnected_at := Some now\<rparr>) t"
  have ids: "map ss_session_id ?closed = map ss_session_id t"
    by (rule map_update_where) simp
  have closed: "\<exists>r0 \<in> set t. ss_session_id r = ss_session_id r0 \<and> ss_device_id r = ss_device_id r0 \<and>
      (session_active r \<longrightarrow> r = r0 \<and> \<not> replaced_by a r)" if "r \<in> set ?closed" for r
    using that by (auto simp: set_update_where session_active_def)
  consider (new) "av_session_id a \<notin> ss_session_id ` set t"
      "t' = ?closed @ [\<lparr>ss_session_id = av_session_id a, ss_device_id = av_device_id a,
            ss_protocol_version = av_protocol_version a, ss_connected_at = now,
            ss_last_heartbeat_at = now, ss_disconnected_at = None,
            ss_last_sequence = av_last_sequence a, ss_agent = cols\<rparr>]"
    | (old) x where "x \<in> set ?closed" "ss_session_id x = av_session_id a"
      "t' = update_where (\<lambda>r. ss_session_id r = av_session_id a)
            (\<lambda>r. r\<lparr>ss_disconnected_at := None, ss_last_heartbeat_at := now,
                   ss_last_sequence := max (ss_last_sequence r) (av_last_sequence a),
                   ss_agent := cols\<rparr>) ?closed"
  proof (cases "select1 (\<lambda>r. ss_session_id r = av_session_id a) ?closed")
    case None
    then have "av_session_id a \<notin> set (map ss_session_id ?closed)" by (auto simp: select1_None)
    then show thesis using None new assms(3) by (simp add: ids open_session_def)
  next
    case (Some x)
    then show thesis using old [of x] assms(3) select1_Some [OF Some] by (simp add: open_session_def)
  qed
  then show ?thesis
  proof cases
    case new
    show ?thesis
    proof (intro conjI ballI impI)
      show "distinct (map ss_session_id t')" using new assms(1) by (simp add: ids)
      show "\<exists>r \<in> set t'. ss_session_id r = av_session_id a \<and> ss_device_id r = av_device_id a \<and>
        session_active r \<and> ss_agent r = cols" by (simp add: new(2) session_active_def)
      show "if ss_device_id r = av_device_id a then ss_session_id r = av_session_id a else r \<in> set t"
        if "r \<in> set t'" "session_active r" for r
        using that closed [of r] unfolding new(2) by (auto simp: replaced_by_def)
    qed
  next
    case (old x)
    have dev: "ss_device_id y = av_device_id a" if "y \<in> set ?closed" "ss_session_id y = av_session_id a" for y
      using closed [OF that(1)] assms(2) that(2) by auto
    show ?thesis
    proof (intro conjI ballI impI)
      show "distinct (map ss_session_id t')"
        using assms(1) by (simp add: old(3) map_update_where ids)
      show "\<exists>r \<in> set t'. ss_session_id r = av_session_id a \<and> ss_device_id r = av_device_id a \<and>
        session_active r \<and> ss_agent r = cols"
      proof
        let ?x = "x\<lparr>ss_disconnected_at := None, ss_last_heartbeat_at := now,
          ss_last_sequence := max (ss_last_sequence x) (av_last_sequence a), ss_agent := cols\<rparr>"
        show "?x \<in> set t'"
          unfolding old(3) set_update_where [where t = ?closed]
          by (rule image_eqI [of _ _ x]) (use old(1,2) in simp_all)
        show "ss_session_id ?x = av_session_id a \<and> ss_device_id ?x = av_device_id a \<and>
            session_active ?x \<and> ss_agent ?x = cols"
          using dev [OF old(1,2)] by (simp add: old(2) session_active_def)
      qed
      show "if ss_device_id r = av_device_id a then ss_session_id r = av_session_id a else r \<in> set t"
        if "r \<in> set t'" "session_active r" for r
      proof -
        have r: "r \<in> set t'" by (rule that(1))
        obtain y where y: "y \<in> set ?closed"
          "r = (if ss_session_id y = av_session_id a
            then y\<lparr>ss_disconnected_at := None, ss_last_heartbeat_at := now,
              ss_last_sequence := max (ss_last_sequence y) (av_last_sequence a), ss_agent := cols\<rparr>
            else y)"
          using r unfolding old(3) set_update_where [where t = ?closed] by blast
        show ?thesis
          using y dev [OF y(1)] closed [OF y(1)] that(2)
          by (cases "ss_session_id y = av_session_id a") (auto simp: replaced_by_def)
      qed
    qed
  qed
qed

lemma activate_sessions_ok:
  assumes "activate_session L now a db = Inr (ad, db')" "sessions_ok db"
  shows "sessions_ok db'"
proof -
  obtain cols where c: "st_sessions db' = open_session now a cols
      (update_where (replaced_by a) (\<lambda>r. r\<lparr>ss_disconnected_at := Some now\<rparr>) (st_sessions db))"
    "st_devices db' = update_where (\<lambda>r. dv_device_id r = av_device_id a) (device_online now a cols)
      (st_devices db)"
    "\<forall>s. session_row_of (av_session_id a) db = Some s \<longrightarrow> ss_device_id s = av_device_id a"
    using activate_cases [OF assms(1)] by blast
  have d: "distinct (map ss_session_id (st_sessions db))" using assms(2) by (simp add: sessions_ok_def)
  have dev: "ss_device_id s = av_device_id a"
    if "s \<in> set (st_sessions db)" "ss_session_id s = av_session_id a" for s
    using c(3) select1_key [OF d that] by (simp add: session_row_of_def)
  have "distinct (map dv_device_id (st_devices db'))"
    using assms(2) by (simp add: c(2) sessions_ok_def map_update_where device_online_def)
  then show ?thesis
    using opened_sessions [OF d dev c(1)] assms(2) unfolding sessions_ok_def by metis
qed

lemma touch_shape:
  assumes "sessions_ok db" "st_sessions db' = st_sessions db"
    "device_touch (st_devices db) (st_devices db')"
  shows "sessions_ok db'"
  using touched_sessions_ok [OF assms(1,3), of "\<lambda>r. False" "\<lambda>r. r"] assms(2)
  by (simp add: update_where_id session_touch_def)

lemma seed_device_cases:
  assumes "seed_device L now own dv nm caps ref db = Inr db'"
  shows "same_jobs db db' \<and> st_sessions db' = st_sessions db \<and>
    device_touch (st_devices db) (st_devices db')"
proof (cases "device_row_of dv db")
  case None
  then have "dv \<notin> dv_device_id ` set (st_devices db)"
    by (auto simp: device_row_of_def select1_None)
  then show ?thesis
    using None assms by (auto simp: seed_device_def result_simps same_jobs_def device_touch_def)
next
  case (Some r)
  then show ?thesis
    using assms
    by (auto simp: seed_device_def result_simps same_jobs_def device_touch_def map_update_where)
qed

lemma heartbeat_cases:
  assumes "heartbeat_session now s dv h db = Inr (b, db')"
  shows "same_jobs db db' \<and> (sessions_ok db \<longrightarrow> sessions_ok db')"
proof -
  have "same_jobs db db'"
    using assms
    by (auto simp: heartbeat_session_def Let_def same_jobs_def update_device_def split: if_splits)
  moreover have t: "device_touch (st_devices db) (st_devices db')"
    "st_sessions db' = update_where (active_session_of s dv)
       (\<lambda>r. r\<lparr>ss_last_heartbeat_at := now,
              ss_last_sequence := max (ss_last_sequence r) (sh_sequence h),
              ss_agent := heartbeat_columns h (ss_agent r)\<rparr>) (st_sessions db)"
    using assms
    by (auto simp: heartbeat_session_def Let_def update_device_def device_touch_def map_update_where
        split: if_splits)
  moreover have "sessions_ok db'" if "sessions_ok db"
    by (rule touched_sessions_ok [OF that t]) (simp add: session_touch_def session_active_def)
  ultimately show ?thesis by blast
qed

lemma stale_cases:
  assumes "mark_session_stale now s dv db = (b, db')"
  shows "same_jobs db db' \<and> st_sessions db' = st_sessions db \<and>
    device_touch (st_devices db) (st_devices db')"
  using assms
  by (auto simp: mark_session_stale_def set_device_status_def update_device_def same_jobs_def
      device_touch_def map_update_where split: option.splits)

lemma close_session_cases:
  assumes "close_session now s dvo db = Inr (b, db')"
  shows "same_jobs db db' \<and> (sessions_ok db \<longrightarrow> sessions_ok db')"
proof (cases "session_row_of s db")
  case None
  then show ?thesis using assms by (simp add: close_session_def same_jobs_def)
next
  case (Some row)
  let ?p = "\<lambda>r. ss_session_id r = s \<and> session_active r"
  have t: "same_jobs db db'" "device_touch (st_devices db) (st_devices db')"
    "st_sessions db' = update_where ?p (\<lambda>r. r\<lparr>ss_disconnected_at := Some now\<rparr>) (st_sessions db)"
    using assms Some
    by (auto simp: close_session_def Let_def set_device_status_def update_device_def same_jobs_def
        device_touch_def map_update_where split: if_splits option.splits)
  have "sessions_ok db'" if "sessions_ok db"
    by (rule touched_sessions_ok [OF that t(2,3)]) (simp add: session_touch_def session_active_def)
  then show ?thesis using t(1) by blast
qed

lemma disconnect_cases:
  "same_jobs db (mark_sessions_disconnected now db) \<and>
   (sessions_ok db \<longrightarrow> sessions_ok (mark_sessions_disconnected now db))"
proof -
  have "sessions_ok (mark_sessions_disconnected now db)" if "sessions_ok db"
    by (rule touched_sessions_ok [OF that, of _ session_active
          "\<lambda>r. r\<lparr>ss_disconnected_at := Some now\<rparr>"])
      (auto simp: mark_sessions_disconnected_def session_touch_def session_active_def
        device_touch_def map_update_where)
  then show ?thesis by (simp add: same_jobs_def mark_sessions_disconnected_def)
qed

section \<open>Every step keeps the invariant\<close>

text \<open>A step is a job operation or leaves the jobs alone.\<close>

lemma store_step_delta:
  assumes "store_step db db'" "jobs_ok db"
  shows "job_delta db db' \<and> set (st_snapshots db) \<subseteq> set (st_snapshots db') \<and>
    (sessions_ok db \<longrightarrow> sessions_ok db')"
proof -
  have jobs: "job_delta db db' \<and> set (st_snapshots db) \<subseteq> set (st_snapshots db')" if "same_jobs db db'"
    using that by (auto simp: same_jobs_def intro: delta_none)
  have presence: "sessions_ok db \<longrightarrow> sessions_ok db'" if "same_presence db db'"
    using that touch_shape [of db db'] by (auto simp: same_presence_def)
  have only: ?thesis if "only_jobs db db'"
    using that presence by (simp add: only_jobs_def)
  from assms(1) show ?thesis
  proof cases
    case step_seed
    then show ?thesis using seed_device_cases jobs touch_shape by blast
  next
    case (step_status now dv st)
    then have "same_jobs db db'" "st_sessions db' = st_sessions db"
      "device_touch (st_devices db) (st_devices db')"
      by (auto simp: set_device_status_def update_device_def same_jobs_def device_touch_def
          map_update_where)
    then show ?thesis using jobs touch_shape by blast
  next
    case step_activate
    then show ?thesis using activate_cases jobs activate_sessions_ok by blast
  next
    case step_heartbeat
    then show ?thesis using heartbeat_cases jobs by blast
  next
    case step_stale
    then show ?thesis using stale_cases jobs touch_shape by blast
  next
    case step_close
    then show ?thesis using close_session_cases jobs by blast
  next
    case (step_disconnect now)
    then show ?thesis using disconnect_cases [of db now] jobs by blast
  next
    case (step_create L wire now nj nc q x)
    then show ?thesis
      using create_job_delta [of L wire now nj nc q db "fst x" "snd x" db'] assms(2) presence by simp
  next
    case step_claim
    from claim_job_delta [OF this assms(2)] show ?thesis using only by blast
  next
    case step_transition
    from transition_job_delta [OF this assms(2)] show ?thesis using only by blast
  next
    case step_cancel
    from request_job_cancel_delta [OF this assms(2)] show ?thesis using only by blast
  next
    case step_progress
    from append_progress_delta [OF this assms(2)] show ?thesis using only by blast
  next
    case (step_finalize L now hook ou z)
    from finalize_cases [OF this assms(2)] have "set (st_snapshots db) \<subseteq> set (st_snapshots db')"
      by (auto simp: finalizes_def split: option.splits if_splits)
    then show ?thesis using finalize_cases [OF step_finalize assms(2)] presence by blast
  qed
qed

text \<open>Snapshots come from finalisations only.\<close>

lemma store_step_snapshots:
  assumes "store_step db db'" "jobs_ok db"
  shows "st_snapshots db' = st_snapshots db \<or>
    (\<exists>sn r. st_snapshots db' = st_snapshots db @ [sn] \<and> job_row_of (sn_job_id sn) db' = Some r \<and>
       jb_state r = Succeeded \<and> sn_owner_subject sn = jb_owner_subject r \<and>
       sn_device_id sn = jb_device_id r \<and> sn_job_id sn \<notin> sn_job_id ` set (st_snapshots db) \<and>
       sn_snapshot_id sn \<notin> sn_snapshot_id ` set (st_snapshots db))"
  using assms(1)
proof cases
  case (step_create L wire now nj nc q x)
  then show ?thesis using create_job_delta [of L wire now nj nc q db "fst x" "snd x" db'] assms(2) by simp
next
  case (step_finalize L now hook ou z)
  note f = finalize_cases [OF this assms(2)]
  show ?thesis
  proof (cases "job_row_of (jo_job_id ou) db")
    case None
    then show ?thesis using f by simp
  next
    case (Some row)
    have id: "jb_job_id row = jo_job_id ou" using job_row_of_Some [OF Some] by simp
    from f Some have "\<exists>r. job_row_of (jo_job_id ou) db' = Some r \<and>
        (st_snapshots db' = st_snapshots db \<or> finalizes db db' ou row r)"
      by (auto split: if_splits)
    then show ?thesis using id by (auto simp: finalizes_def keeps_job_keys)
  qed
qed (use seed_device_cases heartbeat_cases stale_cases close_session_cases disconnect_cases
    activate_cases claim_job_delta transition_job_delta request_job_cancel_delta
    append_progress_delta assms(2) in
    \<open>fastforce simp: same_jobs_def only_jobs_def set_device_status_def update_device_def\<close>)+

lemma job_content_eq:
  "job_content r' = job_content r \<Longrightarrow>
   jb_state r' = jb_state r \<and> jb_job_id r' = jb_job_id r \<and> jb_kind r' = jb_kind r \<and>
   jb_result r' = jb_result r \<and> jb_error_code r' = jb_error_code r \<and>
   jb_error_summary r' = jb_error_summary r \<and> jb_state_version r' = jb_state_version r"
  by (cases r; cases r') (simp add: job_content_def)

lemma keeps_job_kind: "keeps_job r r' \<Longrightarrow> jb_kind r' = jb_kind r"
  by (simp add: keeps_job_def job_identity_def)

lemma job_delta_observed:
  assumes "job_delta db db'" "jobs_ok db" "set (st_snapshots db) \<subseteq> set (st_snapshots db')"
    and "\<forall>r \<in> set (st_jobs db). jb_kind r = ''observe'' \<and> jb_state r = Succeeded \<longrightarrow>
          jb_job_id r \<in> sn_job_id ` set (st_snapshots db)"
    and "x \<in> set (st_jobs db')" "jb_kind x = ''observe''" "jb_state x = Succeeded"
  shows "jb_job_id x \<in> sn_job_id ` set (st_snapshots db')"
proof -
  have old: "jb_job_id r \<in> sn_job_id ` set (st_snapshots db')"
    if "r \<in> set (st_jobs db)" "jb_kind r = ''observe''" "jb_state r = Succeeded" for r
    using assms(3,4) that by blast
  have d: "distinct (map jb_job_id (st_jobs db))" using assms(2) by (simp add: jobs_ok_def)
  from assms(1) show ?thesis
  proof cases
    case delta_none
    then show ?thesis using old assms(5-7) by simp
  next
    case delta_created
    then show ?thesis using old assms(5-7) by auto
  next
    case (delta_logged k row f e)
    have "x = f row \<or> x \<in> set (st_jobs db)"
      using assms(5) update_job_rows [OF d delta_logged(1)] delta_logged(2) by auto
    then show ?thesis
      using old assms(6,7) delta_logged keeps_job_kind job_row_of_Some [OF delta_logged(1)]
        keeps_job_keys(1) [OF delta_logged(4)] by auto
  next
    case (delta_silent k row f)
    have "x = f row \<or> x \<in> set (st_jobs db)"
      using assms(5) update_job_rows [OF d delta_silent(1)] delta_silent(2) by auto
    then show ?thesis
      using old [of row] old [of x] assms(6,7) job_row_of_Some [OF delta_silent(1)]
        job_content_eq [OF delta_silent(5)] by auto
  qed
qed

lemma finished_row:
  assumes "keeps_job r r'" "is_terminal (jb_state r)"
  shows "job_content r' = job_content r" "jb_state r' = jb_state r"
proof -
  show c: "job_content r' = job_content r" using assms by (simp add: keeps_job_def)
  show "jb_state r' = jb_state r" using job_content_eq [OF c] by simp
qed

lemma store_step_snapshots_ok:
  assumes "store_step db db'" "store_ok db"
  shows "snapshots_ok db'"
proof -
  have ok: "jobs_ok db" "snapshots_ok db" using assms(2) by (simp_all add: store_ok_def)
  note delta = store_step_delta [OF assms(1) ok(1)]
  have old: "\<exists>r. job_row_of (sn_job_id sn) db' = Some r \<and> jb_state r = Succeeded \<and>
      sn_owner_subject sn = jb_owner_subject r \<and> sn_device_id sn = jb_device_id r"
    if mem: "sn \<in> set (st_snapshots db)" for sn
  proof -
    obtain r where r: "job_row_of (sn_job_id sn) db = Some r" "jb_state r = Succeeded"
      "sn_owner_subject sn = jb_owner_subject r" "sn_device_id sn = jb_device_id r"
      using ok(2) mem by (auto simp: snapshots_ok_def)
    then obtain r' where r': "job_row_of (sn_job_id sn) db' = Some r'" "keeps_job r r'"
      using job_delta_row [of db db'] delta ok(1) by blast
    then show ?thesis using r finished_row [OF r'(2)] keeps_job_keys [OF r'(2)] by simp
  qed
  have observed: "jb_job_id r \<in> sn_job_id ` set (st_snapshots db')"
    if "r \<in> set (st_jobs db')" "jb_kind r = ''observe''" "jb_state r = Succeeded" for r
    using job_delta_observed [of db db' r] delta ok that by (auto simp: snapshots_ok_def)
  from store_step_snapshots [OF assms(1) ok(1)] show ?thesis
  proof (elim disjE exE conjE)
    assume "st_snapshots db' = st_snapshots db"
    then show ?thesis using ok(2) old observed unfolding snapshots_ok_def by auto
  next
    fix sn r
    assume "st_snapshots db' = st_snapshots db @ [sn]" "job_row_of (sn_job_id sn) db' = Some r"
      "jb_state r = Succeeded" "sn_owner_subject sn = jb_owner_subject r"
      "sn_device_id sn = jb_device_id r" "sn_job_id sn \<notin> sn_job_id ` set (st_snapshots db)"
      "sn_snapshot_id sn \<notin> sn_snapshot_id ` set (st_snapshots db)"
    then show ?thesis using ok(2) old observed unfolding snapshots_ok_def by auto
  qed
qed

lemma store_step_ok: "store_step db db' \<Longrightarrow> store_ok db \<Longrightarrow> store_ok db'"
  using store_step_delta [of db db'] job_delta_ok [of db db'] store_step_snapshots_ok [of db db']
  by (simp add: store_ok_def)

lemma store_step_row:
  assumes "store_step db db'" "store_ok db" "job_row_of j db = Some r"
  shows "\<exists>r'. job_row_of j db' = Some r' \<and> keeps_job r r' \<and>
    (jb_state r' = jb_state r \<or> job_step (jb_effect_class r) (jb_state r) (jb_state r'))"
  using store_step_delta [OF assms(1)] job_delta_row [of db db'] assms(2,3)
  by (simp add: store_ok_def)

lemma empty_store_ok: "store_ok (empty_store other)"
  by (simp add: store_ok_def jobs_ok_def sessions_ok_def snapshots_ok_def numbered_def
      job_events_def empty_store_def)

section \<open>The contracts of the store\<close>

definition finished_job :: "job_row \<Rightarrow> bool" where
  "finished_job r \<longleftrightarrow> is_terminal (jb_state r)"

interpretation store: durable_system store_step store_ok "\<lambda>db k. job_row_of k db"
  finished_job job_content
proof unfold_locales
  fix db db' :: "'x store_db" and k r
  assume s: "store_step db db'" "store_ok db" "job_row_of k db = Some r" "finished_job r"
  from store_step_row [OF s(1-3)] s(4)
  show "\<exists>r'. job_row_of k db' = Some r' \<and> finished_job r' \<and> job_content r' = job_content r"
    using finished_row by (fastforce simp: finished_job_def)
qed (rule store_step_ok)

text \<open>The version of a job only grows.\<close>

definition version_of :: "string \<Rightarrow> 'x store_db \<Rightarrow> nat" where
  "version_of k db = (case job_row_of k db of None \<Rightarrow> 0 | Some r \<Rightarrow> jb_state_version r)"

interpretation versions: monotone_system store_step store_ok "version_of k" for k
proof unfold_locales
  fix db db' :: "'x store_db"
  assume "store_step db db'" "store_ok db"
  from store_step_row [OF this] show "version_of k db \<le> version_of k db'"
    by (fastforce simp: version_of_def keeps_job_def split: option.splits)
qed

text \<open>Along a run a job keeps its identity and follows validated transitions.\<close>

lemma keeps_job_trans: "keeps_job r s \<Longrightarrow> keeps_job s t \<Longrightarrow> keeps_job r t"
proof -
  assume a: "keeps_job r s" "keeps_job s t"
  have "job_content t = job_content r" if "is_terminal (jb_state r)"
    using that finished_row [OF a(1)] finished_row [OF a(2)] by simp
  then show ?thesis using a by (auto simp: keeps_job_def)
qed

lemma steps_job:
  assumes "steps store_step db db'" "store_ok db" "job_row_of j db = Some r"
  shows "\<exists>r'. job_row_of j db' = Some r' \<and> keeps_job r r' \<and>
    job_path (jb_effect_class r) (jb_state r) (jb_state r')"
  using assms
proof (induction rule: steps.induct)
  case (steps_refl s)
  then show ?case by (auto simp: keeps_job_def intro: path_refl)
next
  case (steps_snoc s t u)
  then obtain r' where r': "job_row_of j t = Some r'" "keeps_job r r'"
    "job_path (jb_effect_class r) (jb_state r) (jb_state r')" by blast
  have "store_ok t" using steps_snoc(1,4) by (rule store.steps_inv)
  from store_step_row [OF steps_snoc(2) this r'(1)] obtain r'' where
    "job_row_of j u = Some r''" "keeps_job r' r''"
    "jb_state r'' = jb_state r' \<or> job_step (jb_effect_class r') (jb_state r') (jb_state r'')"
    by blast
  then show ?case
    using r' keeps_job_trans keeps_job_keys(4) [OF r'(2)] by (auto intro: path_step)
qed

end
