(* ===== verification/ProgramTables.thy ===== *)
theory ProgramTables
  imports StoreJobs
begin

text \<open>
  The tables of \<open>sqlite/program_repository.py\<close>: CAD programs and their revisions, previews, execution
  receipts, validations, the idempotency table and the write locks of documents, with its column
  encoder and its lookups.  They live in the field \<open>st_other\<close> of the store; the tables of the later
  repositories follow in \<open>pt_more\<close>.  Text columns hold the bound text, JSON columns the value that
  \<open>json.loads\<close> returns for them.  An \<open>INTEGER\<close> column takes integers; the conversion of numeric
  texts by column affinity is not modelled, every caller passes an integer.
\<close>

section \<open>Columns\<close>

text \<open>\<open>v[k]\<close> on a JSON value.\<close>

definition jsub :: "json \<Rightarrow> string \<Rightarrow> store_error + json" where
  "jsub v k = (case jlookup v k of None \<Rightarrow> Inl MissingField | Some w \<Rightarrow> Inr w)"

fun mapE :: "('a \<Rightarrow> 'e + 'b) \<Rightarrow> 'a list \<Rightarrow> 'e + 'b list" where
  "mapE f [] = Inr []"
| "mapE f (x # xs) = bindE (f x) (\<lambda>y. bindE (mapE f xs) (\<lambda>ys. Inr (y # ys)))"

lemma mapE_Inr: "mapE f xs = Inr ys \<longleftrightarrow> list_all2 (\<lambda>x y. f x = Inr y) xs ys"
  by (induction xs arbitrary: ys) (auto simp: result_simps list_all2_Cons1)

text \<open>\<open>_json\<close> of this repository: the canonical encoder with its bounds and a limit.\<close>

definition canonical_column :: "pylib \<Rightarrow> nat \<Rightarrow> json \<Rightarrow> store_error + json" where
  "canonical_column L limit v =
    bindE (conflict_on_error ''payload_invalid'' (canonical_json L v)) (\<lambda>encoded.
    bindE (guard (length encoded \<le> limit) ''payload_too_large'') (\<lambda>_. Inr v))"

definition MAX_RESULT_BYTES :: nat where "MAX_RESULT_BYTES = 256000"

text \<open>A \<open>TEXT NOT NULL\<close> and an \<open>INTEGER NOT NULL\<close> column.\<close>

definition text_column :: "pylib \<Rightarrow> json \<Rightarrow> store_error + string" where
  "text_column L v = bindE (sql_text_value L v)
     (\<lambda>t. case t of None \<Rightarrow> Inl IntegrityError | Some s \<Rightarrow> Inr s)"

fun int_column :: "json \<Rightarrow> store_error + int" where
  "int_column (JInt i) = (if \<bar>i\<bar> < 2 ^ 63 then Inr i else Inl BindingError)"
| "int_column (JBool b) = Inr (if b then 1 else 0)"
| "int_column JNull = Inl IntegrityError"
| "int_column _ = Inl BindingError"

definition program_fingerprint ::
  "pylib \<Rightarrow> string \<Rightarrow> effect_class \<Rightarrow> string \<Rightarrow> store_error + string" where
  "program_fingerprint L kind effect payload_hash =
    (let v = JObj [(''version'', JStr ''cad.request/1''), (''kind'', JStr kind),
                   (''effect_class'', JStr (effect_name effect)), (''payload_hash'', JStr payload_hash)]
     in bindE (canonical_column L 16384 v) (\<lambda>_. Inr (sha256_hex L (the (json_dumps L v)))))"

section \<open>Rows\<close>

text \<open>The runtime and policy pins of a program, by column name.\<close>

type_synonym pins = "(string \<times> string) list"

definition PIN_COLUMNS :: "string list" where
  "PIN_COLUMNS = [''runtime_id'', ''runtime_role'', ''host_family'', ''host_version'', ''package_id'',
     ''package_version'', ''package_hash'', ''capability_manifest_hash'', ''operation_registry_hash'',
     ''policy_version'']"

record program_row =
  cp_program_id :: string
  cp_owner_subject :: string
  cp_device_id :: string
  cp_document_id :: string
  cp_created_at :: string
  cp_updated_at :: string

record revision_row =
  rv_program_id :: string
  rv_revision :: int
  rv_owner_subject :: string
  rv_source_snapshot_id :: string
  rv_expected_document_revision :: string
  rv_schema_version :: string
  rv_registry_version :: string
  rv_program_digest :: string
  rv_semantic :: json
  rv_operations :: json
  rv_preconditions :: json
  rv_postconditions :: json
  rv_budgets :: json
  rv_risk_class :: string
  rv_missing_capabilities :: "json list"
  rv_pins :: pins
  rv_created_at :: string

record preview_row =
  pv_preview_id :: string
  pv_owner_subject :: string
  pv_program_id :: string
  pv_program_revision :: int
  pv_job_id :: string
  pv_program_digest :: string
  pv_execution_digest :: string
  pv_preview_digest :: string
  pv_binding_digest :: string
  pv_document_id :: string
  pv_expected_document_revision :: string
  pv_pins :: pins
  pv_planned_operation_count :: int
  pv_planned_entity_count :: int
  pv_planned_layer_count :: int
  pv_validation :: json
  pv_expires_at :: string
  pv_invalidated_reason :: "string option"
  pv_created_at :: string

record receipt_row =
  rt_receipt_id :: string
  rt_owner_subject :: string
  rt_program_id :: string
  rt_program_revision :: int
  rt_preview_id :: string
  rt_job_id :: string
  rt_program_digest :: string
  rt_execution_digest :: string
  rt_receipt_digest :: string
  rt_preview_execution_digest :: string
  rt_binding_digest :: string
  rt_document_id :: string
  rt_document_revision_before :: string
  rt_document_revision_after :: string
  rt_pins :: pins
  rt_effect_summary :: json
  rt_durable_receipt :: json
  rt_created_at :: string

record validation_row =
  vl_validation_id :: string
  vl_owner_subject :: string
  vl_program_id :: string
  vl_program_revision :: int
  vl_receipt_id :: string
  vl_job_id :: string
  vl_execution_digest :: string
  vl_binding_digest :: string
  vl_document_revision :: string
  vl_passed :: bool
  vl_report :: json
  vl_created_at :: string

record idempotency_row =
  pi_owner_subject :: string
  pi_action :: string
  pi_idempotency_key :: string
  pi_request_hash :: string
  pi_response_kind :: string
  pi_response_id :: string
  pi_created_at :: string

record lock_row =
  lk_device_id :: string
  lk_document_id :: string
  lk_job_id :: string
  lk_created_at :: string

record 'y program_tables =
  pt_programs :: "program_row list"
  pt_revisions :: "revision_row list"
  pt_previews :: "preview_row list"
  pt_receipts :: "receipt_row list"
  pt_validations :: "validation_row list"
  pt_idempotency :: "idempotency_row list"
  pt_locks :: "lock_row list"
  pt_more :: 'y

type_synonym 'y program_db = "'y program_tables store_db"

text \<open>
  What the repository takes from other modules: the hash of the wire message a program payload
  becomes (\<open>program_wire_payload_hash\<close>), the preview digest of the binding of that message, the
  instant of an ISO text with its time zone flag, and the insertion of a rollback checkpoint into the
  tables of Phase 7.
\<close>

record 'y program_lib =
  pl_wire_hash :: "string \<Rightarrow> effect_class \<Rightarrow> json \<Rightarrow> value_error + string"
  pl_preview_digest :: "json \<Rightarrow> store_error + string"
  pl_instant :: "string \<Rightarrow> (bool \<times> rat) option"
  pl_checkpoint :: "job_row \<Rightarrow> json \<Rightarrow> json \<Rightarrow> 'y \<Rightarrow> store_error + 'y"

section \<open>Lookups\<close>

definition on_tables :: "('y program_tables \<Rightarrow> 'y program_tables) \<Rightarrow> 'y program_db \<Rightarrow> 'y program_db" where
  "on_tables f db = db\<lparr>st_other := f (st_other db)\<rparr>"

definition idempotent_response ::
  "string \<Rightarrow> string \<Rightarrow> string \<Rightarrow> string \<Rightarrow> 'y program_tables \<Rightarrow> store_error + string option" where
  "idempotent_response owner action key req_hash t =
    (case select1 (\<lambda>r. (pi_owner_subject r, pi_action r, pi_idempotency_key r) = (owner, action, key))
            (pt_idempotency t) of
       None \<Rightarrow> Inr None
     | Some r \<Rightarrow> bindE (guard (pi_request_hash r = req_hash) ''idempotency_conflict'')
                   (\<lambda>_. Inr (Some (pi_response_id r))))"

text \<open>A program revision joined with its program.\<close>

definition program_revision_row ::
  "string \<Rightarrow> string \<Rightarrow> int \<Rightarrow> 'y program_tables \<Rightarrow> (revision_row \<times> program_row) option" where
  "program_revision_row owner program_id revision t =
    (case select1 (\<lambda>r. rv_owner_subject r = owner \<and> rv_program_id r = program_id
             \<and> rv_revision r = revision) (pt_revisions t) of
       None \<Rightarrow> None
     | Some r \<Rightarrow> map_option (\<lambda>p. (r, p))
         (select1 (\<lambda>p. cp_program_id p = rv_program_id r) (pt_programs t)))"

definition get_program_revision ::
  "string \<Rightarrow> string \<Rightarrow> int \<Rightarrow> 'y program_db \<Rightarrow> (revision_row \<times> program_row) option" where
  "get_program_revision owner program_id revision db =
    program_revision_row owner program_id revision (st_other db)"

definition get_preview :: "string \<Rightarrow> string \<Rightarrow> 'y program_db \<Rightarrow> preview_row option" where
  "get_preview owner preview_id db =
    select1 (\<lambda>r. pv_owner_subject r = owner \<and> pv_preview_id r = preview_id) (pt_previews (st_other db))"

definition get_preview_by_job :: "string \<Rightarrow> string \<Rightarrow> 'y program_db \<Rightarrow> preview_row option" where
  "get_preview_by_job owner job_id db =
    select1 (\<lambda>r. pv_owner_subject r = owner \<and> pv_job_id r = job_id) (pt_previews (st_other db))"

definition get_receipt :: "string \<Rightarrow> string \<Rightarrow> 'y program_db \<Rightarrow> receipt_row option" where
  "get_receipt owner receipt_id db =
    select1 (\<lambda>r. rt_owner_subject r = owner \<and> rt_receipt_id r = receipt_id) (pt_receipts (st_other db))"

definition get_receipt_by_job :: "string \<Rightarrow> string \<Rightarrow> 'y program_db \<Rightarrow> receipt_row option" where
  "get_receipt_by_job owner job_id db =
    select1 (\<lambda>r. rt_owner_subject r = owner \<and> rt_job_id r = job_id) (pt_receipts (st_other db))"

definition get_receipt_by_preview :: "string \<Rightarrow> string \<Rightarrow> 'y program_db \<Rightarrow> receipt_row option" where
  "get_receipt_by_preview owner preview_id db =
    select1 (\<lambda>r. rt_owner_subject r = owner \<and> rt_preview_id r = preview_id) (pt_receipts (st_other db))"

definition get_validation :: "string \<Rightarrow> string \<Rightarrow> 'y program_db \<Rightarrow> validation_row option" where
  "get_validation owner validation_id db =
    select1 (\<lambda>r. vl_owner_subject r = owner \<and> vl_validation_id r = validation_id)
      (pt_validations (st_other db))"

definition get_validation_by_job :: "string \<Rightarrow> string \<Rightarrow> 'y program_db \<Rightarrow> validation_row option" where
  "get_validation_by_job owner job_id db =
    select1 (\<lambda>r. vl_owner_subject r = owner \<and> vl_job_id r = job_id) (pt_validations (st_other db))"

text \<open>\<open>invalidated_reason = COALESCE(invalidated_reason, ?)\<close>: the first reason stays.\<close>

definition invalidate_preview :: "string \<Rightarrow> string \<Rightarrow> 'y program_db \<Rightarrow> 'y program_db" where
  "invalidate_preview preview_id reason =
    on_tables (\<lambda>t. t\<lparr>pt_previews := update_where (\<lambda>r. pv_preview_id r = preview_id)
      (\<lambda>r. r\<lparr>pv_invalidated_reason := coalesce (pv_invalidated_reason r) (Some reason)\<rparr>)
      (pt_previews t)\<rparr>)"

definition release_write_lock :: "string \<Rightarrow> 'y program_db \<Rightarrow> 'y program_db" where
  "release_write_lock job_id =
    on_tables (\<lambda>t. t\<lparr>pt_locks := delete_where (\<lambda>r. lk_job_id r = job_id) (pt_locks t)\<rparr>)"

end
