(* ===== verification/ProgramStore.thy ===== *)
theory ProgramStore
  imports ProgramTables
begin

text \<open>
  The operations of \<open>ProgramRepository\<close> that write: the creation of a program, the creation of a
  preview, commit or validation job with its document write lock, and the finalisation of such a job,
  which materialises the preview, receipt or validation in the same transaction.
\<close>

section \<open>Programs\<close>

record program_request =
  pq_owner_subject :: string
  pq_program_id :: string
  pq_device_id :: string
  pq_document_id :: string
  pq_source_snapshot_id :: string
  pq_expected_document_revision :: string
  pq_semantic :: json
  pq_program_digest :: string
  pq_pins :: json
  pq_risk_class :: string
  pq_missing_capabilities :: "json list"
  pq_idempotency_key :: string
  pq_request_hash :: string

definition new_idempotency ::
  "string \<Rightarrow> string \<Rightarrow> string \<Rightarrow> string \<Rightarrow> string \<Rightarrow> string \<Rightarrow> string \<Rightarrow>
   'y program_tables \<Rightarrow> store_error + 'y program_tables" where
  "new_idempotency owner action key req_hash response_kind response_id now t =
    (if select1 (\<lambda>r. (pi_owner_subject r, pi_action r, pi_idempotency_key r) = (owner, action, key))
          (pt_idempotency t) \<noteq> None
     then Inl IntegrityError
     else Inr (t\<lparr>pt_idempotency := pt_idempotency t @
       [\<lparr>pi_owner_subject = owner, pi_action = action, pi_idempotency_key = key,
         pi_request_hash = req_hash, pi_response_kind = response_kind, pi_response_id = response_id,
         pi_created_at = now\<rparr>]\<rparr>))"

definition SEMANTIC_PARTS :: "string list" where
  "SEMANTIC_PARTS = [''operations'', ''preconditions'', ''postconditions'', ''budgets'']"

text \<open>
  The row of revision 1: the subscripts of \<open>semantic\<close> and \<open>pins\<close>, the encoders, the table's checks on
  the schema version and the risk class.
\<close>

definition revision_columns ::
  "pylib \<Rightarrow> string \<Rightarrow> program_request \<Rightarrow> store_error + revision_row" where
  "revision_columns L now q =
    (let semantic = pq_semantic q in
     bindE (mapE (jsub semantic) [''schema_version'', ''registry_version'']) (\<lambda>versions.
     bindE (canonical_column L JSON_LIMIT semantic) (\<lambda>_.
     bindE (mapE (\<lambda>k. bindE (jsub semantic k) (canonical_column L JSON_LIMIT)) SEMANTIC_PARTS) (\<lambda>parts.
     bindE (canonical_column L 65536 (JList (pq_missing_capabilities q))) (\<lambda>_.
     bindE (mapE (jsub (pq_pins q)) PIN_COLUMNS) (\<lambda>pin_values.
     bindE (mapE (text_column L) versions) (\<lambda>version_texts.
     bindE (mapE (text_column L) pin_values) (\<lambda>pin_texts.
     if version_texts ! 0 \<noteq> ''cad.program/0.2'' \<or> pq_risk_class q \<noteq> ''low'' then Inl IntegrityError
     else Inr
       \<lparr>rv_program_id = pq_program_id q, rv_revision = 1, rv_owner_subject = pq_owner_subject q,
        rv_source_snapshot_id = pq_source_snapshot_id q,
        rv_expected_document_revision = pq_expected_document_revision q,
        rv_schema_version = version_texts ! 0, rv_registry_version = version_texts ! 1,
        rv_program_digest = pq_program_digest q, rv_semantic = semantic,
        rv_operations = parts ! 0, rv_preconditions = parts ! 1, rv_postconditions = parts ! 2,
        rv_budgets = parts ! 3, rv_risk_class = pq_risk_class q,
        rv_missing_capabilities = pq_missing_capabilities q, rv_pins = zip PIN_COLUMNS pin_texts,
        rv_created_at = now\<rparr>))))))))"

text \<open>The primary keys and \<open>UNIQUE (owner_subject, program_digest)\<close>.\<close>

definition insert_program ::
  "pylib \<Rightarrow> string \<Rightarrow> program_request \<Rightarrow> 'y program_tables \<Rightarrow> store_error + 'y program_tables" where
  "insert_program L now q t =
    (if select1 (\<lambda>r. cp_program_id r = pq_program_id q) (pt_programs t) \<noteq> None then Inl IntegrityError
     else bindE (revision_columns L now q) (\<lambda>row.
       if select1 (\<lambda>r. (rv_program_id r, rv_revision r) = (pq_program_id q, 1)
                \<or> (rv_owner_subject r, rv_program_digest r) = (pq_owner_subject q, pq_program_digest q))
            (pt_revisions t) \<noteq> None
       then Inl IntegrityError
       else Inr (t\<lparr>pt_programs := pt_programs t @
              [\<lparr>cp_program_id = pq_program_id q, cp_owner_subject = pq_owner_subject q,
                cp_device_id = pq_device_id q, cp_document_id = pq_document_id q,
                cp_created_at = now, cp_updated_at = now\<rparr>],
            pt_revisions := pt_revisions t @ [row]\<rparr>)))"

definition create_program ::
  "pylib \<Rightarrow> string \<Rightarrow> program_request \<Rightarrow> 'y program_db \<Rightarrow>
   store_error + (((revision_row \<times> program_row) \<times> bool) \<times> 'y program_db)" where
  "create_program L now q db =
    bindE (idempotent_response (pq_owner_subject q) ''prepare'' (pq_idempotency_key q)
             (pq_request_hash q) (st_other db)) (\<lambda>existing.
    case existing of
      Some program_id \<Rightarrow>
        (case program_revision_row (pq_owner_subject q) program_id 1 (st_other db) of
           None \<Rightarrow> Inl (Conflict ''idempotency_state_invalid'')
         | Some row \<Rightarrow> Inr ((row, True), db))
    | None \<Rightarrow>
        bindE (guard (select1 (\<lambda>s. sn_owner_subject s = pq_owner_subject q
                   \<and> sn_snapshot_id s = pq_source_snapshot_id q \<and> sn_device_id s = pq_device_id q
                   \<and> sn_document_revision s = pq_expected_document_revision q) (st_snapshots db) \<noteq> None)
                 ''stale_snapshot'') (\<lambda>_.
        bindE (insert_program L now q (st_other db)) (\<lambda>t1.
        bindE (new_idempotency (pq_owner_subject q) ''prepare'' (pq_idempotency_key q)
                 (pq_request_hash q) ''program'' (pq_program_id q) now t1) (\<lambda>t2.
        Inr ((the (program_revision_row (pq_owner_subject q) (pq_program_id q) 1 t2), False),
             db\<lparr>st_other := t2\<rparr>)))))"

section \<open>Action jobs\<close>

text \<open>What the caller gets: a job, or the receipt of a commit that already happened.\<close>

datatype action_result = ActionJob job_row | PriorReceipt receipt_row

record action_request =
  aq_owner_subject :: string
  aq_action :: string
  aq_device_id :: string
  aq_document_id :: string
  aq_payload :: json
  aq_idempotency_key :: string
  aq_deadline_at :: string
  aq_acquire_write_lock :: bool
  aq_request_hash :: "string option"

definition action_kind :: "action_request \<Rightarrow> string" where
  "action_kind q = ''program_'' @ aq_action q"

definition action_effect :: "action_request \<Rightarrow> effect_class" where
  "action_effect q = (if aq_action q \<in> {''preview'', ''commit''} then WriteEffect else ReadEffect)"

text \<open>The answer to a repeated request.\<close>

definition action_replay :: "string \<Rightarrow> string \<Rightarrow> 'y program_db \<Rightarrow> store_error + action_result" where
  "action_replay owner response_id db =
    (case get_job owner response_id db of
       Some row \<Rightarrow> Inr (ActionJob row)
     | None \<Rightarrow>
         (case get_receipt owner response_id db of
            Some receipt \<Rightarrow> Inr (PriorReceipt receipt)
          | None \<Rightarrow> Inl (Conflict ''idempotency_state_invalid'')))"

text \<open>The receipt of the preview a commit is for, checked against the request.\<close>

fun match_texts :: "json \<Rightarrow> (string \<times> string) list \<Rightarrow> store_error + unit" where
  "match_texts execution [] = Inr ()"
| "match_texts execution ((k, text) # rest) =
     bindE (jsub execution k) (\<lambda>v.
     bindE (guard (v = JStr text) ''binding_mismatch'') (\<lambda>_. match_texts execution rest))"

definition same_execution :: "receipt_row \<Rightarrow> json \<Rightarrow> store_error + unit" where
  "same_execution receipt execution = match_texts execution
     [(''program_digest'', rt_program_digest receipt), (''binding_digest'', rt_binding_digest receipt),
      (''preview_execution_digest'', rt_preview_execution_digest receipt)]"

definition prior_receipt ::
  "pylib \<Rightarrow> action_request \<Rightarrow> 'y program_db \<Rightarrow> store_error + receipt_row option" where
  "prior_receipt L q db =
    (if aq_action q \<noteq> ''commit'' then Inr None
     else bindE (jsub (aq_payload q) ''execution'') (\<lambda>execution.
          bindE (jsub execution ''preview_id'') (\<lambda>v.
          bindE (sql_text_value L v) (\<lambda>preview_id.
          case select1 (\<lambda>r. rt_owner_subject r = aq_owner_subject q
                 \<and> Some (rt_preview_id r) = preview_id) (pt_receipts (st_other db)) of
            None \<Rightarrow> Inr None
          | Some receipt \<Rightarrow> bindE (same_execution receipt execution) (\<lambda>_. Inr (Some receipt))))))"

text \<open>
  \<open>_ACTIVE_STATES\<close>.  A lock whose job has left these states is stale and is taken over; the lock of a
  live job makes the document busy.
\<close>

definition ACTIVE_STATES :: "job_state list" where
  "ACTIVE_STATES = [Queued, Dispatched, Acknowledged, Running, CancelRequested, ReconnectPending,
     OutcomeUnknown, NeedsAttention]"

definition document_lock :: "string \<Rightarrow> string \<Rightarrow> lock_row list \<Rightarrow> lock_row option" where
  "document_lock device_id document_id locks =
    select1 (\<lambda>r. (lk_device_id r, lk_document_id r) = (device_id, document_id)) locks"

definition clear_stale_lock ::
  "string \<Rightarrow> string \<Rightarrow> 'y program_db \<Rightarrow> store_error + 'y program_db" where
  "clear_stale_lock device_id document_id db =
    (case document_lock device_id document_id (pt_locks (st_other db)) of
       None \<Rightarrow> Inr db
     | Some lock \<Rightarrow>
         (case job_row_of (lk_job_id lock) db of
            None \<Rightarrow> Inr db
          | Some holder \<Rightarrow>
              if jb_state holder \<in> set ACTIVE_STATES then Inl (Conflict ''document_write_busy'')
              else Inr (on_tables (\<lambda>t. t\<lparr>pt_locks := delete_where
                     (\<lambda>r. (lk_device_id r, lk_document_id r, lk_job_id r) =
                          (device_id, document_id, lk_job_id lock)) (pt_locks t)\<rparr>) db)))"

definition insert_lock :: "lock_row \<Rightarrow> 'y program_tables \<Rightarrow> store_error + 'y program_tables" where
  "insert_lock lock t =
    (if select1 (\<lambda>r. (lk_device_id r, lk_document_id r) = (lk_device_id lock, lk_document_id lock)
                   \<or> lk_job_id r = lk_job_id lock) (pt_locks t) \<noteq> None
     then Inl IntegrityError else Inr (t\<lparr>pt_locks := pt_locks t @ [lock]\<rparr>))"

definition action_job_request :: "action_request \<Rightarrow> job_request" where
  "action_job_request q =
    \<lparr>jr_owner_subject = aq_owner_subject q, jr_device_id = aq_device_id q, jr_kind = action_kind q,
     jr_effect_class = action_effect q, jr_payload = aq_payload q,
     jr_idempotency_key = aq_idempotency_key q, jr_deadline_at = Some (aq_deadline_at q)\<rparr>"

text \<open>\<open>_append_event\<close> of this repository.\<close>

definition program_event ::
  "pylib \<Rightarrow> string \<Rightarrow> string \<Rightarrow> job_state \<Rightarrow> json option \<Rightarrow> string option \<Rightarrow> 'y program_db \<Rightarrow>
   store_error + 'y program_db" where
  "program_event L now job_id state result error_code db =
    bindE (case result of None \<Rightarrow> Inr () | Some v \<Rightarrow>
             bindE (canonical_column L MAX_RESULT_BYTES v) (\<lambda>_. Inr ())) (\<lambda>_.
    Inr (db\<lparr>st_events := st_events db @
      [\<lparr>ev_job_id = job_id, ev_sequence = next_event_sequence job_id (st_events db),
        ev_event_type = StateEvent, ev_state = Some state, ev_progress = None,
        ev_error_code = error_code, ev_result = result, ev_created_at = now\<rparr>]\<rparr>))"

text \<open>The table \<open>jobs\<close> has the key \<open>(owner, device, idempotency key)\<close>, whatever the action.\<close>

definition insert_action_job ::
  "pylib \<Rightarrow> string \<Rightarrow> string \<Rightarrow> string \<Rightarrow> string \<Rightarrow> string \<Rightarrow> action_request \<Rightarrow> 'y program_db \<Rightarrow>
   store_error + 'y program_db" where
  "insert_action_job L now job_id command_id payload_hash fingerprint q db =
    bindE (canonical_column L JSON_LIMIT (aq_payload q)) (\<lambda>_.
    if select1 (\<lambda>r. jb_job_id r = job_id \<or> jb_command_id r = command_id \<or>
          request_key r = (aq_owner_subject q, aq_device_id q, aq_idempotency_key q)) (st_jobs db) \<noteq> None
    then Inl IntegrityError
    else program_event L now job_id Queued None None
           (db\<lparr>st_jobs := st_jobs db @
              [queued_row now job_id command_id payload_hash fingerprint (action_job_request q)]\<rparr>))"

definition create_action_job ::
  "pylib \<Rightarrow> 'y program_lib \<Rightarrow> string \<Rightarrow> string \<Rightarrow> string \<Rightarrow> action_request \<Rightarrow> 'y program_db \<Rightarrow>
   store_error + ((action_result \<times> bool) \<times> 'y program_db)" where
  "create_action_job L P now new_job_id new_command_id q db =
    bindE (guard (aq_action q \<in> {''preview'', ''commit'', ''validate''}) ''invalid_action'') (\<lambda>_.
    bindE (conflict_on_error ''payload_invalid''
             (pl_wire_hash P (action_kind q) (action_effect q) (aq_payload q))) (\<lambda>payload_hash.
    bindE (program_fingerprint L (action_kind q) (action_effect q) payload_hash) (\<lambda>fingerprint.
    let owner = aq_owner_subject q;
        req_hash = (case aq_request_hash q of Some h \<Rightarrow> if h = [] then payload_hash else h
                    | None \<Rightarrow> payload_hash)
    in
    bindE (idempotent_response owner (aq_action q) (aq_idempotency_key q) req_hash (st_other db))
      (\<lambda>existing.
    case existing of
      Some response_id \<Rightarrow> bindE (action_replay owner response_id db) (\<lambda>r. Inr ((r, True), db))
    | None \<Rightarrow>
        bindE (guard (select1 (\<lambda>r. dv_owner_subject r = owner \<and> dv_device_id r = aq_device_id q)
                 (st_devices db) \<noteq> None) ''not_found'') (\<lambda>_.
        bindE (prior_receipt L q db) (\<lambda>prior.
        case prior of
          Some receipt \<Rightarrow>
            bindE (new_idempotency owner ''commit'' (aq_idempotency_key q) req_hash ''receipt''
                     (rt_receipt_id receipt) now (st_other db)) (\<lambda>t.
            Inr ((PriorReceipt receipt, True), db\<lparr>st_other := t\<rparr>))
        | None \<Rightarrow>
            bindE (if aq_acquire_write_lock q
                   then clear_stale_lock (aq_device_id q) (aq_document_id q) db else Inr db) (\<lambda>db1.
            bindE (insert_action_job L now new_job_id new_command_id payload_hash fingerprint q db1)
              (\<lambda>db2.
            bindE (if aq_acquire_write_lock q
                   then insert_lock \<lparr>lk_device_id = aq_device_id q, lk_document_id = aq_document_id q,
                          lk_job_id = new_job_id, lk_created_at = now\<rparr> (st_other db2)
                   else Inr (st_other db2)) (\<lambda>t.
            bindE (new_idempotency owner (aq_action q) (aq_idempotency_key q) req_hash ''job''
                     new_job_id now t) (\<lambda>t'.
            let db3 = db2\<lparr>st_other := t'\<rparr>
            in Inr ((ActionJob (the (job_row_of new_job_id db3)), False), db3)))))))))))"

section \<open>Materialisation\<close>

text \<open>Fields of the Agent's value that must equal fields of the stored execution.\<close>

fun match_fields :: "json \<Rightarrow> json \<Rightarrow> (string \<times> string) list \<Rightarrow> store_error + unit" where
  "match_fields value execution [] = Inr ()"
| "match_fields value execution ((k, e) # rest) =
     bindE (jsub execution e) (\<lambda>expected.
     bindE (guard (py_eq (jget value k) expected) ''binding_mismatch'') (\<lambda>_.
     match_fields value execution rest))"

fun py_size :: "json \<Rightarrow> store_error + int" where
  "py_size (JList xs) = Inr (int (length xs))"
| "py_size (JObj kvs) = Inr (int (length kvs))"
| "py_size (JStr s) = Inr (int (py_len s))"
| "py_size _ = Inl MissingField"

definition PREVIEW_KEYS :: "string list" where
  "PREVIEW_KEYS = [''program_digest'', ''execution_digest'', ''binding_digest'', ''preview_id'',
     ''preview_digest'', ''expires_at'', ''document_revision_before'', ''document_revision_after'',
     ''preview_strategy'', ''planned_operation_count'', ''planned_entity_count'',
     ''planned_layer_count'', ''validation'']"

text \<open>\<open>str(v).replace("Z", "+00:00")\<close> is an instant only for texts among the JSON values the checks
  accept; \<open>later\<close> is the comparison with the current instant.\<close>

definition iso_text :: "json \<Rightarrow> string" where
  "iso_text v = concat (map (\<lambda>c. if c = CHR ''Z'' then ''+00:00'' else [c]) (jstr v))"

definition preview_expiry_ok ::
  "'y program_lib \<Rightarrow> rat \<Rightarrow> json \<Rightarrow> json \<Rightarrow> bool" where
  "preview_expiry_ok P instant result_expiry gateway_expiry \<longleftrightarrow>
    (case (pl_instant P (iso_text result_expiry), pl_instant P (iso_text gateway_expiry)) of
       (Some (aware, t), Some (aware', t')) \<Rightarrow>
         aware \<and> instant < t \<and> (aware', t') = (aware, t) \<and> py_eq result_expiry gateway_expiry
     | _ \<Rightarrow> False)"

definition natural :: "json \<Rightarrow> bool" where
  "natural v \<longleftrightarrow> is_int v \<and> \<not> is_bool v \<and> 0 \<le> jint v"

definition check_preview ::
  "'y program_lib \<Rightarrow> rat \<Rightarrow> json \<Rightarrow> json \<Rightarrow> json \<Rightarrow> store_error + unit" where
  "check_preview P instant payload execution value =
    bindE (jsub execution ''preview_id'') (\<lambda>_.
    bindE (pl_preview_digest P payload) (\<lambda>expected.
    bindE (guard (is_dict value \<and> keys_are value PREVIEW_KEYS) ''program_result_invalid'') (\<lambda>_.
    bindE (match_fields value execution
       [(''program_digest'', ''program_digest''), (''execution_digest'', ''execution_digest''),
        (''binding_digest'', ''binding_digest''), (''preview_id'', ''preview_id'')]) (\<lambda>_.
    bindE (jsub execution ''preview_digest'') (\<lambda>digest.
    bindE (guard (digest = JStr expected \<and> jget value ''preview_digest'' = JStr expected)
       ''binding_mismatch'') (\<lambda>_.
    bindE (match_fields value execution
       [(''document_revision_before'', ''expected_document_revision''),
        (''document_revision_after'', ''expected_document_revision'')]) (\<lambda>_.
    bindE (guard (jget value ''preview_strategy'' = JStr ''database_transaction_abort'')
       ''binding_mismatch'') (\<lambda>_.
    bindE (jsub payload ''program'') (\<lambda>program.
    bindE (jsub program ''operations'') (\<lambda>operations.
    bindE (py_size operations) (\<lambda>n.
    bindE (guard (py_eq (jget value ''planned_operation_count'') (JInt n)
             \<and> is_dict (jget value ''validation'')
             \<and> jget (jget value ''validation'') ''transaction_aborted'' = JBool True
             \<and> jget (jget value ''validation'') ''drawing_unchanged'' = JBool True)
       ''binding_mismatch'') (\<lambda>_.
    bindE (jsub execution ''expires_at'') (\<lambda>gateway_expiry.
    bindE (guard (preview_expiry_ok P instant (jget value ''expires_at'') gateway_expiry)
       ''program_result_invalid'') (\<lambda>_.
    guard (natural (jget value ''planned_operation_count'')
         \<and> natural (jget value ''planned_entity_count'') \<and> natural (jget value ''planned_layer_count''))
       ''program_result_invalid''))))))))))))))"

text \<open>The foreign key on the program revision and the keys of the three tables.\<close>

definition revision_exists :: "string \<Rightarrow> int \<Rightarrow> 'y program_tables \<Rightarrow> bool" where
  "revision_exists program_id revision t \<longleftrightarrow>
     select1 (\<lambda>r. (rv_program_id r, rv_revision r) = (program_id, revision)) (pt_revisions t) \<noteq> None"

definition insert_row :: "bool \<Rightarrow> 'r \<Rightarrow> 'r list \<Rightarrow> store_error + 'r list" where
  "insert_row ok row rows = (if ok then Inr (rows @ [row]) else Inl IntegrityError)"

definition insert_preview ::
  "pylib \<Rightarrow> string \<Rightarrow> job_row \<Rightarrow> json \<Rightarrow> json \<Rightarrow> 'y program_tables \<Rightarrow> store_error + 'y program_tables" where
  "insert_preview L now job execution value t =
    bindE (jsub execution ''pins'') (\<lambda>pins.
    bindE (mapE (jsub execution) [''program_id'', ''program_revision'', ''program_digest'',
       ''execution_digest'', ''binding_digest'', ''document_id'', ''expected_document_revision''])
      (\<lambda>ex.
    bindE (mapE (jsub pins) (PIN_COLUMNS @ [''registry_version''])) (\<lambda>pin_values.
    bindE (canonical_column L 65536 (jget value ''validation'')) (\<lambda>validation.
    bindE (mapE (text_column L) (map (jget value) [''preview_id'', ''preview_digest'', ''expires_at'']))
      (\<lambda>vs.
    bindE (mapE (text_column L) (map ((!) ex) [0, 2, 3, 4, 5, 6])) (\<lambda>es.
    bindE (int_column (ex ! 1)) (\<lambda>revision.
    bindE (mapE (text_column L) pin_values) (\<lambda>pin_texts.
    bindE (mapE int_column (map (jget value)
       [''planned_operation_count'', ''planned_entity_count'', ''planned_layer_count''])) (\<lambda>counts.
    bindE (insert_row
       (select1 (\<lambda>r. pv_preview_id r = vs ! 0 \<or> pv_job_id r = jb_job_id job
            \<or> pv_execution_digest r = es ! 2) (pt_previews t) = None
        \<and> revision_exists (es ! 0) revision t)
       \<lparr>pv_preview_id = vs ! 0, pv_owner_subject = jb_owner_subject job, pv_program_id = es ! 0,
        pv_program_revision = revision, pv_job_id = jb_job_id job, pv_program_digest = es ! 1,
        pv_execution_digest = es ! 2, pv_preview_digest = vs ! 1, pv_binding_digest = es ! 3,
        pv_document_id = es ! 4, pv_expected_document_revision = es ! 5,
        pv_pins = zip (PIN_COLUMNS @ [''registry_version'']) pin_texts,
        pv_planned_operation_count = counts ! 0, pv_planned_entity_count = counts ! 1,
        pv_planned_layer_count = counts ! 2, pv_validation = validation, pv_expires_at = vs ! 2,
        pv_invalidated_reason = None, pv_created_at = now\<rparr>
       (pt_previews t)) (\<lambda>rows.
    Inr (t\<lparr>pt_previews := rows\<rparr>)))))))))))"

definition RECEIPT_KEYS :: "string list" where
  "RECEIPT_KEYS = [''receipt_id'', ''receipt_digest'', ''program_digest'', ''execution_digest'',
     ''preview_execution_digest'', ''binding_digest'', ''document_id'', ''document_revision_before'',
     ''document_revision_after'', ''effect_summary'', ''durable_receipt'', ''checkpoint'']"

definition RECEIPT_COMPARISONS :: "(string \<times> string) list" where
  "RECEIPT_COMPARISONS =
     [(''receipt_id'', ''receipt_id''), (''program_digest'', ''program_digest''),
      (''execution_digest'', ''execution_digest''),
      (''preview_execution_digest'', ''preview_execution_digest''),
      (''binding_digest'', ''binding_digest''), (''document_id'', ''document_id''),
      (''document_revision_before'', ''expected_document_revision'')]"

definition check_receipt :: "json \<Rightarrow> json \<Rightarrow> store_error + unit" where
  "check_receipt execution value =
    bindE (guard (is_dict value \<and> keys_are value RECEIPT_KEYS) ''program_result_invalid'') (\<lambda>_.
    bindE (mapE (\<lambda>p. jsub execution (snd p)) RECEIPT_COMPARISONS) (\<lambda>_.
    bindE (match_fields value execution RECEIPT_COMPARISONS) (\<lambda>_.
    guard (is_str (jget value ''document_revision_after'')
         \<and> jstr (jget value ''document_revision_after'') \<noteq> []
         \<and> is_dict (jget value ''effect_summary'') \<and> is_dict (jget value ''durable_receipt''))
       ''program_result_invalid'')))"

definition RECEIPT_PINS :: "string list" where
  "RECEIPT_PINS = [''runtime_id'', ''package_hash'', ''capability_manifest_hash'',
     ''operation_registry_hash'', ''policy_version'']"

definition insert_receipt ::
  "pylib \<Rightarrow> string \<Rightarrow> job_row \<Rightarrow> json \<Rightarrow> json \<Rightarrow> 'y program_tables \<Rightarrow> store_error + 'y program_tables" where
  "insert_receipt L now job execution value t =
    bindE (jsub execution ''pins'') (\<lambda>pins.
    bindE (mapE (jsub execution) [''program_id'', ''program_revision'', ''preview_id'']) (\<lambda>ex.
    bindE (mapE (jsub pins) RECEIPT_PINS) (\<lambda>pin_values.
    bindE (canonical_column L 65536 (jget value ''effect_summary'')) (\<lambda>summary.
    bindE (canonical_column L MAX_RESULT_BYTES (jget value ''durable_receipt'')) (\<lambda>receipt.
    bindE (mapE (text_column L) (map (jget value)
       [''receipt_id'', ''program_digest'', ''execution_digest'', ''receipt_digest'',
        ''preview_execution_digest'', ''binding_digest'', ''document_id'',
        ''document_revision_before'', ''document_revision_after''])) (\<lambda>vs.
    bindE (mapE (text_column L) (map ((!) ex) [0, 2])) (\<lambda>es.
    bindE (int_column (ex ! 1)) (\<lambda>revision.
    bindE (mapE (text_column L) pin_values) (\<lambda>pin_texts.
    bindE (insert_row
       (select1 (\<lambda>r. rt_receipt_id r = vs ! 0 \<or> rt_preview_id r = es ! 1
            \<or> rt_job_id r = jb_job_id job \<or> rt_execution_digest r = vs ! 2) (pt_receipts t) = None
        \<and> select1 (\<lambda>r. pv_preview_id r = es ! 1) (pt_previews t) \<noteq> None
        \<and> revision_exists (es ! 0) revision t)
       \<lparr>rt_receipt_id = vs ! 0, rt_owner_subject = jb_owner_subject job, rt_program_id = es ! 0,
        rt_program_revision = revision, rt_preview_id = es ! 1, rt_job_id = jb_job_id job,
        rt_program_digest = vs ! 1, rt_execution_digest = vs ! 2, rt_receipt_digest = vs ! 3,
        rt_preview_execution_digest = vs ! 4, rt_binding_digest = vs ! 5, rt_document_id = vs ! 6,
        rt_document_revision_before = vs ! 7, rt_document_revision_after = vs ! 8,
        rt_pins = zip RECEIPT_PINS pin_texts, rt_effect_summary = summary,
        rt_durable_receipt = receipt, rt_created_at = now\<rparr>
       (pt_receipts t)) (\<lambda>rows.
    Inr (t\<lparr>pt_receipts := rows\<rparr>)))))))))))"

definition VALIDATION_KEYS :: "string list" where
  "VALIDATION_KEYS = [''validation_id'', ''execution_digest'', ''binding_digest'',
     ''document_revision'', ''passed'', ''report'']"

definition check_validation :: "json \<Rightarrow> json \<Rightarrow> store_error + unit" where
  "check_validation execution value =
    bindE (guard (is_dict value \<and> keys_are value VALIDATION_KEYS) ''program_result_invalid'') (\<lambda>_.
    bindE (match_fields value execution
       [(''validation_id'', ''validation_id''), (''execution_digest'', ''execution_digest''),
        (''binding_digest'', ''binding_digest'')]) (\<lambda>_.
    guard (is_bool (jget value ''passed'') \<and> is_dict (jget value ''report'')) ''binding_mismatch''))"

definition insert_validation ::
  "pylib \<Rightarrow> string \<Rightarrow> job_row \<Rightarrow> json \<Rightarrow> json \<Rightarrow> 'y program_tables \<Rightarrow> store_error + 'y program_tables" where
  "insert_validation L now job execution value t =
    bindE (mapE (jsub execution) [''program_id'', ''program_revision'', ''receipt_id'']) (\<lambda>ex.
    bindE (canonical_column L MAX_RESULT_BYTES (jget value ''report'')) (\<lambda>report.
    bindE (mapE (text_column L) (map (jget value)
       [''validation_id'', ''execution_digest'', ''binding_digest'', ''document_revision''])) (\<lambda>vs.
    bindE (mapE (text_column L) (map ((!) ex) [0, 2])) (\<lambda>es.
    bindE (int_column (ex ! 1)) (\<lambda>revision.
    bindE (insert_row
       (select1 (\<lambda>r. vl_validation_id r = vs ! 0 \<or> vl_job_id r = jb_job_id job
            \<or> vl_execution_digest r = vs ! 1) (pt_validations t) = None
        \<and> revision_exists (es ! 0) revision t)
       \<lparr>vl_validation_id = vs ! 0, vl_owner_subject = jb_owner_subject job, vl_program_id = es ! 0,
        vl_program_revision = revision, vl_receipt_id = es ! 1, vl_job_id = jb_job_id job,
        vl_execution_digest = vs ! 1, vl_binding_digest = vs ! 2, vl_document_revision = vs ! 3,
        vl_passed = (jget value ''passed'' = JBool True), vl_report = report, vl_created_at = now\<rparr>
       (pt_validations t)) (\<lambda>rows.
    Inr (t\<lparr>pt_validations := rows\<rparr>)))))))"

definition materialize ::
  "pylib \<Rightarrow> 'y program_lib \<Rightarrow> string \<Rightarrow> rat \<Rightarrow> job_row \<Rightarrow> json \<Rightarrow> 'y program_tables \<Rightarrow>
   store_error + 'y program_tables" where
  "materialize L P now instant job result t =
    bindE (jsub (jb_payload job) ''execution'') (\<lambda>execution.
    if jb_kind job = ''program_preview'' then
      let value = jget_default result ''preview'' result
      in bindE (check_preview P instant (jb_payload job) execution value) (\<lambda>_.
         insert_preview L now job execution value t)
    else if jb_kind job = ''program_commit'' then
      let value = jget_default result ''receipt'' result
      in bindE (check_receipt execution value) (\<lambda>_.
         bindE (insert_receipt L now job execution value t) (\<lambda>t1.
         if jget value ''checkpoint'' = JNull then Inr t1
         else bindE (pl_checkpoint P job execution (jget value ''checkpoint'') (pt_more t1))
                (\<lambda>more. Inr (t1\<lparr>pt_more := more\<rparr>))))
    else if jb_kind job = ''program_validate'' then
      let value = jget_default result ''validation'' result
      in bindE (check_validation execution value) (\<lambda>_.
         insert_validation L now job execution value t)
    else Inl (Conflict ''program_result_invalid''))"

section \<open>Finalisation\<close>

record program_outcome =
  po_job_id :: string
  po_device_id :: string
  po_command_id :: string
  po_payload_hash :: string
  po_target :: job_state
  po_result :: "json option"
  po_error_code :: "string option"
  po_error_summary :: "string option"
  po_session_id :: "string option"
  po_agent_sequence :: "int option"

definition program_identity :: "program_outcome \<Rightarrow> job_row \<Rightarrow> 'y program_db \<Rightarrow> store_error + unit" where
  "program_identity ou row db =
    bindE (guard (jb_device_id row = po_device_id ou \<and> jb_command_id row = po_command_id ou
             \<and> jb_payload_hash row = po_payload_hash ou) ''message_identity_mismatch'') (\<lambda>_.
    case po_session_id ou of
      None \<Rightarrow> Inr ()
    | Some s \<Rightarrow> guard (\<exists>r \<in> set (st_sessions db). ss_session_id r = s
                 \<and> ss_device_id r = po_device_id ou \<and> session_active r) ''session_mismatch'')"

definition same_program_outcome :: "program_outcome \<Rightarrow> job_row \<Rightarrow> bool" where
  "same_program_outcome ou row \<longleftrightarrow>
     jb_state row = po_target ou \<and> opt_json_eq (jb_result row) (po_result ou)
     \<and> jb_error_code row = po_error_code ou \<and> jb_error_summary row = po_error_summary ou"

text \<open>A success needs a bounded result; for a job without a Phase 8 binding it is materialised.\<close>

definition materialize_success ::
  "pylib \<Rightarrow> 'y program_lib \<Rightarrow> string \<Rightarrow> rat \<Rightarrow> job_row \<Rightarrow> json option \<Rightarrow> 'y program_tables \<Rightarrow>
   store_error + 'y program_tables" where
  "materialize_success L P now instant row result t =
    (case result of
       None \<Rightarrow> Inl (Conflict ''program_result_invalid'')
     | Some v \<Rightarrow>
         bindE (guard (is_dict v) ''program_result_invalid'') (\<lambda>_.
         bindE (lift_value (canonical_json L v)) (\<lambda>encoded.
         bindE (guard (length encoded \<le> MAX_RESULT_BYTES) ''program_result_invalid'') (\<lambda>_.
         if uses_wire_hash (jb_payload row) then Inr t
         else materialize L P now instant row v t))))"

definition program_finalized_row :: "string \<Rightarrow> program_outcome \<Rightarrow> int \<Rightarrow> job_row \<Rightarrow> job_row" where
  "program_finalized_row now ou sequence r =
    r\<lparr>jb_state := po_target ou, jb_state_version := jb_state_version r + 1,
      jb_result := po_result ou, jb_error_code := po_error_code ou,
      jb_error_summary := po_error_summary ou, jb_last_agent_sequence := sequence,
      jb_updated_at := now\<rparr>"

text \<open>The boolean of the result is \<open>duplicate_terminal\<close>.\<close>

definition finalize_program_job ::
  "pylib \<Rightarrow> 'y program_lib \<Rightarrow> string \<Rightarrow> rat \<Rightarrow> 'y program_tables terminal_hook \<Rightarrow> program_outcome \<Rightarrow>
   'y program_db \<Rightarrow> store_error + ((job_row \<times> bool) option \<times> 'y program_db)" where
  "finalize_program_job L P now instant hook ou db =
    (case job_row_of (po_job_id ou) db of
       None \<Rightarrow> Inr (None, db)
     | Some row \<Rightarrow>
         bindE (program_identity ou row db) (\<lambda>_.
         if is_terminal (jb_state row) then
           (if same_program_outcome ou row
            then bindE (run_hook hook row db) (\<lambda>db'. Inr (Some (row, True), db'))
            else Inl (Conflict ''terminal_result_conflict''))
         else
           bindE (lift_transition (validate_transition (jb_state row) (po_target ou)
                    (jb_effect_class row) True)) (\<lambda>_.
           bindE (if po_target ou = Succeeded
                  then materialize_success L P now instant row (po_result ou) (st_other db)
                  else Inr (st_other db)) (\<lambda>t.
           bindE (run_hook hook row (db\<lparr>st_other := t\<rparr>)) (\<lambda>db1.
           let sequence = (case po_agent_sequence ou of
                 None \<Rightarrow> jb_last_agent_sequence row | Some n \<Rightarrow> n)
           in
           bindE (guard (jb_last_agent_sequence row \<le> sequence) ''sequence_rejected'') (\<lambda>_.
           bindE (case po_result ou of None \<Rightarrow> Inr () | Some v \<Rightarrow>
                    bindE (canonical_column L MAX_RESULT_BYTES v) (\<lambda>_. Inr ())) (\<lambda>_.
           bindE (cas_update (po_job_id ou) (jb_state row) (jb_state_version row)
                    (program_finalized_row now ou sequence) db1) (\<lambda>db2.
           bindE (program_event L now (po_job_id ou) (po_target ou) (po_result ou) (po_error_code ou) db2)
             (\<lambda>db3.
           let db4 = release_write_lock (po_job_id ou) db3
           in Inr (map_option (\<lambda>r. (r, False)) (job_row_of (po_job_id ou) db4), db4))))))))))"

end
