(* ===== verification/ProgramLog.thy ===== *)
theory ProgramLog
  imports Store ProgramStore
begin

text \<open>
  The store with its program tables as one system.  Each operation of \<open>ProgramRepository\<close> is one of
  the job effects of \<open>StoreLog\<close>, so jobs created here keep the log and the finality of every other
  job.  \<open>program_ok\<close> adds the rules of the program tables: receipts are unique per preview and per
  job and belong to succeeded commit jobs, a succeeded commit without a Phase 8 binding has one, and a
  document has at most one write lock.
\<close>

section \<open>Effects of the operations\<close>

lemma program_event_Inr:
  assumes "program_event L now k st res err db = Inr db'"
  shows "\<exists>e. db' = db\<lparr>st_events := st_events db @ [e]\<rparr> \<and> new_event k (st_events db) e \<and>
    ev_event_type e = StateEvent \<and> ev_state e = Some st"
  using assms by (auto simp: program_event_def result_simps new_event_def)

definition only_tables :: "'y program_db \<Rightarrow> 'y program_db \<Rightarrow> bool" where
  "only_tables db db' \<longleftrightarrow> (\<exists>t. db' = db\<lparr>st_other := t\<rparr>)"

lemma on_tables_simps [simp]:
  "st_jobs (on_tables f db) = st_jobs db" "st_events (on_tables f db) = st_events db"
  "st_snapshots (on_tables f db) = st_snapshots db" "st_devices (on_tables f db) = st_devices db"
  "st_sessions (on_tables f db) = st_sessions db" "st_other (on_tables f db) = f (st_other db)"
  "job_row_of k (on_tables f db) = job_row_of k db"
  by (simp_all add: on_tables_def job_row_of_def)

lemma insert_action_job_Inr:
  assumes "insert_action_job L now nj nc ph fp q db = Inr db'" "jobs_ok db"
  shows "job_delta db db' \<and> same_presence db db' \<and> st_snapshots db' = st_snapshots db \<and>
    st_other db' = st_other db \<and> job_row_of nj db = None \<and>
    job_row_of nj db' = Some (queued_row now nj nc ph fp (action_job_request q)) \<and>
    (\<forall>j. j \<noteq> nj \<longrightarrow> job_row_of j db' = job_row_of j db)"
proof -
  let ?row = "queued_row now nj nc ph fp (action_job_request q)"
  have keys: "jb_job_id ?row = nj" "jb_command_id ?row = nc" "jb_state ?row = Queued"
    "request_key ?row = (aq_owner_subject q, aq_device_id q, aq_idempotency_key q)"
    "jb_state_version ?row = 0"
    by (simp_all add: queued_row_def request_key_def action_job_request_def)
  obtain e where e: "db' = (db\<lparr>st_jobs := st_jobs db @ [?row]\<rparr>)\<lparr>st_events := st_events db @ [e]\<rparr>"
    "new_event nj (st_events db) e" "ev_event_type e = StateEvent" "ev_state e = Some Queued"
    and free: "\<forall>r \<in> set (st_jobs db). jb_job_id r \<noteq> nj \<and> jb_command_id r \<noteq> nc \<and>
      request_key r \<noteq> (aq_owner_subject q, aq_device_id q, aq_idempotency_key q)"
    using assms(1) program_event_Inr
    by (fastforce simp: insert_action_job_def result_simps select1_None split: if_splits)
  have fresh: "nj \<notin> set (map jb_job_id (st_jobs db))" "nc \<notin> set (map jb_command_id (st_jobs db))"
    "request_key ?row \<notin> set (map request_key (st_jobs db))"
    using free by (force simp: keys)+
  have delta: "job_delta db db'"
    by (rule delta_created [of _ _ ?row e]) (use e fresh keys in simp_all)
  have none: "job_row_of nj db = None"
    using free by (auto simp: job_row_of_def select1_None)
  show ?thesis
    using delta none
    by (auto simp: e(1) same_presence_def job_row_of_def select1_append keys split: option.splits)
qed

lemma finalize_program_cases:
  assumes "finalize_program_job L P now inst hook ou db = Inr (z, db')" "jobs_ok db"
    and "job_row_of (po_job_id ou) db = Some row" "jb_kind row \<noteq> ''observe''"
    and "is_terminal (po_target ou)"
  shows "job_delta db db' \<and> same_presence db db' \<and> st_snapshots db' = st_snapshots db \<and>
    (\<forall>j. j \<noteq> po_job_id ou \<longrightarrow> job_row_of j db' = job_row_of j db) \<and>
    (\<exists>r dup. z = Some (r, dup) \<and> job_row_of (po_job_id ou) db' = Some r \<and> is_terminal (jb_state r) \<and>
      (if dup then is_terminal (jb_state row) \<and> same_program_outcome ou row \<and> r = row \<and>
         (\<exists>h. run_hook hook row db = Inr h \<and> db' = h)
       else \<not> is_terminal (jb_state row) \<and> jb_state r = po_target ou \<and> keeps_job row r \<and>
         (\<exists>t. (if po_target ou = Succeeded
               then materialize_success L P now inst row (po_result ou) (st_other db)
               else Inr (st_other db)) = Inr t \<and>
           (\<exists>t'. run_hook hook row (db\<lparr>st_other := t\<rparr>) = Inr (db\<lparr>st_other := t'\<rparr>) \<and>
             st_other db' = t'\<lparr>pt_locks := delete_where (\<lambda>l. lk_job_id l = po_job_id ou) (pt_locks t')\<rparr>))))"
proof (cases "is_terminal (jb_state row)")
  case True
  then obtain h where h: "run_hook hook row db = Inr h" "db' = h" "z = Some (row, True)"
    "same_program_outcome ou row"
    using assms(1,3) by (auto simp: finalize_program_job_def result_simps split: if_splits)
  obtain x where "h = db\<lparr>st_other := x\<rparr>" using run_hook_Inr [OF h(1)] by blast
  then show ?thesis
    using h True assms(3) by (auto simp: same_presence_def job_row_of_def intro: delta_none)
next
  case False
  have id: "jb_job_id row = po_job_id ou" using job_row_of_Some [OF assms(3)] by simp
  define sq where "sq = (case po_agent_sequence ou of None \<Rightarrow> jb_last_agent_sequence row | Some n \<Rightarrow> n)"
  define f where "f = program_finalized_row now ou sq"
  obtain t db1 db2 db3 where v: "validate_transition (jb_state row) (po_target ou) (jb_effect_class row) True = Inr ()"
    and t: "(if po_target ou = Succeeded
               then materialize_success L P now inst row (po_result ou) (st_other db)
               else Inr (st_other db)) = Inr t"
    and hk: "run_hook hook row (db\<lparr>st_other := t\<rparr>) = Inr db1"
    and cas: "cas_update (po_job_id ou) (jb_state row) (jb_state_version row) f db1 = Inr db2"
    and ev: "program_event L now (po_job_id ou) (po_target ou) (po_result ou) (po_error_code ou) db2 = Inr db3"
    and out: "db' = release_write_lock (po_job_id ou) db3"
      "z = map_option (\<lambda>r. (r, False)) (job_row_of (po_job_id ou) db')"
  proof -
    have "finalize_program_job L P now inst hook ou db = Inr (z, db')" by (rule assms(1))
    then show thesis
      unfolding finalize_program_job_def assms(3) option.case Let_def sq_def [symmetric] f_def [symmetric]
      by (simp only: False if_False bindE_Inr lift_Inr Inr_inject prod.inject) (elim exE conjE, rule that, (assumption | simp | force)+)
  qed
  obtain t' where t': "db1 = db\<lparr>st_other := t'\<rparr>" using run_hook_Inr [OF hk] by auto
  have d1: "distinct (map jb_job_id (st_jobs db1))" "job_row_of (po_job_id ou) db1 = Some row"
    using assms(2,3) by (simp_all add: t' jobs_ok_def job_row_of_def)
  have db2: "db2 = update_job (po_job_id ou) f db1"
    using cas_update_current [OF d1, of f] cas by simp
  obtain e where e: "db3 = db2\<lparr>st_events := st_events db2 @ [e]\<rparr>"
    "new_event (po_job_id ou) (st_events db2) e" "ev_event_type e = StateEvent"
    "ev_state e = Some (po_target ou)"
    using program_event_Inr [OF ev] by blast
  have jobs: "st_jobs db' = st_jobs (update_job (po_job_id ou) f db)"
    by (simp add: out(1) e(1) db2 t' update_job_def release_write_lock_def)
  have fr: "jb_job_id (f row) = po_job_id ou" "jb_state (f row) = po_target ou" "keeps_job row (f row)"
    "jb_state_version (f row) = jb_state_version row + 1"
    using id False by (simp_all add: f_def program_finalized_row_def keeps_job_def job_identity_def)
  have row': "job_row_of (po_job_id ou) db' = Some (f row)"
    using update_job_row_of [OF _ assms(3) fr(1) jobs, of "po_job_id ou"] assms(2) by (simp add: jobs_ok_def)
  have evs: "st_events db' = st_events db @ [e]" "new_event (po_job_id ou) (st_events db) e"
    using e by (simp_all add: out(1) db2 t' update_job_def release_write_lock_def)
  have "job_delta db db'"
    by (rule delta_logged [OF assms(3) jobs evs(1) fr(3) evs(2)])
      (use False fr e v assms(4) job_step_validated in \<open>auto simp: logged_def\<close>)
  moreover have same: "same_presence db db'" "st_snapshots db' = st_snapshots db"
    "st_other db' = t'\<lparr>pt_locks := delete_where (\<lambda>l. lk_job_id l = po_job_id ou) (pt_locks t')\<rparr>"
    by (simp_all add: out(1) e(1) db2 t' update_job_def release_write_lock_def same_presence_def)
  moreover have "run_hook hook row (db\<lparr>st_other := t\<rparr>) = Inr (db\<lparr>st_other := t'\<rparr>)"
    using hk t' by simp
  moreover have "z = Some (f row, False)" using row' by (simp add: out(2))
  moreover have "\<forall>j. j \<noteq> po_job_id ou \<longrightarrow> job_row_of j db' = job_row_of j db"
    using update_job_row_of [OF _ assms(3) fr(1) jobs] assms(2) by (simp add: jobs_ok_def)
  ultimately show ?thesis
    using row' fr False t assms(5) by (intro conjI exI [of _ "f row"] exI [of _ False]) auto
qed

section \<open>The combined system\<close>

definition PROGRAM_KINDS :: "string list" where
  "PROGRAM_KINDS = [''program_preview'', ''program_commit'', ''program_validate'']"

definition job_finished :: "string \<Rightarrow> 'x store_db \<Rightarrow> bool" where
  "job_finished k db \<longleftrightarrow> (\<exists>r. job_row_of k db = Some r \<and> is_terminal (jb_state r))"

text \<open>Other operations leave the program tables alone; they may free the locks of finished jobs.\<close>

definition frees_locks :: "'y program_db \<Rightarrow> 'y program_db \<Rightarrow> bool" where
  "frees_locks db db' \<longleftrightarrow>
     (\<exists>p. pt_locks (st_other db') = delete_where p (pt_locks (st_other db)) \<and>
        (\<forall>l \<in> set (pt_locks (st_other db)). p l \<longrightarrow> job_finished (lk_job_id l) db'))"

definition keeps_tables :: "'y program_db \<Rightarrow> 'y program_db \<Rightarrow> bool" where
  "keeps_tables db db' \<longleftrightarrow> frees_locks db db' \<and>
     pt_receipts (st_other db') = pt_receipts (st_other db)"

text \<open>Only \<open>finalize_program_job\<close> makes a commit succeed.\<close>

definition no_new_commit :: "'x store_db \<Rightarrow> 'x store_db \<Rightarrow> bool" where
  "no_new_commit db db' \<longleftrightarrow>
     (\<forall>r \<in> set (st_jobs db'). jb_kind r = ''program_commit'' \<and> jb_state r = Succeeded \<longrightarrow>
        (\<exists>r0. job_row_of (jb_job_id r) db = Some r0 \<and> jb_state r0 = Succeeded))"

inductive program_step :: "'y program_db \<Rightarrow> 'y program_db \<Rightarrow> bool" where
  pstep_store: "store_step db db' \<Longrightarrow> keeps_tables db db' \<Longrightarrow> no_new_commit db db' \<Longrightarrow> program_step db db'"
| pstep_program: "create_program L now pq db = Inr (x, db') \<Longrightarrow> program_step db db'"
| pstep_action: "create_action_job L P now nj nc q db = Inr (y, db') \<Longrightarrow> program_step db db'"
| pstep_finalize:
    "finalize_program_job L P now inst hook ou db = Inr (z, db') \<Longrightarrow> is_terminal (po_target ou) \<Longrightarrow>
     (\<And>r. job_row_of (po_job_id ou) db = Some r \<Longrightarrow> jb_kind r \<in> set PROGRAM_KINDS) \<Longrightarrow>
     (\<And>h r t u. hook = Some h \<Longrightarrow> h r t = Inr u \<Longrightarrow> u = t\<lparr>pt_more := pt_more u\<rparr>) \<Longrightarrow> program_step db db'"
| pstep_release: "job_finished k db \<Longrightarrow> program_step db (release_write_lock k db)"
| pstep_invalidate: "program_step db (invalidate_preview p reason db)"
| pstep_other: "program_step db (on_tables (\<lambda>t. t\<lparr>pt_more := y\<rparr>) db)"

definition receipts_ok :: "'y program_db \<Rightarrow> bool" where
  "receipts_ok db \<longleftrightarrow>
     distinct (map rt_receipt_id (pt_receipts (st_other db)))
     \<and> distinct (map rt_preview_id (pt_receipts (st_other db)))
     \<and> distinct (map rt_job_id (pt_receipts (st_other db)))
     \<and> (\<forall>rt \<in> set (pt_receipts (st_other db)). \<exists>r. job_row_of (rt_job_id rt) db = Some r \<and>
          jb_state r = Succeeded \<and> jb_kind r = ''program_commit'' \<and>
          jb_owner_subject r = rt_owner_subject rt)
     \<and> (\<forall>r \<in> set (st_jobs db). jb_kind r = ''program_commit'' \<and> jb_state r = Succeeded \<and>
          \<not> uses_wire_hash (jb_payload r) \<longrightarrow>
          jb_job_id r \<in> rt_job_id ` set (pt_receipts (st_other db)))"

abbreviation lock_document :: "lock_row \<Rightarrow> string \<times> string" where
  "lock_document l \<equiv> (lk_device_id l, lk_document_id l)"

definition locks_ok :: "'y program_db \<Rightarrow> bool" where
  "locks_ok db \<longleftrightarrow>
     distinct (map lock_document (pt_locks (st_other db)))
     \<and> distinct (map lk_job_id (pt_locks (st_other db)))
     \<and> (\<forall>l \<in> set (pt_locks (st_other db)). job_row_of (lk_job_id l) db \<noteq> None)"

definition program_ok :: "'y program_db \<Rightarrow> bool" where
  "program_ok db \<longleftrightarrow> store_ok db \<and> receipts_ok db \<and> locks_ok db"

section \<open>Every step is a job effect\<close>

definition quiet :: "'y program_db \<Rightarrow> 'y program_db \<Rightarrow> bool" where
  "quiet db db' \<longleftrightarrow> st_jobs db' = st_jobs db \<and> st_events db' = st_events db \<and>
     st_snapshots db' = st_snapshots db \<and> same_presence db db'"

lemma quiet_delta: "quiet db db' \<Longrightarrow> job_delta db db'"
  by (simp add: quiet_def delta_none)

lemma quiet_row: "quiet db db' \<Longrightarrow> job_row_of k db' = job_row_of k db"
  by (simp add: quiet_def job_row_of_def)

lemma quiet_on_tables [simp]: "quiet db (on_tables f db)" "quiet db (db\<lparr>st_other := t\<rparr>)"
  by (simp_all add: quiet_def same_presence_def on_tables_def)

lemma new_idempotency_Inr:
  "new_idempotency own act key h kind ident now t = Inr t' \<Longrightarrow> \<exists>ids. t' = t\<lparr>pt_idempotency := ids\<rparr>"
  by (auto simp: new_idempotency_def split: if_splits)

lemma insert_program_Inr:
  "insert_program L now q t = Inr t' \<Longrightarrow>
   pt_receipts t' = pt_receipts t \<and> pt_locks t' = pt_locks t"
  by (auto simp: insert_program_def result_simps split: if_splits)

lemma create_program_cases:
  assumes "create_program L now pq db = Inr (x, db')"
  shows "quiet db db' \<and> pt_receipts (st_other db') = pt_receipts (st_other db) \<and>
    pt_locks (st_other db') = pt_locks (st_other db)"
proof -
  obtain ex where ex: "idempotent_response (pq_owner_subject pq) ''prepare'' (pq_idempotency_key pq)
      (pq_request_hash pq) (st_other db) = Inr ex"
    using assms by (auto simp: create_program_def bindE_Inr)
  show ?thesis
  proof (cases ex)
    case None
    then obtain t1 t2 where "insert_program L now pq (st_other db) = Inr t1"
      "new_idempotency (pq_owner_subject pq) ''prepare'' (pq_idempotency_key pq)
         (pq_request_hash pq) ''program'' (pq_program_id pq) now t1 = Inr t2" "db' = db\<lparr>st_other := t2\<rparr>"
      using assms ex by (auto simp: create_program_def bindE_Inr)
    then show ?thesis using insert_program_Inr new_idempotency_Inr by fastforce
  next
    case (Some k)
    then have "db' = db" using assms ex by (simp add: create_program_def split: option.splits)
    then show ?thesis by (simp add: quiet_def same_presence_def)
  qed
qed

text \<open>What a successful creation does.\<close>

lemma action_cases:
  assumes "create_action_job L P now nj nc q db = Inr ((y, dup), db')"
  shows "if dup then quiet db db' \<and> pt_receipts (st_other db') = pt_receipts (st_other db) \<and>
        pt_locks (st_other db') = pt_locks (st_other db)
      else \<exists>db1 ph fp db2 t. prior_receipt L q db = Inr None \<and>
        (if aq_acquire_write_lock q
         then clear_stale_lock (aq_device_id q) (aq_document_id q) db else Inr db) = Inr db1 \<and>
        insert_action_job L now nj nc ph fp q db1 = Inr db2 \<and>
        (if aq_acquire_write_lock q
         then insert_lock \<lparr>lk_device_id = aq_device_id q, lk_document_id = aq_document_id q,
                lk_job_id = nj, lk_created_at = now\<rparr> (st_other db2)
         else Inr (st_other db2)) = Inr t \<and>
        (\<exists>ids. db' = db2\<lparr>st_other := t\<lparr>pt_idempotency := ids\<rparr>\<rparr>) \<and>
        y = ActionJob (the (job_row_of nj db'))"
proof -
  define req where "req ph = (case aq_request_hash q of Some h \<Rightarrow> if h = [] then ph else h | None \<Rightarrow> ph)" for ph
  obtain ph fp ex where pre: "program_fingerprint L (action_kind q) (action_effect q) ph = Inr fp"
    "idempotent_response (aq_owner_subject q) (aq_action q) (aq_idempotency_key q) (req ph) (st_other db) = Inr ex"
    and rest: "(case ex of
      Some response_id \<Rightarrow> bindE (action_replay (aq_owner_subject q) response_id db) (\<lambda>r. Inr ((r, True), db))
    | None \<Rightarrow>
        bindE (guard (select1 (\<lambda>r. dv_owner_subject r = aq_owner_subject q \<and> dv_device_id r = aq_device_id q)
                 (st_devices db) \<noteq> None) ''not_found'') (\<lambda>_.
        bindE (prior_receipt L q db) (\<lambda>prior.
        case prior of
          Some receipt \<Rightarrow>
            bindE (new_idempotency (aq_owner_subject q) ''commit'' (aq_idempotency_key q) (req ph) ''receipt''
                     (rt_receipt_id receipt) now (st_other db)) (\<lambda>t.
            Inr ((PriorReceipt receipt, True), db\<lparr>st_other := t\<rparr>))
        | None \<Rightarrow>
            bindE (if aq_acquire_write_lock q
                   then clear_stale_lock (aq_device_id q) (aq_document_id q) db else Inr db) (\<lambda>db1.
            bindE (insert_action_job L now nj nc ph fp q db1)
              (\<lambda>db2.
            bindE (if aq_acquire_write_lock q
                   then insert_lock \<lparr>lk_device_id = aq_device_id q, lk_document_id = aq_document_id q,
                          lk_job_id = nj, lk_created_at = now\<rparr> (st_other db2)
                   else Inr (st_other db2)) (\<lambda>t.
            bindE (new_idempotency (aq_owner_subject q) (aq_action q) (aq_idempotency_key q) (req ph) ''job''
                     nj now t) (\<lambda>t'.
            Inr ((ActionJob (the (job_row_of nj (db2\<lparr>st_other := t'\<rparr>))), False), db2\<lparr>st_other := t'\<rparr>)))))))) =
      Inr ((y, dup), db')"
    using assms unfolding create_action_job_def Let_def req_def [symmetric] bindE_Inr by blast
  show ?thesis
  proof (cases ex)
    case (Some k)
    then have "dup" "db' = db" using rest by (auto simp: bindE_Inr)
    then show ?thesis by (simp add: quiet_def same_presence_def)
  next
    case None
    then obtain prior where pr: "prior_receipt L q db = Inr prior"
      using rest by (simp add: bindE_Inr; blast)
    show ?thesis
    proof (cases prior)
      case (Some rt)
      then obtain t where "new_idempotency (aq_owner_subject q) ''commit'' (aq_idempotency_key q) (req ph)
          ''receipt'' (rt_receipt_id rt) now (st_other db) = Inr t" "dup" "db' = db\<lparr>st_other := t\<rparr>"
        using rest pr None by (simp add: bindE_Inr; blast)
      then show ?thesis using new_idempotency_Inr by fastforce
    next
      case n: None
      obtain db1 db2 t t' where
        "(if aq_acquire_write_lock q
         then clear_stale_lock (aq_device_id q) (aq_document_id q) db else Inr db) = Inr db1"
        "insert_action_job L now nj nc ph fp q db1 = Inr db2"
        "(if aq_acquire_write_lock q
         then insert_lock \<lparr>lk_device_id = aq_device_id q, lk_document_id = aq_document_id q,
                lk_job_id = nj, lk_created_at = now\<rparr> (st_other db2)
         else Inr (st_other db2)) = Inr t"
        "new_idempotency (aq_owner_subject q) (aq_action q) (aq_idempotency_key q) (req ph) ''job''
           nj now t = Inr t'"
        "\<not> dup" "db' = db2\<lparr>st_other := t'\<rparr>" "y = ActionJob (the (job_row_of nj db'))"
        using rest pr None n unfolding bindE_Inr by (simp add: bindE_Inr; blast)
      then show ?thesis using new_idempotency_Inr pr n by fastforce
    qed
  qed
qed

section \<open>Locks\<close>

lemma clear_stale_lock_Inr:
  assumes "clear_stale_lock d doc db = Inr db1"
  shows "\<exists>p. db1 = on_tables (\<lambda>t. t\<lparr>pt_locks := delete_where p (pt_locks t)\<rparr>) db \<and>
    (\<forall>l \<in> set (pt_locks (st_other db)). p l \<longrightarrow> job_finished (lk_job_id l) db)"
proof -
  have none: "db1 = db \<Longrightarrow> ?thesis"
    by (rule exI [of _ "\<lambda>_. False"]) (simp add: on_tables_def delete_where_def)
  have active: "is_terminal s" if "s \<notin> set ACTIVE_STATES" for s
    using that by (cases s) (simp_all add: ACTIVE_STATES_def)
  show ?thesis
  proof (cases "document_lock d doc (pt_locks (st_other db))")
    case None
    then show ?thesis using assms none by (simp add: clear_stale_lock_def)
  next
    case l: (Some l)
    show ?thesis
    proof (cases "job_row_of (lk_job_id l) db")
      case None
      then show ?thesis using assms l none by (simp add: clear_stale_lock_def)
    next
      case (Some holder)
      then have h: "jb_state holder \<notin> set ACTIVE_STATES" "db1 = on_tables (\<lambda>t. t\<lparr>pt_locks := delete_where
          (\<lambda>r. (lk_device_id r, lk_document_id r, lk_job_id r) = (d, doc, lk_job_id l)) (pt_locks t)\<rparr>) db"
        using assms l by (auto simp: clear_stale_lock_def split: if_splits)
      have "job_finished (lk_job_id l) db" using Some active [OF h(1)] by (simp add: job_finished_def)
      then show ?thesis
        unfolding h(2)
        by (intro exI [of _ "\<lambda>r. (lk_device_id r, lk_document_id r, lk_job_id r) = (d, doc, lk_job_id l)"]
            conjI refl ballI impI) simp
    qed
  qed
qed

lemma insert_lock_Inr:
  "insert_lock l t = Inr t' \<Longrightarrow> t' = t\<lparr>pt_locks := pt_locks t @ [l]\<rparr> \<and>
   (\<forall>r \<in> set (pt_locks t). lock_document r \<noteq> lock_document l \<and> lk_job_id r \<noteq> lk_job_id l)"
  by (auto simp: insert_lock_def select1_None split: if_splits)

definition new_lock :: "action_request \<Rightarrow> string \<Rightarrow> string \<Rightarrow> lock_row" where
  "new_lock q job_id now = \<lparr>lk_device_id = aq_device_id q, lk_document_id = aq_document_id q,
     lk_job_id = job_id, lk_created_at = now\<rparr>"

lemma action_effects:
  assumes "create_action_job L P now nj nc q db = Inr ((y, dup), db')" "jobs_ok db"
  shows "job_delta db db' \<and> same_presence db db' \<and> st_snapshots db' = st_snapshots db \<and>
    pt_receipts (st_other db') = pt_receipts (st_other db) \<and>
    (if dup then quiet db db' \<and> pt_locks (st_other db') = pt_locks (st_other db)
     else \<exists>r p. job_row_of nj db = None \<and> job_row_of nj db' = Some r \<and> y = ActionJob r \<and>
       jb_state r = Queued \<and> prior_receipt L q db = Inr None \<and>
       (\<forall>j. j \<noteq> nj \<longrightarrow> job_row_of j db' = job_row_of j db) \<and>
       pt_locks (st_other db') = delete_where p (pt_locks (st_other db)) @
         (if aq_acquire_write_lock q then [new_lock q nj now] else []) \<and>
       (\<forall>l \<in> set (pt_locks (st_other db)). p l \<longrightarrow> job_finished (lk_job_id l) db) \<and>
       (aq_acquire_write_lock q \<longrightarrow> (\<forall>l \<in> set (delete_where p (pt_locks (st_other db))).
          lock_document l \<noteq> (aq_device_id q, aq_document_id q) \<and> lk_job_id l \<noteq> nj)))"
proof (cases dup)
  case True
  then show ?thesis using action_cases [OF assms(1)] quiet_delta by (auto simp: quiet_def)
next
  case False
  then obtain db1 ph fp db2 t ids where c: "prior_receipt L q db = Inr None"
    "(if aq_acquire_write_lock q
      then clear_stale_lock (aq_device_id q) (aq_document_id q) db else Inr db) = Inr db1"
    "insert_action_job L now nj nc ph fp q db1 = Inr db2"
    "(if aq_acquire_write_lock q then insert_lock (new_lock q nj now) (st_other db2)
      else Inr (st_other db2)) = Inr t"
    "db' = db2\<lparr>st_other := t\<lparr>pt_idempotency := ids\<rparr>\<rparr>" "y = ActionJob (the (job_row_of nj db'))"
    using action_cases [OF assms(1)] unfolding new_lock_def by auto
  obtain p where p: "db1 = on_tables (\<lambda>t. t\<lparr>pt_locks := delete_where p (pt_locks t)\<rparr>) db"
    "\<forall>l \<in> set (pt_locks (st_other db)). p l \<longrightarrow> job_finished (lk_job_id l) db"
  proof (cases "aq_acquire_write_lock q")
    case True
    then show thesis using clear_stale_lock_Inr [of "aq_device_id q" "aq_document_id q" db db1] c(2) that by auto
  next
    case False
    then show thesis using c(2) that [of "\<lambda>_. False"] by (simp add: on_tables_def delete_where_def)
  qed
  have ok1: "jobs_ok db1" using assms(2) by (simp add: p(1) jobs_ok_def)
  note ins = insert_action_job_Inr [OF c(3) ok1]
  have d: "job_delta db db'"
  proof -
    have "job_delta db1 db2" using ins by blast
    then have "job_delta db db2" by (cases rule: job_delta.cases)
        (auto simp: p(1) update_job_def on_tables_def job_row_of_def intro: job_delta.intros)
    then show ?thesis by (cases rule: job_delta.cases)
        (auto simp: c(5) update_job_def job_row_of_def intro: job_delta.intros)
  qed
  have o2: "st_other db2 = (st_other db)\<lparr>pt_locks := delete_where p (pt_locks (st_other db))\<rparr>"
    using ins by (simp add: p(1))
  have l: "pt_locks t = delete_where p (pt_locks (st_other db)) @
        (if aq_acquire_write_lock q then [new_lock q nj now] else [])"
    "pt_receipts t = pt_receipts (st_other db)"
    "aq_acquire_write_lock q \<longrightarrow> (\<forall>l \<in> set (delete_where p (pt_locks (st_other db))).
       lock_document l \<noteq> (aq_device_id q, aq_document_id q) \<and> lk_job_id l \<noteq> nj)"
    using c(4) insert_lock_Inr [of "new_lock q nj now" "st_other db2" t] unfolding o2
    by (auto simp: new_lock_def split: if_splits)
  have r: "job_row_of nj db = None"
    "job_row_of nj db' = Some (queued_row now nj nc ph fp (action_job_request q))"
    "\<forall>j. j \<noteq> nj \<longrightarrow> job_row_of j db' = job_row_of j db"
    using ins by (simp_all add: p(1) c(5) job_row_of_def)
  show ?thesis
    using False d l r c(1,6) p(2) ins by (auto simp: c(5) p(1) same_presence_def queued_row_def)
qed

section \<open>Receipts\<close>

lemma insert_receipt_Inr:
  assumes "insert_receipt L now job execution value t = Inr t'"
  shows "\<exists>rt. t' = t\<lparr>pt_receipts := pt_receipts t @ [rt]\<rparr> \<and> rt_job_id rt = jb_job_id job \<and>
    rt_owner_subject rt = jb_owner_subject job \<and>
    text_column L (jget value ''receipt_id'') = Inr (rt_receipt_id rt) \<and>
    bindE (jsub execution ''preview_id'') (text_column L) = Inr (rt_preview_id rt) \<and>
    (\<forall>r \<in> set (pt_receipts t). rt_receipt_id r \<noteq> rt_receipt_id rt \<and>
       rt_preview_id r \<noteq> rt_preview_id rt \<and> rt_job_id r \<noteq> rt_job_id rt)"
  using assms
  by (auto simp: insert_receipt_def bindE_Inr insert_row_def select1_None split: if_splits)

text \<open>Materialising never touches the locks, and adds one receipt exactly for a commit.\<close>

lemma materialize_success_Inr:
  assumes "materialize_success L P now inst row res t = Inr t'"
  shows "pt_locks t' = pt_locks t \<and>
    (if jb_kind row = ''program_commit'' \<and> \<not> uses_wire_hash (jb_payload row)
     then \<exists>rt v execution. pt_receipts t' = pt_receipts t @ [rt] \<and> res = Some v \<and>
       jsub (jb_payload row) ''execution'' = Inr execution \<and>
       check_receipt execution (jget_default v ''receipt'' v) = Inr () \<and>
       text_column L (jget (jget_default v ''receipt'' v) ''receipt_id'') = Inr (rt_receipt_id rt) \<and>
       bindE (jsub execution ''preview_id'') (text_column L) = Inr (rt_preview_id rt) \<and>
       rt_job_id rt = jb_job_id row \<and> rt_owner_subject rt = jb_owner_subject row \<and>
       (\<forall>r \<in> set (pt_receipts t). rt_receipt_id r \<noteq> rt_receipt_id rt \<and>
          rt_preview_id r \<noteq> rt_preview_id rt \<and> rt_job_id r \<noteq> rt_job_id rt)
     else pt_receipts t' = pt_receipts t)"
proof -
  obtain v where v: "res = Some v" using assms by (auto simp: materialize_success_def split: option.splits)
  show ?thesis
  proof (cases "uses_wire_hash (jb_payload row)")
    case True
    then show ?thesis using assms v by (auto simp: materialize_success_def bindE_Inr)
  next
    case False
    then have "materialize L P now inst row v t = Inr t'"
      using assms v by (auto simp: materialize_success_def bindE_Inr)
    then obtain execution where ex: "jsub (jb_payload row) ''execution'' = Inr execution"
      and m: "(if jb_kind row = ''program_preview'' then
        bindE (check_preview P inst (jb_payload row) execution (jget_default v ''preview'' v)) (\<lambda>_.
           insert_preview L now row execution (jget_default v ''preview'' v) t)
      else if jb_kind row = ''program_commit'' then
        bindE (check_receipt execution (jget_default v ''receipt'' v)) (\<lambda>_.
           bindE (insert_receipt L now row execution (jget_default v ''receipt'' v) t) (\<lambda>t1.
           if jget (jget_default v ''receipt'' v) ''checkpoint'' = JNull then Inr t1
           else bindE (pl_checkpoint P row execution (jget (jget_default v ''receipt'' v) ''checkpoint'') (pt_more t1))
                  (\<lambda>more. Inr (t1\<lparr>pt_more := more\<rparr>))))
      else if jb_kind row = ''program_validate'' then
        bindE (check_validation execution (jget_default v ''validation'' v)) (\<lambda>_.
           insert_validation L now row execution (jget_default v ''validation'' v) t)
      else Inl (Conflict ''program_result_invalid'')) = Inr t'"
      unfolding materialize_def Let_def bindE_Inr by blast
    consider (preview) "jb_kind row = ''program_preview''" | (commit) "jb_kind row = ''program_commit''"
      | (validate) "jb_kind row = ''program_validate''"
      using m by (auto split: if_splits)
    then show ?thesis
    proof cases
      case preview
      then show ?thesis using m by (auto simp: bindE_Inr insert_preview_def)
    next
      case validate
      then show ?thesis using m by (auto simp: bindE_Inr insert_validation_def)
    next
      case commit
      then obtain t1 where t1: "check_receipt execution (jget_default v ''receipt'' v) = Inr ()"
        "insert_receipt L now row execution (jget_default v ''receipt'' v) t = Inr t1"
        "pt_locks t' = pt_locks t1" "pt_receipts t' = pt_receipts t1"
        using m by (auto simp: bindE_Inr split: if_splits)
      then show ?thesis using insert_receipt_Inr [OF t1(2)] ex commit False v by auto
    qed
  qed
qed

section \<open>The invariant\<close>

text \<open>Presence, jobs and snapshots: what the store invariant needs of a step outside \<open>store_step\<close>.\<close>

lemma delta_store_ok:
  assumes "job_delta db db'" "same_presence db db'" "st_snapshots db' = st_snapshots db" "store_ok db"
  shows "store_ok db'"
proof -
  have ok: "jobs_ok db" "sessions_ok db" "snapshots_ok db" using assms(4) by (simp_all add: store_ok_def)
  note sok = ok(3) [unfolded snapshots_ok_def]
  have sn: "\<exists>r. job_row_of (sn_job_id sn) db' = Some r \<and> jb_state r = Succeeded \<and>
      sn_owner_subject sn = jb_owner_subject r \<and> sn_device_id sn = jb_device_id r"
    if mem: "sn \<in> set (st_snapshots db)" for sn
  proof -
    obtain r where r: "job_row_of (sn_job_id sn) db = Some r" "jb_state r = Succeeded"
      "sn_owner_subject sn = jb_owner_subject r" "sn_device_id sn = jb_device_id r"
      using ok(3) mem by (auto simp: snapshots_ok_def)
    obtain r' where r': "job_row_of (sn_job_id sn) db' = Some r'" "keeps_job r r'"
      using job_delta_row [OF assms(1) ok(1) r(1)] by blast
    then show ?thesis using r finished_row [OF r'(2)] keeps_job_keys [OF r'(2)] by simp
  qed
  have obs: "jb_job_id r \<in> sn_job_id ` set (st_snapshots db')"
    if "r \<in> set (st_jobs db')" "jb_kind r = ''observe''" "jb_state r = Succeeded" for r
  proof (rule job_delta_observed [OF assms(1) ok(1) _ _ that])
    show "set (st_snapshots db) \<subseteq> set (st_snapshots db')" by (simp add: assms(3))
    show "\<forall>r \<in> set (st_jobs db). jb_kind r = ''observe'' \<and> jb_state r = Succeeded \<longrightarrow>
        jb_job_id r \<in> sn_job_id ` set (st_snapshots db)"
      by (rule sok [THEN conjunct2, THEN conjunct2, THEN conjunct2])
  qed
  have p: "st_devices db' = st_devices db" "st_sessions db' = st_sessions db"
    using assms(2) by (simp_all add: same_presence_def)
  have "sessions_ok db' = sessions_ok db" unfolding sessions_ok_def p ..
  then have "sessions_ok db'" using ok(2) by simp
  moreover have "snapshots_ok db'"
    unfolding snapshots_ok_def
  proof (intro conjI ballI impI)
    show "distinct (map sn_job_id (st_snapshots db'))" "distinct (map sn_snapshot_id (st_snapshots db'))"
      using sok [THEN conjunct1] sok [THEN conjunct2, THEN conjunct1] by (simp_all only: assms(3))
  next
    fix x assume "x \<in> set (st_snapshots db')"
    then show "\<exists>r. job_row_of (sn_job_id x) db' = Some r \<and> jb_state r = Succeeded \<and>
        sn_owner_subject x = jb_owner_subject r \<and> sn_device_id x = jb_device_id r"
      using sn unfolding assms(3) by blast
  next
    fix r assume "r \<in> set (st_jobs db')" "jb_kind r = ''observe'' \<and> jb_state r = Succeeded"
    then show "jb_job_id r \<in> sn_job_id ` set (st_snapshots db')" using obs by blast
  qed
  ultimately show ?thesis using job_delta_ok [OF assms(1) ok(1)] by (simp add: store_ok_def)
qed

lemma quiet_store_ok: "quiet db db' \<Longrightarrow> store_ok db \<Longrightarrow> store_ok db'"
  using delta_store_ok [of db db'] quiet_delta [of db db'] by (simp add: quiet_def)

text \<open>A step of the program tables on receipts and locks.\<close>

definition commits :: "'y program_db \<Rightarrow> 'y program_db \<Rightarrow> receipt_row \<Rightarrow> bool" where
  "commits db db' rt \<longleftrightarrow> pt_receipts (st_other db') = pt_receipts (st_other db) @ [rt] \<and>
     (\<exists>r. job_row_of (rt_job_id rt) db' = Some r \<and> jb_state r = Succeeded \<and>
        jb_kind r = ''program_commit'' \<and> jb_owner_subject r = rt_owner_subject rt) \<and>
     (\<forall>x \<in> set (pt_receipts (st_other db)). rt_receipt_id x \<noteq> rt_receipt_id rt \<and>
        rt_preview_id x \<noteq> rt_preview_id rt \<and> rt_job_id x \<noteq> rt_job_id rt)"

definition takes_lock :: "'y program_db \<Rightarrow> 'y program_db \<Rightarrow> lock_row list \<Rightarrow> bool" where
  "takes_lock db db' new \<longleftrightarrow>
     (\<exists>p. pt_locks (st_other db') = delete_where p (pt_locks (st_other db)) @ new \<and>
        (\<forall>l \<in> set (pt_locks (st_other db)). p l \<longrightarrow> job_finished (lk_job_id l) db') \<and>
        (\<forall>n \<in> set new. job_row_of (lk_job_id n) db' \<noteq> None \<and>
           (\<forall>l \<in> set (delete_where p (pt_locks (st_other db))).
              lock_document l \<noteq> lock_document n \<and> lk_job_id l \<noteq> lk_job_id n)) \<and> length new \<le> 1)"

lemma frees_locks_takes: "frees_locks db db' \<longleftrightarrow> takes_lock db db' []"
  by (simp add: frees_locks_def takes_lock_def)

lemma same_locks_frees: "pt_locks (st_other db') = pt_locks (st_other db) \<Longrightarrow> frees_locks db db'"
  unfolding frees_locks_def by (rule exI [of _ "\<lambda>_. False"]) (simp add: delete_where_def)

end
