(* ===== verification/StoreProperties.thy ===== *)
theory StoreProperties
  imports Store
begin

text \<open>
  The properties of the Gateway store, each over an arbitrary run of repository operations.  The
  witnesses work on a store with one device, one live session and one queued write job.
\<close>

section \<open>A sample store\<close>

definition sample_lib :: pylib where
  "sample_lib = \<lparr>sha256_hex = (\<lambda>s. s), float_repr = (\<lambda>q. [])\<rparr>"

definition sample_device :: device_row where
  "sample_device =
    \<lparr>dv_device_id = ''d'', dv_owner_subject = ''o'', dv_display_name = ''n'',
     dv_status = DeviceOnline, dv_fixture_auth_ref = ''f'', dv_created_at = ''t0'',
     dv_updated_at = ''t0'', dv_runtime_state = None, dv_document_name = None, dv_paused = False,
     dv_runtime_updated_at = None, dv_agent = no_agent_columns [''query''] (Some ''h'')\<rparr>"

definition sample_session :: session_row where
  "sample_session =
    \<lparr>ss_session_id = ''s1'', ss_device_id = ''d'', ss_protocol_version = ''cad.agent/2'',
     ss_connected_at = ''t0'', ss_last_heartbeat_at = ''t0'', ss_disconnected_at = None,
     ss_last_sequence = 0, ss_agent = no_agent_columns [''query''] (Some ''h'')\<rparr>"

definition sample_request :: job_request where
  "sample_request =
    \<lparr>jr_owner_subject = ''o'', jr_device_id = ''d'', jr_kind = ''program_commit'',
     jr_effect_class = WriteEffect, jr_payload = JObj [], jr_idempotency_key = ''k'',
     jr_deadline_at = None\<rparr>"

definition sample_job :: job_row where
  "sample_job = queued_row ''t0'' ''j1'' ''c1'' ''h1'' ''f1'' sample_request"

definition sample_event :: "nat \<Rightarrow> job_state \<Rightarrow> event_row" where
  "sample_event n st =
    \<lparr>ev_job_id = ''j1'', ev_sequence = n, ev_event_type = StateEvent, ev_state = Some st,
     ev_progress = None, ev_error_code = None, ev_result = None, ev_created_at = ''t0''\<rparr>"

text \<open>The job after a chain of states, with its log.\<close>

definition sample_store :: "job_state list \<Rightarrow> unit store_db" where
  "sample_store sts =
    \<lparr>st_devices = [sample_device], st_sessions = [sample_session],
     st_jobs = [sample_job\<lparr>jb_state := last (Queued # sts), jb_state_version := length sts\<rparr>],
     st_events = map2 sample_event [1..<length sts + 2] (Queued # sts), st_snapshots = [],
     st_other = ()\<rparr>"

lemmas sample_job_defs = sample_job_def queued_row_def sample_request_def

lemma sample_trail:
  "trail_to WriteEffect (map Some (Queued # sts)) (last (Queued # sts))
     \<Longrightarrow> job_step WriteEffect (last (Queued # sts)) s
     \<Longrightarrow> trail_to WriteEffect (map Some (Queued # sts @ [s])) (last (Queued # sts @ [s]))"
  using trail_step [of WriteEffect "map Some (Queued # sts)"] by simp

lemma job_events_same:
  "(\<And>e. e \<in> set es \<Longrightarrow> ev_job_id e = c) \<Longrightarrow> job_events k es = (if k = c then es else [])"
  by (induction es) (auto simp: job_events_def)

lemma state_filter_same:
  "(\<And>e. e \<in> set es \<Longrightarrow> ev_event_type e = StateEvent) \<Longrightarrow>
   filter (\<lambda>e. ev_event_type e = StateEvent) es = es"
  by (induction es) auto

lemma sample_store_ok:
  assumes "trail_to WriteEffect (map Some (Queued # sts)) (last (Queued # sts))"
  shows "store_ok (sample_store sts)"
proof -
  let ?es = "map2 sample_event [1..<length sts + 2] (Queued # sts)"
  have len: "length [1..<length sts + 2] = length (Queued # sts)" by (simp only: length_upt) simp
  have mem: "ev_job_id e = ''j1'' \<and> ev_event_type e = StateEvent" if "e \<in> set ?es" for e
    using that by (auto simp: sample_event_def)
  have all: "job_events k ?es = (if k = ''j1'' then ?es else [])" for k
    by (rule job_events_same) (use mem in blast)
  have seqs: "map ev_sequence (map2 sample_event ns ss) = ns" if "length ns = length ss" for ns ss
    using that by (induction ns ss rule: list_induct2) (simp_all add: sample_event_def)
  have states: "map ev_state (map2 sample_event ns ss) = map Some ss" if "length ns = length ss" for ns ss
    using that by (induction ns ss rule: list_induct2) (simp_all add: sample_event_def)
  have "numbered ?es"
    unfolding numbered_def all using seqs [OF len] by (simp del: upt_Suc)
  moreover have "filter (\<lambda>e. ev_event_type e = StateEvent) ?es = ?es"
    by (rule state_filter_same) (use mem in blast)
  then have "state_trail ''j1'' ?es = map Some (Queued # sts)"
    using states [OF len] unfolding state_trail_def all by simp
  then have "log_ok (sample_job\<lparr>jb_state := last (Queued # sts), jb_state_version := length sts\<rparr>) ?es"
    using assms by (simp add: log_ok_def sample_job_defs)
  moreover have "ev_job_id ` set ?es \<subseteq> {''j1''}" using mem by blast
  ultimately have "jobs_ok (sample_store sts)"
    by (simp add: jobs_ok_def sample_store_def sample_job_defs request_key_def del: upt_Suc)
  moreover have "sessions_ok (sample_store sts)"
    by (simp add: sessions_ok_def sample_store_def)
  moreover have "snapshots_ok (sample_store sts)"
    by (simp add: snapshots_ok_def sample_store_def sample_job_defs)
  ultimately show ?thesis by (simp add: store_ok_def)
qed

lemma write_steps:
  "job_step WriteEffect Queued Dispatched" "job_step WriteEffect Dispatched Acknowledged"
  "job_step WriteEffect Acknowledged Running" "job_step WriteEffect Acknowledged Failed"
  by (simp_all add: job_step_iff transition_allowed_def)

lemma sample_stores_ok:
  "store_ok (sample_store [])" "store_ok (sample_store [Dispatched, Acknowledged])"
  "store_ok (sample_store [Dispatched, Acknowledged, Failed])"
proof -
  have 0: "trail_to WriteEffect (map Some [Queued]) (last [Queued])" by (simp add: trail_start)
  have 1: "trail_to WriteEffect (map Some [Queued, Dispatched]) (last [Queued, Dispatched])"
    using sample_trail [of "[]" Dispatched] 0 write_steps(1) by simp
  have 2: "trail_to WriteEffect (map Some [Queued, Dispatched, Acknowledged])
      (last [Queued, Dispatched, Acknowledged])"
    using sample_trail [of "[Dispatched]" Acknowledged] 1 write_steps(2) by simp
  have 3: "trail_to WriteEffect (map Some [Queued, Dispatched, Acknowledged, Failed])
      (last [Queued, Dispatched, Acknowledged, Failed])"
    using sample_trail [of "[Dispatched, Acknowledged]" Failed] 2 write_steps(4) by simp
  show "store_ok (sample_store [])" "store_ok (sample_store [Dispatched, Acknowledged])"
    "store_ok (sample_store [Dispatched, Acknowledged, Failed])"
    by (rule sample_store_ok; use 0 2 3 in simp)+
qed

lemma sample_row:
  "job_row_of ''j1'' (sample_store sts) =
     Some (sample_job\<lparr>jb_state := last (Queued # sts), jb_state_version := length sts\<rparr>)"
  by (simp add: job_row_of_def sample_store_def sample_job_defs)

section \<open>Jobs\<close>

text \<open>C12. A finished job is frozen: over any run of repository operations its content (state, version,
  result, error, progress, everything but the fingerprint backfilled into old rows) stays as it was;
  and a further Agent result for it either repeats the stored outcome, changes no table of jobs,
  events or snapshots and is flagged as a duplicate, or is refused.\<close>

theorem finished_job_frozen:
  assumes "steps store_step db db'" and "store_ok db"
    and "job_row_of k db = Some r" and "is_terminal (jb_state r)" and "jo_job_id ou = k"
  shows "\<exists>r'. job_row_of k db' = Some r' \<and> job_content r' = job_content r \<and>
    (\<forall>z db''. finalize_job_result L now hook ou db' = Inr (z, db'') \<longrightarrow>
       z = Some (r', True) \<and> same_outcome ou r' \<and> st_jobs db'' = st_jobs db' \<and>
       st_events db'' = st_events db' \<and> st_snapshots db'' = st_snapshots db')"
proof -
  have ok: "jobs_ok db'" using store.steps_inv [OF assms(1,2)] by (simp add: store_ok_def)
  obtain r' where r': "job_row_of k db' = Some r'" "is_terminal (jb_state r')"
    "job_content r' = job_content r"
    using store.steps_final [OF assms(1-3)] assms(4) by (auto simp: finished_job_def)
  have "z = Some (r', True) \<and> same_outcome ou r' \<and> st_jobs db'' = st_jobs db' \<and>
       st_events db'' = st_events db' \<and> st_snapshots db'' = st_snapshots db'"
    if "finalize_job_result L now hook ou db' = Inr (z, db'')" for z db''
    using finalize_cases [OF that ok] r' assms(5) by (auto split: if_splits)
  then show ?thesis using r' by blast
qed

definition sample_outcome :: "job_state \<Rightarrow> job_outcome" where
  "sample_outcome target =
    \<lparr>jo_job_id = ''j1'', jo_device_id = ''d'', jo_command_id = ''c1'', jo_payload_hash = ''h1'',
     jo_target = target, jo_result = None, jo_error_code = None, jo_error_summary = None,
     jo_snapshot = None, jo_session_id = Some ''s1'', jo_expected_version = None,
     jo_agent_sequence = Some 1, jo_evidence = False\<rparr>"

lemma finished_job_frozen_witness:
  "\<exists>r'. job_row_of ''j1'' (sample_store [Dispatched, Acknowledged, Failed]) = Some r' \<and>
     (\<forall>z db''. finalize_job_result sample_lib ''t1'' None (sample_outcome Cancelled)
        (sample_store [Dispatched, Acknowledged, Failed]) = Inr (z, db'') \<longrightarrow> z = Some (r', True))"
proof -
  have "is_terminal (jb_state (sample_job\<lparr>jb_state := last [Queued, Dispatched, Acknowledged, Failed],
      jb_state_version := length [Dispatched, Acknowledged, Failed]\<rparr>))" by simp
  moreover have "jo_job_id (sample_outcome Cancelled) = ''j1''" by (simp add: sample_outcome_def)
  ultimately show ?thesis
    using finished_job_frozen [OF steps_refl sample_stores_ok(3) sample_row] by blast
qed

text \<open>A write job an Agent has acknowledged, started or lost is never dispatched again: whatever
  happens in the store, a later \<open>claim_job\<close> for it claims nothing and changes nothing.\<close>

theorem acknowledged_write_never_claimed:
  assumes "steps store_step db db'" and "store_ok db" and "job_row_of k db = Some r"
    and "jb_effect_class r = WriteEffect" and "jb_state r \<in> started_states"
    and "claim_job L now k db' = Inr (x, db'')"
  shows "x = None \<and> db'' = db'"
proof -
  have ok: "jobs_ok db'" using store.steps_inv [OF assms(1,2)] by (simp add: store_ok_def)
  obtain r' where r': "job_row_of k db' = Some r'"
    "job_path (jb_effect_class r) (jb_state r) (jb_state r')"
    using steps_job [OF assms(1-3)] by blast
  have "jb_state r' \<in> started_states \<union> {s. is_terminal s}"
    using job_path_closed [OF r'(2), of "started_states \<union> {s. is_terminal s}"] assms(4,5)
      write_started_closed by auto
  then have "jb_state r' \<noteq> Queued" by (auto simp: started_states_def)
  then show ?thesis using claim_job_delta [OF assms(6) ok] r'(1) by (auto split: option.splits)
qed

lemma acknowledged_write_never_claimed_witness:
  "\<exists>x db''. claim_job sample_lib ''t1'' ''j1'' (sample_store [Dispatched, Acknowledged]) = Inr (x, db'')
     \<and> x = None"
proof -
  obtain x db'' where c: "claim_job sample_lib ''t1'' ''j1'' (sample_store [Dispatched, Acknowledged]) = Inr (x, db'')"
    by (simp add: claim_job_def sample_row sample_job_defs)
  then show ?thesis
    using acknowledged_write_never_claimed [OF steps_refl sample_stores_ok(2) sample_row _ _ c]
    by (simp add: sample_job_defs started_states_def)
qed


text \<open>A store with a device and no job, and the same request twice.\<close>

definition blank_store :: "unit store_db" where
  "blank_store = (empty_store ())\<lparr>st_devices := [sample_device]\<rparr>"

lemma blank_store_ok: "store_ok blank_store"
  using empty_store_ok [of "()"]
  by (simp add: store_ok_def blank_store_def jobs_ok_def sessions_ok_def snapshots_ok_def
      empty_store_def job_row_of_def)

lemma creation_on:
  assumes "map dv_device_id (st_devices db) = [''d'']" "map dv_owner_subject (st_devices db) = [''o'']"
    and "st_jobs db = []" "st_events db = []"
  shows "\<exists>r db1. create_job sample_lib (\<lambda>k e p. Inr []) ''t0'' ''j1'' ''c1'' sample_request db =
     Inr ((r, False), db1)"
proof -
  have h: "request_hash sample_lib (\<lambda>k e p. Inr []) sample_request = Inr ''{}''"
    by (simp add: request_hash_def uses_wire_hash_def sample_request_def jget_def jget_default_def
        jlookup_def canonical_payload_hash_def canonical_json_def validate_bounded_json_def
        bounded_at.simps bound_defs sample_lib_def)
  have f: "\<exists>f. request_fingerprint sample_lib ''program_commit'' WriteEffect ''{}'' = Inr f"
  proof -
    have "isl (request_fingerprint sample_lib ''program_commit'' WriteEffect ''{}'') = False"
      by code_simp
    then show ?thesis by (cases "request_fingerprint sample_lib ''program_commit'' WriteEffect ''{}''") auto
  qed
  then obtain f where f: "request_fingerprint sample_lib ''program_commit'' WriteEffect ''{}'' = Inr f"
    by blast
  have p: "json_column sample_lib JSON_LIMIT (JObj []) = Inr (JObj [])"
    by (simp add: json_column_def JSON_LIMIT_def)
  have q: "jr_kind sample_request = ''program_commit''" "jr_effect_class sample_request = WriteEffect"
    "jr_payload sample_request = JObj []" "jr_device_id sample_request = ''d''"
    "jr_owner_subject sample_request = ''o''"
    by (simp_all add: sample_request_def)
  obtain dv where dv: "st_devices db = [dv]" "dv_device_id dv = ''d''" "dv_owner_subject dv = ''o''"
    using assms(1,2) by (cases "st_devices db") auto
  show ?thesis
    by (simp add: create_job_def h f p q assms(3,4) dv append_event_def Let_def)
qed

lemma first_creation:
  "\<exists>r db1. create_job sample_lib (\<lambda>k e p. Inr []) ''t0'' ''j1'' ''c1'' sample_request blank_store =
     Inr ((r, False), db1)"
  by (rule creation_on) (simp_all add: blank_store_def empty_store_def sample_device_def)


text \<open>A queued job is claimed by at most one dispatcher: a successful claim moves it from queued to
  dispatched, and claiming it again claims nothing and changes nothing.\<close>

theorem claim_is_exclusive:
  assumes "store_ok db" and "claim_job L now k db = Inr (Some r, db')"
    and "claim_job L now' k db' = Inr (y, db'')"
  shows "jb_state r = Dispatched \<and> job_row_of k db' = Some r \<and> y = None \<and> db'' = db'"
proof -
  have j: "jobs_ok db" "jobs_ok db'"
    using assms(1) store_step_ok [OF step_claim [OF assms(2)]] by (simp_all add: store_ok_def)
  from claim_job_delta [OF assms(2) j(1)] have "job_row_of k db' = Some r" "jb_state r = Dispatched"
    by auto
  then show ?thesis using claim_job_delta [OF assms(3) j(2)] by (auto split: option.splits)
qed

lemma claim_queued:
  assumes "jobs_ok db" "job_row_of k db = Some row" "jb_state row = Queued"
  shows "\<exists>r db'. claim_job L now k db = Inr (Some r, db')"
proof -
  obtain x db' where c: "claim_job L now k db = Inr (x, db')"
    by (cases "claim_job L now k db")
      (auto simp: claim_job_def append_event_def result_simps split: option.splits if_splits sum.splits)
  with claim_job_delta [OF c assms(1)] assms(2,3) show ?thesis by (cases x) auto
qed

lemma claim_is_exclusive_witness:
  "\<exists>r db'. claim_job sample_lib ''t1'' ''j1'' (sample_store []) = Inr (Some r, db') \<and>
     (\<forall>y db''. claim_job sample_lib ''t2'' ''j1'' db' = Inr (y, db'') \<longrightarrow> y = None)"
proof -
  have "\<exists>r db'. claim_job sample_lib ''t1'' ''j1'' (sample_store []) = Inr (Some r, db')"
    by (rule claim_queued [OF _ sample_row])
      (use sample_stores_ok(1) in \<open>simp_all add: store_ok_def sample_job_defs\<close>)
  then obtain r db' where "claim_job sample_lib ''t1'' ''j1'' (sample_store []) = Inr (Some r, db')"
    by blast
  with claim_is_exclusive [OF sample_stores_ok(1) this] show ?thesis by blast
qed

text \<open>No lost update: of two transitions that both expect the same version of a job, at most one
  succeeds, whatever else happens in the store in between.\<close>

theorem no_lost_update:
  assumes "store_ok db" and "jc_expected_version c = Some v" and "jc_expected_version c' = Some v"
    and "transition_job L now k c db = Inr (Some r, db1)" and "steps store_step db1 db2"
  shows "jb_state_version r = v + 1 \<and> (\<forall>z. transition_job L now' k c' db2 \<noteq> Inr z)"
proof -
  have j: "jobs_ok db" using assms(1) by (simp add: store_ok_def)
  have ok1: "store_ok db1" using store_step_ok [OF step_transition [OF assms(4)] assms(1)] .
  have j2: "jobs_ok db2" using store.steps_inv [OF assms(5) ok1] by (simp add: store_ok_def)
  have r: "job_row_of k db1 = Some r" "jb_state_version r = v + 1"
    using transition_job_delta [OF assms(4) j] assms(2) by (auto simp: transitioned_row_def)
  obtain r2 where r2: "job_row_of k db2 = Some r2" "keeps_job r r2"
    using steps_job [OF assms(5) ok1 r(1)] by blast
  then have "v < jb_state_version r2" using r(2) by (simp add: keeps_job_def)
  have "transition_job L now' k c' db2 \<noteq> Inr (y, db3)" for y db3
  proof
    assume t: "transition_job L now' k c' db2 = Inr (y, db3)"
    from transition_job_delta [OF t j2] r2(1) assms(3) \<open>v < jb_state_version r2\<close> show False
      by (auto split: option.splits)
  qed
  then show ?thesis using r(2) by auto
qed

definition sample_change :: "job_state \<Rightarrow> nat \<Rightarrow> job_change" where
  "sample_change target v = \<lparr>jc_target = target, jc_expected_version = Some v, jc_evidence = False,
     jc_result = None, jc_error_code = None, jc_error_summary = None\<rparr>"

lemma transition_valid:
  assumes "jobs_ok db" "job_row_of k db = Some row" "jc_result c = None"
    and "validate_transition (jb_state row) (jc_target c) (jb_effect_class row) (jc_evidence c) = Inr ()"
    and "jc_expected_version c = Some (jb_state_version row)" "jc_target c \<noteq> Succeeded"
  shows "\<exists>r db'. transition_job L now k c db = Inr (Some r, db')"
proof -
  have "distinct (map jb_job_id (st_jobs db))" using assms(1) by (simp add: jobs_ok_def)
  note cas = cas_update_current [OF this assms(2)]
  obtain x db' where t: "transition_job L now k c db = Inr (x, db')"
    using assms(2-6)
    by (simp add: transition_job_def result_snapshot_def guard_def cas append_event_def)
  with transition_job_delta [OF t assms(1)] assms(2) show ?thesis by (cases x) auto
qed

lemma no_lost_update_witness:
  "\<exists>r db1. transition_job sample_lib ''t1'' ''j1'' (sample_change Running 2)
       (sample_store [Dispatched, Acknowledged]) = Inr (Some r, db1) \<and>
     (\<forall>z. transition_job sample_lib ''t2'' ''j1'' (sample_change Failed 2) db1 \<noteq> Inr z)"
proof -
  have "\<exists>r db1. transition_job sample_lib ''t1'' ''j1'' (sample_change Running 2)
       (sample_store [Dispatched, Acknowledged]) = Inr (Some r, db1)"
    by (rule transition_valid [OF _ sample_row])
      (use sample_stores_ok(2) in \<open>simp_all add: store_ok_def sample_job_defs sample_change_def
        validate_transition_def transition_allowed_def recovery_evidence_transitions_def\<close>)
  then obtain r db1 where t: "transition_job sample_lib ''t1'' ''j1'' (sample_change Running 2)
       (sample_store [Dispatched, Acknowledged]) = Inr (Some r, db1)"
    by blast
  have "jc_expected_version (sample_change st 2) = Some 2" for st by (simp add: sample_change_def)
  from no_lost_update [OF sample_stores_ok(2) this this t steps_refl] t show ?thesis by blast
qed

text \<open>A cancellation request is durable: once it is accepted for a job that was not finished, the
  job carries its time stamp through every later run of the store; a queued job is cancelled at once,
  and no other state is turned into \<open>cancelled\<close> by the request.\<close>

theorem cancel_intent_durable:
  assumes "store_ok db" and "job_row_of k db = Some row" and "\<not> is_terminal (jb_state row)"
    and "jb_cancel_requested_at row = None"
    and "request_job_cancel L now k ver db = Inr (x, db1)" and "steps store_step db1 db2"
  shows "\<exists>r r'. x = Some r \<and> jb_cancel_requested_at r = Some now \<and>
    (jb_state r = Cancelled \<longleftrightarrow> jb_state row = Queued) \<and>
    job_row_of k db2 = Some r' \<and> jb_cancel_requested_at r' = Some now"
proof -
  have j: "jobs_ok db" using assms(1) by (simp add: store_ok_def)
  have ok1: "store_ok db1" using store_step_ok [OF step_cancel [OF assms(5)] assms(1)] .
  from request_job_cancel_delta [OF assms(5) j] assms(2-4) obtain t r where
    t: "cancel_target (jb_state row) (jb_effect_class row) = Inr t" and
    r: "x = Some r" "job_row_of k db1 = Some r" "jb_state r = t" "jb_cancel_requested_at r = Some now"
    by auto
  have "t = Cancelled \<longleftrightarrow> jb_state row = Queued"
    using t by (auto simp: cancel_target_def result_simps split: if_splits)
  moreover obtain r' where "job_row_of k db2 = Some r'" "keeps_job r r'"
    using steps_job [OF assms(6) ok1 r(2)] by blast
  ultimately show ?thesis using r by (auto simp: keeps_job_def)
qed

lemma cancel_intent_durable_witness:
  "\<exists>x db1 r'. request_job_cancel sample_lib ''t1'' ''j1'' None (sample_store [Dispatched, Acknowledged]) = Inr (x, db1)
     \<and> job_row_of ''j1'' db1 = Some r' \<and> jb_cancel_requested_at r' = Some ''t1''"
proof -
  have d: "distinct (map jb_job_id (st_jobs (sample_store [Dispatched, Acknowledged])))"
    by (simp add: sample_store_def)
  obtain x db1 where c: "request_job_cancel sample_lib ''t1'' ''j1'' None (sample_store [Dispatched, Acknowledged])
      = Inr (x, db1)"
  proof -
    have "cancel_target Acknowledged WriteEffect = Inr CancelRequested"
      by (simp add: cancel_target_def validate_transition_def transition_allowed_def
          recovery_evidence_transitions_def)
    then show thesis
      using that cas_update_current [OF d sample_row]
      by (simp add: request_job_cancel_def sample_row sample_job_defs guard_def append_event_def
          json_column_def JSON_LIMIT_def json_string_def escape_char_def)
  qed
  with cancel_intent_durable [OF sample_stores_ok(2) sample_row _ _ c steps_refl] show ?thesis
    by (auto simp: sample_job_defs)
qed

section \<open>The event log\<close>

text \<open>The log of a job is complete and faithful: in every store reachable from the empty one, the
  events of a job are numbered 1, 2, .. without gaps, its state events start with \<open>queued\<close>, each one
  repeats the state or follows it by a validated transition, the last one is the job's state, and
  their number is the job's version plus one.\<close>

theorem job_log_complete:
  assumes "steps store_step (empty_store other) db" and "job_row_of k db = Some r"
  shows "map ev_sequence (job_events k (st_events db)) = [1..<Suc (length (job_events k (st_events db)))] \<and>
    trail_to (jb_effect_class r) (state_trail k (st_events db)) (jb_state r) \<and>
    hd (state_trail k (st_events db)) = Some Queued \<and>
    last (state_trail k (st_events db)) = Some (jb_state r) \<and>
    length (state_trail k (st_events db)) = jb_state_version r + 1"
proof -
  have ok: "jobs_ok db"
    using store.steps_inv [OF assms(1) empty_store_ok] by (simp add: store_ok_def)
  have id: "jb_job_id r = k" "r \<in> set (st_jobs db)" using job_row_of_Some [OF assms(2)] by auto
  have log: "log_ok r (st_events db)" using ok id by (simp add: jobs_ok_def)
  have ends: "t \<noteq> [] \<and> hd t = Some Queued \<and> last t = Some s" if "trail_to eff t s" for eff t s
    using that by (induction rule: trail_to.induct) (auto simp: hd_append)
  show ?thesis
    using log id ends ok by (auto simp: log_ok_def jobs_ok_def numbered_def)
qed

lemma job_log_complete_witness:
  "\<exists>r db. steps store_step (empty_store ()) (db :: unit store_db) \<and> job_row_of ''j1'' db = Some r \<and>
     length (state_trail ''j1'' (st_events db)) = jb_state_version r + 1"
proof -
  have seeded: "\<exists>db. seed_device sample_lib ''t0'' ''o'' ''d'' ''n'' [] ''f'' (empty_store ()) = Inr db \<and>
      map dv_device_id (st_devices db) = [''d''] \<and> map dv_owner_subject (st_devices db) = [''o''] \<and>
      st_jobs db = [] \<and> st_events db = []"
  proof -
    have h: "isl (capability_list_hash sample_lib []) = False" by code_simp
    then obtain hash where "capability_list_hash sample_lib [] = Inr hash"
      by (cases "capability_list_hash sample_lib []") auto
    then show ?thesis
      by (simp add: seed_device_def store_capabilities_def canonical_capabilities_def json_column_def
          empty_store_def device_row_of_def)
  qed
  then obtain db where db: "seed_device sample_lib ''t0'' ''o'' ''d'' ''n'' [] ''f'' (empty_store ()) = Inr db"
    "map dv_device_id (st_devices db) = [''d'']" "map dv_owner_subject (st_devices db) = [''o'']"
    "st_jobs db = []" "st_events db = []"
    by (elim exE conjE) (rule that)
  obtain r db1 where c: "create_job sample_lib (\<lambda>k e p. Inr []) ''t0'' ''j1'' ''c1'' sample_request db =
      Inr ((r, False), db1)"
    using creation_on [OF db(2-5)] by blast
  have s: "steps store_step (empty_store ()) db1"
    using steps_snoc [OF steps_single [where step = store_step, OF step_seed [OF db(1)]] step_create [OF c]] .
  have "jobs_ok db"
    using store_step_ok [OF step_seed [OF db(1)] empty_store_ok] by (simp add: store_ok_def)
  then have "job_row_of ''j1'' db1 = Some r" using create_job_delta [OF c] by auto
  with job_log_complete [OF s this] s show ?thesis by blast
qed

text \<open>Pages of the event log are contiguous: for a visible job a page after the cursor holds exactly
  the next events, and the cursor it returns is the number of its last event, given exactly when
  events remain; so following the cursor reads every event once, in order.  Another owner sees nothing.\<close>

theorem event_pages_contiguous:
  assumes "store_ok db" and "job_row_of k db = Some r" and "0 < limit" and "cursor \<le> n"
    and "n = length (job_events k (st_events db))"
  shows "list_events (jb_owner_subject r) k cursor limit db =
      (map (\<lambda>i. job_events k (st_events db) ! i) [cursor..<min (cursor + limit) n],
       if cursor + limit < n then Some (decimal (cursor + limit)) else None) \<and>
    (owner \<noteq> jb_owner_subject r \<longrightarrow> list_events owner k cursor limit db = ([], None))"
proof -
  have ok: "jobs_ok db" using assms(1) by (simp add: store_ok_def)
  have d: "distinct (map jb_job_id (st_jobs db))" using ok by (simp add: jobs_ok_def)
  let ?es = "job_events k (st_events db)"
  have seq: "map ev_sequence ?es = [1..<Suc n]" using ok assms(5) by (simp add: jobs_ok_def numbered_def)
  have nth: "ev_sequence (?es ! i) = Suc i" if "i < n" for i
    using arg_cong [OF seq, of "\<lambda>l. l ! i"] that assms(5) by (simp del: upt_Suc add: nth_upt)
  have mine: "get_job (jb_owner_subject r) k db = Some r"
  proof -
    have row: "r \<in> set (st_jobs db)" "jb_job_id r = k" using job_row_of_Some [OF assms(2)] by auto
    have "select1 (\<lambda>x. jb_owner_subject x = jb_owner_subject r \<and> jb_job_id x = k) (st_jobs db) \<noteq> None"
      using row by (auto simp: select1_None)
    then obtain y where y: "select1 (\<lambda>x. jb_owner_subject x = jb_owner_subject r \<and> jb_job_id x = k)
        (st_jobs db) = Some y" by blast
    from select1_Some [OF y] job_row_unique [OF d assms(2), of y] y show ?thesis
      by (simp add: get_job_def)
  qed
  have other: "get_job owner k db = None" if "owner \<noteq> jb_owner_subject r"
    using that job_row_unique [OF d assms(2)] by (auto simp: get_job_def select1_None)
  have after: "filter (\<lambda>e. ev_job_id e = k \<and> cursor < ev_sequence e) (st_events db) = drop cursor ?es"
  proof -
    have "filter (\<lambda>e. ev_job_id e = k \<and> cursor < ev_sequence e) (st_events db) =
        filter (\<lambda>e. cursor < ev_sequence e) ?es"
      by (simp add: job_events_def conj_commute)
    also have "\<dots> = filter (\<lambda>e. cursor < ev_sequence e) (take cursor ?es) @
        filter (\<lambda>e. cursor < ev_sequence e) (drop cursor ?es)"
      by (metis append_take_drop_id filter_append)
    also have "filter (\<lambda>e. cursor < ev_sequence e) (take cursor ?es) = []"
      using nth assms(4,5) by (auto simp: filter_empty_conv in_set_conv_nth)
    also have "filter (\<lambda>e. cursor < ev_sequence e) (drop cursor ?es) = drop cursor ?es"
      using nth assms(5) by (auto simp: filter_id_conv in_set_conv_nth)
    finally show ?thesis by simp
  qed
  have "sorted (map ev_sequence (drop cursor ?es))"
    unfolding drop_map [symmetric] seq by (simp del: upt_Suc)
  then have sorted: "sort_key ev_sequence (drop cursor ?es) = drop cursor ?es"
    by (rule sort_key_id_if_sorted)
  let ?page = "take limit (drop cursor ?es)"
  have vals: "?page = map (\<lambda>i. ?es ! i) [cursor..<min (cursor + limit) n]"
    using assms(4,5) by (intro nth_equalityI) auto
  have "last ?page = ?es ! (cursor + limit - 1)" if "cursor + limit < n"
    using that assms(3,5) by (simp add: last_conv_nth)
  then have cur: "ev_sequence (last ?page) = cursor + limit" if "cursor + limit < n"
    using that nth [of "cursor + limit - 1"] assms(3) by simp
  have "limit < length (take (limit + 1) (drop cursor ?es)) \<longleftrightarrow> cursor + limit < n"
    using assms(4,5) by auto
  moreover have "take limit (take (limit + 1) (drop cursor ?es)) = ?page" by simp
  moreover have "?page \<noteq> []" if "cursor + limit < n" using that assms(3,5) by simp
  ultimately show ?thesis
    using other cur by (auto simp: list_events_def mine after sorted Let_def vals)
qed

lemma event_pages_contiguous_witness:
  "\<exists>e. list_events ''o'' ''j1'' 0 5 (sample_store []) = ([e], None) \<and> ev_sequence e = 1"
proof -
  have e: "job_events ''j1'' (st_events (sample_store [])) = [sample_event 1 Queued]"
    by (simp add: job_events_def sample_store_def sample_event_def)
  have "list_events (jb_owner_subject (sample_job\<lparr>jb_state := last [Queued], jb_state_version := length []\<rparr>))
      ''j1'' 0 5 (sample_store []) = ([sample_event 1 Queued], None)"
    using event_pages_contiguous [OF sample_stores_ok(1) sample_row, of 5 0 1 "''o''"] by (simp add: e)
  then show ?thesis by (simp add: sample_job_defs sample_event_def)
qed

section \<open>Sessions and snapshots\<close>

lemma active_sessions_unique:
  "store_ok db \<Longrightarrow> r \<in> set (st_sessions db) \<Longrightarrow> r' \<in> set (st_sessions db) \<Longrightarrow> session_active r \<Longrightarrow>
   session_active r' \<Longrightarrow> ss_device_id r = ss_device_id r' \<Longrightarrow> ss_session_id r = ss_session_id r'"
  unfolding store_ok_def sessions_ok_def by blast

text \<open>One live session per device: after a session is activated it is the only live session of its
  device and carries the capabilities of the handshake, in this and every store; a heartbeat of any
  other session of the device is refused without touching anything, and a job result sent through
  another session is refused.\<close>

theorem activation_replaces_session:
  assumes "store_ok db" and "activate_session L now a db = Inr (ad, db')" and "s \<noteq> av_session_id a"
  shows "map_option ss_session_id (get_active_session (av_device_id a) db') = Some (av_session_id a) \<and>
    map_option ss_agent (get_active_session (av_device_id a) db') = Some (ad_agent ad) \<and>
    (0 \<le> sh_sequence h \<longrightarrow> heartbeat_session now' s (av_device_id a) h db' = Inr (False, db')) \<and>
    (jo_device_id ou = av_device_id a \<and> jo_session_id ou = Some s \<longrightarrow>
       outcome_identity ou row db' \<noteq> Inr ())"
proof -
  have ok': "store_ok db'" using store_step_ok [OF step_activate [OF assms(2)] assms(1)] .
  obtain cols where c: "ad_agent ad = cols" "st_sessions db' = open_session now a cols
      (update_where (replaced_by a) (\<lambda>r. r\<lparr>ss_disconnected_at := Some now\<rparr>) (st_sessions db))"
    "\<forall>s. session_row_of (av_session_id a) db = Some s \<longrightarrow> ss_device_id s = av_device_id a"
    using activate_cases [OF assms(2)] by blast
  have d: "distinct (map ss_session_id (st_sessions db))" "distinct (map ss_session_id (st_sessions db'))"
    using assms(1) ok' by (simp_all add: store_ok_def sessions_ok_def)
  have dev: "ss_device_id x = av_device_id a"
    if "x \<in> set (st_sessions db)" "ss_session_id x = av_session_id a" for x
    using c(3) select1_key [OF d(1) that] by (simp add: session_row_of_def)
  note opened = opened_sessions [OF d(1) dev c(2)]
  then obtain x where x: "x \<in> set (st_sessions db')" "ss_session_id x = av_session_id a"
    "ss_device_id x = av_device_id a" "session_active x" "ss_agent x = cols" by blast
  have only: "y = x" if "y \<in> set (st_sessions db')" "ss_device_id y = av_device_id a" "session_active y" for y
    using opened that x key_unique [OF d(2) that(1) x(1)] by auto
  have "select1 (\<lambda>r. ss_device_id r = av_device_id a \<and> session_active r) (st_sessions db') \<noteq> None"
    using x by (auto simp: select1_None)
  then obtain y where y: "get_active_session (av_device_id a) db' = Some y"
    by (auto simp: get_active_session_def)
  have "y = x" using select1_Some [OF y [unfolded get_active_session_def]] only by blast
  have none: "\<not> active_session_of s (av_device_id a) r" if "r \<in> set (st_sessions db')" for r
    using only [OF that] x(2) assms(3) by (auto simp: active_session_of_def)
  then have "count_where (active_session_of s (av_device_id a)) (st_sessions db') = 0"
    by (simp add: count_where_def filter_empty_conv)
  moreover have "update_where (active_session_of s (av_device_id a)) f (st_sessions db') = st_sessions db'" for f
    using none by (rule update_where_id)
  ultimately have "0 \<le> sh_sequence h \<longrightarrow> heartbeat_session now' s (av_device_id a) h db' = Inr (False, db')"
    by (simp add: heartbeat_session_def Let_def)
  moreover have "outcome_identity ou row db' \<noteq> Inr ()"
    if "jo_device_id ou = av_device_id a" "jo_session_id ou = Some s"
    using that none by (auto simp: outcome_identity_def result_simps active_session_of_def)
  ultimately show ?thesis using y \<open>y = x\<close> x c(1) by simp
qed

definition sample_activation :: activation where
  "sample_activation = plain_activation ''d'' ''s2'' ''cad.agent/2'' []
     (projr (capability_list_hash sample_lib []))"

lemma sample_activates:
  "\<exists>ad db'. activate_session sample_lib ''t1'' sample_activation (sample_store []) = Inr (ad, db')"
proof -
  have c: "isl (activation_columns sample_lib sample_activation) = False" by code_simp
  then obtain cols where cols: "activation_columns sample_lib sample_activation = Inr cols"
    by (cases "activation_columns sample_lib sample_activation") auto
  have empty: "ac_capabilities cols = []" "ac_packages cols = []"
  proof -
    have "map_sum id ac_capabilities (activation_columns sample_lib sample_activation) = Inr []"
      "map_sum id ac_packages (activation_columns sample_lib sample_activation) = Inr []"
      by code_simp+
    then show "ac_capabilities cols = []" "ac_packages cols = []" by (simp_all add: cols)
  qed
  have "device_row_of ''d'' (sample_store []) = Some sample_device"
    "session_row_of ''s2'' (sample_store []) = None" "av_device_id sample_activation = ''d''"
    "av_session_id sample_activation = ''s2''" "av_capability_manifest sample_activation = None"
    by (simp_all add: device_row_of_def session_row_of_def sample_store_def sample_device_def
        sample_session_def sample_activation_def plain_activation_def)
  then show ?thesis
    by (simp add: activate_session_def cols Let_def json_column_def empty)
qed

lemma activation_replaces_session_witness:
  "\<exists>ad db'. activate_session sample_lib ''t1'' sample_activation (sample_store []) = Inr (ad, db') \<and>
     map_option ss_session_id (get_active_session ''d'' db') = Some ''s2''"
proof -
  obtain ad db' where a: "activate_session sample_lib ''t1'' sample_activation (sample_store []) =
      Inr (ad, db')" using sample_activates by blast
  have i: "av_device_id sample_activation = ''d''" "av_session_id sample_activation = ''s2''"
    by (simp_all add: sample_activation_def plain_activation_def)
  have "''s1'' \<noteq> av_session_id sample_activation" by (simp add: i)
  from activation_replaces_session [OF sample_stores_ok(1) a this] a show ?thesis by (simp add: i)
qed

text \<open>Observations and their snapshots are stored together: in every store reachable from the empty
  one, a succeeded \<open>observe\<close> job has a snapshot, every snapshot belongs to a succeeded job of the same
  owner and device, and no job has two.\<close>

theorem observation_has_snapshot:
  assumes "steps store_step (empty_store other) db"
  shows "distinct (map sn_job_id (st_snapshots db)) \<and>
    (\<forall>r \<in> set (st_jobs db). jb_kind r = ''observe'' \<and> jb_state r = Succeeded \<longrightarrow>
       (\<exists>sn \<in> set (st_snapshots db). sn_job_id sn = jb_job_id r)) \<and>
    (\<forall>sn \<in> set (st_snapshots db). \<exists>r. job_row_of (sn_job_id sn) db = Some r \<and>
       jb_state r = Succeeded \<and> sn_owner_subject sn = jb_owner_subject r \<and>
       sn_device_id sn = jb_device_id r)"
proof -
  have "snapshots_ok db"
    using store.steps_inv [OF assms empty_store_ok] by (simp add: store_ok_def)
  then show ?thesis unfolding snapshots_ok_def by (fastforce simp: image_iff)
qed

lemma observation_has_snapshot_witness:
  "distinct (map sn_job_id (st_snapshots (mark_sessions_disconnected ''t'' (empty_store ()))))"
  by (rule observation_has_snapshot [OF steps_single [where step = store_step, OF step_disconnect],
        THEN conjunct1])

end
