(* ===== verification/ProgramProperties.thy ===== *)
theory ProgramProperties
  imports ProgramLog StoreProperties
begin

text \<open>
  The properties of the program tables over arbitrary runs of the combined store: the invariant, one
  receipt per preview and per commit, the write lock of a document, and a key that two actions share.
\<close>

section \<open>The invariant\<close>

text \<open>Whether a commit that is succeeded now was so before.\<close>

definition commits_from :: "'x store_db \<Rightarrow> 'x store_db \<Rightarrow> string set \<Rightarrow> bool" where
  "commits_from db db' new \<longleftrightarrow>
     (\<forall>k r. job_row_of k db' = Some r \<and> jb_kind r = ''program_commit'' \<and> jb_state r = Succeeded \<and>
        \<not> uses_wire_hash (jb_payload r) \<longrightarrow>
        (\<exists>r0. job_row_of k db = Some r0 \<and> jb_state r0 = Succeeded) \<or> k \<in> new)"

definition step_effect :: "'y program_db \<Rightarrow> 'y program_db \<Rightarrow> bool" where
  "step_effect db db' \<longleftrightarrow> job_delta db db' \<and> store_ok db' \<and>
     (pt_receipts (st_other db') = pt_receipts (st_other db) \<and> commits_from db db' {} \<or>
      (\<exists>rt. commits db db' rt \<and> commits_from db db' {rt_job_id rt})) \<and>
     (\<exists>new. takes_lock db db' new)"

lemma quiet_effect:
  assumes "quiet db db'" "store_ok db" "pt_receipts (st_other db') = pt_receipts (st_other db)"
    and "frees_locks db db'"
  shows "step_effect db db'"
  using assms quiet_delta [OF assms(1)] quiet_store_ok [OF assms(1,2)]
  by (auto simp: step_effect_def commits_from_def quiet_row frees_locks_takes)

lemma action_effect:
  assumes "create_action_job L P now nj nc q db = Inr (x, db')" "store_ok db" "locks_ok db"
  shows "step_effect db db'"
proof -
  obtain y dup where x: "x = (y, dup)" by fastforce
  have j: "jobs_ok db" using assms(2) by (simp add: store_ok_def)
  note e = action_effects [OF assms(1) [unfolded x] j]
  have ok: "store_ok db'" using e delta_store_ok assms(2) by blast
  show ?thesis
  proof (cases dup)
    case True
    then show ?thesis using e quiet_effect [of db db'] assms(2) same_locks_frees [of db' db] by simp
  next
    case False
    then obtain r p where r: "job_row_of nj db = None" "job_row_of nj db' = Some r" "jb_state r = Queued"
      "\<forall>j. j \<noteq> nj \<longrightarrow> job_row_of j db' = job_row_of j db"
      "pt_locks (st_other db') = delete_where p (pt_locks (st_other db)) @
         (if aq_acquire_write_lock q then [new_lock q nj now] else [])"
      "\<forall>l \<in> set (pt_locks (st_other db)). p l \<longrightarrow> job_finished (lk_job_id l) db"
      "aq_acquire_write_lock q \<longrightarrow> (\<forall>l \<in> set (delete_where p (pt_locks (st_other db))).
         lock_document l \<noteq> (aq_device_id q, aq_document_id q) \<and> lk_job_id l \<noteq> nj)"
      using e by auto
    have fin: "job_finished (lk_job_id l) db'" if "l \<in> set (pt_locks (st_other db))" "p l" for l
    proof -
      have "job_finished (lk_job_id l) db" using that r(6) by blast
      then obtain x where x: "job_row_of (lk_job_id l) db = Some x" "is_terminal (jb_state x)"
        by (auto simp: job_finished_def)
      then have "lk_job_id l \<noteq> nj" using r(1) by auto
      then show ?thesis using x r(4) by (simp add: job_finished_def)
    qed
    have "takes_lock db db' (if aq_acquire_write_lock q then [new_lock q nj now] else [])"
      unfolding takes_lock_def
      by (rule exI [of _ p]) (use r fin in \<open>auto simp: new_lock_def\<close>)
    moreover have "commits_from db db' {}"
      unfolding commits_from_def using r(2-4) by (metis option.inject job_state.distinct(13))
    ultimately show ?thesis using e ok by (auto simp: step_effect_def)
  qed
qed

lemma finalize_effect:
  assumes "finalize_program_job L P now inst hook ou db = Inr (z, db')" "store_ok db"
    and "is_terminal (po_target ou)"
    and "\<And>r. job_row_of (po_job_id ou) db = Some r \<Longrightarrow> jb_kind r \<in> set PROGRAM_KINDS"
    and "\<And>h r t u. hook = Some h \<Longrightarrow> h r t = Inr u \<Longrightarrow> u = t\<lparr>pt_more := pt_more u\<rparr>"
  shows "step_effect db db'"
proof (cases "job_row_of (po_job_id ou) db")
  case None
  then have "db' = db" using assms(1) by (simp add: finalize_program_job_def)
  then show ?thesis
    using quiet_effect [of db db'] assms(2) same_locks_frees [of db' db] by (simp add: quiet_def same_presence_def)
next
  case (Some row)
  have id: "jb_job_id row = po_job_id ou" using job_row_of_Some [OF Some] by simp
  have jb: "jobs_ok db" using assms(2) by (simp add: store_ok_def)
  have kind: "jb_kind row \<noteq> ''observe''" using assms(4) [OF Some] by (auto simp: PROGRAM_KINDS_def)
  have hk: "pt_receipts u = pt_receipts t \<and> pt_locks u = pt_locks t"
    if "run_hook hook row (base\<lparr>st_other := t\<rparr>) = Inr (base\<lparr>st_other := u\<rparr>)" for base t u
  proof (cases hook)
    case None
    then show ?thesis using that by (simp add: run_hook_def) (metis store_db.select_convs(6) store_db.update_convs(6) store_db.surjective)
  next
    case (Some h)
    then have "h row t = Inr u"
      using that by (auto simp: run_hook_def bindE_Inr) (metis store_db.select_convs(6) store_db.update_convs(6) store_db.surjective)
    then show ?thesis using assms(5) [OF Some] by (metis program_tables.select_convs(4,7) program_tables.update_convs(8) program_tables.surjective)
  qed
  note c = finalize_program_cases [OF assms(1) jb Some kind assms(3)]
  have ok: "store_ok db'" using c delta_store_ok assms(2) by blast
  obtain r dup where r: "job_row_of (po_job_id ou) db' = Some r" "is_terminal (jb_state r)"
    "if dup then is_terminal (jb_state row) \<and> same_program_outcome ou row \<and> r = row \<and>
         (\<exists>h. run_hook hook row db = Inr h \<and> db' = h)
       else \<not> is_terminal (jb_state row) \<and> jb_state r = po_target ou \<and> keeps_job row r \<and>
         (\<exists>t. (if po_target ou = Succeeded
               then materialize_success L P now inst row (po_result ou) (st_other db)
               else Inr (st_other db)) = Inr t \<and>
           (\<exists>t'. run_hook hook row (db\<lparr>st_other := t\<rparr>) = Inr (db\<lparr>st_other := t'\<rparr>) \<and>
             st_other db' = t'\<lparr>pt_locks := delete_where (\<lambda>l. lk_job_id l = po_job_id ou) (pt_locks t')\<rparr>))"
    and other: "\<forall>j. j \<noteq> po_job_id ou \<longrightarrow> job_row_of j db' = job_row_of j db"
    using c by blast
  show ?thesis
  proof (cases dup)
    case True
    then have h: "run_hook hook row db = Inr db'" using r(3) by simp
    obtain x where x: "db' = db\<lparr>st_other := x\<rparr>" using run_hook_Inr [OF h] by blast
    then have "pt_receipts x = pt_receipts (st_other db) \<and> pt_locks x = pt_locks (st_other db)"
      using hk [where base = db and t = "st_other db" and u = x] h by simp
    then show ?thesis
      using quiet_effect [of db db'] assms(2) same_locks_frees [of db' db] by (simp add: x)
  next
    case False
    then obtain t t' where t: "(if po_target ou = Succeeded
               then materialize_success L P now inst row (po_result ou) (st_other db)
               else Inr (st_other db)) = Inr t"
      "run_hook hook row (db\<lparr>st_other := t\<rparr>) = Inr (db\<lparr>st_other := t'\<rparr>)"
      "st_other db' = t'\<lparr>pt_locks := delete_where (\<lambda>l. lk_job_id l = po_job_id ou) (pt_locks t')\<rparr>"
      and kr: "jb_state r = po_target ou" "keeps_job row r"
      using r(3) by auto
    note h = hk [OF t(2)]
    have rid: "jb_kind r = jb_kind row" "jb_owner_subject r = jb_owner_subject row" "jb_payload r = jb_payload row"
      using kr(2) by (simp_all add: keeps_job_def job_identity_def)
    have locks: "pt_locks t = pt_locks (st_other db)"
      using t(1) materialize_success_Inr [of L P now inst row "po_result ou" "st_other db" t]
      by (auto split: if_splits)
    have "takes_lock db db' []"
      unfolding takes_lock_def
      by (rule exI [of _ "\<lambda>l. lk_job_id l = po_job_id ou"])
        (use r(1,2) in \<open>simp add: t(3) h locks job_finished_def\<close>)
    moreover have "pt_receipts (st_other db') = pt_receipts (st_other db) \<and> commits_from db db' {} \<or>
      (\<exists>rt. commits db db' rt \<and> commits_from db db' {rt_job_id rt})"
    proof (cases "po_target ou = Succeeded \<and> jb_kind row = ''program_commit'' \<and> \<not> uses_wire_hash (jb_payload row)")
      case True
      then obtain rt where "pt_receipts t = pt_receipts (st_other db) @ [rt]" "rt_job_id rt = po_job_id ou"
        "rt_owner_subject rt = jb_owner_subject row"
        "\<forall>x \<in> set (pt_receipts (st_other db)). rt_receipt_id x \<noteq> rt_receipt_id rt \<and>
          rt_preview_id x \<noteq> rt_preview_id rt \<and> rt_job_id x \<noteq> rt_job_id rt"
        using t(1) materialize_success_Inr [of L P now inst row "po_result ou" "st_other db" t] id by auto
      then have "commits db db' rt" "commits_from db db' {rt_job_id rt}"
        using r(1) other True rid kr by (auto simp: commits_def commits_from_def t(3) h)
      then show ?thesis by blast
    next
      case False
      then have "pt_receipts t = pt_receipts (st_other db)"
        using t(1) materialize_success_Inr [of L P now inst row "po_result ou" "st_other db" t]
        by (auto split: if_splits)
      moreover have "commits_from db db' {}"
        unfolding commits_from_def using other False r(1) rid kr by (metis option.inject)
      ultimately show ?thesis by (simp add: t(3) h)
    qed
    ultimately show ?thesis using c ok by (auto simp: step_effect_def)
  qed
qed

lemma program_step_effect:
  assumes "program_step db db'" "program_ok db"
  shows "step_effect db db'"
proof -
  have s: "store_ok db" "locks_ok db" using assms(2) by (simp_all add: program_ok_def)
  have jb: "jobs_ok db" using s(1) by (simp add: store_ok_def)
  from assms(1) show ?thesis
  proof cases
    case pstep_store
    have "commits_from db db' {}"
      using pstep_store(3) job_row_of_Some unfolding commits_from_def no_new_commit_def by blast
    then show ?thesis
      using pstep_store store_step_delta [OF pstep_store(1) jb] store_step_ok [OF pstep_store(1) s(1)]
      by (auto simp: step_effect_def keeps_tables_def frees_locks_takes)
  next
    case pstep_program
    then show ?thesis using create_program_cases [OF pstep_program] quiet_effect same_locks_frees s(1) by blast
  next
    case pstep_action
    then show ?thesis using action_effect s by blast
  next
    case pstep_finalize
    then show ?thesis using finalize_effect [OF pstep_finalize(1) s(1)] by blast
  next
    case (pstep_release k)
    have "frees_locks db db'"
      unfolding frees_locks_def pstep_release(1)
      by (rule exI [of _ "\<lambda>l. lk_job_id l = k"])
        (use pstep_release(2) in \<open>simp add: release_write_lock_def job_finished_def\<close>)
    then show ?thesis using quiet_effect [of db db'] s(1) by (simp add: pstep_release(1) release_write_lock_def)
  next
    case pstep_invalidate
    then show ?thesis
      using quiet_effect [of db db'] s(1) same_locks_frees [of db' db] by (simp add: invalidate_preview_def)
  next
    case pstep_other
    then show ?thesis using quiet_effect [of db db'] s(1) same_locks_frees [of db' db] by simp
  qed
qed

lemma effect_rows:
  assumes "step_effect db db'" "store_ok db" "job_row_of j db = Some r"
  shows "\<exists>r'. job_row_of j db' = Some r' \<and> keeps_job r r' \<and>
    (jb_state r' = jb_state r \<or> job_step (jb_effect_class r) (jb_state r) (jb_state r'))"
  using assms job_delta_row [of db db' j r] by (simp add: step_effect_def store_ok_def)

lemma effect_locks_ok:
  assumes "step_effect db db'" "store_ok db" "locks_ok db"
  shows "locks_ok db'"
proof -
  obtain new p where l: "pt_locks (st_other db') = delete_where p (pt_locks (st_other db)) @ new"
    "\<forall>n \<in> set new. job_row_of (lk_job_id n) db' \<noteq> None \<and>
       (\<forall>l \<in> set (delete_where p (pt_locks (st_other db))).
          lock_document l \<noteq> lock_document n \<and> lk_job_id l \<noteq> lk_job_id n)" "length new \<le> 1"
    using assms(1) unfolding step_effect_def takes_lock_def by blast
  have old: "job_row_of (lk_job_id l) db' \<noteq> None" if "l \<in> set (pt_locks (st_other db))" for l
  proof -
    have "job_row_of (lk_job_id l) db \<noteq> None" using that assms(3) by (simp add: locks_ok_def)
    then show ?thesis using effect_rows [OF assms(1,2)] by fastforce
  qed
  have d: "distinct (map g (delete_where p (pt_locks (st_other db))))"
    if "distinct (map g (pt_locks (st_other db)))" for g :: "lock_row \<Rightarrow> 'b"
    using that by (simp add: delete_where_def distinct_map_filter)
  have new1: "distinct (map g new)" for g :: "lock_row \<Rightarrow> 'b"
    using l(3) by (cases new) auto
  have d1: "distinct (map lock_document (pt_locks (st_other db')))"
    using d [of lock_document] new1 [of lock_document] l(1,2) assms(3) by (auto simp: locks_ok_def)
  have d2: "distinct (map lk_job_id (pt_locks (st_other db')))"
    using d [of lk_job_id] new1 [of lk_job_id] l(1,2) assms(3) by (auto simp: locks_ok_def)
  show ?thesis using d1 d2 l(1,2) old by (auto simp: locks_ok_def delete_where_def)
qed

lemma effect_receipts_ok:
  assumes "step_effect db db'" "store_ok db" "receipts_ok db"
  shows "receipts_ok db'"
proof -
  have jb: "jobs_ok db'" using assms(1) by (simp add: step_effect_def store_ok_def)
  have old: "\<exists>r. job_row_of (rt_job_id rt) db' = Some r \<and> jb_state r = Succeeded \<and>
      jb_kind r = ''program_commit'' \<and> jb_owner_subject r = rt_owner_subject rt"
    if mem: "rt \<in> set (pt_receipts (st_other db))" for rt
  proof -
    obtain r where r: "job_row_of (rt_job_id rt) db = Some r" "jb_state r = Succeeded"
      "jb_kind r = ''program_commit''" "jb_owner_subject r = rt_owner_subject rt"
      using mem assms(3) by (auto simp: receipts_ok_def)
    obtain r' where "job_row_of (rt_job_id rt) db' = Some r'" "keeps_job r r'"
      using effect_rows [OF assms(1,2) r(1)] by blast
    then show ?thesis using r finished_row(2) [of r r'] by (auto simp: keeps_job_def job_identity_def)
  qed
  have commit: "jb_job_id r \<in> rt_job_id ` set (pt_receipts (st_other db')) \<or> jb_job_id r \<in> new"
    if cm: "r \<in> set (st_jobs db')" "jb_kind r = ''program_commit''" "jb_state r = Succeeded"
      "\<not> uses_wire_hash (jb_payload r)" "commits_from db db' new"
      "set (pt_receipts (st_other db)) \<subseteq> set (pt_receipts (st_other db'))" for r new
  proof -
    have row: "job_row_of (jb_job_id r) db' = Some r" using job_row_of_mem jb cm(1) by (auto simp: jobs_ok_def)
    consider "jb_job_id r \<in> new" | r0 where "job_row_of (jb_job_id r) db = Some r0" "jb_state r0 = Succeeded"
      using cm row unfolding commits_from_def by blast
    then show ?thesis
    proof cases
      case 2
      then have "keeps_job r0 r" using effect_rows [OF assms(1,2) 2(1)] row by auto
      then have "jb_kind r0 = ''program_commit''" "\<not> uses_wire_hash (jb_payload r0)" "r0 \<in> set (st_jobs db)"
        "jb_job_id r0 = jb_job_id r"
        using cm job_row_of_Some [OF 2(1)] by (simp_all add: keeps_job_def job_identity_def)
      then have "jb_job_id r \<in> rt_job_id ` set (pt_receipts (st_other db))"
        using 2(2) assms(3) unfolding receipts_ok_def by metis
      then show ?thesis using cm(6) by blast
    qed simp
  qed
  from assms(1) consider (same) "pt_receipts (st_other db') = pt_receipts (st_other db)" "commits_from db db' {}"
    | (new) rt where "commits db db' rt" "commits_from db db' {rt_job_id rt}"
    unfolding step_effect_def by blast
  then show ?thesis
  proof cases
    case same
    then have c: "jb_job_id r \<in> rt_job_id ` set (pt_receipts (st_other db'))"
      if "r \<in> set (st_jobs db')" "jb_kind r = ''program_commit''" "jb_state r = Succeeded"
        "\<not> uses_wire_hash (jb_payload r)" for r
      using commit [OF that same(2)] by simp
    show ?thesis unfolding receipts_ok_def
      by (intro conjI ballI impI)
        (use assms(3) same(1) old c in \<open>auto simp only: receipts_ok_def\<close>)
  next
    case (new rt)
    then have app: "pt_receipts (st_other db') = pt_receipts (st_other db) @ [rt]"
      by (simp add: commits_def)
    have c: "jb_job_id r \<in> rt_job_id ` set (pt_receipts (st_other db'))"
      if "r \<in> set (st_jobs db')" "jb_kind r = ''program_commit''" "jb_state r = Succeeded"
        "\<not> uses_wire_hash (jb_payload r)" for r
      using commit [OF that new(2)] app by auto
    have f: "rt_receipt_id x \<noteq> rt_receipt_id rt \<and> rt_preview_id x \<noteq> rt_preview_id rt \<and> rt_job_id x \<noteq> rt_job_id rt"
      if "x \<in> set (pt_receipts (st_other db))" for x using new(1) that by (simp add: commits_def)
    have d: "distinct (map rt_receipt_id (pt_receipts (st_other db')))"
      "distinct (map rt_preview_id (pt_receipts (st_other db')))"
      "distinct (map rt_job_id (pt_receipts (st_other db')))"
    proof -
      have "rt_receipt_id rt \<notin> rt_receipt_id ` set (pt_receipts (st_other db))"
        "rt_preview_id rt \<notin> rt_preview_id ` set (pt_receipts (st_other db))"
        "rt_job_id rt \<notin> rt_job_id ` set (pt_receipts (st_other db))"
        using f by (metis imageE)+
      then show "distinct (map rt_receipt_id (pt_receipts (st_other db')))"
        "distinct (map rt_preview_id (pt_receipts (st_other db')))"
        "distinct (map rt_job_id (pt_receipts (st_other db')))"
        using assms(3) unfolding app by (simp_all add: receipts_ok_def)
    qed
    have n: "\<exists>r. job_row_of (rt_job_id x) db' = Some r \<and> jb_state r = Succeeded \<and>
      jb_kind r = ''program_commit'' \<and> jb_owner_subject r = rt_owner_subject x"
      if "x \<in> set (pt_receipts (st_other db'))" for x
      using that old new(1) unfolding app by (auto simp: commits_def)
    show ?thesis using d n c by (auto simp only: receipts_ok_def)
  qed
qed

lemma program_step_ok: "program_step db db' \<Longrightarrow> program_ok db \<Longrightarrow> program_ok db'"
  using program_step_effect [of db db'] effect_locks_ok [of db db'] effect_receipts_ok [of db db']
  by (simp add: program_ok_def step_effect_def)

section \<open>The contracts of the combined store\<close>

interpretation programs: durable_system program_step program_ok "\<lambda>db k. job_row_of k db"
  finished_job job_content
proof unfold_locales
  fix db db' :: "'y program_db" and k r
  assume s: "program_step db db'" "program_ok db" "job_row_of k db = Some r" "finished_job r"
  have "store_ok db" using s(2) by (simp add: program_ok_def)
  from effect_rows [OF program_step_effect [OF s(1,2)] this s(3)] s(4)
  show "\<exists>r'. job_row_of k db' = Some r' \<and> finished_job r' \<and> job_content r' = job_content r"
    using finished_row by (fastforce simp: finished_job_def)
qed (rule program_step_ok)

text \<open>Receipts are only added.\<close>

definition receipt_for :: "string \<Rightarrow> 'y program_db \<Rightarrow> receipt_row option" where
  "receipt_for preview_id db = select1 (\<lambda>r. rt_preview_id r = preview_id) (pt_receipts (st_other db))"

interpretation receipts: durable_system program_step program_ok "\<lambda>db p. receipt_for p db"
  "\<lambda>_. True" "\<lambda>r. r"
proof unfold_locales
  fix db db' :: "'y program_db" and p r
  assume s: "program_step db db'" "program_ok db" "receipt_for p db = Some r"
  from program_step_effect [OF s(1,2)]
  have "\<exists>new. pt_receipts (st_other db') = pt_receipts (st_other db) @ new"
    unfolding step_effect_def commits_def by auto
  then show "\<exists>r'. receipt_for p db' = Some r' \<and> True \<and> r' = r"
    using s(3) by (auto simp: receipt_for_def select1_append)
qed

lemma program_job_steps:
  assumes "steps program_step db db'" "program_ok db" "job_row_of k db = Some r"
  shows "\<exists>r'. job_row_of k db' = Some r' \<and> keeps_job r r' \<and>
    job_path (jb_effect_class r) (jb_state r) (jb_state r')"
  using assms
proof (induction rule: steps.induct)
  case (steps_refl s)
  then show ?case by (auto simp: keeps_job_def intro: path_refl)
next
  case (steps_snoc s t u)
  then obtain r' where r': "job_row_of k t = Some r'" "keeps_job r r'"
    "job_path (jb_effect_class r) (jb_state r) (jb_state r')" by blast
  have t: "program_ok t" using steps_snoc(1,4) by (rule programs.steps_inv)
  then have "store_ok t" by (simp add: program_ok_def)
  from effect_rows [OF program_step_effect [OF steps_snoc(2) t] this r'(1)] obtain r'' where
    "job_row_of k u = Some r''" "keeps_job r' r''"
    "jb_state r'' = jb_state r' \<or> job_step (jb_effect_class r') (jb_state r') (jb_state r'')"
    by blast
  then show ?case
    using r' keeps_job_trans keeps_job_keys(4) [OF r'(2)] by (auto intro: path_step)
qed

text \<open>A lock stays as long as its job is not finished.\<close>

lemma job_finished_steps:
  "steps program_step db db' \<Longrightarrow> program_ok db \<Longrightarrow> job_finished k db \<Longrightarrow> job_finished k db'"
  using programs.steps_final [of db db' k] by (fastforce simp: job_finished_def finished_job_def)

lemma lock_kept:
  assumes "steps program_step db db'" "program_ok db" "l \<in> set (pt_locks (st_other db))"
    and "\<not> job_finished (lk_job_id l) db'"
  shows "l \<in> set (pt_locks (st_other db'))"
  using assms
proof (induction rule: steps.induct)
  case (steps_snoc s t u)
  have t: "program_ok t" using steps_snoc(1,4) by (rule programs.steps_inv)
  have "\<not> job_finished (lk_job_id l) t"
    using job_finished_steps [OF steps_single [where step = program_step, OF steps_snoc(2)] t] steps_snoc(6) by blast
  then have "l \<in> set (pt_locks (st_other t))" using steps_snoc by blast
  then show ?case
    using program_step_effect [OF steps_snoc(2) t] steps_snoc(6)
    unfolding step_effect_def takes_lock_def delete_where_def by auto
qed simp

section \<open>Properties\<close>


text \<open>C10. A document has at most one live writer: after a job was created with the write lock of a
  document, and as long as that job is not finished, no run of the store lets another job be created
  with the lock of that document.\<close>

theorem document_write_exclusive:
  assumes "program_ok db" and "create_action_job L P now nj nc q db = Inr ((ActionJob r, False), db1)"
    and "aq_acquire_write_lock q" and "steps program_step db1 db2"
    and "\<not> job_finished (jb_job_id r) db2" and "aq_acquire_write_lock q'"
    and "aq_device_id q' = aq_device_id q" and "aq_document_id q' = aq_document_id q"
  shows "create_action_job L' P' now' nj' nc' q' db2 \<noteq> Inr ((y, False), db3)"
proof
  assume c: "create_action_job L' P' now' nj' nc' q' db2 = Inr ((y, False), db3)"
  have ok1: "program_ok db1" using program_step_ok [OF pstep_action [OF assms(2)] assms(1)] .
  have ok2: "program_ok db2" using assms(4) ok1 by (rule programs.steps_inv)
  have jb: "jobs_ok db" "jobs_ok db2" using assms(1) ok2 by (simp_all add: program_ok_def store_ok_def)
  have n: "job_row_of nj db1 = Some r" "new_lock q nj now \<in> set (pt_locks (st_other db1))"
    using action_effects [OF assms(2) jb(1)] assms(3) by auto
  have id: "jb_job_id r = nj" using job_row_of_Some [OF n(1)] by simp
  have "new_lock q nj now \<in> set (pt_locks (st_other db2))"
    using lock_kept [OF assms(4) ok1 n(2)] assms(5) by (simp add: new_lock_def id)
  then obtain l where l: "l \<in> set (pt_locks (st_other db2))" "lk_job_id l = nj"
    "lock_document l = (aq_device_id q, aq_document_id q)"
    by (auto simp: new_lock_def)
  then show False
    using action_effects [OF c jb(2)] assms(5-8) id by (auto simp: delete_where_def)
qed

definition empty_tables :: "'y \<Rightarrow> 'y program_tables" where
  "empty_tables rest = \<lparr>pt_programs = [], pt_revisions = [], pt_previews = [], pt_receipts = [],
     pt_validations = [], pt_idempotency = [], pt_locks = [], pt_more = rest\<rparr>"

lemma empty_program_ok: "program_ok (empty_store (empty_tables rest))"
  using empty_store_ok [of "empty_tables rest"]
  by (simp add: program_ok_def receipts_ok_def locks_ok_def empty_store_def empty_tables_def)



section \<open>Samples\<close>

text \<open>A store with program tables that share the jobs, events and devices of another store.\<close>

definition with_tables :: "'a store_db \<Rightarrow> 'y program_tables \<Rightarrow> 'y program_db" where
  "with_tables db t = \<lparr>st_devices = st_devices db, st_sessions = st_sessions db, st_jobs = st_jobs db,
     st_events = st_events db, st_snapshots = st_snapshots db, st_other = t\<rparr>"

lemma with_tables_simps [simp]:
  "st_jobs (with_tables db t) = st_jobs db" "st_events (with_tables db t) = st_events db"
  "st_snapshots (with_tables db t) = st_snapshots db" "st_devices (with_tables db t) = st_devices db"
  "st_sessions (with_tables db t) = st_sessions db" "st_other (with_tables db t) = t"
  "job_row_of k (with_tables db t) = job_row_of k db"
  by (simp_all add: with_tables_def job_row_of_def)

lemma with_tables_ok: "store_ok (with_tables db t) \<longleftrightarrow> store_ok db"
  unfolding store_ok_def jobs_ok_def sessions_ok_def snapshots_ok_def by simp

definition sample_program_lib :: "unit program_lib" where
  "sample_program_lib = \<lparr>pl_wire_hash = (\<lambda>k e p. Inr ''h''), pl_preview_digest = (\<lambda>p. Inr ''d''),
     pl_instant = (\<lambda>s. None), pl_checkpoint = (\<lambda>j e c t. Inr t)\<rparr>"

definition sample_receipt :: receipt_row where
  "sample_receipt =
    \<lparr>rt_receipt_id = ''r1'', rt_owner_subject = ''o'', rt_program_id = ''p'', rt_program_revision = 1,
     rt_preview_id = ''v1'', rt_job_id = ''j1'', rt_program_digest = ''pd'', rt_execution_digest = ''ed'',
     rt_receipt_digest = ''rd'', rt_preview_execution_digest = ''vd'', rt_binding_digest = ''bd'',
     rt_document_id = ''doc'', rt_document_revision_before = ''1'', rt_document_revision_after = ''2'',
     rt_pins = [], rt_effect_summary = JObj [], rt_durable_receipt = JObj [], rt_created_at = ''t0''\<rparr>"

text \<open>The store after the sample job succeeded as a commit, and the store before any job.\<close>

definition committed_store :: "unit program_db" where
  "committed_store = with_tables (sample_store [Dispatched, Acknowledged, Succeeded])
     (empty_tables ()\<lparr>pt_receipts := [sample_receipt]\<rparr>)"

definition fresh_store :: "unit program_db" where
  "fresh_store = with_tables (\<lparr>st_devices = [sample_device], st_sessions = [], st_jobs = [],
     st_events = [], st_snapshots = [], st_other = ()\<rparr>) (empty_tables ())"

definition sample_action :: "string \<Rightarrow> string \<Rightarrow> json \<Rightarrow> action_request" where
  "sample_action action key payload =
    \<lparr>aq_owner_subject = ''o'', aq_action = action, aq_device_id = ''d'', aq_document_id = ''doc'',
     aq_payload = payload, aq_idempotency_key = key, aq_deadline_at = ''t9'',
     aq_acquire_write_lock = True, aq_request_hash = None\<rparr>"

definition commit_payload :: json where
  "commit_payload = JObj [(''execution'', JObj [(''preview_id'', JStr ''v1''),
     (''program_digest'', JStr ''pd''), (''binding_digest'', JStr ''bd''),
     (''preview_execution_digest'', JStr ''vd'')])]"

lemma committed_store_ok: "program_ok committed_store"
proof -
  have "trail_to WriteEffect (map Some [Queued]) (last [Queued])" by (simp add: trail_start)
  then have 1: "trail_to WriteEffect (map Some [Queued, Dispatched]) (last [Queued, Dispatched])"
    using sample_trail [of "[]" Dispatched] write_steps(1) by simp
  then have 2: "trail_to WriteEffect (map Some [Queued, Dispatched, Acknowledged])
      (last [Queued, Dispatched, Acknowledged])"
    using sample_trail [of "[Dispatched]" Acknowledged] write_steps(2) by simp
  have "job_step WriteEffect Acknowledged Succeeded"
    by (simp add: job_step_iff transition_allowed_def)
  then have "store_ok (sample_store [Dispatched, Acknowledged, Succeeded])"
    using sample_trail [of "[Dispatched, Acknowledged]" Succeeded] 2
    by (intro sample_store_ok) simp
  then show ?thesis
    unfolding program_ok_def committed_store_def with_tables_ok
    by (auto simp: receipts_ok_def locks_ok_def empty_tables_def sample_receipt_def sample_row
        sample_job_defs sample_store_def job_row_of_def)
qed

lemma fresh_store_ok: "program_ok fresh_store"
  by (simp add: program_ok_def fresh_store_def with_tables_ok store_ok_def jobs_ok_def sessions_ok_def
      snapshots_ok_def numbered_def job_events_def receipts_ok_def locks_ok_def empty_tables_def)

lemma sample_fingerprint:
  "\<exists>fp. program_fingerprint sample_lib (''program_'' @ action) e ''h'' = Inr fp"
  if "action \<in> {''commit'', ''preview''}"
  using that
  by (cases e) (auto simp: program_fingerprint_def canonical_column_def canonical_json_def Let_def
      validate_bounded_json_def bound_defs guard_def sample_lib_def json_string_def escape_char_def)

lemma sample_commit:
  "\<exists>db'. create_action_job sample_lib sample_program_lib ''t'' ''j9'' ''c9''
     (sample_action ''commit'' ''k9'' commit_payload) committed_store =
   Inr ((PriorReceipt sample_receipt, True), db')"
proof -
  obtain fp where "program_fingerprint sample_lib (''program_'' @ ''commit'') WriteEffect ''h'' = Inr fp"
    using sample_fingerprint [of "''commit''"] by auto
  then show ?thesis
    by (simp add: create_action_job_def sample_action_def sample_program_lib_def action_kind_def
        action_effect_def guard_def idempotent_response_def empty_tables_def Let_def committed_store_def
        sample_store_def sample_device_def prior_receipt_def jsub_def jlookup_def commit_payload_def
        sample_receipt_def same_execution_def new_idempotency_def)
qed


lemma sample_preview:
  "\<exists>r db'. create_action_job sample_lib sample_program_lib ''t'' ''j1'' ''c1''
     (sample_action ''preview'' ''k1'' (JObj [])) fresh_store =
   Inr ((ActionJob r, False), db') \<and> jb_job_id r = ''j1'' \<and> \<not> job_finished ''j1'' db'"
proof -
  obtain fp where "program_fingerprint sample_lib (''program_'' @ ''preview'') WriteEffect ''h'' = Inr fp"
    using sample_fingerprint [of "''preview''"] by auto
  then show ?thesis
    by (simp add: create_action_job_def sample_action_def sample_program_lib_def action_kind_def
        action_effect_def guard_def idempotent_response_def empty_tables_def Let_def fresh_store_def
        sample_device_def prior_receipt_def clear_stale_lock_def document_lock_def
        insert_action_job_def canonical_column_def canonical_json_def validate_bounded_json_def bound_defs
        program_event_def insert_lock_def new_idempotency_def job_row_of_def queued_row_def
        action_job_request_def job_finished_def JSON_LIMIT_def)
qed

lemma document_write_exclusive_witness:
  "\<exists>r db'. create_action_job sample_lib sample_program_lib ''t'' ''j1'' ''c1''
     (sample_action ''preview'' ''k1'' (JObj [])) fresh_store = Inr ((ActionJob r, False), db') \<and>
   \<not> (\<exists>y db''. create_action_job sample_lib sample_program_lib ''t2'' ''j2'' ''c2''
     (sample_action ''preview'' ''k2'' (JObj [])) db' = Inr ((y, False), db''))"
proof -
  obtain r db' where c: "create_action_job sample_lib sample_program_lib ''t'' ''j1'' ''c1''
     (sample_action ''preview'' ''k1'' (JObj [])) fresh_store = Inr ((ActionJob r, False), db')"
    and f: "jb_job_id r = ''j1''" "\<not> job_finished ''j1'' db'"
    using sample_preview by blast
  show ?thesis
    using document_write_exclusive [OF fresh_store_ok c _ steps_refl, of "sample_action ''preview'' ''k2'' (JObj [])"] c f
    by (auto simp: sample_action_def)
qed

section \<open>A key shared by two actions\<close>

text \<open>Idempotency keys are stored per action, but the table of jobs has one key per owner and
  device: a preview or validation whose key an earlier job of the device used, for whatever action,
  is refused by the database with an integrity error, although the key is new for its action.\<close>

theorem shared_key_integrity_error:
  assumes "aq_action q \<in> {''preview'', ''validate''}"
    and "pl_wire_hash P (action_kind q) (action_effect q) (aq_payload q) = Inr ph"
    and "program_fingerprint L (action_kind q) (action_effect q) ph = Inr fp"
    and "select1 (\<lambda>r. (pi_owner_subject r, pi_action r, pi_idempotency_key r) =
          (aq_owner_subject q, aq_action q, aq_idempotency_key q)) (pt_idempotency (st_other db)) = None"
    and "select1 (\<lambda>r. dv_owner_subject r = aq_owner_subject q \<and> dv_device_id r = aq_device_id q)
          (st_devices db) \<noteq> None"
    and "document_lock (aq_device_id q) (aq_document_id q) (pt_locks (st_other db)) = None"
    and "canonical_column L JSON_LIMIT (aq_payload q) = Inr v"
    and "r \<in> set (st_jobs db)"
    and "request_key r = (aq_owner_subject q, aq_device_id q, aq_idempotency_key q)"
  shows "create_action_job L P now nj nc q db = Inl IntegrityError"
proof -
  have "select1 (\<lambda>r. jb_job_id r = nj \<or> jb_command_id r = nc \<or>
      request_key r = (aq_owner_subject q, aq_device_id q, aq_idempotency_key q)) (st_jobs db) \<noteq> None"
    using assms(8,9) unfolding select1_None by blast
  moreover have "prior_receipt L q db = Inr None" using assms(1) by (auto simp: prior_receipt_def)
  moreover have "clear_stale_lock (aq_device_id q) (aq_document_id q) db = Inr db"
    using assms(6) by (simp add: clear_stale_lock_def)
  ultimately show ?thesis
    using assms(1-5,7)
    by (auto simp: create_action_job_def guard_def idempotent_response_def Let_def insert_action_job_def)
qed

lemma shared_key_integrity_error_witness:
  "create_action_job sample_lib sample_program_lib ''t'' ''j9'' ''c9''
     (sample_action ''preview'' ''k'' (JObj [])) committed_store = Inl IntegrityError"
proof -
  obtain fp where fp: "program_fingerprint sample_lib (''program_'' @ ''preview'') WriteEffect ''h'' = Inr fp"
    using sample_fingerprint [of "''preview''"] by auto
  show ?thesis
    by (rule shared_key_integrity_error [where ph = "''h''" and fp = fp and v = "JObj []"
          and r = "sample_job\<lparr>jb_state := Succeeded, jb_state_version := 3\<rparr>"])
      (use fp in \<open>simp_all add: sample_action_def sample_program_lib_def action_kind_def action_effect_def
        committed_store_def empty_tables_def sample_store_def sample_device_def document_lock_def
        canonical_column_def canonical_json_def validate_bounded_json_def bound_defs guard_def
        JSON_LIMIT_def sample_job_defs request_key_def\<close>)
qed

end
