(* ===== verification/Observation.thy ===== *)
theory Observation
  imports Contracts
begin

text \<open>
  The Gateway's checks on what an Agent sends back for an observation, the C1 validators of
  \<open>application/job_service.py\<close>, with \<open>RuntimeEvidence\<close> of \<open>contracts/runtime.py\<close>.  A check returns
  a truth value or raises: \<open>x in {..}\<close> hashes \<open>x\<close>, which a list or dict refuses, and
  \<open>math.isfinite\<close> converts an integer to a double, which overflows.  \<open>and\<close>, \<open>or\<close>, \<open>any\<close> and \<open>all\<close>
  evaluate left to right and stop early, so the order of the checks is the source's.
\<close>

section \<open>Checks that may raise\<close>

datatype c1_exn = UnhashableType | IntTooLarge | MissingKey | NotAMapping

type_synonym c1_check = "c1_exn + bool"

definition andE :: "c1_check \<Rightarrow> c1_check \<Rightarrow> c1_check" where
  "andE a b = bindE a (\<lambda>x. if x then b else Inr False)"

fun all_checks :: "c1_check list \<Rightarrow> c1_check" where
  "all_checks [] = Inr True"
| "all_checks (r # rs) = andE r (all_checks rs)"

lemma andE_True [simp]: "andE a b = Inr True \<longleftrightarrow> a = Inr True \<and> b = Inr True"
  by (cases a) (auto simp: andE_def)

lemma all_checks_True: "all_checks rs = Inr True \<longleftrightarrow> (\<forall>r \<in> set rs. r = Inr True)"
  by (induction rs) auto

text \<open>\<open>v in {n1, .., nk}\<close> for a set of strings.\<close>

definition in_names :: "json \<Rightarrow> string list \<Rightarrow> c1_check" where
  "in_names v names = (if is_list v \<or> is_dict v then Inl UnhashableType
     else Inr (v \<in> set (map JStr names)))"

definition text_between :: "nat \<Rightarrow> nat \<Rightarrow> json \<Rightarrow> bool" where
  "text_between lo hi v \<longleftrightarrow> is_str v \<and> lo \<le> py_len (jstr v) \<and> py_len (jstr v) \<le> hi"

definition int_at_least :: "int \<Rightarrow> json \<Rightarrow> bool" where
  "int_at_least n v \<longleftrightarrow> is_int v \<and> \<not> is_bool v \<and> n \<le> jint v"

section \<open>Numbers, points and bounds\<close>

text \<open>The least positive integer whose conversion to a double overflows.\<close>

definition double_overflow :: int where
  "double_overflow = 2 ^ 1024 - 2 ^ 970"

lemma double_overflow_code [code]:
  "double_overflow =
    179769313486231580793728971405303415079934132710037826936173778980444968292764750946649017977587207096330286416692887910946555547851940402630657488671505820681908902000708383676273854845817711531764475730270069855571366959622842914819860834936475292719074168444365510704342711559699508093042880177904174497792"
  by (simp add: double_overflow_def)

fun valid_c1_number :: "json \<Rightarrow> c1_check" where
  "valid_c1_number (JInt i) = (if double_overflow \<le> \<bar>i\<bar> then Inl IntTooLarge else Inr True)"
| "valid_c1_number (JFloat f) = Inr (case f of FFin _ \<Rightarrow> True | _ \<Rightarrow> False)"
| "valid_c1_number _ = Inr False"

fun positive_number :: "json \<Rightarrow> bool" where
  "positive_number (JInt i) = (0 < i)"
| "positive_number (JFloat (FFin q)) = (0 < q)"
| "positive_number _ = False"

definition valid_c1_point :: "json \<Rightarrow> nat \<Rightarrow> c1_check" where
  "valid_c1_point v n =
    (if is_list v \<and> length (jelems v) = n then all_checks (map valid_c1_number (jelems v))
     else Inr False)"

definition valid_c1_bounds :: "json \<Rightarrow> c1_check" where
  "valid_c1_bounds v =
    (if v = JNull then Inr True
     else if is_dict v \<and> keys_are v [''min'', ''max'']
     then andE (valid_c1_point (jget v ''min'') 3) (valid_c1_point (jget v ''max'') 3)
     else Inr False)"

section \<open>Geometry\<close>

definition line_geometry :: "json \<Rightarrow> c1_check" where
  "line_geometry g =
    andE (if keys_are g [''start'', ''end''] then Inr True
          else if keys_are g [''start'', ''end'', ''start_elevation'', ''end_elevation'']
          then andE (valid_c1_number (jget g ''start_elevation''))
                    (valid_c1_number (jget g ''end_elevation''))
          else Inr False)
      (all_checks (map (\<lambda>k. valid_c1_point (jget g k) 2) [''start'', ''end'']))"

definition circle_keys :: "bool \<Rightarrow> string list" where
  "circle_keys arc = [''center'', ''radius''] @
     (if arc then [''start_angle_radians'', ''end_angle_radians''] else [])"

definition circle_geometry :: "bool \<Rightarrow> json \<Rightarrow> c1_check" where
  "circle_geometry arc g =
    (let keys = circle_keys arc;
         canonical = keys @ [''elevation'', ''normal'']
     in if \<not> (keys_are g canonical \<or> (\<not> arc \<and> keys_are g keys)) then Inr False
        else all_checks
          [valid_c1_point (jget g ''center'') 2, valid_c1_number (jget g ''radius''),
           Inr (positive_number (jget g ''radius'')),
           if keys_are g keys then Inr True
           else andE (valid_c1_number (jget g ''elevation'')) (valid_c1_point (jget g ''normal'') 3),
           if \<not> arc then Inr True
           else andE (valid_c1_number (jget g ''start_angle_radians''))
                     (valid_c1_number (jget g ''end_angle_radians''))])"

definition polyline_geometry :: "json \<Rightarrow> c1_check" where
  "polyline_geometry g =
    (let points = jget g ''points''; bulges = jget g ''bulges''
     in all_checks
       [if keys_are g [''points'', ''closed''] then Inr True
        else if keys_are g [''points'', ''bulges'', ''closed'', ''elevation'', ''normal'']
             \<and> is_list bulges \<and> is_list points \<and> length (jelems bulges) = length (jelems points)
        then all_checks
          [all_checks (map valid_c1_number (jelems bulges)),
           valid_c1_number (jget g ''elevation''), valid_c1_point (jget g ''normal'') 3]
        else Inr False,
        Inr (is_list points \<and> length (jelems points) \<le> 4096),
        all_checks (map (\<lambda>p. valid_c1_point p 2) (jelems points)),
        Inr (is_bool (jget g ''closed''))])"

definition valid_geometry :: "string \<Rightarrow> json \<Rightarrow> c1_check" where
  "valid_geometry entity_type g =
    (if g = JNull then Inr True
     else if \<not> is_dict g then Inr False
     else if entity_type = ''LINE'' then line_geometry g
     else if entity_type = ''CIRCLE'' then circle_geometry False g
     else if entity_type = ''ARC'' then circle_geometry True g
     else polyline_geometry g)"

section \<open>Entities\<close>

definition base_keys :: "string list" where
  "base_keys = [''entity_id'', ''entity_type'', ''layer'', ''space'', ''bounds'', ''geometry'',
     ''geometry_truncated'', ''fingerprint'']"

definition provenance_keys :: "string list" where
  "provenance_keys =
     [''geometry_status'', ''geometry_reason'', ''source_runtime'', ''source_capabilities'']"

definition entity_types :: "string list" where
  "entity_types = [''LINE'', ''CIRCLE'', ''LWPOLYLINE'', ''ARC'']"

definition expected_capability :: "string \<Rightarrow> string" where
  "expected_capability entity_type =
    (if entity_type = ''LINE'' then ''entity.geometry.line/1''
     else if entity_type = ''CIRCLE'' then ''entity.geometry.circle/1''
     else if entity_type = ''LWPOLYLINE'' then ''entity.geometry.polyline/1''
     else ''entity.geometry.arc/1'')"

definition hex_id :: "json \<Rightarrow> bool" where
  "hex_id v \<longleftrightarrow> is_str v \<and> 1 \<le> length (jstr v) \<and> length (jstr v) \<le> 32 \<and> list_all is_hex (jstr v)"

definition entity_header :: "json \<Rightarrow> c1_check" where
  "entity_header e =
    all_checks
      [Inr (hex_id (jget e ''entity_id'')), in_names (jget e ''entity_type'') entity_types,
       Inr (text_between 0 255 (jget e ''layer'') \<and> jget e ''space'' = JStr ''model''
            \<and> is_bool (jget e ''geometry_truncated'') \<and> is_str (jget e ''fingerprint'')
            \<and> prefixed_sha256 (jstr (jget e ''fingerprint''))),
       valid_c1_bounds (jget e ''bounds'')]"

definition entity_provenance :: "json \<Rightarrow> c1_check" where
  "entity_provenance e =
    (let status = jget e ''geometry_status''; reason = jget e ''geometry_reason'';
         geometry = jget e ''geometry''; capabilities = jget e ''source_capabilities''
     in bindE (in_names status [''exact'', ''truncated'']) (\<lambda>projected.
        Inr (jget e ''source_runtime'' = JStr ''managed_dotnet''
          \<and> status \<in> set (map JStr [''exact'', ''truncated'', ''unsupported'', ''unavailable'', ''invalid''])
          \<and> (reason = JNull \<or> text_between 1 128 reason)
          \<and> capabilities = JList (if projected
              then [JStr (expected_capability (jstr (jget e ''entity_type'')))] else [])
          \<and> jget e ''geometry_truncated'' = JBool (status = JStr ''truncated'')
          \<and> (status = JStr ''exact'' \<longrightarrow> geometry \<noteq> JNull \<and> reason = JNull)
          \<and> (status \<noteq> JStr ''exact'' \<longrightarrow> geometry = JNull \<and> reason \<noteq> JNull))))"

definition has_provenance :: "json \<Rightarrow> bool" where
  "has_provenance e \<longleftrightarrow> set provenance_keys \<subseteq> set (jkeys e)"

definition valid_c1_detail_entity :: "json \<Rightarrow> c1_check" where
  "valid_c1_detail_entity e =
    (if is_dict e \<and> (keys_are e base_keys \<or> keys_are e (base_keys @ provenance_keys))
     then all_checks
       [entity_header e, if has_provenance e then entity_provenance e else Inr True,
        valid_geometry (jstr (jget e ''entity_type'')) (jget e ''geometry'')]
     else Inr False)"

section \<open>The observation result\<close>

text \<open>
  \<open>PureWindowsPath(s).name == s\<close> and no slash: one component, not the current directory, and no drive,
  which a colon after the first character makes (the rule of Python 3.12 and later).
\<close>

definition drop_code_point :: "string \<Rightarrow> string" where
  "drop_code_point s = dropWhile utf8_continuation (tl s)"

definition plain_file_name :: "string \<Rightarrow> bool" where
  "plain_file_name s \<longleftrightarrow> s \<noteq> [] \<and> CHR 0x5C \<notin> set s \<and> CHR ''/'' \<notin> set s \<and> s \<noteq> ''.''
     \<and> \<not> starts_with '':'' (drop_code_point s)"

definition document_name_ok :: "json \<Rightarrow> bool" where
  "document_name_ok v \<longleftrightarrow> text_between 1 255 v \<and> plain_file_name (jstr v)"

definition layers_ok :: "json \<Rightarrow> bool" where
  "layers_ok drawing \<longleftrightarrow>
    (let layers = jget drawing ''layers''
     in is_list layers \<and> length (jelems layers) \<le> 256
        \<and> list_all (text_between 0 255) (jelems layers)
        \<and> int_at_least (int (length (jelems layers))) (jget drawing ''layer_count'')
        \<and> is_bool (jget drawing ''truncated''))"

text \<open>\<open>RuntimeEvidence.model_validate\<close>: strict fields, unknown ones kept, everything bounded.\<close>

definition optional_text :: "nat \<Rightarrow> json \<Rightarrow> bool" where
  "optional_text hi v \<longleftrightarrow> v = JNull \<or> text_between 1 hi v"

definition sha256_or_prefixed :: "string \<Rightarrow> bool" where
  "sha256_or_prefixed s \<longleftrightarrow> raw_sha256 s \<or> prefixed_sha256 s"

definition runtime_evidence_ok :: "json \<Rightarrow> bool" where
  "runtime_evidence_ok v \<longleftrightarrow>
     is_dict v
     \<and> text_between 1 64 (jget v ''id'') \<and> matches_name False (jstr (jget v ''id''))
     \<and> jget v ''role'' \<in> set (map JStr [''primary'', ''compatibility'', ''compatibility_fallback'',
          ''headless''])
     \<and> optional_text 32 (jget v ''host_family'') \<and> optional_text 64 (jget v ''host_version'')
     \<and> optional_text 64 (jget v ''framework'') \<and> optional_text 128 (jget v ''package_id'')
     \<and> (jget v ''package_id'' = JNull \<or> matches_name False (jstr (jget v ''package_id'')))
     \<and> optional_text 64 (jget v ''package_version'')
     \<and> (jget v ''package_hash'' = JNull
        \<or> is_str (jget v ''package_hash'') \<and> sha256_or_prefixed (jstr (jget v ''package_hash'')))
     \<and> validate_bounded_json (JObj (filter (\<lambda>p. snd p \<noteq> JNull) (jitems v))) = Inr ()"

text \<open>\<open>None\<close> for evidence that is not well formed, otherwise whether it comes from the managed host.\<close>

definition evidence_runtime :: "json \<Rightarrow> bool option" where
  "evidence_runtime evidence =
    (if keys_are evidence [''agent_version'', ''runtime_state'', ''package'']
     then (if text_between 1 64 (jget evidence ''agent_version'') then Some False else None)
     else if keys_are evidence [''agent_version'', ''runtime_state'', ''package'', ''runtime'',
            ''degraded'', ''degradation_reason'']
          \<and> runtime_evidence_ok (jget evidence ''runtime'') \<and> is_bool (jget evidence ''degraded'')
          \<and> (jget evidence ''degradation_reason'' = JNull
             \<or> text_between 1 128 (jget evidence ''degradation_reason''))
          \<and> text_between 1 64 (jget evidence ''agent_version'')
     then Some (jget (jget evidence ''runtime'') ''id'' = JStr ''managed_dotnet'')
     else None)"

text \<open>The verdict of a validator: no error, or an error code.\<close>

definition verdict :: "c1_check \<Rightarrow> c1_exn + string option" where
  "verdict r = bindE r (\<lambda>valid. Inr (if valid then None else Some ''backend_error''))"

definition detail_entities :: "json list \<Rightarrow> c1_check" where
  "detail_entities entities =
     andE (all_checks (map valid_c1_detail_entity entities))
       (Inr (card (set (map (\<lambda>e. ''geometry_status'' \<in> set (jkeys e)) entities)) \<le> 1))"

definition document_id_ok :: "string \<Rightarrow> bool" where
  "document_id_ok s \<longleftrightarrow> starts_with ''doc-'' s \<and> 1 \<le> length (drop 4 s) \<and> length (drop 4 s) \<le> 124
     \<and> list_all (\<lambda>c. is_upper c \<or> is_lower c \<or> is_digit c \<or> c \<in> set ''._-'') (drop 4 s)"

definition fingerprint_number :: "string \<Rightarrow> bool" where
  "fingerprint_number s \<longleftrightarrow> s \<noteq> [] \<and> length s \<le> 19 \<and> list_all is_digit s \<and> hd s \<noteq> CHR ''0''"

definition detail_drawing_ok :: "json \<Rightarrow> nat \<Rightarrow> bool" where
  "detail_drawing_ok drawing n \<longleftrightarrow>
     keys_are drawing [''document_id'', ''document_name'', ''database_fingerprint'',
       ''entity_count'', ''layers'', ''layer_count'', ''truncated'']
     \<and> is_str (jget drawing ''document_id'') \<and> document_id_ok (jstr (jget drawing ''document_id''))
     \<and> text_between 1 128 (jget drawing ''database_fingerprint'')
     \<and> document_name_ok (jget drawing ''document_name'') \<and> layers_ok drawing
     \<and> int_at_least (int n) (jget drawing ''entity_count'')"

definition validate_c1_detail_observation ::
  "json \<Rightarrow> json \<Rightarrow> json \<Rightarrow> json \<Rightarrow> bool \<Rightarrow> c1_exn + string option" where
  "validate_c1_detail_observation snapshot revision drawing summary managed =
    (let entities = jget snapshot ''entities''; truncated = jget summary ''truncated''
     in verdict (all_checks
       [Inr (managed \<and> keys_are revision [''revision_schema'', ''revision_strength'', ''commit_safe'']
             \<and> jget revision ''revision_schema'' = JStr ''cad.revision/1''
             \<and> jget revision ''revision_strength'' = JStr ''database_object_fingerprint''
             \<and> is_bool (jget revision ''commit_safe'') \<and> is_bool truncated
             \<and> jget revision ''commit_safe'' \<noteq> truncated
             \<and> is_list entities \<and> length (jelems entities) \<le> 512
             \<and> py_eq summary (JObj [(''entity_count'', JInt (int (length (jelems entities)))),
                   (''detail_available'', JBool True), (''truncated'', truncated)])),
        detail_entities (jelems entities),
        Inr (is_str (jget snapshot ''document_revision'')
             \<and> fingerprint_number (jstr (jget snapshot ''document_revision''))
             \<and> detail_drawing_ok drawing (length (jelems entities)))]))"

definition summary_drawing_keys :: "bool \<Rightarrow> string list" where
  "summary_drawing_keys managed =
     [''document_name'', ''entity_count'', ''layers'', ''layer_count'', ''truncated'']
     @ (if managed then [] else [''dispatcher_version'', ''package_id'', ''package_version''])"

definition summary_observation_ok :: "json \<Rightarrow> json \<Rightarrow> json \<Rightarrow> json \<Rightarrow> bool \<Rightarrow> bool" where
  "summary_observation_ok snapshot revision drawing summary managed \<longleftrightarrow>
     keys_are revision [''revision_schema'', ''revision_strength'', ''commit_safe'']
     \<and> py_eq revision (JObj [(''revision_schema'', JStr ''cad.revision/1''),
          (''revision_strength'', JStr ''summary_only''), (''commit_safe'', JBool False)])
     \<and> py_eq (jget snapshot ''entities'') (JList [])
     \<and> is_str (jget snapshot ''document_revision'')
     \<and> raw_sha256 (jstr (jget snapshot ''document_revision''))
     \<and> keys_are drawing (summary_drawing_keys managed)
     \<and> document_name_ok (jget drawing ''document_name'') \<and> layers_ok drawing
     \<and> int_at_least 0 (jget drawing ''entity_count'')
     \<and> py_eq summary (JObj [(''entity_count'', jget drawing ''entity_count''),
          (''detail_available'', JBool False)])"

text \<open>\<open>package[..]\<close> raises when the required package lacks the key.\<close>

definition dispatcher_package_ok :: "json \<Rightarrow> json \<Rightarrow> c1_check" where
  "dispatcher_package_ok drawing package =
    (case (jlookup package ''version'', jlookup package ''package_id'') of
       (Some v, Some i) \<Rightarrow>
         Inr (py_eq (jget drawing ''dispatcher_version'') v \<and> py_eq (jget drawing ''package_id'') i
              \<and> py_eq (jget drawing ''package_version'') v)
     | (Some v, None) \<Rightarrow>
         if py_eq (jget drawing ''dispatcher_version'') v then Inl MissingKey else Inr False
     | (None, _) \<Rightarrow> Inl MissingKey)"

definition SNAPSHOT_KEYS :: "string list" where
  "SNAPSHOT_KEYS = [''snapshot_id'', ''document_revision'', ''observation_level'', ''drawing'',
     ''entity_summary'', ''entities'', ''revision_evidence'']"

text \<open>
  \<open>expected_package\<close> is the job's \<open>payload["package"]\<close> (\<open>JNull\<close> when absent), \<open>required_package\<close> the
  service's own requirement.
\<close>

definition validate_c1_observation ::
  "json \<Rightarrow> json \<Rightarrow> json \<Rightarrow> json \<Rightarrow> c1_exn + string option" where
  "validate_c1_observation required_package result snapshot expected_package =
    (let package = (if json_truthy expected_package then expected_package else required_package);
         evidence = jget result ''execution_evidence'';
         revision = jget snapshot ''revision_evidence'';
         drawing = jget snapshot ''drawing'';
         summary = jget snapshot ''entity_summary''
     in if \<not> is_dict package then Inl NotAMapping
        else if \<not> json_truthy package then Inr None
        else if \<not> (is_dict evidence \<and> is_dict revision \<and> is_dict drawing \<and> is_dict summary)
             \<or> \<not> keys_are result [''snapshot'', ''execution_evidence'']
             \<or> \<not> keys_are snapshot SNAPSHOT_KEYS
        then Inr (Some ''backend_error'')
        else if \<not> py_eq (jget evidence ''package'') package then Inr (Some ''package_mismatch'')
        else case evidence_runtime evidence of
          None \<Rightarrow> Inr (Some ''backend_error'')
        | Some managed \<Rightarrow>
            let level = jget snapshot ''observation_level''
            in if level = JStr ''detail''
               then validate_c1_detail_observation snapshot revision drawing summary managed
               else if level \<noteq> JStr ''summary'' then Inr (Some ''backend_error'')
               else verdict (andE
                 (Inr (summary_observation_ok snapshot revision drawing summary managed))
                 (if managed then Inr True else dispatcher_package_ok drawing package)))"

section \<open>Normalisation\<close>

definition legacy_status :: "json \<Rightarrow> string" where
  "legacy_status e =
    (if jget e ''geometry_truncated'' = JBool True then ''truncated''
     else if jget e ''geometry'' \<noteq> JNull then ''bounded_projection'' else ''unavailable'')"

definition normalize_entity :: "json \<Rightarrow> json" where
  "normalize_entity e =
    (if ''geometry_status'' \<in> set (jkeys e) then e
     else jput ''source_capabilities'' (JList [])
       (jput ''source_runtime'' (JStr ''managed_dotnet_legacy'')
         (jput ''geometry_reason'' (JStr ''legacy_agent_provenance_unavailable'')
           (jput ''geometry_status'' (JStr (legacy_status e)) e))))"

definition normalize_c1_snapshot :: "json \<Rightarrow> json" where
  "normalize_c1_snapshot snapshot =
    (if jget snapshot ''observation_level'' \<noteq> JStr ''detail'' then snapshot
     else
       let entities = jelems (jget snapshot ''entities'')
       in if list_all (\<lambda>e. ''geometry_status'' \<in> set (jkeys e)) entities then snapshot
          else jput ''entities'' (JList (map normalize_entity entities)) snapshot)"

section \<open>Properties of the observation checks\<close>

lemma verdict_None: "verdict r = Inr None \<longleftrightarrow> r = Inr True"
  by (cases r) (auto simp: verdict_def)

lemma status_key: "''geometry_status'' \<notin> set base_keys" "''geometry_status'' \<in> set provenance_keys"
  by code_simp+

lemma entity_keys:
  assumes "valid_c1_detail_entity e = Inr True"
  shows "is_dict e"
    and "set (jkeys e) =
      set base_keys \<union> (if ''geometry_status'' \<in> set (jkeys e) then set provenance_keys else {})"
proof -
  have k: "is_dict e" "set (jkeys e) = set base_keys \<or> set (jkeys e) = set base_keys \<union> set provenance_keys"
    using assms unfolding valid_c1_detail_entity_def keys_are_def set_append by (simp_all split: if_split_asm)
  show "is_dict e" by (rule k)
  show "set (jkeys e) =
      set base_keys \<union> (if ''geometry_status'' \<in> set (jkeys e) then set provenance_keys else {})"
    using k(2) status_key by auto
qed

lemma observation_accepted:
  assumes "validate_c1_observation required result snapshot expected = Inr None"
    and "json_truthy (if json_truthy expected then expected else required)"
  shows "py_eq (jget (jget result ''execution_evidence'') ''package'')
      (if json_truthy expected then expected else required)"
    and "\<exists>managed. evidence_runtime (jget result ''execution_evidence'') = Some managed \<and>
      (if jget snapshot ''observation_level'' = JStr ''detail''
       then validate_c1_detail_observation snapshot (jget snapshot ''revision_evidence'')
          (jget snapshot ''drawing'') (jget snapshot ''entity_summary'') managed = Inr None
       else jget snapshot ''observation_level'' = JStr ''summary'' \<and>
         summary_observation_ok snapshot (jget snapshot ''revision_evidence'')
          (jget snapshot ''drawing'') (jget snapshot ''entity_summary'') managed)"
proof -
  define p where "p = (if json_truthy expected then expected else required)"
  have v: "validate_c1_observation required result snapshot expected = Inr None" "json_truthy p"
    using assms by (simp_all add: p_def)
  obtain managed where m: "evidence_runtime (jget result ''execution_evidence'') = Some managed"
    and e: "py_eq (jget (jget result ''execution_evidence'') ''package'') p"
    using v unfolding validate_c1_observation_def p_def [symmetric] Let_def
    by (simp split: if_split_asm option.split_asm)
  have "if jget snapshot ''observation_level'' = JStr ''detail''
       then validate_c1_detail_observation snapshot (jget snapshot ''revision_evidence'')
          (jget snapshot ''drawing'') (jget snapshot ''entity_summary'') managed = Inr None
       else jget snapshot ''observation_level'' = JStr ''summary'' \<and>
         summary_observation_ok snapshot (jget snapshot ''revision_evidence'')
          (jget snapshot ''drawing'') (jget snapshot ''entity_summary'') managed"
    using v m unfolding validate_c1_observation_def p_def [symmetric] Let_def
    by (simp add: verdict_None split: if_split_asm)
  then show "\<exists>managed. evidence_runtime (jget result ''execution_evidence'') = Some managed \<and>
      (if jget snapshot ''observation_level'' = JStr ''detail''
       then validate_c1_detail_observation snapshot (jget snapshot ''revision_evidence'')
          (jget snapshot ''drawing'') (jget snapshot ''entity_summary'') managed = Inr None
       else jget snapshot ''observation_level'' = JStr ''summary'' \<and>
         summary_observation_ok snapshot (jget snapshot ''revision_evidence'')
          (jget snapshot ''drawing'') (jget snapshot ''entity_summary'') managed)"
    using m by blast
  show "py_eq (jget (jget result ''execution_evidence'') ''package'')
      (if json_truthy expected then expected else required)"
    using e by (simp add: p_def)
qed

lemma entity_parts:
  "valid_c1_detail_entity e = Inr True \<Longrightarrow>
   (has_provenance e \<longrightarrow> entity_provenance e = Inr True) \<and>
   valid_geometry (jstr (jget e ''entity_type'')) (jget e ''geometry'') = Inr True"
  unfolding valid_c1_detail_entity_def by (simp split: if_splits)

lemma circle_radius:
  "circle_geometry arc g = Inr True \<Longrightarrow> positive_number (jget g ''radius'')"
  unfolding circle_geometry_def Let_def by (simp split: if_split_asm)

lemma polyline_size:
  "polyline_geometry g = Inr True \<Longrightarrow> length (jelems (jget g ''points'')) \<le> 4096"
  unfolding polyline_geometry_def Let_def by simp

lemma provenance_exact:
  "entity_provenance e = Inr True \<Longrightarrow>
   jget e ''geometry'' \<noteq> JNull \<longleftrightarrow> jget e ''geometry_status'' = JStr ''exact''"
  unfolding entity_provenance_def Let_def bindE_Inr by auto

lemma circle_facts:
  assumes "valid_c1_detail_entity e = Inr True" "jget e ''geometry'' \<noteq> JNull"
    and "jget e ''entity_type'' \<in> {JStr ''CIRCLE'', JStr ''ARC''}"
  shows "positive_number (jget (jget e ''geometry'') ''radius'')"
proof -
  from entity_parts [OF assms(1)] assms(2,3)
  have "circle_geometry False (jget e ''geometry'') = Inr True \<or>
      circle_geometry True (jget e ''geometry'') = Inr True"
    by (auto simp: valid_geometry_def split: if_split_asm)
  then show ?thesis using circle_radius by blast
qed

lemma polyline_facts:
  assumes "valid_c1_detail_entity e = Inr True" "jget e ''geometry'' \<noteq> JNull"
    and "jget e ''entity_type'' = JStr ''LWPOLYLINE''"
  shows "length (jelems (jget (jget e ''geometry'') ''points'')) \<le> 4096"
proof -
  from entity_parts [OF assms(1)] assms(2,3)
  have "polyline_geometry (jget e ''geometry'') = Inr True"
    by (simp add: valid_geometry_def split: if_split_asm)
  then show ?thesis by (rule polyline_size)
qed

lemma opposite_bools: "is_bool c \<Longrightarrow> is_bool t \<Longrightarrow> c \<noteq> t \<Longrightarrow> c = JBool (t = JBool False)"
  by (cases c; cases t) auto

lemma detail_accepted:
  assumes "validate_c1_detail_observation snapshot revision drawing summary managed = Inr None"
  shows "managed \<and> length (jelems (jget snapshot ''entities'')) \<le> 512 \<and>
    is_list (jget snapshot ''entities'') \<and>
    jget revision ''commit_safe'' = JBool (jget summary ''truncated'' = JBool False) \<and>
    (\<forall>e \<in> set (jelems (jget snapshot ''entities'')). valid_c1_detail_entity e = Inr True) \<and>
    card (set (map (\<lambda>e. ''geometry_status'' \<in> set (jkeys e)) (jelems (jget snapshot ''entities'')))) \<le> 1"
proof -
  have a: "managed" "is_bool (jget revision ''commit_safe'')" "is_bool (jget summary ''truncated'')"
    "jget revision ''commit_safe'' \<noteq> jget summary ''truncated''" "is_list (jget snapshot ''entities'')"
    "length (jelems (jget snapshot ''entities'')) \<le> 512"
    "detail_entities (jelems (jget snapshot ''entities'')) = Inr True"
    using assms unfolding validate_c1_detail_observation_def Let_def verdict_None all_checks_True
    by simp_all
  show ?thesis
    using a(1,5,6,7) opposite_bools [OF a(2-4)]
    unfolding detail_entities_def andE_True all_checks_True by simp
qed


text \<open>A detail observation of one circle, without provenance fields.\<close>

definition sample_circle :: json where
  "sample_circle = JObj
    [(''entity_id'', JStr ''2A''), (''entity_type'', JStr ''CIRCLE''), (''layer'', JStr ''0''),
     (''space'', JStr ''model''), (''bounds'', JNull),
     (''geometry'', JObj [(''center'', JList [JInt 0, JInt 1]), (''radius'', JInt 2)]),
     (''geometry_truncated'', JBool False),
     (''fingerprint'', JStr (''sha256:'' @ replicate 64 CHR ''0''))]"

definition sample_snapshot :: "json list \<Rightarrow> json" where
  "sample_snapshot entities = JObj
    [(''snapshot_id'', JStr ''s''), (''document_revision'', JStr ''17''),
     (''observation_level'', JStr ''detail''),
     (''drawing'', JObj [(''document_id'', JStr ''doc-1''), (''document_name'', JStr ''a.dwg''),
        (''database_fingerprint'', JStr ''f''), (''entity_count'', JInt 1), (''layers'', JList []),
        (''layer_count'', JInt 0), (''truncated'', JBool False)]),
     (''entity_summary'', JObj [(''entity_count'', JInt (int (length entities))),
        (''detail_available'', JBool True), (''truncated'', JBool False)]),
     (''entities'', JList entities),
     (''revision_evidence'', JObj [(''revision_schema'', JStr ''cad.revision/1''),
        (''revision_strength'', JStr ''database_object_fingerprint''), (''commit_safe'', JBool True)])]"

definition sample_package :: json where
  "sample_package = JObj [(''package_id'', JStr ''p''), (''version'', JStr ''1''), (''sha256'', JStr ''h'')]"

definition sample_runtime :: json where
  "sample_runtime = JObj [(''id'', JStr ''managed_dotnet''), (''role'', JStr ''primary'')]"

definition sample_result :: "json \<Rightarrow> json" where
  "sample_result snapshot = JObj
    [(''snapshot'', snapshot),
     (''execution_evidence'', JObj
        [(''agent_version'', JStr ''1''), (''runtime_state'', JStr ''ready''),
         (''package'', sample_package),
         (''runtime'', sample_runtime),
         (''degraded'', JBool False), (''degradation_reason'', JNull)])]"

lemma sample_runtime_ok: "runtime_evidence_ok sample_runtime"
proof -
  have "validate_bounded_json sample_runtime = Inr ()"
    by (simp add: sample_runtime_def validate_bounded_json_def bound_defs)
  moreover have "filter (\<lambda>p. snd p \<noteq> JNull) (jitems sample_runtime) = jitems sample_runtime \<and>
      is_dict sample_runtime \<and> text_between 1 64 (jget sample_runtime ''id'') \<and>
      matches_name False (jstr (jget sample_runtime ''id'')) \<and>
      jget sample_runtime ''role'' \<in> set (map JStr [''primary'', ''compatibility'', ''compatibility_fallback'',
        ''headless''])"
    by code_simp
  moreover have "jget sample_runtime ''host_family'' = JNull \<and> jget sample_runtime ''host_version'' = JNull \<and>
      jget sample_runtime ''framework'' = JNull \<and> jget sample_runtime ''package_id'' = JNull \<and>
      jget sample_runtime ''package_version'' = JNull \<and> jget sample_runtime ''package_hash'' = JNull"
    by code_simp
  ultimately show ?thesis
    unfolding runtime_evidence_ok_def optional_text_def by (simp add: sample_runtime_def)
qed

lemma sample_evidence:
  "evidence_runtime (jget (sample_result snapshot) ''execution_evidence'') = Some True"
proof -
  let ?e = "jget (sample_result (JList [])) ''execution_evidence''"
  have e: "jget (sample_result snapshot) ''execution_evidence'' = ?e"
    by (simp add: sample_result_def jget_def jget_default_def jlookup_def)
  have "\<not> keys_are ?e [''agent_version'', ''runtime_state'', ''package''] \<and>
      keys_are ?e [''agent_version'', ''runtime_state'', ''package'', ''runtime'', ''degraded'', ''degradation_reason'']
      \<and> is_bool (jget ?e ''degraded'') \<and> jget ?e ''degradation_reason'' = JNull
      \<and> text_between 1 64 (jget ?e ''agent_version'')"
    by code_simp
  moreover have "jget ?e ''runtime'' = sample_runtime \<and> jget sample_runtime ''id'' = JStr ''managed_dotnet''"
    by (simp add: sample_result_def sample_runtime_def jget_def jget_default_def jlookup_def)
  ultimately show ?thesis
    using sample_runtime_ok unfolding e evidence_runtime_def by simp
qed

lemma sample_accepted:
  "validate_c1_observation (JObj []) (sample_result (sample_snapshot [sample_circle]))
     (sample_snapshot [sample_circle]) sample_package = Inr None"
proof -
  let ?s = "sample_snapshot [sample_circle]"
  let ?r = "sample_result ?s"
  have "validate_c1_detail_observation ?s (jget ?s ''revision_evidence'') (jget ?s ''drawing'')
      (jget ?s ''entity_summary'') True = Inr None"
    by code_simp
  moreover have "json_truthy sample_package \<and> is_dict sample_package"
    "is_dict (jget ?r ''execution_evidence'') \<and> is_dict (jget ?s ''revision_evidence'') \<and>
     is_dict (jget ?s ''drawing'') \<and> is_dict (jget ?s ''entity_summary'')"
    "keys_are ?r [''snapshot'', ''execution_evidence''] \<and> keys_are ?s SNAPSHOT_KEYS"
    "py_eq (jget (jget ?r ''execution_evidence'') ''package'') sample_package"
    "jget ?s ''observation_level'' = JStr ''detail''"
    by code_simp+
  ultimately show ?thesis
    unfolding validate_c1_observation_def Let_def sample_evidence by simp
qed


section \<open>Normalised snapshots\<close>

lemma normalize_entity_keys:
  "set (jkeys (normalize_entity e)) = set (jkeys e) \<union>
     (if ''geometry_status'' \<in> set (jkeys e) then {} else set provenance_keys)"
  unfolding normalize_entity_def provenance_keys_def by auto

lemma normalize_entity_get:
  "k \<notin> set provenance_keys \<Longrightarrow> jget (normalize_entity e) k = jget e k"
  unfolding normalize_entity_def provenance_keys_def by simp

lemma normalize_entity_status: "''geometry_status'' \<in> set (jkeys (normalize_entity e))"
  using normalize_entity_keys [of e] status_key(2) by auto

lemma base_not_provenance: "k \<in> set base_keys \<Longrightarrow> k \<notin> set provenance_keys"
proof -
  have "list_all (\<lambda>k. k \<notin> set provenance_keys) base_keys" by code_simp
  then show "k \<in> set base_keys \<Longrightarrow> k \<notin> set provenance_keys" by (auto simp: list_all_iff)
qed

lemma normalize_entity_status_id:
  "''geometry_status'' \<in> set (jkeys e) \<Longrightarrow> normalize_entity e = e"
  by (simp add: normalize_entity_def)

lemma normalized_entities:
  assumes "jget snapshot ''observation_level'' = JStr ''detail''"
  shows "jelems (jget (normalize_c1_snapshot snapshot) ''entities'') =
      map normalize_entity (jelems (jget snapshot ''entities''))"
  using assms normalize_entity_status_id
  by (auto simp: normalize_c1_snapshot_def Let_def list_all_iff intro!: map_idI [symmetric])

text \<open>Normalising a detail snapshot that the Gateway accepted gives every entity all the provenance
  keys, keeps their number, their order and every other field, and changes nothing the second time.\<close>

theorem normalized_snapshot_complete:
  assumes "validate_c1_detail_observation snapshot revision drawing summary managed = Inr None"
    and "jget snapshot ''observation_level'' = JStr ''detail''"
  shows "(\<forall>e \<in> set (jelems (jget (normalize_c1_snapshot snapshot) ''entities'')). has_provenance e) \<and>
    map (\<lambda>e. map (jget e) base_keys) (jelems (jget (normalize_c1_snapshot snapshot) ''entities'')) =
      map (\<lambda>e. map (jget e) base_keys) (jelems (jget snapshot ''entities'')) \<and>
    (\<forall>k. k \<noteq> ''entities'' \<longrightarrow> jget (normalize_c1_snapshot snapshot) k = jget snapshot k) \<and>
    normalize_c1_snapshot (normalize_c1_snapshot snapshot) = normalize_c1_snapshot snapshot"
proof (intro conjI)
  show "\<forall>e \<in> set (jelems (jget (normalize_c1_snapshot snapshot) ''entities'')). has_provenance e"
  proof
    fix e assume "e \<in> set (jelems (jget (normalize_c1_snapshot snapshot) ''entities''))"
    then obtain e0 where e0: "e0 \<in> set (jelems (jget snapshot ''entities''))" "e = normalize_entity e0"
      by (auto simp: normalized_entities [OF assms(2)])
    then have "valid_c1_detail_entity e0 = Inr True" using detail_accepted [OF assms(1)] by blast
    note k = entity_keys(2) [OF this]
    show "has_provenance e"
    proof (cases "''geometry_status'' \<in> set (jkeys e0)")
      case True
      then have "set provenance_keys \<subseteq> set (jkeys e0)" using k by simp
      then show ?thesis using True e0(2) by (simp add: has_provenance_def normalize_entity_status_id)
    next
      case False
      then show ?thesis using e0(2) normalize_entity_keys [of e0] by (simp add: has_provenance_def)
    qed
  qed
  show "map (\<lambda>e. map (jget e) base_keys) (jelems (jget (normalize_c1_snapshot snapshot) ''entities'')) =
      map (\<lambda>e. map (jget e) base_keys) (jelems (jget snapshot ''entities''))"
    using normalize_entity_get base_not_provenance
    by (simp add: normalized_entities [OF assms(2)])
  show "\<forall>k. k \<noteq> ''entities'' \<longrightarrow> jget (normalize_c1_snapshot snapshot) k = jget snapshot k"
    by (simp add: normalize_c1_snapshot_def Let_def)
  show "normalize_c1_snapshot (normalize_c1_snapshot snapshot) = normalize_c1_snapshot snapshot"
  proof -
    let ?n = "normalize_c1_snapshot snapshot"
    have "jget ?n ''observation_level'' = JStr ''detail''"
      using assms(2) by (simp add: normalize_c1_snapshot_def Let_def)
    moreover have "list_all (\<lambda>e. ''geometry_status'' \<in> set (jkeys e)) (jelems (jget ?n ''entities''))"
      using normalize_entity_status
      by (simp add: normalized_entities [OF assms(2)] list_all_iff)
    ultimately show ?thesis by (simp add: normalize_c1_snapshot_def [of ?n] Let_def)
  qed
qed

lemma normalized_snapshot_complete_witness:
  "normalize_c1_snapshot (normalize_c1_snapshot (sample_snapshot [sample_circle])) =
    normalize_c1_snapshot (sample_snapshot [sample_circle])"
proof -
  let ?s = "sample_snapshot [sample_circle]"
  have "validate_c1_detail_observation ?s (jget ?s ''revision_evidence'') (jget ?s ''drawing'')
      (jget ?s ''entity_summary'') True = Inr None"
    by code_simp
  moreover have "jget ?s ''observation_level'' = JStr ''detail''" by code_simp
  ultimately show ?thesis using normalized_snapshot_complete by blast
qed

section \<open>Values that make a check raise\<close>

text \<open>An entity type that is a list or a dict does not fail the check: with a well-formed id, the
  membership test hashes it and raises, and no verdict on the observation exists.\<close>

theorem unhashable_entity_type_raises:
  assumes "is_dict e" "keys_are e base_keys" "hex_id (jget e ''entity_id'')"
    and "is_list (jget e ''entity_type'') \<or> is_dict (jget e ''entity_type'')"
  shows "valid_c1_detail_entity e = Inl UnhashableType"
  using assms
  by (auto simp: valid_c1_detail_entity_def entity_header_def in_names_def andE_def)

lemma unhashable_entity_type_raises_witness:
  "valid_c1_detail_entity (jput ''entity_type'' (JList []) sample_circle) = Inl UnhashableType"
  by (rule unhashable_entity_type_raises) code_simp+

text \<open>A coordinate outside the range of a double raises as well, instead of being rejected: a
  number check answers only below that bound.\<close>

theorem number_check_answers:
  "(\<exists>b. valid_c1_number v = Inr b) \<longleftrightarrow> \<not> (\<exists>i. v = JInt i \<and> 2 ^ 1024 - 2 ^ 970 \<le> \<bar>i\<bar>)"
  by (cases v) (auto simp: double_overflow_def)

end
