(* ===== verification/Dispatch.thy ===== *)
theory Dispatch
  imports ProgramStore Registry
begin

text \<open>
  The decisions of \<open>DurableJobService\<close> (\<open>application/job_service.py\<close>) that read but do not write:
  whether a job may be dispatched to a connection, which message belongs to which job, how the
  result of a CAD program is bound to its execution, and which Agent errors are passed on.
\<close>

section \<open>Errors\<close>

text \<open>
  What leaves a service call as an exception: \<open>DurableJobError\<close> with its code and the job it names,
  the exceptions of the repositories, a failed send, a message the wire models refuse, a cancelled
  future, and the exceptions of Python itself for a payload of an unexpected shape.
\<close>

datatype service_error =
    DurableJobError string "string option" "job_state option"
  | StoreFailed store_error
  | SendFailed
  | MessageInvalid
  | FutureCancelled
  | PyError string

definition job_error :: "string \<Rightarrow> job_row \<Rightarrow> service_error" where
  "job_error code job = DurableJobError code (Some (jb_job_id job)) (Some (jb_state job))"

text \<open>\<open>v.get(k)\<close>, \<open>v[k]\<close> and the iteration over a JSON value.\<close>

definition py_get :: "json \<Rightarrow> string \<Rightarrow> service_error + json" where
  "py_get v k = (if is_dict v then Inr (jget v k) else Inl (PyError ''AttributeError''))"

definition py_item :: "json \<Rightarrow> string \<Rightarrow> service_error + json" where
  "py_item v k =
    (if \<not> is_dict v then Inl (PyError ''TypeError'')
     else case jlookup v k of None \<Rightarrow> Inl (PyError ''KeyError'') | Some w \<Rightarrow> Inr w)"

fun py_iter :: "json \<Rightarrow> service_error + json list" where
  "py_iter (JList xs) = Inr xs"
| "py_iter (JObj kvs) = Inr (map (\<lambda>kv. JStr (fst kv)) kvs)"
| "py_iter (JStr s) = Inr (map (\<lambda>c. JStr [c]) s)"
| "py_iter _ = Inl (PyError ''TypeError'')"

definition opt_str :: "string option \<Rightarrow> json" where
  "opt_str s = (case s of None \<Rightarrow> JNull | Some x \<Rightarrow> JStr x)"

definition py_in :: "json \<Rightarrow> json list \<Rightarrow> bool" where
  "py_in v xs = list_ex (py_eq v) xs"

text \<open>
  \<open>str(v)\<close>; the \<open>repr\<close> of a float, list or dict is the argument \<open>other\<close>.
\<close>

fun py_str :: "(json \<Rightarrow> string) \<Rightarrow> json \<Rightarrow> string" where
  "py_str other (JStr s) = s"
| "py_str other JNull = ''None''"
| "py_str other (JBool b) = (if b then ''True'' else ''False'')"
| "py_str other (JInt i) = int_text i"
| "py_str other v = other v"

section \<open>Kinds of jobs\<close>

definition PROGRAM_JOBS :: "string list" where
  "PROGRAM_JOBS = [''program_preview'', ''program_commit'', ''program_validate'']"

definition PROGRAM_WRITES :: "string list" where
  "PROGRAM_WRITES = [''program_preview'', ''program_commit'']"

definition ROLLBACK_JOBS :: "string list" where
  "ROLLBACK_JOBS = [''receipt_lookup'', ''checkpoint_lookup'', ''rollback_preview'',
     ''rollback_commit'', ''rollback_validate'']"

section \<open>May the job be dispatched?\<close>

text \<open>
  The settings of the service.  \<open>dp_repr\<close> is \<open>repr\<close> of a container or float and \<open>dp_to_dict\<close> is
  \<open>dict(v)\<close> of a value that is not a dict.
\<close>

record dispatch_policy =
  dp_required_package :: json
  dp_policy_version :: "string option"
  dp_managed_write_enabled :: bool
  dp_allowed_write_device_ids :: "string list"
  dp_repr :: "json \<Rightarrow> string"
  dp_to_dict :: "json \<Rightarrow> service_error + json"

definition prefixed_hash :: "string option \<Rightarrow> string" where
  "prefixed_hash h =
    (let s = (case h of None \<Rightarrow> [] | Some x \<Rightarrow> x)
     in if starts_with ''sha256:'' s then s else ''sha256:'' @ s)"

definition write_allowed :: "dispatch_policy \<Rightarrow> agent_connection \<Rightarrow> bool" where
  "write_allowed D c \<longleftrightarrow>
     dp_managed_write_enabled D \<and> cn_device_id c \<in> set (dp_allowed_write_device_ids D)"

definition pinned_package :: "dispatch_policy \<Rightarrow> json \<Rightarrow> json" where
  "pinned_package D pins =
    JObj [(''package_id'', jget pins ''package_id''), (''version'', jget pins ''package_version''),
      (''sha256'', JStr (remove_prefix ''sha256:''
         (py_str (dp_repr D) (jget_default pins ''package_hash'' (JStr [])))))]"

definition runtime_matches :: "json \<Rightarrow> json \<Rightarrow> bool" where
  "runtime_matches pins item \<longleftrightarrow>
     is_dict item \<and> is_dict (jget item ''runtime'')
     \<and> py_eq (jget (jget item ''runtime'') ''id'') (jget pins ''runtime_id'')
     \<and> py_eq (jget (jget item ''runtime'') ''role'') (jget pins ''runtime_role'')
     \<and> py_eq (jget (jget item ''runtime'') ''host_family'') (jget pins ''host_family'')
     \<and> py_eq (jget (jget item ''runtime'') ''host_version'') (jget pins ''host_version'')
     \<and> py_eq (jget item ''edition'') (JStr ''full'')"

text \<open>\<open>(connection.capability_manifest or {}).get("cad_products", [])\<close>\<close>

definition cad_products :: "agent_connection \<Rightarrow> service_error + json" where
  "cad_products c =
    (let manifest = (case cn_capability_manifest c of None \<Rightarrow> JObj []
                     | Some m \<Rightarrow> if json_truthy m then m else JObj [])
     in if is_dict manifest then Inr (jget_default manifest ''cad_products'' (JList []))
        else Inl (PyError ''AttributeError''))"

definition matching_runtimes :: "json \<Rightarrow> agent_connection \<Rightarrow> service_error + json list" where
  "matching_runtimes pins c =
    bindE (cad_products c) (\<lambda>products.
    bindE (py_iter products) (\<lambda>items. Inr (filter (runtime_matches pins) items)))"

definition evidence_matches :: "string \<Rightarrow> json \<Rightarrow> agent_connection \<Rightarrow> bool" where
  "evidence_matches version_key pins c \<longleftrightarrow>
     jget pins ''capability_manifest_hash'' = JStr (prefixed_hash (cn_capability_manifest_hash c))
     \<and> jget pins ''operation_registry_hash'' = JStr (prefixed_hash (cn_operation_registry_hash c))
     \<and> jget pins version_key = opt_str (cn_registry_version c)"

text \<open>The pins of a program: of its Phase 8 plan, or of its execution.\<close>

definition is_phase8 :: "json \<Rightarrow> bool" where
  "is_phase8 binding \<longleftrightarrow>
     is_dict binding \<and> jget binding ''schema_version'' = JStr ''cad.execution-binding/1''"

definition payload_binding :: "json \<Rightarrow> json" where
  "payload_binding payload = (if is_dict payload then jget payload ''binding'' else JNull)"

definition program_pins :: "json \<Rightarrow> service_error + json" where
  "program_pins payload =
    (if is_phase8 (payload_binding payload) then
       bindE (py_get payload ''execution_plan'') (\<lambda>plan.
       Inr (if is_dict plan then jget plan ''execution_pins'' else JNull))
     else
       bindE (py_get payload ''execution'') (\<lambda>execution.
       Inr (if is_dict execution then jget execution ''pins'' else JNull)))"

type_synonym refusal = "string option \<times> string"

definition program_dispatch_failure ::
  "dispatch_policy \<Rightarrow> job_row \<Rightarrow> agent_connection option \<Rightarrow> service_error + refusal" where
  "program_dispatch_failure D job connection =
    (case connection of
       None \<Rightarrow> Inr (Some ''device_offline'', ''Agent is not connected'')
     | Some c \<Rightarrow>
         let phase8 = is_phase8 (payload_binding (jb_payload job));
             write = jb_kind job \<in> set PROGRAM_WRITES
         in
         bindE (program_pins (jb_payload job)) (\<lambda>pins.
         if \<not> is_dict pins
         then Inr (Some ''binding_mismatch'', ''Program execution binding is missing'')
         else if dp_policy_version D = None
              \<or> jget pins ''policy_version'' \<noteq> opt_str (dp_policy_version D)
         then Inr (Some ''policy_mismatch'', ''Gateway policy changed after preparation'')
         else if write \<and> \<not> write_allowed D c
         then Inr (Some ''feature_disabled'', ''Managed write is not enabled for this device'')
         else if cn_hard_pause c \<or> cn_paused c
         then Inr (Some ''paused_by_user'', ''Agent hard pause is active'')
         else if write \<and> \<not> cn_write_lock_enabled c
         then Inr (Some ''write_lock_disabled'', ''Agent write lock is disabled'')
         else if \<not> evidence_matches
                (if phase8 then ''operation_registry_version'' else ''registry_version'') pins c
         then Inr (Some ''binding_mismatch'', ''Capability or registry evidence changed'')
         else if \<not> py_in (pinned_package D pins) (cn_packages c)
         then Inr (Some ''package_mismatch'', ''Managed Host package evidence changed'')
         else bindE (matching_runtimes pins c) (\<lambda>matching.
           if length matching \<noteq> 1
           then Inr (Some ''runtime_mismatch'', ''Managed R25 runtime evidence changed'')
           else Inr (None, []))))"

definition rollback_dispatch_failure ::
  "dispatch_policy \<Rightarrow> job_row \<Rightarrow> agent_connection option \<Rightarrow> service_error + refusal" where
  "rollback_dispatch_failure D job connection =
    (case connection of
       None \<Rightarrow> Inr (Some ''device_offline'', ''Agent is not connected'')
     | Some c \<Rightarrow>
         let binding = payload_binding (jb_payload job);
             commit = (jb_kind job = ''rollback_commit'')
         in
         if \<not> is_dict binding
         then Inr (Some ''binding_mismatch'', ''Rollback execution binding is missing'')
         else if dp_policy_version D = None
              \<or> jget binding ''policy_version'' \<noteq> opt_str (dp_policy_version D)
         then Inr (Some ''policy_mismatch'', ''Gateway policy changed after rollback preview'')
         else if jget binding ''runtime_id'' \<noteq> JStr ''managed_dotnet''
              \<or> jget binding ''runtime_role'' \<noteq> JStr ''primary''
              \<or> jget binding ''host_family'' \<noteq> JStr ''R25''
         then Inr (Some ''runtime_mismatch'', ''Rollback requires exact Managed .NET R25'')
         else if commit \<and> \<not> write_allowed D c
         then Inr (Some ''feature_disabled'', ''Managed rollback is not enabled for this device'')
         else if cn_hard_pause c \<or> cn_paused c
         then Inr (Some ''paused_by_user'', ''Agent hard pause is active'')
         else if commit \<and> \<not> cn_write_lock_enabled c
         then Inr (Some ''write_lock_disabled'', ''Agent write lock is disabled'')
         else if opt_str (cn_active_document_id c) \<noteq> jget binding ''document_id''
              \<or> opt_str (cn_active_document_revision c) \<noteq> jget binding ''document_revision''
         then Inr (Some ''stale_revision'', ''Active document changed after rollback preview'')
         else if \<not> evidence_matches ''operation_registry_version'' binding c
         then Inr (Some ''binding_mismatch'', ''Rollback capability or registry evidence changed'')
         else if \<not> py_in (pinned_package D binding) (cn_packages c)
         then Inr (Some ''package_mismatch'', ''Rollback Managed Host package evidence changed'')
         else bindE (matching_runtimes binding c) (\<lambda>matching.
           if length matching \<noteq> 1
           then Inr (Some ''runtime_mismatch'', ''Rollback Managed R25 runtime evidence changed'')
           else Inr (None, [])))"

text \<open>The package an ordinary job asks for: its own, or the one of the service.\<close>

definition job_package :: "dispatch_policy \<Rightarrow> job_row \<Rightarrow> service_error + json" where
  "job_package D job =
    bindE (py_get (jb_payload job) ''package'') (\<lambda>own.
    if \<not> json_truthy own then Inr (dp_required_package D)
    else if is_dict own then Inr own else dp_to_dict D own)"

definition ordinary_dispatch_failure ::
  "dispatch_policy \<Rightarrow> job_row \<Rightarrow> json list \<Rightarrow> service_error + refusal" where
  "ordinary_dispatch_failure D job packages =
    bindE (job_package D job) (\<lambda>required.
    if \<not> json_truthy required then Inr (None, [])
    else if py_in required packages then Inr (None, [])
    else Inr (Some ''package_mismatch'', ''Agent package does not match the required manifest''))"

text \<open>The capabilities and packages that count: of the connection, else those the device last showed.\<close>

definition required_capability :: "job_row \<Rightarrow> string" where
  "required_capability job =
    (if jb_kind job \<in> {''observe'', ''write_fixture''} then ''observe'' else jb_kind job)"

definition known_capabilities :: "agent_connection option \<Rightarrow> device_row option \<Rightarrow> string list" where
  "known_capabilities connection device =
    (case connection of
       Some c \<Rightarrow> cn_capabilities c
     | None \<Rightarrow> (case device of None \<Rightarrow> [] | Some d \<Rightarrow> ac_capabilities (dv_agent d)))"

definition known_packages :: "agent_connection option \<Rightarrow> device_row option \<Rightarrow> json list" where
  "known_packages connection device =
    (case connection of
       Some c \<Rightarrow> cn_packages c
     | None \<Rightarrow> (case device of None \<Rightarrow> [] | Some d \<Rightarrow> map dump_package (ac_packages (dv_agent d))))"

definition connection_paused :: "agent_connection option \<Rightarrow> bool" where
  "connection_paused connection = (case connection of None \<Rightarrow> False | Some c \<Rightarrow> cn_paused c)"

definition dispatch_failure ::
  "dispatch_policy \<Rightarrow> job_row \<Rightarrow> agent_connection option \<Rightarrow> device_row option \<Rightarrow>
   service_error + refusal" where
  "dispatch_failure D job connection device =
    (if required_capability job \<notin> set (known_capabilities connection device)
     then Inr (Some ''capability_missing'',
               ''Agent does not advertise the required capability'')
     else if connection_paused connection
     then Inr (Some ''paused_by_user'', ''Agent is paused by the local user'')
     else if jb_kind job \<in> set PROGRAM_JOBS then program_dispatch_failure D job connection
     else if jb_kind job \<in> set ROLLBACK_JOBS then rollback_dispatch_failure D job connection
     else ordinary_dispatch_failure D job (known_packages connection device))"

section \<open>Messages of the Agent\<close>

text \<open>
  The fields the service reads; a body that is a wire model is its \<open>model_dump(mode="json")\<close>.  A
  result's status is the job state it asks for (the wire model restricts it to the terminal states
  and \<open>outcome_unknown\<close>).
\<close>

record message_head =
  hd_session_id :: string
  hd_device_id :: string
  hd_job_id :: "string option"
  hd_command_id :: string
  hd_sequence :: int
  hd_payload_hash :: "string option"

datatype ack_status = AckAccepted | AckDuplicate | AckRejected | AckAlreadyTerminal

record ack_body =
  ak_status :: ack_status
  ak_idempotency_key :: string
  ak_reason :: "string option"

record progress_body =
  pg_phase :: string
  pg_percent :: int
  pg_message :: string

record result_body =
  rb_kind :: "string option"
  rb_binding :: json
  rb_status :: job_state
  rb_result :: "json option"
  rb_error_code :: "string option"

datatype reconcile_answer = AnswerNotStarted | AnswerStarted | AnswerTerminal

record reconcile_body =
  rq_status :: reconcile_answer
  rq_result_status :: "job_state option"
  rq_result :: "json option"
  rq_error_code :: "string option"
  rq_error_message :: "string option"
  rq_kind :: "string option"
  rq_binding :: "json option"

datatype result_class = PlainResult | ProgramResult | RollbackResult

datatype agent_message =
    AckMessage message_head ack_body
  | ProgressMessage message_head progress_body
  | ResultMessage result_class message_head result_body
  | ReconcileResultMessage message_head reconcile_body
  | OtherMessage message_head

fun head_of :: "agent_message \<Rightarrow> message_head" where
  "head_of (AckMessage h _) = h"
| "head_of (ProgressMessage h _) = h"
| "head_of (ResultMessage _ h _) = h"
| "head_of (ReconcileResultMessage h _) = h"
| "head_of (OtherMessage h) = h"

text \<open>The states the wire models admit as the status of a result.\<close>

definition wire_ok :: "agent_message \<Rightarrow> bool" where
  "wire_ok m =
    (case m of
       ResultMessage cls h b \<Rightarrow> rb_status b \<in> {Succeeded, Failed, Cancelled}
         \<or> cls \<noteq> PlainResult \<and> rb_status b = OutcomeUnknown
     | ReconcileResultMessage h q \<Rightarrow>
         rq_result_status q \<in> {None, Some Succeeded, Some Failed, Some Cancelled}
     | _ \<Rightarrow> True)"

text \<open>A message belongs to a job of its connection: session, device, command and job agree.\<close>

definition validate_message_binding ::
  "agent_connection \<Rightarrow> job_row \<Rightarrow> message_head \<Rightarrow> service_error + unit" where
  "validate_message_binding c job h =
    (if hd_session_id h \<noteq> cn_session_id c then Inl (job_error ''invalid_message'' job)
     else if hd_device_id h \<noteq> cn_device_id c \<or> jb_device_id job \<noteq> cn_device_id c
     then Inl (job_error ''invalid_message'' job)
     else if hd_command_id h \<noteq> jb_command_id job then Inl (job_error ''invalid_message'' job)
     else if hd_job_id h \<notin> {None, Some (jb_job_id job)}
     then Inl (job_error ''invalid_message'' job)
     else Inr ())"

section \<open>The binding of a result\<close>

text \<open>The binding a program result must show: the Phase 8 one, or the one its execution determines.\<close>

fun dict_of :: "(string \<times> (service_error + json)) list \<Rightarrow> service_error + (string \<times> json) list" where
  "dict_of [] = Inr []"
| "dict_of ((k, r) # rest) =
     bindE r (\<lambda>v. bindE (dict_of rest) (\<lambda>kvs. Inr ((k, v) # kvs)))"

definition build_dict :: "(string \<times> (service_error + json)) list \<Rightarrow> service_error + json" where
  "build_dict entries = bindE (dict_of entries) (\<lambda>kvs. Inr (JObj kvs))"

definition program_result_binding :: "json \<Rightarrow> service_error + json" where
  "program_result_binding payload =
    bindE (py_get payload ''binding'') (\<lambda>phase8_binding.
    if is_phase8 phase8_binding then Inr phase8_binding
    else
      bindE (py_item payload ''execution'') (\<lambda>execution.
      bindE (py_item execution ''pins'') (\<lambda>pins.
      build_dict
        [(''program_digest'', py_item execution ''program_digest''),
         (''execution_digest'', py_item execution ''execution_digest''),
         (''document_id'', py_item execution ''document_id''),
         (''document_revision'', py_item execution ''expected_document_revision''),
         (''runtime_id'', py_item pins ''runtime_id''),
         (''runtime_role'', py_item pins ''runtime_role''),
         (''host_family'', py_item pins ''host_family''),
         (''host_version'', py_item pins ''host_version''),
         (''package_id'', py_item pins ''package_id''),
         (''package_version'', py_item pins ''package_version''),
         (''package_hash'', py_item pins ''package_hash''),
         (''capability_manifest_hash'', py_item pins ''capability_manifest_hash''),
         (''operation_registry_version'', py_item pins ''registry_version''),
         (''operation_registry_hash'', py_item pins ''operation_registry_hash''),
         (''policy_version'', py_item pins ''policy_version'')])))"

definition validate_program_result_binding ::
  "job_row \<Rightarrow> result_body \<Rightarrow> service_error + unit" where
  "validate_program_result_binding job b =
    (if rb_kind b \<noteq> Some (jb_kind job) then Inl (job_error ''binding_mismatch'' job)
     else bindE (program_result_binding (jb_payload job)) (\<lambda>expected.
       if py_eq (rb_binding b) expected then Inr ()
       else Inl (job_error ''binding_mismatch'' job)))"

definition validate_rollback_result_binding ::
  "job_row \<Rightarrow> result_body \<Rightarrow> service_error + unit" where
  "validate_rollback_result_binding job b =
    (if \<not> is_dict (jb_payload job) \<or> rb_kind b \<noteq> Some (jb_kind job)
        \<or> \<not> py_eq (rb_binding b) (jget (jb_payload job) ''binding'')
     then Inl (job_error ''binding_mismatch'' job) else Inr ())"

section \<open>The result of a program, as it is stored\<close>

text \<open>A Phase 8 result repeats the digests of its plan and shows that the host did what it was for.\<close>

definition phase8_expected :: "json \<Rightarrow> json \<Rightarrow> service_error + json" where
  "phase8_expected binding payload =
    bindE (py_item payload ''execution_plan'') (\<lambda>plan.
    build_dict
      [(''execution_plan_digest'', py_item binding ''execution_plan_digest''),
       (''effect_manifest_digest'', py_item binding ''effect_manifest_digest''),
       (''target_refs_digest'', py_item binding ''target_refs_digest''),
       (''hard_budgets_digest'', py_item binding ''hard_budgets_digest''),
       (''rollout_policy_digest'', bindE (py_item plan ''execution_pins'')
          (\<lambda>pins. py_item pins ''rollout_policy_digest''))])"

definition phase8_result_valid :: "bool \<Rightarrow> json \<Rightarrow> json \<Rightarrow> bool" where
  "phase8_result_valid preview binding v \<longleftrightarrow>
    (if preview then jget v ''transaction_aborted'' = JBool True
        \<and> jget v ''drawing_unchanged'' = JBool True \<and> is_str (jget v ''preview_digest'')
     else py_eq (jget v ''receipt_id'') (jget binding ''receipt_id'')
        \<and> py_eq (jget v ''milestone'') (JStr ''effect_and_receipt_committed''))"

definition normalize_phase8_result ::
  "job_row \<Rightarrow> bool \<Rightarrow> json \<Rightarrow> json \<Rightarrow> service_error + json" where
  "normalize_phase8_result job preview binding v =
    bindE (phase8_expected binding (jb_payload job)) (\<lambda>expected.
    if \<not> list_all (\<lambda>(k, exact). py_eq (jget v k) exact) (jitems expected)
    then Inl (job_error ''binding_mismatch'' job)
    else if \<not> phase8_result_valid preview binding v
    then Inl (job_error ''binding_mismatch'' job)
    else Inr v)"

definition preview_result :: "json \<Rightarrow> json \<Rightarrow> service_error + json" where
  "preview_result execution v =
    build_dict
      [(''program_digest'', py_item execution ''program_digest''),
       (''execution_digest'', py_item execution ''execution_digest''),
       (''binding_digest'', py_item execution ''binding_digest''),
       (''preview_id'', py_item v ''preview_id''),
       (''preview_digest'', py_item v ''preview_digest''),
       (''expires_at'', py_item v ''expires_at''),
       (''document_revision_before'', py_item execution ''expected_document_revision''),
       (''document_revision_after'', py_item execution ''expected_document_revision''),
       (''preview_strategy'', Inr (JStr ''database_transaction_abort'')),
       (''planned_operation_count'', py_item v ''planned_operation_count''),
       (''planned_entity_count'', py_item v ''planned_entity_count''),
       (''planned_layer_count'', py_item v ''planned_layer_count''),
       (''validation'', build_dict
          [(''transaction_aborted'', py_item v ''transaction_aborted''),
           (''drawing_unchanged'', py_item v ''drawing_unchanged'')])]"

definition commit_result :: "json \<Rightarrow> json \<Rightarrow> service_error + json" where
  "commit_result execution v =
    build_dict
      [(''receipt_id'', py_item v ''receipt_id''),
       (''receipt_digest'', py_item v ''receipt_digest''),
       (''program_digest'', py_item execution ''program_digest''),
       (''execution_digest'', py_item execution ''execution_digest''),
       (''preview_execution_digest'', py_item execution ''preview_execution_digest''),
       (''binding_digest'', py_item execution ''binding_digest''),
       (''document_id'', py_item execution ''document_id''),
       (''document_revision_before'', py_item v ''document_revision_before''),
       (''document_revision_after'', py_item v ''document_revision_after''),
       (''effect_summary'', build_dict
          [(''created_entities'', py_item v ''created_entity_count''),
           (''duplicate'', py_item v ''duplicate'')]),
       (''durable_receipt'', Inr v),
       (''checkpoint'', py_get v ''checkpoint'')]"

definition validate_result :: "json \<Rightarrow> json \<Rightarrow> service_error + json" where
  "validate_result execution v =
    build_dict
      [(''validation_id'', py_item v ''validation_id''),
       (''execution_digest'', py_item execution ''execution_digest''),
       (''binding_digest'', py_item execution ''binding_digest''),
       (''document_revision'', py_item v ''document_revision''),
       (''passed'', py_item v ''valid''),
       (''report'', build_dict
          [(''checks'', py_item v ''checks''), (''failures'', py_item v ''failures'')])]"

definition normalize_program_result ::
  "job_row \<Rightarrow> result_body \<Rightarrow> service_error + json option" where
  "normalize_program_result job b =
    (case rb_result b of
       None \<Rightarrow> Inr None
     | Some v \<Rightarrow>
         bindE (py_get (jb_payload job) ''binding'') (\<lambda>binding.
         bindE
           (if is_phase8 binding
            then normalize_phase8_result job (rb_kind b = Some ''program_preview'') binding v
            else bindE (py_item (jb_payload job) ''execution'') (\<lambda>execution.
              if rb_kind b = Some ''program_preview'' then preview_result execution v
              else if rb_kind b = Some ''program_commit'' then commit_result execution v
              else validate_result execution v))
           (\<lambda>w. Inr (Some w))))"

section \<open>Errors an Agent may show to a client\<close>

definition AGENT_ERRORS :: "(string \<times> string) list" where
  "AGENT_ERRORS =
    [(''active_document_changed'', ''The active AutoCAD document changed during the read''),
     (''autocad_busy'', ''AutoCAD is running another command''),
     (''autocad_not_running'', ''AutoCAD is not running''),
     (''command_routing_failed'', ''Agent could not route the read command to AutoCAD''),
     (''deadline_expired'', ''Agent reported that the job deadline expired''),
     (''capability_missing'', ''Agent does not support the requested capability''),
     (''dispatcher_not_loaded'', ''The required AutoLISP dispatcher is not loaded''),
     (''dispatcher_timeout'', ''The AutoLISP dispatcher did not respond in time''),
     (''ipc_result_invalid'', ''AutoCAD returned invalid bounded read evidence''),
     (''modal_dialog_active'', ''AutoCAD has a modal dialog open''),
     (''no_active_document'', ''AutoCAD has no active document''),
     (''payload_mismatch'', ''Agent rejected a mismatched command payload''),
     (''package_mismatch'', ''Agent package does not match Gateway policy''),
     (''paused_by_user'', ''The local user paused remote tasks''),
     (''agent_rejected'', ''Agent rejected the command'')]"

definition safe_agent_error :: "string option \<Rightarrow> string \<times> string" where
  "safe_agent_error code =
    (case code of
       None \<Rightarrow> (''backend_error'', ''Agent reported a bounded CAD operation failure'')
     | Some c \<Rightarrow>
         (case map_of AGENT_ERRORS c of
            Some text \<Rightarrow> (c, text)
          | None \<Rightarrow> (''backend_error'', ''Agent reported a bounded CAD operation failure'')))"

end
