(* ===== verification/Service.thy ===== *)
theory Service
  imports Dispatch ProgramLog Observation
begin

text \<open>
  The execution of the asynchronous methods of \<open>DurableJobService\<close>.

  A method call is a function of the worker's state: the database, the connection registry and the
  waiting futures, the messages this call has handed to a connection, and a counter of its
  suspension points.  It ends in a value or an exception; what it did before the exception stays.
  At every \<open>await\<close> the event loop may run other tasks: \<open>sv_others\<close> is what they do to the shared
  state at the n-th suspension, an argument of the model.  The clock, new identifiers and the
  outcome of a socket send are read at the same counter.
\<close>

section \<open>The shared state\<close>

datatype future = Pending | Resolved job_row | Cancelled_future

text \<open>What the service hands to \<open>AgentConnection.send\<close>.\<close>

datatype outgoing =
    CommandOut string json
  | ReconcileOut "(string \<times> string \<times> string) list"
  | CancelOut string string string

text \<open>One call of \<open>send\<close>: the connection object, its contents at the call, the message.\<close>

record sent_message =
  sm_connection :: conn_ref
  sm_seen :: agent_connection
  sm_message :: outgoing

record 'y core =
  gc_store :: "'y program_db"
  gc_registry :: connection_registry
  gc_futures :: "future list"
  gc_waiters :: "(string \<times> nat) list"
  gc_sent :: "sent_message list"

record 'y task =
  tk_core :: "'y core"
  tk_tick :: nat

section \<open>The service object\<close>

text \<open>
  The Phase 7 recovery service keeps its own tables, the last component of the store; opening a
  recovery case and preparing terminal evidence are functions on them.
\<close>

record recovery_request =
  rr_owner_subject :: string
  rr_job_id :: string
  rr_cause :: string
  rr_latest_query_result :: "json option"

record 'y phase7 =
  p7_cases_enabled :: bool
  p7_max_reconcile_attempts :: nat
  p7_open_case :: "string \<Rightarrow> recovery_request \<Rightarrow> 'y \<Rightarrow> store_error + 'y"
  p7_terminal_evidence :: "string \<Rightarrow> job_row \<Rightarrow> job_state \<Rightarrow> json option \<Rightarrow> 'y \<Rightarrow>
    service_error + ('y \<Rightarrow> store_error + 'y)"
  p7_rollback_receipt :: "job_row \<Rightarrow> json \<Rightarrow> 'y \<Rightarrow> service_error + ('y \<Rightarrow> store_error + 'y)"

text \<open>
  The constructor arguments, the message classes of \<open>autocad_contracts\<close> (which validate their
  fields and give a dump and a payload hash) and the environment.
\<close>

record 'y service =
  sv_policy :: dispatch_policy
  sv_lib :: pylib
  sv_program_lib :: "'y program_lib"
  sv_has_programs :: bool
  sv_phase7 :: "'y phase7 option"
  sv_program_fields :: "string \<Rightarrow> effect_class \<Rightarrow> json \<Rightarrow> service_error + json"
  sv_command_message :: "json \<Rightarrow> service_error + json"
  sv_program_message :: "json \<Rightarrow> service_error + (json \<times> string)"
  sv_rollback_message :: "json \<Rightarrow> service_error + (json \<times> string)"
  sv_result_message :: "result_class \<Rightarrow> message_head \<Rightarrow> result_body \<Rightarrow> string option \<Rightarrow>
    service_error + json option"
  sv_check_message :: "outgoing \<Rightarrow> service_error + unit"
  sv_utc :: "nat \<Rightarrow> string"
  sv_micros :: "nat \<Rightarrow> int"
  sv_instant :: "nat \<Rightarrow> rat"
  sv_new_id :: "nat \<Rightarrow> string"
  sv_others :: "nat \<Rightarrow> 'y core \<Rightarrow> 'y core"
  sv_send_fails :: "nat \<Rightarrow> bool"

section \<open>Calls\<close>

type_synonym ('y, 'a) call = "'y task \<Rightarrow> (service_error + 'a) \<times> 'y task"

definition returnS :: "'a \<Rightarrow> ('y, 'a) call" where "returnS x t = (Inr x, t)"

definition raiseS :: "service_error \<Rightarrow> ('y, 'a) call" where "raiseS e t = (Inl e, t)"

definition liftS :: "service_error + 'a \<Rightarrow> ('y, 'a) call" where "liftS r t = (r, t)"

definition bindS :: "('y, 'a) call \<Rightarrow> ('a \<Rightarrow> ('y, 'b) call) \<Rightarrow> ('y, 'b) call" where
  "bindS m f t = (case m t of (Inl e, t') \<Rightarrow> (Inl e, t') | (Inr x, t') \<Rightarrow> f x t')"

text \<open>\<open>try: m  except: h\<close>; the handler re-raises what it does not catch.\<close>

definition catchS :: "('y, 'a) call \<Rightarrow> (service_error \<Rightarrow> ('y, 'a) call) \<Rightarrow> ('y, 'a) call" where
  "catchS m h t = (case m t of (Inl e, t') \<Rightarrow> h e t' | (Inr x, t') \<Rightarrow> (Inr x, t'))"

text \<open>\<open>try: m  except: h  else: f\<close>\<close>

definition tryS ::
  "('y, 'a) call \<Rightarrow> (service_error \<Rightarrow> ('y, 'b) call) \<Rightarrow> ('a \<Rightarrow> ('y, 'b) call) \<Rightarrow> ('y, 'b) call" where
  "tryS m h f t = (case m t of (Inl e, t') \<Rightarrow> h e t' | (Inr x, t') \<Rightarrow> f x t')"

primrec forS :: "'a list \<Rightarrow> ('a \<Rightarrow> ('y, unit) call) \<Rightarrow> ('y, unit) call" where
  "forS [] f = returnS ()"
| "forS (x # xs) f = bindS (f x) (\<lambda>_. forS xs f)"

text \<open>A suspension: the other tasks run.\<close>

definition awaitS :: "'y service \<Rightarrow> ('y, unit) call" where
  "awaitS S t = (Inr (), t\<lparr>tk_core := sv_others S (tk_tick t) (tk_core t), tk_tick := Suc (tk_tick t)\<rparr>)"

definition set_core :: "('y core \<Rightarrow> 'y core) \<Rightarrow> ('y, unit) call" where
  "set_core f t = (Inr (), t\<lparr>tk_core := f (tk_core t)\<rparr>)"

definition ask :: "('y task \<Rightarrow> 'a) \<Rightarrow> ('y, 'a) call" where "ask f t = (Inr (f t), t)"

text \<open>A repository call is one transaction between two suspensions.\<close>

definition transactionS ::
  "(nat \<Rightarrow> 'y program_db \<Rightarrow> store_error + ('a \<times> 'y program_db)) \<Rightarrow> ('y, 'a) call" where
  "transactionS f t =
    (case f (tk_tick t) (gc_store (tk_core t)) of
       Inl e \<Rightarrow> (Inl (StoreFailed e), t)
     | Inr (x, db) \<Rightarrow> (Inr x, t\<lparr>tk_core := (tk_core t)\<lparr>gc_store := db\<rparr>\<rparr>))"

definition repoS ::
  "'y service \<Rightarrow> (string \<Rightarrow> 'y program_db \<Rightarrow> store_error + ('a \<times> 'y program_db)) \<Rightarrow> ('y, 'a) call" where
  "repoS S f =
    bindS (awaitS S) (\<lambda>_.
    bindS (transactionS (\<lambda>n. f (sv_utc S n))) (\<lambda>x.
    bindS (awaitS S) (\<lambda>_. returnS x)))"

definition readS :: "'y service \<Rightarrow> ('y program_db \<Rightarrow> 'a) \<Rightarrow> ('y, 'a) call" where
  "readS S f =
    bindS (awaitS S) (\<lambda>_.
    bindS (ask (\<lambda>t. f (gc_store (tk_core t)))) (\<lambda>x.
    bindS (awaitS S) (\<lambda>_. returnS x)))"

text \<open>A read of the registry, under its lock; and an attribute of a connection object.\<close>

definition registryS :: "'y service \<Rightarrow> (int \<Rightarrow> connection_registry \<Rightarrow> 'a) \<Rightarrow> ('y, 'a) call" where
  "registryS S f =
    bindS (awaitS S) (\<lambda>_.
    bindS (ask (\<lambda>t. f (sv_micros S (tk_tick t)) (gc_registry (tk_core t)))) (\<lambda>x.
    bindS (awaitS S) (\<lambda>_. returnS x)))"

definition connectionS :: "conn_ref \<Rightarrow> ('y, agent_connection) call" where
  "connectionS r = ask (\<lambda>t. rg_heap (gc_registry (tk_core t)) r)"

text \<open>\<open>connection.send\<close>: other tasks run while it waits for its lock and for the socket.\<close>

definition log_send :: "conn_ref \<Rightarrow> outgoing \<Rightarrow> ('y, unit) call" where
  "log_send r m t =
    (let c = tk_core t
     in (Inr (), t\<lparr>tk_core := c\<lparr>gc_sent := gc_sent c @
           [\<lparr>sm_connection = r, sm_seen = rg_heap (gc_registry c) r, sm_message = m\<rparr>]\<rparr>\<rparr>))"

definition sendS :: "'y service \<Rightarrow> conn_ref \<Rightarrow> outgoing \<Rightarrow> ('y, unit) call" where
  "sendS S r m =
    bindS (log_send r m) (\<lambda>_.
    bindS (awaitS S) (\<lambda>_.
    bindS (ask (\<lambda>t. sv_send_fails S (tk_tick t))) (\<lambda>failed.
    if failed then raiseS SendFailed else returnS ())))"

lemma call_simps [simp]:
  "bindS (returnS x) f = f x" "bindS (raiseS e) f = raiseS e"
  "catchS (returnS x) h = returnS x" "catchS (raiseS e) h = h e"
  "liftS (Inr x) = returnS x" "liftS (Inl e) = raiseS e"
  by (simp_all add: fun_eq_iff bindS_def returnS_def raiseS_def catchS_def liftS_def)

end
