(* ===== verification/JobService.thy ===== *)
theory JobService
  imports Service
begin

text \<open>
  \<open>application/job_service.py\<close>: the methods of \<open>DurableJobService\<close> that move a durable job: dispatch
  to the Agent, deadlines, connection and disconnection, and the Agent's acknowledgements, progress,
  results and reconciliation answers.
\<close>

section \<open>Transitions a method asks for\<close>

definition change_to :: "job_state \<Rightarrow> job_change" where
  "change_to target = \<lparr>jc_target = target, jc_expected_version = None, jc_evidence = False,
     jc_result = None, jc_error_code = None, jc_error_summary = None\<rparr>"

definition failure_to :: "job_state \<Rightarrow> string \<Rightarrow> string \<Rightarrow> job_change" where
  "failure_to target code summary =
    (change_to target)\<lparr>jc_error_code := Some code, jc_error_summary := Some summary\<rparr>"

definition transition :: "'y service \<Rightarrow> string \<Rightarrow> job_change \<Rightarrow> ('y, job_row option) call" where
  "transition S job_id c = repoS S (\<lambda>now. transition_job (sv_lib S) now job_id c)"

text \<open>\<open>except (InvalidJobTransition, RepositoryConflict)\<close> and the code of a conflict.\<close>

definition lost_race :: "service_error \<Rightarrow> bool" where
  "lost_race e \<longleftrightarrow> (\<exists>code. e = StoreFailed (Conflict code)) \<or> (\<exists>b. e = StoreFailed (BadTransition b))"

lemma lost_race_code [code]:
  "lost_race e = (case e of StoreFailed (Conflict _) \<Rightarrow> True | StoreFailed (BadTransition _) \<Rightarrow> True
     | _ \<Rightarrow> False)"
  by (auto simp: lost_race_def split: service_error.splits store_error.splits)

definition ignore_race :: "service_error \<Rightarrow> ('y, unit) call" where
  "ignore_race e = (if lost_race e then returnS () else raiseS e)"

definition job_state_now :: "job_row option \<Rightarrow> job_row \<Rightarrow> job_state" where
  "job_state_now updated job = (case updated of None \<Rightarrow> jb_state job | Some u \<Rightarrow> jb_state u)"

section \<open>Futures\<close>

definition future_done :: "future \<Rightarrow> bool" where "future_done f \<longleftrightarrow> f \<noteq> Pending"

definition waiter_for :: "string \<Rightarrow> ('y, nat) call" where
  "waiter_for job_id t =
    (let c = tk_core t; new = length (gc_futures c)
     in case map_of (gc_waiters c) job_id of
          Some w \<Rightarrow>
            if future_done (gc_futures c ! w)
            then (Inr new, t\<lparr>tk_core := c\<lparr>gc_futures := gc_futures c @ [Pending],
                    gc_waiters := AList.update job_id new (gc_waiters c)\<rparr>\<rparr>)
            else (Inr w, t)
        | None \<Rightarrow> (Inr new, t\<lparr>tk_core := c\<lparr>gc_futures := gc_futures c @ [Pending],
                    gc_waiters := AList.update job_id new (gc_waiters c)\<rparr>\<rparr>))"

definition resolve_core :: "job_row \<Rightarrow> 'y core \<Rightarrow> 'y core" where
  "resolve_core job c =
    (case map_of (gc_waiters c) (jb_job_id job) of
       None \<Rightarrow> c
     | Some w \<Rightarrow>
         if \<not> future_done (gc_futures c ! w) \<and> is_terminal (jb_state job)
         then c\<lparr>gc_futures := (gc_futures c)[w := Resolved job],
                gc_waiters := AList.delete (jb_job_id job) (gc_waiters c)\<rparr>
         else c)"

definition resolve :: "job_row option \<Rightarrow> ('y, unit) call" where
  "resolve job = (case job of None \<Rightarrow> returnS () | Some j \<Rightarrow> set_core (resolve_core j))"

definition cancel_waiters :: "'y core \<Rightarrow> 'y core" where
  "cancel_waiters c = c\<lparr>gc_futures := foldl (\<lambda>fs w. if future_done (fs ! w) then fs
      else fs[w := Cancelled_future]) (gc_futures c) (map snd (gc_waiters c)), gc_waiters := []\<rparr>"

section \<open>Lookups\<close>

definition known_owners :: "'y program_db \<Rightarrow> string list" where
  "known_owners db = remdups (map jb_owner_subject (st_jobs db))"

primrec scan_owners :: "'y service \<Rightarrow> string \<Rightarrow> string list \<Rightarrow> ('y, job_row option) call" where
  "scan_owners S job_id [] = returnS None"
| "scan_owners S job_id (owner # owners) =
     bindS (readS S (get_job owner job_id)) (\<lambda>job.
     case job of Some r \<Rightarrow> returnS (Some r) | None \<Rightarrow> scan_owners S job_id owners)"

definition get_internal_job :: "'y service \<Rightarrow> string \<Rightarrow> ('y, job_row option) call" where
  "get_internal_job S job_id =
    bindS (readS S known_owners) (\<lambda>owners. scan_owners S job_id owners)"

definition current_connection :: "'y service \<Rightarrow> conn_ref \<Rightarrow> ('y, bool) call" where
  "current_connection S r = registryS S (\<lambda>now. is_current_and_fresh now r)"

section \<open>The write lock of a program\<close>

definition release_program_lock_if_terminal ::
  "'y service \<Rightarrow> job_row option \<Rightarrow> ('y, unit) call" where
  "release_program_lock_if_terminal S job =
    (case job of
       None \<Rightarrow> returnS ()
     | Some j \<Rightarrow>
         if sv_has_programs S \<and> jb_kind j \<in> set PROGRAM_WRITES \<and> is_terminal (jb_state j)
         then repoS S (\<lambda>now db. Inr ((), release_write_lock (jb_job_id j) db))
         else returnS ())"

definition fail_payload :: "'y service \<Rightarrow> job_row \<Rightarrow> ('y, unit) call" where
  "fail_payload S job =
    (let target = (if jb_state job = OutcomeUnknown then NeedsAttention else Failed)
     in catchS
          (bindS (transition S (jb_job_id job)
                   ((failure_to target ''payload_mismatch'' ''Agent payload hash did not match Gateway'')
                      \<lparr>jc_evidence := (jb_state job = ReconnectPending)\<rparr>)) (\<lambda>updated.
           bindS (release_program_lock_if_terminal S updated) (\<lambda>_. resolve updated)))
          ignore_race)"

section \<open>Recovery cases\<close>

definition ensure_recovery_case ::
  "'y service \<Rightarrow> string \<Rightarrow> job_row \<Rightarrow> string \<Rightarrow> (string \<Rightarrow> json option) \<Rightarrow> ('y, unit) call" where
  "ensure_recovery_case S owner job cause query =
    (case sv_phase7 S of
       None \<Rightarrow> returnS ()
     | Some p \<Rightarrow>
         if \<not> p7_cases_enabled p \<or> jb_owner_subject job \<noteq> owner then returnS ()
         else repoS S (\<lambda>now db.
           bindE (p7_open_case p now \<lparr>rr_owner_subject = owner, rr_job_id = jb_job_id job,
                    rr_cause = cause, rr_latest_query_result = query now\<rparr> (pt_more (st_other db)))
             (\<lambda>y. Inr ((), on_tables (\<lambda>t. t\<lparr>pt_more := y\<rparr>) db))))"

definition recovery_for :: "'y service \<Rightarrow> job_row option \<Rightarrow> string \<Rightarrow> ('y, unit) call" where
  "recovery_for S job cause =
    (case job of
       None \<Rightarrow> returnS ()
     | Some j \<Rightarrow> ensure_recovery_case S (jb_owner_subject j) j cause (\<lambda>_. None))"

text \<open>
  \<open>Phase7RecoveryService._freeze_for_conflict\<close>: contradicting evidence ends in \<open>needs_attention\<close>,
  unless the job reached that state by itself meanwhile.
\<close>

definition attention_change :: "nat \<Rightarrow> job_change" where
  "attention_change version =
    (failure_to NeedsAttention ''evidence_conflict''
       ''Conflicting durable execution evidence requires support'')
     \<lparr>jc_expected_version := Some version, jc_evidence := True\<rparr>"

definition freeze_for_conflict :: "'y service \<Rightarrow> job_row \<Rightarrow> ('y, unit) call" where
  "freeze_for_conflict S job =
    catchS
      (bindS
        (if jb_state job \<in> {Dispatched, Acknowledged, Running, CancelRequested} then
           bindS (transition S (jb_job_id job)
                   ((change_to OutcomeUnknown)\<lparr>jc_expected_version := Some (jb_state_version job)\<rparr>))
             (\<lambda>updated. returnS (case updated of None \<Rightarrow> job | Some u \<Rightarrow> u))
         else returnS job)
        (\<lambda>current.
         if jb_state current \<in> {ReconnectPending, OutcomeUnknown} then
           bindS (transition S (jb_job_id current) (attention_change (jb_state_version current)))
             (\<lambda>_. returnS ())
         else returnS ()))
      (\<lambda>e. if \<not> lost_race e then raiseS e
           else bindS (readS S (get_job (jb_owner_subject job) (jb_job_id job))) (\<lambda>latest.
             case latest of
               None \<Rightarrow> raiseS e
             | Some r \<Rightarrow> if jb_state r = NeedsAttention then returnS () else raiseS e))"

datatype reconcile_outcome = OutcomeConflict | OutcomeInconclusive

definition query_result :: "reconcile_outcome \<Rightarrow> string \<Rightarrow> string \<Rightarrow> json option" where
  "query_result outcome summary now =
    Some (JObj [(''outcome'', JStr (case outcome of OutcomeConflict \<Rightarrow> ''conflict''
                                     | OutcomeInconclusive \<Rightarrow> ''inconclusive'')),
       (''source'', JStr ''agent''), (''summary'', JStr summary), (''queried_at'', JStr now)])"

definition record_reconcile_outcome ::
  "'y service \<Rightarrow> string \<Rightarrow> string \<Rightarrow> reconcile_outcome \<Rightarrow> string \<Rightarrow> nat \<Rightarrow> ('y, unit) call" where
  "record_reconcile_outcome S owner job_id outcome summary attempt =
    (case sv_phase7 S of
       None \<Rightarrow> returnS ()
     | Some p \<Rightarrow>
         if \<not> p7_cases_enabled p then returnS ()
         else bindS (readS S (get_job owner job_id)) (\<lambda>found.
           case found of
             None \<Rightarrow> returnS ()
           | Some job \<Rightarrow>
               (case outcome of
                  OutcomeConflict \<Rightarrow>
                    bindS (freeze_for_conflict S job) (\<lambda>_.
                    ensure_recovery_case S owner job ''evidence_conflict'' (query_result outcome summary))
                | OutcomeInconclusive \<Rightarrow>
                    if p7_max_reconcile_attempts p \<le> attempt
                    then ensure_recovery_case S owner job ''bounded_inconclusive''
                           (query_result outcome summary)
                    else returnS ())))"

section \<open>Sending\<close>

definition send_reconcile :: "'y service \<Rightarrow> conn_ref \<Rightarrow> job_row list \<Rightarrow> ('y, unit) call" where
  "send_reconcile S r jobs =
    (let m = ReconcileOut (map (\<lambda>j. (jb_job_id j, jb_command_id j, jb_payload_hash j)) jobs)
     in bindS (liftS (sv_check_message S m)) (\<lambda>_. sendS S r m))"

definition send_cancel :: "'y service \<Rightarrow> conn_ref \<Rightarrow> job_row \<Rightarrow> string \<Rightarrow> ('y, unit) call" where
  "send_cancel S r job reason =
    (let m = CancelOut (jb_job_id job) (jb_command_id job) reason
     in bindS (liftS (sv_check_message S m)) (\<lambda>_. sendS S r m))"

section \<open>Dispatch\<close>

definition connection_and_device ::
  "'y service \<Rightarrow> job_row \<Rightarrow> conn_ref option \<Rightarrow> ('y, agent_connection option \<times> device_row option) call"
where
  "connection_and_device S job connection =
    bindS (case connection of Some r \<Rightarrow> returnS (Some r)
           | None \<Rightarrow> registryS S (\<lambda>_. registry_get (jb_device_id job))) (\<lambda>found.
    case found of
      Some r \<Rightarrow> bindS (connectionS r) (\<lambda>c. returnS (Some c, None))
    | None \<Rightarrow> bindS (readS S (get_device (jb_owner_subject job) (jb_device_id job)))
                (\<lambda>device. returnS (None, device)))"

definition refuse_dispatch :: "'y service \<Rightarrow> job_row \<Rightarrow> string \<Rightarrow> string \<Rightarrow> ('y, unit) call" where
  "refuse_dispatch S job code summary =
    bindS (catchS (transition S (jb_job_id job) (failure_to Failed code summary))
             (\<lambda>e. raiseS (if lost_race e then job_error code job else e))) (\<lambda>updated.
    bindS (resolve updated) (\<lambda>_.
    bindS (release_program_lock_if_terminal S updated) (\<lambda>_.
    raiseS (DurableJobError code (Some (jb_job_id job)) (Some (job_state_now updated job))))))"

definition require_dispatch_capability ::
  "'y service \<Rightarrow> job_row \<Rightarrow> conn_ref option \<Rightarrow> ('y, unit) call" where
  "require_dispatch_capability S job connection =
    bindS (connection_and_device S job connection) (\<lambda>cd.
    bindS (liftS (dispatch_failure (sv_policy S) job (fst cd) (snd cd))) (\<lambda>refusal.
    case refusal of
      (None, summary) \<Rightarrow> returnS ()
    | (Some code, summary) \<Rightarrow> refuse_dispatch S job code summary))"

definition command_values :: "string \<Rightarrow> job_row \<Rightarrow> agent_connection \<Rightarrow> (string \<times> json) list" where
  "command_values correlation_id job c =
    [(''protocol_version'', JStr (cn_protocol_version c)), (''correlation_id'', JStr correlation_id),
     (''session_id'', JStr (cn_session_id c)), (''device_id'', JStr (jb_device_id job)),
     (''job_id'', JStr (jb_job_id job)), (''command_id'', JStr (jb_command_id job)),
     (''deadline_at'', opt_str (jb_deadline_at job)),
     (''idempotency_key'', JStr (jb_idempotency_key job)),
     (''payload_hash'', JStr (jb_payload_hash job)), (''kind'', JStr (jb_kind job)),
     (''effect_class'', JStr (effect_name (jb_effect_class job))), (''payload'', jb_payload job)]"

definition without_keys :: "string list \<Rightarrow> (string \<times> json) list \<Rightarrow> (string \<times> json) list" where
  "without_keys ks kvs = filter (\<lambda>kv. fst kv \<notin> set ks) kvs"

definition merge_dicts :: "(string \<times> json) list \<Rightarrow> json \<Rightarrow> json" where
  "merge_dicts kvs v = foldl (\<lambda>acc (k, w). jput k w acc) (JObj kvs) (jitems v)"

text \<open>The job failed because its typed command does not have the hash it was stored with.\<close>

definition command_hash_mismatch :: "'y service \<Rightarrow> job_row \<Rightarrow> bool \<Rightarrow> string \<Rightarrow> ('y, json) call" where
  "command_hash_mismatch S job release summary =
    bindS (transition S (jb_job_id job) (failure_to Failed ''payload_mismatch'' summary)) (\<lambda>updated.
    bindS (if release then release_program_lock_if_terminal S updated else returnS ()) (\<lambda>_.
    bindS (resolve updated) (\<lambda>_.
    raiseS (DurableJobError ''payload_mismatch'' (Some (jb_job_id job))
              (Some (job_state_now updated job))))))"

definition build_command ::
  "'y service \<Rightarrow> string \<Rightarrow> job_row \<Rightarrow> agent_connection \<Rightarrow> ('y, json) call" where
  "build_command S correlation_id job c =
    (let command = command_values correlation_id job c
     in
     if jb_kind job \<in> set PROGRAM_JOBS then
       bindS (liftS (sv_program_fields S (jb_kind job) (jb_effect_class job) (jb_payload job))) (\<lambda>extra.
       bindS (liftS (sv_program_message S (merge_dicts (without_keys [''payload''] command) extra)))
         (\<lambda>m. if snd m \<noteq> jb_payload_hash job
              then command_hash_mismatch S job True
                     ''Typed Program command hash did not match durable job''
              else returnS (fst m)))
     else if jb_kind job \<in> set ROLLBACK_JOBS then
       bindS (liftS (sv_rollback_message S
         (merge_dicts (without_keys [''payload'', ''kind'', ''effect_class''] command) (jb_payload job))))
         (\<lambda>m. if snd m \<noteq> jb_payload_hash job
              then command_hash_mismatch S job False
                     ''Typed rollback command hash did not match durable job''
              else returnS (fst m))
     else
       liftS (bindE (if jb_kind job = ''observe'' then py_get (jb_payload job) ''observation_level''
                     else Inr JNull) (\<lambda>level.
         sv_command_message S (JObj
           (if jb_kind job = ''observe'' \<and> level = JStr ''detail''
               \<and> ''cad.observe.detail-provenance/1'' \<in> set (cn_capabilities c)
            then command @ [(''detail_snapshot_contract'', JStr ''cad.observe-detail/2'')]
            else command)))))"

text \<open>A disconnect: what the Agent has not acknowledged may be sent again, a started write may not.\<close>

definition disconnect_target :: "job_row \<Rightarrow> job_state option" where
  "disconnect_target job =
    (if jb_state job \<notin> {Dispatched, Acknowledged, Running, CancelRequested} then None
     else if jb_effect_class job = WriteEffect \<and> jb_state job \<in> {Acknowledged, Running, CancelRequested}
     then Some OutcomeUnknown else Some ReconnectPending)"

definition disconnect_job :: "'y service \<Rightarrow> job_row \<Rightarrow> ('y, unit) call" where
  "disconnect_job S job =
    (case disconnect_target job of
       None \<Rightarrow> returnS ()
     | Some target \<Rightarrow>
         catchS
           (bindS (transition S (jb_job_id job) (change_to target)) (\<lambda>updated.
            bindS (resolve updated) (\<lambda>_.
            if target = OutcomeUnknown then recovery_for S updated ''commit_outcome_unknown''
            else returnS ())))
           ignore_race)"

definition handle_disconnect :: "'y service \<Rightarrow> string \<Rightarrow> ('y, unit) call" where
  "handle_disconnect S device_id =
    bindS (readS S (jobs_for_device device_id)) (\<lambda>jobs. forS jobs (disconnect_job S))"

definition offline_error :: "job_row option \<Rightarrow> job_row \<Rightarrow> service_error" where
  "offline_error updated job =
    DurableJobError ''device_offline'' (Some (jb_job_id job)) (Some (job_state_now updated job))"

text \<open>The claimed job on its way to the connection of its device.\<close>

definition send_command :: "'y service \<Rightarrow> string \<Rightarrow> job_row \<Rightarrow> conn_ref \<Rightarrow> ('y, bool) call" where
  "send_command S correlation_id job r =
    bindS (require_dispatch_capability S job (Some r)) (\<lambda>_.
    bindS (connectionS r) (\<lambda>c.
    bindS (build_command S correlation_id job c) (\<lambda>m.
    bindS (catchS (sendS S r (CommandOut (jb_job_id job) m))
      (\<lambda>e. bindS (handle_disconnect S (jb_device_id job)) (\<lambda>_.
           bindS (get_internal_job S (jb_job_id job)) (\<lambda>current.
           raiseS (offline_error current job))))) (\<lambda>_.
    returnS True))))"

definition leave_pending :: "'y service \<Rightarrow> job_row \<Rightarrow> ('y, bool) call" where
  "leave_pending S job =
    bindS (transition S (jb_job_id job) (change_to ReconnectPending)) (\<lambda>updated.
    bindS (resolve updated) (\<lambda>_. raiseS (offline_error updated job)))"

definition dispatch :: "'y service \<Rightarrow> string \<Rightarrow> string \<Rightarrow> ('y, bool) call" where
  "dispatch S job_id correlation_id =
    bindS (awaitS S) (\<lambda>_.
    bindS (get_internal_job S job_id) (\<lambda>found.
    case found of
      None \<Rightarrow> returnS False
    | Some raw \<Rightarrow>
        if is_terminal (jb_state raw) then returnS False
        else if jb_state raw = OutcomeUnknown
        then raiseS (DurableJobError ''outcome_unknown'' (Some job_id) (Some (jb_state raw)))
        else if jb_state raw \<noteq> Queued then returnS False
        else
          bindS (require_dispatch_capability S raw None) (\<lambda>_.
          bindS (repoS S (\<lambda>now. claim_job (sv_lib S) now job_id)) (\<lambda>claimed.
          case claimed of
            None \<Rightarrow> returnS False
          | Some job \<Rightarrow>
              bindS (registryS S (\<lambda>_. registry_get (jb_device_id job))) (\<lambda>connection.
              bindS (case connection of None \<Rightarrow> returnS None
                     | Some r \<Rightarrow> bindS (current_connection S r)
                         (\<lambda>ok. returnS (if ok then Some r else None))) (\<lambda>usable.
              case usable of
                Some r \<Rightarrow> send_command S correlation_id job r
              | None \<Rightarrow> leave_pending S job))))))"

section \<open>Deadlines\<close>

text \<open>
  \<open>datetime.fromisoformat(..) <= now\<close>: a text that does not parse counts as expired, and comparing a
  time without an offset raises \<open>TypeError\<close>.
\<close>

definition deadline_expired :: "'y service \<Rightarrow> rat \<Rightarrow> string \<Rightarrow> service_error + bool" where
  "deadline_expired S now deadline =
    (case pl_instant (sv_program_lib S) deadline of
       None \<Rightarrow> Inr True
     | Some (aware, instant) \<Rightarrow> if aware then Inr (instant \<le> now) else Inl (PyError ''TypeError''))"

definition deadline_query :: "string \<Rightarrow> string \<Rightarrow> json option" where
  "deadline_query swept_at now =
    Some (JObj [(''outcome'', JStr ''inconclusive''), (''source'', JStr ''gateway''),
       (''summary'', JStr ''Commit deadline passed without exact receipt proof''),
       (''queried_at'', JStr swept_at)])"

definition expiry_change :: "job_row \<Rightarrow> job_change" where
  "expiry_change job =
    (if jb_state job = OutcomeUnknown
     then failure_to NeedsAttention ''deadline_expired''
            ''Job deadline expired with an unknown Agent outcome''
     else (failure_to Failed ''deadline_expired'' ''Job deadline expired before completion'')
            \<lparr>jc_evidence := (jb_state job = ReconnectPending)\<rparr>)"

definition sweep_job :: "'y service \<Rightarrow> rat \<Rightarrow> string \<Rightarrow> job_row \<Rightarrow> ('y, unit) call" where
  "sweep_job S now swept_at job =
    (case jb_deadline_at job of
       None \<Rightarrow> returnS ()
     | Some deadline \<Rightarrow>
         if deadline = [] then returnS ()
         else bindS (liftS (deadline_expired S now deadline)) (\<lambda>expired.
           if \<not> expired then returnS ()
           else if jb_kind job = ''program_commit'' \<and> jb_state job = OutcomeUnknown
           then ensure_recovery_case S (jb_owner_subject job) job ''deadline_outcome_unknown''
                  (deadline_query swept_at)
           else catchS
             (bindS (transition S (jb_job_id job) (expiry_change job)) resolve)
             ignore_race))"

definition sweep_deadlines :: "'y service \<Rightarrow> ('y, unit) call" where
  "sweep_deadlines S =
    bindS (ask (\<lambda>t. (sv_instant S (tk_tick t), sv_utc S (tk_tick t)))) (\<lambda>now.
    bindS (readS S all_nonterminal_jobs) (\<lambda>jobs.
    forS jobs (sweep_job S (fst now) (snd now))))"

section \<open>A connected Agent\<close>

text \<open>A cancellation the Agent had not confirmed becomes a recovery state.\<close>

definition settle_cancel :: "'y service \<Rightarrow> job_row \<Rightarrow> ('y, job_row list) call" where
  "settle_cancel S job =
    (if jb_state job \<noteq> CancelRequested then returnS [job]
     else catchS
       (bindS (transition S (jb_job_id job)
                (change_to (if jb_effect_class job = WriteEffect then OutcomeUnknown else ReconnectPending)))
         (\<lambda>updated. returnS [case updated of None \<Rightarrow> job | Some u \<Rightarrow> u]))
       (\<lambda>e. if \<not> lost_race e then raiseS e
            else bindS (get_internal_job S (jb_job_id job)) (\<lambda>current.
              returnS (case current of None \<Rightarrow> [] | Some r \<Rightarrow> [r]))))"

primrec settle_cancels :: "'y service \<Rightarrow> job_row list \<Rightarrow> ('y, job_row list) call" where
  "settle_cancels S [] = returnS []"
| "settle_cancels S (job # jobs) =
     bindS (settle_cancel S job) (\<lambda>xs.
     bindS (settle_cancels S jobs) (\<lambda>ys. returnS (xs @ ys)))"

text \<open>\<open>for offset in range(0, len(xs), 64)\<close>\<close>

function chunks :: "nat \<Rightarrow> 'a list \<Rightarrow> 'a list list" where
  "chunks n xs = (if xs = [] \<or> n = 0 then [] else take n xs # chunks n (drop n xs))"
  by pat_completeness auto
termination chunks
  by (relation "measure (\<lambda>(n, xs). length xs)") auto

declare chunks.simps [simp del]

definition RECONCILE_BATCH :: nat where "RECONCILE_BATCH = 64"

definition dispatch_queued :: "'y service \<Rightarrow> job_row \<Rightarrow> ('y, unit) call" where
  "dispatch_queued S job =
    (if jb_state job \<noteq> Queued then returnS ()
     else catchS
       (bindS (dispatch S (jb_job_id job) (jb_job_id job)) (\<lambda>_. returnS ()))
       (\<lambda>e. case e of
          DurableJobError code _ _ \<Rightarrow>
            if code \<in> {''device_offline'', ''capability_missing''} then returnS () else raiseS e
        | _ \<Rightarrow> raiseS e))"

definition handle_connected :: "'y service \<Rightarrow> conn_ref \<Rightarrow> ('y, unit) call" where
  "handle_connected S r =
    bindS (connectionS r) (\<lambda>c.
    bindS (readS S (jobs_for_device (cn_device_id c))) (\<lambda>found.
    bindS (settle_cancels S found) (\<lambda>jobs.
    let recovery = filter (\<lambda>j. jb_state j \<in> {ReconnectPending, OutcomeUnknown}) jobs
    in
    bindS (forS (chunks RECONCILE_BATCH recovery) (send_reconcile S r)) (\<lambda>_.
    forS jobs (dispatch_queued S)))))"

section \<open>Cancellation by the owner\<close>

text \<open>Three attempts against concurrent changes; the conflict of the last one is reported.\<close>

datatype cancel_step = CancelDone job_row | CancelReturn job_row | CancelRetry job_row

definition try_cancel :: "'y service \<Rightarrow> string \<Rightarrow> string \<Rightarrow> job_row \<Rightarrow> ('y, cancel_step option) call" where
  "try_cancel S job_id owner job =
    catchS
      (bindS (repoS S (\<lambda>now. request_job_cancel (sv_lib S) now job_id (Some (jb_state_version job))))
        (\<lambda>updated. returnS (map_option CancelDone updated)))
      (\<lambda>e. case e of
         StoreFailed (Conflict code) \<Rightarrow>
           if code \<noteq> ''cas_conflict''
           then raiseS (DurableJobError ''invalid_state'' (Some job_id) (Some (jb_state job)))
           else bindS (readS S (get_job owner job_id)) (\<lambda>current.
             case current of
               None \<Rightarrow> raiseS (DurableJobError ''not_found'' None None)
             | Some r \<Rightarrow> returnS (Some (if is_terminal (jb_state r) then CancelReturn r else CancelRetry r)))
       | _ \<Rightarrow> raiseS e)"

primrec cancel_attempts ::
  "nat \<Rightarrow> 'y service \<Rightarrow> string \<Rightarrow> string \<Rightarrow> job_row \<Rightarrow> ('y, cancel_step) call" where
  "cancel_attempts 0 S job_id owner job =
     raiseS (DurableJobError ''invalid_state'' (Some job_id) (Some (jb_state job)))"
| "cancel_attempts (Suc n) S job_id owner job =
     bindS (try_cancel S job_id owner job) (\<lambda>step.
     case step of
       None \<Rightarrow> raiseS (DurableJobError ''invalid_state'' (Some job_id) (Some (jb_state job)))
     | Some (CancelRetry current) \<Rightarrow> cancel_attempts n S job_id owner current
     | Some done \<Rightarrow> returnS done)"

definition cancel :: "'y service \<Rightarrow> string \<Rightarrow> string \<Rightarrow> string \<Rightarrow> ('y, job_row) call" where
  "cancel S job_id owner reason =
    bindS (readS S (get_job owner job_id)) (\<lambda>found.
    case found of
      None \<Rightarrow> raiseS (DurableJobError ''not_found'' None None)
    | Some job \<Rightarrow>
        bindS (cancel_attempts 3 S job_id owner job) (\<lambda>step.
        case step of
          CancelReturn r \<Rightarrow> returnS r
        | CancelRetry r \<Rightarrow> returnS r
        | CancelDone updated \<Rightarrow>
            if is_terminal (jb_state updated) then returnS updated
            else bindS (registryS S (\<lambda>_. registry_get (jb_device_id job))) (\<lambda>connection.
              bindS (case connection of
                 None \<Rightarrow> returnS ()
               | Some r \<Rightarrow> bindS (current_connection S r) (\<lambda>current.
                   if current then send_cancel S r updated reason else returnS ())) (\<lambda>_.
              returnS updated))))"

section \<open>Acknowledgements and progress\<close>

definition invalid_message :: "job_row \<Rightarrow> ('y, 'a) call" where
  "invalid_message job = raiseS (job_error ''invalid_message'' job)"

definition handle_accepted :: "'y service \<Rightarrow> job_row \<Rightarrow> ('y, unit) call" where
  "handle_accepted S job =
    (if jb_state job = Dispatched
     then bindS (transition S (jb_job_id job) (change_to Acknowledged)) resolve
     else if jb_state job \<in> {Acknowledged, Running, CancelRequested, Succeeded, Failed, Cancelled,
               NeedsAttention}
     then returnS ()
     else invalid_message job)"

definition handle_rejected :: "'y service \<Rightarrow> job_row \<Rightarrow> string option \<Rightarrow> ('y, unit) call" where
  "handle_rejected S job reason =
    (if is_terminal (jb_state job) then returnS ()
     else
       let text = (case reason of None \<Rightarrow> ''agent_rejected''
                   | Some s \<Rightarrow> if s = [] then ''agent_rejected'' else s);
           code = safe_agent_error (Some text)
       in bindS (catchS
            (transition S (jb_job_id job) ((failure_to Failed (fst code) (snd code))
               \<lparr>jc_evidence := (jb_state job = OutcomeUnknown)\<rparr>))
            (\<lambda>e. if lost_race e then invalid_message job else raiseS e)) resolve)"

definition handle_known_command :: "'y service \<Rightarrow> conn_ref \<Rightarrow> job_row \<Rightarrow> bool \<Rightarrow> ('y, unit) call" where
  "handle_known_command S r job already_terminal =
    (if is_terminal (jb_state job) then returnS ()
     else if \<not> already_terminal \<and> jb_state job \<in> {Acknowledged, Running, CancelRequested}
     then returnS ()
     else
       bindS
         (if jb_state job = Dispatched
          then bindS (transition S (jb_job_id job) (change_to ReconnectPending))
                 (\<lambda>u. returnS (case u of None \<Rightarrow> job | Some j \<Rightarrow> j))
          else if already_terminal \<and> jb_state job \<in> {Acknowledged, Running, CancelRequested}
          then bindS (transition S (jb_job_id job) (change_to
                   (if jb_effect_class job = WriteEffect then OutcomeUnknown else ReconnectPending)))
                 (\<lambda>u. returnS (case u of None \<Rightarrow> job | Some j \<Rightarrow> j))
          else returnS job)
         (\<lambda>j. send_reconcile S r [j]))"

definition handle_ack ::
  "'y service \<Rightarrow> conn_ref \<Rightarrow> job_row \<Rightarrow> message_head \<Rightarrow> ack_body \<Rightarrow> ('y, unit) call" where
  "handle_ack S r job h b =
    (if hd_payload_hash h \<noteq> Some (jb_payload_hash job) then fail_payload S job
     else if ak_idempotency_key b \<noteq> jb_idempotency_key job then fail_payload S job
     else case ak_status b of
       AckAccepted \<Rightarrow> handle_accepted S job
     | AckRejected \<Rightarrow> handle_rejected S job (ak_reason b)
     | AckDuplicate \<Rightarrow> handle_known_command S r job False
     | AckAlreadyTerminal \<Rightarrow> handle_known_command S r job True)"

definition handle_progress ::
  "'y service \<Rightarrow> job_row \<Rightarrow> message_head \<Rightarrow> progress_body \<Rightarrow> ('y, unit) call" where
  "handle_progress S job h b =
    (if is_terminal (jb_state job) then returnS ()
     else
       bindS (if jb_state job = Acknowledged
              then bindS (transition S (jb_job_id job) (change_to Running))
                     (\<lambda>u. returnS (case u of None \<Rightarrow> job | Some j \<Rightarrow> j))
              else if jb_state job \<in> {Running, CancelRequested} then returnS job
              else invalid_message job) (\<lambda>j.
       bindS (catchS
         (repoS S (\<lambda>now. append_progress (sv_lib S) now (jb_job_id j)
            \<lparr>pr_phase = pg_phase b, pr_percent = pg_percent b, pr_message = pg_message b,
             pr_sequence = hd_sequence h, pr_expected_version = None\<rparr>))
         (\<lambda>e. case e of StoreFailed (Conflict code) \<Rightarrow> raiseS (job_error code j) | _ \<Rightarrow> raiseS e))
         resolve))"

section \<open>Results\<close>

text \<open>What a result message means for its job: the state, the stored result and the error.\<close>

record verdict =
  vd_target :: job_state
  vd_result :: "json option"
  vd_error_code :: "string option"
  vd_error_summary :: "string option"
  vd_snapshot :: "json option"

definition failed_verdict :: "string \<Rightarrow> string \<Rightarrow> verdict" where
  "failed_verdict code summary = \<lparr>vd_target = Failed, vd_result = None, vd_error_code = Some code,
     vd_error_summary = Some summary, vd_snapshot = None\<rparr>"

definition observation_verdict ::
  "'y service \<Rightarrow> job_row \<Rightarrow> json option \<Rightarrow> service_error + verdict" where
  "observation_verdict S job result =
    (let candidate = (case result of None \<Rightarrow> JNull
                      | Some v \<Rightarrow> if is_dict v then jget v ''snapshot'' else JNull)
     in
     if \<not> is_dict candidate
     then Inr (failed_verdict ''backend_error'' ''Agent returned an invalid observation result'')
     else
       bindE (py_get (jb_payload job) ''package'') (\<lambda>package.
       case validate_c1_observation (dp_required_package (sv_policy S)) (the result) candidate package of
         Inl e \<Rightarrow> Inl (PyError ''TypeError'')
       | Inr (Some code) \<Rightarrow>
           Inr (failed_verdict code ''Agent returned invalid C1 observation evidence'')
       | Inr None \<Rightarrow>
           let snapshot = normalize_c1_snapshot candidate
           in Inr \<lparr>vd_target = Succeeded, vd_result = Some (jput ''snapshot'' snapshot (the result)),
                   vd_error_code = None, vd_error_summary = None, vd_snapshot = Some snapshot\<rparr>))"

definition result_verdict ::
  "'y service \<Rightarrow> job_row \<Rightarrow> job_state \<Rightarrow> json option \<Rightarrow> string option \<Rightarrow> service_error + verdict" where
  "result_verdict S job target result error_code =
    (if target = Succeeded \<and> jb_kind job = ''observe'' then observation_verdict S job result
     else if target = Failed then
       (case safe_agent_error error_code of (code, summary) \<Rightarrow> Inr (failed_verdict code summary))
     else if target = Cancelled then
       Inr \<lparr>vd_target = Cancelled, vd_result = None, vd_error_code = Some ''cancelled'',
            vd_error_summary = Some ''Agent confirmed cancellation'', vd_snapshot = None\<rparr>
     else Inr \<lparr>vd_target = target, vd_result = result, vd_error_code = None,
               vd_error_summary = None, vd_snapshot = None\<rparr>)"

text \<open>The Agent itself does not know the outcome of a write.\<close>

definition report_unknown :: "'y service \<Rightarrow> job_row \<Rightarrow> string \<Rightarrow> ('y, unit) call" where
  "report_unknown S job summary =
    bindS (catchS
      (transition S (jb_job_id job) (failure_to OutcomeUnknown ''outcome_unknown'' summary))
      (\<lambda>e. raiseS (if lost_race e then job_error ''outcome_unknown'' job else e))) (\<lambda>updated.
    bindS (resolve updated) (\<lambda>_. recovery_for S updated ''commit_outcome_unknown''))"

text \<open>Hooks of the Phase 7 tables, run in the transaction that finalises the job.\<close>

definition more_hook :: "('y \<Rightarrow> store_error + 'y) \<Rightarrow> job_row \<Rightarrow> 'y program_tables \<Rightarrow>
    store_error + 'y program_tables" where
  "more_hook h r t = bindE (h (pt_more t)) (\<lambda>y. Inr (t\<lparr>pt_more := y\<rparr>))"

definition terminal_evidence ::
  "'y service \<Rightarrow> job_row \<Rightarrow> verdict \<Rightarrow> ('y, ('y \<Rightarrow> store_error + 'y) option) call" where
  "terminal_evidence S job v =
    (case sv_phase7 S of
       None \<Rightarrow> returnS None
     | Some p \<Rightarrow>
         bindS (awaitS S) (\<lambda>_.
         bindS (ask (\<lambda>t. p7_terminal_evidence p (sv_utc S (tk_tick t)) job (vd_target v)
                    (case vd_result v of None \<Rightarrow> None | Some w \<Rightarrow> if is_dict w then Some w else None)
                    (pt_more (st_other (gc_store (tk_core t)))))) (\<lambda>prepared.
         bindS (liftS prepared) (\<lambda>h. returnS (Some h)))))"

definition program_outcome_of :: "job_row \<Rightarrow> message_head \<Rightarrow> verdict \<Rightarrow> program_outcome" where
  "program_outcome_of job h v =
    \<lparr>po_job_id = jb_job_id job, po_device_id = jb_device_id job, po_command_id = jb_command_id job,
     po_payload_hash = jb_payload_hash job, po_target = vd_target v, po_result = vd_result v,
     po_error_code = vd_error_code v, po_error_summary = vd_error_summary v,
     po_session_id = Some (hd_session_id h), po_agent_sequence = Some (hd_sequence h)\<rparr>"

definition job_outcome_of :: "job_row \<Rightarrow> message_head \<Rightarrow> verdict \<Rightarrow> job_outcome" where
  "job_outcome_of job h v =
    \<lparr>jo_job_id = jb_job_id job, jo_device_id = jb_device_id job, jo_command_id = jb_command_id job,
     jo_payload_hash = jb_payload_hash job, jo_target = vd_target v, jo_result = vd_result v,
     jo_error_code = vd_error_code v, jo_error_summary = vd_error_summary v,
     jo_snapshot = vd_snapshot v, jo_session_id = Some (hd_session_id h), jo_expected_version = None,
     jo_agent_sequence = Some (hd_sequence h), jo_evidence = True\<rparr>"

text \<open>
  A program result its own repository refuses: a commit that may have changed the drawing keeps its
  lock and becomes \<open>outcome_unknown\<close>, anything else fails and frees the document.
\<close>

definition PROGRAM_REFUSALS :: "string list" where
  "PROGRAM_REFUSALS = [''program_result_invalid'', ''binding_mismatch'', ''payload_too_large'']"

definition commit_unproven :: "job_row \<Rightarrow> job_row option \<Rightarrow> bool" where
  "commit_unproven job latest \<longleftrightarrow> jb_kind job = ''program_commit'' \<and>
     (case latest of None \<Rightarrow> False
      | Some r \<Rightarrow> jb_state r \<in> {Acknowledged, Running, CancelRequested, OutcomeUnknown})"

definition refused_program_result ::
  "'y service \<Rightarrow> job_row \<Rightarrow> string \<Rightarrow> ('y, job_row option) call" where
  "refused_program_result S job code =
    bindS (get_internal_job S (jb_job_id job)) (\<lambda>latest.
    if commit_unproven job latest then
      bindS (if jb_state (the latest) \<noteq> OutcomeUnknown
             then transition S (jb_job_id job) (failure_to OutcomeUnknown ''binding_mismatch''
                    ''Commit result did not prove its exact execution binding'')
             else returnS latest) (\<lambda>updated.
      bindS (case updated of None \<Rightarrow> returnS ()
             | Some u \<Rightarrow> record_reconcile_outcome S (jb_owner_subject u) (jb_job_id u) OutcomeConflict
                 ''Program result conflicts with the exact execution binding'' 1) (\<lambda>_.
      returnS updated))
    else
      bindS (transition S (jb_job_id job) (failure_to Failed code
               ''Agent returned invalid bounded CAD Program evidence'')) (\<lambda>updated.
      bindS (repoS S (\<lambda>now db. Inr ((), release_write_lock (jb_job_id job) db))) (\<lambda>_.
      returnS updated)))"

definition finish_program_job ::
  "'y service \<Rightarrow> job_row \<Rightarrow> message_head \<Rightarrow> verdict \<Rightarrow> ('y, unit) call" where
  "finish_program_job S job h v =
    (if \<not> sv_has_programs S then raiseS (job_error ''backend_error'' job)
     else
       bindS (catchS
         (bindS (terminal_evidence S job v) (\<lambda>evidence.
          bindS (ask (\<lambda>t. sv_instant S (tk_tick t))) (\<lambda>instant.
          bindS (repoS S (\<lambda>now. finalize_program_job (sv_lib S) (sv_program_lib S) now instant
                   (map_option more_hook evidence) (program_outcome_of job h v))) (\<lambda>z.
          returnS (map_option fst z)))))
         (\<lambda>e. case e of
            StoreFailed (Conflict code) \<Rightarrow>
              if code \<in> set PROGRAM_REFUSALS then refused_program_result S job code else raiseS e
          | _ \<Rightarrow> raiseS e))
         resolve)"

text \<open>The answers of a rollback, and the ordinary observations and fixtures.\<close>

definition rollback_receipt ::
  "'y service \<Rightarrow> job_row \<Rightarrow> verdict \<Rightarrow> ('y, ('y \<Rightarrow> store_error + 'y) option) call" where
  "rollback_receipt S job v =
    (case (sv_phase7 S, vd_result v) of
       (Some p, Some result) \<Rightarrow>
         if vd_target v = Succeeded \<and> jb_kind job = ''rollback_commit'' \<and> is_dict result then
           bindS (awaitS S) (\<lambda>_.
           bindS (ask (\<lambda>t. p7_rollback_receipt p job result (pt_more (st_other (gc_store (tk_core t))))))
             (\<lambda>prepared.
           bindS (liftS prepared) (\<lambda>h. returnS (Some h))))
         else returnS None
     | _ \<Rightarrow> returnS None)"

definition rollback_hook ::
  "job_row \<Rightarrow> ('y \<Rightarrow> store_error + 'y) option \<Rightarrow> ('y \<Rightarrow> store_error + 'y) option \<Rightarrow>
   'y program_tables terminal_hook" where
  "rollback_hook job evidence receipt =
    (if evidence = None \<and> jb_kind job \<noteq> ''rollback_commit'' then None
     else Some (\<lambda>r t.
       bindE (case evidence of None \<Rightarrow> Inr t | Some h \<Rightarrow> more_hook h r t) (\<lambda>t1.
       bindE (case receipt of None \<Rightarrow> Inr t1 | Some h \<Rightarrow> more_hook h r t1) (\<lambda>t2.
       Inr (if jb_kind job = ''rollback_commit''
            then t2\<lparr>pt_locks := delete_where (\<lambda>l. lk_job_id l = jb_job_id job) (pt_locks t2)\<rparr>
            else t2)))))"

definition finish_rollback_job ::
  "'y service \<Rightarrow> job_row \<Rightarrow> message_head \<Rightarrow> verdict \<Rightarrow> ('y, unit) call" where
  "finish_rollback_job S job h v =
    bindS (catchS
      (bindS (terminal_evidence S job v) (\<lambda>evidence.
       bindS (rollback_receipt S job v) (\<lambda>receipt.
       bindS (repoS S (\<lambda>now. finalize_job_result (sv_lib S) now (rollback_hook job evidence receipt)
                ((job_outcome_of job h v)\<lparr>jo_snapshot := None\<rparr>))) (\<lambda>z.
       returnS (map_option fst z)))))
      (\<lambda>e. case e of StoreFailed (Conflict code) \<Rightarrow> raiseS (job_error code job) | _ \<Rightarrow> raiseS e))
      resolve"

definition finish_ordinary_job ::
  "'y service \<Rightarrow> job_row \<Rightarrow> message_head \<Rightarrow> verdict \<Rightarrow> ('y, unit) call" where
  "finish_ordinary_job S job h v =
    bindS (catchS
      (bindS (repoS S (\<lambda>now. finalize_job_result (sv_lib S) now None (job_outcome_of job h v)))
        (\<lambda>z. returnS (map_option fst z)))
      (\<lambda>e. case e of
         StoreFailed (Conflict code) \<Rightarrow>
           raiseS (if code = ''terminal_result_conflict'' then job_error code job else e)
       | StoreFailed (BadTransition b) \<Rightarrow> invalid_message job
       | _ \<Rightarrow> raiseS e))
      resolve"

definition finish_job :: "'y service \<Rightarrow> job_row \<Rightarrow> message_head \<Rightarrow> verdict \<Rightarrow> ('y, unit) call" where
  "finish_job S job h v =
    (if jb_kind job \<in> set PROGRAM_JOBS then finish_program_job S job h v
     else if jb_kind job \<in> set ROLLBACK_JOBS then finish_rollback_job S job h v
     else finish_ordinary_job S job h v)"

definition handle_result ::
  "'y service \<Rightarrow> job_row \<Rightarrow> result_class \<Rightarrow> message_head \<Rightarrow> result_body \<Rightarrow> ('y, unit) call" where
  "handle_result S job cls h b =
    (if hd_payload_hash h \<noteq> Some (jb_payload_hash job) then fail_payload S job
     else case cls of
       PlainResult \<Rightarrow>
         bindS (liftS (result_verdict S job (rb_status b) (rb_result b) (rb_error_code b)))
           (finish_job S job h)
     | ProgramResult \<Rightarrow>
         bindS (liftS (validate_program_result_binding job b)) (\<lambda>_.
         if rb_status b = OutcomeUnknown
         then report_unknown S job ''Agent reported an unknown commit outcome''
         else
           bindS (liftS (normalize_program_result job b)) (\<lambda>result.
           bindS (liftS (result_verdict S job (rb_status b) result (rb_error_code b)))
             (finish_job S job h)))
     | RollbackResult \<Rightarrow>
         bindS (liftS (validate_rollback_result_binding job b)) (\<lambda>_.
         if rb_status b = OutcomeUnknown
         then report_unknown S job ''Agent reported an unknown rollback outcome''
         else
           bindS (liftS (result_verdict S job (rb_status b) (rb_result b) (rb_error_code b)))
             (finish_job S job h)))"

section \<open>Reconciliation\<close>

definition reconcile_binding_ok :: "job_row \<Rightarrow> reconcile_body \<Rightarrow> service_error + bool" where
  "reconcile_binding_ok job q =
    (if jb_kind job \<in> set PROGRAM_JOBS then
       (if rq_kind q \<noteq> Some (jb_kind job) then Inr False
        else case rq_binding q of
          None \<Rightarrow> Inr False
        | Some b \<Rightarrow> bindE (program_result_binding (jb_payload job)) (\<lambda>expected. Inr (py_eq b expected)))
     else if jb_kind job \<in> set ROLLBACK_JOBS then
       Inr (is_dict (jb_payload job) \<and> rq_kind q = Some (jb_kind job)
         \<and> (case rq_binding q of None \<Rightarrow> False
            | Some b \<Rightarrow> py_eq b (jget (jb_payload job) ''binding'')))
     else Inr True)"

definition result_class_of :: "job_row \<Rightarrow> result_class" where
  "result_class_of job =
    (if jb_kind job \<in> set PROGRAM_JOBS then ProgramResult
     else if jb_kind job \<in> set ROLLBACK_JOBS then RollbackResult else PlainResult)"

definition reconcile_result_head ::
  "agent_connection \<Rightarrow> job_row \<Rightarrow> message_head \<Rightarrow> message_head" where
  "reconcile_result_head c job h =
    \<lparr>hd_session_id = cn_session_id c, hd_device_id = cn_device_id c,
     hd_job_id = Some (jb_job_id job), hd_command_id = jb_command_id job,
     hd_sequence = hd_sequence h, hd_payload_hash = hd_payload_hash h\<rparr>"

definition reconcile_result_body :: "job_row \<Rightarrow> reconcile_body \<Rightarrow> job_state \<Rightarrow> result_body" where
  "reconcile_result_body job q status =
    \<lparr>rb_kind = (if result_class_of job = PlainResult then None else rq_kind q),
     rb_binding = (case rq_binding q of None \<Rightarrow> JNull | Some b \<Rightarrow> b),
     rb_status = status, rb_result = rq_result q, rb_error_code = rq_error_code q\<rparr>"

text \<open>The answer is read as the result message it stands for, whose model checks the result.\<close>

definition reconcile_terminal ::
  "'y service \<Rightarrow> nat \<Rightarrow> conn_ref \<Rightarrow> job_row \<Rightarrow> message_head \<Rightarrow> reconcile_body \<Rightarrow> job_state \<Rightarrow>
   ('y, unit) call" where
  "reconcile_terminal S attempt r job h q status =
    bindS (liftS (reconcile_binding_ok job q)) (\<lambda>ok.
    if \<not> ok then
      record_reconcile_outcome S (jb_owner_subject job) (jb_job_id job) OutcomeConflict
        ''Agent reconciliation binding conflicts with the durable job'' (attempt + 1)
    else if jb_kind job \<in> {''program_commit'', ''rollback_commit''} \<and> jb_state job = OutcomeUnknown
        \<and> status = Failed \<and> rq_error_code q = Some ''outcome_unknown'' then
      record_reconcile_outcome S (jb_owner_subject job) (jb_job_id job) OutcomeInconclusive
        ''Agent ledger cannot prove the exact write outcome'' (attempt + 1)
    else
      bindS (connectionS r) (\<lambda>c.
      let head = reconcile_result_head c job h; body = reconcile_result_body job q status
      in
      bindS (liftS (sv_result_message S (result_class_of job) head body (rq_error_message q))) (\<lambda>result.
      handle_result S job (result_class_of job) head (body\<lparr>rb_result := result\<rparr>))))"

text \<open>A conflict of versions is tried again with the fresh row; \<open>again\<close> is \<open>None\<close> at the last attempt.\<close>

definition retry_race ::
  "('y, unit) call option \<Rightarrow> ('y, unit) call \<Rightarrow> service_error \<Rightarrow> ('y, unit) call" where
  "retry_race again otherwise e =
    (case again of
       None \<Rightarrow> otherwise
     | Some m \<Rightarrow> if e = StoreFailed (Conflict ''cas_conflict'') then m else otherwise)"

definition retry_or_raise :: "('y, unit) call option \<Rightarrow> service_error \<Rightarrow> ('y, unit) call" where
  "retry_or_raise again e = retry_race again (raiseS e) e"

definition versioned :: "job_row \<Rightarrow> job_state \<Rightarrow> bool \<Rightarrow> job_change" where
  "versioned job target evidence =
    (change_to target)\<lparr>jc_expected_version := Some (jb_state_version job), jc_evidence := evidence\<rparr>"

definition cancel_wanted :: "job_row \<Rightarrow> bool" where
  "cancel_wanted job \<longleftrightarrow> (\<exists>s. jb_cancel_requested_at job = Some s \<and> s \<noteq> [])"

lemma cancel_wanted_code [code]:
  "cancel_wanted job = (case jb_cancel_requested_at job of None \<Rightarrow> False | Some s \<Rightarrow> s \<noteq> [])"
  by (auto simp: cancel_wanted_def split: option.splits)

definition CANCEL_REASON :: string where
  "CANCEL_REASON = ''Durable cancellation requested before reconnect''"

text \<open>The job's outcome is unknown to the gateway: it is never sent again.\<close>

definition reconcile_unknown ::
  "'y service \<Rightarrow> ('y, unit) call option \<Rightarrow> nat \<Rightarrow> conn_ref \<Rightarrow> job_row \<Rightarrow> bool \<Rightarrow> ('y, unit) call" where
  "reconcile_unknown S again attempt r job started =
    (if started then
       bindS (if cancel_wanted job then send_cancel S r job CANCEL_REASON else returnS ()) (\<lambda>_.
       record_reconcile_outcome S (jb_owner_subject job) (jb_job_id job) OutcomeInconclusive
         ''Agent reports started without exact terminal evidence'' (attempt + 1))
     else if cancel_wanted job then
       tryS (transition S (jb_job_id job) (versioned job NeedsAttention False))
         (retry_or_raise again)
         (\<lambda>updated. bindS (resolve updated) (\<lambda>_. recovery_for S updated ''bounded_inconclusive''))
     else
       catchS
         (bindS (transition S (jb_job_id job) (versioned job NeedsAttention True)) (\<lambda>updated.
          bindS (resolve updated) (\<lambda>_. recovery_for S updated ''bounded_inconclusive'')))
         (\<lambda>e. retry_race again (ignore_race e) e))"

text \<open>The Agent never started the job: it is cancelled if so wished, else queued and dispatched again.\<close>

definition reconcile_not_started ::
  "'y service \<Rightarrow> ('y, unit) call option \<Rightarrow> job_row \<Rightarrow> ('y, unit) call" where
  "reconcile_not_started S again job =
    (if cancel_wanted job then
       tryS (transition S (jb_job_id job) (versioned job Cancelled True)) (retry_or_raise again) resolve
     else
       catchS
         (bindS (transition S (jb_job_id job) (versioned job Queued True)) (\<lambda>updated.
          case updated of
            None \<Rightarrow> raiseS (PyError ''TypeError'')
          | Some u \<Rightarrow> bindS (dispatch S (jb_job_id u) (jb_job_id u)) (\<lambda>_. returnS ())))
         (\<lambda>e. case e of
            DurableJobError code _ _ \<Rightarrow>
              if code \<in> {''device_offline'', ''capability_missing''} then returnS () else raiseS e
          | _ \<Rightarrow> retry_or_raise again e))"

text \<open>The Agent has started it: a read goes on, the outcome of a write is unknown.\<close>

definition reconcile_started ::
  "'y service \<Rightarrow> ('y, unit) call option \<Rightarrow> nat \<Rightarrow> conn_ref \<Rightarrow> job_row \<Rightarrow> ('y, unit) call" where
  "reconcile_started S again attempt r job =
    (let target = (if jb_effect_class job = WriteEffect then OutcomeUnknown else Running)
     in
     tryS (transition S (jb_job_id job) (versioned job target True)) (retry_or_raise again) (\<lambda>first.
       bindS
         (if \<not> cancel_wanted job then returnS first
          else bindS (if target = Running then transition S (jb_job_id job) (change_to CancelRequested)
                      else returnS first) (\<lambda>updated.
               bindS (send_cancel S r (case updated of None \<Rightarrow> job | Some u \<Rightarrow> u) CANCEL_REASON) (\<lambda>_.
               returnS updated)))
         (\<lambda>updated.
          bindS (resolve updated) (\<lambda>_.
          case updated of
            None \<Rightarrow> returnS ()
          | Some u \<Rightarrow>
              if target = OutcomeUnknown
              then record_reconcile_outcome S (jb_owner_subject u) (jb_job_id u) OutcomeInconclusive
                     ''Agent reports the write started without terminal evidence'' (attempt + 1)
              else returnS ()))))"

definition reconcile_step ::
  "'y service \<Rightarrow> ('y, unit) call option \<Rightarrow> nat \<Rightarrow> conn_ref \<Rightarrow> message_head \<Rightarrow> reconcile_body \<Rightarrow>
   job_row option \<Rightarrow> ('y, unit) call" where
  "reconcile_step S again attempt r h q known =
    bindS (connectionS r) (\<lambda>c.
    bindS (readS S (get_job_by_command (cn_device_id c) (hd_command_id h))) (\<lambda>latest.
    case (case latest of None \<Rightarrow> known | Some j \<Rightarrow> Some j) of
      None \<Rightarrow> raiseS (DurableJobError ''invalid_message'' None None)
    | Some job \<Rightarrow>
        bindS (connectionS r) (\<lambda>c.
        bindS (liftS (validate_message_binding c job h)) (\<lambda>_.
        if hd_payload_hash h \<noteq> Some (jb_payload_hash job) then fail_payload S job
        else if rq_status q = AnswerTerminal then
          (case rq_result_status q of
             Some status \<Rightarrow> reconcile_terminal S attempt r job h q status
           | None \<Rightarrow> invalid_message job)
        else if jb_state job = OutcomeUnknown
        then reconcile_unknown S again attempt r job (rq_status q = AnswerStarted)
        else if jb_state job = ReconnectPending then
          (if rq_status q = AnswerNotStarted then reconcile_not_started S again job
           else reconcile_started S again attempt r job)
        else invalid_message job))))"

text \<open>Attempts 0, 1 and 2; a retry looks the job up again.\<close>

function handle_reconcile_result ::
  "'y service \<Rightarrow> nat \<Rightarrow> conn_ref \<Rightarrow> message_head \<Rightarrow> reconcile_body \<Rightarrow> job_row option \<Rightarrow> ('y, unit) call"
where
  "handle_reconcile_result S attempt r h q known =
    reconcile_step S
      (if attempt < 2 then Some (handle_reconcile_result S (attempt + 1) r h q None) else None)
      attempt r h q known"
  by pat_completeness auto
termination handle_reconcile_result
  by (relation "measure (\<lambda>(S, attempt, r, h, q, known). 2 - attempt)") auto

declare handle_reconcile_result.simps [simp del]

section \<open>Messages\<close>

definition handle_message :: "'y service \<Rightarrow> conn_ref \<Rightarrow> agent_message \<Rightarrow> ('y, unit) call" where
  "handle_message S r m =
    (let h = head_of m
     in
     bindS (connectionS r) (\<lambda>c.
     bindS (readS S (get_job_by_command (cn_device_id c) (hd_command_id h))) (\<lambda>found.
     case found of
       None \<Rightarrow> raiseS (DurableJobError ''invalid_message'' None None)
     | Some job \<Rightarrow>
         bindS (connectionS r) (\<lambda>c.
         bindS (liftS (validate_message_binding c job h)) (\<lambda>_.
         if hd_payload_hash h \<notin> {None, Some (jb_payload_hash job)} then fail_payload S job
         else case m of
           AckMessage h b \<Rightarrow> handle_ack S r job h b
         | ProgressMessage h b \<Rightarrow> handle_progress S job h b
         | ResultMessage cls h b \<Rightarrow> handle_result S job cls h b
         | ReconcileResultMessage h q \<Rightarrow> handle_reconcile_result S 0 r h q (Some job)
         | OtherMessage h \<Rightarrow> returnS ())))))"

definition validate_message :: "'y service \<Rightarrow> conn_ref \<Rightarrow> agent_message \<Rightarrow> ('y, bool) call" where
  "validate_message S r m =
    bindS (connectionS r) (\<lambda>c.
    bindS (readS S (get_job_by_command (cn_device_id c) (hd_command_id (head_of m)))) (\<lambda>found.
    case found of
      None \<Rightarrow> returnS False
    | Some job \<Rightarrow>
        bindS (connectionS r) (\<lambda>c.
        returnS (validate_message_binding c job (head_of m) = Inr ()))))"

section \<open>Waiting for a job\<close>

text \<open>
  \<open>asyncio.wait_for(asyncio.shield(waiter), timeout)\<close>: after the suspension the future is resolved,
  cancelled, or the time is up and the durable row is read instead.
\<close>

definition await_job :: "'y service \<Rightarrow> string \<Rightarrow> job_row \<Rightarrow> nat \<Rightarrow> ('y, job_row) call" where
  "await_job S owner job w =
    bindS (awaitS S) (\<lambda>_.
    bindS (ask (\<lambda>t. gc_futures (tk_core t) ! w)) (\<lambda>f.
    case f of
      Resolved r \<Rightarrow> returnS r
    | Cancelled_future \<Rightarrow> raiseS FutureCancelled
    | Pending \<Rightarrow> bindS (readS S (get_job owner (jb_job_id job))) (\<lambda>current.
        returnS (case current of None \<Rightarrow> job | Some r \<Rightarrow> r))))"

definition wait_for_existing_job ::
  "'y service \<Rightarrow> job_row \<Rightarrow> string \<Rightarrow> string \<Rightarrow> ('y, job_row) call" where
  "wait_for_existing_job S job owner correlation_id =
    (if is_terminal (jb_state job) then returnS job
     else
       bindS (waiter_for (jb_job_id job)) (\<lambda>w.
       bindS (catchS (dispatch S (jb_job_id job) correlation_id)
         (\<lambda>e. case e of
            DurableJobError code _ _ \<Rightarrow>
              bindS (readS S (get_job owner (jb_job_id job))) (\<lambda>current.
              raiseS (DurableJobError code (Some (jb_job_id job)) (Some (job_state_now current job))))
          | _ \<Rightarrow> raiseS e)) (\<lambda>_.
       await_job S owner job w)))"

definition observe_request :: "string \<Rightarrow> string \<Rightarrow> json \<Rightarrow> string \<Rightarrow> string option \<Rightarrow> job_request" where
  "observe_request owner device_id payload key deadline_at =
    \<lparr>jr_owner_subject = owner, jr_device_id = device_id, jr_kind = ''observe'',
     jr_effect_class = ReadEffect, jr_payload = payload, jr_idempotency_key = key,
     jr_deadline_at = deadline_at\<rparr>"

definition create_durable_job :: "'y service \<Rightarrow> job_request \<Rightarrow> ('y, job_row) call" where
  "create_durable_job S q =
    bindS (awaitS S) (\<lambda>_.
    bindS (transactionS (\<lambda>n. create_job (sv_lib S) (pl_wire_hash (sv_program_lib S)) (sv_utc S n)
             (sv_new_id S (2 * n)) (sv_new_id S (2 * n + 1)) q)) (\<lambda>x.
    bindS (awaitS S) (\<lambda>_. returnS (fst x))))"

definition create_and_observe ::
  "'y service \<Rightarrow> string \<Rightarrow> string \<Rightarrow> json \<Rightarrow> string \<Rightarrow> string \<Rightarrow> string option \<Rightarrow> ('y, job_row) call" where
  "create_and_observe S owner device_id payload correlation_id key deadline_at =
    bindS (catchS (create_durable_job S (observe_request owner device_id payload key deadline_at))
      (\<lambda>e. case e of
         StoreFailed (Conflict code) \<Rightarrow>
           raiseS (DurableJobError (if code = ''payload_mismatch'' then ''idempotency_conflict'' else code)
                     None None)
       | _ \<Rightarrow> raiseS e)) (\<lambda>job.
    wait_for_existing_job S job owner correlation_id)"

end
