(* ===== verification/JobSteps.thy ===== *)
theory JobSteps
  imports JobService ProgramProperties
begin

text \<open>
  Every repository call of \<open>DurableJobService\<close> is a step of the combined store: it takes part in the
  invariants and the run properties of the store, of the programs and of the write locks.
\<close>

section \<open>Only a program result makes a commit succeed\<close>

lemma same_jobs_no_commit: "st_jobs db' = st_jobs db \<Longrightarrow> jobs_ok db \<Longrightarrow> no_new_commit db db'"
  by (auto simp: no_new_commit_def jobs_ok_def job_row_of_mem)

lemma update_no_commit:
  assumes "st_jobs db' = update_where p f (st_jobs db)" "jobs_ok db"
    and "\<And>r. r \<in> set (st_jobs db) \<Longrightarrow> p r \<Longrightarrow> \<not> (jb_kind (f r) = ''program_commit'' \<and> jb_state (f r) = Succeeded)"
  shows "no_new_commit db db'"
  using assms(2,3) unfolding no_new_commit_def assms(1) set_update_where
  by (auto simp: jobs_ok_def job_row_of_mem)

lemma append_no_commit:
  "st_jobs db' = st_jobs db @ [r] \<Longrightarrow> jobs_ok db \<Longrightarrow> jb_state r = Queued \<Longrightarrow> no_new_commit db db'"
  by (auto simp: no_new_commit_def jobs_ok_def job_row_of_mem)

lemma same_tables_keeps: "st_other db' = st_other db \<Longrightarrow> keeps_tables db db'"
  by (simp add: keeps_tables_def same_locks_frees)

lemma append_event_jobs: "append_event L now k ty st pg res err db = Inr db' \<Longrightarrow> st_jobs db' = st_jobs db"
  using append_event_Inr [of L now k ty st pg res err db db'] by auto

lemma cas_update_Inr:
  "cas_update k s v f db = Inr db' \<Longrightarrow>
   db' = db\<lparr>st_jobs := update_where (\<lambda>r. jb_job_id r = k \<and> jb_state r = s \<and> jb_state_version r = v) f
     (st_jobs db)\<rparr>"
  by (auto simp: cas_update_def Let_def split: if_splits)

lemma cas_no_commit:
  assumes "cas_update k s v f db = Inr db1" "append_event L now k ty st pg res err db1 = Inr db'"
    and "jobs_ok db" "\<And>r. jb_state r = s \<Longrightarrow> jb_state (f r) \<noteq> Succeeded"
  shows "no_new_commit db db'"
proof (rule update_no_commit)
  show "st_jobs db' = update_where (\<lambda>r. jb_job_id r = k \<and> jb_state r = s \<and> jb_state_version r = v) f
      (st_jobs db)"
    using append_event_jobs [OF assms(2)] cas_update_Inr [OF assms(1)] by simp
qed (use assms(3,4) in auto)

section \<open>The calls\<close>

lemma claim_program_step:
  assumes "claim_job L now k db = Inr (x, db')" "program_ok db"
  shows "program_step db db'"
proof (rule pstep_store)
  show "store_step db db'" using assms(1) by (rule step_claim)
  have j: "jobs_ok db" using assms(2) by (simp add: program_ok_def store_ok_def)
  show "keeps_tables db db'"
    using claim_job_delta [OF assms(1) j] by (simp add: only_jobs_def same_tables_keeps)
  show "no_new_commit db db'"
    using assms(1) same_jobs_no_commit [OF refl j]
    by (auto simp: claim_job_def result_simps split: option.splits if_splits sum.splits
        elim!: cas_no_commit [OF _ _ j])
qed

lemma transition_program_step:
  assumes "transition_job L now k c db = Inr (x, db')" "program_ok db" "jc_target c \<noteq> Succeeded"
  shows "program_step db db'"
proof (rule pstep_store)
  show "store_step db db'" using assms(1) by (rule step_transition)
  have j: "jobs_ok db" using assms(2) by (simp add: program_ok_def store_ok_def)
  show "keeps_tables db db'"
    using transition_job_delta [OF assms(1) j] by (simp add: only_jobs_def same_tables_keeps)
  show "no_new_commit db db'"
    using assms(1,3) same_jobs_no_commit [OF refl j]
    by (auto simp: transition_job_def transitioned_row_def result_simps split: option.splits if_splits
        elim!: cas_no_commit [OF _ _ j])
qed

lemma cancel_target_nonterminal: "cancel_target s e = Inr t \<Longrightarrow> t \<noteq> Succeeded"
  by (auto simp: cancel_target_def result_simps split: if_splits)

lemma cancel_program_step:
  assumes "request_job_cancel L now k ver db = Inr (x, db')" "program_ok db"
  shows "program_step db db'"
proof (rule pstep_store)
  show "store_step db db'" using assms(1) by (rule step_cancel)
  have j: "jobs_ok db" using assms(2) by (simp add: program_ok_def store_ok_def)
  show "keeps_tables db db'"
    using request_job_cancel_delta [OF assms(1) j] by (simp add: only_jobs_def same_tables_keeps)
  show "no_new_commit db db'"
    using assms(1) same_jobs_no_commit [OF refl j]
    by (auto simp: request_job_cancel_def result_simps split: option.splits if_splits
        dest!: cancel_target_nonterminal elim!: cas_no_commit [OF _ _ j])
qed

lemma progress_program_step:
  assumes "append_progress L now k p db = Inr (x, db')" "program_ok db"
  shows "program_step db db'"
proof (rule pstep_store)
  show "store_step db db'" using assms(1) by (rule step_progress)
  have j: "jobs_ok db" using assms(2) by (simp add: program_ok_def store_ok_def)
  show "keeps_tables db db'"
    using append_progress_delta [OF assms(1) j] by (simp add: only_jobs_def same_tables_keeps)
  show "no_new_commit db db'"
    using assms(1) same_jobs_no_commit [OF refl j]
    by (auto simp: append_progress_def result_simps split: option.splits if_splits
        elim!: cas_no_commit [OF _ _ j])
qed

lemma create_program_step:
  assumes "create_job L wire now nj nc q db = Inr ((r, dup), db')" "program_ok db"
  shows "program_step db db'"
proof (rule pstep_store)
  show "store_step db db'" using assms(1) by (rule step_create)
  have j: "jobs_ok db" using assms(2) by (simp add: program_ok_def store_ok_def)
  note d = create_job_delta [OF assms(1) j]
  show "keeps_tables db db'" using d by (simp add: same_tables_keeps)
  show "no_new_commit db db'"
  proof (cases dup)
    case True
    have row: "\<exists>r0. job_row_of (jb_job_id r') db = Some r0 \<and> jb_state r0 = jb_state r'"
      if "r' \<in> set (st_jobs db')" for r'
    proof -
      have "job_content r' \<in> job_content ` set (st_jobs db)"
        using that d True by (metis image_eqI list.set_map)
      then obtain r0 where r0: "r0 \<in> set (st_jobs db)" "job_content r0 = job_content r'" by force
      then show ?thesis
        using job_content_eq [OF r0(2)] j job_row_of_mem [of db r0] by (auto simp: jobs_ok_def)
    qed
    show ?thesis unfolding no_new_commit_def using row by force
  next
    case False
    then show ?thesis using d append_no_commit [OF _ j] by auto
  qed
qed

text \<open>Ordinary and rollback results: the job is not a program, its hook frees the lock it held.\<close>

lemma more_hook_Inr: "more_hook h r t = Inr u \<Longrightarrow> \<exists>y. u = t\<lparr>pt_more := y\<rparr>"
  by (auto simp: more_hook_def result_simps)

lemma optional_more_hook:
  assumes "(case ev of None \<Rightarrow> Inr t | Some h \<Rightarrow> more_hook h r t) = Inr u"
  shows "\<exists>y. u = t\<lparr>pt_more := y\<rparr>"
proof (cases ev)
  case None
  then have "u = t\<lparr>pt_more := pt_more t\<rparr>" using assms by simp
  then show ?thesis by blast
qed (use assms more_hook_Inr in auto)

definition hooked :: "string \<Rightarrow> 'y program_tables \<Rightarrow> 'y program_tables \<Rightarrow> bool" where
  "hooked k t u \<longleftrightarrow> pt_receipts u = pt_receipts t \<and>
     (\<exists>p. pt_locks u = delete_where p (pt_locks t) \<and> (\<forall>l. p l \<longrightarrow> lk_job_id l = k))"

lemma hooked_more: "hooked k t (t\<lparr>pt_more := y\<rparr>)"
  unfolding hooked_def by (auto intro!: exI [of _ "\<lambda>_. False"] simp: delete_where_def)

lemma hooked_delete:
  "hooked k t (t\<lparr>pt_more := y, pt_locks := delete_where (\<lambda>l. lk_job_id l = k) (pt_locks t)\<rparr>)"
  unfolding hooked_def by auto

lemma rollback_hook_tables:
  assumes "run_hook (rollback_hook job ev rc) row db = Inr db'"
  shows "hooked (jb_job_id job) (st_other db) (st_other db')"
proof (cases "rollback_hook job ev rc")
  case None
  then show ?thesis
    using assms hooked_more [of _ "st_other db" "pt_more (st_other db)"] by (simp add: run_hook_def)
next
  case (Some h)
  then obtain t1 t2 where t:
    "(case ev of None \<Rightarrow> Inr (st_other db) | Some h \<Rightarrow> more_hook h row (st_other db)) = Inr t1"
    "(case rc of None \<Rightarrow> Inr t1 | Some h \<Rightarrow> more_hook h row t1) = Inr t2"
    "st_other db' = (if jb_kind job = ''rollback_commit''
       then t2\<lparr>pt_locks := delete_where (\<lambda>l. lk_job_id l = jb_job_id job) (pt_locks t2)\<rparr> else t2)"
    using assms by (auto simp: rollback_hook_def run_hook_def result_simps split: if_splits)
  obtain y where "t2 = (st_other db)\<lparr>pt_more := y\<rparr>"
    using optional_more_hook [OF t(1)] optional_more_hook [OF t(2)] by auto
  then show ?thesis using t(3) hooked_more hooked_delete by auto
qed

text \<open>What a finalisation does to the other tables is what its hook does, and it rewrites one row.\<close>

lemma finalize_shape:
  assumes "finalize_job_result L now hook ou db = Inr (z, db')"
    and "job_row_of (jo_job_id ou) db = Some row"
  shows "\<exists>db1 db2. st_other db1 = st_other db \<and> run_hook hook row db1 = Inr db2 \<and>
    st_other db' = st_other db2 \<and>
    (st_jobs db' = st_jobs db \<or> (\<exists>s v. st_jobs db' = update_where
       (\<lambda>r. jb_job_id r = jo_job_id ou \<and> jb_state r = s \<and> jb_state_version r = v)
       (finalized_row now ou) (st_jobs db)))"
proof -
  obtain snapshot where s: "effective_snapshot ou = Inr snapshot"
    using assms(1) by (auto simp: finalize_job_result_def result_simps)
  show ?thesis
  proof (cases "is_terminal (jb_state row)")
    case True
    then obtain db2 where "run_hook hook row db = Inr db2" "db' = db2"
      using assms s by (auto simp: finalize_job_result_def result_simps split: if_splits)
    moreover have "st_jobs db2 = st_jobs db" using run_hook_Inr [OF calculation(1)] by auto
    ultimately show ?thesis by (intro exI [of _ db] exI [of _ db2]) simp
  next
    case False
    then obtain db1 db2 db3 db4 where u:
      "(case snapshot of None \<Rightarrow> Inr db | Some v \<Rightarrow> insert_snapshot L now row v db) = Inr db1"
      "run_hook hook row db1 = Inr db2"
      "cas_update (jo_job_id ou) (jb_state row) (jb_state_version row) (finalized_row now ou) db2 = Inr db3"
      "append_event L now (jo_job_id ou) StateEvent (Some (jo_target ou)) None (jo_result ou)
         (jo_error_code ou) db3 = Inr db4" "db' = db4"
      using assms s by (auto simp: finalize_job_result_def result_simps split: if_splits)
    have db1: "st_other db1 = st_other db" "st_jobs db1 = st_jobs db"
      using u(1) insert_snapshot_Inr by (cases snapshot; fastforce)+
    have db4: "st_other db4 = st_other db2" "st_jobs db4 = st_jobs db3"
      using append_event_Inr [OF u(4)] cas_update_Inr [OF u(3)] by auto
    have "st_jobs db2 = st_jobs db1" using run_hook_Inr [OF u(2)] by auto
    then have "st_jobs db' = update_where (\<lambda>r. jb_job_id r = jo_job_id ou \<and> jb_state r = jb_state row \<and>
        jb_state_version r = jb_state_version row) (finalized_row now ou) (st_jobs db)"
      using cas_update_Inr [OF u(3)] db1 db4 u(5) by simp
    then show ?thesis using u(2,5) db1(1) db4(1) by blast
  qed
qed

lemma finalize_program_step:
  assumes "finalize_job_result L now (rollback_hook job ev rc) ou db = Inr (z, db')" "program_ok db"
    and "job_row_of (jo_job_id ou) db = Some row" "jb_kind row \<noteq> ''program_commit''"
    and "jo_job_id ou = jb_job_id job"
  shows "program_step db db'"
proof (rule pstep_store)
  show "store_step db db'" using assms(1) by (rule step_finalize)
  have j: "jobs_ok db" using assms(2) by (simp add: program_ok_def store_ok_def)
  have fin: "job_finished (jo_job_id ou) db'"
    using finalize_cases [OF assms(1) j] assms(3)
    by (auto simp: job_finished_def finalizes_def split: if_splits)
  obtain db1 db2 where o: "st_other db1 = st_other db"
    "run_hook (rollback_hook job ev rc) row db1 = Inr db2" "st_other db' = st_other db2"
    "st_jobs db' = st_jobs db \<or> (\<exists>s v. st_jobs db' = update_where
       (\<lambda>r. jb_job_id r = jo_job_id ou \<and> jb_state r = s \<and> jb_state_version r = v)
       (finalized_row now ou) (st_jobs db))"
    using finalize_shape [OF assms(1,3)] by blast
  have "hooked (jb_job_id job) (st_other db) (st_other db')"
    using rollback_hook_tables [OF o(2)] o(1,3) by simp
  then show "keeps_tables db db'"
    using fin assms(5) unfolding keeps_tables_def frees_locks_def hooked_def by metis
  have "r = row" if "r \<in> set (st_jobs db)" "jb_job_id r = jo_job_id ou" for r
    using job_row_of_mem [of db r] that assms(3) j by (simp add: jobs_ok_def)
  then have "\<And>r. r \<in> set (st_jobs db) \<Longrightarrow> jb_job_id r = jo_job_id ou \<Longrightarrow>
      jb_kind (finalized_row now ou r) \<noteq> ''program_commit''"
    using assms(4) by (auto simp: finalized_row_def)
  then show "no_new_commit db db'"
    using o(4) same_jobs_no_commit [OF _ j] update_no_commit [OF _ j] by auto
qed

lemma finalize_missing:
  "finalize_job_result L now hook ou db = Inr (z, db') \<Longrightarrow> job_row_of (jo_job_id ou) db = None \<Longrightarrow>
   z = None \<and> db' = db"
  by (auto simp: finalize_job_result_def result_simps)

end
