(* ===== verification/JobGuarantee.thy ===== *)
theory JobGuarantee
  imports JobSteps
begin

text \<open>
  What a method of \<open>DurableJobService\<close> does to the shared state, whatever the other tasks do at its
  suspension points: it only performs steps of the store, and it sends a command only for a job it
  has itself claimed and only to a connection that passes the dispatch checks.  The rules follow the
  combinators of theory Service, as in a rely-guarantee proof: the rely is that the other tasks
  keep the same guarantee, and facts about durable jobs are stable under steps of the store.
\<close>

section \<open>Rely and guarantee\<close>

abbreviation task_store :: "'y task \<Rightarrow> 'y program_db" where
  "task_store t \<equiv> gc_store (tk_core t)"

abbreviation task_sent :: "'y task \<Rightarrow> sent_message list" where
  "task_sent t \<equiv> gc_sent (tk_core t)"

text \<open>A row a method holds is an earlier version of the stored one.\<close>

definition known :: "'y program_db \<Rightarrow> job_row \<Rightarrow> bool" where
  "known db job \<longleftrightarrow> (\<exists>r. job_row_of (jb_job_id job) db = Some r \<and> job_identity r = job_identity job \<and>
     (is_terminal (jb_state job) \<longrightarrow> is_terminal (jb_state r)))"

text \<open>How often a job was dispatched, by its log, and how many commands were handed out for it.\<close>

definition dispatches :: "string \<Rightarrow> 'y program_db \<Rightarrow> nat" where
  "dispatches k db = count_list (state_trail k (st_events db)) (Some Dispatched)"

definition command_for :: "string \<Rightarrow> sent_message \<Rightarrow> bool" where
  "command_for k s = (case sm_message s of CommandOut j _ \<Rightarrow> j = k | _ \<Rightarrow> False)"

definition commands :: "string \<Rightarrow> sent_message list \<Rightarrow> nat" where
  "commands k ms = length (filter (command_for k) ms)"

text \<open>Every command went to a connection that passed the checks for its job.\<close>

definition may_dispatch :: "dispatch_policy \<Rightarrow> job_row \<Rightarrow> agent_connection \<Rightarrow> bool" where
  "may_dispatch D job c \<longleftrightarrow> (\<exists>text. dispatch_failure D job (Some c) None = Inr (None, text))"

definition gated :: "'y service \<Rightarrow> 'y program_db \<Rightarrow> sent_message list \<Rightarrow> bool" where
  "gated S db ms \<longleftrightarrow> (\<forall>s \<in> set ms. \<forall>k. command_for k s \<longrightarrow>
     (\<exists>r. job_row_of k db = Some r \<and> may_dispatch (sv_policy S) r (sm_seen s)))"

text \<open>The guarantee; \<open>credit\<close> is a job that was claimed and whose command is not yet sent.\<close>

definition core_acts :: "'y service \<Rightarrow> string option \<Rightarrow> 'y core \<Rightarrow> 'y core \<Rightarrow> bool" where
  "core_acts S credit c c' \<longleftrightarrow>
     steps program_step (gc_store c) (gc_store c') \<and>
     (\<exists>ms. gc_sent c' = gc_sent c @ ms \<and> gated S (gc_store c') ms \<and>
        (\<forall>k. commands k ms + dispatches k (gc_store c) \<le>
             dispatches k (gc_store c') + (if credit = Some k then 1 else 0)))"

abbreviation acts :: "'y service \<Rightarrow> string option \<Rightarrow> 'y task \<Rightarrow> 'y task \<Rightarrow> bool" where
  "acts S credit t t' \<equiv> core_acts S credit (tk_core t) (tk_core t')"

text \<open>The rely: what runs at a suspension keeps the guarantee too.\<close>

definition fair_tasks :: "'y service \<Rightarrow> bool" where
  "fair_tasks S \<longleftrightarrow> (\<forall>n c. program_ok (gc_store c) \<longrightarrow> core_acts S None c (sv_others S n c))"

section \<open>Stability\<close>

lemma known_steps:
  assumes "known db job" "steps program_step db db'" "program_ok db"
  shows "known db' job"
proof -
  obtain r where r: "job_row_of (jb_job_id job) db = Some r" "job_identity r = job_identity job"
    "is_terminal (jb_state job) \<longrightarrow> is_terminal (jb_state r)" using assms(1) by (auto simp: known_def)
  obtain r' where r': "job_row_of (jb_job_id job) db' = Some r'" "keeps_job r r'"
    using program_job_steps [OF assms(2,3) r(1)] by blast
  have "is_terminal (jb_state r) \<longrightarrow> is_terminal (jb_state r')"
    using finished_row [OF r'(2)] by auto
  then show ?thesis using r r' by (auto simp: known_def keeps_job_def)
qed

lemma known_row: "job_row_of k db = Some r \<Longrightarrow> known db r"
  using job_row_of_Some [of k db r] by (auto simp: known_def)

lemma known_mem: "program_ok db \<Longrightarrow> r \<in> set (st_jobs db) \<Longrightarrow> known db r"
  by (rule known_row, rule job_row_of_mem) (auto simp: program_ok_def store_ok_def jobs_ok_def)

lemma program_jobs_ok: "program_ok db \<Longrightarrow> jobs_ok db"
  by (simp add: program_ok_def store_ok_def)

lemma delta_events: "job_delta db db' \<Longrightarrow> \<exists>es. st_events db' = st_events db @ es"
  by (cases rule: job_delta.cases) auto

lemma dispatches_steps:
  assumes "steps program_step db db'" "program_ok db"
  shows "dispatches k db \<le> dispatches k db'"
  using assms
proof (induction rule: steps.induct)
  case (steps_snoc s t u)
  have "program_ok t" using steps_snoc(1,4) by (rule programs.steps_inv)
  then have "job_delta t u" using program_step_effect [OF steps_snoc(2)] by (simp add: step_effect_def)
  then have "dispatches k t \<le> dispatches k u" using delta_events by (fastforce simp: dispatches_def)
  then show ?case using steps_snoc by simp
qed simp

lemma dispatch_failure_identity:
  assumes "job_identity r = job_identity job"
  shows "dispatch_failure D r c d = dispatch_failure D job c d"
proof -
  have eq: "jb_kind r = jb_kind job" "jb_payload r = jb_payload job"
    using assms by (auto simp: job_identity_def)
  show ?thesis
    unfolding dispatch_failure_def required_capability_def program_dispatch_failure_def
      rollback_dispatch_failure_def ordinary_dispatch_failure_def job_package_def eq ..
qed

lemma gated_steps:
  assumes "gated S db ms" "steps program_step db db'" "program_ok db"
  shows "gated S db' ms"
  unfolding gated_def
proof (intro ballI allI impI)
  fix s k assume "s \<in> set ms" "command_for k s"
  then obtain r where r: "job_row_of k db = Some r" "may_dispatch (sv_policy S) r (sm_seen s)"
    using assms(1) by (auto simp: gated_def)
  obtain r' where r': "job_row_of k db' = Some r'" "keeps_job r r'"
    using program_job_steps [OF assms(2,3) r(1)] by blast
  then have "may_dispatch (sv_policy S) r' (sm_seen s)"
    using r(2) dispatch_failure_identity [of r' r] by (simp add: may_dispatch_def keeps_job_def)
  then show "\<exists>r. job_row_of k db' = Some r \<and> may_dispatch (sv_policy S) r (sm_seen s)" using r' by blast
qed

lemma acts_refl [simp]: "acts S None t t"
  by (auto simp: core_acts_def gated_def commands_def intro: steps_refl)

lemma acts_ok: "acts S c t t' \<Longrightarrow> program_ok (task_store t) \<Longrightarrow> program_ok (task_store t')"
  unfolding core_acts_def using programs.steps_inv by blast

lemma acts_known: "acts S c t t' \<Longrightarrow> program_ok (task_store t) \<Longrightarrow> known (task_store t) j \<Longrightarrow>
  known (task_store t') j"
  unfolding core_acts_def using known_steps by blast

lemma acts_trans:
  assumes "acts S c t u" "acts S d u v" "program_ok (task_store t)" "c = None \<or> d = None"
  shows "acts S (if c = None then d else c) t v"
proof -
  have u: "program_ok (task_store u)" using acts_ok [OF assms(1,3)] .
  obtain ms where ms: "steps program_step (task_store t) (task_store u)" "task_sent u = task_sent t @ ms"
    "gated S (task_store u) ms" "\<forall>k. commands k ms + dispatches k (task_store t) \<le>
      dispatches k (task_store u) + (if c = Some k then 1 else 0)"
    using assms(1) by (auto simp: core_acts_def)
  obtain ns where ns: "steps program_step (task_store u) (task_store v)" "task_sent v = task_sent u @ ns"
    "gated S (task_store v) ns" "\<forall>k. commands k ns + dispatches k (task_store u) \<le>
      dispatches k (task_store v) + (if d = Some k then 1 else 0)"
    using assms(2) by (auto simp: core_acts_def)
  have g: "gated S (task_store v) (ms @ ns)"
    using gated_steps [OF ms(3) ns(1) u] ns(3) by (auto simp: gated_def)
  have "commands k (ms @ ns) + dispatches k (task_store t) \<le> dispatches k (task_store v) +
      (if (if c = None then d else c) = Some k then 1 else 0)" for k
  proof -
    have "commands k ms + dispatches k (task_store t) \<le> dispatches k (task_store u) +
        (if c = Some k then 1 else 0)"
      "commands k ns + dispatches k (task_store u) \<le> dispatches k (task_store v) +
        (if d = Some k then 1 else 0)"
      using ms(4) ns(4) by blast+
    then show ?thesis using assms(4) by (auto simp: commands_def split: if_splits)
  qed
  then show ?thesis
    unfolding core_acts_def using steps_trans [OF ns(1) ms(1)] ms(2) ns(2) g by auto
qed

section \<open>Rules\<close>

text \<open>
  \<open>good S c K m q\<close>: started with the jobs \<open>K\<close> known, the call \<open>m\<close> keeps the guarantee, and the jobs
  \<open>q x\<close> of its result \<open>x\<close> are known at its end.
\<close>

definition good ::
  "'y service \<Rightarrow> string option \<Rightarrow> job_row set \<Rightarrow> ('y, 'a) call \<Rightarrow> ('a \<Rightarrow> job_row set) \<Rightarrow> bool" where
  "good S credit K m q \<longleftrightarrow> (\<forall>t. program_ok (task_store t) \<longrightarrow> (\<forall>j \<in> K. known (task_store t) j) \<longrightarrow>
     acts S credit t (snd (m t)) \<and>
     (\<forall>x. fst (m t) = Inr x \<longrightarrow> (\<forall>j \<in> q x. known (task_store (snd (m t))) j)))"

named_theorems good_rules \<open>the rules of good, one per combinator and repository call\<close>

abbreviation no_jobs :: "'a \<Rightarrow> job_row set" where "no_jobs \<equiv> \<lambda>_. {}"

lemma goodI:
  assumes "\<And>t r t'. program_ok (task_store t) \<Longrightarrow> (\<And>j. j \<in> K \<Longrightarrow> known (task_store t) j) \<Longrightarrow> m t = (r, t') \<Longrightarrow>
    acts S c t t' \<and> (\<forall>x. r = Inr x \<longrightarrow> (\<forall>j \<in> q x. known (task_store t') j))"
  shows "good S c K m q"
  using assms unfolding good_def by (metis prod.collapse)

lemma goodD:
  assumes "good S c K m q" "program_ok (task_store t)" "\<And>j. j \<in> K \<Longrightarrow> known (task_store t) j" "m t = (r, t')"
  shows "acts S c t t'" "program_ok (task_store t')" "\<And>j. j \<in> K \<Longrightarrow> known (task_store t') j"
    "\<And>x j. r = Inr x \<Longrightarrow> j \<in> q x \<Longrightarrow> known (task_store t') j"
proof -
  show a: "acts S c t t'" using assms unfolding good_def by force
  show "program_ok (task_store t')" using acts_ok [OF a assms(2)] .
  show "known (task_store t') j" if "j \<in> K" for j using acts_known [OF a assms(2)] assms(3) that by blast
  show "known (task_store t') j" if "r = Inr x" "j \<in> q x" for x j
    using assms that unfolding good_def by force
qed

lemma good_weaken:
  "good S c K m q \<Longrightarrow> K \<subseteq> K' \<Longrightarrow> (\<And>x. q' x \<subseteq> q x) \<Longrightarrow> good S c K' m q'"
  unfolding good_def by blast

lemma acts_mono:
  assumes "acts S None t t'"
  shows "acts S c t t'"
proof -
  obtain ms where ms: "steps program_step (task_store t) (task_store t')" "task_sent t' = task_sent t @ ms"
    "gated S (task_store t') ms"
    "\<And>k. commands k ms + dispatches k (task_store t) \<le> dispatches k (task_store t')"
    using assms by (auto simp: core_acts_def)
  have "commands k ms + dispatches k (task_store t) \<le>
      dispatches k (task_store t') + (if c = Some k then 1 else 0)" for k
    using ms(4) [of k] by linarith
  then show ?thesis using ms(1-3) by (auto simp: core_acts_def)
qed

lemma good_bind_credit:
  assumes "good S c K m q" "\<And>x. good S d (K \<union> q x) (f x) q'" "c = None \<or> d = None"
  shows "good S (if c = None then d else c) K (bindS m f) q'"
proof (rule goodI)
  fix t r t'
  assume t: "program_ok (task_store t)" "\<And>j. j \<in> K \<Longrightarrow> known (task_store t) j" "bindS m f t = (r, t')"
  obtain r1 u where m: "m t = (r1, u)" by (cases "m t")
  note g = goodD [OF assms(1) t(1,2) m]
  show "acts S (if c = None then d else c) t t' \<and>
      (\<forall>x. r = Inr x \<longrightarrow> (\<forall>j \<in> q' x. known (task_store t') j))"
  proof (cases r1)
    case (Inl e)
    then have "r = Inl e" "t' = u" using t(3) m by (auto simp: bindS_def)
    then show ?thesis using g(1) acts_mono by auto
  next
    case (Inr x)
    then have f: "f x u = (r, t')" using t(3) m by (simp add: bindS_def)
    have K: "\<And>j. j \<in> K \<union> q x \<Longrightarrow> known (task_store u) j" using g(3,4) Inr by blast
    note h = goodD [OF assms(2) g(2) K f]
    show ?thesis using acts_trans [OF g(1) h(1) t(1) assms(3)] h(4) by blast
  qed
qed

lemma good_bind: "good S None K m q \<Longrightarrow> (\<And>x. good S c (K \<union> q x) (f x) q') \<Longrightarrow> good S c K (bindS m f) q'"
  using good_bind_credit [of S None K m q c f q'] by simp

lemma good_bind_first:
  "good S c K m q \<Longrightarrow> (\<And>x. good S None (K \<union> q x) (f x) q') \<Longrightarrow> good S c K (bindS m f) q'"
  using good_bind_credit [of S c K m q None f q'] by (cases c) simp_all

lemma good_try:
  assumes "good S c K m q" "\<And>e. good S None K (h e) q'" "\<And>x. good S None (K \<union> q x) (f x) q'"
  shows "good S c K (tryS m h f) q'"
proof (rule goodI)
  fix t r t'
  assume t: "program_ok (task_store t)" "\<And>j. j \<in> K \<Longrightarrow> known (task_store t) j" "tryS m h f t = (r, t')"
  obtain r1 u where m: "m t = (r1, u)" by (cases "m t")
  note g = goodD [OF assms(1) t(1,2) m]
  have trans: "acts S c t t'" if "acts S None u t'"
    using acts_trans [OF g(1) that t(1)] by (cases c) simp_all
  show "acts S c t t' \<and> (\<forall>x. r = Inr x \<longrightarrow> (\<forall>j \<in> q' x. known (task_store t') j))"
  proof (cases r1)
    case (Inl e)
    then have "h e u = (r, t')" using t(3) m by (simp add: tryS_def)
    from goodD [OF assms(2) g(2,3) this] show ?thesis using trans by blast
  next
    case (Inr x)
    then have f: "f x u = (r, t')" using t(3) m by (simp add: tryS_def)
    have K: "\<And>j. j \<in> K \<union> q x \<Longrightarrow> known (task_store u) j" using g(3,4) Inr by blast
    from goodD [OF assms(3) g(2) K f] show ?thesis using trans by blast
  qed
qed

lemma catch_try: "catchS m h = tryS m h returnS"
  by (simp add: fun_eq_iff catchS_def tryS_def returnS_def split: sum.splits prod.splits)

lemma good_return: "(\<And>j. j \<in> q x \<Longrightarrow> j \<in> K) \<Longrightarrow> good S None K (returnS x) q"
  by (simp add: good_def returnS_def)

lemma good_catch:
  assumes "good S c K m q" "\<And>e. good S None K (h e) q"
  shows "good S c K (catchS m h) q"
  unfolding catch_try by (rule good_try [OF assms]) (auto intro: good_return)

lemma good_raise [good_rules]: "good S None K (raiseS e) q"
  by (simp add: good_def raiseS_def)

lemma good_lift [good_rules]: "good S None K (liftS r) no_jobs"
  by (simp add: good_def liftS_def)

lemma good_ask: "good S None K (ask f) no_jobs"
  by (simp add: good_def ask_def)

lemma good_if [good_rules]: "good S c K m q \<Longrightarrow> good S c K n q \<Longrightarrow> good S c K (if b then m else n) q"
  by simp

lemma good_let [good_rules]: "(\<And>x. x = v \<Longrightarrow> good S c K (f x) q) \<Longrightarrow> good S c K (let x = v in f x) q"
  by simp

lemma good_set_core:
  "(\<And>c. gc_store (f c) = gc_store c) \<Longrightarrow> (\<And>c. gc_sent (f c) = gc_sent c) \<Longrightarrow>
   good S None K (set_core f) no_jobs"
  by (auto simp: good_def set_core_def core_acts_def gated_def commands_def intro: steps_refl)

lemma good_transaction:
  assumes "\<And>n db x db'. program_ok db \<Longrightarrow> (\<And>j. j \<in> K \<Longrightarrow> known db j) \<Longrightarrow> f n db = Inr (x, db') \<Longrightarrow>
    steps program_step db db' \<and> (\<forall>j \<in> q x. known db' j)"
  shows "good S None K (transactionS f) q"
proof (rule goodI)
  fix t r t'
  assume t: "program_ok (task_store t)" "\<And>j. j \<in> K \<Longrightarrow> known (task_store t) j" "transactionS f t = (r, t')"
  show "acts S None t t' \<and> (\<forall>x. r = Inr x \<longrightarrow> (\<forall>j \<in> q x. known (task_store t') j))"
  proof (cases "f (tk_tick t) (task_store t)")
    case (Inl e)
    then show ?thesis using t(3) by (auto simp: transactionS_def)
  next
    case (Inr y)
    then obtain x db where f: "f (tk_tick t) (task_store t) = Inr (x, db)" by (cases y) auto
    have "steps program_step (task_store t) db" "\<forall>j \<in> q x. known db j"
      using assms [OF t(1,2) f] by auto
    then show ?thesis
      using t(1,3) f dispatches_steps
      by (auto simp: transactionS_def core_acts_def gated_def commands_def)
  qed
qed

lemma good_ask_store:
  "(\<And>db j. program_ok db \<Longrightarrow> j \<in> q (f db) \<Longrightarrow> j \<in> set (st_jobs db)) \<Longrightarrow>
   good S None K (ask (\<lambda>t. f (task_store t))) q"
  using known_mem by (fastforce simp: good_def ask_def)

section \<open>The service among fair tasks\<close>

locale fair_service =
  fixes S :: "'y service"
  assumes fair: "fair_tasks S"
begin

lemma good_await [good_rules]: "good S None K (awaitS S) no_jobs"
proof (rule goodI)
  fix t r t'
  assume t: "program_ok (task_store t)" "awaitS S t = (r, t')"
  then show "acts S None t t' \<and> (\<forall>x. r = Inr x \<longrightarrow> (\<forall>j \<in> {}. known (task_store t') j))"
    using fair by (auto simp: awaitS_def fair_tasks_def)
qed

lemma good_awaited:
  assumes "good S c K m q"
  shows "good S c K (bindS (awaitS S) (\<lambda>_. bindS m (\<lambda>x. bindS (awaitS S) (\<lambda>_. returnS x)))) q"
proof (rule good_bind [OF good_await])
  fix u :: unit
  have "good S c K (bindS m (\<lambda>x. bindS (awaitS S) (\<lambda>_. returnS x))) q"
    by (rule good_bind_first [OF assms], rule good_bind [OF good_await], rule good_return) simp
  then show "good S c (K \<union> {}) (bindS m (\<lambda>x. bindS (awaitS S) (\<lambda>_. returnS x))) q" by simp
qed

lemma good_repo:
  assumes "\<And>now db x db'. program_ok db \<Longrightarrow> (\<And>j. j \<in> K \<Longrightarrow> known db j) \<Longrightarrow> f now db = Inr (x, db') \<Longrightarrow>
    steps program_step db db' \<and> (\<forall>j \<in> q x. known db' j)"
  shows "good S None K (repoS S f) q"
  unfolding repoS_def by (rule good_awaited, rule good_transaction, rule assms)

lemma good_read:
  "(\<And>db j. program_ok db \<Longrightarrow> j \<in> q (f db) \<Longrightarrow> j \<in> set (st_jobs db)) \<Longrightarrow> good S None K (readS S f) q"
  unfolding readS_def by (rule good_awaited, rule good_ask_store)

lemma good_registry [good_rules]: "good S None K (registryS S f) no_jobs"
  unfolding registryS_def by (rule good_awaited, rule good_ask)

lemma good_connection [good_rules]: "good S None K (connectionS r) no_jobs"
  unfolding connectionS_def by (rule good_ask)

text \<open>A message that is not a command needs no credit.\<close>

lemma good_log:
  assumes "\<And>k m'. m \<noteq> CommandOut k m'"
  shows "good S None K (log_send r m) no_jobs"
  using assms
  by (auto simp: good_def log_send_def Let_def core_acts_def gated_def commands_def command_for_def
      intro!: steps_refl split: outgoing.splits)

lemma good_send:
  assumes "good S c K (log_send r m) no_jobs"
  shows "good S c K (sendS S r m) no_jobs"
  unfolding sendS_def
  by (rule good_bind_first [OF assms])
    (auto intro!: good_bind [where q = no_jobs] good_await good_ask good_raise good_return good_if)

end

section \<open>Repository calls\<close>

context fair_service
begin

lemma good_transition:
  assumes "jc_target c \<noteq> Succeeded"
  shows "good S None K (transition S k c) set_option"
  unfolding transition_def
proof (rule good_repo)
  fix now and db db' :: "'y program_db" and x
  assume a: "program_ok db" "transition_job (sv_lib S) now k c db = Inr (x, db')"
  have "program_step db db'" using transition_program_step [OF a(2,1) assms] .
  moreover have "\<forall>j \<in> set_option x. known db' j"
    using transition_job_delta [OF a(2) program_jobs_ok [OF a(1)]] known_row by (fastforce split: option.splits)
  ultimately show "steps program_step db db' \<and> (\<forall>j \<in> set_option x. known db' j)"
    by (simp add: steps_single)
qed

text \<open>After a transition of a known job to a terminal state the job is known to be finished.\<close>

lemma good_finishing:
  assumes "jc_target c \<noteq> Succeeded" "job \<in> K"
  shows "good S None K (transition S (jb_job_id job) c) (\<lambda>x. insert (job\<lparr>jb_state := jc_target c\<rparr>) (set_option x))"
  unfolding transition_def
proof (rule good_repo)
  fix now and db db' :: "'y program_db" and x
  assume a: "program_ok db" "\<And>j. j \<in> K \<Longrightarrow> known db j"
    "transition_job (sv_lib S) now (jb_job_id job) c db = Inr (x, db')"
  have s: "steps program_step db db'"
    using transition_program_step [OF a(3,1) assms(1)] by (rule steps_single)
  have k: "known db' job" using known_steps [OF a(2) [OF assms(2)] s a(1)] .
  obtain r row where r: "x = Some r" "job_row_of (jb_job_id job) db' = Some r"
    "r = transitioned_row now c row"
    using transition_job_delta [OF a(3) program_jobs_ok [OF a(1)]] a(2) [OF assms(2)]
    by (auto simp: known_def split: option.splits)
  have "known db' (job\<lparr>jb_state := jc_target c\<rparr>)"
    using k r by (auto simp: known_def job_identity_def transitioned_row_def)
  then show "steps program_step db db' \<and>
      (\<forall>j \<in> insert (job\<lparr>jb_state := jc_target c\<rparr>) (set_option x). known db' j)"
    using s r known_row by auto
qed

lemma good_release:
  assumes "j \<in> K" "jb_job_id j = k" "is_terminal (jb_state j)"
  shows "good S None K (repoS S (\<lambda>now db. Inr ((), release_write_lock k db))) no_jobs"
proof (rule good_repo)
  fix now :: string and db db' :: "'y program_db" and x :: unit
  assume a: "\<And>j. j \<in> K \<Longrightarrow> known db j" "Inr ((), release_write_lock k db) = Inr (x, db')"
  have "job_finished k db" using a(1) [OF assms(1)] assms(2,3) by (auto simp: known_def job_finished_def)
  then have "program_step db db'" using a(2) pstep_release by auto
  then show "steps program_step db db' \<and> (\<forall>j \<in> {}. known db' j)" by (simp add: steps_single)
qed

lemma good_cancel_request:
  "good S None K (repoS S (\<lambda>now. request_job_cancel (sv_lib S) now k ver)) set_option"
proof (rule good_repo)
  fix now and db db' :: "'y program_db" and x
  assume a: "program_ok db" "request_job_cancel (sv_lib S) now k ver db = Inr (x, db')"
  have "\<forall>j \<in> set_option x. known db' j"
    using request_job_cancel_delta [OF a(2) program_jobs_ok [OF a(1)]] known_row [of k db'] by auto
  then show "steps program_step db db' \<and> (\<forall>j \<in> set_option x. known db' j)"
    using cancel_program_step [OF a(2,1)] by (simp add: steps_single)
qed

lemma good_progress:
  "good S None K (repoS S (\<lambda>now. append_progress (sv_lib S) now k p)) set_option"
proof (rule good_repo)
  fix now and db db' :: "'y program_db" and x
  assume a: "program_ok db" "append_progress (sv_lib S) now k p db = Inr (x, db')"
  have "\<forall>j \<in> set_option x. known db' j"
    using append_progress_delta [OF a(2) program_jobs_ok [OF a(1)]] known_row [of k db'] by auto
  then show "steps program_step db db' \<and> (\<forall>j \<in> set_option x. known db' j)"
    using progress_program_step [OF a(2,1)] by (simp add: steps_single)
qed

lemma good_create: "good S None K (create_durable_job S q) (\<lambda>r. {r})"
  unfolding create_durable_job_def
proof (rule good_bind [OF good_await])
  fix u :: unit
  let ?create = "transactionS (\<lambda>n. create_job (sv_lib S) (pl_wire_hash (sv_program_lib S)) (sv_utc S n)
      (sv_new_id S (2 * n)) (sv_new_id S (2 * n + 1)) q)"
  have "good S None (K \<union> {}) ?create (\<lambda>x. {fst x})"
  proof (rule good_transaction)
    fix n and db db' :: "'y program_db" and x
    assume a: "program_ok db" "create_job (sv_lib S) (pl_wire_hash (sv_program_lib S)) (sv_utc S n)
      (sv_new_id S (2 * n)) (sv_new_id S (2 * n + 1)) q db = Inr (x, db')"
    obtain r d where x: "x = (r, d)" by (cases x)
    have "job_row_of (jb_job_id r) db' = Some r"
      using create_job_delta [OF a(2) [unfolded x] program_jobs_ok [OF a(1)]] by simp
    then show "steps program_step db db' \<and> (\<forall>j \<in> {fst x}. known db' j)"
      using create_program_step [OF a(2) [unfolded x] a(1)] known_row x by (auto intro: steps_single)
  qed
  then show "good S None (K \<union> {}) (bindS ?create (\<lambda>x. bindS (awaitS S) (\<lambda>_. returnS (fst x)))) (\<lambda>r. {r})"
    by (rule good_bind) (auto intro!: good_bind [OF good_await] good_return)
qed

lemma good_finalize:
  assumes "job \<in> K" "jb_kind job \<noteq> ''program_commit''" "jo_job_id ou = jb_job_id job"
  shows "good S None K (repoS S (\<lambda>now. finalize_job_result (sv_lib S) now (rollback_hook job ev rc) ou))
    (\<lambda>z. fst ` set_option z)"
proof (rule good_repo)
  fix now and db db' :: "'y program_db" and z
  assume a: "program_ok db" "\<And>j. j \<in> K \<Longrightarrow> known db j"
    "finalize_job_result (sv_lib S) now (rollback_hook job ev rc) ou db = Inr (z, db')"
  obtain row where row: "job_row_of (jo_job_id ou) db = Some row" "job_identity row = job_identity job"
    using a(2) [OF assms(1)] assms(3) by (auto simp: known_def)
  then have "jb_kind row \<noteq> ''program_commit''" using assms(2) by (simp add: job_identity_def)
  then have "program_step db db'" using finalize_program_step [OF a(3,1) row(1) _ assms(3)] by blast
  moreover have "\<forall>j \<in> fst ` set_option z. known db' j"
    using finalize_cases [OF a(3) program_jobs_ok [OF a(1)]] row(1) known_row by fastforce
  ultimately show "steps program_step db db' \<and> (\<forall>j \<in> fst ` set_option z. known db' j)"
    by (simp add: steps_single)
qed

lemma good_finalize_program:
  assumes "job \<in> K" "jb_kind job \<in> set PROGRAM_JOBS" "po_job_id ou = jb_job_id job" "is_terminal (po_target ou)"
  shows "good S None K (repoS S (\<lambda>now. finalize_program_job (sv_lib S) (sv_program_lib S) now inst
      (map_option more_hook ev) ou)) (\<lambda>z. fst ` set_option z)"
proof (rule good_repo)
  fix now and db db' :: "'y program_db" and z
  assume a: "program_ok db" "\<And>j. j \<in> K \<Longrightarrow> known db j"
    "finalize_program_job (sv_lib S) (sv_program_lib S) now inst (map_option more_hook ev) ou db = Inr (z, db')"
  obtain row where row: "job_row_of (po_job_id ou) db = Some row" "job_identity row = job_identity job"
    using a(2) [OF assms(1)] assms(3) by (auto simp: known_def)
  then have kind: "jb_kind row \<in> set PROGRAM_JOBS" using assms(2) by (simp add: job_identity_def)
  have "program_step db db'"
  proof (rule pstep_finalize [OF a(3) assms(4)])
    show "jb_kind r \<in> set PROGRAM_KINDS" if "job_row_of (po_job_id ou) db = Some r" for r
      using that row kind by (simp add: PROGRAM_KINDS_def PROGRAM_JOBS_def)
    show "u = t\<lparr>pt_more := pt_more u\<rparr>" if "map_option more_hook ev = Some h" "h r t = Inr u" for h r t u
      using that by (cases ev) (auto dest!: more_hook_Inr)
  qed
  moreover have "jb_kind row \<noteq> ''observe''" using kind by (auto simp: PROGRAM_JOBS_def)
  then have "\<forall>j \<in> fst ` set_option z. known db' j"
    using finalize_program_cases [OF a(3) program_jobs_ok [OF a(1)] row(1) _ assms(4)] known_row by fastforce
  ultimately show "steps program_step db db' \<and> (\<forall>j \<in> fst ` set_option z. known db' j)"
    by (simp add: steps_single)
qed

lemma good_open_case:
  "good S None K (repoS S (\<lambda>now db. bindE (g now db) (\<lambda>y. Inr ((), on_tables (\<lambda>t. t\<lparr>pt_more := y\<rparr>) db))))
     no_jobs"
  by (rule good_repo) (auto simp: result_simps intro: steps_single [where step = program_step, OF pstep_other])

end

end
