(* ===== verification/JobHandlers.thy ===== *)
theory JobHandlers
  imports JobGuarantee
begin

text \<open>
  Every method of \<open>DurableJobService\<close> keeps the guarantee of theory JobGuarantee: one lemma per
  method, by the rules of its combinators and repository calls.
\<close>

section \<open>Bind, by the type of the first result\<close>

lemma good_bind_none:
  fixes m :: "('y, 'a) call" and f :: "'a \<Rightarrow> ('y, 'b) call"
  shows "good S None K m no_jobs \<Longrightarrow> (\<And>x. good S c K (f x) q) \<Longrightarrow> good S c K (bindS m f) q"
  using good_bind [of S K m no_jobs c f q] by simp

lemma good_bind_row:
  fixes m :: "('y, job_row) call"
  shows "good S None K m (\<lambda>r. {r}) \<Longrightarrow> (\<And>x. good S c (insert x K) (f x) q) \<Longrightarrow> good S c K (bindS m f) q"
  using good_bind [of S K m "\<lambda>r. {r}" c f q] by simp

lemma good_bind_option:
  fixes m :: "('y, job_row option) call"
  shows "good S None K m set_option \<Longrightarrow> (\<And>x. good S c (K \<union> set_option x) (f x) q) \<Longrightarrow>
    good S c K (bindS m f) q"
  by (rule good_bind)

lemma good_bind_list:
  fixes m :: "('y, job_row list) call"
  shows "good S None K m set \<Longrightarrow> (\<And>x. good S c (K \<union> set x) (f x) q) \<Longrightarrow> good S c K (bindS m f) q"
  by (rule good_bind)

lemmas good_binds [good_rules] = good_bind_row good_bind_option good_bind_list
  good_bind_none [where 'a = unit]
  good_bind_none [where 'a = bool]
  good_bind_none [where 'a = nat]
  good_bind_none [where 'a = "string list"]
  good_bind_none [where 'a = "nat option"]
  good_bind_none [where 'a = agent_connection]
  good_bind_none [where 'a = json]
  good_bind_none [where 'a = "json \<times> string"]
  good_bind_none [where 'a = "json option"]
  good_bind_none [where 'a = refusal]
  good_bind_none [where 'a = verdict]
  good_bind_none [where 'a = result_body]
  good_bind_none [where 'a = future]
  good_bind_none [where 'a = rat]
  good_bind_none [where 'a = "rat \<times> string"]
  good_bind_none [where 'a = "agent_connection option \<times> device_row option"]
  good_bind_none [where 'a = "device_row option"]

lemma good_option [good_rules]:
  "(x = None \<Longrightarrow> good S c K m q) \<Longrightarrow> (\<And>y. x = Some y \<Longrightarrow> good S c K (f y) q) \<Longrightarrow>
   good S c K (case x of None \<Rightarrow> m | Some y \<Rightarrow> f y) q"
  by (cases x) simp_all

lemma good_error [good_rules]:
  "(\<And>code k st. e = DurableJobError code k st \<Longrightarrow> good S c K (f code k st) q) \<Longrightarrow>
   (\<And>s. e = StoreFailed s \<Longrightarrow> good S c K (g s) q) \<Longrightarrow> good S c K m1 q \<Longrightarrow> good S c K m2 q \<Longrightarrow>
   good S c K m3 q \<Longrightarrow> (\<And>s. e = PyError s \<Longrightarrow> good S c K (h s) q) \<Longrightarrow>
   good S c K (case e of DurableJobError code k st \<Rightarrow> f code k st | StoreFailed s \<Rightarrow> g s | SendFailed \<Rightarrow> m1
     | MessageInvalid \<Rightarrow> m2 | FutureCancelled \<Rightarrow> m3 | PyError s \<Rightarrow> h s) q"
  by (cases e) simp_all

lemma good_store_error [good_rules]:
  "(\<And>code. s = Conflict code \<Longrightarrow> good S c K (f code) q) \<Longrightarrow> (\<And>b. s = BadTransition b \<Longrightarrow> good S c K (g b) q) \<Longrightarrow>
   (\<And>v. s = StoreValueError v \<Longrightarrow> good S c K (h v) q) \<Longrightarrow> good S c K m1 q \<Longrightarrow> good S c K m2 q \<Longrightarrow>
   good S c K m3 q \<Longrightarrow> good S c K m4 q \<Longrightarrow> good S c K m5 q \<Longrightarrow> good S c K m6 q \<Longrightarrow>
   good S c K (case s of Conflict code \<Rightarrow> f code | BadTransition b \<Rightarrow> g b | StoreValueError v \<Rightarrow> h v
     | IntegrityError \<Rightarrow> m1 | BindingError \<Rightarrow> m2 | MissingField \<Rightarrow> m3
     | InvalidRecord \<Rightarrow> m4 | TimestampError \<Rightarrow> m5 | AttributeError \<Rightarrow> m6) q"
  by (cases s) simp_all

lemma good_for [good_rules]: "(\<And>x. x \<in> set xs \<Longrightarrow> good S None K (f x) no_jobs) \<Longrightarrow> good S None K (forS xs f) no_jobs"
proof (induction xs)
  case Nil
  then show ?case by (auto intro: good_return)
next
  case (Cons x xs)
  then show ?case by (auto intro!: good_bind_none [where 'a = unit])
qed

declare good_return [good_rules] good_catch [good_rules] good_try [where q = set_option, good_rules]

section \<open>Futures and lookups\<close>

lemma resolve_core_store: "gc_store (resolve_core j c) = gc_store c" "gc_sent (resolve_core j c) = gc_sent c"
  by (simp_all add: resolve_core_def split: option.splits)

lemma good_resolve [good_rules]: "good S None K (resolve job) no_jobs"
  unfolding resolve_def
  by (cases job) (auto intro: good_set_core [OF resolve_core_store] good_return)

lemma good_waiter [good_rules]:
  fixes S :: "'y service"
  shows "good S None K (waiter_for k) no_jobs"
proof (rule goodI)
  fix t t' :: "'y task" and r
  assume "waiter_for k t = (r, t')"
  then have "task_store t' = task_store t" "task_sent t' = task_sent t"
    by (auto simp: waiter_for_def Let_def split: option.splits if_splits)
  then show "acts S None t t' \<and> (\<forall>x. r = Inr x \<longrightarrow> (\<forall>j \<in> {}. known (task_store t') j))"
    by (simp add: core_acts_def gated_def commands_def steps_refl)
qed

context fair_service
begin

lemma good_get_job [good_rules]: "good S None K (readS S (get_job own k)) set_option"
  by (rule good_read) (auto simp: get_job_def dest: select1_Some)

lemma good_get_command [good_rules]: "good S None K (readS S (get_job_by_command dv k)) set_option"
  by (rule good_read) (auto simp: get_job_by_command_def dest: select1_Some)

lemma good_jobs_for_device [good_rules]: "good S None K (readS S (jobs_for_device dv)) set"
  by (rule good_read) (auto simp: jobs_for_device_def)

lemma good_nonterminal [good_rules]: "good S None K (readS S all_nonterminal_jobs) set"
  by (rule good_read) (auto simp: all_nonterminal_jobs_def)

lemma good_read_plain:
  "good S None K (readS S f) no_jobs"
  by (rule good_read) simp

lemma good_owners [good_rules]: "good S None K (readS S known_owners) no_jobs"
  "good S None K (readS S (get_device own dv)) no_jobs"
  by (rule good_read_plain)+

lemma good_scan [good_rules]: "good S None K (scan_owners S k owners) set_option"
proof (induction owners arbitrary: K)
  case (Cons own owners)
  show ?case unfolding scan_owners.simps by (intro good_rules Cons) auto
qed (auto intro: good_return)

lemma good_internal [good_rules]: "good S None K (get_internal_job S k) set_option"
  unfolding get_internal_job_def by (intro good_rules)

lemma good_current [good_rules]: "good S None K (current_connection S r) no_jobs"
  unfolding current_connection_def by (intro good_rules)

end

section \<open>Moving a job\<close>

lemma change_simps [simp]:
  "jc_target (change_to s) = s" "jc_target (failure_to s code text) = s"
  "jc_target (versioned job s ev) = s" "jc_target (attention_change v) = NeedsAttention"
  by (simp_all add: change_to_def failure_to_def versioned_def attention_change_def)

lemma good_outcome:
  "good S c K m q \<Longrightarrow> good S c K n q \<Longrightarrow>
   good S c K (case outcome of OutcomeConflict \<Rightarrow> m | OutcomeInconclusive \<Rightarrow> n) q"
  by (cases outcome) simp_all

lemma good_ignore_race [good_rules]: "good S None K (ignore_race e) no_jobs"
  unfolding ignore_race_def by (auto intro: good_rules)

context fair_service
begin

declare good_transition [good_rules]

lemma good_release_if_terminal [good_rules]:
  "(\<And>j. job = Some j \<Longrightarrow> j \<in> K) \<Longrightarrow> good S None K (release_program_lock_if_terminal S job) no_jobs"
  unfolding release_program_lock_if_terminal_def
  by (cases job) (auto intro: good_return good_release)

lemma good_fail_payload [good_rules]: "good S None K (fail_payload S job) no_jobs"
  unfolding fail_payload_def by (intro good_rules) auto

lemma good_ensure_case [good_rules]: "good S None K (ensure_recovery_case S own job cause query) no_jobs"
  unfolding ensure_recovery_case_def
  by (cases "sv_phase7 S") (auto intro: good_return good_open_case)

lemma good_recovery_for [good_rules]: "good S None K (recovery_for S job cause) no_jobs"
  unfolding recovery_for_def by (intro good_rules) auto

lemma good_freeze [good_rules]: "good S None K (freeze_for_conflict S job) no_jobs"
proof -
  let ?first = "if jb_state job \<in> {Dispatched, Acknowledged, Running, CancelRequested} then
      bindS (transition S (jb_job_id job)
        ((change_to OutcomeUnknown)\<lparr>jc_expected_version := Some (jb_state_version job)\<rparr>))
        (\<lambda>updated. returnS (case updated of None \<Rightarrow> job | Some u \<Rightarrow> u))
    else returnS job"
  have first: "good S None K ?first no_jobs" by (intro good_rules) auto
  show ?thesis
    unfolding freeze_for_conflict_def
    by (intro good_rules good_bind [OF first]) auto
qed

lemma good_record_outcome [good_rules]:
  "good S None K (record_reconcile_outcome S own k outcome text n) no_jobs"
  unfolding record_reconcile_outcome_def
  by (intro good_rules good_outcome) auto

lemma good_send_reconcile [good_rules]: "good S None K (send_reconcile S r jobs) no_jobs"
  unfolding send_reconcile_def by (intro good_rules good_send good_log) auto

lemma good_send_cancel [good_rules]: "good S None K (send_cancel S r job text) no_jobs"
  unfolding send_cancel_def by (intro good_rules good_send good_log) auto

lemma good_connection_device [good_rules]: "good S None K (connection_and_device S job c) no_jobs"
  unfolding connection_and_device_def by (intro good_rules) auto

lemma good_refuse [good_rules]: "good S None K (refuse_dispatch S job code text) no_jobs"
  unfolding refuse_dispatch_def by (intro good_rules) auto

lemma good_require [good_rules]: "good S None K (require_dispatch_capability S job c) no_jobs"
proof -
  have "good S None K (case x of (None, text) \<Rightarrow> returnS () | (Some code, text) \<Rightarrow>
      refuse_dispatch S job code text) no_jobs" for x
    by (cases x; cases "fst x") (auto intro: good_rules)
  then show ?thesis unfolding require_dispatch_capability_def by (intro good_rules) auto
qed

lemma good_hash_mismatch [good_rules]: "good S None K (command_hash_mismatch S job b text) no_jobs"
  unfolding command_hash_mismatch_def by (intro good_rules) auto

lemma good_build [good_rules]: "good S None K (build_command S cid job c) no_jobs"
  unfolding build_command_def by (intro good_rules) auto

lemma good_disconnect_job [good_rules]: "good S None K (disconnect_job S job) no_jobs"
proof -
  have "target \<noteq> Succeeded" if "disconnect_target job = Some target" for target
    using that by (auto simp: disconnect_target_def split: if_splits)
  then show ?thesis unfolding disconnect_job_def by (intro good_rules) auto
qed

lemma good_disconnect [good_rules]: "good S None K (handle_disconnect S dv) no_jobs"
  unfolding handle_disconnect_def by (intro good_rules)

end

section \<open>Dispatch\<close>

text \<open>A check that passes changes nothing, and neither does building the command.\<close>

lemma require_passes:
  assumes "require_dispatch_capability S job (Some r) t = (Inr x, t')"
  shows "t' = t \<and> may_dispatch (sv_policy S) job (rg_heap (gc_registry (tk_core t)) r)"
proof -
  have raises: "fst (refuse_dispatch S job code msg u) \<noteq> Inr y" for code msg u y
    by (auto simp: refuse_dispatch_def bindS_def raiseS_def split: prod.splits sum.splits)
  show ?thesis
    using assms raises
    by (auto simp: require_dispatch_capability_def connection_and_device_def connectionS_def bindS_def ask_def
        returnS_def liftS_def may_dispatch_def split: prod.splits sum.splits option.splits)
      (metis fst_conv)+
qed

lemma build_passes:
  assumes "build_command S cid job c t = (Inr m, t')"
  shows "t' = t"
proof -
  have raises: "fst (command_hash_mismatch S job b msg u) \<noteq> Inr y" for b msg u y
    by (auto simp: command_hash_mismatch_def bindS_def raiseS_def split: prod.splits sum.splits)
  have seq: "t' = u" if "bindS (liftS r1) f u = (Inr m, t')" "\<And>x. f x u = (Inr m, t') \<Longrightarrow> t' = u" for r1 f u
    using that by (cases r1) (auto simp: raiseS_def)
  have checked: "t' = u" if "(if b then command_hash_mismatch S job d msg else returnS y) u = (Inr m, t')"
    for b d msg y u
    using that raises [of d msg u m] by (auto simp: returnS_def split: if_splits)
  show ?thesis
    using assms unfolding build_command_def Let_def
    by (auto simp: liftS_def split: if_splits elim!: seq dest!: checked)
qed

lemma log_command:
  assumes "known (task_store t) job" "jb_job_id job = k"
    and "may_dispatch (sv_policy S) job (rg_heap (gc_registry (tk_core t)) r)"
  shows "acts S (Some k) t (snd (log_send r (CommandOut k m) t))"
proof -
  obtain row where row: "job_row_of k (task_store t) = Some row" "job_identity row = job_identity job"
    using assms(1,2) by (auto simp: known_def)
  have "may_dispatch (sv_policy S) row (rg_heap (gc_registry (tk_core t)) r)"
    using assms(3) dispatch_failure_identity [OF row(2)] by (simp add: may_dispatch_def)
  then show ?thesis
    using row(1)
    by (auto simp: log_send_def Let_def core_acts_def gated_def commands_def command_for_def intro: steps_refl)
qed

context fair_service
begin

lemma send_rest: "good S None K (bindS (awaitS S) (\<lambda>_. bindS (ask (\<lambda>t. sv_send_fails S (tk_tick t)))
    (\<lambda>failed. if failed then raiseS SendFailed else returnS ()))) no_jobs"
  by (rule good_bind_none [OF good_await], rule good_bind_none [OF good_ask]) (auto intro!: good_rules)

lemma good_send_command:
  assumes "job \<in> K" "jb_job_id job = k"
  shows "good S (Some k) K (send_command S cid job r) no_jobs"
proof (rule goodI)
  fix t t' :: "'y task" and res
  assume t: "program_ok (task_store t)" "\<And>j. j \<in> K \<Longrightarrow> known (task_store t) j"
    "send_command S cid job r t = (res, t')"
  obtain r1 t1 where q: "require_dispatch_capability S job (Some r) t = (r1, t1)" by fastforce
  let ?c = "rg_heap (gc_registry (tk_core t)) r"
  show "acts S (Some k) t t' \<and> (\<forall>x. res = Inr x \<longrightarrow> (\<forall>j \<in> {}. known (task_store t') j))"
  proof (cases r1)
    case (Inl e)
    then have "t' = t1" using t(3) q by (auto simp: send_command_def bindS_def)
    then show ?thesis using goodD(1) [OF good_require t(1,2) q] by (simp add: acts_mono)
  next
    case (Inr x)
    note gate = require_passes [OF q [unfolded Inr]]
    obtain r2 t2 where b: "build_command S cid job ?c t = (r2, t2)" by fastforce
    show ?thesis
    proof (cases r2)
      case (Inl e)
      then have "t' = t2"
        using t(3) q \<open>r1 = Inr x\<close> gate b
        by (auto simp: send_command_def bindS_def connectionS_def ask_def)
      then show ?thesis using goodD(1) [OF good_build t(1,2) b] by (simp add: acts_mono)
    next
      case (Inr m)
      note m = build_passes [OF b [unfolded Inr]]
      let ?u = "snd (log_send r (CommandOut (jb_job_id job) m) t)"
      let ?rest = "bindS (tryS (bindS (awaitS S) (\<lambda>_. bindS (ask (\<lambda>t. sv_send_fails S (tk_tick t)))
          (\<lambda>failed. if failed then raiseS SendFailed else returnS ())))
        (\<lambda>e. bindS (handle_disconnect S (jb_device_id job)) (\<lambda>_.
             bindS (get_internal_job S (jb_job_id job)) (\<lambda>current. raiseS (offline_error current job))))
        returnS) (\<lambda>_. returnS True)"
      have rest: "good S None K ?rest no_jobs"
        by (intro good_bind_none good_try [OF send_rest] good_rules) auto
      have run: "?rest ?u = (res, t')"
        using t(3) q \<open>r1 = Inr x\<close> gate b m Inr
        by (auto simp: send_command_def sendS_def bindS_def connectionS_def ask_def catch_try tryS_def
            log_send_def Let_def)
      have a: "acts S (Some k) t ?u"
        using log_command [of t job k S r m] t(2) [OF assms(1)] assms(2) gate by simp
      have u: "program_ok (task_store ?u)" "\<And>j. j \<in> K \<Longrightarrow> known (task_store ?u) j"
        using acts_ok [OF a t(1)] acts_known [OF a t(1)] t(2) by blast+
      show ?thesis using acts_trans [OF a goodD(1) [OF rest u run] t(1)] by simp
    qed
  qed
qed

end

text \<open>A claim is one more dispatch in the log of the job, which pays for one command.\<close>

lemma claim_dispatches:
  assumes "claim_job L now k db = Inr (Some r, db')" "program_ok db"
  shows "dispatches k db' = Suc (dispatches k db)"
proof -
  obtain db1 where e: "append_event L now k StateEvent (Some Dispatched) None None None db1 = Inr db'"
    "st_events db1 = st_events db"
    using assms(1)
    by (auto simp: claim_job_def result_simps dest: cas_update_Inr split: option.splits if_splits sum.splits)
  obtain ev where "db' = db1\<lparr>st_events := st_events db1 @ [ev]\<rparr>" "ev_job_id ev = k"
    "ev_event_type ev = StateEvent" "ev_state ev = Some Dispatched"
    using append_event_Inr [OF e(1)] by (auto simp: new_event_def)
  then show ?thesis using e(2) by (simp add: dispatches_def state_trail_single)
qed

lemma acts_claimed:
  assumes "acts S None t v" "task_sent v = task_sent u" "acts S None t u"
    "dispatches k (task_store u) < dispatches k (task_store v)" "acts S None v w" "acts S (Some k) w x"
    "program_ok (task_store t)"
  shows "acts S None t x"
proof -
  have ok: "program_ok (task_store v)" "program_ok (task_store w)"
    using assms acts_ok by blast+
  have v: "acts S (Some k) v x" using acts_trans [OF assms(5,6) ok(1)] by simp
  obtain ms where ms: "steps program_step (task_store v) (task_store x)" "task_sent x = task_sent v @ ms"
    "gated S (task_store x) ms" "\<And>j. commands j ms + dispatches j (task_store v) \<le>
      dispatches j (task_store x) + (if Some k = Some j then 1 else 0)"
    using v by (auto simp: core_acts_def)
  obtain ns where u: "task_sent u = task_sent t @ ns"
    "\<And>j. commands j ns + dispatches j (task_store t) \<le> dispatches j (task_store u)"
    using assms(3) by (auto simp: core_acts_def)
  obtain ns' where tv: "steps program_step (task_store t) (task_store v)" "task_sent v = task_sent t @ ns'"
    "gated S (task_store v) ns'"
    "\<And>j. commands j ns' + dispatches j (task_store t) \<le> dispatches j (task_store v)"
    using assms(1) by (auto simp: core_acts_def)
  have ns: "ns' = ns" using tv(2) u(1) assms(2) by simp
  have "gated S (task_store x) (ns @ ms)"
    using gated_steps [OF tv(3) ms(1) ok(1)] ms(3) ns by (auto simp: gated_def)
  moreover have "commands j (ns @ ms) + dispatches j (task_store t) \<le> dispatches j (task_store x)" for j
    using ms(4) [of j] u(2) [of j] tv(4) [of j] ns assms(4) by (cases "j = k") (auto simp: commands_def)
  ultimately show ?thesis
    unfolding core_acts_def using steps_trans [OF ms(1) tv(1)] ms(2) tv(2) ns by auto
qed

lemma good_mono: "good S None K m q \<Longrightarrow> good S c K m q"
  using acts_mono unfolding good_def by blast

context fair_service
begin

lemma good_claim:
  assumes "good S None K (f None) q" "\<And>job. jb_job_id job = k \<Longrightarrow> good S (Some k) (insert job K) (f (Some job)) q"
  shows "good S None K (bindS (repoS S (\<lambda>now. claim_job (sv_lib S) now k)) f) q"
proof (rule goodI)
  fix t t' :: "'y task" and res
  let ?claim = "\<lambda>now. claim_job (sv_lib S) now k"
  assume t: "program_ok (task_store t)" "\<And>j. j \<in> K \<Longrightarrow> known (task_store t) j"
    "bindS (repoS S ?claim) f t = (res, t')"
  obtain u where u: "awaitS S t = (Inr (), u)" by (simp add: awaitS_def)
  note w = goodD [OF good_await t(1,2) u]
  show "acts S None t t' \<and> (\<forall>x. res = Inr x \<longrightarrow> (\<forall>j \<in> q x. known (task_store t') j))"
  proof (cases "?claim (sv_utc S (tk_tick u)) (task_store u)")
    case (Inl e)
    then have "t' = u" "res = Inl (StoreFailed e)"
      using t(3) u by (auto simp: bindS_def repoS_def transactionS_def)
    then show ?thesis using w(1) by simp
  next
    case (Inr y)
    obtain x db where y: "y = (x, db)" by fastforce
    let ?v = "u\<lparr>tk_core := (tk_core u)\<lparr>gc_store := db\<rparr>\<rparr>"
    obtain v where v: "awaitS S ?v = (Inr (), v)" by (simp add: awaitS_def)
    have run: "f x v = (res, t')"
      using t(3) u v Inr y by (simp add: bindS_def repoS_def transactionS_def returnS_def)
    note c = claim_job_delta [OF Inr [unfolded y] program_jobs_ok [OF w(2)]]
    have s: "steps program_step (task_store u) db"
      using claim_program_step [OF Inr [unfolded y] w(2)] by (rule steps_single)
    have a: "acts S None u ?v" using s dispatches_steps [OF s w(2)] by (simp add: core_acts_def gated_def commands_def)
    have uv: "acts S None t ?v" using acts_trans [OF w(1) a t(1)] by simp
    have kv: "program_ok (task_store ?v)" "\<And>j. j \<in> K \<Longrightarrow> known (task_store ?v) j"
      using acts_ok [OF uv t(1)] acts_known [OF uv t(1)] t(2) by blast+
    note z = goodD [OF good_await kv v]
    have tv: "acts S None t v" using acts_trans [OF uv z(1) t(1)] by simp
    show ?thesis
    proof (cases x)
      case None
      then show ?thesis
        using goodD [OF assms(1) z(2,3) run [unfolded None]] acts_trans [OF tv _ t(1)] by auto
    next
      case (Some job)
      have job: "job_row_of k db = Some job" using c Some by simp
      have id: "jb_job_id job = k" using job_row_of_Some [OF job] by simp
      have "known (task_store ?v) job" using known_row [OF job] by simp
      then have kj: "\<And>j. j \<in> insert job K \<Longrightarrow> known (task_store v) j"
        using z(3) acts_known [OF z(1) kv(1)] by blast
      note h = goodD [OF assms(2) [OF id] z(2) kj run [unfolded Some]]
      have d: "dispatches k (task_store u) < dispatches k (task_store ?v)"
        using claim_dispatches [OF Inr [unfolded y Some] w(2)] by simp
      have "acts S None t t'"
        using acts_claimed [OF uv _ w(1) d z(1) h(1) t(1)] by simp
      then show ?thesis using h(4) by blast
    qed
  qed
qed

lemma good_dispatch [good_rules]: "good S None K (dispatch S k cid) no_jobs"
proof -
  have leave: "good S None K (leave_pending S job) no_jobs" for K job
    unfolding leave_pending_def by (intro good_rules) auto
  have usable: "good S None K (case c of None \<Rightarrow> returnS None | Some r \<Rightarrow>
      bindS (current_connection S r) (\<lambda>ok. returnS (if ok then Some r else None))) no_jobs" for K c
    by (intro good_rules) auto
  have claimed: "good S (Some k) (insert job K)
      (bindS (registryS S (\<lambda>_. registry_get (jb_device_id job))) (\<lambda>connection.
       bindS (case connection of None \<Rightarrow> returnS None | Some r \<Rightarrow>
         bindS (current_connection S r) (\<lambda>ok. returnS (if ok then Some r else None))) (\<lambda>usable.
       case usable of Some r \<Rightarrow> send_command S cid job r | None \<Rightarrow> leave_pending S job))) no_jobs"
    if "jb_job_id job = k" for job K
  proof (rule good_bind_none [OF good_registry], rule good_bind_none [OF usable])
    fix r
    show "good S (Some k) (insert job K)
        (case r of Some r \<Rightarrow> send_command S cid job r | None \<Rightarrow> leave_pending S job) no_jobs"
      using good_send_command [of job _ k] good_mono [OF leave] that by (cases r) auto
  qed
  have claim: "good S None K (bindS (repoS S (\<lambda>now. claim_job (sv_lib S) now k)) (\<lambda>claimed.
      case claimed of None \<Rightarrow> returnS False | Some job \<Rightarrow>
        bindS (registryS S (\<lambda>_. registry_get (jb_device_id job))) (\<lambda>connection.
        bindS (case connection of None \<Rightarrow> returnS None | Some r \<Rightarrow>
          bindS (current_connection S r) (\<lambda>ok. returnS (if ok then Some r else None))) (\<lambda>usable.
        case usable of Some r \<Rightarrow> send_command S cid job r | None \<Rightarrow> leave_pending S job)))) no_jobs" for K
    by (rule good_claim; unfold option.case; (rule claimed | rule good_return); simp)
  show ?thesis
    unfolding dispatch_def
    by (rule good_bind_none [OF good_await], rule good_bind_option [OF good_internal],
        intro good_option good_if good_return good_raise good_bind_none [OF good_require] claim; simp)
qed

end

section \<open>Deadlines, connection and cancellation\<close>

context fair_service
begin

lemma good_sweep_job [good_rules]: "good S None K (sweep_job S now swept job) no_jobs"
proof -
  have "jc_target (expiry_change job) \<noteq> Succeeded" by (simp add: expiry_change_def)
  then show ?thesis unfolding sweep_job_def by (intro good_rules) auto
qed

lemma good_sweep [good_rules]: "good S None K (sweep_deadlines S) no_jobs"
  unfolding sweep_deadlines_def by (intro good_rules good_ask)

lemma good_settle [good_rules]: "job \<in> K \<Longrightarrow> good S None K (settle_cancel S job) set"
  unfolding settle_cancel_def by (intro good_rules) (auto split: option.splits)

lemma good_settles [good_rules]: "set jobs \<subseteq> K \<Longrightarrow> good S None K (settle_cancels S jobs) set"
proof (induction jobs arbitrary: K)
  case (Cons job jobs)
  show ?case
    unfolding settle_cancels.simps
    using Cons.prems by (intro good_bind_list good_settle Cons.IH good_return) auto
qed (auto intro: good_return)

lemma good_dispatch_queued [good_rules]: "good S None K (dispatch_queued S job) no_jobs"
  unfolding dispatch_queued_def by (intro good_rules) auto

lemma good_connected [good_rules]: "good S None K (handle_connected S r) no_jobs"
  unfolding handle_connected_def by (intro good_rules) auto

lemma good_try_cancel: "good S None K (try_cancel S k own job)
    (\<lambda>x. case x of Some (CancelDone r) \<Rightarrow> {r} | Some (CancelReturn r) \<Rightarrow> {r} | Some (CancelRetry r) \<Rightarrow> {r} | None \<Rightarrow> {})"
  unfolding try_cancel_def
  by (intro good_rules good_cancel_request) (auto split: option.splits if_splits)

lemma good_attempts: "good S None K (cancel_attempts n S k own job) no_jobs"
proof (induction n arbitrary: K job)
  case (Suc n)
  have next': "good S None K (case step of None \<Rightarrow> raiseS (DurableJobError ''invalid_state'' (Some k) (Some (jb_state job)))
      | Some (CancelRetry current) \<Rightarrow> cancel_attempts n S k own current | Some done \<Rightarrow> returnS done) no_jobs"
    for K step
    by (cases step; cases "the step") (auto intro: Suc good_return good_raise)
  show ?case unfolding cancel_attempts.simps by (rule good_bind [OF good_try_cancel], rule next')
qed (simp add: good_raise)

lemma good_cancel [good_rules]: "good S None K (cancel S k own reason) no_jobs"
proof -
  have told: "good S None K (bindS (case c of None \<Rightarrow> returnS () | Some r \<Rightarrow>
      bindS (current_connection S r) (\<lambda>current. if current then send_cancel S r updated reason else returnS ()))
      (\<lambda>_. returnS updated)) no_jobs" for c updated K
    by (rule good_bind_none [where 'a = unit]) (intro good_rules; auto intro: good_return)+
  have finish: "good S None K (case step of CancelReturn r \<Rightarrow> returnS r | CancelRetry r \<Rightarrow> returnS r
      | CancelDone updated \<Rightarrow>
          if is_terminal (jb_state updated) then returnS updated
          else bindS (registryS S (\<lambda>_. registry_get (jb_device_id job))) (\<lambda>connection.
            bindS (case connection of None \<Rightarrow> returnS ()
              | Some r \<Rightarrow> bindS (current_connection S r) (\<lambda>current.
                  if current then send_cancel S r updated reason else returnS ())) (\<lambda>_.
            returnS updated))) no_jobs" for step job K
    by (cases step) (auto intro!: good_return good_bind_none [OF good_registry] told)
  show ?thesis
    unfolding cancel_def
    by (rule good_bind_option [OF good_get_job], rule good_option, rule good_raise,
        rule good_bind_none [OF good_attempts], rule finish)
qed

end

section \<open>Messages of the Agent\<close>

context fair_service
begin

lemma good_known_or [good_rules]:
  "(\<And>r. u = Some r \<Longrightarrow> r \<in> K) \<Longrightarrow> job \<in> K \<Longrightarrow>
   good S None K (returnS (case u of None \<Rightarrow> job | Some j \<Rightarrow> j)) (\<lambda>r. {r})"
  by (rule good_return) (auto split: option.splits)

lemma good_accepted [good_rules]: "good S None K (handle_accepted S job) no_jobs"
  unfolding handle_accepted_def invalid_message_def by (intro good_rules) auto

lemma good_rejected [good_rules]: "good S None K (handle_rejected S job reason) no_jobs"
  unfolding handle_rejected_def invalid_message_def by (intro good_rules) auto

lemma good_known_command [good_rules]: "job \<in> K \<Longrightarrow> good S None K (handle_known_command S r job b) no_jobs"
  unfolding handle_known_command_def by (intro good_rules) auto

lemma good_ack [good_rules]: "job \<in> K \<Longrightarrow> good S None K (handle_ack S r job h b) no_jobs"
  unfolding handle_ack_def by (cases "ak_status b") (auto intro!: good_rules)

lemma good_handle_progress [good_rules]: "job \<in> K \<Longrightarrow> good S None K (handle_progress S job h b) no_jobs"
  unfolding handle_progress_def invalid_message_def by (intro good_rules good_progress) auto

lemma good_report_unknown [good_rules]: "good S None K (report_unknown S job msg) no_jobs"
  unfolding report_unknown_def by (intro good_rules) auto

end

section \<open>Results\<close>

lemma bind_InrE:
  assumes "bindE m f = Inr y"
  obtains x where "m = Inr x" "f x = Inr y"
  using assms by (cases m) (auto simp: result_simps)

lemma observation_verdict_terminal:
  assumes "observation_verdict S job result = Inr v"
  shows "is_terminal (vd_target v)"
  using assms
  unfolding observation_verdict_def Let_def
  by (auto split: if_splits elim!: bind_InrE; auto split: sum.splits option.splits simp: failed_verdict_def)

lemma verdict_terminal:
  assumes "result_verdict S job s result code = Inr v" "s \<in> {Succeeded, Failed, Cancelled}"
  shows "is_terminal (vd_target v)"
proof (cases "s = Succeeded \<and> jb_kind job = ''observe''")
  case True
  then show ?thesis using assms(1) observation_verdict_terminal [of S job result v]
    by (simp add: result_verdict_def)
next
  case False
  then show ?thesis using assms
    by (auto simp: result_verdict_def failed_verdict_def split: if_splits prod.splits)
qed

lemma good_lift_verdict:
  assumes "s \<in> {Succeeded, Failed, Cancelled}"
    and "\<And>v. is_terminal (vd_target v) \<Longrightarrow> good S None K (f v) q"
  shows "good S None K (bindS (liftS (result_verdict S job s result code)) f) q"
  using assms verdict_terminal [of S job s result code] by (cases "result_verdict S job s result code") (auto intro: good_raise)

lemma no_rollback_hook: "jb_kind job \<noteq> ''rollback_commit'' \<Longrightarrow> None = rollback_hook job None None"
  by (simp add: rollback_hook_def)

context fair_service
begin

lemma good_terminal_evidence: "good S None K (terminal_evidence S job v) no_jobs"
  unfolding terminal_evidence_def
  by (cases "sv_phase7 S")
    (auto intro!: good_return good_bind_none [OF good_await] good_bind_none [OF good_ask] good_bind_none [OF good_lift])

lemma good_rollback_receipt: "good S None K (rollback_receipt S job v) no_jobs"
  unfolding rollback_receipt_def
  by (cases "sv_phase7 S"; cases "vd_result v")
    (auto intro!: good_return good_bind_none [OF good_await] good_bind_none [OF good_ask] good_bind_none [OF good_lift])

lemma good_fst:
  "good S None K m (\<lambda>z. fst ` set_option z) \<Longrightarrow>
   good S None K (bindS m (\<lambda>z. returnS (map_option fst z))) set_option"
  by (rule good_bind) (auto intro!: good_return simp: option.set_map)

lemma good_refused:
  assumes "job \<in> K"
  shows "good S None K (refused_program_result S job code) set_option"
proof -
  have release: "good S None K (repoS S (\<lambda>now db. Inr ((), release_write_lock (jb_job_id job) db))) no_jobs"
    if "job\<lparr>jb_state := Failed\<rparr> \<in> K" for K
    using good_release [OF that, of "jb_job_id job"] by simp
  have failing: "good S None K (bindS (transition S (jb_job_id job) (failure_to Failed code msg)) (\<lambda>updated.
      bindS (repoS S (\<lambda>now db. Inr ((), release_write_lock (jb_job_id job) db))) (\<lambda>_. returnS updated))) set_option"
    if "job \<in> K" for K msg
    by (rule good_bind [OF good_finishing [OF _ that]]) (auto intro!: good_bind_none [OF release] good_return)
  show ?thesis
    unfolding refused_program_result_def
    by (rule good_bind_option [OF good_internal], rule good_if) (intro good_rules failing; use assms in auto)+
qed

lemma good_finish_program:
  assumes "job \<in> K" "jb_kind job \<in> set PROGRAM_JOBS" "is_terminal (vd_target v)"
  shows "good S None K (finish_program_job S job h v) no_jobs"
proof -
  have po: "po_job_id (program_outcome_of job h v) = jb_job_id job"
    "po_target (program_outcome_of job h v) = vd_target v" by (simp_all add: program_outcome_of_def)
  have finalize: "good S None K (bindS (repoS S (\<lambda>now. finalize_program_job (sv_lib S) (sv_program_lib S) now inst
      (map_option more_hook ev) (program_outcome_of job h v))) (\<lambda>z. returnS (map_option fst z))) set_option" for inst ev
    by (rule good_fst, rule good_finalize_program [OF assms(1,2)]) (simp_all add: po assms(3))
  have run: "good S None K (bindS (terminal_evidence S job v) (\<lambda>evidence.
      bindS (ask (\<lambda>t. sv_instant S (tk_tick t))) (\<lambda>instant.
      bindS (repoS S (\<lambda>now. finalize_program_job (sv_lib S) (sv_program_lib S) now instant
               (map_option more_hook evidence) (program_outcome_of job h v))) (\<lambda>z.
      returnS (map_option fst z))))) set_option"
    by (rule good_bind_none [OF good_terminal_evidence], rule good_bind_none [OF good_ask], rule finalize)
  show ?thesis
    unfolding finish_program_job_def
    by (intro good_rules run good_refused) (auto simp: assms)
qed

lemma good_finish_rollback:
  assumes "job \<in> K" "jb_kind job \<in> set ROLLBACK_JOBS"
  shows "good S None K (finish_rollback_job S job h v) no_jobs"
proof -
  have "jb_kind job \<noteq> ''program_commit''" using assms(2) by (auto simp: ROLLBACK_JOBS_def)
  then have finalize: "good S None K (bindS (repoS S (\<lambda>now. finalize_job_result (sv_lib S) now
      (rollback_hook job ev rc) ((job_outcome_of job h v)\<lparr>jo_snapshot := None\<rparr>)))
      (\<lambda>z. returnS (map_option fst z))) set_option" for ev rc
    by (intro good_fst good_finalize [OF assms(1)]) (simp_all add: job_outcome_of_def)
  have run: "good S None K (bindS (terminal_evidence S job v) (\<lambda>evidence.
      bindS (rollback_receipt S job v) (\<lambda>receipt.
      bindS (repoS S (\<lambda>now. finalize_job_result (sv_lib S) now (rollback_hook job evidence receipt)
               ((job_outcome_of job h v)\<lparr>jo_snapshot := None\<rparr>))) (\<lambda>z.
      returnS (map_option fst z))))) set_option"
    by (rule good_bind_none [OF good_terminal_evidence], rule good_bind_none [OF good_rollback_receipt], rule finalize)
  show ?thesis unfolding finish_rollback_job_def by (intro good_rules run)
qed

lemma good_finish_ordinary:
  assumes "job \<in> K" "jb_kind job \<notin> set PROGRAM_JOBS" "jb_kind job \<notin> set ROLLBACK_JOBS"
  shows "good S None K (finish_ordinary_job S job h v) no_jobs"
proof -
  have k: "jb_kind job \<noteq> ''program_commit''" "jb_kind job \<noteq> ''rollback_commit''"
    using assms(2,3) by (auto simp: PROGRAM_JOBS_def ROLLBACK_JOBS_def)
  have run: "good S None K (bindS (repoS S (\<lambda>now. finalize_job_result (sv_lib S) now None (job_outcome_of job h v)))
      (\<lambda>z. returnS (map_option fst z))) set_option"
    unfolding no_rollback_hook [OF k(2)]
    by (intro good_fst good_finalize [OF assms(1) k(1)]) (simp add: job_outcome_of_def)
  show ?thesis unfolding finish_ordinary_job_def invalid_message_def by (intro good_rules run)
qed

lemma good_finish:
  "job \<in> K \<Longrightarrow> is_terminal (vd_target v) \<Longrightarrow> good S None K (finish_job S job h v) no_jobs"
  unfolding finish_job_def using good_finish_program good_finish_rollback good_finish_ordinary by auto

lemma good_result [good_rules]:
  assumes "job \<in> K" "rb_status b \<in> {Succeeded, Failed, Cancelled} \<or> cls \<noteq> PlainResult \<and> rb_status b = OutcomeUnknown"
  shows "good S None K (handle_result S job cls h b) no_jobs"
proof -
  have verdict: "good S None K (bindS (liftS (result_verdict S job (rb_status b) result code)) (finish_job S job h))
      no_jobs" if "rb_status b \<noteq> OutcomeUnknown" for result code
    using good_lift_verdict [OF _ good_finish [OF assms(1)]] assms(2) that by auto
  have lifted: "good S None K (bindS (liftS r) f) no_jobs" if "\<And>x. good S None K (f x) no_jobs" for r :: "service_error + 'z" and f
    using that by (rule good_bind_none [OF good_lift])
  show ?thesis
    unfolding handle_result_def
    by (cases cls; cases "rb_status b = OutcomeUnknown")
      (use assms(2) in \<open>simp_all add: good_fail_payload good_report_unknown verdict lifted\<close>)
qed

end

section \<open>Reconciliation and waiting\<close>

context fair_service
begin

lemma good_retry [good_rules]:
  "(\<And>m. again = Some m \<Longrightarrow> good S None K m no_jobs) \<Longrightarrow> good S None K n no_jobs \<Longrightarrow>
   good S None K (retry_race again n e) no_jobs"
  unfolding retry_race_def by (intro good_rules) auto

lemma good_retry_raise [good_rules]:
  "(\<And>m. again = Some m \<Longrightarrow> good S None K m no_jobs) \<Longrightarrow> good S None K (retry_or_raise again e) no_jobs"
  unfolding retry_or_raise_def by (intro good_rules) auto

lemma good_reconcile_unknown [good_rules]:
  "(\<And>m K. again = Some m \<Longrightarrow> good S None K m no_jobs) \<Longrightarrow>
   good S None K (reconcile_unknown S again n r job st) no_jobs"
  unfolding reconcile_unknown_def by (intro good_rules) auto

lemma good_reconcile_not_started [good_rules]:
  "(\<And>m K. again = Some m \<Longrightarrow> good S None K m no_jobs) \<Longrightarrow>
   good S None K (reconcile_not_started S again job) no_jobs"
  unfolding reconcile_not_started_def by (intro good_rules) auto

lemma good_reconcile_started [good_rules]:
  assumes "\<And>m K. again = Some m \<Longrightarrow> good S None K m no_jobs"
  shows "good S None K (reconcile_started S again n r job) no_jobs"
proof -
  let ?told = "\<lambda>target first. if \<not> cancel_wanted job then returnS first
    else bindS (if target = Running then transition S (jb_job_id job) (change_to CancelRequested)
                else returnS first) (\<lambda>updated.
         bindS (send_cancel S r (case updated of None \<Rightarrow> job | Some u \<Rightarrow> u) CANCEL_REASON) (\<lambda>_.
         returnS updated))"
  have told: "good S None (K \<union> set_option first) (?told target first) set_option" for target first
    by (intro good_rules) auto
  have rest: "good S None (K \<union> set_option first) (bindS (?told target first) (\<lambda>updated.
      bindS (resolve updated) (\<lambda>_.
      case updated of
        None \<Rightarrow> returnS ()
      | Some u \<Rightarrow>
          if target = OutcomeUnknown
          then record_reconcile_outcome S (jb_owner_subject u) (jb_job_id u) OutcomeInconclusive
                 ''Agent reports the write started without terminal evidence'' (n + 1)
          else returnS ()))) no_jobs" for target first
    by (rule good_bind_option [OF told]) (intro good_rules; simp)
  show ?thesis
    unfolding reconcile_started_def
    by (intro good_let good_try [where q = set_option] good_transition good_retry_raise rest)
      (auto intro: assms)
qed

lemma good_reconcile_terminal [good_rules]:
  assumes "job \<in> K" "status \<in> {Succeeded, Failed, Cancelled}"
  shows "good S None K (reconcile_terminal S n r job h q status) no_jobs"
proof -
  have "rb_status ((reconcile_result_body job q status)\<lparr>rb_result := x\<rparr>) = status" for x
    by (simp add: reconcile_result_body_def)
  then show ?thesis
    unfolding reconcile_terminal_def by (intro good_rules) (use assms in auto)
qed

lemma good_reconcile_step:
  assumes "\<And>m K. again = Some m \<Longrightarrow> good S None K m no_jobs" "set_option seen \<subseteq> K"
    and "rq_result_status q \<in> {None, Some Succeeded, Some Failed, Some Cancelled}"
  shows "good S None K (reconcile_step S again n r h q seen) no_jobs"
proof -
  have found: "x \<in> K \<union> set_option latest"
    if "(case latest of None \<Rightarrow> seen | Some j \<Rightarrow> Some j) = Some x" for latest x
    using that assms(2) by (auto split: option.splits)
  show ?thesis
    unfolding reconcile_step_def invalid_message_def
    by (intro good_rules assms(1); (erule found)?) (use assms(3) in auto)
qed

lemma good_reconcile [good_rules]:
  assumes "set_option seen \<subseteq> K" "rq_result_status q \<in> {None, Some Succeeded, Some Failed, Some Cancelled}"
  shows "good S None K (handle_reconcile_result S n r h q seen) no_jobs"
  using assms
proof (induction "2 - n" arbitrary: n seen K)
  case 0
  then show ?case by (subst handle_reconcile_result.simps) (auto intro!: good_reconcile_step)
next
  case (Suc k)
  have "good S None K (handle_reconcile_result S (n + 1) r h q None) no_jobs" for K
    using Suc.hyps(2) Suc.prems(2) by (intro Suc.hyps(1)) auto
  then show ?case
    using Suc.prems by (subst handle_reconcile_result.simps) (auto intro!: good_reconcile_step)
qed

lemma good_message [good_rules]:
  assumes "wire_ok m"
  shows "good S None K (handle_message S r m) no_jobs"
proof -
  have "good S None K (case m of
       AckMessage h b \<Rightarrow> handle_ack S r job h b
     | ProgressMessage h b \<Rightarrow> handle_progress S job h b
     | ResultMessage cls h b \<Rightarrow> handle_result S job cls h b
     | ReconcileResultMessage h q \<Rightarrow> handle_reconcile_result S 0 r h q (Some job)
     | OtherMessage h \<Rightarrow> returnS ()) no_jobs" if "job \<in> K" for job K
    using assms that by (cases m) (auto simp: wire_ok_def intro!: good_rules)
  then show ?thesis unfolding handle_message_def by (intro good_rules) auto
qed

lemma good_validate_message [good_rules]: "good S None K (validate_message S r m) no_jobs"
  unfolding validate_message_def by (intro good_rules) auto

lemma good_await_job [good_rules]: "good S None K (await_job S own job w) no_jobs"
  unfolding await_job_def by (intro good_rules good_ask) (auto split: future.splits intro!: good_rules)

lemma good_wait [good_rules]: "good S None K (wait_for_existing_job S job own cid) no_jobs"
  unfolding wait_for_existing_job_def by (intro good_rules) auto

lemma good_observe [good_rules]: "good S None K (create_and_observe S own dv payload cid key dl) no_jobs"
  unfolding create_and_observe_def by (intro good_rules good_create)

end

end
