(* ===== verification/JobConcurrency.thy ===== *)
theory JobConcurrency
  imports JobHandlers
begin

text \<open>
  The service among its own tasks.  A task of the gateway is a call of one of the service's methods, a
  message loop's change of the connection registry, or the creation of a program or of an action by
  the program service.  \<open>concurrent d plan S\<close> is the service whose suspension points let other tasks
  run, as \<open>plan\<close> says, and these again others, to depth \<open>d\<close>.  It is a fair service, so everything
  proved in the locale holds for it.
\<close>

section \<open>Tasks\<close>

text \<open>A message the wire models refuse does not reach the service.\<close>

datatype service_call =
    HandleMessage conn_ref agent_message
  | ValidateMessage conn_ref agent_message
  | DispatchJob string string
  | SweepDeadlines
  | HandleConnected conn_ref
  | HandleDisconnect string
  | CancelJob string string string
  | CreateAndObserve string string json string string "string option"
  | WaitForJob job_row string string
  | RegistryAdd conn_ref
  | RegistryRemove string string
  | RegistryHeartbeat int string string heartbeat_fields
  | CancelWaiters
  | CreateProgram program_request
  | CreateAction action_request

definition ignoreS :: "('y, 'a) call \<Rightarrow> ('y, unit) call" where
  "ignoreS m = bindS m (\<lambda>_. returnS ())"

fun run_call :: "'y service \<Rightarrow> service_call \<Rightarrow> ('y, unit) call" where
  "run_call S (HandleMessage r m) = (if wire_ok m then handle_message S r m else raiseS MessageInvalid)"
| "run_call S (ValidateMessage r m) = ignoreS (validate_message S r m)"
| "run_call S (DispatchJob k cid) = ignoreS (dispatch S k cid)"
| "run_call S SweepDeadlines = ignoreS (sweep_deadlines S)"
| "run_call S (HandleConnected r) = handle_connected S r"
| "run_call S (HandleDisconnect dv) = handle_disconnect S dv"
| "run_call S (CancelJob k own reason) = ignoreS (cancel S k own reason)"
| "run_call S (CreateAndObserve own dv payload cid key deadline) =
     ignoreS (create_and_observe S own dv payload cid key deadline)"
| "run_call S (WaitForJob job own cid) = ignoreS (wait_for_existing_job S job own cid)"
| "run_call S (RegistryAdd r) =
     set_core (\<lambda>c. c\<lparr>gc_registry := snd (registry_add r (gc_registry c))\<rparr>)"
| "run_call S (RegistryRemove dv s) =
     set_core (\<lambda>c. c\<lparr>gc_registry := snd (registry_remove dv s (gc_registry c))\<rparr>)"
| "run_call S (RegistryHeartbeat now dv s h) =
     set_core (\<lambda>c. c\<lparr>gc_registry := snd (mark_heartbeat now dv s h (gc_registry c))\<rparr>)"
| "run_call S CancelWaiters = set_core cancel_waiters"
| "run_call S (CreateProgram q) =
     ignoreS (transactionS (\<lambda>n. create_program (sv_lib S) (sv_utc S n) q))"
| "run_call S (CreateAction q) =
     ignoreS (transactionS (\<lambda>n. create_action_job (sv_lib S) (sv_program_lib S) (sv_utc S n)
       (sv_new_id S (2 * n)) (sv_new_id S (2 * n + 1)) q))"

text \<open>A task is a call and the tick it starts at; the state it leaves, also when it fails.\<close>

definition start :: "nat \<Rightarrow> 'y core \<Rightarrow> 'y task" where
  "start n c = \<lparr>tk_core = c, tk_tick = n\<rparr>"

definition run_on :: "'y service \<Rightarrow> nat \<times> service_call \<Rightarrow> 'y core \<Rightarrow> 'y core" where
  "run_on S x c = tk_core (snd (run_call S (snd x) (start (fst x) c)))"

type_synonym plan = "nat \<Rightarrow> nat \<Rightarrow> (nat \<times> service_call) list"

primrec concurrent :: "nat \<Rightarrow> plan \<Rightarrow> 'y service \<Rightarrow> 'y service" where
  "concurrent 0 plan S = S\<lparr>sv_others := \<lambda>n c. c\<rparr>"
| "concurrent (Suc d) plan S = S\<lparr>sv_others := \<lambda>n c. fold (run_on (concurrent d plan S)) (plan d n) c\<rparr>"

section \<open>Every task keeps the guarantee\<close>

context fair_service
begin

lemma good_ignore: "good S None K m q \<Longrightarrow> good S None K (ignoreS m) no_jobs"
  unfolding ignoreS_def by (rule good_bind) (auto intro: good_return)

lemma good_step:
  assumes "\<And>n db x db'. f n db = Inr (x, db') \<Longrightarrow> program_step db db'"
  shows "good S None K (transactionS f) no_jobs"
  by (rule good_transaction) (auto dest: assms intro: steps_single)

lemma good_call: "good S None K (run_call S x) no_jobs"
proof (cases x)
  case (CreateProgram q)
  show ?thesis
    unfolding CreateProgram run_call.simps by (rule good_ignore [OF good_step], rule pstep_program)
next
  case (CreateAction q)
  show ?thesis
    unfolding CreateAction run_call.simps by (rule good_ignore [OF good_step], rule pstep_action)
qed (auto simp: cancel_waiters_def intro!: good_message good_connected good_disconnect good_raise
    good_ignore good_validate_message good_dispatch good_sweep good_cancel good_observe good_wait
    good_set_core)

lemma run_acts: "program_ok (gc_store c) \<Longrightarrow> core_acts S None c (run_on S x c)"
  using goodD(1) [OF good_call [of "{}" "snd x"], of "start (fst x) c"]
  by (cases "run_call S (snd x) (start (fst x) c)") (auto simp: run_on_def start_def)

end

lemma core_acts_refl: "core_acts S None c c"
  using acts_refl [of S "start 0 c"] by (simp add: start_def)

lemma core_acts_trans:
  assumes "core_acts S None c d" "core_acts S None d e" "program_ok (gc_store c)"
  shows "core_acts S None c e"
  using acts_trans [of S None "start 0 c" "start 0 d" None "start 0 e"] assms by (simp add: start_def)

lemma core_acts_ok: "core_acts S None c d \<Longrightarrow> program_ok (gc_store c) \<Longrightarrow> program_ok (gc_store d)"
  using acts_ok [of S None "start 0 c" "start 0 d"] by (simp add: start_def)

lemma core_acts_fold:
  "(\<And>x c. program_ok (gc_store c) \<Longrightarrow> core_acts S None c (f x c)) \<Longrightarrow> program_ok (gc_store c) \<Longrightarrow>
   core_acts S None c (fold f xs c)"
proof (induction xs arbitrary: c)
  case (Cons x xs)
  have a: "core_acts S None c (f x c)" using Cons.prems by simp
  then show ?case using Cons core_acts_trans [OF a] core_acts_ok [OF a] by simp
qed (simp add: core_acts_refl)

section \<open>The service among its own tasks is fair\<close>

lemma core_acts_policy: "sv_policy S = sv_policy S' \<Longrightarrow> core_acts S k c d = core_acts S' k c d"
  by (simp add: core_acts_def gated_def)

lemma concurrent_policy [simp]: "sv_policy (concurrent d plan S) = sv_policy S"
  by (cases d) simp_all

lemma concurrent_fair: "fair_tasks (concurrent d plan S)"
proof (induction d)
  case 0
  show ?case by (simp add: fair_tasks_def core_acts_refl)
next
  case (Suc d)
  have inner: "fair_service (concurrent d plan S)" using Suc by unfold_locales
  have "core_acts (concurrent d plan S) None c (fold (run_on (concurrent d plan S)) xs c)"
    if "program_ok (gc_store c)" for xs c
    using core_acts_fold [OF fair_service.run_acts [OF inner] that] .
  then show ?case
    by (simp add: fair_tasks_def core_acts_policy [of "S\<lparr>sv_others := f\<rparr>" "concurrent d plan S" for f])
qed

interpretation among: fair_service "concurrent d plan S" for d plan S
  by unfold_locales (rule concurrent_fair)

text \<open>A run of the whole gateway: its top-level tasks one after the other, each among others.\<close>

definition run_all :: "nat \<Rightarrow> plan \<Rightarrow> 'y service \<Rightarrow> (nat \<times> service_call) list \<Rightarrow> 'y core \<Rightarrow> 'y core" where
  "run_all d plan S xs c = fold (run_on (concurrent d plan S)) xs c"

lemma run_all_acts:
  assumes "program_ok (gc_store c)"
  shows "core_acts S None c (run_all d plan S xs c)"
  unfolding run_all_def core_acts_policy [OF concurrent_policy [symmetric], of S _ _ _ d plan]
  by (rule core_acts_fold [OF among.run_acts assms])

end
