(* ===== verification/JobRuns.thy ===== *)
theory JobRuns
  imports JobConcurrency
begin

text \<open>
  What single methods of \<open>DurableJobService\<close> do when no other task runs meanwhile: which messages are
  refused, where a disconnect and a passed deadline leave the jobs, and how often a reconciliation
  answer is tried.
\<close>

section \<open>The service on its own\<close>

definition alone :: "'y service \<Rightarrow> 'y service" where
  "alone S = S\<lparr>sv_others := \<lambda>n c. c\<rparr>"

lemma alone_simps [simp]:
  "sv_lib (alone S) = sv_lib S" "sv_program_lib (alone S) = sv_program_lib S"
  "sv_policy (alone S) = sv_policy S" "sv_phase7 (alone S) = sv_phase7 S"
  "sv_has_programs (alone S) = sv_has_programs S" "sv_others (alone S) = (\<lambda>n c. c)"
  "sv_utc (alone S) = sv_utc S" "sv_micros (alone S) = sv_micros S" "sv_instant (alone S) = sv_instant S"
  "sv_check_message (alone S) = sv_check_message S" "sv_send_fails (alone S) = sv_send_fails S"
  by (simp_all add: alone_def)

named_theorems run_simps \<open>one call of the service on its own\<close>

lemma alone_await [run_simps]: "awaitS (alone S) t = (Inr (), t\<lparr>tk_tick := Suc (tk_tick t)\<rparr>)"
  by (simp add: awaitS_def)

lemma alone_read [run_simps]:
  "readS (alone S) f t = (Inr (f (task_store t)), t\<lparr>tk_tick := tk_tick t + 2\<rparr>)"
  by (simp add: readS_def bindS_def ask_def returnS_def awaitS_def)

lemma alone_connection [run_simps]: "connectionS r t = (Inr (rg_heap (gc_registry (tk_core t)) r), t)"
  by (simp add: connectionS_def ask_def)

lemma alone_repo [run_simps]:
  "repoS (alone S) f t =
    (case f (sv_utc S (tk_tick t + 1)) (task_store t) of
       Inl e \<Rightarrow> (Inl (StoreFailed e), t\<lparr>tk_tick := tk_tick t + 1\<rparr>)
     | Inr (x, db) \<Rightarrow> (Inr x, t\<lparr>tk_core := (tk_core t)\<lparr>gc_store := db\<rparr>, tk_tick := tk_tick t + 2\<rparr>))"
  by (auto simp: repoS_def bindS_def returnS_def awaitS_def transactionS_def split: sum.splits)

lemma alone_registry [run_simps]:
  "registryS (alone S) f t =
     (Inr (f (sv_micros S (Suc (tk_tick t))) (gc_registry (tk_core t))), t\<lparr>tk_tick := tk_tick t + 2\<rparr>)"
  by (simp add: registryS_def bindS_def ask_def returnS_def awaitS_def)

lemma alone_send [run_simps]:
  "sendS (alone S) r m t = (let c = tk_core t; u = t\<lparr>tk_core := c\<lparr>gc_sent := gc_sent c @
      [\<lparr>sm_connection = r, sm_seen = rg_heap (gc_registry c) r, sm_message = m\<rparr>]\<rparr>,
      tk_tick := Suc (tk_tick t)\<rparr>
    in (if sv_send_fails S (Suc (tk_tick t)) then Inl SendFailed else Inr (), u))"
  by (simp add: sendS_def bindS_def ask_def returnS_def raiseS_def awaitS_def log_send_def Let_def)

lemma call_runs [run_simps]:
  "bindS m f t = (case m t of (Inl e, u) \<Rightarrow> (Inl e, u) | (Inr x, u) \<Rightarrow> f x u)"
  "catchS m h t = (case m t of (Inl e, u) \<Rightarrow> h e u | (Inr x, u) \<Rightarrow> (Inr x, u))"
  "returnS x t = (Inr x, t)" "raiseS e t = (Inl e, t)" "liftS r t = (r, t)"
  by (simp_all add: bindS_def catchS_def returnS_def raiseS_def liftS_def)

section \<open>Messages that are not of the job's own connection\<close>

text \<open>A message for an unknown command, or whose session, device, command or job is not the one of
  the connection it arrived on and of the job it names, is refused as invalid: it changes no job, no
  waiting caller and sends nothing.\<close>

theorem foreign_message_refused:
  assumes "get_job_by_command (cn_device_id c) (hd_command_id (head_of m)) (task_store t) = found"
    and "c = rg_heap (gc_registry (tk_core t)) r"
    and "found = None \<or> (\<exists>job. found = Some job \<and>
      (hd_session_id (head_of m) \<noteq> cn_session_id c \<or> hd_device_id (head_of m) \<noteq> cn_device_id c \<or>
       jb_device_id job \<noteq> cn_device_id c \<or> hd_command_id (head_of m) \<noteq> jb_command_id job \<or>
       hd_job_id (head_of m) \<notin> {None, Some (jb_job_id job)}))"
  shows "\<exists>k st. fst (handle_message (alone S) r m t) = Inl (DurableJobError ''invalid_message'' k st) \<and>
    tk_core (snd (handle_message (alone S) r m t)) = tk_core t"
  using assms
  by (auto simp: handle_message_def Let_def run_simps validate_message_binding_def job_error_def
      split: if_splits)

section \<open>Reconciliation is tried at most three times\<close>


section \<open>Moving jobs one after the other\<close>

lemma transition_job_exact:
  assumes "jobs_ok db" "job_row_of k db = Some row" "jc_result c = None"
    and "validate_transition (jb_state row) (jc_target c) (jb_effect_class row) (jc_evidence c) = Inr ()"
    and "jc_expected_version c \<in> {None, Some (jb_state_version row)}" "jc_target c \<noteq> Succeeded"
  shows "\<exists>db'. transition_job L now k c db = Inr (Some (transitioned_row now c row), db') \<and> jobs_ok db' \<and>
    (\<forall>j. job_row_of j db' = (if j = k then Some (transitioned_row now c row) else job_row_of j db))"
proof -
  have d: "distinct (map jb_job_id (st_jobs db))" using assms(1) by (simp add: jobs_ok_def)
  let ?f = "transitioned_row now c"
  obtain x db' where t: "transition_job L now k c db = Inr (x, db')"
    "st_jobs db' = st_jobs (update_job k ?f db)"
    using assms(2-6) cas_update_current [OF d assms(2), of ?f]
    by (auto simp: transition_job_def result_snapshot_def guard_def append_event_def)
  have "jb_job_id (?f row) = k" using job_row_of_Some [OF assms(2)] by (simp add: transitioned_row_def)
  then have rows: "job_row_of j db' = (if j = k then Some (?f row) else job_row_of j db)" for j
    using update_job_row_of [OF d assms(2) _ t(2)] by simp
  have "only_jobs db db'" "x = Some (?f row)"
    using transition_job_delta [OF t(1) assms(1)] assms(2) by (cases x; simp)+
  then have "jobs_ok db'" "transition_job L now k c db = Inr (Some (?f row), db')"
    using job_delta_ok [of db db'] assms(1) t(1) by (auto simp: only_jobs_def)
  then show ?thesis using rows by blast
qed

lemma change_more [simp]:
  "jc_result (change_to s) = None" "jc_evidence (change_to s) = False" "jc_expected_version (change_to s) = None"
  "jc_result (failure_to s code msg) = None" "jc_evidence (failure_to s code msg) = False"
  "jc_expected_version (failure_to s code msg) = None" "jc_error_code (failure_to s code msg) = Some code"
  by (simp_all add: change_to_def failure_to_def)

lemma transitioned_simps [simp]:
  "jb_job_id (transitioned_row now c r) = jb_job_id r" "jb_state (transitioned_row now c r) = jc_target c"
  "job_identity (transitioned_row now c r) = job_identity r"
  by (simp_all add: transitioned_row_def job_identity_def)

lemma alone_transition:
  fixes t :: "'y task"
  assumes "jobs_ok (task_store t)" "job_row_of k (task_store t) = Some row" "jc_result c = None"
    and "validate_transition (jb_state row) (jc_target c) (jb_effect_class row) (jc_evidence c) = Inr ()"
    and "jc_expected_version c \<in> {None, Some (jb_state_version row)}" "jc_target c \<noteq> Succeeded"
  shows "\<exists>t' r. transition (alone S) k c t = (Inr (Some r), t') \<and> jobs_ok (task_store t') \<and>
    jb_state r = jc_target c \<and> job_identity r = job_identity row \<and>
    (\<forall>j. job_row_of j (task_store t') = (if j = k then Some r else job_row_of j (task_store t)))"
  using transition_job_exact [OF assms, of "sv_lib S" "sv_utc S (tk_tick t + 1)"]
  by (fastforce simp: transition_def run_simps)

text \<open>A loop over jobs, each pass of which changes only the row of its own job.\<close>

definition moves_job :: "(job_row \<Rightarrow> ('y, unit) call) \<Rightarrow> (job_row \<Rightarrow> job_row \<Rightarrow> bool) \<Rightarrow> job_row \<Rightarrow> bool" where
  "moves_job f Q job \<longleftrightarrow> (\<forall>t. jobs_ok (task_store t) \<longrightarrow> job_row_of (jb_job_id job) (task_store t) = Some job \<longrightarrow>
     (\<exists>t' r. f job t = (Inr (), t') \<and> jobs_ok (task_store t') \<and>
        job_row_of (jb_job_id job) (task_store t') = Some r \<and> Q job r \<and>
        (\<forall>j. j \<noteq> jb_job_id job \<longrightarrow> job_row_of j (task_store t') = job_row_of j (task_store t))))"

lemma forS_moves:
  assumes "\<And>job. job \<in> set jobs \<Longrightarrow> moves_job f Q job" "distinct (map jb_job_id jobs)"
    and "jobs_ok (task_store t)" "\<And>job. job \<in> set jobs \<Longrightarrow> job_row_of (jb_job_id job) (task_store t) = Some job"
  shows "\<exists>t'. forS jobs f t = (Inr (), t') \<and> jobs_ok (task_store t') \<and>
    (\<forall>job \<in> set jobs. \<exists>r. job_row_of (jb_job_id job) (task_store t') = Some r \<and> Q job r) \<and>
    (\<forall>j. j \<notin> jb_job_id ` set jobs \<longrightarrow> job_row_of j (task_store t') = job_row_of j (task_store t))"
  using assms
proof (induction jobs arbitrary: t)
  case Nil
  then show ?case by (auto simp: run_simps)
next
  case (Cons job jobs)
  obtain u r where u: "f job t = (Inr (), u)" "jobs_ok (task_store u)"
    "job_row_of (jb_job_id job) (task_store u) = Some r" "Q job r"
    "\<And>j. j \<noteq> jb_job_id job \<Longrightarrow> job_row_of j (task_store u) = job_row_of j (task_store t)"
    using Cons.prems(1) [of job] Cons.prems(3,4) by (auto simp: moves_job_def)
  have other: "jb_job_id j \<noteq> jb_job_id job" if "j \<in> set jobs" for j
    using Cons.prems(2) that by (metis distinct.simps(2) image_eqI list.set_map list.simps(9))
  obtain v where v: "forS jobs f u = (Inr (), v)" "jobs_ok (task_store v)"
    "\<And>j. j \<in> set jobs \<Longrightarrow> \<exists>r. job_row_of (jb_job_id j) (task_store v) = Some r \<and> Q j r"
    "\<And>j. j \<notin> jb_job_id ` set jobs \<Longrightarrow> job_row_of j (task_store v) = job_row_of j (task_store u)"
    using Cons.IH [of u] Cons.prems u(2,5) other by auto
  have "jb_job_id job \<notin> jb_job_id ` set jobs" using other by force
  then show ?case using u v by (auto simp: run_simps)
qed

text \<open>The loop over the jobs a query selects.\<close>

lemma loop_outcome:
  assumes "\<And>j. j \<in> set (st_jobs (task_store t)) \<Longrightarrow> P j \<Longrightarrow> moves_job f Q j" "jobs_ok (task_store t)"
    and "job_row_of k (task_store t) = Some job"
  shows "\<exists>v r. forS (sort_key g (filter P (st_jobs (task_store t)))) f t = (Inr (), v) \<and>
    job_row_of k (task_store v) = Some r \<and> (if P job then Q job r else r = job)"
proof -
  let ?all = "st_jobs (task_store t)" and ?jobs = "sort_key g (filter P (st_jobs (task_store t)))"
  have d: "distinct (map jb_job_id ?all)" using assms(2) by (simp add: jobs_ok_def)
  have rows: "job_row_of (jb_job_id j) (task_store t) = Some j" if "j \<in> set ?jobs" for j
    using that job_row_of_mem [OF d] by auto
  have "inj_on jb_job_id (set ?all)" using d by (simp add: distinct_map)
  then have "inj_on jb_job_id (set ?jobs)" by (rule inj_on_subset) auto
  then have dist: "distinct (map jb_job_id ?jobs)" using d by (simp add: distinct_map)
  obtain v where v: "forS ?jobs f t = (Inr (), v)"
    "\<And>j. j \<in> set ?jobs \<Longrightarrow> \<exists>r. job_row_of (jb_job_id j) (task_store v) = Some r \<and> Q j r"
    "\<And>j. j \<notin> jb_job_id ` set ?jobs \<Longrightarrow> job_row_of j (task_store v) = job_row_of j (task_store t)"
    using forS_moves [of ?jobs f Q t, OF _ dist assms(2) rows] assms(1) by auto
  have job: "job \<in> set ?all" "jb_job_id job = k" using job_row_of_Some [OF assms(3)] by auto
  show ?thesis
  proof (cases "P job")
    case True
    then show ?thesis using v(1) v(2) [of job] job by auto
  next
    case False
    then have "k \<notin> jb_job_id ` set ?jobs" using rows assms(3) by force
    then show ?thesis using v(1,3) assms(3) False by auto
  qed
qed

section \<open>A disconnect\<close>

lemma resolve_runs [run_simps]:
  "resolve (Some j) t = (Inr (), t\<lparr>tk_core := resolve_core j (tk_core t)\<rparr>)"
  by (simp add: resolve_def set_core_def)

definition no_cases :: "'y service \<Rightarrow> bool" where
  "no_cases S \<longleftrightarrow> (case sv_phase7 S of None \<Rightarrow> True | Some p \<Rightarrow> \<not> p7_cases_enabled p)"

lemma no_recovery [run_simps]: "no_cases S \<Longrightarrow> ensure_recovery_case (alone S) own job cause q t = (Inr (), t)"
  by (auto simp: no_cases_def ensure_recovery_case_def run_simps split: option.splits)

text \<open>Where a disconnect leaves a job of the device.\<close>

definition after_disconnect :: "job_row \<Rightarrow> job_state" where
  "after_disconnect job = (case disconnect_target job of None \<Rightarrow> jb_state job | Some s \<Rightarrow> s)"

lemma disconnect_valid:
  "disconnect_target job = Some s \<Longrightarrow> validate_transition (jb_state job) s (jb_effect_class job) False = Inr () \<and>
     s \<in> {OutcomeUnknown, ReconnectPending}"
  by (auto simp: disconnect_target_def validate_transition_def transition_allowed_def
      recovery_evidence_transitions_def split: if_splits)

lemma disconnect_moves:
  fixes S :: "'y service"
  assumes "no_cases S"
  shows "moves_job (disconnect_job (alone S)) (\<lambda>job r. jb_state r = after_disconnect job) job"
  unfolding moves_job_def
proof (intro allI impI)
  fix t :: "'y task"
  assume a: "jobs_ok (task_store t)" "job_row_of (jb_job_id job) (task_store t) = Some job"
  show "\<exists>t' r. disconnect_job (alone S) job t = (Inr (), t') \<and> jobs_ok (task_store t') \<and>
      job_row_of (jb_job_id job) (task_store t') = Some r \<and> jb_state r = after_disconnect job \<and>
      (\<forall>j. j \<noteq> jb_job_id job \<longrightarrow> job_row_of j (task_store t') = job_row_of j (task_store t))"
  proof (cases "disconnect_target job")
    case None
    then show ?thesis using a by (auto simp: disconnect_job_def after_disconnect_def run_simps)
  next
    case (Some s)
    note v = disconnect_valid [OF Some]
    obtain u r where u: "transition (alone S) (jb_job_id job) (change_to s) t = (Inr (Some r), u)"
      "jobs_ok (task_store u)" "jb_state r = s"
      "\<And>j. job_row_of j (task_store u) = (if j = jb_job_id job then Some r else job_row_of j (task_store t))"
      using alone_transition [OF a, of "change_to s" S] v by auto
    show ?thesis
      using Some u assms
      by (auto simp: disconnect_job_def after_disconnect_def run_simps recovery_for_def resolve_core_store)
  qed
qed


section \<open>Deadlines\<close>

text \<open>Where the sweeper leaves a job, and the jobs whose deadline it can read.\<close>

definition is_expired :: "'y service \<Rightarrow> rat \<Rightarrow> job_row \<Rightarrow> bool" where
  "is_expired S now job =
    (case jb_deadline_at job of
       None \<Rightarrow> False
     | Some d \<Rightarrow> d \<noteq> [] \<and> deadline_expired S now d = Inr True)"

definition after_sweep :: "'y service \<Rightarrow> rat \<Rightarrow> job_row \<Rightarrow> job_state" where
  "after_sweep S now job =
    (if \<not> is_expired S now job \<or> jb_kind job = ''program_commit'' \<and> jb_state job = OutcomeUnknown
     then jb_state job
     else if jb_state job = OutcomeUnknown then NeedsAttention else Failed)"

definition readable_deadline :: "'y service \<Rightarrow> rat \<Rightarrow> job_row \<Rightarrow> bool" where
  "readable_deadline S now job \<longleftrightarrow>
    (case jb_deadline_at job of None \<Rightarrow> True | Some d \<Rightarrow> \<exists>b. deadline_expired S now d = Inr b)"

lemma expiry_valid:
  "\<not> is_terminal (jb_state job) \<Longrightarrow>
   validate_transition (jb_state job) (jc_target (expiry_change job)) (jb_effect_class job)
     (jc_evidence (expiry_change job)) = Inr ()"
  by (cases "jb_state job")
    (simp_all add: expiry_change_def validate_transition_def transition_allowed_def
      recovery_evidence_transitions_def)

lemma expiry_fields:
  "jc_result (expiry_change job) = None" "jc_expected_version (expiry_change job) = None"
  "jc_target (expiry_change job) = (if jb_state job = OutcomeUnknown then NeedsAttention else Failed)"
  by (simp_all add: expiry_change_def)

lemma expiry_target: "jc_target (expiry_change job) \<noteq> Succeeded"
  by (simp add: expiry_fields)

lemma deadline_alone [simp]: "deadline_expired (alone S) now d = deadline_expired S now d"
  by (simp add: deadline_expired_def split: option.splits)

lemma sweep_moves:
  fixes S :: "'y service"
  assumes "no_cases S" "readable_deadline S now job" "\<not> is_terminal (jb_state job)"
  shows "moves_job (sweep_job (alone S) now swept) (\<lambda>job r. jb_state r = after_sweep S now job \<and> job_identity r = job_identity job) job"
  unfolding moves_job_def
proof (intro allI impI)
  fix t :: "'y task"
  assume a: "jobs_ok (task_store t)" "job_row_of (jb_job_id job) (task_store t) = Some job"
  show "\<exists>t' r. sweep_job (alone S) now swept job t = (Inr (), t') \<and> jobs_ok (task_store t') \<and>
      job_row_of (jb_job_id job) (task_store t') = Some r \<and> (jb_state r = after_sweep S now job \<and> job_identity r = job_identity job) \<and>
      (\<forall>j. j \<noteq> jb_job_id job \<longrightarrow> job_row_of j (task_store t') = job_row_of j (task_store t))"
  proof (cases "is_expired S now job \<and> \<not> (jb_kind job = ''program_commit'' \<and> jb_state job = OutcomeUnknown)")
    case False
    then show ?thesis using a assms(1,2)
      by (auto simp: sweep_job_def after_sweep_def is_expired_def readable_deadline_def run_simps
          split: option.splits)
  next
    case True
    let ?c = "expiry_change job"
    obtain u r where u: "transition (alone S) (jb_job_id job) ?c t = (Inr (Some r), u)"
      "jobs_ok (task_store u)" "jb_state r = jc_target ?c" "job_identity r = job_identity job"
      "\<And>j. job_row_of j (task_store u) = (if j = jb_job_id job then Some r else job_row_of j (task_store t))"
      using alone_transition [OF a expiry_fields(1) expiry_valid [OF assms(3)] _ expiry_target, of S]
      by (auto simp: expiry_fields(2))
    show ?thesis
      using True u
      by (auto simp: sweep_job_def after_sweep_def is_expired_def run_simps resolve_core_store
          expiry_fields split: option.splits)
  qed
qed

lemma sweep_outcome_rows:
  assumes "no_cases S" and "program_ok (task_store t)"
    and "list_all (readable_deadline S (sv_instant S (tk_tick t))) (st_jobs (task_store t))"
    and "job_row_of k (task_store t) = Some job" and "\<not> is_terminal (jb_state job)"
  shows "\<exists>r. job_row_of k (task_store (snd (sweep_deadlines (alone S) t))) = Some r \<and>
    jb_state r = after_sweep S (sv_instant S (tk_tick t)) job \<and> job_identity r = job_identity job \<and> fst (sweep_deadlines (alone S) t) = Inr ()"
proof -
  let ?now = "sv_instant S (tk_tick t)" and ?swept = "sv_utc S (tk_tick t)" and ?u = "t\<lparr>tk_tick := tk_tick t + 2\<rparr>"
  have moves: "moves_job (sweep_job (alone S) ?now ?swept) (\<lambda>job r. jb_state r = after_sweep S ?now job \<and> job_identity r = job_identity job) j"
    if "j \<in> set (st_jobs (task_store ?u))" "\<not> is_terminal (jb_state j)" for j
    using sweep_moves [OF assms(1) _ that(2)] that(1) assms(3) by (simp add: list_all_iff)
  obtain v r where v: "forS (all_nonterminal_jobs (task_store t)) (sweep_job (alone S) ?now ?swept) ?u = (Inr (), v)"
    "job_row_of k (task_store v) = Some r" "jb_state r = after_sweep S ?now job \<and> job_identity r = job_identity job"
    using loop_outcome [where t = ?u and P = "\<lambda>r. \<not> is_terminal (jb_state r)"
        and g = jb_created_at and k = k and job = job, OF moves] assms(2,4,5) program_jobs_ok
    by (auto simp: all_nonterminal_jobs_def)
  have "sweep_deadlines (alone S) t = (Inr (), v)"
    using v(1) by (simp add: sweep_deadlines_def run_simps ask_def)
  then show ?thesis using v by simp
qed



section \<open>A dispatch that succeeds\<close>

lemma get_job_known:
  assumes "jobs_ok db" "job_row_of k db = Some job"
  shows "get_job own k db = (if jb_owner_subject job = own then Some job else None)"
proof (cases "get_job own k db")
  case None
  then show ?thesis using job_row_of_Some [OF assms(2)] by (auto simp: get_job_def select1_None)
next
  case (Some r)
  then have "r \<in> set (st_jobs db) \<and> jb_owner_subject r = own \<and> jb_job_id r = k"
    unfolding get_job_def by (rule select1_Some)
  moreover have "distinct (map jb_job_id (st_jobs db))" using assms(1) by (simp add: jobs_ok_def)
  ultimately show ?thesis using job_row_unique [OF _ assms(2)] Some by auto
qed

lemma scan_alone:
  fixes t :: "'y task"
  assumes "jobs_ok (task_store t)" "job_row_of k (task_store t) = Some job" "jb_owner_subject job \<in> set owners"
  shows "\<exists>n. scan_owners (alone S) k owners t = (Inr (Some job), t\<lparr>tk_tick := n\<rparr>)"
  using assms
proof (induction owners arbitrary: t)
  case (Cons own owners)
  note one = get_job_known [OF Cons.prems(1,2), of own]
  show ?case
  proof (cases "jb_owner_subject job = own")
    case True
    then show ?thesis using one by (auto simp: run_simps)
  next
    case False
    then show ?thesis
      using one Cons.IH [of "t\<lparr>tk_tick := tk_tick t + 2\<rparr>"] Cons.prems by (auto simp: run_simps)
  qed
qed simp

lemma internal_alone:
  fixes t :: "'y task"
  assumes "jobs_ok (task_store t)" "job_row_of k (task_store t) = Some job"
  shows "\<exists>n. get_internal_job (alone S) k t = (Inr (Some job), t\<lparr>tk_tick := n\<rparr>)"
proof -
  have "jb_owner_subject job \<in> set (known_owners (task_store t))"
    using job_row_of_Some [OF assms(2)] by (simp add: known_owners_def)
  then show ?thesis
    using scan_alone [of "t\<lparr>tk_tick := tk_tick t + 2\<rparr>" k job "known_owners (task_store t)" S] assms
    by (auto simp: get_internal_job_def run_simps)
qed

definition claimed_row :: "string \<Rightarrow> job_row \<Rightarrow> job_row" where
  "claimed_row now r = r\<lparr>jb_state := Dispatched, jb_state_version := jb_state_version r + 1, jb_updated_at := now\<rparr>"

lemma claim_exact:
  assumes "jobs_ok db" "job_row_of k db = Some row" "jb_state row = Queued"
  shows "\<exists>db'. claim_job L now k db = Inr (Some (claimed_row now row), db') \<and> jobs_ok db' \<and>
    job_row_of k db' = Some (claimed_row now row)"
proof -
  have d: "distinct (map jb_job_id (st_jobs db))" using assms(1) by (simp add: jobs_ok_def)
  let ?f = "\<lambda>r. r\<lparr>jb_state := Dispatched, jb_state_version := jb_state_version r + 1, jb_updated_at := now\<rparr>"
  obtain x db' where t: "claim_job L now k db = Inr (x, db')" "st_jobs db' = st_jobs (update_job k ?f db)"
    "x = job_row_of k db'"
    using assms(2,3) cas_update_current [OF d assms(2), of ?f]
    by (auto simp: claim_job_def append_event_def)
  have "jb_job_id (?f row) = k" using job_row_of_Some [OF assms(2)] by simp
  then have "job_row_of k db' = Some (?f row)" using update_job_row_of [OF d assms(2) _ t(2)] by simp
  moreover have "jobs_ok db'"
    using claim_job_delta [OF t(1) assms(1)] job_delta_ok [of db db'] assms(1) by (simp add: only_jobs_def)
  ultimately show ?thesis using t by (simp add: claimed_row_def)
qed

lemma tick_same: "\<exists>n. t = t\<lparr>tk_tick := n\<rparr>"
  by (rule exI [of _ "tk_tick t"]) simp

lemma require_alone:
  assumes "dispatch_failure (sv_policy S) job (Some (rg_heap (gc_registry (tk_core t)) r)) None = Inr (None, msg)"
    and "cn = Some r \<or> cn = None \<and> registry_get (jb_device_id job) (gc_registry (tk_core t)) = Some r"
  shows "\<exists>n. require_dispatch_capability (alone S) job cn t = (Inr (), t\<lparr>tk_tick := n\<rparr>)"
  using assms
  by (cases cn) (auto simp: require_dispatch_capability_def connection_and_device_def run_simps tick_same)

lemma dispatch_ready:
  assumes "program_ok (task_store t)" and "job_row_of k (task_store t) = Some job" and "jb_state job = Queued"
    and "registry_get (jb_device_id job) (gc_registry (tk_core t)) = Some r"
    and "\<forall>n. is_current_and_fresh (sv_micros S n) r (gc_registry (tk_core t)) \<and> \<not> sv_send_fails S n"
    and "c = rg_heap (gc_registry (tk_core t)) r"
    and "dispatch_failure (sv_policy S) job (Some c) None = Inr (None, msg)"
    and "\<forall>now u. build_command (alone S) cid (claimed_row now job) c u = (Inr m, u)"
  shows "fst (dispatch (alone S) k cid t) = Inr True \<and>
    (\<exists>now. job_row_of k (task_store (snd (dispatch (alone S) k cid t))) = Some (claimed_row now job)) \<and>
    task_sent (snd (dispatch (alone S) k cid t)) =
      task_sent t @ [\<lparr>sm_connection = r, sm_seen = c, sm_message = CommandOut k m\<rparr>]"
proof -
  have j: "jobs_ok (task_store t)" using assms(1) by (rule program_jobs_ok)
  have id: "jb_job_id job = k" using job_row_of_Some [OF assms(2)] by simp
  have failure: "dispatch_failure (sv_policy S) (claimed_row now job) (Some c) None = Inr (None, msg)" for now
    using dispatch_failure_identity [of "claimed_row now job" job] assms(7)
    by (simp add: claimed_row_def job_identity_def)
  let ?t0 = "t\<lparr>tk_tick := Suc (tk_tick t)\<rparr>"
  obtain n1 where 1: "get_internal_job (alone S) k ?t0 = (Inr (Some job), ?t0\<lparr>tk_tick := n1\<rparr>)"
    using internal_alone [of ?t0 k job S] j assms(2) by auto
  let ?t1 = "t\<lparr>tk_tick := n1\<rparr>"
  obtain n2 where 2: "require_dispatch_capability (alone S) job None ?t1 = (Inr (), ?t1\<lparr>tk_tick := n2\<rparr>)"
    using require_alone [of S job ?t1 r msg None] assms(4,6,7) by auto
  let ?now = "sv_utc S (Suc n2)"
  obtain db where 3: "claim_job (sv_lib S) ?now k (task_store t) = Inr (Some (claimed_row ?now job), db)"
    "job_row_of k db = Some (claimed_row ?now job)"
    using claim_exact [OF j assms(2,3)] by blast
  let ?t2 = "t\<lparr>tk_core := (tk_core t)\<lparr>gc_store := db\<rparr>, tk_tick := n2 + 2 + 2 + 2\<rparr>"
  obtain n3 where 4: "require_dispatch_capability (alone S) (claimed_row ?now job) (Some r) ?t2 =
      (Inr (), ?t2\<lparr>tk_tick := n3\<rparr>)"
    using require_alone [of S "claimed_row ?now job" ?t2 r msg "Some r"] failure assms(6) by auto
  have cl: "jb_device_id (claimed_row ?now job) = jb_device_id job" "jb_job_id (claimed_row ?now job) = k"
    using id by (simp_all add: claimed_row_def)
  show ?thesis
    using 1 2 3 4 cl assms(3-6,8)
    by (simp add: dispatch_def send_command_def current_connection_def run_simps Let_def) blast
qed

text \<open>A queued job whose device has a current connection that passes the checks is dispatched: the
  job is marked dispatched, and exactly one message, its own command, goes to that connection.\<close>

theorem dispatch_sends_command:
  assumes "program_ok (task_store t)" and "job_row_of k (task_store t) = Some job" and "jb_state job = Queued"
    and "registry_get (jb_device_id job) (gc_registry (tk_core t)) = Some r"
    and "\<forall>n. is_current_and_fresh (sv_micros S n) r (gc_registry (tk_core t)) \<and> \<not> sv_send_fails S n"
    and "c = rg_heap (gc_registry (tk_core t)) r"
    and "dispatch_failure (sv_policy S) job (Some c) None = Inr (None, msg)"
    and "\<forall>now u. build_command (alone S) cid (claimed_row now job) c u = (Inr m, u)"
  shows "fst (dispatch (alone S) k cid t) = Inr True \<and>
    (\<exists>now. job_row_of k (task_store (snd (dispatch (alone S) k cid t))) = Some (claimed_row now job)) \<and>
    task_sent (snd (dispatch (alone S) k cid t)) =
      task_sent t @ [\<lparr>sm_connection = r, sm_seen = c, sm_message = CommandOut k m\<rparr>]"
  by (rule dispatch_ready [OF assms])

end
