(* ===== verification/JobProperties.thy ===== *)
theory JobProperties
  imports JobConcurrency
begin

text \<open>
  What the service guarantees about durable jobs, however its tasks interleave: how often a command is
  sent, which connections receive commands, and that the gateway as a whole behaves like a board of
  jobs that only move along the transition table.
\<close>

section \<open>How often a job is dispatched\<close>

lemma only_queued_dispatched: "job_step eff s Dispatched \<Longrightarrow> s = Queued"
  by (cases s) (auto simp: job_step_iff transition_allowed_def)

lemma trail_dispatches:
  "trail_to eff t s \<Longrightarrow> count_list t (Some Dispatched) + (if s = Queued then 1 else 0) \<le> count_list t (Some Queued)"
proof (induction rule: trail_to.induct)
  case (trail_step t s s')
  then show ?case using only_queued_dispatched [of eff s] by (cases "s' = Dispatched") auto
qed auto

text \<open>Only a queued job gets another dispatch.\<close>

lemma delta_dispatches:
  assumes "job_delta db db'" "job_row_of k db = Some r" "jb_state r \<noteq> Queued"
  shows "dispatches k db' = dispatches k db"
  using assms(1)
proof cases
  case (delta_created row e)
  then have "jb_job_id row \<noteq> k" using job_row_of_Some [OF assms(2)] by auto
  then show ?thesis using delta_created by (simp add: dispatches_def state_trail_single new_event_def)
next
  case (delta_logged j row f e)
  have "\<not> (ev_event_type e = StateEvent \<and> ev_state e = Some Dispatched)" if "j = k"
    using delta_logged(1,6) assms(2,3) that only_queued_dispatched [of "jb_effect_class row" "jb_state row"]
    by (auto simp: logged_def)
  then show ?thesis using delta_logged by (auto simp: dispatches_def state_trail_single new_event_def)
qed (auto simp: dispatches_def)

text \<open>The states of a job no dispatch follows.\<close>

definition settled :: "job_row \<Rightarrow> bool" where
  "settled r \<longleftrightarrow> is_terminal (jb_state r) \<or> jb_effect_class r = WriteEffect \<and> jb_state r \<in> started_states"

lemma settled_step:
  assumes "settled r" "keeps_job r r'"
    and "jb_state r' = jb_state r \<or> job_step (jb_effect_class r) (jb_state r) (jb_state r')"
  shows "settled r'"
proof -
  have e: "jb_effect_class r' = jb_effect_class r" using keeps_job_keys(4) [OF assms(2)] .
  have "\<not> job_step (jb_effect_class r) (jb_state r) s" if "is_terminal (jb_state r)" for s
    using that transition_not_terminal by (auto simp: job_step_iff)
  then show ?thesis
    using assms(1,3) e write_started_closed [of "jb_state r" "jb_state r'"] by (auto simp: settled_def)
qed

lemma settled_dispatches:
  assumes "steps program_step db db'" "program_ok db" "job_row_of k db = Some r" "settled r"
  shows "dispatches k db' = dispatches k db \<and> (\<exists>r'. job_row_of k db' = Some r' \<and> settled r')"
  using assms
proof (induction rule: steps.induct)
  case (steps_snoc s t u)
  then obtain r' where r': "job_row_of k t = Some r'" "settled r'" "dispatches k t = dispatches k s" by blast
  have t: "program_ok t" using steps_snoc(1,4) by (rule programs.steps_inv)
  then have e: "step_effect t u" "store_ok t"
    using program_step_effect [OF steps_snoc(2) t] by (simp_all add: program_ok_def)
  from effect_rows [OF e r'(1)] obtain r'' where "job_row_of k u = Some r''" "settled r''"
    using settled_step [OF r'(2)] by blast
  moreover have "jb_state r' \<noteq> Queued" using r'(2) by (auto simp: settled_def started_states_def)
  then have "dispatches k u = dispatches k t"
    using delta_dispatches [OF _ r'(1)] e(1) by (simp add: step_effect_def)
  ultimately show ?case using r'(3) by simp
qed auto

section \<open>Commands\<close>

text \<open>The messages a run has sent.\<close>

definition sent_by :: "'y core \<Rightarrow> 'y core \<Rightarrow> sent_message list" where
  "sent_by c c' = drop (length (gc_sent c)) (gc_sent c')"

lemma core_acts_sent:
  assumes "core_acts S None c c'"
  shows "gc_sent c' = gc_sent c @ sent_by c c'" "gated S (gc_store c') (sent_by c c')"
    "commands k (sent_by c c') + dispatches k (gc_store c) \<le> dispatches k (gc_store c')"
    "steps program_step (gc_store c) (gc_store c')"
  using assms by (auto simp: core_acts_def sent_by_def)

lemmas run_all_sent = core_acts_sent [OF run_all_acts]

text \<open>A job that is not stored has no events.\<close>

lemma no_row_no_trail:
  assumes "jobs_ok db" "job_row_of k db = None"
  shows "state_trail k (st_events db) = []"
proof -
  have "ev_job_id ` set (st_events db) \<subseteq> jb_job_id ` set (st_jobs db)" using assms(1) by (simp add: jobs_ok_def)
  moreover have "k \<notin> jb_job_id ` set (st_jobs db)"
    using assms(2) by (auto simp: job_row_of_def select1_None)
  ultimately have "k \<notin> ev_job_id ` set (st_events db)" by blast
  then show ?thesis by (force simp: state_trail_def job_events_def filter_empty_conv)
qed

lemma dispatches_queued:
  assumes "jobs_ok db"
  shows "dispatches k db \<le> count_list (state_trail k (st_events db)) (Some Queued)"
proof (cases "job_row_of k db")
  case None
  then show ?thesis using no_row_no_trail [OF assms None] by (simp add: dispatches_def)
next
  case (Some r)
  then have "log_ok r (st_events db)" "jb_job_id r = k"
    using assms job_row_of_Some [OF Some] by (auto simp: jobs_ok_def)
  then show ?thesis
    using trail_dispatches [of "jb_effect_class r" "state_trail k (st_events db)" "jb_state r"]
    by (auto simp: log_ok_def dispatches_def)
qed



section \<open>Which connections receive commands\<close>

lemma may_dispatch_program:
  assumes "may_dispatch D job c" "jb_kind job \<in> set PROGRAM_WRITES"
  shows "jb_kind job \<in> set (cn_capabilities c) \<and> write_allowed D c \<and> \<not> cn_paused c \<and>
    \<not> cn_hard_pause c \<and> cn_write_lock_enabled c \<and>
    (\<exists>pins matching. program_pins (jb_payload job) = Inr pins \<and>
       dp_policy_version D \<noteq> None \<and> jget pins ''policy_version'' = opt_str (dp_policy_version D) \<and>
       evidence_matches (if is_phase8 (payload_binding (jb_payload job)) then ''operation_registry_version''
         else ''registry_version'') pins c \<and>
       py_in (pinned_package D pins) (cn_packages c) \<and>
       matching_runtimes pins c = Inr matching \<and> length matching = 1)"
proof -
  have k: "jb_kind job \<in> set PROGRAM_JOBS" "required_capability job = jb_kind job"
    using assms(2) by (auto simp: PROGRAM_WRITES_def PROGRAM_JOBS_def required_capability_def)
  show ?thesis
    using assms k
    by (auto simp: may_dispatch_def dispatch_failure_def program_dispatch_failure_def Let_def result_simps
        known_capabilities_def connection_paused_def split: if_splits)
qed

lemma may_dispatch_rollback:
  assumes "may_dispatch D job c" "jb_kind job = ''rollback_commit''"
  shows "''rollback_commit'' \<in> set (cn_capabilities c) \<and> write_allowed D c \<and> \<not> cn_paused c \<and>
    \<not> cn_hard_pause c \<and> cn_write_lock_enabled c \<and>
    (\<exists>binding. payload_binding (jb_payload job) = binding \<and> is_dict binding \<and>
       dp_policy_version D \<noteq> None \<and> jget binding ''policy_version'' = opt_str (dp_policy_version D) \<and>
       jget binding ''runtime_id'' = JStr ''managed_dotnet'' \<and>
       opt_str (cn_active_document_id c) = jget binding ''document_id'' \<and>
       opt_str (cn_active_document_revision c) = jget binding ''document_revision'' \<and>
       evidence_matches ''operation_registry_version'' binding c \<and>
       py_in (pinned_package D binding) (cn_packages c))"
proof -
  have k: "jb_kind job \<notin> set PROGRAM_JOBS" "jb_kind job \<in> set ROLLBACK_JOBS"
    "required_capability job = ''rollback_commit''"
    using assms(2) by (auto simp: ROLLBACK_JOBS_def PROGRAM_JOBS_def required_capability_def)
  show ?thesis
    using assms k
    by (auto simp: may_dispatch_def dispatch_failure_def rollback_dispatch_failure_def Let_def result_simps
        known_capabilities_def connection_paused_def split: if_splits)
qed

lemma sent_gate:
  assumes "program_ok (gc_store c)" "s \<in> set (sent_by c (run_all d plan S xs c))" "command_for k s"
    and "job_row_of k (gc_store (run_all d plan S xs c)) = Some r"
  shows "may_dispatch (sv_policy S) r (sm_seen s)"
  using run_all_sent(2) [OF assms(1), where d = d and plan = plan and S = S and xs = xs] assms(2-4)
  by (fastforce simp: gated_def)

text \<open>C2. Every command for a program preview or commit, in any interleaving, goes to a connection that
  at that moment advertises the kind, is an allowed device while managed writes are enabled, is not
  paused, has its write lock enabled and shows exactly the evidence the job pinned: the gateway's
  policy version, the manifest and registry hashes, the managed package and one matching runtime.\<close>

theorem program_write_gate:
  assumes "program_ok (gc_store c)" and "s \<in> set (sent_by c (run_all d plan S xs c))"
    and "command_for k s" and "job_row_of k (gc_store (run_all d plan S xs c)) = Some r"
    and "jb_kind r \<in> set PROGRAM_WRITES"
  shows "jb_kind r \<in> set (cn_capabilities (sm_seen s)) \<and> write_allowed (sv_policy S) (sm_seen s) \<and>
    \<not> cn_paused (sm_seen s) \<and> \<not> cn_hard_pause (sm_seen s) \<and> cn_write_lock_enabled (sm_seen s) \<and>
    (\<exists>pins matching. program_pins (jb_payload r) = Inr pins \<and>
       dp_policy_version (sv_policy S) \<noteq> None \<and>
       jget pins ''policy_version'' = opt_str (dp_policy_version (sv_policy S)) \<and>
       evidence_matches (if is_phase8 (payload_binding (jb_payload r)) then ''operation_registry_version''
         else ''registry_version'') pins (sm_seen s) \<and>
       py_in (pinned_package (sv_policy S) pins) (cn_packages (sm_seen s)) \<and>
       matching_runtimes pins (sm_seen s) = Inr matching \<and> length matching = 1)"
  using may_dispatch_program [OF sent_gate [OF assms(1-4)] assms(5)] .

text \<open>C28. Every command for a rollback commit goes to a connection that is an allowed device while
  managed writes are enabled, is not paused, has its write lock enabled, and whose active document is
  exactly the document and revision the rollback was previewed on.\<close>

theorem rollback_commit_gate:
  assumes "program_ok (gc_store c)" and "s \<in> set (sent_by c (run_all d plan S xs c))"
    and "command_for k s" and "job_row_of k (gc_store (run_all d plan S xs c)) = Some r"
    and "jb_kind r = ''rollback_commit''"
  shows "''rollback_commit'' \<in> set (cn_capabilities (sm_seen s)) \<and>
    write_allowed (sv_policy S) (sm_seen s) \<and> \<not> cn_paused (sm_seen s) \<and>
    \<not> cn_hard_pause (sm_seen s) \<and> cn_write_lock_enabled (sm_seen s) \<and>
    (\<exists>binding. payload_binding (jb_payload r) = binding \<and> is_dict binding \<and>
       dp_policy_version (sv_policy S) \<noteq> None \<and>
       jget binding ''policy_version'' = opt_str (dp_policy_version (sv_policy S)) \<and>
       jget binding ''runtime_id'' = JStr ''managed_dotnet'' \<and>
       opt_str (cn_active_document_id (sm_seen s)) = jget binding ''document_id'' \<and>
       opt_str (cn_active_document_revision (sm_seen s)) = jget binding ''document_revision'' \<and>
       evidence_matches ''operation_registry_version'' binding (sm_seen s) \<and>
       py_in (pinned_package (sv_policy S) binding) (cn_packages (sm_seen s)))"
  using may_dispatch_rollback [OF sent_gate [OF assms(1-4)] assms(5)] .

section \<open>The board of jobs\<close>

text \<open>The abstract view: who a job is, its effect and its state.\<close>

definition board_of :: "'y program_db \<Rightarrow> string \<Rightarrow> (string \<times> string \<times> string \<times> effect_class \<times> string \<times> job_state) option" where
  "board_of db k = map_option (\<lambda>r. (jb_owner_subject r, jb_device_id r, jb_kind r, jb_effect_class r,
     jb_payload_hash r, jb_state r)) (job_row_of k db)"

inductive board_step where
  board_create: "b k = None \<Longrightarrow> board_step b (b(k \<mapsto> (own, dv, kind, eff, h, Queued)))"
| board_move: "b k = Some (own, dv, kind, eff, h, s) \<Longrightarrow> job_step eff s s' \<Longrightarrow>
    board_step b (b(k \<mapsto> (own, dv, kind, eff, h, s')))"

lemma board_cell: "keeps_job r r' \<Longrightarrow> job_row_of k db = Some r \<Longrightarrow>
  (jb_owner_subject r', jb_device_id r', jb_kind r', jb_effect_class r', jb_payload_hash r') =
  (jb_owner_subject r, jb_device_id r, jb_kind r, jb_effect_class r, jb_payload_hash r)"
  by (simp add: keeps_job_def job_identity_def)

lemma delta_board:
  assumes "job_delta db db'" "jobs_ok db"
  shows "board_of db' = board_of db \<or> board_step (board_of db) (board_of db')"
proof -
  have d: "distinct (map jb_job_id (st_jobs db))" using assms(2) by (simp add: jobs_ok_def)
  have moved: "board_of db' = board_of db \<or> board_step (board_of db) (board_of db')"
    if "job_row_of k db = Some row" "st_jobs db' = st_jobs (update_job k f db)" "keeps_job row (f row)"
      "jb_state (f row) = jb_state row \<or> job_step (jb_effect_class row) (jb_state row) (jb_state (f row))" for k row f
  proof -
    have "jb_job_id (f row) = k"
      using job_row_of_Some [OF that(1)] keeps_job_keys(1) [OF that(3)] by simp
    then have "board_of db' = (board_of db)(k \<mapsto> (jb_owner_subject row, jb_device_id row, jb_kind row,
        jb_effect_class row, jb_payload_hash row, jb_state (f row)))"
      using update_job_row_of [OF d that(1) _ that(2)] board_cell [OF that(3,1)]
      by (auto simp: board_of_def fun_eq_iff)
    moreover have "board_of db k = Some (jb_owner_subject row, jb_device_id row, jb_kind row,
        jb_effect_class row, jb_payload_hash row, jb_state row)"
      using that(1) by (simp add: board_of_def)
    ultimately show ?thesis
      using that(4) board_move [of "board_of db" k] by (metis fun_upd_triv)
  qed
  show ?thesis
    using assms(1)
  proof cases
    case delta_none
    then show ?thesis by (simp add: board_of_def fun_eq_iff job_row_of_def)
  next
    case (delta_created row e)
    have "job_row_of (jb_job_id row) db = None"
      using delta_created(3) by (auto simp: job_row_of_def select1_None intro: rev_image_eqI)
    moreover have "board_of db' = (board_of db)(jb_job_id row \<mapsto> (jb_owner_subject row, jb_device_id row,
        jb_kind row, jb_effect_class row, jb_payload_hash row, Queued))"
      using calculation delta_created(1,6)
      by (auto simp: board_of_def fun_eq_iff job_row_of_def select1_append split: option.splits)
    ultimately show ?thesis
      using board_create [of "board_of db" "jb_job_id row"] by (simp add: board_of_def)
  next
    case (delta_logged k row f e)
    then show ?thesis by (intro moved) (auto simp: logged_def)
  next
    case (delta_silent k row f)
    moreover have "jb_state (f row) = jb_state row"
      using delta_silent(5) by (cases row; cases "f row") (simp add: job_content_def)
    ultimately show ?thesis by (intro moved) auto
  qed
qed

lemma steps_board:
  "steps program_step db db' \<Longrightarrow> program_ok db \<Longrightarrow> steps board_step (board_of db) (board_of db')"
proof (induction rule: steps.induct)
  case (steps_snoc s t u)
  have t: "program_ok t" using steps_snoc(1,4) by (rule programs.steps_inv)
  then have "job_delta t u" using program_step_effect [OF steps_snoc(2)] by (simp add: step_effect_def)
  from delta_board [OF this program_jobs_ok [OF t]] steps_snoc(3,4) show ?case
    by (auto intro: steps.steps_snoc)
qed (rule steps_refl)

text \<open>C11. The gateway refines the board of jobs: whatever its tasks do, the board of its store only
  gains queued jobs under fresh ids and moves jobs along validated transitions of their own effect
  class; owner, device, kind and payload hash of a job never change.\<close>

theorem gateway_refines_board:
  assumes "program_ok (gc_store c)"
  shows "steps board_step (board_of (gc_store c)) (board_of (gc_store (run_all d plan S xs c)))"
  using steps_board [OF run_all_sent(4) [OF assms] assms] .

end
