(* ===== verification/JobSamples.thy ===== *)
theory JobSamples
  imports JobRuns JobProperties
begin

text \<open>
  A concrete gateway for the witnesses of the job properties: one device with one connected Agent that
  shows the evidence a program job pins, and a store with one job.
\<close>

definition sample_pins :: "(string \<times> json) list" where
  "sample_pins = [(''policy_version'', JStr ''pv''), (''capability_manifest_hash'', JStr ''sha256:m''),
     (''operation_registry_hash'', JStr ''sha256:o''), (''registry_version'', JStr ''rv''),
     (''operation_registry_version'', JStr ''rv''), (''package_id'', JStr ''pk''),
     (''package_version'', JStr ''1''), (''package_hash'', JStr ''sha256:p''),
     (''runtime_id'', JStr ''managed_dotnet''), (''runtime_role'', JStr ''primary''),
     (''host_family'', JStr ''R25''), (''host_version'', JStr ''25''),
     (''document_id'', JStr ''doc''), (''document_revision'', JStr ''7'')]"

definition sample_agent :: agent_connection where
  "sample_agent = (sample_connection ''s1'' 7)\<lparr>
     cn_capabilities := [''observe'', ''program_preview'', ''program_commit'', ''rollback_commit''],
     cn_packages := [JObj [(''package_id'', JStr ''pk''), (''version'', JStr ''1''), (''sha256'', JStr ''p'')]],
     cn_capability_manifest := Some (JObj [(''cad_products'', JList [JObj [
       (''runtime'', JObj [(''id'', JStr ''managed_dotnet''), (''role'', JStr ''primary''),
          (''host_family'', JStr ''R25''), (''host_version'', JStr ''25'')]),
       (''edition'', JStr ''full'')]])]),
     cn_capability_manifest_hash := Some ''m'', cn_operation_registry_hash := Some ''o'',
     cn_registry_version := Some ''rv'', cn_write_lock_enabled := True,
     cn_active_document_id := Some ''doc'', cn_active_document_revision := Some ''7''\<rparr>"

definition sample_service :: "unit service" where
  "sample_service =
    \<lparr>sv_policy = \<lparr>dp_required_package = JNull, dp_policy_version = Some ''pv'',
        dp_managed_write_enabled = True, dp_allowed_write_device_ids = [''d''],
        dp_repr = (\<lambda>_. []), dp_to_dict = (\<lambda>_. Inl (PyError ''TypeError''))\<rparr>,
     sv_lib = sample_lib, sv_program_lib = sample_program_lib, sv_has_programs = True, sv_phase7 = None,
     sv_program_fields = (\<lambda>k e p. Inr p), sv_command_message = Inr,
     sv_program_message = (\<lambda>m. Inr (JNull, ''h1'')), sv_rollback_message = (\<lambda>m. Inr (JNull, ''h1'')),
     sv_result_message = (\<lambda>c h b e. Inr (rb_result b)), sv_check_message = (\<lambda>m. Inr ()),
     sv_utc = (\<lambda>n. ''t1''), sv_micros = (\<lambda>n. 0), sv_instant = (\<lambda>n. 0),
     sv_new_id = (\<lambda>n. if even n then ''j2'' else ''c2''), sv_others = (\<lambda>n c. c),
     sv_send_fails = (\<lambda>n. False)\<rparr>"

definition sample_core :: "string \<Rightarrow> json \<Rightarrow> unit core" where
  "sample_core kind payload =
    \<lparr>gc_store = with_tables ((sample_store [])\<lparr>st_jobs := [sample_job\<lparr>jb_kind := kind, jb_payload := payload\<rparr>]\<rparr>)
        (empty_tables ()),
     gc_registry = \<lparr>rg_stale_after_seconds = 45, rg_close_timeout_seconds = 2,
        rg_connections = [(''d'', 0)], rg_heap = (\<lambda>r. sample_agent)\<rparr>,
     gc_futures = [], gc_waiters = [], gc_sent = []\<rparr>"

abbreviation no_plan :: plan where "no_plan \<equiv> \<lambda>_ _. []"

lemma concurrent_alone: "concurrent 0 plan S = alone S"
  by (simp add: alone_def)

definition commit_pins :: json where
  "commit_pins = JObj [(''execution'', JObj [(''pins'', JObj sample_pins)])]"

definition rollback_pins :: json where "rollback_pins = JObj [(''binding'', JObj sample_pins)]"

definition sample_queued :: "string \<Rightarrow> json \<Rightarrow> job_row" where
  "sample_queued kind payload = sample_job\<lparr>jb_kind := kind, jb_payload := payload\<rparr>"

lemma sample_core_ok: "kind \<noteq> ''observe'' \<Longrightarrow> program_ok (gc_store (sample_core kind payload))"
  using sample_stores_ok(1)
  by (simp add: sample_core_def program_ok_def with_tables_ok receipts_ok_def locks_ok_def empty_tables_def
      store_ok_def jobs_ok_def sessions_ok_def snapshots_ok_def log_ok_def sample_store_def sample_job_defs)

lemma sample_core_row:
  "job_row_of ''j1'' (gc_store (sample_core kind payload)) = Some (sample_queued kind payload)"
  by (simp add: sample_core_def job_row_of_def sample_queued_def sample_job_defs)

lemma sample_allowed:
  "dispatch_failure (sv_policy sample_service) (sample_queued ''program_commit'' commit_pins)
     (Some sample_agent) None = Inr (None, [])"
  "dispatch_failure (sv_policy sample_service) (sample_queued ''rollback_commit'' rollback_pins)
     (Some sample_agent) None = Inr (None, [])"
  by code_simp+

lemma sample_fresh: "is_current_and_fresh n 0 (gc_registry (sample_core kind payload)) \<longleftrightarrow> n \<le> 45000000"
  by (simp add: is_current_and_fresh_def registry_get_def heartbeat_fresh_def sample_core_def sample_agent_def
      sample_connection_def)

lemma alone_messages [simp]:
  "sv_program_fields (alone S) = sv_program_fields S" "sv_program_message (alone S) = sv_program_message S"
  "sv_rollback_message (alone S) = sv_rollback_message S"
  by (simp_all add: alone_def)

lemma sample_messages [simp]:
  "sv_program_fields sample_service = (\<lambda>k e p. Inr p)" "sv_program_message sample_service = (\<lambda>m. Inr (JNull, ''h1''))"
  "sv_rollback_message sample_service = (\<lambda>m. Inr (JNull, ''h1''))"
  "sv_micros sample_service = (\<lambda>n. 0)" "sv_send_fails sample_service = (\<lambda>n. False)"
  by (simp_all add: sample_service_def)

lemma sample_row_fields [simp]:
  "jb_job_id (sample_queued kind payload) = ''j1''" "jb_device_id (sample_queued kind payload) = ''d''"
  "jb_kind (sample_queued kind payload) = kind" "jb_state (sample_queued kind payload) = Queued"
  "jb_payload_hash (sample_queued kind payload) = ''h1''"
  "jb_kind (claimed_row now r) = jb_kind r" "jb_payload_hash (claimed_row now r) = jb_payload_hash r"
  by (simp_all add: sample_queued_def sample_job_defs claimed_row_def)

lemma sample_build:
  assumes "kind = ''program_commit'' \<or> kind = ''rollback_commit''"
  shows "build_command (alone sample_service) cid (claimed_row now (sample_queued kind payload)) sample_agent u =
    (Inr JNull, u)"
  using assms by (auto simp: build_command_def Let_def PROGRAM_JOBS_def ROLLBACK_JOBS_def run_simps)

lemma sample_core_simps [simp]:
  "gc_sent (sample_core kind payload) = []" "gc_registry (sample_core kind payload) =
     \<lparr>rg_stale_after_seconds = 45, rg_close_timeout_seconds = 2, rg_connections = [(''d'', 0)],
      rg_heap = (\<lambda>r. sample_agent)\<rparr>"
  by (simp_all add: sample_core_def)

lemma start_simps [simp]: "tk_core (start n c) = c" "tk_tick (start n c) = n"
  by (simp_all add: start_def)

definition sample_pair :: "string \<Rightarrow> json \<Rightarrow> bool" where
  "sample_pair kind payload \<longleftrightarrow>
     kind = ''program_commit'' \<and> payload = commit_pins \<or> kind = ''rollback_commit'' \<and> payload = rollback_pins"

lemma sample_dispatch:
  assumes "sample_pair kind payload"
  shows "\<exists>u now. dispatch (alone sample_service) ''j1'' ''cid'' (start 0 (sample_core kind payload)) = (Inr True, u) \<and>
    job_row_of ''j1'' (task_store u) = Some (claimed_row now (sample_queued kind payload)) \<and>
    task_sent u = [\<lparr>sm_connection = 0, sm_seen = sample_agent, sm_message = CommandOut ''j1'' JNull\<rparr>]"
proof -
  have kind: "kind = ''program_commit'' \<or> kind = ''rollback_commit''" using assms by (auto simp: sample_pair_def)
  then have ok: "program_ok (task_store (start 0 (sample_core kind payload)))" using sample_core_ok [of kind] by auto
  have row: "job_row_of ''j1'' (task_store (start 0 (sample_core kind payload))) = Some (sample_queued kind payload)"
    by (simp add: sample_core_row)
  have gate: "dispatch_failure (sv_policy sample_service) (sample_queued kind payload) (Some sample_agent) None = Inr (None, [])"
    using sample_allowed assms by (auto simp: sample_pair_def)
  have "is_current_and_fresh 0 0 (gc_registry (sample_core kind payload))" using sample_fresh by simp
  then show ?thesis
    using dispatch_ready [OF ok row _ _ _ _ gate, of 0 "''cid''" JNull] sample_build [OF kind]
    by (cases "dispatch (alone sample_service) ''j1'' ''cid'' (start 0 (sample_core kind payload))")
      (auto simp: registry_get_def)
qed

lemma sample_run:
  assumes "sample_pair kind payload"
  defines "c \<equiv> sample_core kind payload"
    and "c' \<equiv> run_all 0 no_plan sample_service [(0, DispatchJob ''j1'' ''cid'')] (sample_core kind payload)"
  shows "sent_by c c' = [\<lparr>sm_connection = 0, sm_seen = sample_agent, sm_message = CommandOut ''j1'' JNull\<rparr>]"
    "\<exists>now. job_row_of ''j1'' (gc_store c') = Some (claimed_row now (sample_queued kind payload))"
proof -
  obtain u now where u: "dispatch (alone sample_service) ''j1'' ''cid'' (start 0 (sample_core kind payload)) = (Inr True, u)"
    "job_row_of ''j1'' (task_store u) = Some (claimed_row now (sample_queued kind payload))"
    "task_sent u = [\<lparr>sm_connection = 0, sm_seen = sample_agent, sm_message = CommandOut ''j1'' JNull\<rparr>]"
    using sample_dispatch [OF assms(1)] by blast
  have "c' = tk_core u"
    using u(1) by (simp add: c'_def run_all_def run_on_def concurrent_alone ignoreS_def run_simps del: concurrent.simps)
  then show "sent_by c c' = [\<lparr>sm_connection = 0, sm_seen = sample_agent, sm_message = CommandOut ''j1'' JNull\<rparr>]"
    "\<exists>now. job_row_of ''j1'' (gc_store c') = Some (claimed_row now (sample_queued kind payload))"
    using u(2,3) by (auto simp: sent_by_def c_def)
qed

section \<open>Witnesses\<close>

text \<open>The sample job acknowledged by the Agent, with a deadline that does not parse.\<close>

definition acknowledged_core :: "unit core" where
  "acknowledged_core = (sample_core ''program_commit'' JNull)\<lparr>gc_store := with_tables
     ((sample_store [Dispatched, Acknowledged])\<lparr>st_jobs := [sample_job\<lparr>jb_state := Acknowledged,
        jb_state_version := 2, jb_deadline_at := Some ''soon''\<rparr>]\<rparr>) (empty_tables ())\<rparr>"

definition acknowledged_job :: job_row where
  "acknowledged_job = sample_job\<lparr>jb_state := Acknowledged, jb_state_version := 2, jb_deadline_at := Some ''soon''\<rparr>"

lemma acknowledged_ok: "program_ok (gc_store acknowledged_core)"
  using sample_stores_ok(2)
  by (simp add: acknowledged_core_def program_ok_def with_tables_ok receipts_ok_def locks_ok_def empty_tables_def
      store_ok_def jobs_ok_def sessions_ok_def snapshots_ok_def log_ok_def sample_store_def sample_job_defs)

lemma acknowledged_row: "job_row_of ''j1'' (gc_store acknowledged_core) = Some acknowledged_job"
  by (simp add: acknowledged_core_def acknowledged_job_def job_row_of_def sample_job_defs)

lemma acknowledged_fields [simp]:
  "jb_state acknowledged_job = Acknowledged" "jb_effect_class acknowledged_job = WriteEffect"
  "jb_device_id acknowledged_job = ''d''" "jb_kind acknowledged_job = ''program_commit''"
  "jb_deadline_at acknowledged_job = Some ''soon''"
  by (simp_all add: acknowledged_job_def sample_job_defs)



lemma program_write_gate_witness:
  "\<exists>s \<in> set (sent_by (sample_core ''program_commit'' commit_pins) (run_all 0 no_plan sample_service
       [(0, DispatchJob ''j1'' ''cid'')] (sample_core ''program_commit'' commit_pins))).
     write_allowed (sv_policy sample_service) (sm_seen s) \<and> cn_write_lock_enabled (sm_seen s)"
proof -
  have p: "sample_pair ''program_commit'' commit_pins" by (simp add: sample_pair_def)
  obtain now where row: "job_row_of ''j1'' (gc_store (run_all 0 no_plan sample_service [(0, DispatchJob ''j1'' ''cid'')]
      (sample_core ''program_commit'' commit_pins))) = Some (claimed_row now (sample_queued ''program_commit'' commit_pins))"
    using sample_run(2) [OF p] by blast
  have ok: "program_ok (gc_store (sample_core ''program_commit'' commit_pins))" by (rule sample_core_ok) simp
  show ?thesis
    using program_write_gate [OF ok _ _ row, of "\<lparr>sm_connection = 0, sm_seen = sample_agent,
        sm_message = CommandOut ''j1'' JNull\<rparr>"] sample_run(1) [OF p]
    by (simp add: command_for_def PROGRAM_WRITES_def)
qed

lemma rollback_commit_gate_witness:
  "\<exists>s \<in> set (sent_by (sample_core ''rollback_commit'' rollback_pins) (run_all 0 no_plan sample_service
       [(0, DispatchJob ''j1'' ''cid'')] (sample_core ''rollback_commit'' rollback_pins))).
     write_allowed (sv_policy sample_service) (sm_seen s) \<and> cn_write_lock_enabled (sm_seen s)"
proof -
  have p: "sample_pair ''rollback_commit'' rollback_pins" by (simp add: sample_pair_def)
  obtain now where row: "job_row_of ''j1'' (gc_store (run_all 0 no_plan sample_service [(0, DispatchJob ''j1'' ''cid'')]
      (sample_core ''rollback_commit'' rollback_pins))) = Some (claimed_row now (sample_queued ''rollback_commit'' rollback_pins))"
    using sample_run(2) [OF p] by blast
  have ok: "program_ok (gc_store (sample_core ''rollback_commit'' rollback_pins))" by (rule sample_core_ok) simp
  show ?thesis
    using rollback_commit_gate [OF ok _ _ row, of "\<lparr>sm_connection = 0, sm_seen = sample_agent,
        sm_message = CommandOut ''j1'' JNull\<rparr>"] sample_run(1) [OF p]
    by (simp add: command_for_def)
qed

lemma gateway_refines_board_witness:
  "steps board_step (board_of (gc_store acknowledged_core))
     (board_of (gc_store (run_all 1 no_plan sample_service [(0, HandleDisconnect ''d'')] acknowledged_core)))"
  by (rule gateway_refines_board [OF acknowledged_ok])

definition foreign_ack :: agent_message where
  "foreign_ack = AckMessage \<lparr>hd_session_id = ''s9'', hd_device_id = ''d'', hd_job_id = None,
     hd_command_id = ''c1'', hd_sequence = 1, hd_payload_hash = None\<rparr>
     \<lparr>ak_status = AckAccepted, ak_idempotency_key = ''k'', ak_reason = None\<rparr>"

lemma foreign_message_refused_witness:
  "\<exists>k st. fst (handle_message (alone sample_service) 0 foreign_ack (start 0 acknowledged_core)) =
     Inl (DurableJobError ''invalid_message'' k st)"
proof -
  have "get_job_by_command ''d'' ''c1'' (gc_store acknowledged_core) = Some acknowledged_job"
    by (simp add: get_job_by_command_def acknowledged_core_def acknowledged_job_def sample_job_defs)
  then show ?thesis
    using foreign_message_refused [of sample_agent foreign_ack "start 0 acknowledged_core" "Some acknowledged_job" 0 sample_service]
    by (auto simp: foreign_ack_def acknowledged_core_def sample_agent_def sample_connection_def)
qed

lemma sample_no_cases: "no_cases sample_service"
  by (simp add: no_cases_def sample_service_def)


lemma sample_expired: "deadline_expired sample_service now d = Inr True"
  by (simp add: deadline_expired_def sample_service_def sample_program_lib_def)

lemma sample_readable: "list_all (readable_deadline sample_service now) jobs"
  by (auto simp: list_all_iff readable_deadline_def sample_expired split: option.splits)


lemma dispatch_sends_command_witness:
  "fst (dispatch (alone sample_service) ''j1'' ''cid'' (start 0 (sample_core ''program_commit'' commit_pins))) = Inr True"
proof -
  have ok: "program_ok (task_store (start 0 (sample_core ''program_commit'' commit_pins)))"
    using sample_core_ok by simp
  have row: "job_row_of ''j1'' (task_store (start 0 (sample_core ''program_commit'' commit_pins))) =
      Some (sample_queued ''program_commit'' commit_pins)" by (simp add: sample_core_row)
  have "is_current_and_fresh 0 0 (gc_registry (sample_core ''program_commit'' commit_pins))" using sample_fresh by simp
  then show ?thesis
    using dispatch_sends_command [OF ok row _ _ _ _ sample_allowed(1), of 0 "''cid''" JNull] sample_build
    by (auto simp: registry_get_def)
qed


definition late_success :: program_outcome where
  "late_success = \<lparr>po_job_id = ''j1'', po_device_id = ''d'', po_command_id = ''c1'', po_payload_hash = ''h1'',
     po_target = Succeeded, po_result = Some (JObj []), po_error_code = None, po_error_summary = None,
     po_session_id = None, po_agent_sequence = Some 5\<rparr>"


end
