(* ===== verification/Phase7Records.thy ===== *)
theory Phase7Records
  imports Contracts "HOL-Library.Monad_Syntax"
begin

text \<open>
  The records of \<open>autocad_contracts/phase7.py\<close>: execution intents, consents, evidence events, recovery
  cases, rollback checkpoints, plans and receipts.  A pydantic model is a HOL record; \<open>dump_x\<close> is its
  \<open>model_dump(mode="json")\<close>, \<open>decode_x\<close> reads the typed fields of a dict in strict mode with
  \<open>extra="forbid"\<close>, and \<open>wf_x\<close> holds the constraints of the fields and the model validators.
  \<open>model_validate\<close> is \<open>decode_x\<close> followed by \<open>wf_x\<close>.  A \<open>Literal\<close> the program branches on is a datatype,
  every other one a text of a fixed list.  \<open>datetime.fromisoformat\<close> is the parameter \<open>T\<close>: whether an
  ISO text has an offset, and its instant.
\<close>

section \<open>Reading fields\<close>

type_synonym iso_reader = "string \<Rightarrow> (bool \<times> rat) option"

fun as_text :: "json \<Rightarrow> string option" where
  "as_text (JStr s) = Some s" | "as_text _ = None"

fun as_int :: "json \<Rightarrow> int option" where
  "as_int (JInt i) = Some i" | "as_int _ = None"

fun as_bool :: "json \<Rightarrow> bool option" where
  "as_bool (JBool b) = Some b" | "as_bool _ = None"

definition as_list :: "(json \<Rightarrow> 'a option) \<Rightarrow> json \<Rightarrow> 'a list option" where
  "as_list f v = (case v of JList xs \<Rightarrow> all_some (map f xs) | _ \<Rightarrow> None)"

definition as_opt :: "(json \<Rightarrow> 'a option) \<Rightarrow> json \<Rightarrow> 'a option option" where
  "as_opt f v = (if v = JNull then Some None else map_option Some (f v))"

definition as_enum :: "(string \<times> 'a) list \<Rightarrow> json \<Rightarrow> 'a option" where
  "as_enum names v = Option.bind (as_text v) (map_of names)"

definition req :: "json \<Rightarrow> string \<Rightarrow> (json \<Rightarrow> 'a option) \<Rightarrow> 'a option" where
  "req v k f = Option.bind (jlookup v k) f"

definition dflt :: "json \<Rightarrow> string \<Rightarrow> 'a \<Rightarrow> (json \<Rightarrow> 'a option) \<Rightarrow> 'a option" where
  "dflt v k d f = (case jlookup v k of None \<Rightarrow> Some d | Some w \<Rightarrow> f w)"

definition as_version :: "string \<Rightarrow> json \<Rightarrow> unit option" where
  "as_version version v = (if v = JStr version then Some () else None)"

text \<open>\<open>extra="forbid"\<close>.\<close>

definition model_dict :: "string list \<Rightarrow> json \<Rightarrow> unit option" where
  "model_dict allowed v = (if is_dict v \<and> set (jkeys v) \<subseteq> set allowed then Some () else None)"

text \<open>Writing fields.\<close>

definition opt_json :: "('a \<Rightarrow> json) \<Rightarrow> 'a option \<Rightarrow> json" where
  "opt_json f v = (case v of None \<Rightarrow> JNull | Some x \<Rightarrow> f x)"

abbreviation list_json :: "('a \<Rightarrow> json) \<Rightarrow> 'a list \<Rightarrow> json" where
  "list_json f xs \<equiv> JList (map f xs)"

lemma as_opt_opt_json [simp]:
  "(\<And>x. f x \<noteq> JNull) \<Longrightarrow> (\<And>x. d (f x) = Some x) \<Longrightarrow> as_opt d (opt_json f v) = Some v"
  by (cases v) (simp_all add: as_opt_def opt_json_def)

lemma all_some_inverse: "(\<And>x. d (f x) = Some x) \<Longrightarrow> all_some (map (d \<circ> f) xs) = Some xs"
  by (induction xs) simp_all

lemma as_list_list_json [simp]:
  "(\<And>x. d (f x) = Some x) \<Longrightarrow> as_list d (list_json f xs) = Some xs"
  by (simp add: as_list_def all_some_inverse)

section \<open>Field types\<close>

definition ascii_alnum :: "char \<Rightarrow> bool" where
  "ascii_alnum c \<longleftrightarrow> is_digit c \<or> is_lower c \<or> is_upper c"

text \<open>\<open>PublicId\<close>: \<open>^[A-Za-z0-9][A-Za-z0-9._:-]{0,255}$\<close>\<close>

fun public_id :: "string \<Rightarrow> bool" where
  "public_id [] = False"
| "public_id (c # s) = (ascii_alnum c \<and> length s \<le> 255
     \<and> list_all (\<lambda>d. ascii_alnum d \<or> d \<in> {CHR ''.'', CHR ''_'', CHR '':'', CHR ''-''}) s)"

definition text_between :: "nat \<Rightarrow> nat \<Rightarrow> string \<Rightarrow> bool" where
  "text_between lo hi s \<longleftrightarrow> lo \<le> py_len s \<and> py_len s \<le> hi"

definition int_between :: "int \<Rightarrow> int \<Rightarrow> int \<Rightarrow> bool" where
  "int_between lo hi i \<longleftrightarrow> lo \<le> i \<and> i \<le> hi"

definition MAX_INT32 :: int where "MAX_INT32 = 2147483647"
definition MAX_INT64 :: int where "MAX_INT64 = 9223372036854775807"

text \<open>
  \<open>RevisionToken\<close>: \<open>^\S{1,256}$\<close>.  The white space of the pattern engine is that of \<open>str.isspace\<close>
  without U+001C to U+001F.
\<close>

definition contains_any :: "string list \<Rightarrow> string \<Rightarrow> bool" where
  "contains_any ws s \<longleftrightarrow>
     list_ex (\<lambda>n. list_ex (\<lambda>w. starts_with w (drop n s)) ws) [0 ..< length s]"

definition pattern_space :: "string list" where
  "pattern_space = map (map char_of) (filter (\<lambda>w. w \<notin> {[28], [29], [30], [31]}) whitespace_codes)"

definition revision_token :: "string \<Rightarrow> bool" where
  "revision_token s \<longleftrightarrow> text_between 1 256 s \<and> \<not> contains_any pattern_space s"

text \<open>The shape of \<open>Timestamp\<close>; \<open>d\<close> stands for a digit.\<close>

fun shaped :: "string \<Rightarrow> string \<Rightarrow> bool" where
  "shaped [] s = (s = [])"
| "shaped (p # ps) [] = False"
| "shaped (p # ps) (c # s) = ((if p = CHR ''d'' then is_digit c else c = p) \<and> shaped ps s)"

definition zone_shape :: "string \<Rightarrow> bool" where
  "zone_shape s \<longleftrightarrow> s = ''Z'' \<or> shaped ''+dd:dd'' s \<or> shaped ''-dd:dd'' s"

definition fraction_zone :: "string \<Rightarrow> bool" where
  "fraction_zone s \<longleftrightarrow> zone_shape s \<or>
    (starts_with ''.'' s \<and>
     (let digits = takeWhile is_digit (drop 1 s); rest = dropWhile is_digit (drop 1 s)
      in digits \<noteq> [] \<and> length digits \<le> 7 \<and> zone_shape rest))"

definition timestamp_shape :: "string \<Rightarrow> bool" where
  "timestamp_shape s \<longleftrightarrow> shaped ''dddd-dd-ddTdd:dd:dd'' (take 19 s) \<and> fraction_zone (drop 19 s)"

text \<open>\<open>Timestamp\<close> with \<open>_validate_timestamp\<close>: the text parses and has an offset.\<close>

definition valid_timestamp :: "iso_reader \<Rightarrow> string \<Rightarrow> bool" where
  "valid_timestamp T s \<longleftrightarrow> timestamp_shape s \<and> (case T s of Some (aware, _) \<Rightarrow> aware | None \<Rightarrow> False)"

definition opt_ok :: "('a \<Rightarrow> bool) \<Rightarrow> 'a option \<Rightarrow> bool" where
  "opt_ok p v = (case v of None \<Rightarrow> True | Some x \<Rightarrow> p x)"

text \<open>\<open>_as_datetime(a) >= _as_datetime(b)\<close> on timestamps that have passed \<open>valid_timestamp\<close>.\<close>

definition not_before :: "iso_reader \<Rightarrow> string \<Rightarrow> string \<Rightarrow> bool" where
  "not_before T a b \<longleftrightarrow> (case (T a, T b) of
     (Some (_, x), Some (_, y)) \<Rightarrow> y \<le> x | _ \<Rightarrow> False)"

text \<open>\<open>_HANDLE\<close>: \<open>^[0-9A-F]{1,32}$\<close>; detail keys: \<open>^[a-z][a-z0-9_]{0,63}$\<close>\<close>

definition entity_handle :: "string \<Rightarrow> bool" where
  "entity_handle s \<longleftrightarrow> 1 \<le> length s \<and> length s \<le> 32
     \<and> list_all (\<lambda>c. is_digit c \<or> char_between CHR ''A'' CHR ''F'' c) s"

fun detail_key :: "string \<Rightarrow> bool" where
  "detail_key [] = False"
| "detail_key (c # s) = (is_lower c \<and> length s \<le> 63
     \<and> list_all (\<lambda>d. is_lower d \<or> is_digit d \<or> d = CHR ''_'') s)"

section \<open>The bound of every model, and digests\<close>

text \<open>\<open>model_dump(mode="json", exclude_none=True)\<close> of a full dump.\<close>

function drop_none :: "json \<Rightarrow> json" where
  "drop_none (JObj kvs) = JObj (map (\<lambda>p. (fst p, drop_none (snd p))) (filter (\<lambda>p. snd p \<noteq> JNull) kvs))"
| "drop_none (JList xs) = JList (map drop_none xs)"
| "drop_none JNull = JNull" | "drop_none (JBool b) = JBool b" | "drop_none (JInt i) = JInt i"
| "drop_none (JFloat f) = JFloat f" | "drop_none (JStr s) = JStr s"
  by pat_completeness auto
termination drop_none
  by (relation "measure size") (auto dest: size_snd_item size_elem simp del: json.size)

definition MAX_RECORD_BYTES :: nat where "MAX_RECORD_BYTES = 1048576"

text \<open>\<open>Phase7Model._record_is_bounded\<close>; a \<open>ValueError\<close> of the encoder fails the validation too.\<close>

definition record_is_bounded :: "pylib \<Rightarrow> json \<Rightarrow> bool" where
  "record_is_bounded L dump = (case canonical_json L (drop_none dump) of
     Inl _ \<Rightarrow> False | Inr encoded \<Rightarrow> length encoded \<le> MAX_RECORD_BYTES)"

definition sha256_text :: "pylib \<Rightarrow> json \<Rightarrow> string option" where
  "sha256_text L v = (case canonical_json L v of
     Inl _ \<Rightarrow> None | Inr encoded \<Rightarrow> Some (''sha256:'' @ sha256_hex L encoded))"

definition without_fields :: "string list \<Rightarrow> json \<Rightarrow> json" where
  "without_fields ks v = JObj (filter (\<lambda>p. fst p \<notin> set ks) (jitems v))"

text \<open>\<open>None\<close> stands for the \<open>ValueError\<close> of the encoder.\<close>

definition canonical_phase7_digest :: "pylib \<Rightarrow> string list \<Rightarrow> json \<Rightarrow> string option" where
  "canonical_phase7_digest L exclude dump = sha256_text L (without_fields exclude (drop_none dump))"

section \<open>Principals, pins and effects\<close>

record principal =
  pp_issuer :: string
  pp_subject :: string

definition PRINCIPAL_FIELDS :: "string list" where
  "PRINCIPAL_FIELDS = [
     ''issuer'', ''subject'']"

definition dump_principal :: "principal \<Rightarrow> json" where
  "dump_principal r = JObj [
     (''issuer'', JStr (pp_issuer r)), (''subject'', JStr (pp_subject r))]"

definition decode_principal :: "json \<Rightarrow> principal option" where
  "decode_principal v = do {
     model_dict PRINCIPAL_FIELDS v;
     issuer \<leftarrow> req v ''issuer'' as_text;
     subject \<leftarrow> req v ''subject'' as_text;
     Some \<lparr>pp_issuer = issuer, pp_subject = subject\<rparr> }"

lemma dump_principal_dict [simp]: "is_dict (dump_principal r)" "dump_principal r \<noteq> JNull"
  by (simp_all add: dump_principal_def)

lemma decode_dump_principal [simp]: "decode_principal (dump_principal r) = Some r"
  by (cases r) (simp add: decode_principal_def model_dict_def req_def dflt_def as_version_def jlookup_def
      jkeys_def as_enum_def dump_principal_def PRINCIPAL_FIELDS_def)

definition wf_principal :: "pylib \<Rightarrow> principal \<Rightarrow> bool" where
  "wf_principal L r \<longleftrightarrow> text_between 1 512 (pp_issuer r) \<and> text_between 1 512 (pp_subject r)
     \<and> record_is_bounded L (dump_principal r)"

record runtime_pins =
  rn_runtime_id :: string
  rn_runtime_role :: string
  rn_host_family :: string
  rn_host_version :: string
  rn_agent_package_id :: string
  rn_agent_package_version :: string
  rn_agent_package_hash :: string
  rn_host_package_id :: string
  rn_host_package_version :: string
  rn_host_package_hash :: string

definition RUNTIME_PINS_FIELDS :: "string list" where
  "RUNTIME_PINS_FIELDS = [
     ''runtime_id'', ''runtime_role'', ''host_family'', ''host_version'', ''agent_package_id'',
     ''agent_package_version'', ''agent_package_hash'', ''host_package_id'',
     ''host_package_version'', ''host_package_hash'']"

definition dump_runtime_pins :: "runtime_pins \<Rightarrow> json" where
  "dump_runtime_pins r = JObj [
     (''runtime_id'', JStr (rn_runtime_id r)), (''runtime_role'', JStr (rn_runtime_role r)),
     (''host_family'', JStr (rn_host_family r)), (''host_version'', JStr (rn_host_version r)),
     (''agent_package_id'', JStr (rn_agent_package_id r)),
     (''agent_package_version'', JStr (rn_agent_package_version r)),
     (''agent_package_hash'', JStr (rn_agent_package_hash r)),
     (''host_package_id'', JStr (rn_host_package_id r)),
     (''host_package_version'', JStr (rn_host_package_version r)),
     (''host_package_hash'', JStr (rn_host_package_hash r))]"

definition decode_runtime_pins :: "json \<Rightarrow> runtime_pins option" where
  "decode_runtime_pins v = do {
     model_dict RUNTIME_PINS_FIELDS v;
     runtime_id \<leftarrow> req v ''runtime_id'' as_text;
     runtime_role \<leftarrow> req v ''runtime_role'' as_text;
     host_family \<leftarrow> req v ''host_family'' as_text;
     host_version \<leftarrow> req v ''host_version'' as_text;
     agent_package_id \<leftarrow> req v ''agent_package_id'' as_text;
     agent_package_version \<leftarrow> req v ''agent_package_version'' as_text;
     agent_package_hash \<leftarrow> req v ''agent_package_hash'' as_text;
     host_package_id \<leftarrow> req v ''host_package_id'' as_text;
     host_package_version \<leftarrow> req v ''host_package_version'' as_text;
     host_package_hash \<leftarrow> req v ''host_package_hash'' as_text;
     Some \<lparr>rn_runtime_id = runtime_id, rn_runtime_role = runtime_role,
       rn_host_family = host_family, rn_host_version = host_version,
       rn_agent_package_id = agent_package_id,
       rn_agent_package_version = agent_package_version,
       rn_agent_package_hash = agent_package_hash, rn_host_package_id = host_package_id,
       rn_host_package_version = host_package_version, rn_host_package_hash = host_package_hash\<rparr> }"

lemma dump_runtime_pins_dict [simp]: "is_dict (dump_runtime_pins r)" "dump_runtime_pins r \<noteq> JNull"
  by (simp_all add: dump_runtime_pins_def)

lemma decode_dump_runtime_pins [simp]: "decode_runtime_pins (dump_runtime_pins r) = Some r"
  by (cases r) (simp add: decode_runtime_pins_def model_dict_def req_def dflt_def as_version_def jlookup_def
      jkeys_def as_enum_def dump_runtime_pins_def RUNTIME_PINS_FIELDS_def)

definition wf_runtime_pins :: "pylib \<Rightarrow> runtime_pins \<Rightarrow> bool" where
  "wf_runtime_pins L r \<longleftrightarrow> public_id (rn_runtime_id r)
     \<and> list_all (text_between 1 64) [rn_runtime_role r, rn_host_family r, rn_host_version r]
     \<and> public_id (rn_agent_package_id r) \<and> text_between 1 128 (rn_agent_package_version r)
     \<and> prefixed_sha256 (rn_agent_package_hash r) \<and> public_id (rn_host_package_id r)
     \<and> text_between 1 128 (rn_host_package_version r) \<and> prefixed_sha256 (rn_host_package_hash r)
     \<and> record_is_bounded L (dump_runtime_pins r)"

record policy_pins =
  yp_capability_manifest_hash :: string
  yp_operation_registry_hash :: string
  yp_registry_version :: string
  yp_policy_version :: string

definition POLICY_PINS_FIELDS :: "string list" where
  "POLICY_PINS_FIELDS = [
     ''capability_manifest_hash'', ''operation_registry_hash'', ''registry_version'',
     ''policy_version'']"

definition dump_policy_pins :: "policy_pins \<Rightarrow> json" where
  "dump_policy_pins r = JObj [
     (''capability_manifest_hash'', JStr (yp_capability_manifest_hash r)),
     (''operation_registry_hash'', JStr (yp_operation_registry_hash r)),
     (''registry_version'', JStr (yp_registry_version r)),
     (''policy_version'', JStr (yp_policy_version r))]"

definition decode_policy_pins :: "json \<Rightarrow> policy_pins option" where
  "decode_policy_pins v = do {
     model_dict POLICY_PINS_FIELDS v;
     capability_manifest_hash \<leftarrow> req v ''capability_manifest_hash'' as_text;
     operation_registry_hash \<leftarrow> req v ''operation_registry_hash'' as_text;
     registry_version \<leftarrow> req v ''registry_version'' as_text;
     policy_version \<leftarrow> req v ''policy_version'' as_text;
     Some \<lparr>yp_capability_manifest_hash = capability_manifest_hash,
       yp_operation_registry_hash = operation_registry_hash,
       yp_registry_version = registry_version, yp_policy_version = policy_version\<rparr> }"

lemma dump_policy_pins_dict [simp]: "is_dict (dump_policy_pins r)" "dump_policy_pins r \<noteq> JNull"
  by (simp_all add: dump_policy_pins_def)

lemma decode_dump_policy_pins [simp]: "decode_policy_pins (dump_policy_pins r) = Some r"
  by (cases r) (simp add: decode_policy_pins_def model_dict_def req_def dflt_def as_version_def jlookup_def
      jkeys_def as_enum_def dump_policy_pins_def POLICY_PINS_FIELDS_def)

definition wf_policy_pins :: "pylib \<Rightarrow> policy_pins \<Rightarrow> bool" where
  "wf_policy_pins L r \<longleftrightarrow> prefixed_sha256 (yp_capability_manifest_hash r)
     \<and> prefixed_sha256 (yp_operation_registry_hash r) \<and> text_between 1 128 (yp_registry_version r)
     \<and> text_between 1 128 (yp_policy_version r) \<and> record_is_bounded L (dump_policy_pins r)"

record effect_item =
  ei_kind :: string
  ei_count :: int
  ei_summary :: string

definition EFFECT_ITEM_FIELDS :: "string list" where
  "EFFECT_ITEM_FIELDS = [
     ''kind'', ''count'', ''summary'']"

definition dump_effect_item :: "effect_item \<Rightarrow> json" where
  "dump_effect_item r = JObj [
     (''kind'', JStr (ei_kind r)), (''count'', JInt (ei_count r)),
     (''summary'', JStr (ei_summary r))]"

definition decode_effect_item :: "json \<Rightarrow> effect_item option" where
  "decode_effect_item v = do {
     model_dict EFFECT_ITEM_FIELDS v;
     kind \<leftarrow> req v ''kind'' as_text;
     count \<leftarrow> req v ''count'' as_int;
     summary \<leftarrow> req v ''summary'' as_text;
     Some \<lparr>ei_kind = kind, ei_count = count, ei_summary = summary\<rparr> }"

lemma dump_effect_item_dict [simp]: "is_dict (dump_effect_item r)" "dump_effect_item r \<noteq> JNull"
  by (simp_all add: dump_effect_item_def)

lemma decode_dump_effect_item [simp]: "decode_effect_item (dump_effect_item r) = Some r"
  by (cases r) (simp add: decode_effect_item_def model_dict_def req_def dflt_def as_version_def jlookup_def
      jkeys_def as_enum_def dump_effect_item_def EFFECT_ITEM_FIELDS_def)

definition EFFECT_KINDS :: "string list" where
  "EFFECT_KINDS = [''create_entities'', ''modify_entities'', ''erase_entities'', ''ensure_layers'',
     ''document_change'']"

definition wf_effect_item :: "pylib \<Rightarrow> effect_item \<Rightarrow> bool" where
  "wf_effect_item L r \<longleftrightarrow> ei_kind r \<in> set EFFECT_KINDS \<and> int_between 0 256 (ei_count r)
     \<and> text_between 1 512 (ei_summary r) \<and> record_is_bounded L (dump_effect_item r)"

section \<open>Execution intents\<close>

datatype intent_state = AwaitingApproval | Ready | Released | IntentDenied | IntentExpired | IntentInvalidated | IntentCancelled

fun intent_state_name :: "intent_state \<Rightarrow> string" where
  "intent_state_name AwaitingApproval = ''awaiting_approval''"
| "intent_state_name Ready = ''ready''"
| "intent_state_name Released = ''released''"
| "intent_state_name IntentDenied = ''denied''"
| "intent_state_name IntentExpired = ''expired''"
| "intent_state_name IntentInvalidated = ''invalidated''"
| "intent_state_name IntentCancelled = ''cancelled''"

definition INTENT_STATES :: "(string \<times> intent_state) list" where
  "INTENT_STATES = map (\<lambda>x. (intent_state_name x, x)) [AwaitingApproval, Ready, Released, IntentDenied, IntentExpired, IntentInvalidated, IntentCancelled]"

lemma INTENT_STATES_name [simp]: "map_of INTENT_STATES (intent_state_name x) = Some x"
  by (cases x) (simp_all add: INTENT_STATES_def)

datatype assurance = NoAssurance | DeviceLocal | RecentAuth | RecentAuthDevice

fun assurance_name :: "assurance \<Rightarrow> string" where
  "assurance_name NoAssurance = ''none''"
| "assurance_name DeviceLocal = ''device_local_confirmation''"
| "assurance_name RecentAuth = ''user_recent_auth''"
| "assurance_name RecentAuthDevice = ''user_recent_auth_plus_device_local''"

definition ASSURANCES :: "(string \<times> assurance) list" where
  "ASSURANCES = map (\<lambda>x. (assurance_name x, x)) [NoAssurance, DeviceLocal, RecentAuth, RecentAuthDevice]"

lemma ASSURANCES_name [simp]: "map_of ASSURANCES (assurance_name x) = Some x"
  by (cases x) (simp_all add: ASSURANCES_def)

datatype intent_action = ProgramCommit | RollbackCommit

fun intent_action_name :: "intent_action \<Rightarrow> string" where
  "intent_action_name ProgramCommit = ''program_commit''"
| "intent_action_name RollbackCommit = ''rollback_commit''"

definition INTENT_ACTIONS :: "(string \<times> intent_action) list" where
  "INTENT_ACTIONS = map (\<lambda>x. (intent_action_name x, x)) [ProgramCommit, RollbackCommit]"

lemma INTENT_ACTIONS_name [simp]: "map_of INTENT_ACTIONS (intent_action_name x) = Some x"
  by (cases x) (simp_all add: INTENT_ACTIONS_def)

definition RISK_CLASSES :: "string list" where
  "RISK_CLASSES = [''low'', ''medium'', ''high'', ''destructive'']"

record intent_record =
  xi_intent_id :: string
  xi_intent_version :: int
  xi_owner_subject :: string
  xi_actor_principal :: principal
  xi_action :: intent_action
  xi_state :: intent_state
  xi_state_version :: int
  xi_device_id :: string
  xi_device_identity_generation :: int
  xi_device_key_thumbprint :: string
  xi_document_id :: string
  xi_expected_document_revision :: string
  xi_program_id :: string
  xi_program_revision :: int
  xi_program_digest :: string
  xi_preview_id :: string
  xi_preview_digest :: string
  xi_preview_execution_digest :: string
  xi_preview_expires_at :: string
  xi_deterministic_receipt_id :: string
  xi_commit_execution_digest :: string
  xi_runtime_pins :: runtime_pins
  xi_policy_pins :: policy_pins
  xi_risk_class :: string
  xi_required_assurance :: assurance
  xi_trusted_effect_summary :: "effect_item list"
  xi_idempotency_key :: string
  xi_request_hash :: string
  xi_intent_digest :: string
  xi_created_at :: string
  xi_expires_at :: string
  xi_consent_id :: "string option"
  xi_released_job_id :: "string option"

definition INTENT_RECORD_FIELDS :: "string list" where
  "INTENT_RECORD_FIELDS = [
     ''schema_version'', ''intent_id'', ''intent_version'', ''owner_subject'',
     ''actor_principal'', ''action'', ''state'', ''state_version'', ''device_id'',
     ''device_identity_generation'', ''device_key_thumbprint'', ''document_id'',
     ''expected_document_revision'', ''program_id'', ''program_revision'', ''program_digest'',
     ''preview_id'', ''preview_digest'', ''preview_execution_digest'', ''preview_expires_at'',
     ''deterministic_receipt_id'', ''commit_execution_digest'', ''runtime_pins'',
     ''policy_pins'', ''risk_class'', ''required_assurance'', ''trusted_effect_summary'',
     ''idempotency_key'', ''request_hash'', ''intent_digest'', ''created_at'', ''expires_at'',
     ''consent_id'', ''released_job_id'']"

definition dump_intent_record :: "intent_record \<Rightarrow> json" where
  "dump_intent_record r = JObj [
     (''schema_version'', JStr ''cad.execution-intent/1''),
     (''intent_id'', JStr (xi_intent_id r)), (''intent_version'', JInt (xi_intent_version r)),
     (''owner_subject'', JStr (xi_owner_subject r)),
     (''actor_principal'', dump_principal (xi_actor_principal r)),
     (''action'', JStr (intent_action_name (xi_action r))),
     (''state'', JStr (intent_state_name (xi_state r))),
     (''state_version'', JInt (xi_state_version r)), (''device_id'', JStr (xi_device_id r)),
     (''device_identity_generation'', JInt (xi_device_identity_generation r)),
     (''device_key_thumbprint'', JStr (xi_device_key_thumbprint r)),
     (''document_id'', JStr (xi_document_id r)),
     (''expected_document_revision'', JStr (xi_expected_document_revision r)),
     (''program_id'', JStr (xi_program_id r)),
     (''program_revision'', JInt (xi_program_revision r)),
     (''program_digest'', JStr (xi_program_digest r)),
     (''preview_id'', JStr (xi_preview_id r)),
     (''preview_digest'', JStr (xi_preview_digest r)),
     (''preview_execution_digest'', JStr (xi_preview_execution_digest r)),
     (''preview_expires_at'', JStr (xi_preview_expires_at r)),
     (''deterministic_receipt_id'', JStr (xi_deterministic_receipt_id r)),
     (''commit_execution_digest'', JStr (xi_commit_execution_digest r)),
     (''runtime_pins'', dump_runtime_pins (xi_runtime_pins r)),
     (''policy_pins'', dump_policy_pins (xi_policy_pins r)),
     (''risk_class'', JStr (xi_risk_class r)),
     (''required_assurance'', JStr (assurance_name (xi_required_assurance r))),
     (''trusted_effect_summary'', list_json dump_effect_item (xi_trusted_effect_summary r)),
     (''idempotency_key'', JStr (xi_idempotency_key r)),
     (''request_hash'', JStr (xi_request_hash r)),
     (''intent_digest'', JStr (xi_intent_digest r)), (''created_at'', JStr (xi_created_at r)),
     (''expires_at'', JStr (xi_expires_at r)),
     (''consent_id'', opt_json JStr (xi_consent_id r)),
     (''released_job_id'', opt_json JStr (xi_released_job_id r))]"

definition decode_intent_record :: "json \<Rightarrow> intent_record option" where
  "decode_intent_record v = do {
     model_dict INTENT_RECORD_FIELDS v;
     dflt v ''schema_version'' () (as_version ''cad.execution-intent/1'');
     intent_id \<leftarrow> req v ''intent_id'' as_text;
     intent_version \<leftarrow> req v ''intent_version'' as_int;
     owner_subject \<leftarrow> req v ''owner_subject'' as_text;
     actor_principal \<leftarrow> req v ''actor_principal'' decode_principal;
     action \<leftarrow> req v ''action'' (as_enum INTENT_ACTIONS);
     state \<leftarrow> req v ''state'' (as_enum INTENT_STATES);
     state_version \<leftarrow> req v ''state_version'' as_int;
     device_id \<leftarrow> req v ''device_id'' as_text;
     device_identity_generation \<leftarrow> req v ''device_identity_generation'' as_int;
     device_key_thumbprint \<leftarrow> req v ''device_key_thumbprint'' as_text;
     document_id \<leftarrow> req v ''document_id'' as_text;
     expected_document_revision \<leftarrow> req v ''expected_document_revision'' as_text;
     program_id \<leftarrow> req v ''program_id'' as_text;
     program_revision \<leftarrow> req v ''program_revision'' as_int;
     program_digest \<leftarrow> req v ''program_digest'' as_text;
     preview_id \<leftarrow> req v ''preview_id'' as_text;
     preview_digest \<leftarrow> req v ''preview_digest'' as_text;
     preview_execution_digest \<leftarrow> req v ''preview_execution_digest'' as_text;
     preview_expires_at \<leftarrow> req v ''preview_expires_at'' as_text;
     deterministic_receipt_id \<leftarrow> req v ''deterministic_receipt_id'' as_text;
     commit_execution_digest \<leftarrow> req v ''commit_execution_digest'' as_text;
     runtime_pins \<leftarrow> req v ''runtime_pins'' decode_runtime_pins;
     policy_pins \<leftarrow> req v ''policy_pins'' decode_policy_pins;
     risk_class \<leftarrow> req v ''risk_class'' as_text;
     required_assurance \<leftarrow> req v ''required_assurance'' (as_enum ASSURANCES);
     trusted_effect_summary \<leftarrow> req v ''trusted_effect_summary'' (as_list decode_effect_item);
     idempotency_key \<leftarrow> req v ''idempotency_key'' as_text;
     request_hash \<leftarrow> req v ''request_hash'' as_text;
     intent_digest \<leftarrow> req v ''intent_digest'' as_text;
     created_at \<leftarrow> req v ''created_at'' as_text;
     expires_at \<leftarrow> req v ''expires_at'' as_text;
     consent_id \<leftarrow> dflt v ''consent_id'' None (as_opt as_text);
     released_job_id \<leftarrow> dflt v ''released_job_id'' None (as_opt as_text);
     Some \<lparr>xi_intent_id = intent_id, xi_intent_version = intent_version,
       xi_owner_subject = owner_subject, xi_actor_principal = actor_principal,
       xi_action = action, xi_state = state, xi_state_version = state_version,
       xi_device_id = device_id, xi_device_identity_generation = device_identity_generation,
       xi_device_key_thumbprint = device_key_thumbprint, xi_document_id = document_id,
       xi_expected_document_revision = expected_document_revision, xi_program_id = program_id,
       xi_program_revision = program_revision, xi_program_digest = program_digest,
       xi_preview_id = preview_id, xi_preview_digest = preview_digest,
       xi_preview_execution_digest = preview_execution_digest,
       xi_preview_expires_at = preview_expires_at,
       xi_deterministic_receipt_id = deterministic_receipt_id,
       xi_commit_execution_digest = commit_execution_digest, xi_runtime_pins = runtime_pins,
       xi_policy_pins = policy_pins, xi_risk_class = risk_class,
       xi_required_assurance = required_assurance,
       xi_trusted_effect_summary = trusted_effect_summary,
       xi_idempotency_key = idempotency_key, xi_request_hash = request_hash,
       xi_intent_digest = intent_digest, xi_created_at = created_at,
       xi_expires_at = expires_at, xi_consent_id = consent_id,
       xi_released_job_id = released_job_id\<rparr> }"

lemma dump_intent_record_dict [simp]: "is_dict (dump_intent_record r)" "dump_intent_record r \<noteq> JNull"
  by (simp_all add: dump_intent_record_def)

lemma decode_dump_intent_record [simp]: "decode_intent_record (dump_intent_record r) = Some r"
  by (cases r) (simp add: decode_intent_record_def model_dict_def req_def dflt_def as_version_def jlookup_def
      jkeys_def as_enum_def dump_intent_record_def INTENT_RECORD_FIELDS_def)

definition INTENT_MUTABLE_FIELDS :: "string list" where
  "INTENT_MUTABLE_FIELDS = [''intent_digest'', ''state'', ''state_version'', ''consent_id'', ''released_job_id'']"

definition execution_intent_digest :: "pylib \<Rightarrow> intent_record \<Rightarrow> string option" where
  "execution_intent_digest L r = canonical_phase7_digest L INTENT_MUTABLE_FIELDS (dump_intent_record r)"

text \<open>\<open>_validate_intent\<close> and the fields.\<close>

definition validate_intent :: "pylib \<Rightarrow> iso_reader \<Rightarrow> intent_record \<Rightarrow> bool" where
  "validate_intent L T r \<longleftrightarrow> execution_intent_digest L r = Some (xi_intent_digest r)
     \<and> \<not> (xi_state r = Released \<and> xi_released_job_id r = None)
     \<and> \<not> (xi_state r \<noteq> Released \<and> xi_released_job_id r \<noteq> None)
     \<and> \<not> (xi_required_assurance r = NoAssurance \<and> xi_state r = AwaitingApproval)
     \<and> \<not> (not_before T (xi_created_at r) (xi_expires_at r)
          \<or> not_before T (xi_created_at r) (xi_preview_expires_at r))"

definition wf_intent_record :: "pylib \<Rightarrow> iso_reader \<Rightarrow> intent_record \<Rightarrow> bool" where
  "wf_intent_record L T r \<longleftrightarrow>
     list_all public_id [xi_intent_id r, xi_device_id r, xi_document_id r, xi_program_id r,
       xi_preview_id r, xi_deterministic_receipt_id r]
     \<and> list_all (int_between 1 MAX_INT32) [xi_intent_version r, xi_device_identity_generation r,
       xi_program_revision r]
     \<and> int_between 0 MAX_INT32 (xi_state_version r) \<and> text_between 1 512 (xi_owner_subject r)
     \<and> wf_principal L (xi_actor_principal r) \<and> revision_token (xi_expected_document_revision r)
     \<and> list_all prefixed_sha256 [xi_device_key_thumbprint r, xi_program_digest r, xi_preview_digest r,
       xi_preview_execution_digest r, xi_commit_execution_digest r, xi_request_hash r,
       xi_intent_digest r]
     \<and> wf_runtime_pins L (xi_runtime_pins r) \<and> wf_policy_pins L (xi_policy_pins r)
     \<and> xi_risk_class r \<in> set RISK_CLASSES
     \<and> 1 \<le> length (xi_trusted_effect_summary r) \<and> length (xi_trusted_effect_summary r) \<le> 32
     \<and> list_all (wf_effect_item L) (xi_trusted_effect_summary r)
     \<and> text_between 1 256 (xi_idempotency_key r)
     \<and> list_all (valid_timestamp T) [xi_preview_expires_at r, xi_created_at r, xi_expires_at r]
     \<and> opt_ok public_id (xi_consent_id r) \<and> opt_ok public_id (xi_released_job_id r)
     \<and> record_is_bounded L (dump_intent_record r) \<and> validate_intent L T r"

section \<open>Consents\<close>

datatype consent_state = Requested | Approved | ConsentDenied | ConsentExpired | ConsentInvalidated | Consumed

fun consent_state_name :: "consent_state \<Rightarrow> string" where
  "consent_state_name Requested = ''requested''"
| "consent_state_name Approved = ''approved''"
| "consent_state_name ConsentDenied = ''denied''"
| "consent_state_name ConsentExpired = ''expired''"
| "consent_state_name ConsentInvalidated = ''invalidated''"
| "consent_state_name Consumed = ''consumed''"

definition CONSENT_STATES :: "(string \<times> consent_state) list" where
  "CONSENT_STATES = map (\<lambda>x. (consent_state_name x, x)) [Requested, Approved, ConsentDenied, ConsentExpired, ConsentInvalidated, Consumed]"

lemma CONSENT_STATES_name [simp]: "map_of CONSENT_STATES (consent_state_name x) = Some x"
  by (cases x) (simp_all add: CONSENT_STATES_def)

datatype decision_source = FromDevice | FromPortal

fun decision_source_name :: "decision_source \<Rightarrow> string" where
  "decision_source_name FromDevice = ''device_local''"
| "decision_source_name FromPortal = ''portal_recent_auth''"

definition DECISION_SOURCES :: "(string \<times> decision_source) list" where
  "DECISION_SOURCES = map (\<lambda>x. (decision_source_name x, x)) [FromDevice, FromPortal]"

lemma DECISION_SOURCES_name [simp]: "map_of DECISION_SOURCES (decision_source_name x) = Some x"
  by (cases x) (simp_all add: DECISION_SOURCES_def)

record consent_record =
  cs_consent_id :: string
  cs_consent_version :: int
  cs_owner_subject :: string
  cs_intent_id :: string
  cs_intent_version :: int
  cs_intent_digest :: string
  cs_required_assurance :: assurance
  cs_state :: consent_state
  cs_state_version :: int
  cs_challenge_nonce_hash :: string
  cs_requested_at :: string
  cs_expires_at :: string
  cs_decided_at :: "string option"
  cs_decision_source :: "decision_source option"
  cs_decision_principal :: "principal option"
  cs_decision_device_id :: "string option"
  cs_decision_device_identity_generation :: "int option"
  cs_consumed_at :: "string option"

definition CONSENT_RECORD_FIELDS :: "string list" where
  "CONSENT_RECORD_FIELDS = [
     ''schema_version'', ''consent_id'', ''consent_version'', ''owner_subject'', ''intent_id'',
     ''intent_version'', ''intent_digest'', ''required_assurance'', ''state'',
     ''state_version'', ''challenge_nonce_hash'', ''requested_at'', ''expires_at'',
     ''decided_at'', ''decision_source'', ''decision_principal'', ''decision_device_id'',
     ''decision_device_identity_generation'', ''consumed_at'']"

definition dump_consent_record :: "consent_record \<Rightarrow> json" where
  "dump_consent_record r = JObj [
     (''schema_version'', JStr ''cad.consent/1''), (''consent_id'', JStr (cs_consent_id r)),
     (''consent_version'', JInt (cs_consent_version r)),
     (''owner_subject'', JStr (cs_owner_subject r)), (''intent_id'', JStr (cs_intent_id r)),
     (''intent_version'', JInt (cs_intent_version r)),
     (''intent_digest'', JStr (cs_intent_digest r)),
     (''required_assurance'', JStr (assurance_name (cs_required_assurance r))),
     (''state'', JStr (consent_state_name (cs_state r))),
     (''state_version'', JInt (cs_state_version r)),
     (''challenge_nonce_hash'', JStr (cs_challenge_nonce_hash r)),
     (''requested_at'', JStr (cs_requested_at r)), (''expires_at'', JStr (cs_expires_at r)),
     (''decided_at'', opt_json JStr (cs_decided_at r)),
     (''decision_source'', opt_json (\<lambda>x. JStr (decision_source_name x)) (cs_decision_source r)),
     (''decision_principal'', opt_json dump_principal (cs_decision_principal r)),
     (''decision_device_id'', opt_json JStr (cs_decision_device_id r)),
     (''decision_device_identity_generation'', opt_json JInt (cs_decision_device_identity_generation r)),
     (''consumed_at'', opt_json JStr (cs_consumed_at r))]"

definition decode_consent_record :: "json \<Rightarrow> consent_record option" where
  "decode_consent_record v = do {
     model_dict CONSENT_RECORD_FIELDS v;
     dflt v ''schema_version'' () (as_version ''cad.consent/1'');
     consent_id \<leftarrow> req v ''consent_id'' as_text;
     consent_version \<leftarrow> req v ''consent_version'' as_int;
     owner_subject \<leftarrow> req v ''owner_subject'' as_text;
     intent_id \<leftarrow> req v ''intent_id'' as_text;
     intent_version \<leftarrow> req v ''intent_version'' as_int;
     intent_digest \<leftarrow> req v ''intent_digest'' as_text;
     required_assurance \<leftarrow> req v ''required_assurance'' (as_enum ASSURANCES);
     state \<leftarrow> req v ''state'' (as_enum CONSENT_STATES);
     state_version \<leftarrow> req v ''state_version'' as_int;
     challenge_nonce_hash \<leftarrow> req v ''challenge_nonce_hash'' as_text;
     requested_at \<leftarrow> req v ''requested_at'' as_text;
     expires_at \<leftarrow> req v ''expires_at'' as_text;
     decided_at \<leftarrow> dflt v ''decided_at'' None (as_opt as_text);
     decision_source \<leftarrow> dflt v ''decision_source'' None (as_opt (as_enum DECISION_SOURCES));
     decision_principal \<leftarrow> dflt v ''decision_principal'' None (as_opt decode_principal);
     decision_device_id \<leftarrow> dflt v ''decision_device_id'' None (as_opt as_text);
     decision_device_identity_generation \<leftarrow> dflt v ''decision_device_identity_generation'' None (as_opt as_int);
     consumed_at \<leftarrow> dflt v ''consumed_at'' None (as_opt as_text);
     Some \<lparr>cs_consent_id = consent_id, cs_consent_version = consent_version,
       cs_owner_subject = owner_subject, cs_intent_id = intent_id,
       cs_intent_version = intent_version, cs_intent_digest = intent_digest,
       cs_required_assurance = required_assurance, cs_state = state,
       cs_state_version = state_version, cs_challenge_nonce_hash = challenge_nonce_hash,
       cs_requested_at = requested_at, cs_expires_at = expires_at, cs_decided_at = decided_at,
       cs_decision_source = decision_source, cs_decision_principal = decision_principal,
       cs_decision_device_id = decision_device_id,
       cs_decision_device_identity_generation = decision_device_identity_generation,
       cs_consumed_at = consumed_at\<rparr> }"

lemma dump_consent_record_dict [simp]: "is_dict (dump_consent_record r)" "dump_consent_record r \<noteq> JNull"
  by (simp_all add: dump_consent_record_def)

lemma decode_dump_consent_record [simp]: "decode_consent_record (dump_consent_record r) = Some r"
  by (cases r) (simp add: decode_consent_record_def model_dict_def req_def dflt_def as_version_def jlookup_def
      jkeys_def as_enum_def dump_consent_record_def CONSENT_RECORD_FIELDS_def)

text \<open>\<open>_validate_consent\<close> and the fields.\<close>

definition validate_consent :: "iso_reader \<Rightarrow> consent_record \<Rightarrow> bool" where
  "validate_consent T r \<longleftrightarrow> \<not> not_before T (cs_requested_at r) (cs_expires_at r)
     \<and> (if cs_state r \<in> {Approved, ConsentDenied, Consumed}
        then cs_decided_at r \<noteq> None \<and> cs_decision_source r \<noteq> None \<and> cs_decision_principal r \<noteq> None
        else cs_decided_at r = None \<and> cs_decision_source r = None \<and> cs_decision_principal r = None)
     \<and> \<not> (cs_state r = Consumed \<and> cs_consumed_at r = None)
     \<and> \<not> (cs_state r \<noteq> Consumed \<and> cs_consumed_at r \<noteq> None)
     \<and> (if cs_decision_source r = Some FromDevice
        then cs_decision_device_id r \<noteq> None \<and> cs_decision_device_identity_generation r \<noteq> None
        else cs_decision_device_id r = None \<and> cs_decision_device_identity_generation r = None)"

definition wf_consent_record :: "pylib \<Rightarrow> iso_reader \<Rightarrow> consent_record \<Rightarrow> bool" where
  "wf_consent_record L T r \<longleftrightarrow> public_id (cs_consent_id r) \<and> public_id (cs_intent_id r)
     \<and> int_between 1 MAX_INT32 (cs_consent_version r) \<and> int_between 1 MAX_INT32 (cs_intent_version r)
     \<and> int_between 0 MAX_INT32 (cs_state_version r) \<and> text_between 1 512 (cs_owner_subject r)
     \<and> prefixed_sha256 (cs_intent_digest r) \<and> prefixed_sha256 (cs_challenge_nonce_hash r)
     \<and> valid_timestamp T (cs_requested_at r) \<and> valid_timestamp T (cs_expires_at r)
     \<and> opt_ok (valid_timestamp T) (cs_decided_at r) \<and> opt_ok (valid_timestamp T) (cs_consumed_at r)
     \<and> opt_ok (wf_principal L) (cs_decision_principal r) \<and> opt_ok public_id (cs_decision_device_id r)
     \<and> opt_ok (int_between 1 MAX_INT32) (cs_decision_device_identity_generation r)
     \<and> record_is_bounded L (dump_consent_record r) \<and> validate_consent T r"

section \<open>Evidence\<close>

datatype evidence_source = GatewaySource | AgentSource | HostSource

fun evidence_source_name :: "evidence_source \<Rightarrow> string" where
  "evidence_source_name GatewaySource = ''gateway''"
| "evidence_source_name AgentSource = ''agent''"
| "evidence_source_name HostSource = ''host''"

definition EVIDENCE_SOURCES :: "(string \<times> evidence_source) list" where
  "EVIDENCE_SOURCES = map (\<lambda>x. (evidence_source_name x, x)) [GatewaySource, AgentSource, HostSource]"

lemma EVIDENCE_SOURCES_name [simp]: "map_of EVIDENCE_SOURCES (evidence_source_name x) = Some x"
  by (cases x) (simp_all add: EVIDENCE_SOURCES_def)

definition HOST_MILESTONES :: "string list" where
  "HOST_MILESTONES = [''host_admitted'', ''transaction_opened'', ''transaction_aborted'',
     ''effect_and_receipt_committed'', ''result_serialized'']"

definition MILESTONES :: "string list" where
  "MILESTONES = HOST_MILESTONES @ [''received'', ''accepted'', ''host_dispatch_started'',
     ''host_result_received'', ''terminal_persisted'', ''gateway_result_acknowledged'',
     ''reconcile_query'', ''evidence_conflict'']"

definition EVIDENCE_OUTCOMES :: "string list" where
  "EVIDENCE_OUTCOMES = [''observed'', ''not_started'', ''committed'', ''aborted'', ''rolled_back'',
     ''conflict'', ''inconclusive'']"

text \<open>\<open>Union[str, int, bool, None]\<close>\<close>

datatype scalar = ScalarText string | ScalarInt int | ScalarBool bool | ScalarNone

fun dump_scalar :: "scalar \<Rightarrow> json" where
  "dump_scalar (ScalarText s) = JStr s"
| "dump_scalar (ScalarInt i) = JInt i"
| "dump_scalar (ScalarBool b) = JBool b"
| "dump_scalar ScalarNone = JNull"

fun as_scalar :: "json \<Rightarrow> scalar option" where
  "as_scalar (JStr s) = Some (ScalarText s)"
| "as_scalar (JInt i) = Some (ScalarInt i)"
| "as_scalar (JBool b) = Some (ScalarBool b)"
| "as_scalar JNull = Some ScalarNone"
| "as_scalar _ = None"

lemma as_scalar_dump [simp]: "as_scalar (dump_scalar x) = Some x"
  by (cases x) simp_all

record evidence_detail =
  ed_key :: string
  ed_value :: scalar

definition EVIDENCE_DETAIL_FIELDS :: "string list" where
  "EVIDENCE_DETAIL_FIELDS = [
     ''key'', ''value'']"

definition dump_evidence_detail :: "evidence_detail \<Rightarrow> json" where
  "dump_evidence_detail r = JObj [
     (''key'', JStr (ed_key r)), (''value'', dump_scalar (ed_value r))]"

definition decode_evidence_detail :: "json \<Rightarrow> evidence_detail option" where
  "decode_evidence_detail v = do {
     model_dict EVIDENCE_DETAIL_FIELDS v;
     key \<leftarrow> req v ''key'' as_text;
     value \<leftarrow> req v ''value'' as_scalar;
     Some \<lparr>ed_key = key, ed_value = value\<rparr> }"

lemma dump_evidence_detail_dict [simp]: "is_dict (dump_evidence_detail r)" "dump_evidence_detail r \<noteq> JNull"
  by (simp_all add: dump_evidence_detail_def)

lemma decode_dump_evidence_detail [simp]: "decode_evidence_detail (dump_evidence_detail r) = Some r"
  by (cases r) (simp add: decode_evidence_detail_def model_dict_def req_def dflt_def as_version_def jlookup_def
      jkeys_def as_enum_def dump_evidence_detail_def EVIDENCE_DETAIL_FIELDS_def)

fun bounded_scalar :: "scalar \<Rightarrow> bool" where
  "bounded_scalar (ScalarText s) = (py_len s \<le> 512)"
| "bounded_scalar (ScalarInt i) = (- (2 ^ 63) \<le> i \<and> i < 2 ^ 63)"
| "bounded_scalar _ = True"

definition wf_evidence_detail :: "pylib \<Rightarrow> evidence_detail \<Rightarrow> bool" where
  "wf_evidence_detail L r \<longleftrightarrow> detail_key (ed_key r) \<and> bounded_scalar (ed_value r)
     \<and> record_is_bounded L (dump_evidence_detail r)"

record evidence_payload =
  ey_milestone :: string
  ey_outcome :: string
  ey_summary :: string
  ey_details :: "evidence_detail list"

definition EVIDENCE_PAYLOAD_FIELDS :: "string list" where
  "EVIDENCE_PAYLOAD_FIELDS = [
     ''milestone'', ''outcome'', ''summary'', ''details'']"

definition dump_evidence_payload :: "evidence_payload \<Rightarrow> json" where
  "dump_evidence_payload r = JObj [
     (''milestone'', JStr (ey_milestone r)), (''outcome'', JStr (ey_outcome r)),
     (''summary'', JStr (ey_summary r)),
     (''details'', list_json dump_evidence_detail (ey_details r))]"

definition decode_evidence_payload :: "json \<Rightarrow> evidence_payload option" where
  "decode_evidence_payload v = do {
     model_dict EVIDENCE_PAYLOAD_FIELDS v;
     milestone \<leftarrow> req v ''milestone'' as_text;
     outcome \<leftarrow> req v ''outcome'' as_text;
     summary \<leftarrow> req v ''summary'' as_text;
     details \<leftarrow> dflt v ''details'' [] (as_list decode_evidence_detail);
     Some \<lparr>ey_milestone = milestone, ey_outcome = outcome, ey_summary = summary,
       ey_details = details\<rparr> }"

lemma dump_evidence_payload_dict [simp]: "is_dict (dump_evidence_payload r)" "dump_evidence_payload r \<noteq> JNull"
  by (simp_all add: dump_evidence_payload_def)

lemma decode_dump_evidence_payload [simp]: "decode_evidence_payload (dump_evidence_payload r) = Some r"
  by (cases r) (simp add: decode_evidence_payload_def model_dict_def req_def dflt_def as_version_def jlookup_def
      jkeys_def as_enum_def dump_evidence_payload_def EVIDENCE_PAYLOAD_FIELDS_def)

definition wf_evidence_payload :: "pylib \<Rightarrow> evidence_payload \<Rightarrow> bool" where
  "wf_evidence_payload L r \<longleftrightarrow> ey_milestone r \<in> set MILESTONES \<and> ey_outcome r \<in> set EVIDENCE_OUTCOMES
     \<and> text_between 1 512 (ey_summary r) \<and> length (ey_details r) \<le> 32
     \<and> list_all (wf_evidence_detail L) (ey_details r) \<and> record_is_bounded L (dump_evidence_payload r)
     \<and> distinct (map ed_key (ey_details r))"

record evidence_event =
  xe_event_id :: string
  xe_owner_subject :: string
  xe_source :: evidence_source
  xe_source_sequence :: int
  xe_job_id :: string
  xe_command_id :: "string option"
  xe_intent_id :: "string option"
  xe_payload_digest :: "string option"
  xe_execution_digest :: "string option"
  xe_receipt_digest :: "string option"
  xe_payload :: evidence_payload
  xe_source_timestamp :: string
  xe_gateway_received_at :: string
  xe_event_digest :: string

definition EVIDENCE_EVENT_FIELDS :: "string list" where
  "EVIDENCE_EVENT_FIELDS = [
     ''schema_version'', ''event_id'', ''owner_subject'', ''source'', ''source_sequence'',
     ''job_id'', ''command_id'', ''intent_id'', ''payload_digest'', ''execution_digest'',
     ''receipt_digest'', ''payload'', ''source_timestamp'', ''gateway_received_at'',
     ''event_digest'']"

definition dump_evidence_event :: "evidence_event \<Rightarrow> json" where
  "dump_evidence_event r = JObj [
     (''schema_version'', JStr ''cad.execution-evidence/1''),
     (''event_id'', JStr (xe_event_id r)), (''owner_subject'', JStr (xe_owner_subject r)),
     (''source'', JStr (evidence_source_name (xe_source r))),
     (''source_sequence'', JInt (xe_source_sequence r)), (''job_id'', JStr (xe_job_id r)),
     (''command_id'', opt_json JStr (xe_command_id r)),
     (''intent_id'', opt_json JStr (xe_intent_id r)),
     (''payload_digest'', opt_json JStr (xe_payload_digest r)),
     (''execution_digest'', opt_json JStr (xe_execution_digest r)),
     (''receipt_digest'', opt_json JStr (xe_receipt_digest r)),
     (''payload'', dump_evidence_payload (xe_payload r)),
     (''source_timestamp'', JStr (xe_source_timestamp r)),
     (''gateway_received_at'', JStr (xe_gateway_received_at r)),
     (''event_digest'', JStr (xe_event_digest r))]"

definition decode_evidence_event :: "json \<Rightarrow> evidence_event option" where
  "decode_evidence_event v = do {
     model_dict EVIDENCE_EVENT_FIELDS v;
     dflt v ''schema_version'' () (as_version ''cad.execution-evidence/1'');
     event_id \<leftarrow> req v ''event_id'' as_text;
     owner_subject \<leftarrow> req v ''owner_subject'' as_text;
     source \<leftarrow> req v ''source'' (as_enum EVIDENCE_SOURCES);
     source_sequence \<leftarrow> req v ''source_sequence'' as_int;
     job_id \<leftarrow> req v ''job_id'' as_text;
     command_id \<leftarrow> dflt v ''command_id'' None (as_opt as_text);
     intent_id \<leftarrow> dflt v ''intent_id'' None (as_opt as_text);
     payload_digest \<leftarrow> dflt v ''payload_digest'' None (as_opt as_text);
     execution_digest \<leftarrow> dflt v ''execution_digest'' None (as_opt as_text);
     receipt_digest \<leftarrow> dflt v ''receipt_digest'' None (as_opt as_text);
     payload \<leftarrow> req v ''payload'' decode_evidence_payload;
     source_timestamp \<leftarrow> req v ''source_timestamp'' as_text;
     gateway_received_at \<leftarrow> req v ''gateway_received_at'' as_text;
     event_digest \<leftarrow> req v ''event_digest'' as_text;
     Some \<lparr>xe_event_id = event_id, xe_owner_subject = owner_subject, xe_source = source,
       xe_source_sequence = source_sequence, xe_job_id = job_id, xe_command_id = command_id,
       xe_intent_id = intent_id, xe_payload_digest = payload_digest,
       xe_execution_digest = execution_digest, xe_receipt_digest = receipt_digest,
       xe_payload = payload, xe_source_timestamp = source_timestamp,
       xe_gateway_received_at = gateway_received_at, xe_event_digest = event_digest\<rparr> }"

lemma dump_evidence_event_dict [simp]: "is_dict (dump_evidence_event r)" "dump_evidence_event r \<noteq> JNull"
  by (simp_all add: dump_evidence_event_def)

lemma decode_dump_evidence_event [simp]: "decode_evidence_event (dump_evidence_event r) = Some r"
  by (cases r) (simp add: decode_evidence_event_def model_dict_def req_def dflt_def as_version_def jlookup_def
      jkeys_def as_enum_def dump_evidence_event_def EVIDENCE_EVENT_FIELDS_def)

definition execution_evidence_digest :: "pylib \<Rightarrow> evidence_event \<Rightarrow> string option" where
  "execution_evidence_digest L r = canonical_phase7_digest L [''event_digest''] (dump_evidence_event r)"

definition wf_evidence_event :: "pylib \<Rightarrow> iso_reader \<Rightarrow> evidence_event \<Rightarrow> bool" where
  "wf_evidence_event L T r \<longleftrightarrow> public_id (xe_event_id r) \<and> text_between 1 512 (xe_owner_subject r)
     \<and> int_between 0 MAX_INT64 (xe_source_sequence r) \<and> public_id (xe_job_id r)
     \<and> opt_ok public_id (xe_command_id r) \<and> opt_ok public_id (xe_intent_id r)
     \<and> opt_ok prefixed_sha256 (xe_payload_digest r) \<and> opt_ok prefixed_sha256 (xe_execution_digest r)
     \<and> opt_ok prefixed_sha256 (xe_receipt_digest r) \<and> wf_evidence_payload L (xe_payload r)
     \<and> valid_timestamp T (xe_source_timestamp r) \<and> valid_timestamp T (xe_gateway_received_at r)
     \<and> prefixed_sha256 (xe_event_digest r) \<and> record_is_bounded L (dump_evidence_event r)
     \<and> execution_evidence_digest L r = Some (xe_event_digest r)
     \<and> \<not> (ey_milestone (xe_payload r) \<in> set HOST_MILESTONES \<and> xe_source r \<noteq> HostSource)"

section \<open>Recovery cases\<close>

record recovery_runtime_state =
  rs_device_status :: string
  rs_document_status :: string
  rs_document_revision :: "string option"
  rs_runtime_id :: "string option"
  rs_agent_package_hash :: "string option"
  rs_host_package_hash :: "string option"

definition RECOVERY_RUNTIME_STATE_FIELDS :: "string list" where
  "RECOVERY_RUNTIME_STATE_FIELDS = [
     ''device_status'', ''document_status'', ''document_revision'', ''runtime_id'',
     ''agent_package_hash'', ''host_package_hash'']"

definition dump_recovery_runtime_state :: "recovery_runtime_state \<Rightarrow> json" where
  "dump_recovery_runtime_state r = JObj [
     (''device_status'', JStr (rs_device_status r)),
     (''document_status'', JStr (rs_document_status r)),
     (''document_revision'', opt_json JStr (rs_document_revision r)),
     (''runtime_id'', opt_json JStr (rs_runtime_id r)),
     (''agent_package_hash'', opt_json JStr (rs_agent_package_hash r)),
     (''host_package_hash'', opt_json JStr (rs_host_package_hash r))]"

definition decode_recovery_runtime_state :: "json \<Rightarrow> recovery_runtime_state option" where
  "decode_recovery_runtime_state v = do {
     model_dict RECOVERY_RUNTIME_STATE_FIELDS v;
     device_status \<leftarrow> req v ''device_status'' as_text;
     document_status \<leftarrow> req v ''document_status'' as_text;
     document_revision \<leftarrow> dflt v ''document_revision'' None (as_opt as_text);
     runtime_id \<leftarrow> dflt v ''runtime_id'' None (as_opt as_text);
     agent_package_hash \<leftarrow> dflt v ''agent_package_hash'' None (as_opt as_text);
     host_package_hash \<leftarrow> dflt v ''host_package_hash'' None (as_opt as_text);
     Some \<lparr>rs_device_status = device_status, rs_document_status = document_status,
       rs_document_revision = document_revision, rs_runtime_id = runtime_id,
       rs_agent_package_hash = agent_package_hash, rs_host_package_hash = host_package_hash\<rparr> }"

lemma dump_recovery_runtime_state_dict [simp]: "is_dict (dump_recovery_runtime_state r)" "dump_recovery_runtime_state r \<noteq> JNull"
  by (simp_all add: dump_recovery_runtime_state_def)

lemma decode_dump_recovery_runtime_state [simp]: "decode_recovery_runtime_state (dump_recovery_runtime_state r) = Some r"
  by (cases r) (simp add: decode_recovery_runtime_state_def model_dict_def req_def dflt_def as_version_def jlookup_def
      jkeys_def as_enum_def dump_recovery_runtime_state_def RECOVERY_RUNTIME_STATE_FIELDS_def)

definition wf_recovery_runtime_state :: "pylib \<Rightarrow> recovery_runtime_state \<Rightarrow> bool" where
  "wf_recovery_runtime_state L r \<longleftrightarrow>
     rs_device_status r \<in> set [''online'', ''offline'', ''revoked'', ''replaced'', ''unknown'']
     \<and> rs_document_status r \<in> set [''open'', ''closed'', ''unavailable'', ''identity_mismatch'', ''unknown'']
     \<and> opt_ok revision_token (rs_document_revision r) \<and> opt_ok public_id (rs_runtime_id r)
     \<and> opt_ok prefixed_sha256 (rs_agent_package_hash r) \<and> opt_ok prefixed_sha256 (rs_host_package_hash r)
     \<and> record_is_bounded L (dump_recovery_runtime_state r)"

record recovery_query_result =
  qr_outcome :: string
  qr_source :: evidence_source
  qr_summary :: string
  qr_queried_at :: string
  qr_receipt_digest :: "string option"

definition RECOVERY_QUERY_RESULT_FIELDS :: "string list" where
  "RECOVERY_QUERY_RESULT_FIELDS = [
     ''outcome'', ''source'', ''summary'', ''queried_at'', ''receipt_digest'']"

definition dump_recovery_query_result :: "recovery_query_result \<Rightarrow> json" where
  "dump_recovery_query_result r = JObj [
     (''outcome'', JStr (qr_outcome r)),
     (''source'', JStr (evidence_source_name (qr_source r))),
     (''summary'', JStr (qr_summary r)), (''queried_at'', JStr (qr_queried_at r)),
     (''receipt_digest'', opt_json JStr (qr_receipt_digest r))]"

definition decode_recovery_query_result :: "json \<Rightarrow> recovery_query_result option" where
  "decode_recovery_query_result v = do {
     model_dict RECOVERY_QUERY_RESULT_FIELDS v;
     outcome \<leftarrow> req v ''outcome'' as_text;
     source \<leftarrow> req v ''source'' (as_enum EVIDENCE_SOURCES);
     summary \<leftarrow> req v ''summary'' as_text;
     queried_at \<leftarrow> req v ''queried_at'' as_text;
     receipt_digest \<leftarrow> dflt v ''receipt_digest'' None (as_opt as_text);
     Some \<lparr>qr_outcome = outcome, qr_source = source, qr_summary = summary,
       qr_queried_at = queried_at, qr_receipt_digest = receipt_digest\<rparr> }"

lemma dump_recovery_query_result_dict [simp]: "is_dict (dump_recovery_query_result r)" "dump_recovery_query_result r \<noteq> JNull"
  by (simp_all add: dump_recovery_query_result_def)

lemma decode_dump_recovery_query_result [simp]: "decode_recovery_query_result (dump_recovery_query_result r) = Some r"
  by (cases r) (simp add: decode_recovery_query_result_def model_dict_def req_def dflt_def as_version_def jlookup_def
      jkeys_def as_enum_def dump_recovery_query_result_def RECOVERY_QUERY_RESULT_FIELDS_def)

definition QUERY_OUTCOMES :: "string list" where
  "QUERY_OUTCOMES = [''not_found'', ''committed'', ''rolled_back'', ''conflict'', ''aborted'', ''inconclusive'',
     ''unavailable'', ''malformed_ledger'']"

definition wf_recovery_query_result :: "pylib \<Rightarrow> iso_reader \<Rightarrow> recovery_query_result \<Rightarrow> bool" where
  "wf_recovery_query_result L T r \<longleftrightarrow> qr_outcome r \<in> set QUERY_OUTCOMES
     \<and> text_between 1 512 (qr_summary r) \<and> valid_timestamp T (qr_queried_at r)
     \<and> opt_ok prefixed_sha256 (qr_receipt_digest r) \<and> record_is_bounded L (dump_recovery_query_result r)"

record operator_note =
  nt_note_id :: string
  nt_actor :: principal
  nt_text :: string
  nt_created_at :: string

definition OPERATOR_NOTE_FIELDS :: "string list" where
  "OPERATOR_NOTE_FIELDS = [
     ''note_id'', ''actor'', ''text'', ''created_at'']"

definition dump_operator_note :: "operator_note \<Rightarrow> json" where
  "dump_operator_note r = JObj [
     (''note_id'', JStr (nt_note_id r)), (''actor'', dump_principal (nt_actor r)),
     (''text'', JStr (nt_text r)), (''created_at'', JStr (nt_created_at r))]"

definition decode_operator_note :: "json \<Rightarrow> operator_note option" where
  "decode_operator_note v = do {
     model_dict OPERATOR_NOTE_FIELDS v;
     note_id \<leftarrow> req v ''note_id'' as_text;
     actor \<leftarrow> req v ''actor'' decode_principal;
     text \<leftarrow> req v ''text'' as_text;
     created_at \<leftarrow> req v ''created_at'' as_text;
     Some \<lparr>nt_note_id = note_id, nt_actor = actor, nt_text = text, nt_created_at = created_at\<rparr> }"

lemma dump_operator_note_dict [simp]: "is_dict (dump_operator_note r)" "dump_operator_note r \<noteq> JNull"
  by (simp_all add: dump_operator_note_def)

lemma decode_dump_operator_note [simp]: "decode_operator_note (dump_operator_note r) = Some r"
  by (cases r) (simp add: decode_operator_note_def model_dict_def req_def dflt_def as_version_def jlookup_def
      jkeys_def as_enum_def dump_operator_note_def OPERATOR_NOTE_FIELDS_def)

definition wf_operator_note :: "pylib \<Rightarrow> iso_reader \<Rightarrow> operator_note \<Rightarrow> bool" where
  "wf_operator_note L T r \<longleftrightarrow> public_id (nt_note_id r) \<and> wf_principal L (nt_actor r)
     \<and> text_between 1 2048 (nt_text r) \<and> valid_timestamp T (nt_created_at r)
     \<and> record_is_bounded L (dump_operator_note r)"

datatype recovery_state = CaseOpen | CaseInvestigating | CaseResolved | CaseNeedsSupport

fun recovery_state_name :: "recovery_state \<Rightarrow> string" where
  "recovery_state_name CaseOpen = ''open''"
| "recovery_state_name CaseInvestigating = ''investigating''"
| "recovery_state_name CaseResolved = ''resolved''"
| "recovery_state_name CaseNeedsSupport = ''needs_support''"

definition RECOVERY_STATES :: "(string \<times> recovery_state) list" where
  "RECOVERY_STATES = map (\<lambda>x. (recovery_state_name x, x)) [CaseOpen, CaseInvestigating, CaseResolved, CaseNeedsSupport]"

lemma RECOVERY_STATES_name [simp]: "map_of RECOVERY_STATES (recovery_state_name x) = Some x"
  by (cases x) (simp_all add: RECOVERY_STATES_def)

record recovery_record =
  rk_case_id :: string
  rk_owner_subject :: string
  rk_state :: recovery_state
  rk_resolution_version :: int
  rk_execution_binding_digest :: string
  rk_intent_id :: string
  rk_consent_id :: "string option"
  rk_job_id :: string
  rk_receipt_id :: "string option"
  rk_evidence_event_ids :: "string list"
  rk_missing_evidence :: "string list"
  rk_latest_query_result :: "recovery_query_result option"
  rk_current_state :: recovery_runtime_state
  rk_safe_actions :: "string list"
  rk_resolution :: "string option"
  rk_operator_notes :: "operator_note list"
  rk_created_at :: string
  rk_updated_at :: string
  rk_resolved_at :: "string option"

definition RECOVERY_RECORD_FIELDS :: "string list" where
  "RECOVERY_RECORD_FIELDS = [
     ''schema_version'', ''case_id'', ''owner_subject'', ''state'', ''resolution_version'',
     ''execution_binding_digest'', ''intent_id'', ''consent_id'', ''job_id'', ''receipt_id'',
     ''evidence_event_ids'', ''missing_evidence'', ''latest_query_result'', ''current_state'',
     ''safe_actions'', ''resolution'', ''operator_notes'', ''created_at'', ''updated_at'',
     ''resolved_at'']"

definition dump_recovery_record :: "recovery_record \<Rightarrow> json" where
  "dump_recovery_record r = JObj [
     (''schema_version'', JStr ''cad.recovery-case/1''), (''case_id'', JStr (rk_case_id r)),
     (''owner_subject'', JStr (rk_owner_subject r)),
     (''state'', JStr (recovery_state_name (rk_state r))),
     (''resolution_version'', JInt (rk_resolution_version r)),
     (''execution_binding_digest'', JStr (rk_execution_binding_digest r)),
     (''intent_id'', JStr (rk_intent_id r)), (''consent_id'', opt_json JStr (rk_consent_id r)),
     (''job_id'', JStr (rk_job_id r)), (''receipt_id'', opt_json JStr (rk_receipt_id r)),
     (''evidence_event_ids'', list_json JStr (rk_evidence_event_ids r)),
     (''missing_evidence'', list_json JStr (rk_missing_evidence r)),
     (''latest_query_result'', opt_json dump_recovery_query_result (rk_latest_query_result r)),
     (''current_state'', dump_recovery_runtime_state (rk_current_state r)),
     (''safe_actions'', list_json JStr (rk_safe_actions r)),
     (''resolution'', opt_json JStr (rk_resolution r)),
     (''operator_notes'', list_json dump_operator_note (rk_operator_notes r)),
     (''created_at'', JStr (rk_created_at r)), (''updated_at'', JStr (rk_updated_at r)),
     (''resolved_at'', opt_json JStr (rk_resolved_at r))]"

definition decode_recovery_record :: "json \<Rightarrow> recovery_record option" where
  "decode_recovery_record v = do {
     model_dict RECOVERY_RECORD_FIELDS v;
     dflt v ''schema_version'' () (as_version ''cad.recovery-case/1'');
     case_id \<leftarrow> req v ''case_id'' as_text;
     owner_subject \<leftarrow> req v ''owner_subject'' as_text;
     state \<leftarrow> req v ''state'' (as_enum RECOVERY_STATES);
     resolution_version \<leftarrow> req v ''resolution_version'' as_int;
     execution_binding_digest \<leftarrow> req v ''execution_binding_digest'' as_text;
     intent_id \<leftarrow> req v ''intent_id'' as_text;
     consent_id \<leftarrow> dflt v ''consent_id'' None (as_opt as_text);
     job_id \<leftarrow> req v ''job_id'' as_text;
     receipt_id \<leftarrow> dflt v ''receipt_id'' None (as_opt as_text);
     evidence_event_ids \<leftarrow> dflt v ''evidence_event_ids'' [] (as_list as_text);
     missing_evidence \<leftarrow> dflt v ''missing_evidence'' [] (as_list as_text);
     latest_query_result \<leftarrow> dflt v ''latest_query_result'' None (as_opt decode_recovery_query_result);
     current_state \<leftarrow> req v ''current_state'' decode_recovery_runtime_state;
     safe_actions \<leftarrow> req v ''safe_actions'' (as_list as_text);
     resolution \<leftarrow> dflt v ''resolution'' None (as_opt as_text);
     operator_notes \<leftarrow> dflt v ''operator_notes'' [] (as_list decode_operator_note);
     created_at \<leftarrow> req v ''created_at'' as_text;
     updated_at \<leftarrow> req v ''updated_at'' as_text;
     resolved_at \<leftarrow> dflt v ''resolved_at'' None (as_opt as_text);
     Some \<lparr>rk_case_id = case_id, rk_owner_subject = owner_subject, rk_state = state,
       rk_resolution_version = resolution_version,
       rk_execution_binding_digest = execution_binding_digest, rk_intent_id = intent_id,
       rk_consent_id = consent_id, rk_job_id = job_id, rk_receipt_id = receipt_id,
       rk_evidence_event_ids = evidence_event_ids, rk_missing_evidence = missing_evidence,
       rk_latest_query_result = latest_query_result, rk_current_state = current_state,
       rk_safe_actions = safe_actions, rk_resolution = resolution,
       rk_operator_notes = operator_notes, rk_created_at = created_at,
       rk_updated_at = updated_at, rk_resolved_at = resolved_at\<rparr> }"

lemma dump_recovery_record_dict [simp]: "is_dict (dump_recovery_record r)" "dump_recovery_record r \<noteq> JNull"
  by (simp_all add: dump_recovery_record_def)

lemma decode_dump_recovery_record [simp]: "decode_recovery_record (dump_recovery_record r) = Some r"
  by (cases r) (simp add: decode_recovery_record_def model_dict_def req_def dflt_def as_version_def jlookup_def
      jkeys_def as_enum_def dump_recovery_record_def RECOVERY_RECORD_FIELDS_def)

definition SAFE_ACTIONS :: "string list" where
  "SAFE_ACTIONS = [''retry_exact_evidence_query'', ''reopen_exact_document'', ''collect_redacted_diagnostics'',
     ''materialize_from_exact_host_receipt'', ''mark_unresolved'', ''needs_support'']"

definition RESOLUTIONS :: "string list" where
  "RESOLUTIONS = [''exact_receipt_materialized'', ''proven_no_effect'', ''rolled_back'', ''unresolved'',
     ''support_required'']"

definition validate_recovery :: "recovery_record \<Rightarrow> bool" where
  "validate_recovery r \<longleftrightarrow> distinct (rk_evidence_event_ids r) \<and> distinct (rk_safe_actions r)
     \<and> (if rk_state r = CaseResolved then rk_resolution r \<noteq> None \<and> rk_resolved_at r \<noteq> None
        else rk_resolution r = None \<and> rk_resolved_at r = None)"

definition wf_recovery_record :: "pylib \<Rightarrow> iso_reader \<Rightarrow> recovery_record \<Rightarrow> bool" where
  "wf_recovery_record L T r \<longleftrightarrow> public_id (rk_case_id r) \<and> text_between 1 512 (rk_owner_subject r)
     \<and> int_between 0 MAX_INT32 (rk_resolution_version r) \<and> prefixed_sha256 (rk_execution_binding_digest r)
     \<and> public_id (rk_intent_id r) \<and> opt_ok public_id (rk_consent_id r) \<and> public_id (rk_job_id r)
     \<and> opt_ok public_id (rk_receipt_id r)
     \<and> length (rk_evidence_event_ids r) \<le> 256 \<and> list_all public_id (rk_evidence_event_ids r)
     \<and> length (rk_missing_evidence r) \<le> 64 \<and> list_all (text_between 1 512) (rk_missing_evidence r)
     \<and> opt_ok (wf_recovery_query_result L T) (rk_latest_query_result r)
     \<and> wf_recovery_runtime_state L (rk_current_state r)
     \<and> 1 \<le> length (rk_safe_actions r) \<and> length (rk_safe_actions r) \<le> 16
     \<and> set (rk_safe_actions r) \<subseteq> set SAFE_ACTIONS
     \<and> opt_ok (\<lambda>s. s \<in> set RESOLUTIONS) (rk_resolution r)
     \<and> length (rk_operator_notes r) \<le> 64 \<and> list_all (wf_operator_note L T) (rk_operator_notes r)
     \<and> valid_timestamp T (rk_created_at r) \<and> valid_timestamp T (rk_updated_at r)
     \<and> opt_ok (valid_timestamp T) (rk_resolved_at r)
     \<and> record_is_bounded L (dump_recovery_record r) \<and> validate_recovery r"

section \<open>Rollback checkpoints\<close>

record checkpoint_entity =
  ce_handle :: string
  ce_entity_type :: string
  ce_layer :: string
  ce_canonical_fingerprint :: string

definition CHECKPOINT_ENTITY_FIELDS :: "string list" where
  "CHECKPOINT_ENTITY_FIELDS = [
     ''handle'', ''entity_type'', ''layer'', ''canonical_fingerprint'']"

definition dump_checkpoint_entity :: "checkpoint_entity \<Rightarrow> json" where
  "dump_checkpoint_entity r = JObj [
     (''handle'', JStr (ce_handle r)), (''entity_type'', JStr (ce_entity_type r)),
     (''layer'', JStr (ce_layer r)),
     (''canonical_fingerprint'', JStr (ce_canonical_fingerprint r))]"

definition decode_checkpoint_entity :: "json \<Rightarrow> checkpoint_entity option" where
  "decode_checkpoint_entity v = do {
     model_dict CHECKPOINT_ENTITY_FIELDS v;
     handle \<leftarrow> req v ''handle'' as_text;
     entity_type \<leftarrow> req v ''entity_type'' as_text;
     layer \<leftarrow> req v ''layer'' as_text;
     canonical_fingerprint \<leftarrow> req v ''canonical_fingerprint'' as_text;
     Some \<lparr>ce_handle = handle, ce_entity_type = entity_type, ce_layer = layer,
       ce_canonical_fingerprint = canonical_fingerprint\<rparr> }"

lemma dump_checkpoint_entity_dict [simp]: "is_dict (dump_checkpoint_entity r)" "dump_checkpoint_entity r \<noteq> JNull"
  by (simp_all add: dump_checkpoint_entity_def)

lemma decode_dump_checkpoint_entity [simp]: "decode_checkpoint_entity (dump_checkpoint_entity r) = Some r"
  by (cases r) (simp add: decode_checkpoint_entity_def model_dict_def req_def dflt_def as_version_def jlookup_def
      jkeys_def as_enum_def dump_checkpoint_entity_def CHECKPOINT_ENTITY_FIELDS_def)

definition wf_checkpoint_entity :: "pylib \<Rightarrow> checkpoint_entity \<Rightarrow> bool" where
  "wf_checkpoint_entity L r \<longleftrightarrow> entity_handle (ce_handle r) \<and> text_between 1 128 (ce_entity_type r)
     \<and> text_between 1 255 (ce_layer r) \<and> prefixed_sha256 (ce_canonical_fingerprint r)
     \<and> record_is_bounded L (dump_checkpoint_entity r)"

record checkpoint_record =
  ck_checkpoint_id :: string
  ck_owner_subject :: string
  ck_original_receipt_id :: string
  ck_original_receipt_digest :: string
  ck_program_id :: string
  ck_program_revision :: int
  ck_program_digest :: string
  ck_preview_id :: string
  ck_preview_digest :: string
  ck_execution_digest :: string
  ck_document_id :: string
  ck_document_revision_before :: string
  ck_document_revision_after :: string
  ck_created_entities :: "checkpoint_entity list"
  ck_non_entity_object_created :: bool
  ck_runtime_pins :: runtime_pins
  ck_policy_pins :: policy_pins
  ck_checkpoint_digest :: string
  ck_created_at :: string

definition CHECKPOINT_RECORD_FIELDS :: "string list" where
  "CHECKPOINT_RECORD_FIELDS = [
     ''schema_version'', ''checkpoint_id'', ''owner_subject'', ''original_receipt_id'',
     ''original_receipt_digest'', ''program_id'', ''program_revision'', ''program_digest'',
     ''preview_id'', ''preview_digest'', ''execution_digest'', ''document_id'',
     ''document_revision_before'', ''document_revision_after'', ''created_entities'',
     ''non_entity_object_created'', ''runtime_pins'', ''policy_pins'', ''checkpoint_digest'',
     ''created_at'']"

definition dump_checkpoint_record :: "checkpoint_record \<Rightarrow> json" where
  "dump_checkpoint_record r = JObj [
     (''schema_version'', JStr ''cad.rollback.checkpoint/1''),
     (''checkpoint_id'', JStr (ck_checkpoint_id r)),
     (''owner_subject'', JStr (ck_owner_subject r)),
     (''original_receipt_id'', JStr (ck_original_receipt_id r)),
     (''original_receipt_digest'', JStr (ck_original_receipt_digest r)),
     (''program_id'', JStr (ck_program_id r)),
     (''program_revision'', JInt (ck_program_revision r)),
     (''program_digest'', JStr (ck_program_digest r)),
     (''preview_id'', JStr (ck_preview_id r)),
     (''preview_digest'', JStr (ck_preview_digest r)),
     (''execution_digest'', JStr (ck_execution_digest r)),
     (''document_id'', JStr (ck_document_id r)),
     (''document_revision_before'', JStr (ck_document_revision_before r)),
     (''document_revision_after'', JStr (ck_document_revision_after r)),
     (''created_entities'', list_json dump_checkpoint_entity (ck_created_entities r)),
     (''non_entity_object_created'', JBool (ck_non_entity_object_created r)),
     (''runtime_pins'', dump_runtime_pins (ck_runtime_pins r)),
     (''policy_pins'', dump_policy_pins (ck_policy_pins r)),
     (''checkpoint_digest'', JStr (ck_checkpoint_digest r)),
     (''created_at'', JStr (ck_created_at r))]"

definition decode_checkpoint_record :: "json \<Rightarrow> checkpoint_record option" where
  "decode_checkpoint_record v = do {
     model_dict CHECKPOINT_RECORD_FIELDS v;
     dflt v ''schema_version'' () (as_version ''cad.rollback.checkpoint/1'');
     checkpoint_id \<leftarrow> req v ''checkpoint_id'' as_text;
     owner_subject \<leftarrow> req v ''owner_subject'' as_text;
     original_receipt_id \<leftarrow> req v ''original_receipt_id'' as_text;
     original_receipt_digest \<leftarrow> req v ''original_receipt_digest'' as_text;
     program_id \<leftarrow> req v ''program_id'' as_text;
     program_revision \<leftarrow> req v ''program_revision'' as_int;
     program_digest \<leftarrow> req v ''program_digest'' as_text;
     preview_id \<leftarrow> req v ''preview_id'' as_text;
     preview_digest \<leftarrow> req v ''preview_digest'' as_text;
     execution_digest \<leftarrow> req v ''execution_digest'' as_text;
     document_id \<leftarrow> req v ''document_id'' as_text;
     document_revision_before \<leftarrow> req v ''document_revision_before'' as_text;
     document_revision_after \<leftarrow> req v ''document_revision_after'' as_text;
     created_entities \<leftarrow> req v ''created_entities'' (as_list decode_checkpoint_entity);
     non_entity_object_created \<leftarrow> req v ''non_entity_object_created'' as_bool;
     runtime_pins \<leftarrow> req v ''runtime_pins'' decode_runtime_pins;
     policy_pins \<leftarrow> req v ''policy_pins'' decode_policy_pins;
     checkpoint_digest \<leftarrow> req v ''checkpoint_digest'' as_text;
     created_at \<leftarrow> req v ''created_at'' as_text;
     Some \<lparr>ck_checkpoint_id = checkpoint_id, ck_owner_subject = owner_subject,
       ck_original_receipt_id = original_receipt_id,
       ck_original_receipt_digest = original_receipt_digest, ck_program_id = program_id,
       ck_program_revision = program_revision, ck_program_digest = program_digest,
       ck_preview_id = preview_id, ck_preview_digest = preview_digest,
       ck_execution_digest = execution_digest, ck_document_id = document_id,
       ck_document_revision_before = document_revision_before,
       ck_document_revision_after = document_revision_after,
       ck_created_entities = created_entities,
       ck_non_entity_object_created = non_entity_object_created,
       ck_runtime_pins = runtime_pins, ck_policy_pins = policy_pins,
       ck_checkpoint_digest = checkpoint_digest, ck_created_at = created_at\<rparr> }"

lemma dump_checkpoint_record_dict [simp]: "is_dict (dump_checkpoint_record r)" "dump_checkpoint_record r \<noteq> JNull"
  by (simp_all add: dump_checkpoint_record_def)

lemma decode_dump_checkpoint_record [simp]: "decode_checkpoint_record (dump_checkpoint_record r) = Some r"
  by (cases r) (simp add: decode_checkpoint_record_def model_dict_def req_def dflt_def as_version_def jlookup_def
      jkeys_def as_enum_def dump_checkpoint_record_def CHECKPOINT_RECORD_FIELDS_def)

text \<open>The pins a checkpoint and a receipt project into the record of the drawing.\<close>

definition host_pins :: "string \<Rightarrow> string \<Rightarrow> string \<Rightarrow> string \<Rightarrow> runtime_pins \<Rightarrow> policy_pins \<Rightarrow> json" where
  "host_pins program_digest execution_digest document_id revision runtime policy = JObj [
     (''program_digest'', JStr program_digest), (''execution_digest'', JStr execution_digest),
     (''document_id'', JStr document_id), (''document_revision'', JStr revision),
     (''runtime_id'', JStr (rn_runtime_id runtime)), (''runtime_role'', JStr (rn_runtime_role runtime)),
     (''host_family'', JStr (rn_host_family runtime)), (''host_version'', JStr (rn_host_version runtime)),
     (''package_id'', JStr (rn_host_package_id runtime)),
     (''package_version'', JStr (rn_host_package_version runtime)),
     (''package_hash'', JStr (rn_host_package_hash runtime)),
     (''capability_manifest_hash'', JStr (yp_capability_manifest_hash policy)),
     (''operation_registry_version'', JStr (yp_registry_version policy)),
     (''operation_registry_hash'', JStr (yp_operation_registry_hash policy)),
     (''policy_version'', JStr (yp_policy_version policy))]"

definition rollback_checkpoint_digest :: "pylib \<Rightarrow> checkpoint_record \<Rightarrow> string option" where
  "rollback_checkpoint_digest L r = sha256_text L (JObj [
     (''checkpoint_id'', JStr (ck_checkpoint_id r)),
     (''original_receipt_id'', JStr (ck_original_receipt_id r)),
     (''original_receipt_digest'', JStr (ck_original_receipt_digest r)),
     (''program_id'', JStr (ck_program_id r)), (''program_revision'', JInt (ck_program_revision r)),
     (''program_digest'', JStr (ck_program_digest r)), (''preview_id'', JStr (ck_preview_id r)),
     (''preview_digest'', JStr (ck_preview_digest r)),
     (''execution_digest'', JStr (ck_execution_digest r)), (''document_id'', JStr (ck_document_id r)),
     (''document_revision_before'', JStr (ck_document_revision_before r)),
     (''document_revision_after'', JStr (ck_document_revision_after r)),
     (''created_entities'', list_json dump_checkpoint_entity (ck_created_entities r)),
     (''non_entity_object_created'', JBool (ck_non_entity_object_created r)),
     (''runtime_and_policy_pins'', host_pins (ck_program_digest r) (ck_execution_digest r)
        (ck_document_id r) (ck_document_revision_before r) (ck_runtime_pins r) (ck_policy_pins r)),
     (''created_at'', JStr (ck_created_at r)),
     (''schema_version'', JStr ''cad.rollback.checkpoint/1'')])"

definition wf_checkpoint_record :: "pylib \<Rightarrow> iso_reader \<Rightarrow> checkpoint_record \<Rightarrow> bool" where
  "wf_checkpoint_record L T r \<longleftrightarrow>
     list_all public_id [ck_checkpoint_id r, ck_original_receipt_id r, ck_program_id r, ck_preview_id r,
       ck_document_id r]
     \<and> text_between 1 512 (ck_owner_subject r) \<and> int_between 1 MAX_INT32 (ck_program_revision r)
     \<and> list_all prefixed_sha256 [ck_original_receipt_digest r, ck_program_digest r, ck_preview_digest r,
       ck_execution_digest r, ck_checkpoint_digest r]
     \<and> revision_token (ck_document_revision_before r) \<and> revision_token (ck_document_revision_after r)
     \<and> 1 \<le> length (ck_created_entities r) \<and> length (ck_created_entities r) \<le> 256
     \<and> list_all (wf_checkpoint_entity L) (ck_created_entities r)
     \<and> wf_runtime_pins L (ck_runtime_pins r) \<and> wf_policy_pins L (ck_policy_pins r)
     \<and> valid_timestamp T (ck_created_at r) \<and> record_is_bounded L (dump_checkpoint_record r)
     \<and> distinct (map ce_handle (ck_created_entities r))
     \<and> rollback_checkpoint_digest L r = Some (ck_checkpoint_digest r)"

section \<open>Rollback plans\<close>

record rollback_conflict =
  cf_code :: string
  cf_handle :: "string option"
  cf_summary :: string

definition ROLLBACK_CONFLICT_FIELDS :: "string list" where
  "ROLLBACK_CONFLICT_FIELDS = [
     ''code'', ''handle'', ''summary'']"

definition dump_rollback_conflict :: "rollback_conflict \<Rightarrow> json" where
  "dump_rollback_conflict r = JObj [
     (''code'', JStr (cf_code r)), (''handle'', opt_json JStr (cf_handle r)),
     (''summary'', JStr (cf_summary r))]"

definition decode_rollback_conflict :: "json \<Rightarrow> rollback_conflict option" where
  "decode_rollback_conflict v = do {
     model_dict ROLLBACK_CONFLICT_FIELDS v;
     code \<leftarrow> req v ''code'' as_text;
     handle \<leftarrow> dflt v ''handle'' None (as_opt as_text);
     summary \<leftarrow> req v ''summary'' as_text;
     Some \<lparr>cf_code = code, cf_handle = handle, cf_summary = summary\<rparr> }"

lemma dump_rollback_conflict_dict [simp]: "is_dict (dump_rollback_conflict r)" "dump_rollback_conflict r \<noteq> JNull"
  by (simp_all add: dump_rollback_conflict_def)

lemma decode_dump_rollback_conflict [simp]: "decode_rollback_conflict (dump_rollback_conflict r) = Some r"
  by (cases r) (simp add: decode_rollback_conflict_def model_dict_def req_def dflt_def as_version_def jlookup_def
      jkeys_def as_enum_def dump_rollback_conflict_def ROLLBACK_CONFLICT_FIELDS_def)

definition CONFLICT_CODES :: "string list" where
  "CONFLICT_CODES = [''checkpoint_missing'', ''document_identity_mismatch'', ''document_revision_mismatch'',
     ''entity_missing'', ''entity_type_changed'', ''entity_layer_changed'', ''entity_fingerprint_changed'',
     ''dependency_unproven'', ''runtime_pin_mismatch'', ''plan_expired'', ''evidence_mismatch'']"

definition wf_rollback_conflict :: "pylib \<Rightarrow> rollback_conflict \<Rightarrow> bool" where
  "wf_rollback_conflict L r \<longleftrightarrow> cf_code r \<in> set CONFLICT_CODES \<and> opt_ok entity_handle (cf_handle r)
     \<and> text_between 1 512 (cf_summary r) \<and> record_is_bounded L (dump_rollback_conflict r)"

record plan_record =
  rp_plan_id :: string
  rp_owner_subject :: string
  rp_checkpoint_id :: string
  rp_checkpoint_digest :: string
  rp_original_receipt_id :: string
  rp_document_id :: string
  rp_current_document_revision :: string
  rp_rollback_execution_digest :: string
  rp_entity_handles :: "string list"
  rp_conflicts :: "rollback_conflict list"
  rp_eligible :: bool
  rp_runtime_pins :: runtime_pins
  rp_policy_pins :: policy_pins
  rp_plan_digest :: string
  rp_created_at :: string
  rp_expires_at :: string

definition PLAN_RECORD_FIELDS :: "string list" where
  "PLAN_RECORD_FIELDS = [
     ''schema_version'', ''plan_id'', ''owner_subject'', ''checkpoint_id'',
     ''checkpoint_digest'', ''original_receipt_id'', ''document_id'',
     ''current_document_revision'', ''rollback_execution_digest'', ''entity_handles'',
     ''conflicts'', ''eligible'', ''runtime_pins'', ''policy_pins'', ''plan_digest'',
     ''created_at'', ''expires_at'']"

definition dump_plan_record :: "plan_record \<Rightarrow> json" where
  "dump_plan_record r = JObj [
     (''schema_version'', JStr ''cad.rollback.plan/1''), (''plan_id'', JStr (rp_plan_id r)),
     (''owner_subject'', JStr (rp_owner_subject r)),
     (''checkpoint_id'', JStr (rp_checkpoint_id r)),
     (''checkpoint_digest'', JStr (rp_checkpoint_digest r)),
     (''original_receipt_id'', JStr (rp_original_receipt_id r)),
     (''document_id'', JStr (rp_document_id r)),
     (''current_document_revision'', JStr (rp_current_document_revision r)),
     (''rollback_execution_digest'', JStr (rp_rollback_execution_digest r)),
     (''entity_handles'', list_json JStr (rp_entity_handles r)),
     (''conflicts'', list_json dump_rollback_conflict (rp_conflicts r)),
     (''eligible'', JBool (rp_eligible r)),
     (''runtime_pins'', dump_runtime_pins (rp_runtime_pins r)),
     (''policy_pins'', dump_policy_pins (rp_policy_pins r)),
     (''plan_digest'', JStr (rp_plan_digest r)), (''created_at'', JStr (rp_created_at r)),
     (''expires_at'', JStr (rp_expires_at r))]"

definition decode_plan_record :: "json \<Rightarrow> plan_record option" where
  "decode_plan_record v = do {
     model_dict PLAN_RECORD_FIELDS v;
     dflt v ''schema_version'' () (as_version ''cad.rollback.plan/1'');
     plan_id \<leftarrow> req v ''plan_id'' as_text;
     owner_subject \<leftarrow> req v ''owner_subject'' as_text;
     checkpoint_id \<leftarrow> req v ''checkpoint_id'' as_text;
     checkpoint_digest \<leftarrow> req v ''checkpoint_digest'' as_text;
     original_receipt_id \<leftarrow> req v ''original_receipt_id'' as_text;
     document_id \<leftarrow> req v ''document_id'' as_text;
     current_document_revision \<leftarrow> req v ''current_document_revision'' as_text;
     rollback_execution_digest \<leftarrow> req v ''rollback_execution_digest'' as_text;
     entity_handles \<leftarrow> req v ''entity_handles'' (as_list as_text);
     conflicts \<leftarrow> dflt v ''conflicts'' [] (as_list decode_rollback_conflict);
     eligible \<leftarrow> req v ''eligible'' as_bool;
     runtime_pins \<leftarrow> req v ''runtime_pins'' decode_runtime_pins;
     policy_pins \<leftarrow> req v ''policy_pins'' decode_policy_pins;
     plan_digest \<leftarrow> req v ''plan_digest'' as_text;
     created_at \<leftarrow> req v ''created_at'' as_text;
     expires_at \<leftarrow> req v ''expires_at'' as_text;
     Some \<lparr>rp_plan_id = plan_id, rp_owner_subject = owner_subject,
       rp_checkpoint_id = checkpoint_id, rp_checkpoint_digest = checkpoint_digest,
       rp_original_receipt_id = original_receipt_id, rp_document_id = document_id,
       rp_current_document_revision = current_document_revision,
       rp_rollback_execution_digest = rollback_execution_digest,
       rp_entity_handles = entity_handles, rp_conflicts = conflicts, rp_eligible = eligible,
       rp_runtime_pins = runtime_pins, rp_policy_pins = policy_pins,
       rp_plan_digest = plan_digest, rp_created_at = created_at, rp_expires_at = expires_at\<rparr> }"

lemma dump_plan_record_dict [simp]: "is_dict (dump_plan_record r)" "dump_plan_record r \<noteq> JNull"
  by (simp_all add: dump_plan_record_def)

lemma decode_dump_plan_record [simp]: "decode_plan_record (dump_plan_record r) = Some r"
  by (cases r) (simp add: decode_plan_record_def model_dict_def req_def dflt_def as_version_def jlookup_def
      jkeys_def as_enum_def dump_plan_record_def PLAN_RECORD_FIELDS_def)

definition rollback_plan_digest :: "pylib \<Rightarrow> plan_record \<Rightarrow> string option" where
  "rollback_plan_digest L r = canonical_phase7_digest L [''plan_digest''] (dump_plan_record r)"

definition wf_plan_record :: "pylib \<Rightarrow> iso_reader \<Rightarrow> plan_record \<Rightarrow> bool" where
  "wf_plan_record L T r \<longleftrightarrow>
     list_all public_id [rp_plan_id r, rp_checkpoint_id r, rp_original_receipt_id r, rp_document_id r]
     \<and> text_between 1 512 (rp_owner_subject r) \<and> revision_token (rp_current_document_revision r)
     \<and> list_all prefixed_sha256 [rp_checkpoint_digest r, rp_rollback_execution_digest r, rp_plan_digest r]
     \<and> 1 \<le> length (rp_entity_handles r) \<and> length (rp_entity_handles r) \<le> 256
     \<and> list_all entity_handle (rp_entity_handles r) \<and> distinct (rp_entity_handles r)
     \<and> length (rp_conflicts r) \<le> 256 \<and> list_all (wf_rollback_conflict L) (rp_conflicts r)
     \<and> wf_runtime_pins L (rp_runtime_pins r) \<and> wf_policy_pins L (rp_policy_pins r)
     \<and> valid_timestamp T (rp_created_at r) \<and> valid_timestamp T (rp_expires_at r)
     \<and> record_is_bounded L (dump_plan_record r)
     \<and> rp_eligible r \<noteq> (rp_conflicts r \<noteq> [])
     \<and> \<not> not_before T (rp_created_at r) (rp_expires_at r)
     \<and> rollback_plan_digest L r = Some (rp_plan_digest r)"

section \<open>Rollback receipts\<close>

record removed_entity =
  rx_handle :: string
  rx_entity_type :: string
  rx_prior_fingerprint :: string

definition REMOVED_ENTITY_FIELDS :: "string list" where
  "REMOVED_ENTITY_FIELDS = [
     ''handle'', ''entity_type'', ''prior_fingerprint'']"

definition dump_removed_entity :: "removed_entity \<Rightarrow> json" where
  "dump_removed_entity r = JObj [
     (''handle'', JStr (rx_handle r)), (''entity_type'', JStr (rx_entity_type r)),
     (''prior_fingerprint'', JStr (rx_prior_fingerprint r))]"

definition decode_removed_entity :: "json \<Rightarrow> removed_entity option" where
  "decode_removed_entity v = do {
     model_dict REMOVED_ENTITY_FIELDS v;
     handle \<leftarrow> req v ''handle'' as_text;
     entity_type \<leftarrow> req v ''entity_type'' as_text;
     prior_fingerprint \<leftarrow> req v ''prior_fingerprint'' as_text;
     Some \<lparr>rx_handle = handle, rx_entity_type = entity_type,
       rx_prior_fingerprint = prior_fingerprint\<rparr> }"

lemma dump_removed_entity_dict [simp]: "is_dict (dump_removed_entity r)" "dump_removed_entity r \<noteq> JNull"
  by (simp_all add: dump_removed_entity_def)

lemma decode_dump_removed_entity [simp]: "decode_removed_entity (dump_removed_entity r) = Some r"
  by (cases r) (simp add: decode_removed_entity_def model_dict_def req_def dflt_def as_version_def jlookup_def
      jkeys_def as_enum_def dump_removed_entity_def REMOVED_ENTITY_FIELDS_def)

definition wf_removed_entity :: "pylib \<Rightarrow> removed_entity \<Rightarrow> bool" where
  "wf_removed_entity L r \<longleftrightarrow> entity_handle (rx_handle r) \<and> text_between 1 128 (rx_entity_type r)
     \<and> prefixed_sha256 (rx_prior_fingerprint r) \<and> record_is_bounded L (dump_removed_entity r)"

record rollback_receipt =
  rl_rollback_receipt_id :: string
  rl_owner_subject :: string
  rl_original_receipt_id :: string
  rl_original_receipt_digest :: string
  rl_program_digest :: string
  rl_original_execution_digest :: string
  rl_original_document_revision :: string
  rl_checkpoint_id :: string
  rl_checkpoint_digest :: string
  rl_rollback_plan_id :: string
  rl_rollback_plan_digest :: string
  rl_rollback_job_id :: string
  rl_rollback_execution_digest :: string
  rl_document_id :: string
  rl_document_revision_before :: string
  rl_document_revision_after :: string
  rl_removed_entities :: "removed_entity list"
  rl_runtime_pins :: runtime_pins
  rl_policy_pins :: policy_pins
  rl_receipt_digest :: string
  rl_created_at :: string

definition ROLLBACK_RECEIPT_FIELDS :: "string list" where
  "ROLLBACK_RECEIPT_FIELDS = [
     ''schema_version'', ''rollback_receipt_id'', ''owner_subject'', ''original_receipt_id'',
     ''original_receipt_digest'', ''program_digest'', ''original_execution_digest'',
     ''original_document_revision'', ''checkpoint_id'', ''checkpoint_digest'',
     ''rollback_plan_id'', ''rollback_plan_digest'', ''rollback_job_id'',
     ''rollback_execution_digest'', ''document_id'', ''document_revision_before'',
     ''document_revision_after'', ''removed_entities'', ''runtime_pins'', ''policy_pins'',
     ''receipt_digest'', ''created_at'']"

definition dump_rollback_receipt :: "rollback_receipt \<Rightarrow> json" where
  "dump_rollback_receipt r = JObj [
     (''schema_version'', JStr ''cad.rollback.receipt/1''),
     (''rollback_receipt_id'', JStr (rl_rollback_receipt_id r)),
     (''owner_subject'', JStr (rl_owner_subject r)),
     (''original_receipt_id'', JStr (rl_original_receipt_id r)),
     (''original_receipt_digest'', JStr (rl_original_receipt_digest r)),
     (''program_digest'', JStr (rl_program_digest r)),
     (''original_execution_digest'', JStr (rl_original_execution_digest r)),
     (''original_document_revision'', JStr (rl_original_document_revision r)),
     (''checkpoint_id'', JStr (rl_checkpoint_id r)),
     (''checkpoint_digest'', JStr (rl_checkpoint_digest r)),
     (''rollback_plan_id'', JStr (rl_rollback_plan_id r)),
     (''rollback_plan_digest'', JStr (rl_rollback_plan_digest r)),
     (''rollback_job_id'', JStr (rl_rollback_job_id r)),
     (''rollback_execution_digest'', JStr (rl_rollback_execution_digest r)),
     (''document_id'', JStr (rl_document_id r)),
     (''document_revision_before'', JStr (rl_document_revision_before r)),
     (''document_revision_after'', JStr (rl_document_revision_after r)),
     (''removed_entities'', list_json dump_removed_entity (rl_removed_entities r)),
     (''runtime_pins'', dump_runtime_pins (rl_runtime_pins r)),
     (''policy_pins'', dump_policy_pins (rl_policy_pins r)),
     (''receipt_digest'', JStr (rl_receipt_digest r)), (''created_at'', JStr (rl_created_at r))]"

definition decode_rollback_receipt :: "json \<Rightarrow> rollback_receipt option" where
  "decode_rollback_receipt v = do {
     model_dict ROLLBACK_RECEIPT_FIELDS v;
     dflt v ''schema_version'' () (as_version ''cad.rollback.receipt/1'');
     rollback_receipt_id \<leftarrow> req v ''rollback_receipt_id'' as_text;
     owner_subject \<leftarrow> req v ''owner_subject'' as_text;
     original_receipt_id \<leftarrow> req v ''original_receipt_id'' as_text;
     original_receipt_digest \<leftarrow> req v ''original_receipt_digest'' as_text;
     program_digest \<leftarrow> req v ''program_digest'' as_text;
     original_execution_digest \<leftarrow> req v ''original_execution_digest'' as_text;
     original_document_revision \<leftarrow> req v ''original_document_revision'' as_text;
     checkpoint_id \<leftarrow> req v ''checkpoint_id'' as_text;
     checkpoint_digest \<leftarrow> req v ''checkpoint_digest'' as_text;
     rollback_plan_id \<leftarrow> req v ''rollback_plan_id'' as_text;
     rollback_plan_digest \<leftarrow> req v ''rollback_plan_digest'' as_text;
     rollback_job_id \<leftarrow> req v ''rollback_job_id'' as_text;
     rollback_execution_digest \<leftarrow> req v ''rollback_execution_digest'' as_text;
     document_id \<leftarrow> req v ''document_id'' as_text;
     document_revision_before \<leftarrow> req v ''document_revision_before'' as_text;
     document_revision_after \<leftarrow> req v ''document_revision_after'' as_text;
     removed_entities \<leftarrow> req v ''removed_entities'' (as_list decode_removed_entity);
     runtime_pins \<leftarrow> req v ''runtime_pins'' decode_runtime_pins;
     policy_pins \<leftarrow> req v ''policy_pins'' decode_policy_pins;
     receipt_digest \<leftarrow> req v ''receipt_digest'' as_text;
     created_at \<leftarrow> req v ''created_at'' as_text;
     Some \<lparr>rl_rollback_receipt_id = rollback_receipt_id, rl_owner_subject = owner_subject,
       rl_original_receipt_id = original_receipt_id,
       rl_original_receipt_digest = original_receipt_digest,
       rl_program_digest = program_digest,
       rl_original_execution_digest = original_execution_digest,
       rl_original_document_revision = original_document_revision,
       rl_checkpoint_id = checkpoint_id, rl_checkpoint_digest = checkpoint_digest,
       rl_rollback_plan_id = rollback_plan_id, rl_rollback_plan_digest = rollback_plan_digest,
       rl_rollback_job_id = rollback_job_id,
       rl_rollback_execution_digest = rollback_execution_digest, rl_document_id = document_id,
       rl_document_revision_before = document_revision_before,
       rl_document_revision_after = document_revision_after,
       rl_removed_entities = removed_entities, rl_runtime_pins = runtime_pins,
       rl_policy_pins = policy_pins, rl_receipt_digest = receipt_digest,
       rl_created_at = created_at\<rparr> }"

lemma dump_rollback_receipt_dict [simp]: "is_dict (dump_rollback_receipt r)" "dump_rollback_receipt r \<noteq> JNull"
  by (simp_all add: dump_rollback_receipt_def)

lemma decode_dump_rollback_receipt [simp]: "decode_rollback_receipt (dump_rollback_receipt r) = Some r"
  by (cases r) (simp add: decode_rollback_receipt_def model_dict_def req_def dflt_def as_version_def jlookup_def
      jkeys_def as_enum_def dump_rollback_receipt_def ROLLBACK_RECEIPT_FIELDS_def)

definition rollback_receipt_digest :: "pylib \<Rightarrow> rollback_receipt \<Rightarrow> string option" where
  "rollback_receipt_digest L r = sha256_text L (JObj [
     (''rollback_receipt_id'', JStr (rl_rollback_receipt_id r)),
     (''original_receipt_id'', JStr (rl_original_receipt_id r)),
     (''original_receipt_digest'', JStr (rl_original_receipt_digest r)),
     (''checkpoint_id'', JStr (rl_checkpoint_id r)), (''checkpoint_digest'', JStr (rl_checkpoint_digest r)),
     (''rollback_plan_id'', JStr (rl_rollback_plan_id r)),
     (''rollback_plan_digest'', JStr (rl_rollback_plan_digest r)),
     (''rollback_execution_digest'', JStr (rl_rollback_execution_digest r)),
     (''document_id'', JStr (rl_document_id r)),
     (''document_revision_before'', JStr (rl_document_revision_before r)),
     (''document_revision_after'', JStr (rl_document_revision_after r)),
     (''removed_entities'', list_json dump_removed_entity (rl_removed_entities r)),
     (''runtime_and_policy_pins'', host_pins (rl_program_digest r) (rl_original_execution_digest r)
        (rl_document_id r) (rl_original_document_revision r) (rl_runtime_pins r) (rl_policy_pins r)),
     (''created_at'', JStr (rl_created_at r)),
     (''schema_version'', JStr ''cad.rollback.receipt/1'')])"

definition wf_rollback_receipt :: "pylib \<Rightarrow> iso_reader \<Rightarrow> rollback_receipt \<Rightarrow> bool" where
  "wf_rollback_receipt L T r \<longleftrightarrow>
     list_all public_id [rl_rollback_receipt_id r, rl_original_receipt_id r, rl_checkpoint_id r,
       rl_rollback_plan_id r, rl_rollback_job_id r, rl_document_id r]
     \<and> text_between 1 512 (rl_owner_subject r)
     \<and> list_all prefixed_sha256 [rl_original_receipt_digest r, rl_program_digest r,
       rl_original_execution_digest r, rl_checkpoint_digest r, rl_rollback_plan_digest r,
       rl_rollback_execution_digest r, rl_receipt_digest r]
     \<and> list_all revision_token [rl_original_document_revision r, rl_document_revision_before r,
       rl_document_revision_after r]
     \<and> 1 \<le> length (rl_removed_entities r) \<and> length (rl_removed_entities r) \<le> 256
     \<and> list_all (wf_removed_entity L) (rl_removed_entities r)
     \<and> wf_runtime_pins L (rl_runtime_pins r) \<and> wf_policy_pins L (rl_policy_pins r)
     \<and> valid_timestamp T (rl_created_at r) \<and> record_is_bounded L (dump_rollback_receipt r)
     \<and> distinct (map rx_handle (rl_removed_entities r))
     \<and> rollback_receipt_digest L r = Some (rl_receipt_digest r)"

section \<open>Validation\<close>

text \<open>\<open>model_validate\<close> of a dict; \<open>None\<close> is the \<open>ValidationError\<close>.\<close>

definition model_validate :: "(json \<Rightarrow> 'r option) \<Rightarrow> ('r \<Rightarrow> bool) \<Rightarrow> json \<Rightarrow> 'r option" where
  "model_validate decode ok v =
    (case decode v of None \<Rightarrow> None | Some r \<Rightarrow> if ok r then Some r else None)"

text \<open>The contract of a model: its dump is read back.\<close>

locale record_codec =
  fixes dump :: "'r \<Rightarrow> json"
    and decode :: "json \<Rightarrow> 'r option"
    and ok :: "'r \<Rightarrow> bool"
  assumes decode_dump: "decode (dump r) = Some r"
begin

lemma validate_dump: "model_validate decode ok (dump r) = (if ok r then Some r else None)"
  by (simp add: model_validate_def decode_dump)

lemma dump_inject: "dump r = dump s \<longleftrightarrow> r = s"
  using decode_dump by (metis option.inject)

lemma validated_wf: "model_validate decode ok v = Some r \<Longrightarrow> ok r"
  by (auto simp: model_validate_def split: option.splits if_splits)

end

interpretation intents: record_codec dump_intent_record decode_intent_record "wf_intent_record L T" for L T
  by unfold_locales simp
interpretation consents: record_codec dump_consent_record decode_consent_record "wf_consent_record L T" for L T
  by unfold_locales simp
interpretation evidence: record_codec dump_evidence_event decode_evidence_event "wf_evidence_event L T" for L T
  by unfold_locales simp
interpretation recoveries: record_codec dump_recovery_record decode_recovery_record "wf_recovery_record L T" for L T
  by unfold_locales simp
interpretation checkpoints: record_codec dump_checkpoint_record decode_checkpoint_record
    "wf_checkpoint_record L T" for L T
  by unfold_locales simp
interpretation plans: record_codec dump_plan_record decode_plan_record "wf_plan_record L T" for L T
  by unfold_locales simp
interpretation rollbacks: record_codec dump_rollback_receipt decode_rollback_receipt
    "wf_rollback_receipt L T" for L T
  by unfold_locales simp

lemmas validate_dumps [simp] = intents.validate_dump consents.validate_dump evidence.validate_dump
  recoveries.validate_dump checkpoints.validate_dump plans.validate_dump rollbacks.validate_dump

lemmas dumps_inject [simp] = intents.dump_inject consents.dump_inject evidence.dump_inject
  recoveries.dump_inject checkpoints.dump_inject plans.dump_inject rollbacks.dump_inject

section \<open>Domain records\<close>

datatype domain_record =
    DomainIntent intent_record
  | DomainConsent consent_record
  | DomainEvidence evidence_event
  | DomainRecovery recovery_record
  | DomainCheckpoint checkpoint_record
  | DomainPlan plan_record
  | DomainReceipt rollback_receipt

fun dump_domain :: "domain_record \<Rightarrow> json" where
  "dump_domain (DomainIntent r) = dump_intent_record r"
| "dump_domain (DomainConsent r) = dump_consent_record r"
| "dump_domain (DomainEvidence r) = dump_evidence_event r"
| "dump_domain (DomainRecovery r) = dump_recovery_record r"
| "dump_domain (DomainCheckpoint r) = dump_checkpoint_record r"
| "dump_domain (DomainPlan r) = dump_plan_record r"
| "dump_domain (DomainReceipt r) = dump_rollback_receipt r"

fun wf_domain :: "pylib \<Rightarrow> iso_reader \<Rightarrow> domain_record \<Rightarrow> bool" where
  "wf_domain L T (DomainIntent r) = wf_intent_record L T r"
| "wf_domain L T (DomainConsent r) = wf_consent_record L T r"
| "wf_domain L T (DomainEvidence r) = wf_evidence_event L T r"
| "wf_domain L T (DomainRecovery r) = wf_recovery_record L T r"
| "wf_domain L T (DomainCheckpoint r) = wf_checkpoint_record L T r"
| "wf_domain L T (DomainPlan r) = wf_plan_record L T r"
| "wf_domain L T (DomainReceipt r) = wf_rollback_receipt L T r"

text \<open>The union is discriminated by \<open>schema_version\<close>, which must be present.\<close>

definition parse_phase7_domain_record ::
  "pylib \<Rightarrow> iso_reader \<Rightarrow> json \<Rightarrow> domain_record option" where
  "parse_phase7_domain_record L T v =
    (let tag = jget v ''schema_version'' in
     if \<not> is_dict v then None
     else if tag = JStr ''cad.execution-intent/1'' then
       map_option DomainIntent (model_validate decode_intent_record (wf_intent_record L T) v)
     else if tag = JStr ''cad.consent/1'' then
       map_option DomainConsent (model_validate decode_consent_record (wf_consent_record L T) v)
     else if tag = JStr ''cad.execution-evidence/1'' then
       map_option DomainEvidence (model_validate decode_evidence_event (wf_evidence_event L T) v)
     else if tag = JStr ''cad.recovery-case/1'' then
       map_option DomainRecovery (model_validate decode_recovery_record (wf_recovery_record L T) v)
     else if tag = JStr ''cad.rollback.checkpoint/1'' then
       map_option DomainCheckpoint (model_validate decode_checkpoint_record (wf_checkpoint_record L T) v)
     else if tag = JStr ''cad.rollback.plan/1'' then
       map_option DomainPlan (model_validate decode_plan_record (wf_plan_record L T) v)
     else if tag = JStr ''cad.rollback.receipt/1'' then
       map_option DomainReceipt (model_validate decode_rollback_receipt (wf_rollback_receipt L T) v)
     else None)"

lemma dump_tags:
  "jget (dump_intent_record a) ''schema_version'' = JStr ''cad.execution-intent/1''"
  "jget (dump_consent_record b) ''schema_version'' = JStr ''cad.consent/1''"
  "jget (dump_evidence_event c) ''schema_version'' = JStr ''cad.execution-evidence/1''"
  "jget (dump_recovery_record d) ''schema_version'' = JStr ''cad.recovery-case/1''"
  "jget (dump_checkpoint_record e) ''schema_version'' = JStr ''cad.rollback.checkpoint/1''"
  "jget (dump_plan_record f) ''schema_version'' = JStr ''cad.rollback.plan/1''"
  "jget (dump_rollback_receipt g) ''schema_version'' = JStr ''cad.rollback.receipt/1''"
  by (simp_all add: jget_def jget_default_def jlookup_def dump_intent_record_def dump_consent_record_def
      dump_evidence_event_def dump_recovery_record_def dump_checkpoint_record_def dump_plan_record_def
      dump_rollback_receipt_def)

lemma parse_dump: "parse_phase7_domain_record L T (dump_domain r) = (if wf_domain L T r then Some r else None)"
  by (cases r) (simp_all add: parse_phase7_domain_record_def dump_tags)

lemma parse_cases:
  assumes "parse_phase7_domain_record L T v = Some r"
  shows "wf_domain L T r"
  using assms intents.validated_wf consents.validated_wf evidence.validated_wf recoveries.validated_wf
    checkpoints.validated_wf plans.validated_wf rollbacks.validated_wf
  by (auto simp: parse_phase7_domain_record_def Let_def split: if_splits)

lemma dump_domain_inject: "dump_domain r = dump_domain s \<longleftrightarrow> r = s"
proof -
  have "r = s" if "dump_domain r = dump_domain s"
  proof -
    have "jget (dump_domain r) ''schema_version'' = jget (dump_domain s) ''schema_version''"
      using that by simp
    then show ?thesis using that by (cases r; cases s) (simp_all add: dump_tags)
  qed
  then show ?thesis by auto
qed


end
