(* ===== verification/Phase7Tables.thy ===== *)
theory Phase7Tables
  imports ProgramStore Phase7Records
begin

text \<open>
  The tables of \<open>sqlite/phase7_repository.py\<close> and the tables of Phase 8 it reads.  They live in the field
  \<open>pt_more\<close> of the program tables; the tables of later repositories follow in \<open>t7_more\<close>.  A row holds
  the columns of its record, JSON columns as the records they decode to, so reading a row is validating
  it again (\<open>valid_row\<close>).  Rows of Phase 8 are immutable, only their insertion is not modelled here.
\<close>

section \<open>Rows\<close>

text \<open>\<open>phase8_execution_plans\<close> and \<open>phase8_previews\<close>, the columns that are read.\<close>

record plan8_row =
  e8_plan_id :: string
  e8_owner_subject :: string
  e8_program_id :: string
  e8_program_revision :: int
  e8_source_digest :: string

record preview8_row =
  v8_preview_id :: string
  v8_owner_subject :: string
  v8_plan_id :: string
  v8_job_id :: string
  v8_execution_binding_digest :: string
  v8_expires_at :: string

record intent_binding_row =
  b8_intent_id :: string
  b8_owner_subject :: string
  b8_plan_id :: string
  b8_source_digest :: string
  b8_semantic_digest :: string
  b8_plan_digest :: string
  b8_expansion_digest :: string
  b8_effect_digest :: string
  b8_target_set_digest :: string
  b8_reference_digest :: string
  b8_compiler_hash :: string
  b8_risk_class :: string
  b8_trusted_effect_summary :: json
  b8_rollout_policy_digest :: string
  b8_rollout_policy_epoch :: int
  b8_binding_digest :: string
  b8_created_at :: string

record consent_binding_row =
  w8_consent_id :: string
  w8_owner_subject :: string
  w8_intent_id :: string
  w8_binding_digest :: string
  w8_created_at :: string

record usage_row =
  u8_usage_event_id :: string
  u8_owner_subject :: string
  u8_plan_id :: string
  u8_state :: string
  u8_external_id :: string
  u8_binding_digest :: string
  u8_created_at :: string

record 'z phase7_tables =
  t7_intents :: "intent_record list"
  t7_consents :: "consent_record list"
  t7_evidence :: "evidence_event list"
  t7_recoveries :: "recovery_record list"
  t7_checkpoints :: "checkpoint_record list"
  t7_plans :: "plan_record list"
  t7_receipts :: "rollback_receipt list"
  t8_plans :: "plan8_row list"
  t8_previews :: "preview8_row list"
  t8_intent_bindings :: "intent_binding_row list"
  t8_consent_bindings :: "consent_binding_row list"
  t8_usage :: "usage_row list"
  t7_more :: 'z

type_synonym 'z phase7_db = "'z phase7_tables program_db"

abbreviation t7 :: "'z phase7_db \<Rightarrow> 'z phase7_tables" where
  "t7 db \<equiv> pt_more (st_other db)"

definition on_t7 :: "('z phase7_tables \<Rightarrow> 'z phase7_tables) \<Rightarrow> 'z phase7_db \<Rightarrow> 'z phase7_db" where
  "on_t7 f = on_tables (\<lambda>t. t\<lparr>pt_more := f (pt_more t)\<rparr>)"

lemma on_t7_simps [simp]:
  "st_jobs (on_t7 f db) = st_jobs db" "st_events (on_t7 f db) = st_events db"
  "st_snapshots (on_t7 f db) = st_snapshots db" "st_devices (on_t7 f db) = st_devices db"
  "st_sessions (on_t7 f db) = st_sessions db" "t7 (on_t7 f db) = f (t7 db)"
  "pt_locks (st_other (on_t7 f db)) = pt_locks (st_other db)"
  "pt_receipts (st_other (on_t7 f db)) = pt_receipts (st_other db)"
  "job_row_of k (on_t7 f db) = job_row_of k db" "get_job owner k (on_t7 f db) = get_job owner k db"
  by (simp_all add: on_t7_def on_tables_def job_row_of_def get_job_def)

section \<open>Validation and time\<close>

definition validated :: "(json \<Rightarrow> 'r option) \<Rightarrow> ('r \<Rightarrow> bool) \<Rightarrow> json \<Rightarrow> store_error + 'r" where
  "validated decode ok v =
    (case model_validate decode ok v of None \<Rightarrow> Inl InvalidRecord | Some r \<Rightarrow> Inr r)"

definition valid_row :: "('r \<Rightarrow> bool) \<Rightarrow> 'r option \<Rightarrow> store_error + 'r option" where
  "valid_row ok row =
    (case row of None \<Rightarrow> Inr None | Some r \<Rightarrow> if ok r then Inr (Some r) else Inl InvalidRecord)"

lemma validated_Inr: "validated decode ok v = Inr r \<longleftrightarrow> decode v = Some r \<and> ok r"
  by (auto simp: validated_def model_validate_def split: option.splits if_splits)

lemma valid_row_Inr [simp]:
  "valid_row ok row = Inr None \<longleftrightarrow> row = None"
  "valid_row ok row = Inr (Some r) \<longleftrightarrow> row = Some r \<and> ok r"
  by (auto simp: valid_row_def split: option.splits if_splits)

text \<open>\<open>_timestamp\<close>, and \<open>_timestamp(a) >= _timestamp(b)\<close>: a \<open>ValueError\<close> when a text does not parse, a
  \<open>TypeError\<close> when only one of the two has an offset.\<close>

definition instant :: "iso_reader \<Rightarrow> string \<Rightarrow> store_error + (bool \<times> rat)" where
  "instant T s = (case T s of None \<Rightarrow> Inl TimestampError | Some x \<Rightarrow> Inr x)"

definition at_or_after :: "iso_reader \<Rightarrow> string \<Rightarrow> string \<Rightarrow> store_error + bool" where
  "at_or_after T a b =
    bindE (instant T a) (\<lambda>x. bindE (instant T b) (\<lambda>y.
      if fst x \<noteq> fst y then Inl TimestampError else Inr (snd y \<le> snd x)))"

text \<open>\<open>_same\<close>: Python's \<open>==\<close> of the two dumps.\<close>

definition same_dump :: "('r \<Rightarrow> json) \<Rightarrow> 'r \<Rightarrow> 'r \<Rightarrow> bool" where
  "same_dump dump a b \<longleftrightarrow> py_eq (dump a) (dump b)"

text \<open>
  The answer to an \<open>INSERT\<close> that failed: the stored record where it is the requested one, the conflict
  otherwise.
\<close>

definition replay_or :: "string \<Rightarrow> ('r \<Rightarrow> bool) \<Rightarrow> store_error + 'r option \<Rightarrow> store_error + 'r" where
  "replay_or code same row =
    bindE row (\<lambda>existing. case existing of
       None \<Rightarrow> Inl (Conflict code)
     | Some r \<Rightarrow> if same r then Inr r else Inl (Conflict code))"

lemma replay_or_Inr [simp]:
  "replay_or code same row = Inr r \<longleftrightarrow> row = Inr (Some r) \<and> same r"
  by (cases row) (auto simp: replay_or_def split: option.splits if_splits)

section \<open>Lookups\<close>

definition find_intent ::
  "pylib \<Rightarrow> iso_reader \<Rightarrow> string \<Rightarrow> string \<Rightarrow> 'z phase7_tables \<Rightarrow> store_error + intent_record option" where
  "find_intent L T owner key t = valid_row (wf_intent_record L T)
     (select1 (\<lambda>r. xi_owner_subject r = owner \<and> xi_intent_id r = key) (t7_intents t))"

definition find_consent ::
  "pylib \<Rightarrow> iso_reader \<Rightarrow> string \<Rightarrow> string \<Rightarrow> 'z phase7_tables \<Rightarrow> store_error + consent_record option" where
  "find_consent L T owner key t = valid_row (wf_consent_record L T)
     (select1 (\<lambda>r. cs_owner_subject r = owner \<and> cs_consent_id r = key) (t7_consents t))"

definition find_recovery ::
  "pylib \<Rightarrow> iso_reader \<Rightarrow> string \<Rightarrow> string \<Rightarrow> 'z phase7_tables \<Rightarrow> store_error + recovery_record option" where
  "find_recovery L T owner key t = valid_row (wf_recovery_record L T)
     (select1 (\<lambda>r. rk_owner_subject r = owner \<and> rk_case_id r = key) (t7_recoveries t))"

definition find_checkpoint ::
  "pylib \<Rightarrow> iso_reader \<Rightarrow> string \<Rightarrow> string \<Rightarrow> 'z phase7_tables \<Rightarrow> store_error + checkpoint_record option" where
  "find_checkpoint L T owner key t = valid_row (wf_checkpoint_record L T)
     (select1 (\<lambda>r. ck_owner_subject r = owner \<and> ck_checkpoint_id r = key) (t7_checkpoints t))"

definition find_plan ::
  "pylib \<Rightarrow> iso_reader \<Rightarrow> string \<Rightarrow> string \<Rightarrow> 'z phase7_tables \<Rightarrow> store_error + plan_record option" where
  "find_plan L T owner key t = valid_row (wf_plan_record L T)
     (select1 (\<lambda>r. rp_owner_subject r = owner \<and> rp_plan_id r = key) (t7_plans t))"

definition find_rollback_receipt ::
  "pylib \<Rightarrow> iso_reader \<Rightarrow> string \<Rightarrow> string \<Rightarrow> 'z phase7_tables \<Rightarrow> store_error + rollback_receipt option" where
  "find_rollback_receipt L T owner key t = valid_row (wf_rollback_receipt L T)
     (select1 (\<lambda>r. rl_owner_subject r = owner \<and> rl_rollback_receipt_id r = key) (t7_receipts t))"

definition find_evidence ::
  "pylib \<Rightarrow> iso_reader \<Rightarrow> string \<Rightarrow> string \<Rightarrow> 'z phase7_tables \<Rightarrow> store_error + evidence_event option" where
  "find_evidence L T owner key t = valid_row (wf_evidence_event L T)
     (select1 (\<lambda>r. xe_owner_subject r = owner \<and> xe_event_id r = key) (t7_evidence t))"

text \<open>The rows the unique keys of a record collide with.\<close>

definition intent_clash :: "intent_record \<Rightarrow> intent_record \<Rightarrow> bool" where
  "intent_clash q r \<longleftrightarrow> xi_intent_id r = xi_intent_id q
     \<or> xi_owner_subject r = xi_owner_subject q \<and> xi_idempotency_key r = xi_idempotency_key q
     \<or> xi_owner_subject r = xi_owner_subject q \<and> xi_intent_digest r = xi_intent_digest q"

definition consent_clash :: "consent_record \<Rightarrow> consent_record \<Rightarrow> bool" where
  "consent_clash q r \<longleftrightarrow> cs_consent_id r = cs_consent_id q
     \<or> cs_intent_id r = cs_intent_id q \<and> cs_intent_version r = cs_intent_version q
       \<and> cs_required_assurance r = cs_required_assurance q"

definition evidence_clash :: "evidence_event \<Rightarrow> evidence_event \<Rightarrow> bool" where
  "evidence_clash q r \<longleftrightarrow> xe_event_id r = xe_event_id q
     \<or> xe_job_id r = xe_job_id q \<and> xe_source r = xe_source q
       \<and> xe_source_sequence r = xe_source_sequence q"

definition checkpoint_clash :: "checkpoint_record \<Rightarrow> checkpoint_record \<Rightarrow> bool" where
  "checkpoint_clash q r \<longleftrightarrow> ck_checkpoint_id r = ck_checkpoint_id q
     \<or> ck_original_receipt_id r = ck_original_receipt_id q
     \<or> ck_checkpoint_digest r = ck_checkpoint_digest q"

definition plan_clash :: "plan_record \<Rightarrow> plan_record \<Rightarrow> bool" where
  "plan_clash q r \<longleftrightarrow> rp_plan_id r = rp_plan_id q \<or> rp_plan_digest r = rp_plan_digest q
     \<or> rp_rollback_execution_digest r = rp_rollback_execution_digest q
     \<or> rp_checkpoint_id r = rp_checkpoint_id q
       \<and> rp_current_document_revision r = rp_current_document_revision q"

definition receipt_clash :: "rollback_receipt \<Rightarrow> rollback_receipt \<Rightarrow> bool" where
  "receipt_clash q r \<longleftrightarrow> rl_rollback_receipt_id r = rl_rollback_receipt_id q
     \<or> rl_rollback_plan_id r = rl_rollback_plan_id q \<or> rl_rollback_job_id r = rl_rollback_job_id q
     \<or> rl_rollback_execution_digest r = rl_rollback_execution_digest q
     \<or> rl_receipt_digest r = rl_receipt_digest q"

text \<open>The selections by these keys, read back.\<close>

definition intent_conflict_row ::
  "pylib \<Rightarrow> iso_reader \<Rightarrow> intent_record \<Rightarrow> 'z phase7_tables \<Rightarrow> store_error + intent_record option" where
  "intent_conflict_row L T q t =
    valid_row (wf_intent_record L T) (select1 (intent_clash q) (t7_intents t))"

definition consent_conflict_row ::
  "pylib \<Rightarrow> iso_reader \<Rightarrow> consent_record \<Rightarrow> 'z phase7_tables \<Rightarrow> store_error + consent_record option" where
  "consent_conflict_row L T q t =
    valid_row (wf_consent_record L T) (select1 (consent_clash q) (t7_consents t))"

definition evidence_conflict_row ::
  "pylib \<Rightarrow> iso_reader \<Rightarrow> evidence_event \<Rightarrow> 'z phase7_tables \<Rightarrow> store_error + evidence_event option" where
  "evidence_conflict_row L T q t =
    valid_row (wf_evidence_event L T) (select1 (evidence_clash q) (t7_evidence t))"

definition checkpoint_conflict_row ::
  "pylib \<Rightarrow> iso_reader \<Rightarrow> checkpoint_record \<Rightarrow> 'z phase7_tables \<Rightarrow> store_error + checkpoint_record option" where
  "checkpoint_conflict_row L T q t =
    valid_row (wf_checkpoint_record L T) (select1 (checkpoint_clash q) (t7_checkpoints t))"

definition plan_conflict_row ::
  "pylib \<Rightarrow> iso_reader \<Rightarrow> plan_record \<Rightarrow> 'z phase7_tables \<Rightarrow> store_error + plan_record option" where
  "plan_conflict_row L T q t = valid_row (wf_plan_record L T) (select1 (plan_clash q) (t7_plans t))"

definition rollback_receipt_conflict_row ::
  "pylib \<Rightarrow> iso_reader \<Rightarrow> rollback_receipt \<Rightarrow> 'z phase7_tables \<Rightarrow> store_error + rollback_receipt option" where
  "rollback_receipt_conflict_row L T q t =
    valid_row (wf_rollback_receipt L T) (select1 (receipt_clash q) (t7_receipts t))"

section \<open>Lists\<close>

text \<open>\<open>_limit\<close>, and \<open>ORDER BY stamp DESC, key LIMIT n\<close> of the owner's rows.\<close>

definition check_limit :: "nat \<Rightarrow> json \<Rightarrow> store_error + nat" where
  "check_limit maximum limit = (case limit of
     JInt n \<Rightarrow> if 1 \<le> n \<and> n \<le> int maximum then Inr (nat n) else Inl (Conflict ''limit_invalid'')
   | _ \<Rightarrow> Inl (Conflict ''limit_invalid''))"

definition newest_first :: "('r \<Rightarrow> string) \<Rightarrow> ('r \<Rightarrow> string) \<Rightarrow> 'r list \<Rightarrow> 'r list" where
  "newest_first stamp key rows = rev (sort_key stamp (rev (sort_key key rows)))"

definition list_rows ::
  "('r \<Rightarrow> bool) \<Rightarrow> ('r \<Rightarrow> string) \<Rightarrow> ('r \<Rightarrow> string) \<Rightarrow> ('r \<Rightarrow> string) \<Rightarrow> string \<Rightarrow> json \<Rightarrow> 'r list \<Rightarrow>
   store_error + 'r list" where
  "list_rows ok owner_of stamp key owner limit rows =
    bindE (check_limit 100 limit) (\<lambda>n.
    mapE (\<lambda>r. if ok r then Inr r else Inl InvalidRecord)
      (take n (newest_first stamp key (filter (\<lambda>r. owner_of r = owner) rows))))"

definition list_intents ::
  "pylib \<Rightarrow> iso_reader \<Rightarrow> string \<Rightarrow> json \<Rightarrow> 'z phase7_db \<Rightarrow> store_error + intent_record list" where
  "list_intents L T owner limit db = list_rows (wf_intent_record L T) xi_owner_subject xi_created_at
     xi_intent_id owner limit (t7_intents (t7 db))"

definition list_consents ::
  "pylib \<Rightarrow> iso_reader \<Rightarrow> string \<Rightarrow> json \<Rightarrow> 'z phase7_db \<Rightarrow> store_error + consent_record list" where
  "list_consents L T owner limit db = list_rows (wf_consent_record L T) cs_owner_subject
     cs_requested_at cs_consent_id owner limit (t7_consents (t7 db))"

definition list_recovery_cases ::
  "pylib \<Rightarrow> iso_reader \<Rightarrow> string \<Rightarrow> json \<Rightarrow> 'z phase7_db \<Rightarrow> store_error + recovery_record list" where
  "list_recovery_cases L T owner limit db = list_rows (wf_recovery_record L T) rk_owner_subject
     rk_updated_at rk_case_id owner limit (t7_recoveries (t7 db))"

definition list_checkpoints ::
  "pylib \<Rightarrow> iso_reader \<Rightarrow> string \<Rightarrow> json \<Rightarrow> 'z phase7_db \<Rightarrow> store_error + checkpoint_record list" where
  "list_checkpoints L T owner limit db = list_rows (wf_checkpoint_record L T) ck_owner_subject
     ck_created_at ck_checkpoint_id owner limit (t7_checkpoints (t7 db))"

definition list_rollback_plans ::
  "pylib \<Rightarrow> iso_reader \<Rightarrow> string \<Rightarrow> json \<Rightarrow> 'z phase7_db \<Rightarrow> store_error + plan_record list" where
  "list_rollback_plans L T owner limit db = list_rows (wf_plan_record L T) rp_owner_subject
     rp_created_at rp_plan_id owner limit (t7_plans (t7 db))"

definition list_rollback_receipts ::
  "pylib \<Rightarrow> iso_reader \<Rightarrow> string \<Rightarrow> json \<Rightarrow> 'z phase7_db \<Rightarrow> store_error + rollback_receipt list" where
  "list_rollback_receipts L T owner limit db = list_rows (wf_rollback_receipt L T) rl_owner_subject
     rl_created_at rl_rollback_receipt_id owner limit (t7_receipts (t7 db))"

text \<open>\<open>ORDER BY gateway_received_at, source, source_sequence\<close>.\<close>

definition list_evidence ::
  "pylib \<Rightarrow> iso_reader \<Rightarrow> string \<Rightarrow> string \<Rightarrow> json \<Rightarrow> 'z phase7_db \<Rightarrow> store_error + evidence_event list" where
  "list_evidence L T owner job_id limit db =
    bindE (check_limit 256 limit) (\<lambda>n.
    mapE (\<lambda>r. if wf_evidence_event L T r then Inr r else Inl InvalidRecord)
      (take n (sort_key xe_gateway_received_at (sort_key (\<lambda>r. evidence_source_name (xe_source r))
        (sort_key xe_source_sequence
          (filter (\<lambda>r. xe_owner_subject r = owner \<and> xe_job_id r = job_id) (t7_evidence (t7 db))))))))"

definition get_intent ::
  "pylib \<Rightarrow> iso_reader \<Rightarrow> string \<Rightarrow> string \<Rightarrow> 'z phase7_db \<Rightarrow> store_error + intent_record option" where
  "get_intent L T owner key db = find_intent L T owner key (t7 db)"

definition get_consent ::
  "pylib \<Rightarrow> iso_reader \<Rightarrow> string \<Rightarrow> string \<Rightarrow> 'z phase7_db \<Rightarrow> store_error + consent_record option" where
  "get_consent L T owner key db = find_consent L T owner key (t7 db)"

definition get_evidence ::
  "pylib \<Rightarrow> iso_reader \<Rightarrow> string \<Rightarrow> string \<Rightarrow> 'z phase7_db \<Rightarrow> store_error + evidence_event option" where
  "get_evidence L T owner key db = find_evidence L T owner key (t7 db)"

definition get_recovery_case ::
  "pylib \<Rightarrow> iso_reader \<Rightarrow> string \<Rightarrow> string \<Rightarrow> 'z phase7_db \<Rightarrow> store_error + recovery_record option" where
  "get_recovery_case L T owner key db = find_recovery L T owner key (t7 db)"

definition get_checkpoint ::
  "pylib \<Rightarrow> iso_reader \<Rightarrow> string \<Rightarrow> string \<Rightarrow> 'z phase7_db \<Rightarrow> store_error + checkpoint_record option" where
  "get_checkpoint L T owner key db = find_checkpoint L T owner key (t7 db)"

definition get_rollback_plan ::
  "pylib \<Rightarrow> iso_reader \<Rightarrow> string \<Rightarrow> string \<Rightarrow> 'z phase7_db \<Rightarrow> store_error + plan_record option" where
  "get_rollback_plan L T owner key db = find_plan L T owner key (t7 db)"

definition get_rollback_receipt ::
  "pylib \<Rightarrow> iso_reader \<Rightarrow> string \<Rightarrow> string \<Rightarrow> 'z phase7_db \<Rightarrow> store_error + rollback_receipt option" where
  "get_rollback_receipt L T owner key db = find_rollback_receipt L T owner key (t7 db)"

end
