(* ===== verification/Phase7Store.thy ===== *)
theory Phase7Store
  imports Phase7Tables
begin

text \<open>
  The operations of \<open>Phase7Repository\<close>: creating and moving intents and consents, releasing an intent,
  which creates its job in the same transaction, appending evidence, opening and resolving recovery
  cases, and the checkpoints, plans and receipts of a rollback.
\<close>

section \<open>Intents\<close>

text \<open>\<open>_INTENT_TRANSITIONS\<close> and \<open>_CONSENT_TRANSITIONS\<close>.\<close>

fun intent_transitions :: "intent_state \<Rightarrow> intent_state list" where
  "intent_transitions AwaitingApproval = [Ready, IntentDenied, IntentExpired, IntentInvalidated, IntentCancelled]"
| "intent_transitions Ready = [IntentDenied, IntentExpired, IntentInvalidated, IntentCancelled]"
| "intent_transitions _ = []"

fun consent_transitions :: "consent_state \<Rightarrow> consent_state list" where
  "consent_transitions Requested = [Approved, ConsentDenied, ConsentExpired, ConsentInvalidated]"
| "consent_transitions Approved = [ConsentExpired, ConsentInvalidated]"
| "consent_transitions _ = []"

text \<open>\<open>_require_intent_parents\<close>: the device, and the preview in the old or in the Phase 8 tables.\<close>

definition legacy_preview_exists :: "intent_record \<Rightarrow> 'z phase7_db \<Rightarrow> bool" where
  "legacy_preview_exists q db \<longleftrightarrow>
     select1 (\<lambda>r. rv_owner_subject r = xi_owner_subject q \<and> rv_program_id r = xi_program_id q
        \<and> rv_revision r = xi_program_revision q \<and> rv_program_digest r = xi_program_digest q)
       (pt_revisions (st_other db)) \<noteq> None
     \<and> select1 (\<lambda>r. pv_owner_subject r = xi_owner_subject q \<and> pv_preview_id r = xi_preview_id q
        \<and> pv_program_id r = xi_program_id q \<and> pv_program_revision r = xi_program_revision q
        \<and> pv_preview_digest r = xi_preview_digest q
        \<and> pv_execution_digest r = xi_preview_execution_digest q) (pt_previews (st_other db)) \<noteq> None"

definition phase8_preview_of ::
  "intent_record \<Rightarrow> 'z phase7_db \<Rightarrow> (plan8_row \<times> preview8_row \<times> job_row) option" where
  "phase8_preview_of q db =
    (case select1 (\<lambda>v. v8_owner_subject v = xi_owner_subject q \<and> v8_preview_id v = xi_preview_id q)
            (t8_previews (t7 db)) of
       None \<Rightarrow> None
     | Some v \<Rightarrow>
         (case select1 (\<lambda>p. e8_owner_subject p = xi_owner_subject q \<and> e8_program_id p = xi_program_id q
                  \<and> e8_program_revision p = xi_program_revision q \<and> e8_plan_id p = v8_plan_id v)
                 (t8_plans (t7 db)) of
            None \<Rightarrow> None
          | Some p \<Rightarrow> map_option (\<lambda>j. (p, v, j)) (get_job (v8_owner_subject v) (v8_job_id v) db)))"

definition phase8_preview_matches :: "intent_record \<Rightarrow> 'z phase7_db \<Rightarrow> store_error + bool" where
  "phase8_preview_matches q db =
    (case phase8_preview_of q db of
       None \<Rightarrow> Inr False
     | Some (p, v, j) \<Rightarrow>
         if e8_source_digest p = xi_program_digest q
           \<and> v8_execution_binding_digest v = xi_preview_execution_digest q
           \<and> v8_expires_at v = xi_preview_expires_at q \<and> jb_device_id j = xi_device_id q
           \<and> jb_kind j = ''program_preview'' \<and> jb_effect_class j = WriteEffect
           \<and> jb_state j = Succeeded
         then (case jb_result j of
             None \<Rightarrow> Inr False
           | Some result \<Rightarrow>
               if is_dict result then Inr (jget result ''preview_digest'' = JStr (xi_preview_digest q))
               else Inl AttributeError)
         else Inr False)"

definition require_intent_parents :: "intent_record \<Rightarrow> 'z phase7_db \<Rightarrow> store_error + unit" where
  "require_intent_parents q db =
    bindE (phase8_preview_matches q db) (\<lambda>phase8_matches.
    guard (select1 (\<lambda>d. dv_owner_subject d = xi_owner_subject q \<and> dv_device_id d = xi_device_id q)
             (st_devices db) \<noteq> None
           \<and> (legacy_preview_exists q db \<or> phase8_matches)) ''not_found'')"

definition same_intent_request :: "intent_record \<Rightarrow> intent_record \<Rightarrow> bool" where
  "same_intent_request q r \<longleftrightarrow> xi_intent_id r = xi_intent_id q
     \<and> xi_owner_subject r = xi_owner_subject q \<and> xi_idempotency_key r = xi_idempotency_key q
     \<and> xi_request_hash r = xi_request_hash q \<and> xi_intent_digest r = xi_intent_digest q"

text \<open>\<open>consents(consent_id)\<close> as the target of a foreign key.\<close>

definition consent_exists :: "string option \<Rightarrow> 'z phase7_tables \<Rightarrow> bool" where
  "consent_exists c t \<longleftrightarrow>
     opt_ok (\<lambda>k. select1 (\<lambda>r. cs_consent_id r = k) (t7_consents t) \<noteq> None) c"

text \<open>The boolean of a creation says that the record already existed.\<close>

definition create_intent ::
  "pylib \<Rightarrow> iso_reader \<Rightarrow> json \<Rightarrow> 'z phase7_db \<Rightarrow>
   store_error + ((intent_record \<times> bool) \<times> 'z phase7_db)" where
  "create_intent L T v db =
    bindE (validated decode_intent_record (wf_intent_record L T) v) (\<lambda>q.
    bindE (guard (xi_state q \<in> {AwaitingApproval, Ready} \<and> xi_state_version q = 0)
             ''intent_initial_state_invalid'') (\<lambda>_.
    bindE (guard ((xi_required_assurance q = NoAssurance) = (xi_state q = Ready))
             ''intent_initial_state_invalid'') (\<lambda>_.
    bindE (require_intent_parents q db) (\<lambda>_.
    if select1 (intent_clash q) (t7_intents (t7 db)) \<noteq> None
       \<or> \<not> consent_exists (xi_consent_id q) (t7 db)
    then bindE (replay_or ''intent_conflict'' (same_intent_request q)
                  (intent_conflict_row L T q (t7 db))) (\<lambda>r. Inr ((r, True), db))
    else Inr ((q, False), on_t7 (\<lambda>t. t\<lparr>t7_intents := t7_intents t @ [q]\<rparr>) db)))))"

text \<open>The row read back after an update, in the same transaction.\<close>

definition reread :: "store_error + 'r option \<Rightarrow> 'd \<Rightarrow> store_error + ('r option \<times> 'd)" where
  "reread row db = bindE row (\<lambda>r. Inr (r, db))"

definition update_intent ::
  "string \<Rightarrow> string \<Rightarrow> int \<Rightarrow> (intent_record \<Rightarrow> intent_record) \<Rightarrow> 'z phase7_db \<Rightarrow>
   store_error + 'z phase7_db" where
  "update_intent owner key version f db =
    (let target = (\<lambda>r. xi_owner_subject r = owner \<and> xi_intent_id r = key \<and> xi_state_version r = version)
     in if count_where target (t7_intents (t7 db)) \<noteq> 1 then Inl (Conflict ''cas_conflict'')
        else Inr (on_t7 (\<lambda>t. t\<lparr>t7_intents := update_where target f (t7_intents t)\<rparr>) db))"

definition consent_approves :: "intent_record \<Rightarrow> consent_record \<Rightarrow> bool" where
  "consent_approves r c \<longleftrightarrow> cs_state c = Approved \<and> cs_intent_version c = xi_intent_version r
     \<and> cs_intent_digest c = xi_intent_digest r \<and> cs_required_assurance c = xi_required_assurance r"

definition ready_allowed :: "intent_record \<Rightarrow> consent_record option \<Rightarrow> store_error + unit" where
  "ready_allowed r consent =
    (if xi_required_assurance r = NoAssurance then guard (consent = None) ''consent_binding_mismatch''
     else guard (case consent of None \<Rightarrow> False | Some c \<Rightarrow> consent_approves r c) ''consent_not_approved'')"

record intent_change =
  ic_owner_subject :: string
  ic_intent_id :: string
  ic_target :: string
  ic_expected_version :: int
  ic_consent_id :: "string option"
  ic_transition_at :: "string option"

definition intent_expiry :: "iso_reader \<Rightarrow> intent_change \<Rightarrow> intent_record \<Rightarrow> store_error + unit" where
  "intent_expiry T c r =
    (if ic_target c \<noteq> ''expired'' then Inr ()
     else case ic_transition_at c of
       None \<Rightarrow> Inl (Conflict ''transition_timestamp_required'')
     | Some now \<Rightarrow> bindE (at_or_after T now (xi_expires_at r)) (\<lambda>b. guard b ''intent_not_expired''))"

definition change_consent ::
  "pylib \<Rightarrow> iso_reader \<Rightarrow> intent_change \<Rightarrow> 'z phase7_tables \<Rightarrow> store_error + consent_record option" where
  "change_consent L T c t =
    (case ic_consent_id c of
       None \<Rightarrow> Inr None
     | Some k \<Rightarrow>
         bindE (find_consent L T (ic_owner_subject c) k t) (\<lambda>consent.
         bindE (guard (case consent of None \<Rightarrow> False | Some x \<Rightarrow> cs_intent_id x = ic_intent_id c)
                  ''consent_binding_mismatch'') (\<lambda>_. Inr consent)))"

definition moved_intent :: "intent_change \<Rightarrow> intent_record \<Rightarrow> intent_record" where
  "moved_intent c r = r\<lparr>xi_state := the (map_of INTENT_STATES (ic_target c)),
     xi_state_version := xi_state_version r + 1,
     xi_consent_id := coalesce (xi_consent_id r) (ic_consent_id c)\<rparr>"

definition transition_intent ::
  "pylib \<Rightarrow> iso_reader \<Rightarrow> intent_change \<Rightarrow> 'z phase7_db \<Rightarrow>
   store_error + (intent_record option \<times> 'z phase7_db)" where
  "transition_intent L T c db =
    bindE (guard (ic_target c \<noteq> ''released'') ''release_binding_required'') (\<lambda>_.
    bindE (case ic_transition_at c of None \<Rightarrow> Inr () | Some s \<Rightarrow> bindE (instant T s) (\<lambda>_. Inr ())) (\<lambda>_.
    bindE (find_intent L T (ic_owner_subject c) (ic_intent_id c) (t7 db)) (\<lambda>current.
    case current of
      None \<Rightarrow> Inr (None, db)
    | Some r \<Rightarrow>
        if intent_state_name (xi_state r) = ic_target c then
          bindE (guard (ic_consent_id c = None \<or> xi_consent_id r = ic_consent_id c)
                   ''intent_transition_conflict'') (\<lambda>_. Inr (Some r, db))
        else
          bindE (guard (ic_target c \<in> set (map intent_state_name (intent_transitions (xi_state r))))
                   ''invalid_intent_transition'') (\<lambda>_.
          bindE (guard (xi_state_version r = ic_expected_version c) ''cas_conflict'') (\<lambda>_.
          bindE (intent_expiry T c r) (\<lambda>_.
          bindE (change_consent L T c (t7 db)) (\<lambda>consent.
          bindE (if ic_target c = ''ready'' then ready_allowed r consent else Inr ()) (\<lambda>_.
          bindE (update_intent (ic_owner_subject c) (ic_intent_id c) (ic_expected_version c)
                   (moved_intent c) db) (\<lambda>db1.
          reread (find_intent L T (ic_owner_subject c) (ic_intent_id c) (t7 db1)) db1))))))))) "

section \<open>The payload of a release\<close>

text \<open>\<open>_require_job_binding\<close>: the payload of the job is the one the intent was digested for.\<close>

definition texts_match :: "json \<Rightarrow> (string \<times> string) list \<Rightarrow> bool" where
  "texts_match v expected \<longleftrightarrow> list_all (\<lambda>(k, s). jget v k = JStr s) expected"

definition rollback_job_bound :: "intent_record \<Rightarrow> json \<Rightarrow> bool" where
  "rollback_job_bound r payload \<longleftrightarrow>
     texts_match payload [(''kind'', ''rollback_commit''), (''effect_class'', ''write''),
       (''intent_id'', xi_intent_id r), (''intent_digest'', xi_intent_digest r)]
     \<and> is_dict (jget payload ''binding'')
     \<and> texts_match (jget payload ''binding'') [(''program_digest'', xi_program_digest r),
       (''execution_digest'', xi_commit_execution_digest r), (''document_id'', xi_document_id r),
       (''document_revision'', xi_expected_document_revision r)]
     \<and> is_dict (jget payload ''arguments'')
     \<and> texts_match (jget payload ''arguments'') [(''rollback_receipt_id'', xi_deterministic_receipt_id r)]"

definition EXECUTION_PAYLOAD_KEYS :: "string list" where
  "EXECUTION_PAYLOAD_KEYS = [''binding'', ''execution_plan'', ''approval_binding'', ''capability_evidence'',
     ''preview_id'', ''expires_at'', ''preview_digest'', ''receipt_id'']"

definition execution_job_bound :: "intent_record \<Rightarrow> json \<Rightarrow> bool" where
  "execution_job_bound r payload \<longleftrightarrow>
     (let binding = jget payload ''binding''; approval = jget payload ''approval_binding'' in
      keys_are payload EXECUTION_PAYLOAD_KEYS \<and> is_dict approval
      \<and> texts_match approval [(''intent_id'', xi_intent_id r), (''intent_digest'', xi_intent_digest r)]
      \<and> texts_match binding [(''action'', ''commit''), (''source_program_id'', xi_program_id r)]
      \<and> py_eq (jget binding ''source_program_revision'') (JInt (xi_program_revision r))
      \<and> texts_match binding [(''source_digest'', xi_program_digest r), (''device_id'', xi_device_id r),
          (''document_id'', xi_document_id r),
          (''document_revision'', xi_expected_document_revision r), (''preview_id'', xi_preview_id r),
          (''preview_expires_at'', xi_preview_expires_at r),
          (''receipt_id'', xi_deterministic_receipt_id r),
          (''execution_binding_digest'', xi_commit_execution_digest r)]
      \<and> texts_match payload [(''preview_id'', xi_preview_id r), (''expires_at'', xi_preview_expires_at r),
          (''preview_digest'', xi_preview_digest r), (''receipt_id'', xi_deterministic_receipt_id r)])"

definition legacy_job_bound :: "intent_record \<Rightarrow> json \<Rightarrow> bool" where
  "legacy_job_bound r payload \<longleftrightarrow> is_dict (jget payload ''execution'')
     \<and> texts_match (jget payload ''execution'') [(''intent_id'', xi_intent_id r),
         (''intent_digest'', xi_intent_digest r), (''program_digest'', xi_program_digest r),
         (''execution_digest'', xi_commit_execution_digest r), (''document_id'', xi_document_id r),
         (''expected_document_revision'', xi_expected_document_revision r),
         (''preview_id'', xi_preview_id r), (''preview_digest'', xi_preview_digest r),
         (''receipt_id'', xi_deterministic_receipt_id r)]"

definition require_job_binding :: "intent_record \<Rightarrow> json \<Rightarrow> store_error + unit" where
  "require_job_binding r payload = guard
     (if xi_action r = RollbackCommit then rollback_job_bound r payload
      else if uses_wire_hash payload then execution_job_bound r payload
      else legacy_job_bound r payload) ''job_binding_mismatch''"

text \<open>\<open>_require_phase8_release_binding\<close>.\<close>

definition claims_phase8 :: "json \<Rightarrow> bool" where
  "claims_phase8 payload \<longleftrightarrow> uses_wire_hash payload
     \<or> is_dict (jget payload ''execution'')
       \<and> (\<exists>k \<in> {''phase8_binding_digest'', ''plan_digest'', ''effect_digest''}.
            k \<in> set (jkeys (jget payload ''execution'')))"

definition legacy_binding_matches :: "intent_binding_row \<Rightarrow> json \<Rightarrow> bool" where
  "legacy_binding_matches b payload \<longleftrightarrow>
     (let execution = jget payload ''execution'' in is_dict execution
      \<and> texts_match execution [(''source_digest'', b8_source_digest b),
          (''semantic_digest'', b8_semantic_digest b), (''plan_digest'', b8_plan_digest b),
          (''expansion_digest'', b8_expansion_digest b), (''effect_digest'', b8_effect_digest b),
          (''target_set_digest'', b8_target_set_digest b), (''reference_digest'', b8_reference_digest b),
          (''compiler_hash'', b8_compiler_hash b), (''risk_class'', b8_risk_class b)]
      \<and> py_eq (jget execution ''trusted_effect_summary'') (b8_trusted_effect_summary b)
      \<and> texts_match execution [(''rollout_policy_digest'', b8_rollout_policy_digest b)]
      \<and> py_eq (jget execution ''rollout_policy_epoch'') (JInt (b8_rollout_policy_epoch b))
      \<and> texts_match execution [(''phase8_binding_digest'', b8_binding_digest b)])"

definition plan_matches :: "intent_binding_row \<Rightarrow> json \<Rightarrow> store_error + bool" where
  "plan_matches b plan =
    (if \<not> texts_match plan [(''source_digest'', b8_source_digest b),
          (''execution_plan_digest'', b8_plan_digest b), (''expansion_digest'', b8_expansion_digest b),
          (''effect_manifest_digest'', b8_effect_digest b), (''target_refs_digest'', b8_target_set_digest b)]
     then Inr False
     else let compiler = jget_default plan ''compiler'' (JObj []) in
       if is_dict compiler then Inr (jget compiler ''compiler_package_hash'' = JStr (b8_compiler_hash b))
       else Inl AttributeError)"

definition opt_text :: "string option \<Rightarrow> json" where
  "opt_text = opt_json JStr"

definition execution_binding_matches ::
  "intent_record \<Rightarrow> string option \<Rightarrow> intent_binding_row \<Rightarrow> json \<Rightarrow> store_error + bool" where
  "execution_binding_matches r consent_id b payload =
    (let plan = jget payload ''execution_plan''; binding = jget payload ''binding'';
         approval = jget payload ''approval_binding''
     in if \<not> (is_dict plan \<and> is_dict binding \<and> is_dict approval) then Inr False
        else bindE (plan_matches b plan) (\<lambda>ok. Inr (ok
          \<and> texts_match binding [(''source_digest'', b8_source_digest b),
              (''execution_plan_digest'', b8_plan_digest b)]
          \<and> texts_match approval [(''intent_id'', xi_intent_id r), (''intent_digest'', xi_intent_digest r)]
          \<and> jget approval ''consent_id'' = opt_text consent_id)))"

definition intent_binding :: "string \<Rightarrow> string \<Rightarrow> 'z phase7_tables \<Rightarrow> intent_binding_row option" where
  "intent_binding owner intent_id t =
    select1 (\<lambda>b. b8_owner_subject b = owner \<and> b8_intent_id b = intent_id) (t8_intent_bindings t)"

definition require_phase8_release_binding ::
  "intent_record \<Rightarrow> string option \<Rightarrow> json \<Rightarrow> 'z phase7_tables \<Rightarrow> store_error + unit" where
  "require_phase8_release_binding r consent_id payload t =
    (case intent_binding (xi_owner_subject r) (xi_intent_id r) t of
       None \<Rightarrow> guard (\<not> claims_phase8 payload) ''job_binding_mismatch''
     | Some b \<Rightarrow>
         bindE (if legacy_binding_matches b payload then Inr True
                else execution_binding_matches r consent_id b payload) (\<lambda>matches.
         bindE (guard matches ''job_binding_mismatch'') (\<lambda>_.
         if xi_required_assurance r = NoAssurance
         then guard (consent_id = None) ''consent_binding_mismatch''
         else guard (case select1 (\<lambda>w. w8_owner_subject w = xi_owner_subject r
                        \<and> Some (w8_consent_id w) = consent_id \<and> w8_intent_id w = xi_intent_id r)
                        (t8_consent_bindings t) of
                None \<Rightarrow> False | Some w \<Rightarrow> w8_binding_digest w = b8_binding_digest b)
                ''consent_binding_mismatch'')))"

text \<open>\<open>_record_phase8_release_usage\<close>; the fresh identifier is a parameter.\<close>

definition record_phase8_release_usage ::
  "string \<Rightarrow> string \<Rightarrow> string \<Rightarrow> string \<Rightarrow> string \<Rightarrow> 'z phase7_db \<Rightarrow> store_error + 'z phase7_db" where
  "record_phase8_release_usage usage_id owner intent_id job_id created_at db =
    (case intent_binding owner intent_id (t7 db) of
       None \<Rightarrow> Inr db
     | Some b \<Rightarrow>
         (case select1 (\<lambda>u. u8_plan_id u = b8_plan_id b \<and> u8_state u = ''released''
                  \<and> u8_external_id u = job_id) (t8_usage (t7 db)) of
            Some u \<Rightarrow> bindE (guard (u8_owner_subject u = owner
                  \<and> u8_binding_digest u = b8_binding_digest b) ''usage_event_conflict'') (\<lambda>_. Inr db)
          | None \<Rightarrow>
              if select1 (\<lambda>u. u8_usage_event_id u = usage_id) (t8_usage (t7 db)) \<noteq> None
              then Inl IntegrityError
              else Inr (on_t7 (\<lambda>t. t\<lparr>t8_usage := t8_usage t @
                [\<lparr>u8_usage_event_id = usage_id, u8_owner_subject = owner, u8_plan_id = b8_plan_id b,
                  u8_state = ''released'', u8_external_id = job_id,
                  u8_binding_digest = b8_binding_digest b, u8_created_at = created_at\<rparr>]\<rparr>) db)))"

section \<open>Releasing an intent\<close>

record release_request =
  wl_owner_subject :: string
  wl_intent_id :: string
  wl_job_id :: string
  wl_command_id :: string
  wl_idempotency_key :: string
  wl_payload_hash :: string
  wl_payload :: json
  wl_deadline_at :: string
  wl_kind :: string
  wl_expected_intent_version :: int
  wl_consumed_at :: string
  wl_consent_id :: "string option"
  wl_expected_consent_version :: "int option"

definition job_token :: "string \<Rightarrow> bool" where
  "job_token s \<longleftrightarrow> s \<noteq> [] \<and> py_len s \<le> 256 \<and> \<not> contains_any whitespace s"

definition job_payload_json :: "pylib \<Rightarrow> json \<Rightarrow> store_error + string" where
  "job_payload_json L payload =
    bindE (conflict_on_error ''job_payload_invalid'' (canonical_json L payload)) (\<lambda>encoded.
    bindE (guard (length encoded \<le> 1048576) ''job_payload_too_large'') (\<lambda>_. Inr encoded))"

definition release_fingerprint :: "pylib \<Rightarrow> string \<Rightarrow> string \<Rightarrow> store_error + string" where
  "release_fingerprint L kind payload_hash =
    bindE (lift_value (canonical_json L (JObj [(''version'', JStr ''cad.request/1''), (''kind'', JStr kind),
      (''effect_class'', JStr ''write''), (''payload_hash'', JStr payload_hash)])))
      (\<lambda>encoded. Inr (sha256_hex L encoded))"

text \<open>The checks before the transaction give the fingerprint of the request.\<close>

definition release_arguments ::
  "pylib \<Rightarrow> iso_reader \<Rightarrow> release_request \<Rightarrow> store_error + string \<times> string" where
  "release_arguments L T q =
    bindE (instant T (wl_consumed_at q)) (\<lambda>_.
    bindE (instant T (wl_deadline_at q)) (\<lambda>_.
    bindE (guard (job_token (wl_job_id q)) ''job_id_invalid'') (\<lambda>_.
    bindE (guard (job_token (wl_command_id q)) ''command_id_invalid'') (\<lambda>_.
    bindE (guard (job_token (wl_idempotency_key q)) ''idempotency_key_invalid'') (\<lambda>_.
    bindE (guard (job_token (wl_payload_hash q)) ''payload_hash_invalid'') (\<lambda>_.
    bindE (guard (is_dict (wl_payload q)) ''job_payload_invalid'') (\<lambda>_.
    bindE (job_payload_json L (wl_payload q)) (\<lambda>encoded.
    bindE (release_fingerprint L (wl_kind q) (wl_payload_hash q)) (\<lambda>fingerprint.
    Inr (encoded, fingerprint))))))))))"

definition release_job_request :: "intent_record \<Rightarrow> release_request \<Rightarrow> job_request" where
  "release_job_request r q =
    \<lparr>jr_owner_subject = wl_owner_subject q, jr_device_id = xi_device_id r, jr_kind = wl_kind q,
     jr_effect_class = WriteEffect, jr_payload = wl_payload q,
     jr_idempotency_key = wl_idempotency_key q, jr_deadline_at = Some (wl_deadline_at q)\<rparr>"

text \<open>The column \<open>payload_json\<close> is the canonical text of the payload.\<close>

definition same_job_material ::
  "pylib \<Rightarrow> intent_record \<Rightarrow> release_request \<Rightarrow> string \<Rightarrow> string \<Rightarrow> job_row \<Rightarrow> bool" where
  "same_job_material L r q payload_json fingerprint j \<longleftrightarrow>
     jb_device_id j = xi_device_id r \<and> jb_kind j = wl_kind q \<and> jb_effect_class j = WriteEffect
     \<and> jb_command_id j = wl_command_id q \<and> jb_idempotency_key j = wl_idempotency_key q
     \<and> jb_payload_hash j = wl_payload_hash q \<and> json_dumps L (jb_payload j) = Some payload_json
     \<and> jb_deadline_at j = Some (wl_deadline_at q) \<and> jb_request_fingerprint j = Some fingerprint"

text \<open>The exact retry of a release that already happened.\<close>

definition release_replay ::
  "pylib \<Rightarrow> string \<Rightarrow> intent_record \<Rightarrow> release_request \<Rightarrow> string \<Rightarrow> string \<Rightarrow> 'z phase7_db \<Rightarrow>
   store_error + ((intent_record \<times> job_row \<times> bool) \<times> 'z phase7_db)" where
  "release_replay L usage_id r q payload_json fingerprint db =
    bindE (guard (xi_released_job_id r = Some (wl_job_id q) \<and> xi_consent_id r = wl_consent_id q)
             ''intent_release_conflict'') (\<lambda>_.
    case get_job (wl_owner_subject q) (wl_job_id q) db of
      None \<Rightarrow> Inl (Conflict ''idempotency_state_invalid'')
    | Some j \<Rightarrow>
        bindE (guard (same_job_material L r q payload_json fingerprint j) ''job_conflict'') (\<lambda>_.
        bindE (record_phase8_release_usage usage_id (wl_owner_subject q) (wl_intent_id q)
                 (wl_job_id q) (jb_created_at j) db) (\<lambda>db'.
        Inr ((r, j, True), db'))))"

definition release_times :: "iso_reader \<Rightarrow> intent_record \<Rightarrow> release_request \<Rightarrow> store_error + unit" where
  "release_times T r q =
    bindE (at_or_after T (wl_consumed_at q) (xi_expires_at r)) (\<lambda>expired.
    bindE (if expired then Inr True
           else at_or_after T (wl_consumed_at q) (xi_preview_expires_at r)) (\<lambda>late.
    bindE (guard (\<not> late) ''intent_expired'') (\<lambda>_.
    bindE (at_or_after T (wl_consumed_at q) (wl_deadline_at q)) (\<lambda>over.
    guard (\<not> over) ''job_deadline_invalid''))))"

text \<open>The consent a release uses up.\<close>

definition release_consent ::
  "pylib \<Rightarrow> iso_reader \<Rightarrow> intent_record \<Rightarrow> release_request \<Rightarrow> 'z phase7_tables \<Rightarrow>
   store_error + consent_record option" where
  "release_consent L T r q t =
    (if xi_required_assurance r = NoAssurance then
       bindE (guard (wl_consent_id q = None \<and> xi_state r = Ready) ''consent_binding_mismatch'')
         (\<lambda>_. Inr None)
     else case (wl_consent_id q, wl_expected_consent_version q) of
       (Some consent_id, Some version) \<Rightarrow>
         bindE (find_consent L T (wl_owner_subject q) consent_id t) (\<lambda>consent.
         case consent of
           None \<Rightarrow> Inl (Conflict ''consent_binding_mismatch'')
         | Some c \<Rightarrow>
             bindE (guard (cs_intent_id c = xi_intent_id r \<and> cs_intent_version c = xi_intent_version r
                      \<and> cs_intent_digest c = xi_intent_digest r
                      \<and> cs_required_assurance c = xi_required_assurance r)
                      ''consent_binding_mismatch'') (\<lambda>_.
             bindE (guard (cs_state c = Approved) ''consent_not_approved'') (\<lambda>_.
             bindE (guard (cs_state_version c = version) ''cas_conflict'') (\<lambda>_.
             bindE (at_or_after T (wl_consumed_at q) (cs_expires_at c)) (\<lambda>late.
             bindE (guard (\<not> late) ''consent_expired'') (\<lambda>_. Inr (Some c)))))))
     | _ \<Rightarrow> Inl (Conflict ''consent_required''))"

text \<open>
  The write lock of the document: a lock whose job has finished is removed, the lock of another job
  makes the document busy.  Unlike \<open>ProgramRepository\<close>, which refuses any live lock, a live lock of the
  same job would pass; no such job exists yet.
\<close>

definition release_lock_check ::
  "intent_record \<Rightarrow> string \<Rightarrow> 'z phase7_db \<Rightarrow> store_error + 'z phase7_db" where
  "release_lock_check r job_id db =
    (case document_lock (xi_device_id r) (xi_document_id r) (pt_locks (st_other db)) of
       None \<Rightarrow> Inr db
     | Some lock \<Rightarrow>
         (case job_row_of (lk_job_id lock) db of
            None \<Rightarrow> Inr db
          | Some holder \<Rightarrow>
              if jb_state holder \<notin> set ACTIVE_STATES then
                Inr (on_tables (\<lambda>t. t\<lparr>pt_locks := delete_where
                  (\<lambda>l. (lk_device_id l, lk_document_id l, lk_job_id l) =
                       (xi_device_id r, xi_document_id r, lk_job_id lock)) (pt_locks t)\<rparr>) db)
              else bindE (guard (lk_job_id lock = job_id) ''document_write_busy'') (\<lambda>_. Inr db)))"

definition release_clash :: "intent_record \<Rightarrow> release_request \<Rightarrow> job_row \<Rightarrow> bool" where
  "release_clash r q j \<longleftrightarrow> jb_job_id j = wl_job_id q \<or> jb_command_id j = wl_command_id q
     \<or> request_key j = (wl_owner_subject q, xi_device_id r, wl_idempotency_key q)"

definition insert_released_job ::
  "intent_record \<Rightarrow> release_request \<Rightarrow> string \<Rightarrow> 'z phase7_db \<Rightarrow> store_error + 'z phase7_db" where
  "insert_released_job r q fingerprint db =
    (if select1 (release_clash r q) (st_jobs db) \<noteq> None
        \<or> select1 (\<lambda>d. dv_device_id d = xi_device_id r) (st_devices db) = None
     then Inl (Conflict ''job_conflict'')
     else Inr (db\<lparr>st_jobs := st_jobs db @ [queued_row (wl_consumed_at q) (wl_job_id q) (wl_command_id q)
                    (wl_payload_hash q) fingerprint (release_job_request r q)],
                  st_events := st_events db @
                    [\<lparr>ev_job_id = wl_job_id q, ev_sequence = 1, ev_event_type = StateEvent,
                      ev_state = Some Queued, ev_progress = None, ev_error_code = None, ev_result = None,
                      ev_created_at = wl_consumed_at q\<rparr>]\<rparr>))"

definition consumed_consent :: "string \<Rightarrow> consent_record \<Rightarrow> consent_record" where
  "consumed_consent now c = c\<lparr>cs_state := Consumed, cs_state_version := cs_state_version c + 1,
     cs_consumed_at := Some now\<rparr>"

definition consume_consent ::
  "release_request \<Rightarrow> consent_record option \<Rightarrow> 'z phase7_db \<Rightarrow> store_error + 'z phase7_db" where
  "consume_consent q consent db =
    (case consent of
       None \<Rightarrow> Inr db
     | Some c \<Rightarrow>
         let target = (\<lambda>x. cs_owner_subject x = wl_owner_subject q \<and> Some (cs_consent_id x) = wl_consent_id q
               \<and> cs_state x = Approved \<and> Some (cs_state_version x) = wl_expected_consent_version q)
         in if count_where target (t7_consents (t7 db)) \<noteq> 1 then Inl (Conflict ''cas_conflict'')
            else Inr (on_t7 (\<lambda>t. t\<lparr>t7_consents := update_where target
                   (consumed_consent (wl_consumed_at q)) (t7_consents t)\<rparr>) db))"

definition take_release_lock ::
  "intent_record \<Rightarrow> release_request \<Rightarrow> 'z phase7_db \<Rightarrow> store_error + 'z phase7_db" where
  "take_release_lock r q db =
    (case insert_lock \<lparr>lk_device_id = xi_device_id r, lk_document_id = xi_document_id r,
            lk_job_id = wl_job_id q, lk_created_at = wl_consumed_at q\<rparr> (st_other db) of
       Inl _ \<Rightarrow> Inl (Conflict ''document_write_busy'')
     | Inr t \<Rightarrow> Inr (db\<lparr>st_other := t\<rparr>))"

definition released_intent :: "release_request \<Rightarrow> intent_record \<Rightarrow> intent_record" where
  "released_intent q r = r\<lparr>xi_state := Released, xi_state_version := xi_state_version r + 1,
     xi_consent_id := wl_consent_id q, xi_released_job_id := Some (wl_job_id q)\<rparr>"

text \<open>\<open>released_job_id\<close> is unique; an update that would repeat it is a conflict.\<close>

definition mark_released :: "release_request \<Rightarrow> 'z phase7_db \<Rightarrow> store_error + 'z phase7_db" where
  "mark_released q db =
    (let target = (\<lambda>x. xi_owner_subject x = wl_owner_subject q \<and> xi_intent_id x = wl_intent_id q
           \<and> xi_state_version x = wl_expected_intent_version q \<and> xi_state x \<in> {AwaitingApproval, Ready})
     in if count_where target (t7_intents (t7 db)) \<noteq> 1 then Inl (Conflict ''cas_conflict'')
        else if select1 (\<lambda>x. xi_released_job_id x = Some (wl_job_id q)) (t7_intents (t7 db)) \<noteq> None
        then Inl (Conflict ''intent_release_conflict'')
        else Inr (on_t7 (\<lambda>t. t\<lparr>t7_intents := update_where target (released_intent q) (t7_intents t)\<rparr>) db))"

definition release_first ::
  "pylib \<Rightarrow> iso_reader \<Rightarrow> string \<Rightarrow> intent_record \<Rightarrow> release_request \<Rightarrow> string \<Rightarrow> 'z phase7_db \<Rightarrow>
   store_error + ((intent_record \<times> job_row \<times> bool) \<times> 'z phase7_db)" where
  "release_first L T usage_id r q fingerprint db =
    bindE (guard (xi_state_version r = wl_expected_intent_version q) ''cas_conflict'') (\<lambda>_.
    bindE (release_times T r q) (\<lambda>_.
    bindE (release_consent L T r q (t7 db)) (\<lambda>consent.
    bindE (guard (select1 (release_clash r q) (st_jobs db) = None) ''job_preexists_release'') (\<lambda>_.
    bindE (release_lock_check r (wl_job_id q) db) (\<lambda>db1.
    bindE (insert_released_job r q fingerprint db1) (\<lambda>db2.
    bindE (consume_consent q consent db2) (\<lambda>db3.
    bindE (take_release_lock r q db3) (\<lambda>db4.
    bindE (mark_released q db4) (\<lambda>db5.
    bindE (record_phase8_release_usage usage_id (wl_owner_subject q) (wl_intent_id q) (wl_job_id q)
             (wl_consumed_at q) db5) (\<lambda>db6.
    bindE (find_intent L T (wl_owner_subject q) (wl_intent_id q) (t7 db6)) (\<lambda>result.
    Inr ((the result, the (get_job (wl_owner_subject q) (wl_job_id q) db6), False), db6))))))))))))"

text \<open>The boolean of the result is \<open>job_existing\<close>.\<close>

definition release_intent ::
  "pylib \<Rightarrow> iso_reader \<Rightarrow> string \<Rightarrow> release_request \<Rightarrow> 'z phase7_db \<Rightarrow>
   store_error + ((intent_record \<times> job_row \<times> bool) option \<times> 'z phase7_db)" where
  "release_intent L T usage_id q db =
    bindE (release_arguments L T q) (\<lambda>(payload_json, fingerprint).
    bindE (find_intent L T (wl_owner_subject q) (wl_intent_id q) (t7 db)) (\<lambda>intent.
    case intent of
      None \<Rightarrow> Inr (None, db)
    | Some r \<Rightarrow>
        bindE (guard (wl_kind q = intent_action_name (xi_action r)) ''job_kind_mismatch'') (\<lambda>_.
        bindE (require_job_binding r (wl_payload q)) (\<lambda>_.
        bindE (require_phase8_release_binding r (wl_consent_id q) (wl_payload q) (t7 db)) (\<lambda>_.
        bindE (if xi_state r = Released then release_replay L usage_id r q payload_json fingerprint db
               else release_first L T usage_id r q fingerprint db) (\<lambda>(x, db').
        Inr (Some x, db')))))))"

section \<open>Consents\<close>

text \<open>\<open>_same_consent_request\<close> drops the fields that a decision changes.\<close>

definition CONSENT_MUTABLE_FIELDS :: "string list" where
  "CONSENT_MUTABLE_FIELDS = [''state'', ''state_version'', ''decided_at'', ''decision_source'',
     ''decision_principal'', ''decision_device_id'', ''decision_device_identity_generation'',
     ''consumed_at'']"

definition same_consent_request :: "consent_record \<Rightarrow> consent_record \<Rightarrow> bool" where
  "same_consent_request q r \<longleftrightarrow>
     py_eq (without_fields CONSENT_MUTABLE_FIELDS (dump_consent_record r))
           (without_fields CONSENT_MUTABLE_FIELDS (dump_consent_record q))"

definition insert_consent_binding :: "consent_record \<Rightarrow> 'z phase7_tables \<Rightarrow> store_error + 'z phase7_tables" where
  "insert_consent_binding q t =
    (case intent_binding (cs_owner_subject q) (cs_intent_id q) t of
       None \<Rightarrow> Inr t
     | Some b \<Rightarrow>
         if select1 (\<lambda>w. w8_consent_id w = cs_consent_id q) (t8_consent_bindings t) \<noteq> None
         then Inl IntegrityError
         else Inr (t\<lparr>t8_consent_bindings := t8_consent_bindings t @
           [\<lparr>w8_consent_id = cs_consent_id q, w8_owner_subject = cs_owner_subject q,
             w8_intent_id = cs_intent_id q, w8_binding_digest = b8_binding_digest b,
             w8_created_at = cs_requested_at q\<rparr>]\<rparr>))"

definition create_consent ::
  "pylib \<Rightarrow> iso_reader \<Rightarrow> json \<Rightarrow> 'z phase7_db \<Rightarrow>
   store_error + ((consent_record \<times> bool) \<times> 'z phase7_db)" where
  "create_consent L T v db =
    bindE (validated decode_consent_record (wf_consent_record L T) v) (\<lambda>q.
    bindE (guard (cs_state q = Requested \<and> cs_state_version q = 0) ''consent_initial_state_invalid'') (\<lambda>_.
    bindE (guard (cs_required_assurance q \<noteq> NoAssurance) ''consent_not_required'') (\<lambda>_.
    bindE (find_intent L T (cs_owner_subject q) (cs_intent_id q) (t7 db)) (\<lambda>intent.
    bindE (guard (case intent of None \<Rightarrow> False | Some r \<Rightarrow>
               xi_intent_version r = cs_intent_version q \<and> xi_intent_digest r = cs_intent_digest q
               \<and> xi_required_assurance r = cs_required_assurance q) ''intent_binding_mismatch'') (\<lambda>_.
    if select1 (consent_clash q) (t7_consents (t7 db)) \<noteq> None
       \<or> \<not> opt_ok (\<lambda>k. select1 (\<lambda>d. dv_device_id d = k) (st_devices db) \<noteq> None) (cs_decision_device_id q)
    then bindE (replay_or ''consent_conflict'' (same_consent_request q)
                  (consent_conflict_row L T q (t7 db))) (\<lambda>r. Inr ((r, True), db))
    else bindE (insert_consent_binding q ((t7 db)\<lparr>t7_consents := t7_consents (t7 db) @ [q]\<rparr>)) (\<lambda>t.
         Inr ((q, False), on_t7 (\<lambda>_. t) db)))))))"

record consent_change =
  kc_owner_subject :: string
  kc_consent_id :: string
  kc_target :: string
  kc_expected_version :: int
  kc_transition_at :: string
  kc_decision_source :: json
  kc_decision_principal :: json
  kc_decision_device_id :: json
  kc_decision_device_identity_generation :: json

text \<open>The candidate record of a transition, as the dict that is validated.\<close>

definition decided :: "consent_change \<Rightarrow> json \<Rightarrow> json" where
  "decided c v = (if kc_target c \<in> {''approved'', ''denied''} then v else JNull)"

definition consent_candidate :: "consent_change \<Rightarrow> consent_record \<Rightarrow> json" where
  "consent_candidate c r =
    jput ''decision_device_identity_generation'' (decided c (kc_decision_device_identity_generation c))
    (jput ''decision_device_id'' (decided c (kc_decision_device_id c))
    (jput ''decision_principal'' (decided c (kc_decision_principal c))
    (jput ''decision_source'' (decided c (kc_decision_source c))
    (jput ''decided_at'' (decided c (JStr (kc_transition_at c)))
    (jput ''state_version'' (JInt (cs_state_version r + 1))
    (jput ''state'' (JStr (kc_target c)) (dump_consent_record r)))))))"

definition consent_times :: "iso_reader \<Rightarrow> consent_change \<Rightarrow> consent_record \<Rightarrow> store_error + unit" where
  "consent_times T c r =
    bindE (if kc_target c = ''expired''
           then bindE (at_or_after T (kc_transition_at c) (cs_expires_at r)) (\<lambda>b. guard b ''consent_not_expired'')
           else Inr ()) (\<lambda>_.
    if kc_target c \<in> {''approved'', ''denied''}
    then bindE (at_or_after T (kc_transition_at c) (cs_expires_at r)) (\<lambda>b. guard (\<not> b) ''consent_expired'')
    else Inr ())"

definition moved_consent :: "consent_record \<Rightarrow> consent_record \<Rightarrow> consent_record" where
  "moved_consent candidate r = r\<lparr>cs_state := cs_state candidate,
     cs_state_version := cs_state_version r + 1, cs_decided_at := cs_decided_at candidate,
     cs_decision_source := cs_decision_source candidate,
     cs_decision_principal := cs_decision_principal candidate,
     cs_decision_device_id := cs_decision_device_id candidate,
     cs_decision_device_identity_generation := cs_decision_device_identity_generation candidate\<rparr>"

text \<open>\<open>consents.decision_device_id\<close> references \<open>devices\<close>; a device that does not exist is an
  \<open>IntegrityError\<close> here.\<close>

definition update_consent ::
  "consent_change \<Rightarrow> consent_record \<Rightarrow> 'z phase7_db \<Rightarrow> store_error + 'z phase7_db" where
  "update_consent c candidate db =
    (let target = (\<lambda>x. cs_owner_subject x = kc_owner_subject c \<and> cs_consent_id x = kc_consent_id c
           \<and> cs_state_version x = kc_expected_version c)
     in if \<not> opt_ok (\<lambda>k. select1 (\<lambda>d. dv_device_id d = k) (st_devices db) \<noteq> None)
              (cs_decision_device_id candidate) then Inl IntegrityError
        else if count_where target (t7_consents (t7 db)) \<noteq> 1 then Inl (Conflict ''cas_conflict'')
        else Inr (on_t7 (\<lambda>t. t\<lparr>t7_consents := update_where target (moved_consent candidate)
               (t7_consents t)\<rparr>) db))"

definition transition_consent ::
  "pylib \<Rightarrow> iso_reader \<Rightarrow> consent_change \<Rightarrow> 'z phase7_db \<Rightarrow>
   store_error + (consent_record option \<times> 'z phase7_db)" where
  "transition_consent L T c db =
    bindE (instant T (kc_transition_at c)) (\<lambda>_.
    bindE (guard (kc_target c \<noteq> ''consumed'') ''consent_consume_requires_release'') (\<lambda>_.
    bindE (find_consent L T (kc_owner_subject c) (kc_consent_id c) (t7 db)) (\<lambda>current.
    case current of
      None \<Rightarrow> Inr (None, db)
    | Some r \<Rightarrow>
        bindE (validated decode_consent_record (wf_consent_record L T) (consent_candidate c r))
          (\<lambda>candidate.
        if consent_state_name (cs_state r) = kc_target c then
          bindE (validated decode_consent_record (wf_consent_record L T)
                   (dump_consent_record (candidate\<lparr>cs_state_version := cs_state_version r\<rparr>))) (\<lambda>replay.
          bindE (guard (same_dump dump_consent_record r replay) ''consent_transition_conflict'')
            (\<lambda>_. Inr (Some r, db)))
        else
          bindE (guard (kc_target c \<in> set (map consent_state_name (consent_transitions (cs_state r))))
                   ''invalid_consent_transition'') (\<lambda>_.
          bindE (guard (cs_state_version r = kc_expected_version c) ''cas_conflict'') (\<lambda>_.
          bindE (consent_times T c r) (\<lambda>_.
          bindE (update_consent c candidate db) (\<lambda>db1.
          reread (find_consent L T (kc_owner_subject c) (kc_consent_id c) (t7 db1)) db1))))))))"

end
