(* ===== verification/Phase7Recovery.thy ===== *)
theory Phase7Recovery
  imports Phase7Store
begin

text \<open>
  The append-only and recovery side of \<open>Phase7Repository\<close>: execution evidence, recovery cases, and the
  checkpoint, plan and receipt of a rollback.
\<close>

section \<open>Evidence\<close>

text \<open>
  \<open>insert_evidence\<close> runs inside the caller's transaction.  Its \<open>except\<close> branch is not reachable: the
  selection before the insert has excluded both unique keys, and both foreign keys were selected.
\<close>

definition latest_sequence :: "string \<Rightarrow> evidence_source \<Rightarrow> evidence_event list \<Rightarrow> int option" where
  "latest_sequence job_id source events =
    (case map xe_source_sequence (filter (\<lambda>e. xe_job_id e = job_id \<and> xe_source e = source) events) of
       [] \<Rightarrow> None | n # ns \<Rightarrow> Some (foldl max n ns))"

definition insert_evidence ::
  "pylib \<Rightarrow> iso_reader \<Rightarrow> json \<Rightarrow> 'z phase7_db \<Rightarrow>
   store_error + ((evidence_event \<times> bool) \<times> 'z phase7_db)" where
  "insert_evidence L T v db =
    bindE (validated decode_evidence_event (wf_evidence_event L T) v) (\<lambda>q.
    bindE (guard (get_job (xe_owner_subject q) (xe_job_id q) db \<noteq> None) ''not_found'') (\<lambda>_.
    bindE (case xe_intent_id q of
             None \<Rightarrow> Inr ()
           | Some k \<Rightarrow> bindE (find_intent L T (xe_owner_subject q) k (t7 db))
               (\<lambda>intent. guard (intent \<noteq> None) ''not_found'')) (\<lambda>_.
    bindE (evidence_conflict_row L T q (t7 db)) (\<lambda>existing.
    case existing of
      Some e \<Rightarrow>
        bindE (guard (same_dump dump_evidence_event e q) ''evidence_conflict'') (\<lambda>_. Inr ((e, True), db))
    | None \<Rightarrow>
        bindE (guard (case latest_sequence (xe_job_id q) (xe_source q) (t7_evidence (t7 db)) of
                 None \<Rightarrow> True | Some n \<Rightarrow> n < xe_source_sequence q) ''evidence_sequence_rejected'') (\<lambda>_.
        Inr ((q, False), on_t7 (\<lambda>t. t\<lparr>t7_evidence := t7_evidence t @ [q]\<rparr>) db))))))"

definition append_evidence ::
  "pylib \<Rightarrow> iso_reader \<Rightarrow> json \<Rightarrow> 'z phase7_db \<Rightarrow>
   store_error + ((evidence_event \<times> bool) \<times> 'z phase7_db)" where
  "append_evidence L T v db = insert_evidence L T v db"

section \<open>Recovery cases\<close>

definition require_recovery_parents :: "recovery_record \<Rightarrow> 'z phase7_db \<Rightarrow> store_error + unit" where
  "require_recovery_parents q db = guard
     (select1 (\<lambda>r. xi_owner_subject r = rk_owner_subject q \<and> xi_intent_id r = rk_intent_id q)
        (t7_intents (t7 db)) \<noteq> None
      \<and> get_job (rk_owner_subject q) (rk_job_id q) db \<noteq> None
      \<and> opt_ok (\<lambda>k. select1 (\<lambda>c. cs_owner_subject c = rk_owner_subject q \<and> cs_consent_id c = k)
          (t7_consents (t7 db)) \<noteq> None) (rk_consent_id q)
      \<and> opt_ok (\<lambda>k. get_receipt (rk_owner_subject q) k db \<noteq> None) (rk_receipt_id q)) ''not_found''"

text \<open>The foreign keys hold by the check before; only the primary key can collide.\<close>

definition insert_recovery ::
  "pylib \<Rightarrow> iso_reader \<Rightarrow> recovery_record \<Rightarrow> 'z phase7_db \<Rightarrow>
   store_error + ((recovery_record \<times> bool) \<times> 'z phase7_db)" where
  "insert_recovery L T q db =
    (if select1 (\<lambda>r. rk_case_id r = rk_case_id q) (t7_recoveries (t7 db)) \<noteq> None
     then bindE (replay_or ''recovery_case_conflict'' (\<lambda>r. same_dump dump_recovery_record r q)
                   (find_recovery L T (rk_owner_subject q) (rk_case_id q) (t7 db)))
            (\<lambda>r. Inr ((r, True), db))
     else Inr ((q, False), on_t7 (\<lambda>t. t\<lparr>t7_recoveries := t7_recoveries t @ [q]\<rparr>) db))"

definition create_recovery_case ::
  "pylib \<Rightarrow> iso_reader \<Rightarrow> json \<Rightarrow> 'z phase7_db \<Rightarrow>
   store_error + ((recovery_record \<times> bool) \<times> 'z phase7_db)" where
  "create_recovery_case L T v db =
    bindE (validated decode_recovery_record (wf_recovery_record L T) v) (\<lambda>q.
    bindE (guard (rk_state q \<noteq> CaseResolved \<and> rk_resolution_version q = 0)
             ''recovery_initial_state_invalid'') (\<lambda>_.
    bindE (require_recovery_parents q db) (\<lambda>_. insert_recovery L T q db)))"

record case_resolution =
  zr_owner_subject :: string
  zr_case_id :: string
  zr_expected_version :: int
  zr_resolution :: string
  zr_resolved_at :: string
  zr_operator_note :: "json option"

text \<open>The resolution of a case that is already resolved: the same one again, or a conflict.\<close>

definition same_resolution :: "case_resolution \<Rightarrow> recovery_record \<Rightarrow> bool" where
  "same_resolution c r \<longleftrightarrow> rk_resolution r = Some (zr_resolution c)
     \<and> rk_resolved_at r = Some (zr_resolved_at c)
     \<and> (case zr_operator_note c of
          None \<Rightarrow> True
        | Some note \<Rightarrow> rk_operator_notes r \<noteq> [] \<and> py_eq (dump_operator_note (last (rk_operator_notes r))) note)"

definition resolved_candidate :: "case_resolution \<Rightarrow> recovery_record \<Rightarrow> json" where
  "resolved_candidate c r =
    jput ''operator_notes'' (JList (map dump_operator_note (rk_operator_notes r)
       @ (case zr_operator_note c of None \<Rightarrow> [] | Some note \<Rightarrow> [note])))
    (jput ''updated_at'' (JStr (zr_resolved_at c))
    (jput ''resolved_at'' (JStr (zr_resolved_at c))
    (jput ''resolution'' (JStr (zr_resolution c))
    (jput ''resolution_version'' (JInt (rk_resolution_version r + 1))
    (jput ''state'' (JStr ''resolved'') (dump_recovery_record r))))))"

definition resolved_case :: "recovery_record \<Rightarrow> recovery_record \<Rightarrow> recovery_record" where
  "resolved_case candidate r = r\<lparr>rk_state := CaseResolved,
     rk_resolution_version := rk_resolution_version r + 1, rk_resolution := rk_resolution candidate,
     rk_operator_notes := rk_operator_notes candidate, rk_updated_at := rk_updated_at candidate,
     rk_resolved_at := rk_resolved_at candidate\<rparr>"

definition update_recovery ::
  "case_resolution \<Rightarrow> recovery_record \<Rightarrow> 'z phase7_db \<Rightarrow> store_error + 'z phase7_db" where
  "update_recovery c candidate db =
    (let target = (\<lambda>x. rk_owner_subject x = zr_owner_subject c \<and> rk_case_id x = zr_case_id c
           \<and> rk_resolution_version x = zr_expected_version c \<and> rk_state x \<noteq> CaseResolved)
     in if count_where target (t7_recoveries (t7 db)) \<noteq> 1 then Inl (Conflict ''cas_conflict'')
        else Inr (on_t7 (\<lambda>t. t\<lparr>t7_recoveries := update_where target (resolved_case candidate)
               (t7_recoveries t)\<rparr>) db))"

definition resolve_recovery_case ::
  "pylib \<Rightarrow> iso_reader \<Rightarrow> case_resolution \<Rightarrow> 'z phase7_db \<Rightarrow>
   store_error + (recovery_record option \<times> 'z phase7_db)" where
  "resolve_recovery_case L T c db =
    bindE (instant T (zr_resolved_at c)) (\<lambda>_.
    bindE (find_recovery L T (zr_owner_subject c) (zr_case_id c) (t7 db)) (\<lambda>current.
    case current of
      None \<Rightarrow> Inr (None, db)
    | Some r \<Rightarrow>
        if rk_state r = CaseResolved then
          bindE (guard (same_resolution c r) ''recovery_resolution_conflict'') (\<lambda>_. Inr (Some r, db))
        else
          bindE (validated decode_recovery_record (wf_recovery_record L T) (resolved_candidate c r))
            (\<lambda>candidate.
          bindE (guard (rk_resolution_version r = zr_expected_version c) ''cas_conflict'') (\<lambda>_.
          bindE (update_recovery c candidate db) (\<lambda>db1.
          reread (find_recovery L T (zr_owner_subject c) (zr_case_id c) (t7 db1)) db1)))))"

section \<open>Rollbacks\<close>

definition checkpoint_of_receipt :: "checkpoint_record \<Rightarrow> receipt_row \<Rightarrow> bool" where
  "checkpoint_of_receipt q r \<longleftrightarrow> rt_receipt_digest r = ck_original_receipt_digest q
     \<and> rt_program_id r = ck_program_id q \<and> rt_program_revision r = ck_program_revision q
     \<and> rt_program_digest r = ck_program_digest q \<and> rt_preview_id r = ck_preview_id q
     \<and> rt_execution_digest r = ck_execution_digest q \<and> rt_document_id r = ck_document_id q
     \<and> rt_document_revision_before r = ck_document_revision_before q
     \<and> rt_document_revision_after r = ck_document_revision_after q"

definition create_checkpoint ::
  "pylib \<Rightarrow> iso_reader \<Rightarrow> json \<Rightarrow> 'z phase7_db \<Rightarrow>
   store_error + ((checkpoint_record \<times> bool) \<times> 'z phase7_db)" where
  "create_checkpoint L T v db =
    bindE (validated decode_checkpoint_record (wf_checkpoint_record L T) v) (\<lambda>q.
    bindE (guard (case get_receipt (ck_owner_subject q) (ck_original_receipt_id q) db of
             None \<Rightarrow> False | Some r \<Rightarrow> checkpoint_of_receipt q r) ''receipt_binding_mismatch'') (\<lambda>_.
    if select1 (checkpoint_clash q) (t7_checkpoints (t7 db)) \<noteq> None
       \<or> select1 (\<lambda>p. pv_preview_id p = ck_preview_id q) (pt_previews (st_other db)) = None
       \<or> \<not> revision_exists (ck_program_id q) (ck_program_revision q) (st_other db)
    then bindE (replay_or ''checkpoint_conflict'' (\<lambda>r. same_dump dump_checkpoint_record r q)
                  (checkpoint_conflict_row L T q (t7 db))) (\<lambda>r. Inr ((r, True), db))
    else Inr ((q, False), on_t7 (\<lambda>t. t\<lparr>t7_checkpoints := t7_checkpoints t @ [q]\<rparr>) db)))"

definition plan_of_checkpoint :: "plan_record \<Rightarrow> checkpoint_record \<Rightarrow> bool" where
  "plan_of_checkpoint q k \<longleftrightarrow> ck_checkpoint_digest k = rp_checkpoint_digest q
     \<and> ck_original_receipt_id k = rp_original_receipt_id q \<and> ck_document_id k = rp_document_id q
     \<and> ce_handle ` set (ck_created_entities k) = set (rp_entity_handles q)"

definition create_rollback_plan ::
  "pylib \<Rightarrow> iso_reader \<Rightarrow> json \<Rightarrow> 'z phase7_db \<Rightarrow>
   store_error + ((plan_record \<times> bool) \<times> 'z phase7_db)" where
  "create_rollback_plan L T v db =
    bindE (validated decode_plan_record (wf_plan_record L T) v) (\<lambda>q.
    bindE (find_checkpoint L T (rp_owner_subject q) (rp_checkpoint_id q) (t7 db)) (\<lambda>checkpoint.
    bindE (guard (case checkpoint of None \<Rightarrow> False | Some k \<Rightarrow> plan_of_checkpoint q k)
             ''checkpoint_binding_mismatch'') (\<lambda>_.
    if select1 (plan_clash q) (t7_plans (t7 db)) \<noteq> None
    then bindE (replay_or ''rollback_plan_conflict'' (\<lambda>r. same_dump dump_plan_record r q)
                  (plan_conflict_row L T q (t7 db))) (\<lambda>r. Inr ((r, True), db))
    else Inr ((q, False), on_t7 (\<lambda>t. t\<lparr>t7_plans := t7_plans t @ [q]\<rparr>) db))))"

text \<open>A receipt removes exactly the entities of its plan and repeats the checkpoint it undoes.\<close>

definition receipt_of_plan :: "rollback_receipt \<Rightarrow> plan_record \<Rightarrow> checkpoint_record \<Rightarrow> bool" where
  "receipt_of_plan q p k \<longleftrightarrow> rp_plan_digest p = rl_rollback_plan_digest q
     \<and> rp_rollback_execution_digest p = rl_rollback_execution_digest q
     \<and> ck_checkpoint_digest k = rl_checkpoint_digest q
     \<and> ck_original_receipt_id k = rl_original_receipt_id q
     \<and> ck_original_receipt_digest k = rl_original_receipt_digest q
     \<and> ck_program_digest k = rl_program_digest q
     \<and> ck_execution_digest k = rl_original_execution_digest q
     \<and> ck_document_revision_before k = rl_original_document_revision q
     \<and> ck_document_id k = rl_document_id q
     \<and> set (rp_entity_handles p) = rx_handle ` set (rl_removed_entities q)"

definition rollback_job_exists :: "rollback_receipt \<Rightarrow> 'z phase7_db \<Rightarrow> bool" where
  "rollback_job_exists q db \<longleftrightarrow>
     select1 (\<lambda>j. jb_owner_subject j = rl_owner_subject q \<and> jb_job_id j = rl_rollback_job_id q
        \<and> jb_effect_class j = WriteEffect) (st_jobs db) \<noteq> None"

definition insert_rollback_receipt ::
  "pylib \<Rightarrow> iso_reader \<Rightarrow> json \<Rightarrow> 'z phase7_db \<Rightarrow>
   store_error + ((rollback_receipt \<times> bool) \<times> 'z phase7_db)" where
  "insert_rollback_receipt L T v db =
    bindE (validated decode_rollback_receipt (wf_rollback_receipt L T) v) (\<lambda>q.
    bindE (find_plan L T (rl_owner_subject q) (rl_rollback_plan_id q) (t7 db)) (\<lambda>plan.
    bindE (find_checkpoint L T (rl_owner_subject q) (rl_checkpoint_id q) (t7 db)) (\<lambda>checkpoint.
    bindE (guard (case (plan, checkpoint) of
             (Some p, Some k) \<Rightarrow> rollback_job_exists q db \<and> receipt_of_plan q p k
           | _ \<Rightarrow> False) ''rollback_binding_mismatch'') (\<lambda>_.
    if select1 (receipt_clash q) (t7_receipts (t7 db)) \<noteq> None
    then bindE (replay_or ''rollback_receipt_conflict'' (\<lambda>r. same_dump dump_rollback_receipt r q)
                  (rollback_receipt_conflict_row L T q (t7 db))) (\<lambda>r. Inr ((r, True), db))
    else Inr ((q, False), on_t7 (\<lambda>t. t\<lparr>t7_receipts := t7_receipts t @ [q]\<rparr>) db)))))"

definition create_rollback_receipt ::
  "pylib \<Rightarrow> iso_reader \<Rightarrow> json \<Rightarrow> 'z phase7_db \<Rightarrow>
   store_error + ((rollback_receipt \<times> bool) \<times> 'z phase7_db)" where
  "create_rollback_receipt L T v db = insert_rollback_receipt L T v db"

end
