(* ===== verification/Phase7Log.thy ===== *)
theory Phase7Log
  imports ProgramProperties Phase7Recovery
begin

text \<open>
  The store with its Phase 7 tables as one system.  Every operation either appends a row that collides
  with no stored key or rewrites one row and keeps its keys; a release also creates the job and takes
  the write lock.  \<open>phase7_ok\<close> adds to the rules of the program tables that every stored record is
  valid, that the keys are unique, that consumed consents and released intents pair up, and that
  evidence is in order.
\<close>

section \<open>Tables with several unique keys\<close>

text \<open>\<open>clash q r\<close>: the two rows share a unique key.\<close>

definition unclashed :: "('r \<Rightarrow> 'r \<Rightarrow> bool) \<Rightarrow> 'r list \<Rightarrow> bool" where
  "unclashed clash rows \<longleftrightarrow> sorted_wrt (\<lambda>a b. \<not> clash a b) rows"

locale keyed_table =
  fixes clash :: "'r \<Rightarrow> 'r \<Rightarrow> bool"
  assumes clash_refl: "clash a a"
    and clash_sym: "clash a b \<Longrightarrow> clash b a"
begin

lemma unique: "unclashed clash rows \<Longrightarrow> a \<in> set rows \<Longrightarrow> b \<in> set rows \<Longrightarrow> clash a b \<Longrightarrow> a = b"
  unfolding unclashed_def by (induction rows) (auto dest: clash_sym)

lemma appended:
  "unclashed clash rows \<Longrightarrow> select1 (clash q) rows = None \<Longrightarrow> unclashed clash (rows @ [q])"
  by (auto simp: unclashed_def sorted_wrt_append select1_None dest: clash_sym)

lemma updated:
  assumes "unclashed clash rows" "\<And>a b. clash (f a) b = clash a b"
  shows "unclashed clash (update_where p f rows)"
proof -
  have "clash a (f b) = clash a b" for a b using assms(2) clash_sym by blast
  then have "clash (if p a then f a else a) (if p b then f b else b) = clash a b" for a b
    using assms(2) by simp
  then show ?thesis using assms(1) by (simp add: unclashed_def update_where_def sorted_wrt_map)
qed

lemma update_one:
  assumes "unclashed clash rows" "r \<in> set rows" "p r" "\<And>x. p x \<Longrightarrow> clash x r"
  shows "set (update_where p f rows) = insert (f r) (set rows - {r})"
proof -
  have "p x \<longleftrightarrow> x = r" if "x \<in> set rows" for x
    using that assms unique by blast
  then show ?thesis using assms(2) by (auto simp: set_update_where)
qed

lemma select_key:
  assumes "unclashed clash rows" "r \<in> set rows" "p r" "\<And>x. p x \<Longrightarrow> clash x r"
  shows "select1 p rows = Some r"
proof (cases "select1 p rows")
  case None
  then show ?thesis using assms(2,3) by (auto simp: select1_None)
next
  case (Some x)
  then show ?thesis using select1_Some [OF Some] assms unique by blast
qed

end

definition recovery_clash :: "recovery_record \<Rightarrow> recovery_record \<Rightarrow> bool" where
  "recovery_clash q r \<longleftrightarrow> rk_case_id r = rk_case_id q"

interpretation intent_table: keyed_table intent_clash
  by unfold_locales (auto simp: intent_clash_def)
interpretation consent_table: keyed_table consent_clash
  by unfold_locales (auto simp: consent_clash_def)
interpretation evidence_table: keyed_table evidence_clash
  by unfold_locales (auto simp: evidence_clash_def)
interpretation recovery_table: keyed_table recovery_clash
  by unfold_locales (auto simp: recovery_clash_def)
interpretation checkpoint_table: keyed_table checkpoint_clash
  by unfold_locales (auto simp: checkpoint_clash_def)
interpretation plan_table: keyed_table plan_clash
  by unfold_locales (auto simp: plan_clash_def)
interpretation receipt_table: keyed_table receipt_clash
  by unfold_locales (auto simp: receipt_clash_def)

section \<open>The system\<close>

text \<open>
  Any operation of any repository, with any arguments.  The terminal hooks of the job service insert
  evidence and rollback receipts inside a finalisation; they are the steps of the finalisation and of
  the insertion one after the other.  Phase 8 writes its own tables only.
\<close>

definition on_t8 :: "'z phase7_tables \<Rightarrow> 'z phase7_tables \<Rightarrow> bool" where
  "on_t8 t t' \<longleftrightarrow> t7_intents t' = t7_intents t \<and> t7_consents t' = t7_consents t
     \<and> t7_evidence t' = t7_evidence t \<and> t7_recoveries t' = t7_recoveries t
     \<and> t7_checkpoints t' = t7_checkpoints t \<and> t7_plans t' = t7_plans t \<and> t7_receipts t' = t7_receipts t"

inductive phase7_step :: "pylib \<Rightarrow> iso_reader \<Rightarrow> 'z phase7_db \<Rightarrow> 'z phase7_db \<Rightarrow> bool" for L T where
  step7_program: "program_step db db' \<Longrightarrow> t7 db' = t7 db \<Longrightarrow> phase7_step L T db db'"
| step7_phase8: "on_t8 (t7 db) t \<Longrightarrow> phase7_step L T db (on_t7 (\<lambda>_. t) db)"
| step7_intent: "create_intent L T v db = Inr (x, db') \<Longrightarrow> phase7_step L T db db'"
| step7_move: "transition_intent L T c db = Inr (x, db') \<Longrightarrow> phase7_step L T db db'"
| step7_release: "release_intent L T u q db = Inr (x, db') \<Longrightarrow> timestamp_shape (wl_consumed_at q) \<Longrightarrow>
    phase7_step L T db db'"
| step7_consent: "create_consent L T v db = Inr (y, db') \<Longrightarrow> phase7_step L T db db'"
| step7_decide: "transition_consent L T k db = Inr (y, db') \<Longrightarrow> phase7_step L T db db'"
| step7_evidence: "insert_evidence L T v db = Inr (z, db') \<Longrightarrow> phase7_step L T db db'"
| step7_case: "create_recovery_case L T v db = Inr (w, db') \<Longrightarrow> phase7_step L T db db'"
| step7_resolve: "resolve_recovery_case L T rz db = Inr (w, db') \<Longrightarrow> phase7_step L T db db'"
| step7_checkpoint: "create_checkpoint L T v db = Inr (p, db') \<Longrightarrow> phase7_step L T db db'"
| step7_plan: "create_rollback_plan L T v db = Inr (o', db') \<Longrightarrow> phase7_step L T db db'"
| step7_receipt: "insert_rollback_receipt L T v db = Inr (n, db') \<Longrightarrow> phase7_step L T db db'"

section \<open>The invariant\<close>

text \<open>The job of a released intent.\<close>

definition job_of_intent :: "intent_record \<Rightarrow> job_row \<Rightarrow> bool" where
  "job_of_intent r j \<longleftrightarrow> jb_owner_subject j = xi_owner_subject r \<and> jb_device_id j = xi_device_id r
     \<and> jb_kind j = intent_action_name (xi_action r) \<and> jb_effect_class j = WriteEffect"

definition intents_ok :: "pylib \<Rightarrow> iso_reader \<Rightarrow> 'z phase7_db \<Rightarrow> bool" where
  "intents_ok L T db \<longleftrightarrow> unclashed intent_clash (t7_intents (t7 db))
     \<and> (\<forall>r \<in> set (t7_intents (t7 db)). wf_intent_record L T r)
     \<and> (\<forall>r \<in> set (t7_intents (t7 db)). \<forall>k. xi_released_job_id r = Some k \<longrightarrow>
          (\<exists>j. job_row_of k db = Some j \<and> job_of_intent r j))
     \<and> (\<forall>r \<in> set (t7_intents (t7 db)). \<forall>s \<in> set (t7_intents (t7 db)).
          xi_released_job_id r \<noteq> None \<longrightarrow> xi_released_job_id r = xi_released_job_id s \<longrightarrow> r = s)"

text \<open>
  A consent without the byte bound of its record: a release rewrites a consent without reading it back,
  so only the constraints of the fields and the validators are shown of it.  The version counts the
  changes of the state.
\<close>

definition consent_fields :: "pylib \<Rightarrow> iso_reader \<Rightarrow> consent_record \<Rightarrow> bool" where
  "consent_fields L T r \<longleftrightarrow> public_id (cs_consent_id r) \<and> public_id (cs_intent_id r)
     \<and> int_between 1 MAX_INT32 (cs_consent_version r) \<and> int_between 1 MAX_INT32 (cs_intent_version r)
     \<and> int_between 0 MAX_INT32 (cs_state_version r) \<and> text_between 1 512 (cs_owner_subject r)
     \<and> prefixed_sha256 (cs_intent_digest r) \<and> prefixed_sha256 (cs_challenge_nonce_hash r)
     \<and> valid_timestamp T (cs_requested_at r) \<and> valid_timestamp T (cs_expires_at r)
     \<and> opt_ok (valid_timestamp T) (cs_decided_at r) \<and> opt_ok (valid_timestamp T) (cs_consumed_at r)
     \<and> opt_ok (wf_principal L) (cs_decision_principal r) \<and> opt_ok public_id (cs_decision_device_id r)
     \<and> opt_ok (int_between 1 MAX_INT32) (cs_decision_device_identity_generation r)
     \<and> validate_consent T r"

fun consent_rank :: "consent_state \<Rightarrow> int \<Rightarrow> bool" where
  "consent_rank Requested v = (v = 0)"
| "consent_rank Approved v = (v = 1)"
| "consent_rank Consumed v = (v = 2)"
| "consent_rank _ v = (v = 1 \<or> v = 2)"

definition consent_of_intent :: "consent_record \<Rightarrow> intent_record \<Rightarrow> bool" where
  "consent_of_intent c r \<longleftrightarrow> xi_intent_id r = cs_intent_id c \<and> xi_owner_subject r = cs_owner_subject c
     \<and> xi_intent_version r = cs_intent_version c \<and> xi_intent_digest r = cs_intent_digest c
     \<and> xi_required_assurance r = cs_required_assurance c \<and> xi_required_assurance r \<noteq> NoAssurance"

definition consents_ok :: "pylib \<Rightarrow> iso_reader \<Rightarrow> 'z phase7_tables \<Rightarrow> bool" where
  "consents_ok L T t \<longleftrightarrow> unclashed consent_clash (t7_consents t)
     \<and> (\<forall>c \<in> set (t7_consents t). consent_fields L T c \<and> consent_rank (cs_state c) (cs_state_version c)
          \<and> (\<exists>r \<in> set (t7_intents t). consent_of_intent c r))"

text \<open>A consent is used up exactly by the release of its intent.\<close>

definition release_paired :: "'z phase7_tables \<Rightarrow> bool" where
  "release_paired t \<longleftrightarrow>
     (\<forall>c \<in> set (t7_consents t). cs_state c = Consumed \<longrightarrow>
        (\<exists>r \<in> set (t7_intents t). consent_of_intent c r \<and> xi_state r = Released
           \<and> xi_consent_id r = Some (cs_consent_id c)))
     \<and> (\<forall>r \<in> set (t7_intents t). xi_state r = Released \<longrightarrow>
          (if xi_required_assurance r = NoAssurance then xi_consent_id r = None
           else \<exists>c \<in> set (t7_consents t). consent_of_intent c r \<and> cs_state c = Consumed
                  \<and> xi_consent_id r = Some (cs_consent_id c)))"

text \<open>The sequence numbers of a source grow along the evidence of a job.\<close>

definition evidence_ordered :: "evidence_event list \<Rightarrow> bool" where
  "evidence_ordered = sorted_wrt (\<lambda>a b. xe_job_id a = xe_job_id b \<and> xe_source a = xe_source b \<longrightarrow>
     xe_source_sequence a < xe_source_sequence b)"

definition others_ok :: "pylib \<Rightarrow> iso_reader \<Rightarrow> 'z phase7_tables \<Rightarrow> bool" where
  "others_ok L T t \<longleftrightarrow>
     unclashed evidence_clash (t7_evidence t) \<and> evidence_ordered (t7_evidence t)
     \<and> (\<forall>e \<in> set (t7_evidence t). wf_evidence_event L T e)
     \<and> unclashed recovery_clash (t7_recoveries t) \<and> (\<forall>r \<in> set (t7_recoveries t). wf_recovery_record L T r)
     \<and> unclashed checkpoint_clash (t7_checkpoints t)
     \<and> (\<forall>k \<in> set (t7_checkpoints t). wf_checkpoint_record L T k)
     \<and> unclashed plan_clash (t7_plans t)
     \<and> (\<forall>p \<in> set (t7_plans t). wf_plan_record L T p \<and> (\<exists>k \<in> set (t7_checkpoints t).
          ck_checkpoint_id k = rp_checkpoint_id p \<and> ck_owner_subject k = rp_owner_subject p
          \<and> plan_of_checkpoint p k))
     \<and> unclashed receipt_clash (t7_receipts t)
     \<and> (\<forall>q \<in> set (t7_receipts t). wf_rollback_receipt L T q
          \<and> (\<exists>p \<in> set (t7_plans t). \<exists>k \<in> set (t7_checkpoints t). rp_plan_id p = rl_rollback_plan_id q
               \<and> ck_checkpoint_id k = rl_checkpoint_id q \<and> rp_owner_subject p = rl_owner_subject q
               \<and> ck_owner_subject k = rl_owner_subject q \<and> receipt_of_plan q p k))"

text \<open>The job of a released intent holds the write lock of its document until it has ended.\<close>

definition released_locked :: "'z phase7_db \<Rightarrow> bool" where
  "released_locked db \<longleftrightarrow> (\<forall>r \<in> set (t7_intents (t7 db)). \<forall>k. xi_released_job_id r = Some k \<longrightarrow>
     job_finished k db \<or> (\<exists>l \<in> set (pt_locks (st_other db)). lk_job_id l = k
       \<and> lock_document l = (xi_device_id r, xi_document_id r)))"

definition phase7_ok :: "pylib \<Rightarrow> iso_reader \<Rightarrow> 'z phase7_db \<Rightarrow> bool" where
  "phase7_ok L T db \<longleftrightarrow> program_ok db \<and> intents_ok L T db \<and> consents_ok L T (t7 db)
     \<and> release_paired (t7 db) \<and> released_locked db \<and> others_ok L T (t7 db)"

definition empty_phase7 :: "'z \<Rightarrow> 'z phase7_tables" where
  "empty_phase7 rest = \<lparr>t7_intents = [], t7_consents = [], t7_evidence = [], t7_recoveries = [],
     t7_checkpoints = [], t7_plans = [], t7_receipts = [], t8_plans = [], t8_previews = [],
     t8_intent_bindings = [], t8_consent_bindings = [], t8_usage = [], t7_more = rest\<rparr>"

section \<open>Effects of the operations on intents\<close>

lemmas intent_unique = intent_table.unique [of "t7_intents t" for t]

lemma find_intent_Some:
  "find_intent L T owner k t = Inr (Some r) \<Longrightarrow>
   r \<in> set (t7_intents t) \<and> xi_owner_subject r = owner \<and> xi_intent_id r = k \<and> wf_intent_record L T r"
  by (auto simp: find_intent_def dest: select1_Some)

lemma find_consent_Some:
  "find_consent L T owner k t = Inr (Some r) \<Longrightarrow>
   r \<in> set (t7_consents t) \<and> cs_owner_subject r = owner \<and> cs_consent_id r = k \<and> wf_consent_record L T r"
  by (auto simp: find_consent_def dest: select1_Some)

lemma create_intent_cases:
  assumes "create_intent L T v db = Inr ((r, dup), db')"
  shows "if dup then db' = db \<and> r \<in> set (t7_intents (t7 db))
    else db' = on_t7 (\<lambda>t. t\<lparr>t7_intents := t7_intents t @ [r]\<rparr>) db \<and> wf_intent_record L T r \<and>
      select1 (intent_clash r) (t7_intents (t7 db)) = None \<and> xi_state_version r = 0 \<and>
      xi_state r = (if xi_required_assurance r = NoAssurance then Ready else AwaitingApproval) \<and>
      require_intent_parents r db = Inr ()"
  using assms
  by (auto simp: create_intent_def bindE_Inr validated_Inr intent_conflict_row_def split: if_splits
      dest: select1_Some)

lemma reread_Inr: "reread row db = Inr (x, db') \<longleftrightarrow> row = Inr x \<and> db' = db"
  by (auto simp: reread_def bindE_Inr)

lemma update_intent_Inr:
  assumes "update_intent owner k version f db = Inr db'"
  shows "db' = on_t7 (\<lambda>t. t\<lparr>t7_intents := update_where (\<lambda>r. xi_owner_subject r = owner \<and>
    xi_intent_id r = k \<and> xi_state_version r = version) f (t7_intents t)\<rparr>) db"
  using assms by (simp add: update_intent_def Let_def split: if_splits)

text \<open>An update of the row that was read, seen by the lookup that follows it.\<close>

lemma reread_updated_intent:
  assumes "unclashed intent_clash (t7_intents t)" "r \<in> set (t7_intents t)"
    and "xi_owner_subject r = owner" "xi_intent_id r = k" "p r"
    and "\<And>x. p x \<Longrightarrow> xi_owner_subject x = owner \<and> xi_intent_id x = k"
    and "\<And>a b. intent_clash (f a) b = intent_clash a b"
    and "xi_owner_subject (f r) = owner" "xi_intent_id (f r) = k"
    and "t7_intents t' = update_where p f (t7_intents t)"
  shows "find_intent L T owner k t' = valid_row (wf_intent_record L T) (Some (f r)) \<and>
    unclashed intent_clash (t7_intents t') \<and>
    set (t7_intents t') = insert (f r) (set (t7_intents t) - {r})"
proof -
  have key: "intent_clash x r" if "p x" for x
    using assms(6) [OF that] assms(4) by (simp add: intent_clash_def)
  have u: "unclashed intent_clash (t7_intents t')"
    unfolding assms(10) by (rule intent_table.updated [OF assms(1,7)])
  have s: "set (t7_intents t') = insert (f r) (set (t7_intents t) - {r})"
    unfolding assms(10) by (rule intent_table.update_one [where p = p, OF assms(1,2,5)]) (rule key)
  have "select1 (\<lambda>x. xi_owner_subject x = owner \<and> xi_intent_id x = k) (t7_intents t') = Some (f r)"
    by (rule intent_table.select_key [OF u]) (use s assms(8,9) in \<open>auto simp: intent_clash_def\<close>)
  with u s show ?thesis by (simp add: find_intent_def)
qed

lemma moved_intent_keys:
  "intent_clash (moved_intent c a) b = intent_clash a b"
  "xi_owner_subject (moved_intent c a) = xi_owner_subject a" "xi_intent_id (moved_intent c a) = xi_intent_id a"
  by (simp_all add: moved_intent_def intent_clash_def)

lemma transition_intent_cases:
  assumes "transition_intent L T c db = Inr (x, db')" "unclashed intent_clash (t7_intents (t7 db))"
  shows "(db' = db \<and> (x = None \<or> (\<exists>r \<in> set (t7_intents (t7 db)). x = Some r))) \<or>
    (\<exists>r \<in> set (t7_intents (t7 db)).
       xi_owner_subject r = ic_owner_subject c \<and> xi_intent_id r = ic_intent_id c \<and>
       ic_target c \<in> set (map intent_state_name (intent_transitions (xi_state r))) \<and>
       intent_expiry T c r = Inr () \<and>
       (\<exists>consent. change_consent L T c (t7 db) = Inr consent \<and>
          (ic_target c = ''ready'' \<longrightarrow> ready_allowed r consent = Inr ())) \<and>
       x = Some (moved_intent c r) \<and> wf_intent_record L T (moved_intent c r) \<and>
       (\<exists>rows. db' = on_t7 (\<lambda>t. t\<lparr>t7_intents := rows\<rparr>) db \<and> unclashed intent_clash rows \<and>
          set rows = insert (moved_intent c r) (set (t7_intents (t7 db)) - {r})))"
proof -
  obtain current where cur: "find_intent L T (ic_owner_subject c) (ic_intent_id c) (t7 db) = Inr current"
    using assms(1) by (auto simp: transition_intent_def bindE_Inr)
  show ?thesis
  proof (cases current)
    case None
    then show ?thesis using assms(1) cur by (auto simp: transition_intent_def bindE_Inr)
  next
    case (Some r)
    note r = find_intent_Some [OF cur [unfolded Some]]
    show ?thesis
    proof (cases "intent_state_name (xi_state r) = ic_target c")
      case True
      then show ?thesis using assms(1) cur Some r by (auto simp: transition_intent_def bindE_Inr)
    next
      case False
      obtain consent db1 where g:
        "ic_target c \<in> set (map intent_state_name (intent_transitions (xi_state r)))"
        "xi_state_version r = ic_expected_version c" "intent_expiry T c r = Inr ()"
        "change_consent L T c (t7 db) = Inr consent"
        "ic_target c = ''ready'' \<longrightarrow> ready_allowed r consent = Inr ()"
        "update_intent (ic_owner_subject c) (ic_intent_id c) (ic_expected_version c) (moved_intent c) db = Inr db1"
        "find_intent L T (ic_owner_subject c) (ic_intent_id c) (t7 db1) = Inr x" "db' = db1"
        using assms(1) cur Some False
        by (auto simp: transition_intent_def bindE_Inr reread_Inr split: if_splits)
      define p where "p = (\<lambda>y :: intent_record. xi_owner_subject y = ic_owner_subject c \<and> xi_intent_id y = ic_intent_id c \<and>
        xi_state_version y = ic_expected_version c)"
      note db1 = update_intent_Inr [OF g(6), folded p_def]
      have t1: "t7_intents (t7 db1) = update_where p (moved_intent c) (t7_intents (t7 db))" by (simp add: db1)
      note rr = reread_updated_intent [where p = p and f = "moved_intent c" and L = L and T = T and r = r,
          OF assms(2) _ _ _ _ _ moved_intent_keys(1) _ _ t1, of "ic_owner_subject c" "ic_intent_id c"]
      have eff: "find_intent L T (ic_owner_subject c) (ic_intent_id c) (t7 db1) =
          valid_row (wf_intent_record L T) (Some (moved_intent c r)) \<and>
        unclashed intent_clash (t7_intents (t7 db1)) \<and>
        set (t7_intents (t7 db1)) = insert (moved_intent c r) (set (t7_intents (t7 db)) - {r})"
        by (rule rr) (use r g(2) in \<open>auto simp: p_def moved_intent_keys\<close>)
      have "x = Some (moved_intent c r) \<and> wf_intent_record L T (moved_intent c r)"
        using eff g(7) by (auto simp: valid_row_def split: if_splits)
      moreover have "db' = on_t7 (\<lambda>t. t\<lparr>t7_intents := t7_intents (t7 db1)\<rparr>) db"
        using g(8) db1 by (simp add: on_t7_def on_tables_def)
      ultimately show ?thesis using r g eff by blast
    qed
  qed
qed

section \<open>Effects of a release\<close>

lemma usage_Inr:
  assumes "record_phase8_release_usage u owner i k at' db = Inr db'"
  shows "\<exists>us. db' = on_t7 (\<lambda>t. t\<lparr>t8_usage := us\<rparr>) db"
proof -
  have "db = on_t7 (\<lambda>t. t\<lparr>t8_usage := t8_usage (t7 db)\<rparr>) db" by (simp add: on_t7_def on_tables_def)
  moreover have "\<exists>us. on_t7 (\<lambda>t. t\<lparr>t8_usage := t8_usage t @ [x]\<rparr>) db =
      on_t7 (\<lambda>t. t\<lparr>t8_usage := us\<rparr>) db" for x
    by (rule exI [of _ "t8_usage (t7 db) @ [x]"]) (simp add: on_t7_def on_tables_def)
  ultimately show ?thesis
    using assms
    by (auto simp: record_phase8_release_usage_def bindE_Inr split: option.splits if_splits)
qed

lemma release_lock_check_Inr:
  assumes "release_lock_check r k db = Inr db1"
  shows "\<exists>p. db1 = on_tables (\<lambda>t. t\<lparr>pt_locks := delete_where p (pt_locks t)\<rparr>) db \<and>
    (\<forall>l \<in> set (pt_locks (st_other db)). p l \<longrightarrow> job_finished (lk_job_id l) db)"
proof -
  have none: "db1 = db \<Longrightarrow> ?thesis"
    by (rule exI [of _ "\<lambda>_. False"]) (simp add: on_tables_def delete_where_def)
  have active: "is_terminal s" if "s \<notin> set ACTIVE_STATES" for s
    using that by (cases s) (simp_all add: ACTIVE_STATES_def)
  show ?thesis
  proof (cases "document_lock (xi_device_id r) (xi_document_id r) (pt_locks (st_other db))")
    case None
    then show ?thesis using assms none by (simp add: release_lock_check_def)
  next
    case l: (Some l)
    show ?thesis
    proof (cases "job_row_of (lk_job_id l) db")
      case None
      then show ?thesis using assms l none by (simp add: release_lock_check_def)
    next
      case (Some holder)
      show ?thesis
      proof (cases "jb_state holder \<in> set ACTIVE_STATES")
        case True
        then show ?thesis using assms l Some none by (simp add: release_lock_check_def bindE_Inr)
      next
        case False
        have fin: "job_finished (lk_job_id l) db" using Some active [OF False] by (simp add: job_finished_def)
        have d: "db1 = on_tables (\<lambda>t. t\<lparr>pt_locks := delete_where (\<lambda>x. (lk_device_id x, lk_document_id x,
            lk_job_id x) = (xi_device_id r, xi_document_id r, lk_job_id l)) (pt_locks t)\<rparr>) db"
          using assms l Some False by (simp add: release_lock_check_def)
        show ?thesis
          unfolding d
          by (intro exI [of _ "\<lambda>x. (lk_device_id x, lk_document_id x, lk_job_id x) =
              (xi_device_id r, xi_document_id r, lk_job_id l)"] conjI refl ballI impI) (use fin in simp)
      qed
    qed
  qed
qed

definition release_lock :: "intent_record \<Rightarrow> release_request \<Rightarrow> lock_row" where
  "release_lock r q = \<lparr>lk_device_id = xi_device_id r, lk_document_id = xi_document_id r,
     lk_job_id = wl_job_id q, lk_created_at = wl_consumed_at q\<rparr>"

lemma take_release_lock_Inr:
  assumes "take_release_lock r q db = Inr db'"
  shows "db' = on_tables (\<lambda>t. t\<lparr>pt_locks := pt_locks t @ [release_lock r q]\<rparr>) db \<and>
    (\<forall>l \<in> set (pt_locks (st_other db)). lock_document l \<noteq> (xi_device_id r, xi_document_id r) \<and>
       lk_job_id l \<noteq> wl_job_id q)"
proof -
  obtain t where "insert_lock (release_lock r q) (st_other db) = Inr t" "db' = db\<lparr>st_other := t\<rparr>"
    using assms by (auto simp: take_release_lock_def release_lock_def split: sum.splits)
  then show ?thesis
    using insert_lock_Inr [of "release_lock r q" "st_other db" t]
    by (simp add: on_tables_def release_lock_def)
qed

definition release_event :: "release_request \<Rightarrow> event_row" where
  "release_event q = \<lparr>ev_job_id = wl_job_id q, ev_sequence = 1, ev_event_type = StateEvent,
     ev_state = Some Queued, ev_progress = None, ev_error_code = None, ev_result = None,
     ev_created_at = wl_consumed_at q\<rparr>"

definition release_row :: "intent_record \<Rightarrow> release_request \<Rightarrow> string \<Rightarrow> job_row" where
  "release_row r q fingerprint = queued_row (wl_consumed_at q) (wl_job_id q) (wl_command_id q)
     (wl_payload_hash q) fingerprint (release_job_request r q)"

lemma insert_released_job_Inr:
  assumes "insert_released_job r q fp db = Inr db'"
  shows "db' = db\<lparr>st_jobs := st_jobs db @ [release_row r q fp],
      st_events := st_events db @ [release_event q]\<rparr>"
  using assms by (simp add: insert_released_job_def release_row_def release_event_def split: if_splits)

lemma consume_consent_Inr:
  assumes "consume_consent q consent db = Inr db'"
  shows "db' = on_t7 (\<lambda>t. t\<lparr>t7_consents := (case consent of None \<Rightarrow> t7_consents t | Some c \<Rightarrow>
     update_where (\<lambda>x. cs_owner_subject x = wl_owner_subject q \<and> Some (cs_consent_id x) = wl_consent_id q
       \<and> cs_state x = Approved \<and> Some (cs_state_version x) = wl_expected_consent_version q)
       (consumed_consent (wl_consumed_at q)) (t7_consents t))\<rparr>) db"
  using assms
  by (auto simp: consume_consent_def Let_def on_t7_def on_tables_def split: option.splits if_splits)

lemma mark_released_Inr:
  assumes "mark_released q db = Inr db'"
  shows "\<exists>p. p = (\<lambda>x. xi_owner_subject x = wl_owner_subject q \<and> xi_intent_id x = wl_intent_id q
      \<and> xi_state_version x = wl_expected_intent_version q \<and> xi_state x \<in> {AwaitingApproval, Ready}) \<and>
    db' = on_t7 (\<lambda>t. t\<lparr>t7_intents := update_where p (released_intent q) (t7_intents t)\<rparr>) db \<and>
    (\<exists>x \<in> set (t7_intents (t7 db)). p x) \<and>
    (\<forall>x \<in> set (t7_intents (t7 db)). xi_released_job_id x \<noteq> Some (wl_job_id q))"
proof -
  let ?p = "\<lambda>x :: intent_record. xi_owner_subject x = wl_owner_subject q \<and> xi_intent_id x = wl_intent_id q
      \<and> xi_state_version x = wl_expected_intent_version q \<and> xi_state x \<in> {AwaitingApproval, Ready}"
  have c: "count_where ?p (t7_intents (t7 db)) = 1"
    "db' = on_t7 (\<lambda>t. t\<lparr>t7_intents := update_where ?p (released_intent q) (t7_intents t)\<rparr>) db"
    "select1 (\<lambda>x. xi_released_job_id x = Some (wl_job_id q)) (t7_intents (t7 db)) = None"
    using assms by (simp_all add: mark_released_def Let_def split: if_splits)
  have "\<exists>x \<in> set (t7_intents (t7 db)). ?p x"
  proof (rule ccontr)
    assume "\<not> ?thesis"
    then have "count_where ?p (t7_intents (t7 db)) = 0" by (auto simp: count_where_def filter_empty_conv)
    with c(1) show False by simp
  qed
  then show ?thesis using c by (auto simp: select1_None)
qed

lemma release_consent_Inr:
  assumes "release_consent L T r q t = Inr consent"
  shows "case consent of
      None \<Rightarrow> xi_required_assurance r = NoAssurance \<and> wl_consent_id q = None \<and> xi_state r = Ready
    | Some c \<Rightarrow> xi_required_assurance r \<noteq> NoAssurance \<and> wl_consent_id q = Some (cs_consent_id c) \<and>
        wl_expected_consent_version q = Some (cs_state_version c) \<and> c \<in> set (t7_consents t) \<and>
        cs_owner_subject c = wl_owner_subject q \<and> consent_approves r c \<and> cs_intent_id c = xi_intent_id r \<and>
        wf_consent_record L T c \<and> at_or_after T (wl_consumed_at q) (cs_expires_at c) = Inr False"
proof (cases "xi_required_assurance r = NoAssurance")
  case True
  then show ?thesis using assms by (auto simp: release_consent_def bindE_Inr)
next
  case False
  then obtain k v c where kv: "wl_consent_id q = Some k" "wl_expected_consent_version q = Some v"
    and c: "find_consent L T (wl_owner_subject q) k t = Inr (Some c)" "consent = Some c"
      "cs_intent_id c = xi_intent_id r" "consent_approves r c" "cs_state_version c = v"
      "at_or_after T (wl_consumed_at q) (cs_expires_at c) = Inr False"
    using assms
    by (auto simp: release_consent_def bindE_Inr consent_approves_def split: option.splits)
  then show ?thesis using find_consent_Some [OF c(1)] False by auto
qed

text \<open>What a first release does, all of it in one transaction.\<close>

definition kept_by_release :: "'z phase7_tables \<Rightarrow> 'z phase7_tables \<Rightarrow> bool" where
  "kept_by_release t t' \<longleftrightarrow> t7_evidence t' = t7_evidence t \<and> t7_recoveries t' = t7_recoveries t
     \<and> t7_checkpoints t' = t7_checkpoints t \<and> t7_plans t' = t7_plans t \<and> t7_receipts t' = t7_receipts t"

definition releases ::
  "'z phase7_db \<Rightarrow> 'z phase7_db \<Rightarrow> intent_record \<Rightarrow> release_request \<Rightarrow> string \<Rightarrow>
   consent_record option \<Rightarrow> bool" where
  "releases db db' r q fp consent \<longleftrightarrow>
     st_jobs db' = st_jobs db @ [release_row r q fp] \<and> select1 (release_clash r q) (st_jobs db) = None
     \<and> st_events db' = st_events db @ [release_event q]
     \<and> same_presence db db' \<and> st_snapshots db' = st_snapshots db
     \<and> pt_receipts (st_other db') = pt_receipts (st_other db)
     \<and> (\<exists>p. pt_locks (st_other db') = delete_where p (pt_locks (st_other db)) @ [release_lock r q]
          \<and> (\<forall>l \<in> set (pt_locks (st_other db)). p l \<longrightarrow> job_finished (lk_job_id l) db)
          \<and> (\<forall>l \<in> set (delete_where p (pt_locks (st_other db))).
               lock_document l \<noteq> (xi_device_id r, xi_document_id r) \<and> lk_job_id l \<noteq> wl_job_id q))
     \<and> kept_by_release (t7 db) (t7 db')
     \<and> unclashed intent_clash (t7_intents (t7 db'))
     \<and> set (t7_intents (t7 db')) = insert (released_intent q r) (set (t7_intents (t7 db)) - {r})
     \<and> unclashed consent_clash (t7_consents (t7 db'))
     \<and> set (t7_consents (t7 db')) = (case consent of None \<Rightarrow> set (t7_consents (t7 db))
         | Some c \<Rightarrow> insert (consumed_consent (wl_consumed_at q) c) (set (t7_consents (t7 db)) - {c}))"

lemma released_intent_keys:
  "intent_clash (released_intent q a) b = intent_clash a b"
  "xi_owner_subject (released_intent q a) = xi_owner_subject a"
  "xi_intent_id (released_intent q a) = xi_intent_id a"
  by (simp_all add: released_intent_def intent_clash_def)

lemma consumed_consent_keys: "consent_clash (consumed_consent now a) b = consent_clash a b"
  by (simp add: consumed_consent_def consent_clash_def)

lemma release_consents:
  assumes "release_consent L T r q t = Inr consent" "unclashed consent_clash (t7_consents t)"
    and "rows = (case consent of None \<Rightarrow> t7_consents t | Some c \<Rightarrow>
     update_where (\<lambda>x. cs_owner_subject x = wl_owner_subject q \<and> Some (cs_consent_id x) = wl_consent_id q
       \<and> cs_state x = Approved \<and> Some (cs_state_version x) = wl_expected_consent_version q)
       (consumed_consent (wl_consumed_at q)) (t7_consents t))"
  shows "unclashed consent_clash rows \<and> set rows = (case consent of None \<Rightarrow> set (t7_consents t)
    | Some c \<Rightarrow> insert (consumed_consent (wl_consumed_at q) c) (set (t7_consents t) - {c}))"
proof (cases consent)
  case None
  then show ?thesis using assms(2,3) by simp
next
  case (Some c)
  define p where "p = (\<lambda>x :: consent_record. cs_owner_subject x = wl_owner_subject q \<and>
    Some (cs_consent_id x) = wl_consent_id q \<and> cs_state x = Approved \<and>
    Some (cs_state_version x) = wl_expected_consent_version q)"
  have rows: "rows = update_where p (consumed_consent (wl_consumed_at q)) (t7_consents t)"
    using assms(3) Some by (simp add: p_def)
  have c: "c \<in> set (t7_consents t)" "p c" "\<And>x. p x \<Longrightarrow> consent_clash x c"
    using release_consent_Inr [OF assms(1)] Some
    by (auto simp: p_def consent_approves_def consent_clash_def)
  show ?thesis
    unfolding rows Some option.case
    by (intro conjI consent_table.updated [OF assms(2)] consumed_consent_keys
        consent_table.update_one [where p = p, OF assms(2) c(1,2)] c(3))
qed

lemma release_first_cases:
  assumes "release_first L T u r q fp db = Inr ((r', j, ex), db')"
    and "unclashed intent_clash (t7_intents (t7 db))" "unclashed consent_clash (t7_consents (t7 db))"
    and "r \<in> set (t7_intents (t7 db))" "xi_owner_subject r = wl_owner_subject q" "xi_intent_id r = wl_intent_id q"
  shows "\<not> ex \<and> release_times T r q = Inr () \<and> xi_state r \<in> {AwaitingApproval, Ready} \<and>
    (\<forall>s \<in> set (t7_intents (t7 db)). xi_released_job_id s \<noteq> Some (wl_job_id q)) \<and>
    r' = released_intent q r \<and> wf_intent_record L T (released_intent q r) \<and> j = release_row r q fp \<and>
    (\<exists>consent. release_consent L T r q (t7 db) = Inr consent \<and> releases db db' r q fp consent)"
proof -
  obtain consent db1 db2 db3 db4 db5 result where g:
    "xi_state_version r = wl_expected_intent_version q" "release_times T r q = Inr ()"
    "release_consent L T r q (t7 db) = Inr consent" "select1 (release_clash r q) (st_jobs db) = None"
    "release_lock_check r (wl_job_id q) db = Inr db1" "insert_released_job r q fp db1 = Inr db2"
    "consume_consent q consent db2 = Inr db3" "take_release_lock r q db3 = Inr db4"
    "mark_released q db4 = Inr db5"
    "record_phase8_release_usage u (wl_owner_subject q) (wl_intent_id q) (wl_job_id q) (wl_consumed_at q) db5
       = Inr db'"
    "find_intent L T (wl_owner_subject q) (wl_intent_id q) (t7 db') = Inr result"
    "r' = the result" "j = the (get_job (wl_owner_subject q) (wl_job_id q) db')" "\<not> ex"
    using assms(1) unfolding release_first_def bindE_Inr guard_simps by (auto 0 3)
  obtain p where p: "db1 = on_tables (\<lambda>t. t\<lparr>pt_locks := delete_where p (pt_locks t)\<rparr>) db"
    "\<forall>l \<in> set (pt_locks (st_other db)). p l \<longrightarrow> job_finished (lk_job_id l) db"
    using release_lock_check_Inr [OF g(5)] by blast
  note db2 = insert_released_job_Inr [OF g(6)]
  note db3 = consume_consent_Inr [OF g(7)]
  note db4 = take_release_lock_Inr [OF g(8)]
  obtain pi where pi: "pi = (\<lambda>x. xi_owner_subject x = wl_owner_subject q \<and> xi_intent_id x = wl_intent_id q
      \<and> xi_state_version x = wl_expected_intent_version q \<and> xi_state x \<in> {AwaitingApproval, Ready})"
    "db5 = on_t7 (\<lambda>t. t\<lparr>t7_intents := update_where pi (released_intent q) (t7_intents t)\<rparr>) db4"
    "\<exists>x \<in> set (t7_intents (t7 db4)). pi x"
    "\<forall>x \<in> set (t7_intents (t7 db4)). xi_released_job_id x \<noteq> Some (wl_job_id q)"
    using mark_released_Inr [OF g(9)] by blast
  obtain us where us: "db' = on_t7 (\<lambda>t. t\<lparr>t8_usage := us\<rparr>) db5" using usage_Inr [OF g(10)] by blast
  have i4: "t7_intents (t7 db4) = t7_intents (t7 db)"
    by (simp add: db4 [THEN conjunct1] db3 db2 p(1) on_t7_def)
  have pr: "pi r"
  proof -
    obtain x where x: "x \<in> set (t7_intents (t7 db))" "pi x" using pi(3) by (auto simp: i4)
    then have "intent_clash x r" using assms(6) by (simp add: pi(1) intent_clash_def)
    then have "x = r" using intent_table.unique [OF assms(2) x(1) assms(4)] by blast
    with x show ?thesis by simp
  qed
  have t': "t7_intents (t7 db') = update_where pi (released_intent q) (t7_intents (t7 db))"
    by (simp add: us pi(2) i4)
  have eff: "find_intent L T (wl_owner_subject q) (wl_intent_id q) (t7 db') =
      valid_row (wf_intent_record L T) (Some (released_intent q r)) \<and>
    unclashed intent_clash (t7_intents (t7 db')) \<and>
    set (t7_intents (t7 db')) = insert (released_intent q r) (set (t7_intents (t7 db)) - {r})"
    by (rule reread_updated_intent [where p = pi, OF assms(2,4,5,6) pr _ _ _ _ t'])
      (use assms(5,6) in \<open>auto simp: pi(1) released_intent_keys\<close>)
  have cons: "unclashed consent_clash (t7_consents (t7 db')) \<and> set (t7_consents (t7 db')) =
      (case consent of None \<Rightarrow> set (t7_consents (t7 db))
       | Some c \<Rightarrow> insert (consumed_consent (wl_consumed_at q) c) (set (t7_consents (t7 db)) - {c}))"
    by (rule release_consents [OF g(3) assms(3)])
      (simp add: us pi(2) db4 [THEN conjunct1] db3 db2 p(1) on_t7_def on_tables_def split: option.split)
  have jobs: "st_jobs db' = st_jobs db @ [release_row r q fp]"
    "st_events db' = st_events db @ [release_event q]" "same_presence db db'"
    "st_snapshots db' = st_snapshots db" "pt_receipts (st_other db') = pt_receipts (st_other db)"
    "pt_locks (st_other db') = delete_where p (pt_locks (st_other db)) @ [release_lock r q]"
    "kept_by_release (t7 db) (t7 db')"
    by (simp_all add: us pi(2) db4 [THEN conjunct1] db3 db2 p(1) on_t7_def on_tables_def same_presence_def
        kept_by_release_def)
  have fresh: "\<forall>l \<in> set (delete_where p (pt_locks (st_other db))).
      lock_document l \<noteq> (xi_device_id r, xi_document_id r) \<and> lk_job_id l \<noteq> wl_job_id q"
    using db4 by (simp add: db3 db2 p(1) on_t7_def on_tables_def)
  have "get_job (wl_owner_subject q) (wl_job_id q) db' = Some (release_row r q fp)"
  proof -
    have "select1 (\<lambda>x. jb_owner_subject x = wl_owner_subject q \<and> jb_job_id x = wl_job_id q) (st_jobs db) = None"
      using g(4) by (auto simp: select1_None release_clash_def)
    then show ?thesis
      by (simp add: get_job_def jobs(1) select1_append release_row_def queued_row_def release_job_request_def)
  qed
  moreover have "result = Some (released_intent q r) \<and> wf_intent_record L T (released_intent q r)"
    using eff g(11) by (auto simp: valid_row_def split: if_splits)
  moreover have "releases db db' r q fp consent"
    unfolding releases_def using jobs g(4) p(2) fresh eff cons by blast
  moreover have "xi_state r \<in> {AwaitingApproval, Ready}" using pr by (simp add: pi(1))
  ultimately show ?thesis using g pi(4) by (auto simp: i4)
qed

lemma release_intent_cases:
  assumes "release_intent L T u q db = Inr (x, db')"
    and "unclashed intent_clash (t7_intents (t7 db))" "unclashed consent_clash (t7_consents (t7 db))"
  shows "case x of
      None \<Rightarrow> db' = db \<and> find_intent L T (wl_owner_subject q) (wl_intent_id q) (t7 db) = Inr None
    | Some (r', j, ex) \<Rightarrow>
        \<exists>r fp. find_intent L T (wl_owner_subject q) (wl_intent_id q) (t7 db) = Inr (Some r) \<and>
          wl_kind q = intent_action_name (xi_action r) \<and> require_job_binding r (wl_payload q) = Inr () \<and>
          require_phase8_release_binding r (wl_consent_id q) (wl_payload q) (t7 db) = Inr () \<and>
          (if ex then xi_state r = Released \<and> r' = r \<and> xi_released_job_id r = Some (wl_job_id q) \<and>
             xi_consent_id r = wl_consent_id q \<and> get_job (wl_owner_subject q) (wl_job_id q) db = Some j \<and>
             (\<exists>us. db' = on_t7 (\<lambda>t. t\<lparr>t8_usage := us\<rparr>) db)
           else release_times T r q = Inr () \<and> xi_state r \<in> {AwaitingApproval, Ready} \<and>
             (\<forall>s \<in> set (t7_intents (t7 db)). xi_released_job_id s \<noteq> Some (wl_job_id q)) \<and>
             r' = released_intent q r \<and> wf_intent_record L T r' \<and> j = release_row r q fp \<and>
             (\<exists>consent. release_consent L T r q (t7 db) = Inr consent \<and> releases db db' r q fp consent))"
proof -
  obtain pj fp intent where g: "release_arguments L T q = Inr (pj, fp)"
    "find_intent L T (wl_owner_subject q) (wl_intent_id q) (t7 db) = Inr intent"
    using assms(1) by (auto simp: release_intent_def bindE_Inr)
  show ?thesis
  proof (cases intent)
    case None
    then show ?thesis using assms(1) g by (auto simp: release_intent_def bindE_Inr)
  next
    case (Some r)
    note r = find_intent_Some [OF g(2) [unfolded Some]]
    obtain y where y: "wl_kind q = intent_action_name (xi_action r)" "require_job_binding r (wl_payload q) = Inr ()"
      "require_phase8_release_binding r (wl_consent_id q) (wl_payload q) (t7 db) = Inr ()" "x = Some y"
      "(if xi_state r = Released then release_replay L u r q pj fp db
        else release_first L T u r q fp db) = Inr (y, db')"
      using assms(1) g Some by (auto simp: release_intent_def bindE_Inr)
    show ?thesis
    proof (cases "xi_state r = Released")
      case True
      then obtain j where j: "xi_released_job_id r = Some (wl_job_id q)" "xi_consent_id r = wl_consent_id q"
        "get_job (wl_owner_subject q) (wl_job_id q) db = Some j" "y = (r, j, True)"
        "record_phase8_release_usage u (wl_owner_subject q) (wl_intent_id q) (wl_job_id q) (jb_created_at j) db
           = Inr db'"
        using y(5) by (auto simp: release_replay_def bindE_Inr split: option.splits)
      then show ?thesis using usage_Inr [OF j(5)] y True g Some by auto
    next
      case False
      obtain r' j ex where yy: "y = (r', j, ex)" by (cases y) auto
      have f: "release_first L T u r q fp db = Inr ((r', j, ex), db')" using y(5) False yy by simp
      have "xi_owner_subject r = wl_owner_subject q" "xi_intent_id r = wl_intent_id q"
        "r \<in> set (t7_intents (t7 db))" using r by simp_all
      from release_first_cases [OF f assms(2,3) this(3,1,2)] show ?thesis
        using y yy g Some by auto
    qed
  qed
qed

text \<open>A release is a step of the program tables: it creates one queued write job and its lock.\<close>

lemma release_row_keys:
  "jb_job_id (release_row r q fp) = wl_job_id q" "jb_command_id (release_row r q fp) = wl_command_id q"
  "request_key (release_row r q fp) = (wl_owner_subject q, xi_device_id r, wl_idempotency_key q)"
  "jb_state (release_row r q fp) = Queued" "jb_state_version (release_row r q fp) = 0"
  "jb_owner_subject (release_row r q fp) = wl_owner_subject q"
  "jb_device_id (release_row r q fp) = xi_device_id r" "jb_kind (release_row r q fp) = wl_kind q"
  "jb_effect_class (release_row r q fp) = WriteEffect" "jb_payload (release_row r q fp) = wl_payload q"
  "jb_deadline_at (release_row r q fp) = Some (wl_deadline_at q)"
  by (simp_all add: release_row_def queued_row_def release_job_request_def request_key_def)

lemma released_job_row:
  assumes "releases db db' r q fp consent"
  shows "job_row_of (wl_job_id q) db = None \<and> job_row_of (wl_job_id q) db' = Some (release_row r q fp) \<and>
    (\<forall>k. k \<noteq> wl_job_id q \<longrightarrow> job_row_of k db' = job_row_of k db)"
proof -
  have "job_row_of (wl_job_id q) db = None"
    using assms by (auto simp: releases_def job_row_of_def select1_None release_clash_def)
  then show ?thesis
    using assms by (auto simp: releases_def job_row_of_def select1_append release_row_keys split: option.splits)
qed

lemma release_effect:
  assumes "releases db db' r q fp consent" "store_ok db"
  shows "step_effect db db'"
proof -
  have jb: "jobs_ok db" using assms(2) by (simp add: store_ok_def)
  note rel = assms(1) [unfolded releases_def]
  have free: "\<forall>j \<in> set (st_jobs db). \<not> release_clash r q j" using rel by (simp add: select1_None)
  have ev: "new_event (wl_job_id q) (st_events db) (release_event q)"
  proof -
    have "wl_job_id q \<notin> jb_job_id ` set (st_jobs db)" using free by (auto simp: release_clash_def)
    then have "wl_job_id q \<notin> ev_job_id ` set (st_events db)" using jb by (auto simp: jobs_ok_def)
    then have "filter (\<lambda>e. ev_job_id e = wl_job_id q) (st_events db) = []" by (force simp: filter_empty_conv)
    then show ?thesis by (simp add: new_event_def release_event_def next_event_sequence_def)
  qed
  have delta: "job_delta db db'"
    by (rule delta_created [of _ _ "release_row r q fp" "release_event q"])
      (use rel free ev in \<open>auto simp: release_row_keys release_clash_def release_event_def\<close>)
  have ok: "store_ok db'" using delta_store_ok [OF delta] rel assms(2) by blast
  note row = released_job_row [OF assms(1)]
  have fin: "job_finished k db'" if "job_finished k db" for k
    using that row by (cases "k = wl_job_id q") (auto simp: job_finished_def)
  have "takes_lock db db' [release_lock r q]"
  proof -
    obtain p where "pt_locks (st_other db') = delete_where p (pt_locks (st_other db)) @ [release_lock r q]"
      "\<forall>l \<in> set (pt_locks (st_other db)). p l \<longrightarrow> job_finished (lk_job_id l) db"
      "\<forall>l \<in> set (delete_where p (pt_locks (st_other db))).
               lock_document l \<noteq> (xi_device_id r, xi_document_id r) \<and> lk_job_id l \<noteq> wl_job_id q"
      using rel by blast
    then show ?thesis
      unfolding takes_lock_def by (intro exI [of _ p]) (use fin row in \<open>auto simp: release_lock_def\<close>)
  qed
  moreover have "commits_from db db' {}"
    unfolding commits_from_def using row release_row_keys(4) [of r q fp]
    by (metis option.inject job_state.distinct(13))
  ultimately show ?thesis using delta ok rel by (auto simp: step_effect_def)
qed

section \<open>Effects of the operations on consents\<close>

lemma insert_consent_binding_Inr:
  assumes "insert_consent_binding q t = Inr t'"
  shows "\<exists>bs. t' = t\<lparr>t8_consent_bindings := bs\<rparr>"
proof (cases "intent_binding (cs_owner_subject q) (cs_intent_id q) t")
  case None
  then have "t' = t\<lparr>t8_consent_bindings := t8_consent_bindings t\<rparr>"
    using assms by (simp add: insert_consent_binding_def)
  then show ?thesis by blast
next
  case (Some b)
  then show ?thesis using assms by (auto simp: insert_consent_binding_def split: if_splits)
qed

lemma create_consent_cases:
  assumes "create_consent L T v db = Inr ((r, dup), db')"
  shows "if dup then db' = db \<and> r \<in> set (t7_consents (t7 db))
    else wf_consent_record L T r \<and> select1 (consent_clash r) (t7_consents (t7 db)) = None \<and>
      cs_state r = Requested \<and> cs_state_version r = 0 \<and>
      (\<exists>i \<in> set (t7_intents (t7 db)). consent_of_intent r i) \<and>
      (\<exists>bs. db' = on_t7 (\<lambda>t. t\<lparr>t7_consents := t7_consents t @ [r], t8_consent_bindings := bs\<rparr>) db)"
proof -
  obtain q intent where g: "validated decode_consent_record (wf_consent_record L T) v = Inr q"
    "cs_state q = Requested" "cs_state_version q = 0" "cs_required_assurance q \<noteq> NoAssurance"
    "find_intent L T (cs_owner_subject q) (cs_intent_id q) (t7 db) = Inr intent"
    "(case intent of None \<Rightarrow> False | Some r \<Rightarrow>
       xi_intent_version r = cs_intent_version q \<and> xi_intent_digest r = cs_intent_digest q
       \<and> xi_required_assurance r = cs_required_assurance q)"
    and rest: "(if select1 (consent_clash q) (t7_consents (t7 db)) \<noteq> None
       \<or> \<not> opt_ok (\<lambda>k. select1 (\<lambda>d. dv_device_id d = k) (st_devices db) \<noteq> None) (cs_decision_device_id q)
      then bindE (replay_or ''consent_conflict'' (same_consent_request q)
                    (consent_conflict_row L T q (t7 db))) (\<lambda>r. Inr ((r, True), db))
      else bindE (insert_consent_binding q ((t7 db)\<lparr>t7_consents := t7_consents (t7 db) @ [q]\<rparr>)) (\<lambda>t.
           Inr ((q, False), on_t7 (\<lambda>_. t) db))) = Inr ((r, dup), db')"
    using assms unfolding create_consent_def bindE_Inr guard_simps by blast
  obtain i where i: "intent = Some i" using g(6) by (cases intent) auto
  have ci: "\<exists>i \<in> set (t7_intents (t7 db)). consent_of_intent q i"
    using find_intent_Some [OF g(5) [unfolded i]] g(4,6) i by (auto simp: consent_of_intent_def)
  show ?thesis
  proof (cases dup)
    case True
    then show ?thesis using rest
      by (auto simp: bindE_Inr consent_conflict_row_def split: if_splits dest: select1_Some)
  next
    case False
    then have c: "select1 (consent_clash q) (t7_consents (t7 db)) = None" "r = q"
      "\<exists>t. insert_consent_binding q ((t7 db)\<lparr>t7_consents := t7_consents (t7 db) @ [q]\<rparr>) = Inr t
         \<and> db' = on_t7 (\<lambda>_. t) db"
      using rest by (auto simp: bindE_Inr split: if_splits)
    obtain bs where "db' = on_t7 (\<lambda>_. (t7 db)\<lparr>t7_consents := t7_consents (t7 db) @ [q], t8_consent_bindings := bs\<rparr>) db"
      using c(3) insert_consent_binding_Inr by blast
    then have "db' = on_t7 (\<lambda>t. t\<lparr>t7_consents := t7_consents t @ [q], t8_consent_bindings := bs\<rparr>) db"
      by (simp add: on_t7_def on_tables_def)
    then show ?thesis using False c g ci by (auto simp: validated_Inr)
  qed
qed

text \<open>The candidate of a transition is the stored consent with the fields of the decision.\<close>

lemma consent_lookups:
  "jlookup (dump_consent_record r) ''schema_version'' = Some (JStr ''cad.consent/1'')"
  "jlookup (dump_consent_record r) ''consent_id'' = Some (JStr (cs_consent_id r))"
  "jlookup (dump_consent_record r) ''consent_version'' = Some (JInt (cs_consent_version r))"
  "jlookup (dump_consent_record r) ''owner_subject'' = Some (JStr (cs_owner_subject r))"
  "jlookup (dump_consent_record r) ''intent_id'' = Some (JStr (cs_intent_id r))"
  "jlookup (dump_consent_record r) ''intent_version'' = Some (JInt (cs_intent_version r))"
  "jlookup (dump_consent_record r) ''intent_digest'' = Some (JStr (cs_intent_digest r))"
  "jlookup (dump_consent_record r) ''required_assurance'' = Some (JStr (assurance_name (cs_required_assurance r)))"
  "jlookup (dump_consent_record r) ''challenge_nonce_hash'' = Some (JStr (cs_challenge_nonce_hash r))"
  "jlookup (dump_consent_record r) ''requested_at'' = Some (JStr (cs_requested_at r))"
  "jlookup (dump_consent_record r) ''expires_at'' = Some (JStr (cs_expires_at r))"
  "jlookup (dump_consent_record r) ''consumed_at'' = Some (opt_json JStr (cs_consumed_at r))"
  by (simp_all add: dump_consent_record_def jlookup_def)

lemma consent_state_names: "map_of CONSENT_STATES s = Some x \<Longrightarrow> s = consent_state_name x"
  by (auto simp: CONSENT_STATES_def split: if_splits)

lemma decode_candidate:
  assumes "decode_consent_record (consent_candidate c r) = Some d"
  shows "d = moved_consent d r \<and> consent_state_name (cs_state d) = kc_target c"
  using assms
  by (auto simp: decode_consent_record_def consent_candidate_def req_def dflt_def consent_lookups as_enum_def
      as_version_def moved_consent_def bind_eq_Some_conv model_dict_def dest: consent_state_names)

lemma moved_consent_keys:
  "consent_clash (moved_consent d a) b = consent_clash a b"
  "cs_owner_subject (moved_consent d a) = cs_owner_subject a" "cs_consent_id (moved_consent d a) = cs_consent_id a"
  by (simp_all add: moved_consent_def consent_clash_def)

lemma update_consent_Inr:
  assumes "update_consent c d db = Inr db'"
  shows "db' = on_t7 (\<lambda>t. t\<lparr>t7_consents := update_where (\<lambda>x. cs_owner_subject x = kc_owner_subject c \<and>
    cs_consent_id x = kc_consent_id c \<and> cs_state_version x = kc_expected_version c) (moved_consent d)
    (t7_consents t)\<rparr>) db"
  using assms by (simp add: update_consent_def Let_def split: if_splits)

lemma transition_consent_cases:
  assumes "transition_consent L T c db = Inr (x, db')" "unclashed consent_clash (t7_consents (t7 db))"
  shows "(db' = db \<and> (x = None \<or> (\<exists>r \<in> set (t7_consents (t7 db)). x = Some r))) \<or>
    (\<exists>r \<in> set (t7_consents (t7 db)). \<exists>d. cs_owner_subject r = kc_owner_subject c \<and>
       cs_consent_id r = kc_consent_id c \<and> d = moved_consent d r \<and>
       consent_state_name (cs_state d) = kc_target c \<and>
       cs_state d \<in> set (consent_transitions (cs_state r)) \<and> consent_times T c r = Inr () \<and>
       x = Some d \<and> wf_consent_record L T d \<and>
       (\<exists>rows. db' = on_t7 (\<lambda>t. t\<lparr>t7_consents := rows\<rparr>) db \<and> unclashed consent_clash rows \<and>
          set rows = insert d (set (t7_consents (t7 db)) - {r})))"
proof -
  obtain current where cur: "find_consent L T (kc_owner_subject c) (kc_consent_id c) (t7 db) = Inr current"
    using assms(1) by (auto simp: transition_consent_def bindE_Inr)
  show ?thesis
  proof (cases current)
    case None
    then show ?thesis using assms(1) cur by (auto simp: transition_consent_def bindE_Inr)
  next
    case (Some r)
    note r = find_consent_Some [OF cur [unfolded Some]]
    show ?thesis
    proof (cases "consent_state_name (cs_state r) = kc_target c")
      case True
      then show ?thesis using assms(1) cur Some r by (auto simp: transition_consent_def bindE_Inr)
    next
      case False
      obtain d db1 where g: "decode_consent_record (consent_candidate c r) = Some d" "wf_consent_record L T d"
        "kc_target c \<in> set (map consent_state_name (consent_transitions (cs_state r)))"
        "cs_state_version r = kc_expected_version c" "consent_times T c r = Inr ()"
        "update_consent c d db = Inr db1"
        "find_consent L T (kc_owner_subject c) (kc_consent_id c) (t7 db1) = Inr x" "db' = db1"
        using assms(1) cur Some False
        by (auto simp: transition_consent_def bindE_Inr reread_Inr validated_Inr split: if_splits)
      note d = decode_candidate [OF g(1)]
      define p where "p = (\<lambda>y :: consent_record. cs_owner_subject y = kc_owner_subject c \<and>
        cs_consent_id y = kc_consent_id c \<and> cs_state_version y = kc_expected_version c)"
      note db1 = update_consent_Inr [OF g(6), folded p_def]
      have t1: "t7_consents (t7 db1) = update_where p (moved_consent d) (t7_consents (t7 db))" by (simp add: db1)
      have u: "unclashed consent_clash (t7_consents (t7 db1))"
        unfolding t1 by (rule consent_table.updated [OF assms(2) moved_consent_keys(1)])
      have s: "set (t7_consents (t7 db1)) = insert (moved_consent d r) (set (t7_consents (t7 db)) - {r})"
        unfolding t1
        by (rule consent_table.update_one [where p = p, OF assms(2)])
          (use r g(4) in \<open>auto simp: p_def consent_clash_def\<close>)
      have "select1 (\<lambda>y. cs_owner_subject y = kc_owner_subject c \<and> cs_consent_id y = kc_consent_id c)
          (t7_consents (t7 db1)) = Some (moved_consent d r)"
        by (rule consent_table.select_key [OF u])
          (use s r in \<open>auto simp: consent_clash_def moved_consent_keys\<close>)
      then have "x = Some (moved_consent d r)"
        using g(7) by (auto simp: find_consent_def valid_row_def split: if_splits)
      moreover have "db' = on_t7 (\<lambda>t. t\<lparr>t7_consents := t7_consents (t7 db1)\<rparr>) db"
        using g(8) db1 by (simp add: on_t7_def on_tables_def)
      moreover have "cs_state d \<in> set (consent_transitions (cs_state r))"
      proof -
        obtain s where "s \<in> set (consent_transitions (cs_state r))" "consent_state_name s = kc_target c"
          using g(3) by auto
        moreover have "s' = s''" if "consent_state_name s' = consent_state_name s''" for s' s''
          using that by (cases s'; cases s'') simp_all
        ultimately show ?thesis using d by metis
      qed
      ultimately show ?thesis using r g d u s by metis
    qed
  qed
qed

section \<open>Effects on evidence, recovery cases and rollbacks\<close>

lemma foldl_max_ge: "(n :: int) \<le> foldl max n ns \<and> (\<forall>m \<in> set ns. m \<le> foldl max n ns)"
proof (induction ns arbitrary: n)
  case (Cons a ns)
  from Cons [of "max n a"] show ?case by auto
qed simp

lemma latest_sequence_bound:
  assumes "case latest_sequence k src es of None \<Rightarrow> True | Some m \<Rightarrow> m < n"
    and "e \<in> set es" "xe_job_id e = k" "xe_source e = src"
  shows "xe_source_sequence e < n"
proof -
  let ?ns = "map xe_source_sequence (filter (\<lambda>e. xe_job_id e = k \<and> xe_source e = src) es)"
  have mem: "xe_source_sequence e \<in> set ?ns" using assms(2-4) by auto
  then obtain a ns where ns: "?ns = a # ns" by (cases ?ns) auto
  then have "foldl max a ns < n" using assms(1) by (simp add: latest_sequence_def)
  moreover have "xe_source_sequence e \<le> foldl max a ns"
    using mem unfolding ns using foldl_max_ge [of a ns] by auto
  ultimately show ?thesis by simp
qed

lemma evidence_insert_cases:
  assumes "insert_evidence L T v db = Inr ((e, dup), db')"
  shows "if dup then db' = db \<and> e \<in> set (t7_evidence (t7 db))
    else wf_evidence_event L T e \<and> select1 (evidence_clash e) (t7_evidence (t7 db)) = None \<and>
      get_job (xe_owner_subject e) (xe_job_id e) db \<noteq> None \<and>
      (\<forall>x \<in> set (t7_evidence (t7 db)). xe_job_id x = xe_job_id e \<and> xe_source x = xe_source e \<longrightarrow>
         xe_source_sequence x < xe_source_sequence e) \<and>
      db' = on_t7 (\<lambda>t. t\<lparr>t7_evidence := t7_evidence t @ [e]\<rparr>) db"
proof -
  obtain q existing where g: "decode_evidence_event v = Some q" "wf_evidence_event L T q"
    "get_job (xe_owner_subject q) (xe_job_id q) db \<noteq> None"
    "evidence_conflict_row L T q (t7 db) = Inr existing"
    and rest: "(case existing of
      Some e \<Rightarrow>
        bindE (guard (same_dump dump_evidence_event e q) ''evidence_conflict'') (\<lambda>_. Inr ((e, True), db))
    | None \<Rightarrow>
        bindE (guard (case latest_sequence (xe_job_id q) (xe_source q) (t7_evidence (t7 db)) of
                 None \<Rightarrow> True | Some n \<Rightarrow> n < xe_source_sequence q) ''evidence_sequence_rejected'') (\<lambda>_.
        Inr ((q, False), on_t7 (\<lambda>t. t\<lparr>t7_evidence := t7_evidence t @ [q]\<rparr>) db))) = Inr ((e, dup), db')"
    using assms unfolding insert_evidence_def bindE_Inr guard_simps validated_Inr by blast
  show ?thesis
  proof (cases existing)
    case None
    then have c: "case latest_sequence (xe_job_id q) (xe_source q) (t7_evidence (t7 db)) of
        None \<Rightarrow> True | Some n \<Rightarrow> n < xe_source_sequence q" "e = q" "\<not> dup"
      "db' = on_t7 (\<lambda>t. t\<lparr>t7_evidence := t7_evidence t @ [q]\<rparr>) db"
      using rest by (auto simp: bindE_Inr)
    then show ?thesis
      using g None latest_sequence_bound [OF c(1)] by (auto simp: evidence_conflict_row_def)
  next
    case (Some x)
    then show ?thesis
      using rest g(4) by (auto simp: bindE_Inr evidence_conflict_row_def dest: select1_Some)
  qed
qed

lemma create_case_cases:
  assumes "create_recovery_case L T v db = Inr ((r, dup), db')"
  shows "if dup then db' = db \<and> r \<in> set (t7_recoveries (t7 db))
    else wf_recovery_record L T r \<and> select1 (recovery_clash r) (t7_recoveries (t7 db)) = None \<and>
      rk_state r \<noteq> CaseResolved \<and> db' = on_t7 (\<lambda>t. t\<lparr>t7_recoveries := t7_recoveries t @ [r]\<rparr>) db"
  using assms
  by (auto simp: create_recovery_case_def insert_recovery_def bindE_Inr validated_Inr find_recovery_def
      recovery_clash_def [abs_def] split: if_splits dest: select1_Some)

lemma recovery_lookups:
  "jlookup (dump_recovery_record r) ''schema_version'' = Some (JStr ''cad.recovery-case/1'')"
  "jlookup (dump_recovery_record r) ''case_id'' = Some (JStr (rk_case_id r))"
  "jlookup (dump_recovery_record r) ''owner_subject'' = Some (JStr (rk_owner_subject r))"
  "jlookup (dump_recovery_record r) ''execution_binding_digest'' = Some (JStr (rk_execution_binding_digest r))"
  "jlookup (dump_recovery_record r) ''intent_id'' = Some (JStr (rk_intent_id r))"
  "jlookup (dump_recovery_record r) ''consent_id'' = Some (opt_json JStr (rk_consent_id r))"
  "jlookup (dump_recovery_record r) ''job_id'' = Some (JStr (rk_job_id r))"
  "jlookup (dump_recovery_record r) ''receipt_id'' = Some (opt_json JStr (rk_receipt_id r))"
  "jlookup (dump_recovery_record r) ''evidence_event_ids'' = Some (list_json JStr (rk_evidence_event_ids r))"
  "jlookup (dump_recovery_record r) ''missing_evidence'' = Some (list_json JStr (rk_missing_evidence r))"
  "jlookup (dump_recovery_record r) ''latest_query_result'' =
     Some (opt_json dump_recovery_query_result (rk_latest_query_result r))"
  "jlookup (dump_recovery_record r) ''current_state'' = Some (dump_recovery_runtime_state (rk_current_state r))"
  "jlookup (dump_recovery_record r) ''safe_actions'' = Some (list_json JStr (rk_safe_actions r))"
  "jlookup (dump_recovery_record r) ''created_at'' = Some (JStr (rk_created_at r))"
  by (simp_all add: dump_recovery_record_def jlookup_def)

lemma as_opt_text: "as_opt f (JStr s) = map_option Some (f (JStr s))"
  by (simp add: as_opt_def)

lemma decode_resolved:
  assumes "decode_recovery_record (resolved_candidate c r) = Some d"
  shows "d = resolved_case d r \<and> rk_resolution d = Some (zr_resolution c) \<and>
    rk_resolved_at d = Some (zr_resolved_at c)"
  using assms
  by (auto simp: decode_recovery_record_def resolved_candidate_def req_def dflt_def recovery_lookups
      as_enum_def as_version_def resolved_case_def bind_eq_Some_conv model_dict_def as_opt_text
      RECOVERY_STATES_def)

lemma resolve_case_cases:
  assumes "resolve_recovery_case L T c db = Inr (x, db')" "unclashed recovery_clash (t7_recoveries (t7 db))"
  shows "(db' = db \<and> (x = None \<or> (\<exists>r \<in> set (t7_recoveries (t7 db)). x = Some r \<and> rk_state r = CaseResolved \<and>
       same_resolution c r))) \<or>
    (\<exists>r \<in> set (t7_recoveries (t7 db)). \<exists>d. rk_owner_subject r = zr_owner_subject c \<and>
       rk_case_id r = zr_case_id c \<and> rk_state r \<noteq> CaseResolved \<and> d = resolved_case d r \<and> x = Some d \<and>
       wf_recovery_record L T d \<and> rk_resolution d = Some (zr_resolution c) \<and>
       (\<exists>rows. db' = on_t7 (\<lambda>t. t\<lparr>t7_recoveries := rows\<rparr>) db \<and> unclashed recovery_clash rows \<and>
          set rows = insert d (set (t7_recoveries (t7 db)) - {r})))"
proof -
  obtain current where cur: "find_recovery L T (zr_owner_subject c) (zr_case_id c) (t7 db) = Inr current"
    using assms(1) by (auto simp: resolve_recovery_case_def bindE_Inr)
  show ?thesis
  proof (cases current)
    case None
    then show ?thesis using assms(1) cur by (auto simp: resolve_recovery_case_def bindE_Inr)
  next
    case (Some r)
    have r: "r \<in> set (t7_recoveries (t7 db))" "rk_owner_subject r = zr_owner_subject c" "rk_case_id r = zr_case_id c"
      using cur Some by (auto simp: find_recovery_def dest: select1_Some)
    show ?thesis
    proof (cases "rk_state r = CaseResolved")
      case True
      then show ?thesis using assms(1) cur Some r by (auto simp: resolve_recovery_case_def bindE_Inr)
    next
      case False
      obtain d db1 where g: "decode_recovery_record (resolved_candidate c r) = Some d" "wf_recovery_record L T d"
        "rk_resolution_version r = zr_expected_version c" "update_recovery c d db = Inr db1"
        "find_recovery L T (zr_owner_subject c) (zr_case_id c) (t7 db1) = Inr x" "db' = db1"
        using assms(1) cur Some False
        by (auto simp: resolve_recovery_case_def bindE_Inr reread_Inr validated_Inr split: if_splits)
      note d = decode_resolved [OF g(1)]
      define p where "p = (\<lambda>y :: recovery_record. rk_owner_subject y = zr_owner_subject c \<and>
        rk_case_id y = zr_case_id c \<and> rk_resolution_version y = zr_expected_version c \<and>
        rk_state y \<noteq> CaseResolved)"
      have db1: "db1 = on_t7 (\<lambda>t. t\<lparr>t7_recoveries := update_where p (resolved_case d) (t7_recoveries t)\<rparr>) db"
        using g(4) by (simp add: update_recovery_def Let_def p_def split: if_splits)
      have t1: "t7_recoveries (t7 db1) = update_where p (resolved_case d) (t7_recoveries (t7 db))" by (simp add: db1)
      have u: "unclashed recovery_clash (t7_recoveries (t7 db1))"
        unfolding t1 by (rule recovery_table.updated [OF assms(2)]) (simp add: recovery_clash_def resolved_case_def)
      have s: "set (t7_recoveries (t7 db1)) = insert (resolved_case d r) (set (t7_recoveries (t7 db)) - {r})"
        unfolding t1
        by (rule recovery_table.update_one [where p = p, OF assms(2)])
          (use r g(3) False in \<open>auto simp: p_def recovery_clash_def\<close>)
      have "select1 (\<lambda>y. rk_owner_subject y = zr_owner_subject c \<and> rk_case_id y = zr_case_id c)
          (t7_recoveries (t7 db1)) = Some (resolved_case d r)"
        by (rule recovery_table.select_key [OF u])
          (use s r in \<open>auto simp: recovery_clash_def resolved_case_def\<close>)
      then have "x = Some (resolved_case d r)"
        using g(5) by (auto simp: find_recovery_def valid_row_def split: if_splits)
      moreover have "db' = on_t7 (\<lambda>t. t\<lparr>t7_recoveries := t7_recoveries (t7 db1)\<rparr>) db"
        using g(6) db1 by (simp add: on_t7_def on_tables_def)
      ultimately show ?thesis using r g d u s False by metis
    qed
  qed
qed

lemma create_checkpoint_cases:
  assumes "create_checkpoint L T v db = Inr ((k, dup), db')"
  shows "if dup then db' = db \<and> k \<in> set (t7_checkpoints (t7 db))
    else wf_checkpoint_record L T k \<and> select1 (checkpoint_clash k) (t7_checkpoints (t7 db)) = None \<and>
      (\<exists>r. get_receipt (ck_owner_subject k) (ck_original_receipt_id k) db = Some r \<and> checkpoint_of_receipt k r) \<and>
      db' = on_t7 (\<lambda>t. t\<lparr>t7_checkpoints := t7_checkpoints t @ [k]\<rparr>) db"
  using assms
  by (auto simp: create_checkpoint_def bindE_Inr validated_Inr checkpoint_conflict_row_def
      split: if_splits option.splits dest: select1_Some)

lemma create_plan_cases:
  assumes "create_rollback_plan L T v db = Inr ((p, dup), db')"
  shows "if dup then db' = db \<and> p \<in> set (t7_plans (t7 db))
    else wf_plan_record L T p \<and> select1 (plan_clash p) (t7_plans (t7 db)) = None \<and>
      (\<exists>k \<in> set (t7_checkpoints (t7 db)). ck_checkpoint_id k = rp_checkpoint_id p \<and>
         ck_owner_subject k = rp_owner_subject p \<and> plan_of_checkpoint p k) \<and>
      db' = on_t7 (\<lambda>t. t\<lparr>t7_plans := t7_plans t @ [p]\<rparr>) db"
  using assms
  by (auto simp: create_rollback_plan_def bindE_Inr validated_Inr plan_conflict_row_def find_checkpoint_def
      split: if_splits option.splits dest!: select1_Some)

lemma find_plan_Some:
  "find_plan L T owner k t = Inr (Some p) \<Longrightarrow>
   p \<in> set (t7_plans t) \<and> rp_owner_subject p = owner \<and> rp_plan_id p = k \<and> wf_plan_record L T p"
  by (auto simp: find_plan_def dest: select1_Some)

lemma find_checkpoint_Some:
  "find_checkpoint L T owner k t = Inr (Some c) \<Longrightarrow>
   c \<in> set (t7_checkpoints t) \<and> ck_owner_subject c = owner \<and> ck_checkpoint_id c = k \<and>
   wf_checkpoint_record L T c"
  by (auto simp: find_checkpoint_def dest: select1_Some)

lemma insert_receipt_cases:
  assumes "insert_rollback_receipt L T v db = Inr ((q, dup), db')"
  shows "if dup then db' = db \<and> q \<in> set (t7_receipts (t7 db))
    else wf_rollback_receipt L T q \<and> select1 (receipt_clash q) (t7_receipts (t7 db)) = None \<and>
      rollback_job_exists q db \<and>
      (\<exists>p \<in> set (t7_plans (t7 db)). \<exists>k \<in> set (t7_checkpoints (t7 db)). rp_plan_id p = rl_rollback_plan_id q
         \<and> ck_checkpoint_id k = rl_checkpoint_id q \<and> rp_owner_subject p = rl_owner_subject q
         \<and> ck_owner_subject k = rl_owner_subject q \<and> receipt_of_plan q p k) \<and>
      db' = on_t7 (\<lambda>t. t\<lparr>t7_receipts := t7_receipts t @ [q]\<rparr>) db"
proof -
  obtain r plan checkpoint where g: "decode_rollback_receipt v = Some r" "wf_rollback_receipt L T r"
    "find_plan L T (rl_owner_subject r) (rl_rollback_plan_id r) (t7 db) = Inr plan"
    "find_checkpoint L T (rl_owner_subject r) (rl_checkpoint_id r) (t7 db) = Inr checkpoint"
    "case (plan, checkpoint) of (Some p, Some k) \<Rightarrow> rollback_job_exists r db \<and> receipt_of_plan r p k
       | _ \<Rightarrow> False"
    and rest: "(if select1 (receipt_clash r) (t7_receipts (t7 db)) \<noteq> None
      then bindE (replay_or ''rollback_receipt_conflict'' (\<lambda>x. same_dump dump_rollback_receipt x r)
                    (rollback_receipt_conflict_row L T r (t7 db))) (\<lambda>r. Inr ((r, True), db))
      else Inr ((r, False), on_t7 (\<lambda>t. t\<lparr>t7_receipts := t7_receipts t @ [r]\<rparr>) db)) = Inr ((q, dup), db')"
    using assms unfolding insert_rollback_receipt_def bindE_Inr guard_simps validated_Inr by blast
  obtain p k where pk: "plan = Some p" "checkpoint = Some k" "rollback_job_exists r db" "receipt_of_plan r p k"
    using g(5) by (auto split: option.splits)
  note mem = find_plan_Some [OF g(3) [unfolded pk(1)]] find_checkpoint_Some [OF g(4) [unfolded pk(2)]]
  show ?thesis
  proof (cases dup)
    case True
    then show ?thesis
      using rest by (auto simp: bindE_Inr rollback_receipt_conflict_row_def split: if_splits dest: select1_Some)
  next
    case False
    then have "q = r" "select1 (receipt_clash r) (t7_receipts (t7 db)) = None"
      "db' = on_t7 (\<lambda>t. t\<lparr>t7_receipts := t7_receipts t @ [r]\<rparr>) db"
      using rest by (auto simp: bindE_Inr split: if_splits)
    then show ?thesis using False g(2) pk(3,4) mem by auto
  qed
qed

end
