(* ===== verification/Phase7Invariant.thy ===== *)
theory Phase7Invariant
  imports Phase7Log
begin

text \<open>
  Every step of the system keeps \<open>phase7_ok\<close>: one preservation lemma per part of the invariant, on the
  effects of \<open>Phase7Log\<close>.  The contracts of \<open>Systems\<close> are interpreted on the system for settled
  intents, settled consents, resolved cases and the append-only tables.
\<close>

section \<open>Jobs, receipts and locks\<close>

lemma on_t7_effect [intro]: "store_ok db \<Longrightarrow> step_effect db (on_t7 f db)"
  using quiet_effect [of db "on_t7 f db"] same_locks_frees [of "on_t7 f db" db]
  by (simp add: on_t7_def)

lemma same_effect: "store_ok db \<Longrightarrow> step_effect db db"
  using quiet_effect [of db db] same_locks_frees [of db db] by (simp add: quiet_def same_presence_def)

lemma phase7_unclashed:
  "phase7_ok L T db \<Longrightarrow> unclashed intent_clash (t7_intents (t7 db))"
  "phase7_ok L T db \<Longrightarrow> unclashed consent_clash (t7_consents (t7 db))"
  "phase7_ok L T db \<Longrightarrow> unclashed recovery_clash (t7_recoveries (t7 db))"
  "phase7_ok L T db \<Longrightarrow> store_ok db"
  by (simp_all add: phase7_ok_def intents_ok_def consents_ok_def others_ok_def program_ok_def)

lemma phase7_effect:
  assumes "phase7_step L T db db'" "phase7_ok L T db"
  shows "step_effect db db'"
proof -
  note u = phase7_unclashed [OF assms(2)]
  note s = u(4)
  have p: "program_ok db" using assms(2) by (simp add: phase7_ok_def)
  from assms(1) show ?thesis
  proof cases
    case step7_program
    then show ?thesis using program_step_effect p by blast
  next
    case step7_phase8
    then show ?thesis using s by auto
  next
    case (step7_intent v x)
    then show ?thesis using create_intent_cases [of L T v db "fst x" "snd x" db'] s same_effect
      by (auto split: if_splits)
  next
    case (step7_move c x)
    then show ?thesis using transition_intent_cases [OF step7_move u(1)] s same_effect by auto
  next
    case (step7_release w q x)
    from release_intent_cases [OF step7_release(1) u(1,2)] show ?thesis
      using s same_effect release_effect by (auto split: option.splits if_splits)
  next
    case (step7_consent v y)
    then show ?thesis using create_consent_cases [of L T v db "fst y" "snd y" db'] s same_effect
      by (auto split: if_splits)
  next
    case (step7_decide k y)
    then show ?thesis using transition_consent_cases [OF step7_decide u(2)] s same_effect by auto
  next
    case (step7_evidence v z)
    then show ?thesis using evidence_insert_cases [of L T v db "fst z" "snd z" db'] s same_effect
      by (auto split: if_splits)
  next
    case (step7_case v w)
    then show ?thesis using create_case_cases [of L T v db "fst w" "snd w" db'] s same_effect
      by (auto split: if_splits)
  next
    case (step7_resolve rz w)
    then show ?thesis using resolve_case_cases [OF step7_resolve u(3)] s same_effect by auto
  next
    case (step7_checkpoint v k)
    then show ?thesis using create_checkpoint_cases [of L T v db "fst k" "snd k" db'] s same_effect
      by (auto split: if_splits)
  next
    case (step7_plan v k)
    then show ?thesis using create_plan_cases [of L T v db "fst k" "snd k" db'] s same_effect
      by (auto split: if_splits)
  next
    case (step7_receipt v k)
    then show ?thesis using insert_receipt_cases [of L T v db "fst k" "snd k" db'] s same_effect
      by (auto split: if_splits)
  qed
qed

lemma phase7_jobs:
  assumes "step_effect db db'" "store_ok db" "job_row_of k db = Some j" "job_of_intent r j"
  shows "\<exists>j'. job_row_of k db' = Some j' \<and> job_of_intent r j'"
proof -
  obtain j' where "job_row_of k db' = Some j'" "keeps_job j j'"
    using effect_rows [OF assms(1-3)] by blast
  then show ?thesis using assms(4) by (auto simp: job_of_intent_def keeps_job_def job_identity_def)
qed

section \<open>What the tables become\<close>

text \<open>The shapes of a step on the tables of Phase 7, whatever operation made it.\<close>

inductive t7_change :: "pylib \<Rightarrow> iso_reader \<Rightarrow> 'z phase7_db \<Rightarrow> 'z phase7_db \<Rightarrow> bool" for L T db db' where
  change_none: "on_t8 (t7 db) (t7 db') \<Longrightarrow> t7_change L T db db'"
| change_intent: "db' = on_t7 (\<lambda>t. t\<lparr>t7_intents := t7_intents t @ [r]\<rparr>) db \<Longrightarrow> wf_intent_record L T r \<Longrightarrow>
    select1 (intent_clash r) (t7_intents (t7 db)) = None \<Longrightarrow> xi_state r \<noteq> Released \<Longrightarrow> t7_change L T db db'"
| change_moved: "db' = on_t7 (\<lambda>t. t\<lparr>t7_intents := rows\<rparr>) db \<Longrightarrow> unclashed intent_clash rows \<Longrightarrow>
    r \<in> set (t7_intents (t7 db)) \<Longrightarrow> set rows = insert (moved_intent c r) (set (t7_intents (t7 db)) - {r}) \<Longrightarrow>
    ic_target c \<in> set (map intent_state_name (intent_transitions (xi_state r))) \<Longrightarrow>
    wf_intent_record L T (moved_intent c r) \<Longrightarrow> t7_change L T db db'"
| change_released: "releases db db' r q fp consent \<Longrightarrow> r \<in> set (t7_intents (t7 db)) \<Longrightarrow>
    xi_owner_subject r = wl_owner_subject q \<Longrightarrow> xi_state r \<in> {AwaitingApproval, Ready} \<Longrightarrow>
    wl_kind q = intent_action_name (xi_action r) \<Longrightarrow>
    (\<And>s. s \<in> set (t7_intents (t7 db)) \<Longrightarrow> xi_released_job_id s \<noteq> Some (wl_job_id q)) \<Longrightarrow>
    wf_intent_record L T (released_intent q r) \<Longrightarrow> release_consent L T r q (t7 db) = Inr consent \<Longrightarrow>
    timestamp_shape (wl_consumed_at q) \<Longrightarrow> t7_change L T db db'"
| change_consent: "db' = on_t7 (\<lambda>t. t\<lparr>t7_consents := t7_consents t @ [c], t8_consent_bindings := bs\<rparr>) db \<Longrightarrow>
    wf_consent_record L T c \<Longrightarrow> select1 (consent_clash c) (t7_consents (t7 db)) = None \<Longrightarrow>
    cs_state c = Requested \<Longrightarrow> cs_state_version c = 0 \<Longrightarrow> i \<in> set (t7_intents (t7 db)) \<Longrightarrow>
    consent_of_intent c i \<Longrightarrow> t7_change L T db db'"
| change_decided: "db' = on_t7 (\<lambda>t. t\<lparr>t7_consents := rows\<rparr>) db \<Longrightarrow> unclashed consent_clash rows \<Longrightarrow>
    c \<in> set (t7_consents (t7 db)) \<Longrightarrow> d = moved_consent d c \<Longrightarrow>
    set rows = insert d (set (t7_consents (t7 db)) - {c}) \<Longrightarrow>
    cs_state d \<in> set (consent_transitions (cs_state c)) \<Longrightarrow> wf_consent_record L T d \<Longrightarrow> t7_change L T db db'"
| change_evidence: "db' = on_t7 (\<lambda>t. t\<lparr>t7_evidence := t7_evidence t @ [e]\<rparr>) db \<Longrightarrow> wf_evidence_event L T e \<Longrightarrow>
    select1 (evidence_clash e) (t7_evidence (t7 db)) = None \<Longrightarrow>
    (\<And>x. x \<in> set (t7_evidence (t7 db)) \<Longrightarrow> xe_job_id x = xe_job_id e \<Longrightarrow> xe_source x = xe_source e \<Longrightarrow>
       xe_source_sequence x < xe_source_sequence e) \<Longrightarrow> t7_change L T db db'"
| change_case: "db' = on_t7 (\<lambda>t. t\<lparr>t7_recoveries := t7_recoveries t @ [z]\<rparr>) db \<Longrightarrow> wf_recovery_record L T z \<Longrightarrow>
    select1 (recovery_clash z) (t7_recoveries (t7 db)) = None \<Longrightarrow> t7_change L T db db'"
| change_resolved: "db' = on_t7 (\<lambda>t. t\<lparr>t7_recoveries := rows\<rparr>) db \<Longrightarrow> unclashed recovery_clash rows \<Longrightarrow>
    z \<in> set (t7_recoveries (t7 db)) \<Longrightarrow> rk_state z \<noteq> CaseResolved \<Longrightarrow> d = resolved_case d z \<Longrightarrow>
    set rows = insert d (set (t7_recoveries (t7 db)) - {z}) \<Longrightarrow>
    wf_recovery_record L T d \<Longrightarrow> t7_change L T db db'"
| change_checkpoint: "db' = on_t7 (\<lambda>t. t\<lparr>t7_checkpoints := t7_checkpoints t @ [k]\<rparr>) db \<Longrightarrow>
    wf_checkpoint_record L T k \<Longrightarrow> select1 (checkpoint_clash k) (t7_checkpoints (t7 db)) = None \<Longrightarrow>
    t7_change L T db db'"
| change_plan: "db' = on_t7 (\<lambda>t. t\<lparr>t7_plans := t7_plans t @ [p]\<rparr>) db \<Longrightarrow> wf_plan_record L T p \<Longrightarrow>
    select1 (plan_clash p) (t7_plans (t7 db)) = None \<Longrightarrow> k \<in> set (t7_checkpoints (t7 db)) \<Longrightarrow>
    ck_checkpoint_id k = rp_checkpoint_id p \<Longrightarrow> ck_owner_subject k = rp_owner_subject p \<Longrightarrow>
    plan_of_checkpoint p k \<Longrightarrow> t7_change L T db db'"
| change_receipt: "db' = on_t7 (\<lambda>t. t\<lparr>t7_receipts := t7_receipts t @ [n]\<rparr>) db \<Longrightarrow> wf_rollback_receipt L T n \<Longrightarrow>
    select1 (receipt_clash n) (t7_receipts (t7 db)) = None \<Longrightarrow> p \<in> set (t7_plans (t7 db)) \<Longrightarrow>
    k \<in> set (t7_checkpoints (t7 db)) \<Longrightarrow> rp_plan_id p = rl_rollback_plan_id n \<Longrightarrow>
    ck_checkpoint_id k = rl_checkpoint_id n \<Longrightarrow> rp_owner_subject p = rl_owner_subject n \<Longrightarrow>
    ck_owner_subject k = rl_owner_subject n \<Longrightarrow> receipt_of_plan n p k \<Longrightarrow> t7_change L T db db'"

lemma on_t8_refl [simp]: "on_t8 t t"
  by (simp add: on_t8_def)

lemma on_t8_usage [simp]: "on_t8 (t7 db) (t7 (on_t7 (\<lambda>t. t\<lparr>t8_usage := us\<rparr>) db))"
  by (simp add: on_t8_def)

lemma phase7_step_change:
  assumes "phase7_step L T db db'" "phase7_ok L T db"
  shows "t7_change L T db db'"
proof -
  note u = phase7_unclashed [OF assms(2)]
  have same: "t7_change L T db db" by (simp add: change_none)
  from assms(1) show ?thesis
  proof cases
    case step7_program
    then show ?thesis by (simp add: change_none)
  next
    case (step7_phase8 t)
    then show ?thesis by (simp add: change_none)
  next
    case (step7_intent v x)
    then show ?thesis using create_intent_cases [of L T v db "fst x" "snd x" db'] same
      by (auto split: if_splits intro: change_intent)
  next
    case (step7_move c x)
    then show ?thesis using transition_intent_cases [OF step7_move u(1)] same by (auto intro: change_moved)
  next
    case (step7_release w q x)
    show ?thesis
    proof (cases x)
      case None
      then show ?thesis using release_intent_cases [OF step7_release(1) u(1,2)] same by simp
    next
      case (Some y)
      obtain r' j ex where y: "x = Some (r', j, ex)" using Some by (cases y) auto
      obtain r fp where r: "find_intent L T (wl_owner_subject q) (wl_intent_id q) (t7 db) = Inr (Some r)"
        "wl_kind q = intent_action_name (xi_action r)"
        "(if ex then xi_state r = Released \<and> r' = r \<and> xi_released_job_id r = Some (wl_job_id q) \<and>
             xi_consent_id r = wl_consent_id q \<and> get_job (wl_owner_subject q) (wl_job_id q) db = Some j \<and>
             (\<exists>us. db' = on_t7 (\<lambda>t. t\<lparr>t8_usage := us\<rparr>) db)
           else release_times T r q = Inr () \<and> xi_state r \<in> {AwaitingApproval, Ready} \<and>
             (\<forall>s \<in> set (t7_intents (t7 db)). xi_released_job_id s \<noteq> Some (wl_job_id q)) \<and>
             r' = released_intent q r \<and> wf_intent_record L T r' \<and> j = release_row r q fp \<and>
             (\<exists>consent. release_consent L T r q (t7 db) = Inr consent \<and> releases db db' r q fp consent))"
        using release_intent_cases [OF step7_release(1) u(1,2)] unfolding y option.case prod.case by blast
      note m = find_intent_Some [OF r(1)]
      show ?thesis
      proof (cases ex)
        case True
        then obtain us where us: "db' = on_t7 (\<lambda>t. t\<lparr>t8_usage := us\<rparr>) db" using r(3) by auto
        show ?thesis unfolding us by (rule change_none) (rule on_t8_usage)
      next
        case False
        then obtain consent where "release_consent L T r q (t7 db) = Inr consent" "releases db db' r q fp consent"
          using r(3) by auto
        then show ?thesis using change_released [of db db' r q fp consent L T] r m False step7_release(2) by auto
      qed
    qed
  next
    case (step7_consent v y)
    then show ?thesis using create_consent_cases [of L T v db "fst y" "snd y" db'] same
      by (auto split: if_splits intro: change_consent)
  next
    case (step7_decide k y)
    from transition_consent_cases [OF step7_decide u(2)] show ?thesis
      using same by (elim disjE) (blast intro: change_decided)+
  next
    case (step7_evidence v z)
    then show ?thesis using evidence_insert_cases [of L T v db "fst z" "snd z" db'] same
      by (auto split: if_splits intro: change_evidence)
  next
    case (step7_case v w)
    then show ?thesis using create_case_cases [of L T v db "fst w" "snd w" db'] same
      by (auto split: if_splits intro: change_case)
  next
    case (step7_resolve rz w)
    from resolve_case_cases [OF step7_resolve u(3)] show ?thesis
      using same by (elim disjE) (blast intro: change_resolved)+
  next
    case (step7_checkpoint v k)
    then show ?thesis using create_checkpoint_cases [of L T v db "fst k" "snd k" db'] same
      by (auto split: if_splits intro: change_checkpoint)
  next
    case (step7_plan v k)
    then show ?thesis using create_plan_cases [of L T v db "fst k" "snd k" db'] same
      by (auto split: if_splits intro: change_plan)
  next
    case (step7_receipt v k)
    then show ?thesis using insert_receipt_cases [of L T v db "fst k" "snd k" db'] same
      by (auto split: if_splits intro: change_receipt)
  qed
qed

section \<open>Every part is kept\<close>

lemma released_wf: "wf_intent_record L T r \<Longrightarrow> (xi_released_job_id r \<noteq> None) = (xi_state r = Released)"
  by (auto simp: wf_intent_record_def validate_intent_def)

lemma intents_wf: "intents_ok L T db \<Longrightarrow> r \<in> set (t7_intents (t7 db)) \<Longrightarrow> wf_intent_record L T r"
  by (simp add: intents_ok_def)

lemma intents_job:
  "intents_ok L T db \<Longrightarrow> r \<in> set (t7_intents (t7 db)) \<Longrightarrow> xi_released_job_id r = Some k \<Longrightarrow>
   \<exists>j. job_row_of k db = Some j \<and> job_of_intent r j"
  unfolding intents_ok_def by blast

lemma moved_not_released:
  assumes "ic_target c \<in> set (map intent_state_name (intent_transitions (xi_state r)))"
  shows "xi_state r \<noteq> Released \<and> xi_state (moved_intent c r) \<noteq> Released"
  using assms by (cases "xi_state r") (auto simp: moved_intent_def INTENT_STATES_def)

lemma decided_not_consumed:
  "s \<in> set (consent_transitions s') \<Longrightarrow> s \<noteq> Consumed \<and> s' \<noteq> Consumed"
  by (cases s') auto

lemma released_moved:
  "consent_of_intent c (moved_intent k r) = consent_of_intent c r"
  "consent_of_intent c (released_intent q r) = consent_of_intent c r"
  "consent_of_intent (consumed_consent now c) r = consent_of_intent c r"
  "consent_of_intent (moved_consent d c) r = consent_of_intent c r"
  by (simp_all add: consent_of_intent_def moved_intent_def released_intent_def consumed_consent_def moved_consent_def)

text \<open>A change that releases nothing keeps the intents' part.\<close>

lemma intents_kept:
  assumes "step_effect db db'" "store_ok db" "intents_ok L T db" "unclashed intent_clash (t7_intents (t7 db'))"
    and "\<And>r. r \<in> set (t7_intents (t7 db')) \<Longrightarrow> wf_intent_record L T r"
    and "\<And>r. r \<in> set (t7_intents (t7 db')) \<Longrightarrow> xi_state r = Released \<Longrightarrow> r \<in> set (t7_intents (t7 db))"
  shows "intents_ok L T db'"
proof -
  have old: "r \<in> set (t7_intents (t7 db))" if "r \<in> set (t7_intents (t7 db'))" "xi_released_job_id r \<noteq> None" for r
    using released_wf [OF assms(5) [OF that(1)]] assms(6) that by blast
  have "\<exists>j. job_row_of k db' = Some j \<and> job_of_intent r j"
    if "r \<in> set (t7_intents (t7 db'))" "xi_released_job_id r = Some k" for r k
  proof -
    note k = that(2)
    have "r \<in> set (t7_intents (t7 db))" using old that by simp
    then obtain j where "job_row_of k db = Some j" "job_of_intent r j"
      using intents_job [OF assms(3) _ k] by blast
    then show ?thesis using phase7_jobs [OF assms(1,2)] by blast
  qed
  moreover have "r = s" if "r \<in> set (t7_intents (t7 db'))" "s \<in> set (t7_intents (t7 db'))"
    "xi_released_job_id r \<noteq> None" "xi_released_job_id r = xi_released_job_id s" for r s
    using old [OF that(1,3)] old [OF that(2)] that(3,4) assms(3) unfolding intents_ok_def by metis
  ultimately show ?thesis using assms(4,5) unfolding intents_ok_def by blast
qed

lemma intents_released:
  assumes "step_effect db db'" "store_ok db" "intents_ok L T db" "releases db db' r q fp consent"
    and "r \<in> set (t7_intents (t7 db))" "xi_owner_subject r = wl_owner_subject q"
    and "wl_kind q = intent_action_name (xi_action r)" "wf_intent_record L T (released_intent q r)"
    and "\<And>s. s \<in> set (t7_intents (t7 db)) \<Longrightarrow> xi_released_job_id s \<noteq> Some (wl_job_id q)"
  shows "intents_ok L T db'"
proof -
  let ?r = "released_intent q r"
  have rows: "set (t7_intents (t7 db')) = insert ?r (set (t7_intents (t7 db)) - {r})"
    "unclashed intent_clash (t7_intents (t7 db'))" using assms(4) by (simp_all add: releases_def)
  have k: "xi_released_job_id ?r = Some (wl_job_id q)" by (simp add: released_intent_def)
  have new: "job_of_intent ?r (release_row r q fp)"
    using assms(6,7) by (simp add: job_of_intent_def release_row_keys released_intent_def)
  have "\<exists>j. job_row_of k db' = Some j \<and> job_of_intent s j"
    if "s \<in> set (t7_intents (t7 db'))" "xi_released_job_id s = Some k" for s k
  proof (cases "s = ?r")
    case True
    then show ?thesis using that(2) k new released_job_row [OF assms(4)] by auto
  next
    case False
    note rel = that(2)
    have "s \<in> set (t7_intents (t7 db))" using that(1) False rows by auto
    then obtain j where "job_row_of k db = Some j" "job_of_intent s j"
      using intents_job [OF assms(3) _ rel] by blast
    then show ?thesis using phase7_jobs [OF assms(1,2)] by blast
  qed
  moreover have "s = s'" if "s \<in> set (t7_intents (t7 db'))" "s' \<in> set (t7_intents (t7 db'))"
    "xi_released_job_id s \<noteq> None" "xi_released_job_id s = xi_released_job_id s'" for s s'
  proof -
    have "\<forall>x \<in> set (t7_intents (t7 db)). \<forall>y \<in> set (t7_intents (t7 db)).
      xi_released_job_id x \<noteq> None \<longrightarrow> xi_released_job_id x = xi_released_job_id y \<longrightarrow> x = y"
      using assms(3) unfolding intents_ok_def by blast
    then show ?thesis using that rows(1) k assms(9) by (metis DiffD1 insertE)
  qed
  moreover have "wf_intent_record L T s" if "s \<in> set (t7_intents (t7 db'))" for s
    using that rows(1) assms(8) intents_wf [OF assms(3)] by auto
  ultimately show ?thesis using rows(2) unfolding intents_ok_def by blast
qed

lemma intents_step:
  assumes "t7_change L T db db'" "step_effect db db'" "phase7_ok L T db"
  shows "intents_ok L T db'"
proof -
  have ok: "store_ok db" "intents_ok L T db"
    using assms(3) by (simp_all add: phase7_ok_def program_ok_def)
  then have ok': "unclashed intent_clash (t7_intents (t7 db))"
    "\<And>r. r \<in> set (t7_intents (t7 db)) \<Longrightarrow> wf_intent_record L T r" by (simp_all add: intents_ok_def)
  note ok = ok ok'
  note kept = intents_kept [OF assms(2) ok(1,2)]
  have same: "intents_ok L T db'" if "t7_intents (t7 db') = t7_intents (t7 db)"
    using ok by (intro kept) (simp_all add: that)
  from assms(1) show ?thesis
  proof cases
    case change_none
    then show ?thesis by (intro same) (simp add: on_t8_def)
  next
    case (change_intent r)
    then show ?thesis using ok by (intro kept) (auto intro: intent_table.appended)
  next
    case (change_moved rows r c)
    then show ?thesis using ok moved_not_released [OF change_moved(5)] by (intro kept) auto
  next
    case (change_released r q fp consent)
    then show ?thesis by (intro intents_released [OF assms(2) ok(1,2)]) auto
  qed (rule same, simp)+
qed

text \<open>Consents.\<close>

lemma wf_consent_fields: "wf_consent_record L T c \<Longrightarrow> consent_fields L T c"
  by (simp add: wf_consent_record_def consent_fields_def)

lemma consumed_fields:
  assumes "consent_fields L T c" "cs_state c = Approved" "consent_rank Approved (cs_state_version c)"
    and "timestamp_shape now" "at_or_after T now (cs_expires_at c) = Inr False"
  shows "consent_fields L T (consumed_consent now c) \<and>
    consent_rank (cs_state (consumed_consent now c)) (cs_state_version (consumed_consent now c))"
proof -
  have "valid_timestamp T now"
    using assms(1,4,5)
    by (auto simp: valid_timestamp_def at_or_after_def instant_def consent_fields_def bindE_Inr
        split: option.splits if_splits)
  then show ?thesis
    using assms
    by (auto simp: consent_fields_def validate_consent_def consumed_consent_def int_between_def MAX_INT32_def
        opt_ok_def)
qed

lemma moved_rank:
  assumes "d = moved_consent d c" "cs_state d \<in> set (consent_transitions (cs_state c))"
    and "consent_rank (cs_state c) (cs_state_version c)"
  shows "consent_rank (cs_state d) (cs_state_version d)"
proof -
  have "cs_state_version d = cs_state_version c + 1" by (subst assms(1)) (simp add: moved_consent_def)
  then show ?thesis using assms(2,3) by (cases "cs_state c") auto
qed

lemma consent_row:
  "consents_ok L T t \<Longrightarrow> c \<in> set (t7_consents t) \<Longrightarrow>
   consent_fields L T c \<and> consent_rank (cs_state c) (cs_state_version c) \<and>
   (\<exists>r \<in> set (t7_intents t). consent_of_intent c r)"
  by (simp add: consents_ok_def)

text \<open>No change loses the intent of a consent.\<close>

lemma consent_intent_kept:
  assumes "t7_change L T db db'" "\<exists>r \<in> set (t7_intents (t7 db)). consent_of_intent c r"
  shows "\<exists>r \<in> set (t7_intents (t7 db')). consent_of_intent c r"
  using assms(1)
proof cases
  case (change_moved rows r k)
  then show ?thesis using assms(2) released_moved(1) [of c k r] by auto
next
  case (change_released r q fp consent)
  then have "set (t7_intents (t7 db')) = insert (released_intent q r) (set (t7_intents (t7 db)) - {r})"
    by (simp add: releases_def)
  then show ?thesis using assms(2) released_moved(2) [of c q r] by auto
qed (use assms(2) in \<open>auto simp: on_t8_def\<close>)

lemma consents_kept:
  assumes "t7_change L T db db'" "consents_ok L T (t7 db)" "unclashed consent_clash (t7_consents (t7 db'))"
    and "\<And>c. c \<in> set (t7_consents (t7 db')) \<Longrightarrow> c \<notin> set (t7_consents (t7 db)) \<Longrightarrow>
       consent_fields L T c \<and> consent_rank (cs_state c) (cs_state_version c) \<and>
       (\<exists>r \<in> set (t7_intents (t7 db)). consent_of_intent c r)"
  shows "consents_ok L T (t7 db')"
  unfolding consents_ok_def
proof (intro conjI ballI assms(3))
  fix c assume c: "c \<in> set (t7_consents (t7 db'))"
  have "consent_fields L T c \<and> consent_rank (cs_state c) (cs_state_version c) \<and>
      (\<exists>r \<in> set (t7_intents (t7 db)). consent_of_intent c r)"
    using consent_row [OF assms(2)] assms(4) [OF c] by blast
  then show "consent_fields L T c" "consent_rank (cs_state c) (cs_state_version c)"
    "\<exists>r \<in> set (t7_intents (t7 db')). consent_of_intent c r"
    using consent_intent_kept [OF assms(1)] by blast+
qed

lemma consents_step:
  assumes "t7_change L T db db'" "phase7_ok L T db"
  shows "consents_ok L T (t7 db')"
proof -
  have ok: "consents_ok L T (t7 db)" "unclashed consent_clash (t7_consents (t7 db))"
    using assms(2) by (simp_all add: phase7_ok_def consents_ok_def)
  note kept = consents_kept [OF assms(1) ok(1)]
  have same: "consents_ok L T (t7 db')" if "t7_consents (t7 db') = t7_consents (t7 db)"
    using ok(2) by (intro kept) (simp_all add: that)
  from assms(1) show ?thesis
  proof cases
    case change_none
    then show ?thesis by (intro same) (simp add: on_t8_def)
  next
    case (change_released r q fp consent)
    have rows: "unclashed consent_clash (t7_consents (t7 db'))"
      "set (t7_consents (t7 db')) = (case consent of None \<Rightarrow> set (t7_consents (t7 db))
         | Some c \<Rightarrow> insert (consumed_consent (wl_consumed_at q) c) (set (t7_consents (t7 db)) - {c}))"
      using change_released(1) by (simp_all add: releases_def)
    show ?thesis
    proof (cases consent)
      case None
      then show ?thesis using rows by (intro kept) simp_all
    next
      case (Some c)
      have c: "c \<in> set (t7_consents (t7 db))" "cs_state c = Approved"
        "at_or_after T (wl_consumed_at q) (cs_expires_at c) = Inr False"
        using release_consent_Inr [OF change_released(8)] by (simp_all add: Some consent_approves_def)
      note row = consent_row [OF ok(1) c(1)]
      have "consent_fields L T (consumed_consent (wl_consumed_at q) c) \<and>
        consent_rank (cs_state (consumed_consent (wl_consumed_at q) c))
          (cs_state_version (consumed_consent (wl_consumed_at q) c))"
        by (rule consumed_fields) (use row c change_released(9) in auto)
      then show ?thesis using rows row by (intro kept) (auto simp: Some released_moved)
    qed
  next
    case (change_consent c bs i)
    then show ?thesis using ok(2) wf_consent_fields [OF change_consent(2)]
      by (intro kept) (auto intro: consent_table.appended)
  next
    case (change_decided rows c d)
    note row = consent_row [OF ok(1) change_decided(3)]
    have "consent_of_intent d i = consent_of_intent c i" for i
      by (subst change_decided(4)) (simp add: released_moved)
    then show ?thesis
      using change_decided row wf_consent_fields [OF change_decided(7)] moved_rank [OF change_decided(4,6)]
      by (intro kept) auto
  qed (rule same, simp)+
qed

text \<open>Consents and releases.\<close>

lemma paired_consent:
  "release_paired t \<Longrightarrow> c \<in> set (t7_consents t) \<Longrightarrow> cs_state c = Consumed \<Longrightarrow>
   \<exists>r \<in> set (t7_intents t). consent_of_intent c r \<and> xi_state r = Released \<and>
     xi_consent_id r = Some (cs_consent_id c)"
  by (simp add: release_paired_def)

lemma paired_intent:
  "release_paired t \<Longrightarrow> r \<in> set (t7_intents t) \<Longrightarrow> xi_state r = Released \<Longrightarrow>
   if xi_required_assurance r = NoAssurance then xi_consent_id r = None
   else \<exists>c \<in> set (t7_consents t). consent_of_intent c r \<and> cs_state c = Consumed \<and>
     xi_consent_id r = Some (cs_consent_id c)"
  by (simp add: release_paired_def)

lemma paired_kept:
  assumes "release_paired t"
    and "\<And>r. xi_state r = Released \<Longrightarrow> r \<in> set (t7_intents t') \<longleftrightarrow> r \<in> set (t7_intents t)"
    and "\<And>c. cs_state c = Consumed \<Longrightarrow> c \<in> set (t7_consents t') \<longleftrightarrow> c \<in> set (t7_consents t)"
  shows "release_paired t'"
proof -
  have "\<exists>r \<in> set (t7_intents t'). consent_of_intent c r \<and> xi_state r = Released \<and>
     xi_consent_id r = Some (cs_consent_id c)" if "c \<in> set (t7_consents t')" "cs_state c = Consumed" for c
    using paired_consent [OF assms(1)] assms(2,3) that by blast
  moreover have "if xi_required_assurance r = NoAssurance then xi_consent_id r = None
   else \<exists>c \<in> set (t7_consents t'). consent_of_intent c r \<and> cs_state c = Consumed \<and>
     xi_consent_id r = Some (cs_consent_id c)" if "r \<in> set (t7_intents t')" "xi_state r = Released" for r
  proof (cases "xi_required_assurance r = NoAssurance")
    case False
    have "r \<in> set (t7_intents t)" using assms(2) that by blast
    from paired_intent [OF assms(1) this that(2)] show ?thesis using False assms(3) by fastforce
  qed (use paired_intent [OF assms(1)] assms(2) that in fastforce)
  ultimately show ?thesis unfolding release_paired_def by blast
qed

lemma paired_released:
  assumes "release_paired (t7 db)" "releases db db' r q fp consent" "xi_state r \<in> {AwaitingApproval, Ready}"
    and "release_consent L T r q (t7 db) = Inr consent" "xi_owner_subject r = wl_owner_subject q"
  shows "release_paired (t7 db')"
proof -
  let ?r = "released_intent q r" and ?d = "consumed_consent (wl_consumed_at q)"
  have rows: "set (t7_intents (t7 db')) = insert ?r (set (t7_intents (t7 db)) - {r})"
    "set (t7_consents (t7 db')) = (case consent of None \<Rightarrow> set (t7_consents (t7 db))
       | Some c \<Rightarrow> insert (?d c) (set (t7_consents (t7 db)) - {c}))"
    using assms(2) by (simp_all add: releases_def)
  have nr: "xi_state r \<noteq> Released" using assms(3) by auto
  have other: "s \<in> set (t7_intents (t7 db'))" if "s \<in> set (t7_intents (t7 db))" "xi_state s = Released" for s
    using that nr by (auto simp: rows(1))
  note con = release_consent_Inr [OF assms(4)]
  have keep: "c \<in> set (t7_consents (t7 db'))" if "c \<in> set (t7_consents (t7 db))" "cs_state c = Consumed" for c
    using that con by (auto simp: rows(2) consent_approves_def split: option.splits)
  have new: "if xi_required_assurance ?r = NoAssurance then consent = None \<and> xi_consent_id ?r = None
    else \<exists>c. consent = Some c \<and> consent_of_intent (?d c) ?r \<and> cs_state (?d c) = Consumed \<and>
      xi_consent_id ?r = Some (cs_consent_id (?d c))"
    using con assms(5)
    by (auto simp: released_moved released_intent_def consumed_consent_def consent_of_intent_def
        consent_approves_def split: option.splits)
  have "\<exists>s \<in> set (t7_intents (t7 db')). consent_of_intent c s \<and> xi_state s = Released \<and>
      xi_consent_id s = Some (cs_consent_id c)" if "c \<in> set (t7_consents (t7 db'))" "cs_state c = Consumed" for c
  proof (cases "c \<in> set (t7_consents (t7 db))")
    case True
    then show ?thesis using paired_consent [OF assms(1)] that(2) other by blast
  next
    case False
    have "consent \<noteq> None" using that(1) False by (cases consent) (simp_all add: rows(2))
    then obtain c0 where "consent = Some c0" by blast
    moreover from this have "c = ?d c0" using that(1) False by (simp add: rows(2))
    ultimately show ?thesis using new by (auto simp: rows(1) released_intent_def split: if_splits)
  qed
  moreover have "if xi_required_assurance s = NoAssurance then xi_consent_id s = None
    else \<exists>c \<in> set (t7_consents (t7 db')). consent_of_intent c s \<and> cs_state c = Consumed \<and>
      xi_consent_id s = Some (cs_consent_id c)" if "s \<in> set (t7_intents (t7 db'))" "xi_state s = Released" for s
  proof (cases "s = ?r")
    case True
    then show ?thesis using new by (auto simp: rows(2) split: if_splits)
  next
    case False
    then have "s \<in> set (t7_intents (t7 db))" using that(1) by (auto simp: rows(1))
    from paired_intent [OF assms(1) this that(2)] show ?thesis using keep by (auto split: if_splits)
  qed
  ultimately show ?thesis unfolding release_paired_def by blast
qed

lemma paired_step:
  assumes "t7_change L T db db'" "phase7_ok L T db"
  shows "release_paired (t7 db')"
proof -
  have ok: "release_paired (t7 db)" using assms(2) by (simp add: phase7_ok_def)
  note kept = paired_kept [OF ok]
  from assms(1) show ?thesis
  proof cases
    case (change_moved rows r c)
    then show ?thesis using moved_not_released [OF change_moved(5)] by (intro kept) auto
  next
    case (change_released r q fp consent)
    then show ?thesis by (intro paired_released [OF ok]) auto
  next
    case (change_decided rows c d)
    then show ?thesis using decided_not_consumed [OF change_decided(6)] by (intro kept) auto
  qed (rule kept, auto simp: on_t8_def)+
qed

text \<open>Evidence, cases and rollbacks.\<close>

lemma resolved_case_keys: "recovery_clash (resolved_case d r) x = recovery_clash r x"
  by (simp add: recovery_clash_def resolved_case_def)

lemma ordered_append:
  assumes "evidence_ordered es"
    and "\<And>x. x \<in> set es \<Longrightarrow> xe_job_id x = xe_job_id e \<Longrightarrow> xe_source x = xe_source e \<Longrightarrow>
       xe_source_sequence x < xe_source_sequence e"
  shows "evidence_ordered (es @ [e])"
  using assms by (auto simp: evidence_ordered_def sorted_wrt_append)

definition plan_parent :: "'z phase7_tables \<Rightarrow> plan_record \<Rightarrow> bool" where
  "plan_parent t p \<longleftrightarrow> (\<exists>k \<in> set (t7_checkpoints t). ck_checkpoint_id k = rp_checkpoint_id p \<and>
     ck_owner_subject k = rp_owner_subject p \<and> plan_of_checkpoint p k)"

definition receipt_parents :: "'z phase7_tables \<Rightarrow> rollback_receipt \<Rightarrow> bool" where
  "receipt_parents t q \<longleftrightarrow> (\<exists>p \<in> set (t7_plans t). \<exists>k \<in> set (t7_checkpoints t).
     rp_plan_id p = rl_rollback_plan_id q \<and> ck_checkpoint_id k = rl_checkpoint_id q \<and>
     rp_owner_subject p = rl_owner_subject q \<and> ck_owner_subject k = rl_owner_subject q \<and>
     receipt_of_plan q p k)"

lemma others_parts:
  "others_ok L T t \<longleftrightarrow>
     (unclashed evidence_clash (t7_evidence t) \<and> evidence_ordered (t7_evidence t)
       \<and> (\<forall>e \<in> set (t7_evidence t). wf_evidence_event L T e))
     \<and> (unclashed recovery_clash (t7_recoveries t) \<and> (\<forall>r \<in> set (t7_recoveries t). wf_recovery_record L T r))
     \<and> (unclashed checkpoint_clash (t7_checkpoints t)
       \<and> (\<forall>k \<in> set (t7_checkpoints t). wf_checkpoint_record L T k))
     \<and> (unclashed plan_clash (t7_plans t) \<and> (\<forall>p \<in> set (t7_plans t). wf_plan_record L T p \<and> plan_parent t p))
     \<and> (unclashed receipt_clash (t7_receipts t)
       \<and> (\<forall>q \<in> set (t7_receipts t). wf_rollback_receipt L T q \<and> receipt_parents t q))"
  by (simp add: others_ok_def plan_parent_def receipt_parents_def)

lemma parents_kept:
  assumes "set (t7_checkpoints t) \<subseteq> set (t7_checkpoints t')" "set (t7_plans t) \<subseteq> set (t7_plans t')"
  shows "plan_parent t p \<Longrightarrow> plan_parent t' p" "receipt_parents t n \<Longrightarrow> receipt_parents t' n"
  using assms unfolding plan_parent_def receipt_parents_def by blast+

lemma others_step:
  assumes "t7_change L T db db'" "phase7_ok L T db"
  shows "others_ok L T (t7 db')"
proof -
  have ok: "others_ok L T (t7 db)" using assms(2) by (simp add: phase7_ok_def)
  have same: "others_ok L T (t7 db')"
    if "kept_by_release (t7 db) (t7 db')"
    using ok that by (simp add: others_ok_def kept_by_release_def)
  note keep = parents_kept [of "t7 db" "t7 db'"]
  from assms(1) show ?thesis
  proof cases
    case (change_evidence e)
    then show ?thesis using ok keep unfolding others_parts
      by (auto intro: evidence_table.appended ordered_append)
  next
    case (change_case z)
    then show ?thesis using ok keep unfolding others_parts by (auto intro: recovery_table.appended)
  next
    case (change_resolved rows z d)
    then show ?thesis using ok keep unfolding others_parts by auto
  next
    case (change_checkpoint k)
    have "set (t7_checkpoints (t7 db)) \<subseteq> set (t7_checkpoints (t7 db'))"
      "set (t7_plans (t7 db)) \<subseteq> set (t7_plans (t7 db'))" using change_checkpoint(1) by auto
    note keep = parents_kept [OF this]
    from change_checkpoint show ?thesis using ok keep unfolding others_parts
      by (auto intro: checkpoint_table.appended)
  next
    case (change_plan p k)
    have "set (t7_checkpoints (t7 db)) \<subseteq> set (t7_checkpoints (t7 db'))"
      "set (t7_plans (t7 db)) \<subseteq> set (t7_plans (t7 db'))" using change_plan(1) by auto
    note keep = parents_kept [OF this]
    have "plan_parent (t7 db') p" using change_plan by (auto simp: plan_parent_def)
    with change_plan show ?thesis using ok keep unfolding others_parts by (auto intro: plan_table.appended)
  next
    case (change_receipt n p k)
    have "receipt_parents (t7 db') n" using change_receipt unfolding receipt_parents_def by auto
    with change_receipt show ?thesis using ok keep unfolding others_parts
      by (auto intro: receipt_table.appended)
  next
    case (change_released r q fp consent)
    then show ?thesis by (intro same) (simp add: releases_def)
  qed (rule same, simp add: kept_by_release_def on_t8_def)+
qed

section \<open>Locks of released intents\<close>

lemma effect_keeps_lock:
  assumes "step_effect db db'" "store_ok db" "job_row_of (lk_job_id l) db = Some j"
    and "l \<in> set (pt_locks (st_other db))"
  shows "job_finished (lk_job_id l) db' \<or> l \<in> set (pt_locks (st_other db'))"
proof -
  obtain new where "takes_lock db db' new" using assms(1) by (auto simp: step_effect_def)
  then show ?thesis using assms(4) by (auto simp: takes_lock_def delete_where_def)
qed

lemma effect_finished:
  assumes "step_effect db db'" "store_ok db" "job_finished k db"
  shows "job_finished k db'"
proof -
  obtain j where j: "job_row_of k db = Some j" "is_terminal (jb_state j)"
    using assms(3) by (auto simp: job_finished_def)
  then obtain j' where "job_row_of k db' = Some j'" "keeps_job j j'"
    using effect_rows [OF assms(1,2)] by blast
  moreover have "jb_state j' = jb_state j"
  proof -
    have "jb_state (job_content j') = jb_state (job_content j)"
      using calculation(2) j(2) by (simp add: keeps_job_def)
    then show ?thesis by (simp add: job_content_def)
  qed
  ultimately show ?thesis using j(2) by (simp add: job_finished_def)
qed

lemma released_lock_kept:
  assumes "step_effect db db'" "phase7_ok L T db" "r \<in> set (t7_intents (t7 db))"
    and "xi_released_job_id r = Some k"
  shows "job_finished k db' \<or> (\<exists>l \<in> set (pt_locks (st_other db')). lk_job_id l = k
       \<and> lock_document l = (xi_device_id r, xi_document_id r))"
proof -
  have s: "store_ok db" and i: "intents_ok L T db" and k: "released_locked db"
    using assms(2) by (simp_all add: phase7_ok_def program_ok_def)
  obtain j where "job_row_of k db = Some j" using intents_job [OF i assms(3,4)] by blast
  then show ?thesis
    using k assms(3,4) effect_finished [OF assms(1) s, of k] effect_keeps_lock [OF assms(1) s]
    unfolding released_locked_def by blast
qed

lemma locked_step:
  assumes "t7_change L T db db'" "step_effect db db'" "phase7_ok L T db"
  shows "released_locked db'"
proof -
  note kept = released_lock_kept [OF assms(2,3)]
  have same: "released_locked db'"
    if "\<And>r. r \<in> set (t7_intents (t7 db')) \<Longrightarrow> xi_released_job_id r \<noteq> None \<Longrightarrow> r \<in> set (t7_intents (t7 db))"
    using kept that unfolding released_locked_def by blast
  from assms(1) show ?thesis
  proof cases
    case (change_intent r)
    then show ?thesis using released_wf [OF change_intent(2)] by (intro same) auto
  next
    case (change_moved rows r c)
    then show ?thesis using moved_not_released [OF change_moved(5)] released_wf [OF change_moved(6)]
      by (intro same) auto
  next
    case (change_released r q fp consent)
    have rows: "set (t7_intents (t7 db')) = insert (released_intent q r) (set (t7_intents (t7 db)) - {r})"
      "release_lock r q \<in> set (pt_locks (st_other db'))"
      using change_released(1) by (auto simp: releases_def)
    show ?thesis
      unfolding released_locked_def
    proof (intro ballI allI impI)
      fix s k assume s: "s \<in> set (t7_intents (t7 db'))" "xi_released_job_id s = Some k"
      show "job_finished k db' \<or> (\<exists>l \<in> set (pt_locks (st_other db')). lk_job_id l = k
          \<and> lock_document l = (xi_device_id s, xi_document_id s))"
      proof (cases "s = released_intent q r")
        case True
        then have "lk_job_id (release_lock r q) = k"
          "lock_document (release_lock r q) = (xi_device_id s, xi_document_id s)"
          using s(2) by (simp_all add: released_intent_def release_lock_def)
        then show ?thesis using rows(2) by blast
      next
        case False
        then show ?thesis using kept s rows(1) by blast
      qed
    qed
  qed (rule same, simp add: on_t8_def)+
qed

section \<open>The invariant of the system\<close>

lemma phase7_step_ok:
  assumes "phase7_step L T db db'" "phase7_ok L T db"
  shows "phase7_ok L T db'"
proof -
  note e = phase7_effect [OF assms] and c = phase7_step_change [OF assms]
  have p: "program_ok db" using assms(2) by (simp add: phase7_ok_def)
  have "program_ok db'"
    using e p effect_locks_ok [OF e] effect_receipts_ok [OF e] by (simp add: program_ok_def step_effect_def)
  then show ?thesis
    using intents_step [OF c e assms(2)] consents_step [OF c assms(2)] paired_step [OF c assms(2)]
      locked_step [OF c e assms(2)] others_step [OF c assms(2)]
    by (simp add: phase7_ok_def)
qed

lemma empty_phase7_ok: "program_ok db \<Longrightarrow> t7 db = empty_phase7 z \<Longrightarrow> phase7_ok L T db"
  by (simp add: phase7_ok_def intents_ok_def consents_ok_def release_paired_def released_locked_def
      others_ok_def empty_phase7_def unclashed_def evidence_ordered_def)

section \<open>The contracts of the system\<close>

definition intent_row :: "'z phase7_db \<Rightarrow> string \<Rightarrow> intent_record option" where
  "intent_row db k = select1 (\<lambda>r. xi_intent_id r = k) (t7_intents (t7 db))"

definition consent_row_of :: "'z phase7_db \<Rightarrow> string \<Rightarrow> consent_record option" where
  "consent_row_of db k = select1 (\<lambda>r. cs_consent_id r = k) (t7_consents (t7 db))"

definition case_row :: "'z phase7_db \<Rightarrow> string \<Rightarrow> recovery_record option" where
  "case_row db k = select1 (\<lambda>r. rk_case_id r = k) (t7_recoveries (t7 db))"

context keyed_table begin

lemma row_iff:
  assumes "unclashed clash rows" "\<And>a b. p a \<Longrightarrow> p b \<Longrightarrow> clash a b"
  shows "select1 p rows = Some r \<longleftrightarrow> r \<in> set rows \<and> p r"
  using select1_Some [of p rows r] select_key [OF assms(1), of r p] assms(2) by blast

end

lemma phase7_row:
  assumes "phase7_ok L T db"
  shows "intent_row db k = Some r \<longleftrightarrow> r \<in> set (t7_intents (t7 db)) \<and> xi_intent_id r = k"
    and "consent_row_of db k = Some c \<longleftrightarrow> c \<in> set (t7_consents (t7 db)) \<and> cs_consent_id c = k"
    and "case_row db k = Some z \<longleftrightarrow> z \<in> set (t7_recoveries (t7 db)) \<and> rk_case_id z = k"
proof -
  note u = phase7_unclashed [OF assms]
  show "intent_row db k = Some r \<longleftrightarrow> r \<in> set (t7_intents (t7 db)) \<and> xi_intent_id r = k"
    unfolding intent_row_def by (rule intent_table.row_iff [OF u(1)]) (simp add: intent_clash_def)
  show "consent_row_of db k = Some c \<longleftrightarrow> c \<in> set (t7_consents (t7 db)) \<and> cs_consent_id c = k"
    unfolding consent_row_of_def by (rule consent_table.row_iff [OF u(2)]) (simp add: consent_clash_def)
  show "case_row db k = Some z \<longleftrightarrow> z \<in> set (t7_recoveries (t7 db)) \<and> rk_case_id z = k"
    unfolding case_row_def by (rule recovery_table.row_iff [OF u(3)]) (simp add: recovery_clash_def)
qed

text \<open>The part of an intent that was digested, and of a consent that was asked for.\<close>

definition intent_material :: "intent_record \<Rightarrow> intent_record" where
  "intent_material r = r\<lparr>xi_state := Ready, xi_state_version := 0, xi_consent_id := None,
     xi_released_job_id := None\<rparr>"

definition settled_intent :: "intent_record \<Rightarrow> bool" where
  "settled_intent r \<longleftrightarrow> intent_transitions (xi_state r) = []"

definition settled_consent :: "consent_record \<Rightarrow> bool" where
  "settled_consent c \<longleftrightarrow> consent_transitions (cs_state c) = []"

definition case_closed :: "recovery_record \<Rightarrow> bool" where
  "case_closed z \<longleftrightarrow> rk_state z = CaseResolved"

lemma change_intent_material:
  assumes "t7_change L T db db'" "r \<in> set (t7_intents (t7 db))"
  shows "\<exists>r' \<in> set (t7_intents (t7 db')). xi_intent_id r' = xi_intent_id r \<and>
    intent_material r' = intent_material r \<and> (settled_intent r \<longrightarrow> r' = r)"
  using assms(1)
proof cases
  case (change_moved rows s c)
  then have "\<not> settled_intent s" by (auto simp: settled_intent_def)
  then show ?thesis
    using change_moved assms(2) by (cases "r = s") (auto simp: intent_material_def moved_intent_def)
next
  case (change_released s q fp consent)
  then have "set (t7_intents (t7 db')) = insert (released_intent q s) (set (t7_intents (t7 db)) - {s})"
    "\<not> settled_intent s" by (auto simp: releases_def settled_intent_def)
  then show ?thesis
    using assms(2) by (cases "r = s") (auto simp: intent_material_def released_intent_def)
qed (use assms(2) in \<open>auto simp: on_t8_def\<close>)

lemma change_settled_consent:
  assumes "t7_change L T db db'" "c \<in> set (t7_consents (t7 db))" "settled_consent c"
  shows "c \<in> set (t7_consents (t7 db'))"
  using assms(1)
proof cases
  case (change_decided rows d e)
  then have "\<not> settled_consent d" by (auto simp: settled_consent_def)
  then show ?thesis using change_decided assms(2,3) by auto
next
  case (change_released s q fp consent)
  have "c \<in> set (t7_consents (t7 db'))" if "consent = Some d" for d
  proof -
    have "cs_state d = Approved"
      using release_consent_Inr [OF change_released(8)] that by (simp add: consent_approves_def)
    then have "c \<noteq> d" using assms(3) by (auto simp: settled_consent_def)
    then show ?thesis using assms(2) change_released(1) that by (auto simp: releases_def)
  qed
  then show ?thesis using assms(2) change_released(1) by (cases consent) (auto simp: releases_def)
qed (use assms(2) in \<open>auto simp: on_t8_def\<close>)

lemma change_closed_case:
  assumes "t7_change L T db db'" "z \<in> set (t7_recoveries (t7 db))" "case_closed z"
  shows "z \<in> set (t7_recoveries (t7 db'))"
  using assms(1)
proof cases
  case (change_released s q fp consent)
  then show ?thesis using assms(2) by (simp add: releases_def kept_by_release_def)
qed (use assms(2,3) in \<open>auto simp: on_t8_def case_closed_def\<close>)

text \<open>Evidence and the records of a rollback are only appended.\<close>

lemma change_append_only:
  assumes "t7_change L T db db'"
  shows "\<exists>es ks ps rs. t7_evidence (t7 db') = t7_evidence (t7 db) @ es \<and>
    t7_checkpoints (t7 db') = t7_checkpoints (t7 db) @ ks \<and> t7_plans (t7 db') = t7_plans (t7 db) @ ps \<and>
    t7_receipts (t7 db') = t7_receipts (t7 db) @ rs"
  using assms by cases (auto simp: on_t8_def releases_def kept_by_release_def)

interpretation intent_rows: durable_system "phase7_step L T" "phase7_ok L T" intent_row "\<lambda>_. True"
  intent_material for L T
proof unfold_locales
  fix db db' :: "'z phase7_db" and k r
  assume s: "phase7_step L T db db'" "phase7_ok L T db"
  show ok: "phase7_ok L T db'" by (rule phase7_step_ok [OF s])
  assume "intent_row db k = Some r" "True"
  then show "\<exists>r'. intent_row db' k = Some r' \<and> True \<and> intent_material r' = intent_material r"
    using change_intent_material [OF phase7_step_change [OF s]]
    by (fastforce simp: phase7_row [OF s(2)] phase7_row [OF ok])
qed

interpretation settled_intents: durable_system "phase7_step L T" "phase7_ok L T" intent_row settled_intent
  "\<lambda>r. r" for L T
proof unfold_locales
  fix db db' :: "'z phase7_db" and k r
  assume s: "phase7_step L T db db'" "phase7_ok L T db" "intent_row db k = Some r" "settled_intent r"
  note ok = phase7_step_ok [OF s(1,2)]
  show "\<exists>r'. intent_row db' k = Some r' \<and> settled_intent r' \<and> r' = r"
    using change_intent_material [OF phase7_step_change [OF s(1,2)]] s(3,4)
    by (fastforce simp: phase7_row [OF s(2)] phase7_row [OF ok])
qed

interpretation settled_consents: durable_system "phase7_step L T" "phase7_ok L T" consent_row_of
  settled_consent "\<lambda>c. c" for L T
proof unfold_locales
  fix db db' :: "'z phase7_db" and k c
  assume s: "phase7_step L T db db'" "phase7_ok L T db" "consent_row_of db k = Some c" "settled_consent c"
  note ok = phase7_step_ok [OF s(1,2)]
  show "\<exists>c'. consent_row_of db' k = Some c' \<and> settled_consent c' \<and> c' = c"
    using change_settled_consent [OF phase7_step_change [OF s(1,2)]] s(3,4)
    by (fastforce simp: phase7_row [OF s(2)] phase7_row [OF ok])
qed

interpretation closed_cases: durable_system "phase7_step L T" "phase7_ok L T" case_row case_closed
  "\<lambda>z. z" for L T
proof unfold_locales
  fix db db' :: "'z phase7_db" and k z
  assume s: "phase7_step L T db db'" "phase7_ok L T db" "case_row db k = Some z" "case_closed z"
  note ok = phase7_step_ok [OF s(1,2)]
  show "\<exists>z'. case_row db' k = Some z' \<and> case_closed z' \<and> z' = z"
    using change_closed_case [OF phase7_step_change [OF s(1,2)]] s(3,4)
    by (fastforce simp: phase7_row [OF s(2)] phase7_row [OF ok])
qed

end
