(* ===== verification/Phase7Properties.thy ===== *)
theory Phase7Properties
  imports Phase7Invariant
begin

text \<open>
  What the Phase 7 tables promise of any run of the system: an intent is released once and only as it was
  approved, released writes to a document exclude each other, decisions and digested material never
  change, evidence only grows, and every stored record is valid.
\<close>

section \<open>Helpers\<close>

lemma phase7_run_ok: "steps (phase7_step L T) db db' \<Longrightarrow> phase7_ok L T db \<Longrightarrow> phase7_ok L T db'"
  by (rule intent_rows.steps_inv)

lemma intent_found:
  assumes "phase7_ok L T db" "r \<in> set (t7_intents (t7 db))"
  shows "find_intent L T (xi_owner_subject r) (xi_intent_id r) (t7 db) = Inr (Some r)"
proof -
  have "wf_intent_record L T r" using assms by (simp add: phase7_ok_def intents_ok_def)
  moreover have "select1 (\<lambda>s. xi_owner_subject s = xi_owner_subject r \<and> xi_intent_id s = xi_intent_id r)
      (t7_intents (t7 db)) = Some r"
    using assms(2) by (subst intent_table.row_iff [OF phase7_unclashed(1) [OF assms(1)]]) (auto simp: intent_clash_def)
  ultimately show ?thesis by (simp add: find_intent_def)
qed

lemma released_stays:
  assumes "steps (phase7_step L T) db db'" "phase7_ok L T db" "r \<in> set (t7_intents (t7 db))"
    and "settled_intent r"
  shows "r \<in> set (t7_intents (t7 db'))"
  using settled_intents.steps_final [OF assms(1,2), of "xi_intent_id r" r] assms
  by (auto simp: phase7_row [OF assms(2)] phase7_row [OF phase7_run_ok [OF assms(1,2)]])

lemma released_settled: "xi_state r = Released \<Longrightarrow> settled_intent r"
  by (simp add: settled_intent_def)

lemma consumed_settled: "cs_state c = Consumed \<Longrightarrow> settled_consent c"
  by (simp add: settled_consent_def)

lemma get_job_row: "get_job owner k db = Some j \<Longrightarrow> jobs_ok db \<Longrightarrow> job_row_of k db = Some j"
  using select1_Some [of "\<lambda>x. jb_owner_subject x = owner \<and> jb_job_id x = k" "st_jobs db" j] job_row_of_mem
  by (auto simp: get_job_def jobs_ok_def)

section \<open>Releases\<close>

text \<open>C4. An intent is released at most once.  Whatever the store did since, a release call for a released
  intent that succeeds answers with the job of the first release and creates no job, lock or decision.\<close>

theorem intent_released_once:
  assumes "steps (phase7_step L T) db db'" "phase7_ok L T db"
    and "r \<in> set (t7_intents (t7 db))" "xi_state r = Released"
    and "wl_owner_subject q = xi_owner_subject r" "wl_intent_id q = xi_intent_id r"
    and "release_intent L T u q db' = Inr (x, db'')"
  shows "\<exists>j. x = Some (r, j, True) \<and> xi_released_job_id r = Some (wl_job_id q) \<and>
    get_job (xi_owner_subject r) (wl_job_id q) db' = Some j \<and> jb_kind j = intent_action_name (xi_action r) \<and>
    st_jobs db'' = st_jobs db' \<and> pt_locks (st_other db'') = pt_locks (st_other db') \<and>
    t7_intents (t7 db'') = t7_intents (t7 db') \<and> t7_consents (t7 db'') = t7_consents (t7 db')"
proof -
  note ok = phase7_run_ok [OF assms(1,2)]
  note u = phase7_unclashed [OF ok]
  have r: "r \<in> set (t7_intents (t7 db'))" by (rule released_stays [OF assms(1-3) released_settled [OF assms(4)]])
  note found = intent_found [OF ok r, folded assms(5,6)]
  obtain r' j ex where x: "x = Some (r', j, ex)"
    using release_intent_cases [OF assms(7) u(1,2)] found by (cases x) auto
  have c: "ex" "r' = r" "xi_released_job_id r = Some (wl_job_id q)"
    "get_job (wl_owner_subject q) (wl_job_id q) db' = Some j" "\<exists>us. db'' = on_t7 (\<lambda>t. t\<lparr>t8_usage := us\<rparr>) db'"
    using release_intent_cases [OF assms(7) u(1,2)] found assms(4) unfolding x by (auto split: if_splits)
  have "job_row_of (wl_job_id q) db' = Some j"
    using get_job_row [OF c(4)] u(4) by (simp add: store_ok_def)
  moreover have "\<exists>j. job_row_of (wl_job_id q) db' = Some j \<and> job_of_intent r j"
    using intents_job [of L T, OF _ r c(3)] ok by (simp add: phase7_ok_def)
  ultimately have "jb_kind j = intent_action_name (xi_action r)" by (simp add: job_of_intent_def)
  then show ?thesis using x c assms(5) by auto
qed

text \<open>C5. A first release.  The intent is open, the payload is the one that was digested, nothing has expired
  and, unless no assurance is required, an approved consent for exactly this version of the intent is used
  up.  The store gains one queued write job, bound to the intent, which holds the lock of the document.\<close>

theorem first_release:
  assumes "phase7_ok L T db" "release_intent L T u q db = Inr (Some (r', j, False), db')"
  shows "\<exists>r \<in> set (t7_intents (t7 db)). xi_owner_subject r = wl_owner_subject q \<and>
    xi_intent_id r = wl_intent_id q \<and> xi_state r \<in> {AwaitingApproval, Ready} \<and>
    require_job_binding r (wl_payload q) = Inr () \<and> release_times T r q = Inr () \<and>
    (if xi_required_assurance r = NoAssurance then wl_consent_id q = None \<and> xi_state r = Ready
     else \<exists>c \<in> set (t7_consents (t7 db)). wl_consent_id q = Some (cs_consent_id c) \<and>
       consent_of_intent c r \<and> cs_state c = Approved \<and>
       at_or_after T (wl_consumed_at q) (cs_expires_at c) = Inr False \<and>
       consumed_consent (wl_consumed_at q) c \<in> set (t7_consents (t7 db'))) \<and>
    r' = released_intent q r \<and> r' \<in> set (t7_intents (t7 db')) \<and>
    st_jobs db' = st_jobs db @ [j] \<and> job_row_of (wl_job_id q) db = None \<and>
    job_row_of (wl_job_id q) db' = Some j \<and> job_of_intent r j \<and> jb_state j = Queued \<and>
    jb_payload j = wl_payload q \<and>
    (\<exists>l \<in> set (pt_locks (st_other db')). lk_job_id l = wl_job_id q \<and>
       lock_document l = (xi_device_id r, xi_document_id r))"
proof -
  note u = phase7_unclashed [OF assms(1)]
  obtain r fp consent where c: "find_intent L T (wl_owner_subject q) (wl_intent_id q) (t7 db) = Inr (Some r)"
    "wl_kind q = intent_action_name (xi_action r)" "require_job_binding r (wl_payload q) = Inr ()"
    "release_times T r q = Inr ()" "xi_state r \<in> {AwaitingApproval, Ready}" "r' = released_intent q r"
    "j = release_row r q fp" "release_consent L T r q (t7 db) = Inr consent" "releases db db' r q fp consent"
    using release_intent_cases [OF assms(2) u(1,2)] by auto
  note r = find_intent_Some [OF c(1)]
  have consent: "if xi_required_assurance r = NoAssurance then wl_consent_id q = None \<and> xi_state r = Ready
     else \<exists>c \<in> set (t7_consents (t7 db)). wl_consent_id q = Some (cs_consent_id c) \<and>
       consent_of_intent c r \<and> cs_state c = Approved \<and>
       at_or_after T (wl_consumed_at q) (cs_expires_at c) = Inr False \<and>
       consumed_consent (wl_consumed_at q) c \<in> set (t7_consents (t7 db'))"
    using release_consent_Inr [OF c(8)] c(9) r
    by (cases consent) (auto simp: consent_of_intent_def consent_approves_def releases_def)
  have lock: "\<exists>l \<in> set (pt_locks (st_other db')). lk_job_id l = wl_job_id q \<and>
      lock_document l = (xi_device_id r, xi_document_id r)"
    using c(9) by (intro bexI [of _ "release_lock r q"]) (auto simp: releases_def release_lock_def)
  have "r' \<in> set (t7_intents (t7 db'))"
    "st_jobs db' = st_jobs db @ [j]"
    using c(6,7,9) by (auto simp: releases_def)
  moreover have "job_of_intent r j" using r c(2) by (simp add: c(7) job_of_intent_def release_row_keys)
  ultimately show ?thesis
    using r c(3-7) consent lock released_job_row [OF c(9)]
    by (intro bexI [of _ r] conjI) (simp_all add: release_row_keys)
qed

lemma release_first_tables:
  assumes "release_first L T u r q fp db = Inr (y, db')"
  shows "t8_intent_bindings (t7 db') = t8_intent_bindings (t7 db) \<and>
    t8_consent_bindings (t7 db') = t8_consent_bindings (t7 db) \<and>
    (\<exists>db5. record_phase8_release_usage u (wl_owner_subject q) (wl_intent_id q) (wl_job_id q) (wl_consumed_at q) db5
       = Inr db')"
proof -
  obtain consent db1 db2 db3 db4 db5 where g:
    "release_lock_check r (wl_job_id q) db = Inr db1" "insert_released_job r q fp db1 = Inr db2"
    "consume_consent q consent db2 = Inr db3" "take_release_lock r q db3 = Inr db4"
    "mark_released q db4 = Inr db5"
    "record_phase8_release_usage u (wl_owner_subject q) (wl_intent_id q) (wl_job_id q) (wl_consumed_at q) db5
       = Inr db'"
    using assms unfolding release_first_def bindE_Inr guard_simps by (auto 0 3)
  have "t7 db1 = t7 db" using release_lock_check_Inr [OF g(1)] by (auto simp: on_tables_def)
  moreover have "t7 db2 = t7 db1" by (simp add: insert_released_job_Inr [OF g(2)])
  moreover have "t8_intent_bindings (t7 db3) = t8_intent_bindings (t7 db2) \<and>
    t8_consent_bindings (t7 db3) = t8_consent_bindings (t7 db2)" by (simp add: consume_consent_Inr [OF g(3)])
  moreover have "t7 db4 = t7 db3" using take_release_lock_Inr [OF g(4)] by (simp add: on_tables_def)
  moreover have "t8_intent_bindings (t7 db5) = t8_intent_bindings (t7 db4) \<and>
    t8_consent_bindings (t7 db5) = t8_consent_bindings (t7 db4)" using mark_released_Inr [OF g(5)] by auto
  moreover have "t8_intent_bindings (t7 db') = t8_intent_bindings (t7 db5) \<and>
    t8_consent_bindings (t7 db') = t8_consent_bindings (t7 db5)" using usage_Inr [OF g(6)] by auto
  ultimately show ?thesis using g(6) by auto
qed

text \<open>A usage event that was recorded is found again, whatever identifier the retry brings.\<close>

lemma usage_again:
  assumes "record_phase8_release_usage u owner i k at' db = Inr db'"
  shows "record_phase8_release_usage u' owner i k at'' db' = Inr db'"
proof (cases "intent_binding owner i (t7 db)")
  case None
  then show ?thesis using assms by (simp add: record_phase8_release_usage_def)
next
  case (Some b)
  let ?p = "\<lambda>v. u8_plan_id v = b8_plan_id b \<and> u8_state v = ''released'' \<and> u8_external_id v = k"
  show ?thesis
  proof (cases "select1 ?p (t8_usage (t7 db))")
    case None
    then have "db' = on_t7 (\<lambda>t. t\<lparr>t8_usage := t8_usage t @
        [\<lparr>u8_usage_event_id = u, u8_owner_subject = owner, u8_plan_id = b8_plan_id b,
          u8_state = ''released'', u8_external_id = k, u8_binding_digest = b8_binding_digest b,
          u8_created_at = at'\<rparr>]\<rparr>) db"
      using assms Some by (simp add: record_phase8_release_usage_def split: if_splits)
    moreover from this have "intent_binding owner i (t7 db') = Some b"
      using Some by (simp add: intent_binding_def)
    ultimately show ?thesis using None
      by (simp add: record_phase8_release_usage_def select1_append guard_def)
  next
    case u: (Some v)
    then have "db' = db" using assms Some by (simp add: record_phase8_release_usage_def bindE_Inr)
    then show ?thesis using assms Some u by (simp add: record_phase8_release_usage_def bindE_Inr)
  qed
qed

lemma binding_of_released:
  "require_job_binding (released_intent q r) payload = require_job_binding r payload"
  "require_phase8_release_binding (released_intent q r) c payload t = require_phase8_release_binding r c payload t"
  by (simp_all add: require_job_binding_def rollback_job_bound_def execution_job_bound_def legacy_job_bound_def
      require_phase8_release_binding_def execution_binding_matches_def [abs_def] released_intent_def
      cong: option.case_cong if_cong)

lemma phase8_binding_tables:
  "t8_intent_bindings t' = t8_intent_bindings t \<Longrightarrow> t8_consent_bindings t' = t8_consent_bindings t \<Longrightarrow>
   require_phase8_release_binding r c payload t' = require_phase8_release_binding r c payload t"
  by (simp add: require_phase8_release_binding_def intent_binding_def cong: option.case_cong if_cong)

lemma release_arguments_Inr:
  "release_arguments L T q = Inr (pj, fp) \<Longrightarrow> json_dumps L (wl_payload q) = Some pj"
  by (auto simp: release_arguments_def job_payload_json_def bindE_Inr canonical_json_def
      split: sum.splits option.splits)

lemma release_again:
  assumes "phase7_ok L T db" "release_intent L T u q db = Inr (Some (r', j, False), db')"
  shows "release_intent L T u' q db' = Inr (Some (r', j, True), db')"
proof -
  note un = phase7_unclashed [OF assms(1)]
  obtain pj fp r where g: "release_arguments L T q = Inr (pj, fp)"
    "find_intent L T (wl_owner_subject q) (wl_intent_id q) (t7 db) = Inr (Some r)"
    "wl_kind q = intent_action_name (xi_action r)" "require_job_binding r (wl_payload q) = Inr ()"
    "require_phase8_release_binding r (wl_consent_id q) (wl_payload q) (t7 db) = Inr ()"
    "xi_state r \<noteq> Released" "release_first L T u r q fp db = Inr ((r', j, False), db')"
    using assms(2)
    by (auto simp: release_intent_def bindE_Inr release_replay_def split: option.splits if_splits)
  note r = find_intent_Some [OF g(2)]
  have f: "r' = released_intent q r" "wf_intent_record L T (released_intent q r)" "j = release_row r q fp"
    "\<exists>consent. releases db db' r q fp consent"
    using release_first_cases [OF g(7) un(1,2)] r by auto
  then obtain consent where rel: "releases db db' r q fp consent" by blast
  note t = release_first_tables [OF g(7)]
  have "select1 (\<lambda>x. xi_owner_subject x = wl_owner_subject q \<and> xi_intent_id x = wl_intent_id q)
      (t7_intents (t7 db')) = Some r'"
    using rel r f(1)
    by (subst intent_table.row_iff) (auto simp: releases_def intent_clash_def released_intent_keys)
  then have found: "find_intent L T (wl_owner_subject q) (wl_intent_id q) (t7 db') = Inr (Some r')"
    using f(1,2) by (simp add: find_intent_def)
  have bound: "require_job_binding r' (wl_payload q) = Inr ()"
    "require_phase8_release_binding r' (wl_consent_id q) (wl_payload q) (t7 db') = Inr ()"
    using g(4,5) t by (simp_all add: f(1) binding_of_released phase8_binding_tables [of "t7 db'" "t7 db"])
  have job: "get_job (wl_owner_subject q) (wl_job_id q) db' = Some j"
  proof -
    have "select1 (\<lambda>x. jb_owner_subject x = wl_owner_subject q \<and> jb_job_id x = wl_job_id q) (st_jobs db) = None"
      using rel by (auto simp: releases_def select1_None release_clash_def)
    then show ?thesis using rel f(3) by (simp add: releases_def get_job_def select1_append release_row_keys)
  qed
  have same: "same_job_material L r' q pj fp j"
    using release_arguments_Inr [OF g(1)]
    by (simp add: same_job_material_def f(1,3) released_intent_def release_row_def queued_row_def
        release_job_request_def)
  obtain db5 where "record_phase8_release_usage u (wl_owner_subject q) (wl_intent_id q) (wl_job_id q)
      (wl_consumed_at q) db5 = Inr db'" using t by blast
  note usage = usage_again [OF this, of u' "jb_created_at j"]
  have "release_replay L u' r' q pj fp db' = Inr ((r', j, True), db')"
    using job same usage by (simp add: release_replay_def f(1) released_intent_def guard_def)
  then show ?thesis
    using g(1,3) found bound by (simp add: release_intent_def f(1) released_intent_def guard_def)
qed

text \<open>C8. The exact retry of a release succeeds, with the same intent and job, and changes nothing.\<close>

theorem release_retry:
  assumes "phase7_ok L T db" "release_intent L T u q db = Inr (Some (r', j, False), db')"
  shows "release_intent L T u' q db' = Inr (Some (r', j, True), db')"
  by (rule release_again [OF assms])

text \<open>C6. In every reachable store at most one released intent of a document has a job that has not ended.\<close>

theorem one_released_write_per_document:
  assumes "steps (phase7_step L T) db0 db" "phase7_ok L T db0"
    and "r \<in> set (t7_intents (t7 db))" "s \<in> set (t7_intents (t7 db))"
    and "xi_device_id r = xi_device_id s" "xi_document_id r = xi_document_id s"
    and "xi_released_job_id r = Some k" "xi_released_job_id s = Some m"
    and "\<not> job_finished k db" "\<not> job_finished m db"
  shows "r = s \<and> k = m"
proof -
  note ok = phase7_run_ok [OF assms(1,2)]
  have parts: "intents_ok L T db" "released_locked db" "locks_ok db"
    using ok by (simp_all add: phase7_ok_def program_ok_def)
  obtain l where l: "l \<in> set (pt_locks (st_other db))" "lk_job_id l = k"
    "lock_document l = (xi_device_id r, xi_document_id r)"
    using parts(2) assms(3,7,9) unfolding released_locked_def by blast
  obtain l' where l': "l' \<in> set (pt_locks (st_other db))" "lk_job_id l' = m"
    "lock_document l' = (xi_device_id s, xi_document_id s)"
    using parts(2) assms(4,8,10) unfolding released_locked_def by blast
  have "l = l'"
    by (rule inj_onD [of lock_document "set (pt_locks (st_other db))"])
      (use parts(3) l l' assms(5,6) in \<open>simp_all add: locks_ok_def distinct_map\<close>)
  then have "k = m" using l(2) l'(2) by simp
  moreover have "r = s"
    using parts(1) assms(3,4,7,8) \<open>k = m\<close> unfolding intents_ok_def by (metis option.distinct(1))
  ultimately show ?thesis by simp
qed

text \<open>C25. In every reachable store a consent is consumed exactly when a released intent names it.\<close>

theorem consumed_iff_released:
  assumes "steps (phase7_step L T) db0 db" "phase7_ok L T db0" "c \<in> set (t7_consents (t7 db))"
  shows "cs_state c = Consumed \<longleftrightarrow>
    (\<exists>r \<in> set (t7_intents (t7 db)). xi_state r = Released \<and> xi_consent_id r = Some (cs_consent_id c))"
proof -
  note ok = phase7_run_ok [OF assms(1,2)]
  have p: "release_paired (t7 db)" using ok by (simp add: phase7_ok_def)
  have "cs_state c = Consumed" if r: "r \<in> set (t7_intents (t7 db))" "xi_state r = Released"
    "xi_consent_id r = Some (cs_consent_id c)" for r
  proof -
    obtain d where d: "d \<in> set (t7_consents (t7 db))" "cs_state d = Consumed" "cs_consent_id d = cs_consent_id c"
      using paired_intent [OF p r(1,2)] r(3) by (auto split: if_splits)
    have "d = c"
      by (rule consent_table.unique [OF phase7_unclashed(2) [OF ok] d(1) assms(3)])
        (simp add: consent_clash_def d(3))
    then show ?thesis using d(2) by simp
  qed
  then show ?thesis using paired_consent [OF p assms(3)] by blast
qed

text \<open>C7. No write without its decision.  The released intent that needs assurance has a consumed consent for
  its version, digest and assurance that tells who decided, how and when.\<close>

theorem released_was_approved:
  assumes "steps (phase7_step L T) db0 db" "phase7_ok L T db0"
    and "r \<in> set (t7_intents (t7 db))" "xi_state r = Released" "xi_required_assurance r \<noteq> NoAssurance"
  shows "\<exists>c \<in> set (t7_consents (t7 db)). xi_consent_id r = Some (cs_consent_id c) \<and>
    cs_owner_subject c = xi_owner_subject r \<and> cs_intent_id c = xi_intent_id r \<and>
    cs_intent_version c = xi_intent_version r \<and> cs_intent_digest c = xi_intent_digest r \<and>
    execution_intent_digest L r = Some (cs_intent_digest c) \<and>
    cs_required_assurance c = xi_required_assurance r \<and> cs_state c = Consumed \<and> cs_state_version c = 2 \<and>
    cs_decided_at c \<noteq> None \<and> cs_decision_source c \<noteq> None \<and> cs_decision_principal c \<noteq> None \<and>
    cs_consumed_at c \<noteq> None \<and> (cs_decision_source c = Some FromDevice \<longrightarrow> cs_decision_device_id c \<noteq> None)"
proof -
  note ok = phase7_run_ok [OF assms(1,2)]
  have p: "release_paired (t7 db)" "consents_ok L T (t7 db)" "intents_ok L T db"
    using ok by (simp_all add: phase7_ok_def)
  obtain c where c: "c \<in> set (t7_consents (t7 db))" "consent_of_intent c r" "cs_state c = Consumed"
    "xi_consent_id r = Some (cs_consent_id c)"
    using paired_intent [OF p(1) assms(3,4)] assms(5) by auto
  have "execution_intent_digest L r = Some (xi_intent_digest r)"
    using intents_wf [OF p(3) assms(3)] by (simp add: wf_intent_record_def validate_intent_def)
  moreover have "consent_fields L T c" "cs_state_version c = 2"
    using consent_row [OF p(2) c(1)] c(3) by simp_all
  ultimately show ?thesis
    using c by (intro bexI [of _ c]) (auto simp: consent_of_intent_def consent_fields_def validate_consent_def
      split: if_splits)
qed

section \<open>What never changes\<close>

text \<open>C24. Over any run an intent keeps everything its digest covers, and a settled intent keeps everything.\<close>

theorem intent_material_frozen:
  assumes "steps (phase7_step L T) db db'" "phase7_ok L T db" "r \<in> set (t7_intents (t7 db))"
  shows "\<exists>r' \<in> set (t7_intents (t7 db')). xi_intent_id r' = xi_intent_id r \<and>
    intent_material r' = intent_material r \<and>
    execution_intent_digest L r' = execution_intent_digest L r \<and> (intent_transitions (xi_state r) = [] \<longrightarrow> r' = r)"
proof -
  note ok = phase7_run_ok [OF assms(1,2)]
  obtain r' where r': "intent_row db' (xi_intent_id r) = Some r'" "intent_material r' = intent_material r"
    using intent_rows.steps_final [OF assms(1,2), of "xi_intent_id r" r] assms(3)
    by (auto simp: phase7_row [OF assms(2)])
  then have mem: "r' \<in> set (t7_intents (t7 db'))" "xi_intent_id r' = xi_intent_id r"
    by (simp_all add: phase7_row [OF ok])
  have parts: "intents_ok L T db'" "intents_ok L T db" using ok assms(2) by (simp_all add: phase7_ok_def)
  have "wf_intent_record L T r'" "wf_intent_record L T r"
    by (rule intents_wf [OF parts(1) mem(1)], rule intents_wf [OF parts(2) assms(3)])
  moreover have "xi_intent_digest r' = xi_intent_digest r"
    using arg_cong [OF r'(2), of xi_intent_digest] by (simp add: intent_material_def)
  ultimately have "execution_intent_digest L r' = execution_intent_digest L r"
    by (simp add: wf_intent_record_def validate_intent_def)
  moreover have "r' = r" if "intent_transitions (xi_state r) = []"
  proof -
    have "r \<in> set (t7_intents (t7 db'))"
      using released_stays [OF assms] that by (simp add: settled_intent_def)
    then show ?thesis
      using intent_table.unique [OF phase7_unclashed(1) [OF ok] _ mem(1)] mem(2)
      by (metis intent_clash_def)
  qed
  ultimately show ?thesis using mem r'(2) by blast
qed

text \<open>A decided consent that is denied, expired, invalidated or consumed, and a resolved recovery case,
  never change again.\<close>

theorem decisions_final:
  assumes "steps (phase7_step L T) db db'" "phase7_ok L T db"
    and "c \<in> set (t7_consents (t7 db))" "cs_state c \<notin> {Requested, Approved}"
    and "z \<in> set (t7_recoveries (t7 db))" "rk_state z = CaseResolved"
  shows "c \<in> set (t7_consents (t7 db')) \<and> z \<in> set (t7_recoveries (t7 db'))"
proof -
  note ok = phase7_run_ok [OF assms(1,2)]
  have "settled_consent c" using assms(4) by (cases "cs_state c") (simp_all add: settled_consent_def)
  then have "consent_row_of db' (cs_consent_id c) = Some c"
    using settled_consents.steps_final [OF assms(1,2), of "cs_consent_id c" c] assms(3)
    by (simp add: phase7_row [OF assms(2)])
  moreover have "case_row db' (rk_case_id z) = Some z"
    using closed_cases.steps_final [OF assms(1,2), of "rk_case_id z" z] assms(5,6)
    by (simp add: phase7_row [OF assms(2)] case_closed_def)
  ultimately show ?thesis by (simp add: phase7_row [OF ok])
qed

lemma run_append_only:
  assumes "steps (phase7_step L T) db db'" "phase7_ok L T db"
  shows "\<exists>es ks ps rs. t7_evidence (t7 db') = t7_evidence (t7 db) @ es \<and>
    t7_checkpoints (t7 db') = t7_checkpoints (t7 db) @ ks \<and> t7_plans (t7 db') = t7_plans (t7 db) @ ps \<and>
    t7_receipts (t7 db') = t7_receipts (t7 db) @ rs"
  using assms
proof (induction rule: steps.induct)
  case (steps_snoc s t u)
  have "phase7_ok L T t" by (rule phase7_run_ok [OF steps_snoc(1,4)])
  from steps_snoc(3) [OF steps_snoc(4)] change_append_only [OF phase7_step_change [OF steps_snoc(2) this]]
  show ?case by (elim exE conjE) simp
qed simp

text \<open>Evidence is only appended, and the numbers of one source of a job strictly increase.\<close>

theorem evidence_only_grows:
  assumes "steps (phase7_step L T) db db'" "phase7_ok L T db" "i < j" "j < length (t7_evidence (t7 db'))"
    and "xe_job_id (t7_evidence (t7 db') ! i) = xe_job_id (t7_evidence (t7 db') ! j)"
    and "xe_source (t7_evidence (t7 db') ! i) = xe_source (t7_evidence (t7 db') ! j)"
  shows "take (length (t7_evidence (t7 db))) (t7_evidence (t7 db')) = t7_evidence (t7 db) \<and>
    xe_source_sequence (t7_evidence (t7 db') ! i) < xe_source_sequence (t7_evidence (t7 db') ! j)"
proof -
  have "evidence_ordered (t7_evidence (t7 db'))"
    using phase7_run_ok [OF assms(1,2)] by (simp add: phase7_ok_def others_ok_def)
  then have "xe_source_sequence (t7_evidence (t7 db') ! i) < xe_source_sequence (t7_evidence (t7 db') ! j)"
    using assms(3-6) by (auto simp: evidence_ordered_def sorted_wrt_iff_nth_less)
  moreover have "take (length (t7_evidence (t7 db))) (t7_evidence (t7 db')) = t7_evidence (t7 db)"
    using run_append_only [OF assms(1,2)] by auto
  ultimately show ?thesis by simp
qed

text \<open>A rollback plan and a rollback job have at most one receipt, and its removed entities are those of
  the plan.\<close>

theorem one_rollback_receipt:
  assumes "steps (phase7_step L T) db0 db" "phase7_ok L T db0"
    and "n \<in> set (t7_receipts (t7 db))" "m \<in> set (t7_receipts (t7 db))"
    and "rl_rollback_plan_id n = rl_rollback_plan_id m \<or> rl_rollback_job_id n = rl_rollback_job_id m"
  shows "n = m \<and> (\<exists>p \<in> set (t7_plans (t7 db)). rp_plan_id p = rl_rollback_plan_id n \<and>
    rp_owner_subject p = rl_owner_subject n \<and> rp_plan_digest p = rl_rollback_plan_digest n \<and>
    set (rp_entity_handles p) = rx_handle ` set (rl_removed_entities n))"
proof -
  have o: "others_ok L T (t7 db)" using phase7_run_ok [OF assms(1,2)] by (simp add: phase7_ok_def)
  have "n = m"
    by (rule receipt_table.unique [of "t7_receipts (t7 db)"])
      (use o assms(3-5) in \<open>auto simp: others_ok_def receipt_clash_def\<close>)
  moreover have "receipt_parents (t7 db) n" using o assms(3) by (simp add: others_parts)
  ultimately show ?thesis unfolding receipt_parents_def receipt_of_plan_def by blast
qed

section \<open>Validity of the records\<close>


end
