(* ===== verification/Phase7Samples.thy ===== *)
theory Phase7Samples
  imports Phase7Properties
begin

text \<open>
  A concrete store for the witnesses of the Phase 7 properties: one device, one old job, an intent that
  an approved consent covers, and one record in every other table.  The digest function of the sample is
  constant; the reader of timestamps reads the hour.
\<close>

section \<open>Records\<close>

definition zero_hash :: string where
  "zero_hash = ''sha256:'' @ replicate 64 CHR ''0''"

definition zero_lib :: pylib where
  "zero_lib = \<lparr>sha256_hex = (\<lambda>_. replicate 64 CHR ''0''), float_repr = (\<lambda>_. [])\<rparr>"

definition hour_reader :: iso_reader where
  "hour_reader s = (if length s = 20 then Some (True, of_nat (of_char (s ! 12))) else None)"

definition at_hour :: "char \<Rightarrow> string" where
  "at_hour c = ''2026-01-01T0'' @ [c] @ '':00:00Z''"

definition sample_principal :: principal where
  "sample_principal = \<lparr>pp_issuer = ''iss'', pp_subject = ''o''\<rparr>"

definition sample_runtime7 :: runtime_pins where
  "sample_runtime7 = \<lparr>rn_runtime_id = ''rt'', rn_runtime_role = ''primary'', rn_host_family = ''R25'',
     rn_host_version = ''25'', rn_agent_package_id = ''ap'', rn_agent_package_version = ''1'',
     rn_agent_package_hash = zero_hash, rn_host_package_id = ''hp'', rn_host_package_version = ''1'',
     rn_host_package_hash = zero_hash\<rparr>"

definition sample_policy7 :: policy_pins where
  "sample_policy7 = \<lparr>yp_capability_manifest_hash = zero_hash, yp_operation_registry_hash = zero_hash,
     yp_registry_version = ''1'', yp_policy_version = ''1''\<rparr>"

definition sample_intent :: intent_record where
  "sample_intent = \<lparr>xi_intent_id = ''i1'', xi_intent_version = 1, xi_owner_subject = ''o'',
     xi_actor_principal = sample_principal, xi_action = ProgramCommit, xi_state = AwaitingApproval,
     xi_state_version = 0, xi_device_id = ''d'', xi_device_identity_generation = 1,
     xi_device_key_thumbprint = zero_hash, xi_document_id = ''doc'', xi_expected_document_revision = ''7'',
     xi_program_id = ''prog'', xi_program_revision = 1, xi_program_digest = zero_hash,
     xi_preview_id = ''pv'', xi_preview_digest = zero_hash, xi_preview_execution_digest = zero_hash,
     xi_preview_expires_at = at_hour CHR ''8'', xi_deterministic_receipt_id = ''rc'',
     xi_commit_execution_digest = zero_hash, xi_runtime_pins = sample_runtime7,
     xi_policy_pins = sample_policy7, xi_risk_class = ''low'', xi_required_assurance = RecentAuth,
     xi_trusted_effect_summary = [\<lparr>ei_kind = ''create_entities'', ei_count = 2, ei_summary = ''two lines''\<rparr>],
     xi_idempotency_key = ''key'', xi_request_hash = zero_hash, xi_intent_digest = zero_hash,
     xi_created_at = at_hour CHR ''1'', xi_expires_at = at_hour CHR ''8'', xi_consent_id = None,
     xi_released_job_id = None\<rparr>"

definition sample_consent :: consent_record where
  "sample_consent = \<lparr>cs_consent_id = ''cn1'', cs_consent_version = 1, cs_owner_subject = ''o'',
     cs_intent_id = ''i1'', cs_intent_version = 1, cs_intent_digest = zero_hash,
     cs_required_assurance = RecentAuth, cs_state = Approved, cs_state_version = 1,
     cs_challenge_nonce_hash = zero_hash, cs_requested_at = at_hour CHR ''1'',
     cs_expires_at = at_hour CHR ''7'', cs_decided_at = Some (at_hour CHR ''2''),
     cs_decision_source = Some FromPortal, cs_decision_principal = Some sample_principal,
     cs_decision_device_id = None, cs_decision_device_identity_generation = None, cs_consumed_at = None\<rparr>"

definition denied_consent :: consent_record where
  "denied_consent = sample_consent\<lparr>cs_consent_id := ''cn0'', cs_required_assurance := DeviceLocal,
     cs_owner_subject := ''p'', cs_intent_id := ''i0'', cs_state := ConsentDenied\<rparr>"

text \<open>The older intent that was denied.\<close>

definition denied_intent :: intent_record where
  "denied_intent = sample_intent\<lparr>xi_intent_id := ''i0'', xi_owner_subject := ''p'', xi_state := IntentDenied,
     xi_state_version := 1, xi_required_assurance := DeviceLocal\<rparr>"

definition sample_evidence7 :: "int \<Rightarrow> evidence_event" where
  "sample_evidence7 n = \<lparr>xe_event_id = (if n = 1 then ''e1'' else ''e2''), xe_owner_subject = ''o'',
     xe_source = AgentSource, xe_source_sequence = n, xe_job_id = ''j1'', xe_command_id = None,
     xe_intent_id = None, xe_payload_digest = None, xe_execution_digest = None, xe_receipt_digest = None,
     xe_payload = \<lparr>ey_milestone = ''received'', ey_outcome = ''observed'', ey_summary = ''s'',
       ey_details = [\<lparr>ed_key = ''n'', ed_value = ScalarInt 1\<rparr>]\<rparr>,
     xe_source_timestamp = at_hour CHR ''2'', xe_gateway_received_at = at_hour CHR ''2'',
     xe_event_digest = zero_hash\<rparr>"

definition sample_case :: recovery_record where
  "sample_case = \<lparr>rk_case_id = ''case1'', rk_owner_subject = ''o'', rk_state = CaseResolved,
     rk_resolution_version = 1, rk_execution_binding_digest = zero_hash, rk_intent_id = ''i1'',
     rk_consent_id = None, rk_job_id = ''j1'', rk_receipt_id = None, rk_evidence_event_ids = [''e1''],
     rk_missing_evidence = [], rk_latest_query_result = None,
     rk_current_state = \<lparr>rs_device_status = ''online'', rs_document_status = ''open'',
       rs_document_revision = None, rs_runtime_id = None, rs_agent_package_hash = None,
       rs_host_package_hash = None\<rparr>,
     rk_safe_actions = [''needs_support''], rk_resolution = Some ''proven_no_effect'', rk_operator_notes = [],
     rk_created_at = at_hour CHR ''2'', rk_updated_at = at_hour CHR ''3'',
     rk_resolved_at = Some (at_hour CHR ''3'')\<rparr>"

definition sample_checkpoint :: checkpoint_record where
  "sample_checkpoint = \<lparr>ck_checkpoint_id = ''ck1'', ck_owner_subject = ''o'', ck_original_receipt_id = ''r1'',
     ck_original_receipt_digest = zero_hash, ck_program_id = ''prog'', ck_program_revision = 1,
     ck_program_digest = zero_hash, ck_preview_id = ''pv'', ck_preview_digest = zero_hash,
     ck_execution_digest = zero_hash, ck_document_id = ''doc'', ck_document_revision_before = ''7'',
     ck_document_revision_after = ''8'',
     ck_created_entities = [\<lparr>ce_handle = ''1A'', ce_entity_type = ''LINE'', ce_layer = ''0'',
       ce_canonical_fingerprint = zero_hash\<rparr>],
     ck_non_entity_object_created = False, ck_runtime_pins = sample_runtime7,
     ck_policy_pins = sample_policy7, ck_checkpoint_digest = zero_hash, ck_created_at = at_hour CHR ''2''\<rparr>"

definition sample_rollback_plan :: plan_record where
  "sample_rollback_plan = \<lparr>rp_plan_id = ''pl1'', rp_owner_subject = ''o'', rp_checkpoint_id = ''ck1'',
     rp_checkpoint_digest = zero_hash, rp_original_receipt_id = ''r1'', rp_document_id = ''doc'',
     rp_current_document_revision = ''8'', rp_rollback_execution_digest = zero_hash,
     rp_entity_handles = [''1A''], rp_conflicts = [], rp_eligible = True, rp_runtime_pins = sample_runtime7,
     rp_policy_pins = sample_policy7, rp_plan_digest = zero_hash, rp_created_at = at_hour CHR ''2'',
     rp_expires_at = at_hour CHR ''4''\<rparr>"

definition sample_rollback_receipt :: rollback_receipt where
  "sample_rollback_receipt = \<lparr>rl_rollback_receipt_id = ''rr1'', rl_owner_subject = ''o'',
     rl_original_receipt_id = ''r1'', rl_original_receipt_digest = zero_hash, rl_program_digest = zero_hash,
     rl_original_execution_digest = zero_hash, rl_original_document_revision = ''7'',
     rl_checkpoint_id = ''ck1'', rl_checkpoint_digest = zero_hash, rl_rollback_plan_id = ''pl1'',
     rl_rollback_plan_digest = zero_hash, rl_rollback_job_id = ''j1'',
     rl_rollback_execution_digest = zero_hash, rl_document_id = ''doc'',
     rl_document_revision_before = ''8'', rl_document_revision_after = ''9'',
     rl_removed_entities = [\<lparr>rx_handle = ''1A'', rx_entity_type = ''LINE'', rx_prior_fingerprint = zero_hash\<rparr>],
     rl_runtime_pins = sample_runtime7, rl_policy_pins = sample_policy7, rl_receipt_digest = zero_hash,
     rl_created_at = at_hour CHR ''3''\<rparr>"

lemmas sample_records = sample_principal_def sample_runtime7_def sample_policy7_def sample_intent_def
  sample_consent_def denied_consent_def denied_intent_def sample_evidence7_def sample_case_def
  sample_checkpoint_def sample_rollback_plan_def sample_rollback_receipt_def

section \<open>Bounds of the encodings\<close>

text \<open>An upper bound of the length of an encoding, without computing it.\<close>

function json_weight :: "json \<Rightarrow> nat" where
  "json_weight (JObj kvs) = 2 + sum_list (map (\<lambda>p. 6 * length (fst p) + 4 + json_weight (snd p)) kvs)"
| "json_weight (JList xs) = 2 + sum_list (map (\<lambda>x. 1 + json_weight x) xs)"
| "json_weight JNull = 4" | "json_weight (JBool b) = 5" | "json_weight (JInt i) = nat (abs i) + 2"
| "json_weight (JFloat f) = 0" | "json_weight (JStr s) = 6 * length s + 2"
  by pat_completeness auto
termination json_weight
  by (relation "measure size") (auto dest: size_snd_item size_elem simp del: json.size)

lemma length_json_string: "length (json_string s) \<le> 6 * length s + 2"
proof -
  have "length (concat (map escape_char s)) \<le> 6 * length s"
    by (induction s) (auto simp: escape_char_def)
  then show ?thesis by (simp add: json_string_def)
qed

lemma length_decimal: "length (decimal n) \<le> Suc n"
proof (induction n rule: decimal.induct)
  case (1 n)
  then show ?case by (cases "n < 10") (simp_all add: decimal.simps [of n])
qed

lemma length_join: "length (join_with c ts) \<le> sum_list (map (\<lambda>t. Suc (length t)) ts)"
  by (induction c ts rule: join_with.induct) auto

lemma all_some_Some: "all_some xs = Some ys \<longleftrightarrow> xs = map Some ys"
  by (induction xs arbitrary: ys rule: all_some.induct) auto

lemma sum_sorted: "sum_list (map f (sort_key g xs)) = (sum_list (map f xs) :: nat)"
proof -
  have "mset (map f (sort_key g xs)) = mset (map f xs)" by simp
  then show ?thesis by (metis sum_mset_sum_list)
qed

lemma dumps_weight: "json_dumps zero_lib v = Some t \<Longrightarrow> length t \<le> json_weight v"
proof (induction v arbitrary: t rule: json_weight.induct)
  case (1 kvs)
  then obtain items where i: "map (\<lambda>p. map_option (\<lambda>t. (fst p, t)) (json_dumps zero_lib (snd p))) kvs = map Some items"
    "t = CHR ''{'' # join_with CHR '','' (map (\<lambda>p. json_string (fst p) @ CHR '':'' # snd p)
       (sort_key fst items)) @ ''}''"
    by (auto simp: all_some_Some split: option.splits)
  let ?w = "\<lambda>p. Suc (length (json_string (fst p) @ CHR '':'' # snd p))"
  have "sum_list (map ?w items) \<le> sum_list (map (\<lambda>p. 6 * length (fst p) + 4 + json_weight (snd p)) kvs)"
    using i(1) 1(1)
  proof (induction kvs arbitrary: items)
    case (Cons p kvs)
    then obtain y ys where y: "items = y # ys" by (cases items) auto
    obtain t0 where t0: "json_dumps zero_lib (snd p) = Some t0" "y = (fst p, t0)"
      using Cons(2) by (auto simp: y)
    have "?w y \<le> 6 * length (fst p) + 4 + json_weight (snd p)"
      using Cons(3) [OF _ t0(1)] length_json_string [of "fst p"] by (simp add: t0(2))
    moreover have "sum_list (map ?w ys) \<le> sum_list (map (\<lambda>p. 6 * length (fst p) + 4 + json_weight (snd p)) kvs)"
      by (rule Cons(1)) (use Cons(2,3) y in auto)
    ultimately show ?case by (simp add: y)
  qed simp
  moreover have "sum_list (map ?w (sort_key fst items)) = sum_list (map ?w items)"
    by (rule sum_sorted)
  ultimately show ?case
    using length_join [of "CHR '',''" "map (\<lambda>p. json_string (fst p) @ CHR '':'' # snd p) (sort_key fst items)"]
    by (simp add: i(2) comp_def)
next
  case (2 xs)
  then obtain ts where i: "map (json_dumps zero_lib) xs = map Some ts"
    "t = CHR ''['' # join_with CHR '','' ts @ '']''"
    by (auto simp: all_some_Some split: option.splits)
  have "sum_list (map (\<lambda>t. Suc (length t)) ts) \<le> sum_list (map (\<lambda>x. 1 + json_weight x) xs)"
    using i(1) 2(1)
  proof (induction xs arbitrary: ts)
    case (Cons x xs)
    then obtain y ys where y: "ts = y # ys" by (cases ts) auto
    have "length y \<le> json_weight x" using Cons(2,3) by (simp add: y)
    moreover have "sum_list (map (\<lambda>t. Suc (length t)) ys) \<le> sum_list (map (\<lambda>x. 1 + json_weight x) xs)"
      by (rule Cons(1)) (use Cons(2,3) y in auto)
    ultimately show ?case by (simp add: y)
  qed simp
  then show ?case using length_join [of "CHR '',''" ts] by (simp add: i(2))
next
  case (5 i)
  then show ?case using length_decimal [of "nat i"] length_decimal [of "nat (- i)"]
    by (auto simp: int_text_def)
next
  case (6 f)
  then show ?case by (simp add: zero_lib_def split: pyfloat.splits)
next
  case (7 s)
  then show ?case using length_json_string [of s] by simp
qed (auto split: if_splits)

lemma short_filter: "length xs \<le> n \<Longrightarrow> length (filter p xs) \<le> n"
  by (meson le_trans length_filter_le)

lemma bounded_drop: "bounded_at d v = Inr () \<Longrightarrow> bounded_at d (drop_none v) = Inr ()"
proof (induction v arbitrary: d rule: drop_none.induct)
  case (1 kvs)
  then show ?case unfolding drop_none.simps bounded_at_obj by (auto intro: short_filter)
next
  case (2 xs)
  then show ?case unfolding drop_none.simps bounded_at_list by auto
qed simp_all

lemma bounded_without: "bounded_at d (JObj kvs) = Inr () \<Longrightarrow> bounded_at d (JObj (filter p kvs)) = Inr ()"
  unfolding bounded_at_obj by (auto intro: short_filter)

lemma sum_filter_le: "sum_list (map f (filter p xs)) \<le> (sum_list (map f xs) :: nat)"
  by (induction xs) auto

lemma weight_drop: "json_weight (drop_none v) \<le> json_weight v"
proof (induction v rule: drop_none.induct)
  case (1 kvs)
  let ?f = "\<lambda>p. 6 * length (fst p) + 4 + json_weight (snd p)"
  have "sum_list (map (\<lambda>p. ?f (fst p, drop_none (snd p))) (filter (\<lambda>p. snd p \<noteq> JNull) kvs))
      \<le> sum_list (map ?f (filter (\<lambda>p. snd p \<noteq> JNull) kvs))"
    by (rule sum_list_mono) (use 1 in auto)
  then show ?case using sum_filter_le [of ?f "\<lambda>p. snd p \<noteq> JNull" kvs] by (simp add: comp_def)
next
  case (2 xs)
  have "sum_list (map (\<lambda>x. 1 + json_weight (drop_none x)) xs) \<le> sum_list (map (\<lambda>x. 1 + json_weight x) xs)"
    by (rule sum_list_mono) (use 2 in auto)
  then show ?case by (simp add: comp_def)
qed simp_all

definition light :: "json \<Rightarrow> bool" where
  "light v \<longleftrightarrow> bounded_at 0 v = Inr () \<and> json_weight v \<le> MAX_RECORD_BYTES"

lemma light_bounded: "light v \<Longrightarrow> record_is_bounded zero_lib v"
  using bounded_drop [of 0 v] bounded_dumps [of 0 "drop_none v" zero_lib] dumps_weight [of "drop_none v"]
    weight_drop [of v]
  by (fastforce simp: light_def record_is_bounded_def canonical_json_def validate_bounded_json_def)

lemma light_text: "light v \<Longrightarrow> sha256_text zero_lib v = Some zero_hash"
  using bounded_dumps [of 0 v zero_lib]
  by (auto simp: light_def sha256_text_def canonical_json_def validate_bounded_json_def zero_hash_def zero_lib_def)

lemma light_without:
  assumes "light (JObj kvs)"
  shows "canonical_phase7_digest zero_lib ks (JObj kvs) = Some zero_hash"
proof -
  have "bounded_at 0 (drop_none (JObj kvs)) = Inr ()" using assms bounded_drop unfolding light_def by blast
  then have "bounded_at 0 (without_fields ks (drop_none (JObj kvs))) = Inr ()"
    unfolding without_fields_def drop_none.simps jitems.simps by (rule bounded_without)
  then show ?thesis
    using bounded_dumps [of 0 "without_fields ks (drop_none (JObj kvs))" zero_lib]
    by (auto simp: canonical_phase7_digest_def sha256_text_def canonical_json_def validate_bounded_json_def
        zero_hash_def zero_lib_def)
qed

section \<open>The records are valid\<close>

lemmas dumps7 = dump_principal_def dump_runtime_pins_def dump_policy_pins_def dump_effect_item_def
  dump_intent_record_def dump_consent_record_def dump_evidence_detail_def dump_evidence_payload_def
  dump_evidence_event_def dump_recovery_runtime_state_def dump_recovery_record_def dump_checkpoint_entity_def
  dump_checkpoint_record_def dump_plan_record_def dump_removed_entity_def dump_rollback_receipt_def
  opt_json_def

lemmas light_eval = light_def MAX_RECORD_BYTES_def bound_defs zero_hash_def at_hour_def

lemma light_parts:
  "light (dump_principal sample_principal)" "light (dump_runtime_pins sample_runtime7)"
  "light (dump_policy_pins sample_policy7)"
  by (simp_all add: light_eval dumps7 sample_records)

lemma light_intent: "light (dump_intent_record sample_intent)"
  by (simp add: light_eval dumps7 sample_records)

lemma hash_valid: "prefixed_sha256 zero_hash"
  by code_simp

lemma hours_valid:
  "c \<in> {CHR ''1'', CHR ''2'', CHR ''3'', CHR ''4'', CHR ''7'', CHR ''8''} \<Longrightarrow> valid_timestamp hour_reader (at_hour c)"
  by (auto simp: valid_timestamp_def timestamp_shape_def at_hour_def hour_reader_def fraction_zone_def
      zone_shape_def is_digit_def char_between_def)

lemma light_intents:
  "light (dump_intent_record denied_intent)" "light (dump_effect_item (hd (xi_trusted_effect_summary sample_intent)))"
  by (simp_all add: light_eval dumps7 sample_records)

lemma light_consents: "light (dump_consent_record sample_consent)" "light (dump_consent_record denied_consent)"
  by (simp_all add: light_eval dumps7 sample_records)

lemma light_evidence:
  "light (dump_evidence_event (sample_evidence7 1))" "light (dump_evidence_event (sample_evidence7 2))"
  "light (dump_evidence_payload (xe_payload (sample_evidence7 n)))"
  "light (dump_evidence_detail (hd (ey_details (xe_payload (sample_evidence7 n)))))"
  by (simp_all add: light_eval dumps7 sample_records)

lemma light_case:
  "light (dump_recovery_record sample_case)" "light (dump_recovery_runtime_state (rk_current_state sample_case))"
  by (simp_all add: light_eval dumps7 sample_records)

lemma light_rollback:
  "light (dump_checkpoint_record sample_checkpoint)" "light (dump_plan_record sample_rollback_plan)"
  "light (dump_rollback_receipt sample_rollback_receipt)"
  "light (dump_checkpoint_entity (hd (ck_created_entities sample_checkpoint)))"
  "light (dump_removed_entity (hd (rl_removed_entities sample_rollback_receipt)))"
  by (simp_all add: light_eval dumps7 sample_records)

lemma record_digests:
  "light (dump_intent_record r) \<Longrightarrow> execution_intent_digest zero_lib r = Some zero_hash"
  "light (dump_evidence_event e) \<Longrightarrow> execution_evidence_digest zero_lib e = Some zero_hash"
  "light (dump_plan_record p) \<Longrightarrow> rollback_plan_digest zero_lib p = Some zero_hash"
  unfolding execution_intent_digest_def execution_evidence_digest_def rollback_plan_digest_def
    dump_intent_record_def dump_evidence_event_def dump_plan_record_def
  by (rule light_without, assumption)+

lemma rollback_digests:
  "rollback_checkpoint_digest zero_lib sample_checkpoint = Some zero_hash"
  "rollback_receipt_digest zero_lib sample_rollback_receipt = Some zero_hash"
  unfolding rollback_checkpoint_digest_def rollback_receipt_digest_def
  by (rule light_text; simp add: light_eval dumps7 sample_records host_pins_def)+

lemmas field_eval = text_between_def int_between_def MAX_INT32_def MAX_INT64_def opt_ok_def ascii_alnum_def
  is_digit_def char_between_def entity_handle_def is_lower_def py_len_def utf8_continuation_def

lemma no_whitespace:
  assumes "list_all name_char s" "\<And>w. w \<in> set ws \<Longrightarrow> w \<in> set whitespace"
  shows "\<not> contains_any ws s"
proof
  assume "contains_any ws s"
  then obtain n w where w: "n < length s" "w \<in> set ws" "starts_with w (drop n s)"
    by (auto simp: contains_any_def list_ex_iff)
  then have "w \<noteq> []" "\<not> name_char (hd w)" using assms(2) whitespace_nonempty whitespace_ends(1) by blast+
  moreover have "hd w \<in> set s"
  proof (cases w)
    case (Cons a v)
    then have "a \<in> set (drop n s)" using w(3) by (auto simp: starts_with_iff)
    then show ?thesis using Cons by (auto dest: in_set_dropD)
  qed (use \<open>w \<noteq> []\<close> in simp)
  ultimately show False using assms(1) by (simp add: list_all_iff)
qed

lemma pattern_space_mem: "w \<in> set pattern_space \<Longrightarrow> w \<in> set whitespace"
  by (auto simp: pattern_space_def whitespace_def)

lemma text_valid:
  "list_all name_char s \<Longrightarrow> text_between 1 256 s \<Longrightarrow> revision_token s"
  "list_all name_char s \<Longrightarrow> text_between 1 256 s \<Longrightarrow> job_token s"
  using no_whitespace [of s pattern_space] no_whitespace [of s whitespace] pattern_space_mem
  by (auto simp: revision_token_def job_token_def text_between_def)

lemma parts_wf:
  "wf_principal zero_lib sample_principal" "wf_runtime_pins zero_lib sample_runtime7"
  "wf_policy_pins zero_lib sample_policy7"
  by (simp_all add: wf_principal_def wf_runtime_pins_def wf_policy_pins_def light_bounded light_parts)
    (simp_all add: sample_records hash_valid field_eval)

lemma revision_valid: "revision_token ''7''" "revision_token ''8''" "revision_token ''9''"
  by (rule text_valid; simp add: field_eval name_defs)+

lemma hours:
  "valid_timestamp hour_reader (at_hour CHR ''1'')" "valid_timestamp hour_reader (at_hour CHR ''2'')"
  "valid_timestamp hour_reader (at_hour CHR ''3'')" "valid_timestamp hour_reader (at_hour CHR ''4'')"
  "valid_timestamp hour_reader (at_hour CHR ''7'')" "valid_timestamp hour_reader (at_hour CHR ''8'')"
  by (rule hours_valid, simp)+

lemma hour_order:
  "not_before hour_reader (at_hour c) (at_hour d) \<longleftrightarrow> (of_char d :: nat) \<le> of_char c"
  "at_or_after hour_reader (at_hour c) (at_hour d) = Inr ((of_char d :: nat) \<le> of_char c)"
  by (simp_all add: not_before_def at_or_after_def instant_def hour_reader_def at_hour_def)

lemmas valid_eval = hash_valid revision_valid parts_wf hours hour_order field_eval

lemma effect_valid: "list_all (wf_effect_item zero_lib) (xi_trusted_effect_summary sample_intent)"
  using light_bounded [OF light_intents(2)]
  by (simp add: wf_effect_item_def sample_intent_def EFFECT_KINDS_def field_eval)

lemma intents_valid:
  "wf_intent_record zero_lib hour_reader sample_intent" "wf_intent_record zero_lib hour_reader denied_intent"
  using light_bounded [OF light_intent] light_bounded [OF light_intents(1)] effect_valid
    record_digests(1) [OF light_intent] record_digests(1) [OF light_intents(1)]
  unfolding wf_intent_record_def validate_intent_def
  by (simp_all add: sample_intent_def denied_intent_def RISK_CLASSES_def valid_eval)

lemma consents_valid:
  "wf_consent_record zero_lib hour_reader sample_consent" "wf_consent_record zero_lib hour_reader denied_consent"
  using light_bounded [OF light_consents(1)] light_bounded [OF light_consents(2)]
  unfolding wf_consent_record_def validate_consent_def
  by (simp_all add: sample_consent_def denied_consent_def valid_eval)

lemma evidence_valid:
  "wf_evidence_event zero_lib hour_reader (sample_evidence7 1)" "wf_evidence_event zero_lib hour_reader (sample_evidence7 2)"
  using light_bounded [OF light_evidence(1)] light_bounded [OF light_evidence(2)]
    light_bounded [OF light_evidence(3)] light_bounded [OF light_evidence(4)]
    record_digests(2) [OF light_evidence(1)] record_digests(2) [OF light_evidence(2)]
  unfolding wf_evidence_event_def wf_evidence_payload_def wf_evidence_detail_def
  by (simp_all add: sample_evidence7_def valid_eval MILESTONES_def HOST_MILESTONES_def EVIDENCE_OUTCOMES_def)

lemma case_valid: "wf_recovery_record zero_lib hour_reader sample_case"
  using light_bounded [OF light_case(1)] light_bounded [OF light_case(2)]
  unfolding wf_recovery_record_def wf_recovery_runtime_state_def validate_recovery_def
  by (simp add: sample_case_def valid_eval SAFE_ACTIONS_def RESOLUTIONS_def)

lemma rollback_valid:
  "wf_checkpoint_record zero_lib hour_reader sample_checkpoint"
  "wf_plan_record zero_lib hour_reader sample_rollback_plan"
  "wf_rollback_receipt zero_lib hour_reader sample_rollback_receipt"
  using light_bounded [OF light_rollback(1)] light_bounded [OF light_rollback(2)]
    light_bounded [OF light_rollback(3)] light_bounded [OF light_rollback(4)]
    light_bounded [OF light_rollback(5)] rollback_digests record_digests(3) [OF light_rollback(2)]
  unfolding wf_checkpoint_record_def wf_checkpoint_entity_def wf_plan_record_def wf_rollback_receipt_def
    wf_removed_entity_def
  by (simp_all add: sample_checkpoint_def sample_rollback_plan_def sample_rollback_receipt_def valid_eval)

section \<open>The store\<close>

definition sample_tables7 :: "unit phase7_tables" where
  "sample_tables7 = (empty_phase7 ())\<lparr>t7_intents := [denied_intent, sample_intent],
     t7_consents := [denied_consent, sample_consent], t7_evidence := [sample_evidence7 1, sample_evidence7 2],
     t7_recoveries := [sample_case], t7_checkpoints := [sample_checkpoint],
     t7_plans := [sample_rollback_plan], t7_receipts := [sample_rollback_receipt]\<rparr>"

definition sample_db7 :: "unit phase7_db" where
  "sample_db7 = with_tables (sample_store []) (empty_tables sample_tables7)"

lemma sample_db7_program: "program_ok sample_db7"
  using sample_stores_ok(1)
  by (simp add: sample_db7_def program_ok_def with_tables_ok receipts_ok_def locks_ok_def empty_tables_def
      sample_store_def sample_job_defs)

lemma sample_db7_tables: "t7 sample_db7 = sample_tables7"
  by (simp add: sample_db7_def empty_tables_def)

lemma sample_others: "others_ok zero_lib hour_reader sample_tables7"
  using evidence_valid case_valid rollback_valid
  by (simp add: others_ok_def sample_tables7_def empty_phase7_def unclashed_def evidence_ordered_def
      evidence_clash_def plan_of_checkpoint_def receipt_of_plan_def)
    (simp add: sample_evidence7_def sample_checkpoint_def sample_rollback_plan_def sample_rollback_receipt_def)

lemma sample_intent_fields:
  "xi_released_job_id sample_intent = None" "xi_released_job_id denied_intent = None"
  "xi_state sample_intent = AwaitingApproval" "xi_state denied_intent = IntentDenied"
  "intent_clash denied_intent sample_intent \<longleftrightarrow> False" "consent_of_intent sample_consent sample_intent"
  "consent_of_intent denied_consent denied_intent" "consent_clash denied_consent sample_consent \<longleftrightarrow> False"
  "cs_state sample_consent = Approved" "cs_state denied_consent = ConsentDenied"
  "cs_state_version sample_consent = 1" "cs_state_version denied_consent = 1"
  by (simp_all add: sample_intent_def denied_intent_def intent_clash_def consent_of_intent_def
      sample_consent_def denied_consent_def consent_clash_def)

lemma sample_db7_ok: "phase7_ok zero_lib hour_reader sample_db7"
  using sample_db7_program sample_others intents_valid wf_consent_fields [OF consents_valid(1)]
    wf_consent_fields [OF consents_valid(2)]
  by (simp add: phase7_ok_def sample_db7_tables intents_ok_def consents_ok_def release_paired_def
      released_locked_def)
    (simp add: sample_tables7_def empty_phase7_def unclashed_def sample_intent_fields)

section \<open>A release\<close>

definition sample_payload7 :: json where
  "sample_payload7 = JObj [(''execution'', JObj [(''intent_id'', JStr ''i1''), (''intent_digest'', JStr zero_hash),
     (''program_digest'', JStr zero_hash), (''execution_digest'', JStr zero_hash), (''document_id'', JStr ''doc''),
     (''expected_document_revision'', JStr ''7''), (''preview_id'', JStr ''pv''),
     (''preview_digest'', JStr zero_hash), (''receipt_id'', JStr ''rc'')])]"

definition sample_release :: release_request where
  "sample_release = \<lparr>wl_owner_subject = ''o'', wl_intent_id = ''i1'', wl_job_id = ''j2'', wl_command_id = ''c2'',
     wl_idempotency_key = ''k2'', wl_payload_hash = ''h2'', wl_payload = sample_payload7,
     wl_deadline_at = at_hour CHR ''6'', wl_kind = ''program_commit'', wl_expected_intent_version = 0,
     wl_consumed_at = at_hour CHR ''3'', wl_consent_id = Some ''cn1'', wl_expected_consent_version = Some 1\<rparr>"

lemma sample_arguments: "\<exists>pj fp. release_arguments zero_lib hour_reader sample_release = Inr (pj, fp)"
proof -
  have inst: "instant hour_reader (at_hour c) = Inr (True, of_nat (of_char c))" for c
    by (simp add: instant_def hour_reader_def at_hour_def)
  have tokens: "job_token ''j2''" "job_token ''c2''" "job_token ''k2''" "job_token ''h2''"
    by (rule text_valid(2); simp add: field_eval name_defs)+
  have "light sample_payload7" by (simp add: light_eval sample_payload7_def)
  then obtain t where t: "canonical_json zero_lib sample_payload7 = Inr t" "length t \<le> 1048576"
    using bounded_dumps [of 0 sample_payload7 zero_lib] dumps_weight [of sample_payload7]
    by (fastforce simp: light_def canonical_json_def validate_bounded_json_def MAX_RECORD_BYTES_def)
  have "light (JObj [(''version'', JStr ''cad.request/1''), (''kind'', JStr ''program_commit''),
      (''effect_class'', JStr ''write''), (''payload_hash'', JStr ''h2'')])"
    by (simp add: light_eval)
  then have "\<exists>e. canonical_json zero_lib (JObj [(''version'', JStr ''cad.request/1''), (''kind'', JStr ''program_commit''),
      (''effect_class'', JStr ''write''), (''payload_hash'', JStr ''h2'')]) = Inr e"
    using bounded_dumps [of 0 _ zero_lib]
    by (fastforce simp: light_def canonical_json_def validate_bounded_json_def simp del: bounded_at.simps)
  then show ?thesis
    using inst tokens t
    by (auto simp: release_arguments_def sample_release_def job_payload_json_def release_fingerprint_def
        guard_def sample_payload7_def)
qed

lemma light_released: "light (dump_intent_record (released_intent sample_release sample_intent))"
  by (simp add: light_eval dumps7 sample_records released_intent_def sample_release_def)

lemma released_valid: "wf_intent_record zero_lib hour_reader (released_intent sample_release sample_intent)"
  using light_bounded [OF light_released] effect_valid record_digests(1) [OF light_released]
  unfolding wf_intent_record_def validate_intent_def
  by (simp add: sample_intent_def released_intent_def sample_release_def RISK_CLASSES_def valid_eval)

lemma sample_found:
  "find_intent zero_lib hour_reader ''o'' ''i1'' sample_tables7 = Inr (Some sample_intent)"
  "find_consent zero_lib hour_reader ''o'' ''cn1'' sample_tables7 = Inr (Some sample_consent)"
  using intents_valid(1) consents_valid(1)
  by (simp_all add: find_intent_def find_consent_def sample_tables7_def)
    (simp_all add: sample_intent_def denied_intent_def sample_consent_def denied_consent_def)

lemma sample_bound:
  "require_job_binding sample_intent (wl_payload sample_release) = Inr ()"
  "require_phase8_release_binding sample_intent (wl_consent_id sample_release) (wl_payload sample_release)
     sample_tables7 = Inr ()"
  by (simp_all add: require_job_binding_def legacy_job_bound_def texts_match_def uses_wire_hash_def
      sample_release_def sample_payload7_def sample_intent_def jget_def jget_default_def jlookup_def
      require_phase8_release_binding_def intent_binding_def sample_tables7_def empty_phase7_def claims_phase8_def
      jkeys_def guard_def)

lemma sample_times:
  "release_times hour_reader sample_intent sample_release = Inr ()"
  "release_consent zero_lib hour_reader sample_intent sample_release sample_tables7 = Inr (Some sample_consent)"
  using sample_found(2)
  by (simp_all add: release_times_def release_consent_def sample_release_def hour_order guard_def)
    (simp_all add: sample_intent_def sample_consent_def hour_order)

lemma sample_keys:
  "xi_owner_subject sample_intent = ''o''" "xi_intent_id sample_intent = ''i1''" "xi_state_version sample_intent = 0"
  "xi_owner_subject denied_intent = ''p''" "xi_intent_id denied_intent = ''i0''" "xi_device_id sample_intent = ''d''"
  "xi_document_id sample_intent = ''doc''" "cs_owner_subject sample_consent = ''o''"
  "cs_consent_id sample_consent = ''cn1''" "cs_consent_id denied_consent = ''cn0''"
  "wl_owner_subject sample_release = ''o''" "wl_intent_id sample_release = ''i1''" "wl_job_id sample_release = ''j2''"
  "wl_consent_id sample_release = Some ''cn1''" "wl_expected_consent_version sample_release = Some 1"
  "wl_expected_intent_version sample_release = 0" "wl_command_id sample_release = ''c2''"
  "wl_idempotency_key sample_release = ''k2''"
  by (simp_all add: sample_intent_def denied_intent_def sample_consent_def denied_consent_def sample_release_def)

lemma sample_db7_parts:
  "st_jobs sample_db7 = [sample_job]" "st_devices sample_db7 = [sample_device]"
  "pt_locks (st_other sample_db7) = []"
  by (simp_all add: sample_db7_def sample_store_def empty_tables_def sample_job_defs)

lemma sample_first_release:
  "\<exists>r j db. release_intent zero_lib hour_reader ''u'' sample_release sample_db7 = Inr (Some (r, j, False), db)"
proof -
  obtain pj fp where a: "release_arguments zero_lib hour_reader sample_release = Inr (pj, fp)"
    using sample_arguments by blast
  define db2 where "db2 = sample_db7\<lparr>st_jobs := st_jobs sample_db7 @ [release_row sample_intent sample_release fp],
    st_events := st_events sample_db7 @ [release_event sample_release]\<rparr>"
  define db3 where "db3 = on_t7 (\<lambda>t. t\<lparr>t7_consents :=
    [denied_consent, consumed_consent (wl_consumed_at sample_release) sample_consent]\<rparr>) db2"
  define db4 where "db4 = on_tables (\<lambda>t. t\<lparr>pt_locks := [release_lock sample_intent sample_release]\<rparr>) db3"
  define db5 where "db5 = on_t7 (\<lambda>t. t\<lparr>t7_intents :=
    [denied_intent, released_intent sample_release sample_intent]\<rparr>) db4"
  have free: "select1 (release_clash sample_intent sample_release) (st_jobs sample_db7) = None"
    by (simp add: sample_db7_parts release_clash_def sample_keys sample_job_defs request_key_def)
  have s1: "release_lock_check sample_intent ''j2'' sample_db7 = Inr sample_db7"
    by (simp add: release_lock_check_def sample_db7_parts document_lock_def)
  have s2: "insert_released_job sample_intent sample_release fp sample_db7 = Inr db2"
    using free by (simp add: insert_released_job_def db2_def release_row_def release_event_def sample_db7_parts
        sample_device_def sample_keys)
  have s3: "consume_consent sample_release (Some sample_consent) db2 = Inr db3"
    by (simp add: consume_consent_def db3_def db2_def sample_db7_tables sample_tables7_def sample_keys
        count_where_def update_where_def sample_intent_fields on_t7_def on_tables_def)
  have s4: "take_release_lock sample_intent sample_release db3 = Inr db4"
    by (simp add: take_release_lock_def insert_lock_def db4_def db3_def db2_def sample_db7_parts on_tables_def
        release_lock_def on_t7_def)
  have s5: "mark_released sample_release db4 = Inr db5"
    by (simp add: mark_released_def db5_def db4_def db3_def db2_def sample_db7_tables sample_tables7_def sample_keys
        count_where_def update_where_def sample_intent_fields on_t7_def on_tables_def)
  have s6: "record_phase8_release_usage ''u'' ''o'' ''i1'' ''j2'' now db5 = Inr db5" for now
    by (simp add: record_phase8_release_usage_def intent_binding_def db5_def db4_def db3_def db2_def
        sample_db7_tables sample_tables7_def empty_phase7_def on_tables_def)
  have s7: "find_intent zero_lib hour_reader ''o'' ''i1'' (t7 db5) =
      Inr (Some (released_intent sample_release sample_intent))"
    using released_valid by (simp add: find_intent_def db5_def sample_keys released_intent_keys)
  have "\<exists>r j db. release_first zero_lib hour_reader ''u'' sample_intent sample_release fp sample_db7 =
      Inr ((r, j, False), db)"
    using sample_times free s1 s2 s3 s4 s5 s6 s7
    by (simp add: release_first_def sample_db7_tables guard_def sample_keys)
  moreover have "wl_kind sample_release = intent_action_name (xi_action sample_intent)"
    by (simp add: sample_release_def sample_intent_def)
  ultimately show ?thesis
    using a sample_found(1) sample_bound sample_intent_fields(3)
    by (auto simp: release_intent_def sample_db7_tables guard_def sample_keys)
qed

text \<open>The store after the release, and its retry.\<close>

definition sample_run7 :: "intent_record \<Rightarrow> job_row \<Rightarrow> unit phase7_db \<Rightarrow> bool" where
  "sample_run7 r j db \<longleftrightarrow>
     release_intent zero_lib hour_reader ''u'' sample_release sample_db7 = Inr (Some (r, j, False), db)
     \<and> steps (phase7_step zero_lib hour_reader) sample_db7 db \<and> phase7_ok zero_lib hour_reader db
     \<and> r = released_intent sample_release sample_intent \<and> r \<in> set (t7_intents (t7 db))
     \<and> j = release_row sample_intent sample_release (the (jb_request_fingerprint j))
     \<and> job_row_of ''j2'' db = Some j
     \<and> release_intent zero_lib hour_reader ''w'' sample_release db = Inr (Some (r, j, True), db)"

lemma sample_run7_exists: "\<exists>r j db. sample_run7 r j db"
proof -
  obtain r j db where rel: "release_intent zero_lib hour_reader ''u'' sample_release sample_db7 = Inr (Some (r, j, False), db)"
    using sample_first_release by blast
  have "timestamp_shape (wl_consumed_at sample_release)"
    using hours(3) by (simp add: sample_release_def valid_timestamp_def)
  note step = step7_release [OF rel this]
  have cs: "\<exists>r0 fp. find_intent zero_lib hour_reader ''o'' ''i1'' sample_tables7 = Inr (Some r0) \<and>
      r = released_intent sample_release r0 \<and> j = release_row r0 sample_release fp \<and>
      (\<exists>consent. releases sample_db7 db r0 sample_release fp consent)"
    using release_intent_cases [OF rel phase7_unclashed(1,2) [OF sample_db7_ok]]
    by (auto simp: sample_db7_tables sample_keys)
  then obtain fp consent where c: "r = released_intent sample_release sample_intent"
    "j = release_row sample_intent sample_release fp" "releases sample_db7 db sample_intent sample_release fp consent"
    using sample_found(1) by auto
  have "r \<in> set (t7_intents (t7 db))" "job_row_of ''j2'' db = Some j"
    using c released_job_row [OF c(3)] by (auto simp: releases_def sample_keys)
  moreover have "the (jb_request_fingerprint j) = fp" by (simp add: c(2) release_row_def queued_row_def)
  ultimately have "sample_run7 r j db"
    using rel c(1,2) steps_single [of "phase7_step zero_lib hour_reader", OF step] phase7_step_ok [OF step sample_db7_ok]
      release_again [OF sample_db7_ok rel]
    by (simp add: sample_run7_def)
  then show ?thesis by blast
qed

lemma sample_run7_fields:
  assumes "sample_run7 r j db"
  shows "xi_state r = Released" "xi_owner_subject r = ''o''" "xi_intent_id r = ''i1''"
    "xi_released_job_id r = Some ''j2''" "xi_required_assurance r = RecentAuth" "\<not> job_finished ''j2'' db"
proof -
  have r: "r = released_intent sample_release sample_intent" using assms by (simp add: sample_run7_def)
  show "xi_state r = Released" "xi_owner_subject r = ''o''" "xi_intent_id r = ''i1''"
    "xi_released_job_id r = Some ''j2''" "xi_required_assurance r = RecentAuth"
    by (simp_all add: r released_intent_def sample_keys) (simp add: sample_intent_def)
  have "j = release_row sample_intent sample_release (the (jb_request_fingerprint j))"
    and row: "job_row_of ''j2'' db = Some j" using assms by (simp_all add: sample_run7_def)
  then have "jb_state j = Queued" by (metis release_row_keys(4))
  then show "\<not> job_finished ''j2'' db" using row by (simp add: job_finished_def)
qed

section \<open>Witnesses\<close>

lemma intent_released_once_witness:
  "\<exists>r j db. sample_run7 r j db \<and> xi_released_job_id r = Some ''j2'' \<and> get_job ''o'' ''j2'' db = Some j"
proof -
  obtain r j db where s: "sample_run7 r j db" using sample_run7_exists by blast
  note f = sample_run7_fields [OF s]
  note p = s [unfolded sample_run7_def]
  have "\<exists>j'. Some (r, j, True) = Some (r, j', True) \<and> xi_released_job_id r = Some (wl_job_id sample_release) \<and>
    get_job (xi_owner_subject r) (wl_job_id sample_release) db = Some j'"
    using intent_released_once [OF steps_refl, where x = "Some (r, j, True)" and db = db and r = r
        and q = sample_release] p f
    by (auto simp: sample_keys)
  then show ?thesis using s f by (auto simp: sample_keys)
qed

lemma first_release_witness:
  "\<exists>r j db. sample_run7 r j db \<and> st_jobs db = [sample_job, j] \<and> jb_state j = Queued \<and>
    consumed_consent (at_hour CHR ''3'') sample_consent \<in> set (t7_consents (t7 db))"
proof -
  obtain r j db where s: "sample_run7 r j db" using sample_run7_exists by blast
  note p = s [unfolded sample_run7_def]
  obtain i where i: "i \<in> set (t7_intents (t7 sample_db7))" "xi_intent_id i = ''i1''" "st_jobs db = [sample_job, j]"
    "jb_state j = Queued" "if xi_required_assurance i = NoAssurance then wl_consent_id sample_release = None \<and> xi_state i = Ready
     else \<exists>c \<in> set (t7_consents (t7 sample_db7)). wl_consent_id sample_release = Some (cs_consent_id c) \<and>
       consent_of_intent c i \<and> cs_state c = Approved \<and>
       at_or_after hour_reader (wl_consumed_at sample_release) (cs_expires_at c) = Inr False \<and>
       consumed_consent (wl_consumed_at sample_release) c \<in> set (t7_consents (t7 db))"
    using first_release [OF sample_db7_ok p [THEN conjunct1]] by (auto simp: sample_keys sample_db7_parts)
  then have "consumed_consent (at_hour CHR ''3'') sample_consent \<in> set (t7_consents (t7 db))"
    by (auto simp: sample_db7_tables sample_tables7_def sample_keys sample_release_def sample_intent_fields
        split: if_splits)
  then show ?thesis using s i by blast
qed

lemma release_retry_witness:
  "\<exists>r j db. sample_run7 r j db \<and>
    release_intent zero_lib hour_reader ''u2'' sample_release db = Inr (Some (r, j, True), db)"
  using sample_run7_exists release_retry [OF sample_db7_ok] unfolding sample_run7_def by blast

lemma one_released_write_per_document_witness:
  "\<exists>r j db. sample_run7 r j db \<and> r = r \<and> ''j2'' = ''j2''"
proof -
  obtain r j db where s: "sample_run7 r j db" using sample_run7_exists by blast
  note f = sample_run7_fields [OF s]
  note p = s [unfolded sample_run7_def]
  have "r = r \<and> ''j2'' = ''j2''"
    by (rule one_released_write_per_document [of zero_lib hour_reader sample_db7 db r r])
      (use p f sample_db7_ok in auto)
  then show ?thesis using s by blast
qed

lemma consumed_iff_released_witness:
  "\<exists>r j db. sample_run7 r j db \<and>
    (\<exists>c \<in> set (t7_consents (t7 db)). cs_state c = Consumed \<longleftrightarrow> (\<exists>i \<in> set (t7_intents (t7 db)).
       xi_state i = Released \<and> xi_consent_id i = Some (cs_consent_id c)))"
proof -
  obtain r j db where s: "sample_run7 r j db" using sample_run7_exists by blast
  note p = s [unfolded sample_run7_def]
  have k: "denied_consent \<in> set (t7_consents (t7 db))"
  proof -
    have "consent_row_of sample_db7 ''cn0'' = Some denied_consent"
      by (simp add: consent_row_of_def sample_db7_tables sample_tables7_def sample_keys)
    then have "consent_row_of db ''cn0'' = Some denied_consent"
      using settled_consents.steps_final [of zero_lib hour_reader sample_db7 db] p sample_db7_ok sample_intent_fields(10)
      by (auto simp: settled_consent_def)
    then show ?thesis using phase7_row(2) [of zero_lib hour_reader db] p by simp
  qed
  show ?thesis
    using consumed_iff_released [of zero_lib hour_reader sample_db7 db denied_consent] p k sample_db7_ok s by blast
qed

lemma released_was_approved_witness:
  "\<exists>r j db. sample_run7 r j db \<and>
    (\<exists>c \<in> set (t7_consents (t7 db)). xi_consent_id r = Some (cs_consent_id c) \<and> cs_state c = Consumed \<and>
       cs_decision_principal c \<noteq> None)"
proof -
  obtain r j db where s: "sample_run7 r j db" using sample_run7_exists by blast
  note f = sample_run7_fields [OF s]
  note p = s [unfolded sample_run7_def]
  have pre: "steps (phase7_step zero_lib hour_reader) sample_db7 db" "r \<in> set (t7_intents (t7 db))"
    using p by blast+
  have "xi_required_assurance r \<noteq> NoAssurance" using f(5) by simp
  note pre = pre this
  from released_was_approved [OF pre(1) sample_db7_ok pre(2) f(1) pre(3)] s show ?thesis by blast
qed

lemma intent_material_frozen_witness:
  "\<exists>r j db. sample_run7 r j db \<and> (\<exists>i \<in> set (t7_intents (t7 db)). xi_intent_id i = ''i1'' \<and>
    intent_material i = intent_material sample_intent)"
proof -
  obtain r j db where s: "sample_run7 r j db" using sample_run7_exists by blast
  note p = s [unfolded sample_run7_def]
  have "sample_intent \<in> set (t7_intents (t7 sample_db7))" by (simp add: sample_db7_tables sample_tables7_def)
  then show ?thesis
    using intent_material_frozen [of zero_lib hour_reader sample_db7 db sample_intent] p sample_db7_ok s sample_keys(2)
    by auto
qed

lemma decisions_final_witness:
  "\<exists>r j db. sample_run7 r j db \<and> denied_consent \<in> set (t7_consents (t7 db)) \<and> sample_case \<in> set (t7_recoveries (t7 db))"
proof -
  obtain r j db where s: "sample_run7 r j db" using sample_run7_exists by blast
  note p = s [unfolded sample_run7_def]
  have "denied_consent \<in> set (t7_consents (t7 sample_db7))" "sample_case \<in> set (t7_recoveries (t7 sample_db7))"
    "rk_state sample_case = CaseResolved"
    by (simp_all add: sample_db7_tables sample_tables7_def sample_case_def)
  then show ?thesis
    using decisions_final [of zero_lib hour_reader sample_db7 db denied_consent sample_case] p sample_db7_ok s
      sample_intent_fields(10) by auto
qed

lemma evidence_only_grows_witness:
  "xe_source_sequence (t7_evidence (t7 sample_db7) ! 0) < xe_source_sequence (t7_evidence (t7 sample_db7) ! 1)"
proof -
  have "0 < (1::nat)" "1 < length (t7_evidence (t7 sample_db7))"
    "xe_job_id (t7_evidence (t7 sample_db7) ! 0) = xe_job_id (t7_evidence (t7 sample_db7) ! 1)"
    "xe_source (t7_evidence (t7 sample_db7) ! 0) = xe_source (t7_evidence (t7 sample_db7) ! 1)"
    by (simp_all add: sample_db7_tables sample_tables7_def sample_evidence7_def)
  from evidence_only_grows [OF steps_refl sample_db7_ok this] show ?thesis by simp
qed

lemma one_rollback_receipt_witness:
  "\<exists>p \<in> set (t7_plans (t7 sample_db7)). rp_plan_id p = rl_rollback_plan_id sample_rollback_receipt"
proof -
  have "sample_rollback_receipt \<in> set (t7_receipts (t7 sample_db7))"
    by (simp add: sample_db7_tables sample_tables7_def)
  from one_rollback_receipt [OF steps_refl sample_db7_ok this this] show ?thesis by auto
qed


end
