(* ===== verification/WorkflowTables.thy ===== *)
theory WorkflowTables
  imports Workflow
begin

text \<open>
  The tables of \<open>sqlite/phase9_repository.py\<close> (migrations 10 and 11): workflow runs, their steps, the
  outbox of actions, the waits for input, the control commands and the event log, with the columns the
  repository writes.  A JSON column holds the value \<open>json.loads\<close> returns for it.  Of the skill and
  workflow definition tables only the keys matter here.  Every method runs in one transaction, so it
  maps the tables to a result that carries the new tables, and a raise is a rollback.
\<close>

section \<open>Errors and the environment\<close>

text \<open>\<open>RepositoryConflict\<close>, \<open>InvalidWorkflowTransition\<close>, the \<open>ValueError\<close> of a child key, SQLite's
  \<open>IntegrityError\<close>, and the \<open>TypeError\<close> of an unhashable value in a set.\<close>

datatype flow_error =
    FlowConflict string
  | FlowTransition workflow_error
  | FlowKeyError child_key_error
  | FlowIntegrity
  | FlowTypeError

definition demand :: "bool \<Rightarrow> flow_error \<Rightarrow> flow_error + unit" where
  "demand ok e = (if ok then Inr () else Inl e)"

lemma demand_simps [simp]:
  "demand ok e = Inr u \<longleftrightarrow> ok" "demand ok e = Inl e' \<longleftrightarrow> \<not> ok \<and> e' = e"
  by (auto simp: demand_def)

text \<open>
  What a call reads from outside: the library functions, \<open>utc_now()\<close> for rows and for events and
  \<open>new_id\<close>, by the number of events in the log at the reading, and SQLite's clock in seconds with
  the text of \<open>datetime\<close>, which is NULL past the year 9999.  A transaction reads SQLite's clock once.
\<close>

record flow_env =
  ek_lib :: pylib
  ek_now :: "nat \<Rightarrow> string"
  ek_event_now :: "nat \<Rightarrow> string"
  ek_new_id :: "nat \<Rightarrow> string"
  ek_seconds :: int
  ek_datetime :: "int \<Rightarrow> string option"

text \<open>\<open>_json\<close>, the encoded text, and \<open>_digest\<close>.\<close>

definition FLOW_JSON_LIMIT :: nat where "FLOW_JSON_LIMIT = 262144"

definition FLOW_SMALL_LIMIT :: nat where "FLOW_SMALL_LIMIT = 65536"

definition flow_json :: "pylib \<Rightarrow> nat \<Rightarrow> json \<Rightarrow> flow_error + string" where
  "flow_json L limit v =
    (case json_dumps L v of
       None \<Rightarrow> Inl (FlowConflict ''workflow_payload_invalid'')
     | Some encoded \<Rightarrow>
         if limit < length encoded then Inl (FlowConflict ''workflow_payload_too_large'')
         else Inr encoded)"

definition flow_digest :: "pylib \<Rightarrow> json \<Rightarrow> flow_error + string" where
  "flow_digest L v = bindE (flow_json L FLOW_JSON_LIMIT v) (\<lambda>t. Inr (''sha256:'' @ sha256_hex L t))"

fun flow_json_option :: "pylib \<Rightarrow> json option \<Rightarrow> flow_error + string option" where
  "flow_json_option L None = Inr None"
| "flow_json_option L (Some v) = bindE (flow_json L FLOW_JSON_LIMIT v) (\<lambda>t. Inr (Some t))"

text \<open>\<open>CHECK (length(column) <= 65536)\<close>; SQLite counts characters.\<close>

definition column_fits :: "string \<Rightarrow> bool" where
  "column_fits t \<longleftrightarrow> py_len t \<le> FLOW_SMALL_LIMIT"

definition opt_column_fits :: "string option \<Rightarrow> bool" where
  "opt_column_fits t = (case t of None \<Rightarrow> True | Some s \<Rightarrow> column_fits s)"

text \<open>\<open>str(column)\<close> of a nullable column, and a nullable text as a JSON value.\<close>

definition column_text :: "string option \<Rightarrow> string" where
  "column_text s = (case s of None \<Rightarrow> ''None'' | Some x \<Rightarrow> x)"

definition nullable_text :: "string option \<Rightarrow> json" where
  "nullable_text s = (case s of None \<Rightarrow> JNull | Some x \<Rightarrow> JStr x)"

section \<open>Rows\<close>

text \<open>The pins of a run that have a column of their own.\<close>

record pin_columns =
  pc_skill_id :: string
  pc_skill_version :: string
  pc_skill_digest :: string
  pc_workflow_id :: string
  pc_workflow_version :: string
  pc_workflow_digest :: string
  pc_catalog_epoch :: int
  pc_policy_epoch :: int
  pc_planner_registry_version :: string
  pc_planner_registry_hash :: string

record flow_run =
  fr_run_id :: string
  fr_owner_subject :: string
  fr_actor_issuer :: string
  fr_actor_subject :: string
  fr_pin_columns :: pin_columns
  fr_pins :: json
  fr_pins_digest :: string
  fr_inputs :: json
  fr_inputs_digest :: string
  fr_device_id :: string
  fr_device_identity_generation :: int
  fr_initial_snapshot_id :: "string option"
  fr_initial_document_id :: "string option"
  fr_initial_document_revision :: "string option"
  fr_state :: run_state
  fr_state_version :: int
  fr_current_step_id :: "string option"
  fr_idempotency_key :: string
  fr_request_hash :: string
  fr_created_at :: string
  fr_updated_at :: string
  fr_expires_at :: "string option"

record flow_step =
  fs_run_id :: string
  fs_step_id :: string
  fs_attempt :: int
  fs_kind :: string
  fs_state :: step_state
  fs_state_version :: int
  fs_input_ref :: "json option"
  fs_output_ref :: "json option"
  fs_error_code :: "string option"
  fs_created_at :: string
  fs_updated_at :: string

datatype action_state =
    ActPending | ActClaimed | ActStarted | ActOutcomeUnknown | ActCompleted | ActFailed | ActCancelled

fun action_state_name :: "action_state \<Rightarrow> string" where
  "action_state_name ActPending = ''pending''"
| "action_state_name ActClaimed = ''claimed''"
| "action_state_name ActStarted = ''started''"
| "action_state_name ActOutcomeUnknown = ''outcome_unknown''"
| "action_state_name ActCompleted = ''completed''"
| "action_state_name ActFailed = ''failed''"
| "action_state_name ActCancelled = ''cancelled''"

record flow_action =
  fa_action_id :: string
  fa_run_id :: string
  fa_step_id :: string
  fa_attempt :: int
  fa_action_kind :: string
  fa_payload :: json
  fa_payload_digest :: string
  fa_idempotency_key :: string
  fa_retry_class :: string
  fa_effect_class :: string
  fa_state :: action_state
  fa_lease_owner :: "string option"
  fa_lease_expires_at :: "string option"
  fa_dispatch_started_at :: "string option"
  fa_child_state :: "string option"
  fa_child_ref :: "json option"
  fa_result :: "json option"
  fa_error_code :: "string option"
  fa_created_at :: string
  fa_updated_at :: string

record flow_wait =
  fw_wait_id :: string
  fw_run_id :: string
  fw_step_id :: string
  fw_wait_kind :: string
  fw_expected_state_version :: int
  fw_response_schema :: json
  fw_response_schema_digest :: string
  fw_expires_at :: "string option"
  fw_resolved_at :: "string option"
  fw_resolution :: "json option"
  fw_created_at :: string

record flow_command =
  fc_owner_subject :: string
  fc_run_id :: string
  fc_idempotency_key :: string
  fc_action :: string
  fc_expected_state_version :: int
  fc_payload :: json
  fc_payload_digest :: string
  fc_completed :: bool
  fc_result :: "json option"
  fc_created_at :: string
  fc_completed_at :: "string option"

record flow_event =
  fe_run_id :: string
  fe_sequence :: nat
  fe_event_id :: string
  fe_event_type :: string
  fe_payload :: json
  fe_created_at :: string

record flow_db =
  fd_skill_versions :: "(string \<times> string) list"
  fd_definitions :: "(string \<times> string) list"
  fd_runs :: "flow_run list"
  fd_steps :: "flow_step list"
  fd_actions :: "flow_action list"
  fd_waits :: "flow_wait list"
  fd_commands :: "flow_command list"
  fd_events :: "flow_event list"

definition WAIT_KINDS :: "string list" where
  "WAIT_KINDS = [''user_input'', ''program_revision'', ''trusted_approval'', ''job'', ''recovery'']"

section \<open>Lookups\<close>

definition run_of :: "string \<Rightarrow> flow_db \<Rightarrow> flow_run option" where
  "run_of run_id db = select1 (\<lambda>r. fr_run_id r = run_id) (fd_runs db)"

definition owned_run :: "string \<Rightarrow> string \<Rightarrow> flow_db \<Rightarrow> flow_run option" where
  "owned_run owner run_id db =
    select1 (\<lambda>r. fr_owner_subject r = owner \<and> fr_run_id r = run_id) (fd_runs db)"

definition step_of :: "string \<Rightarrow> string \<Rightarrow> int \<Rightarrow> flow_db \<Rightarrow> flow_step option" where
  "step_of run_id step_id attempt db =
    select1 (\<lambda>r. (fs_run_id r, fs_step_id r, fs_attempt r) = (run_id, step_id, attempt)) (fd_steps db)"

definition action_of :: "string \<Rightarrow> flow_db \<Rightarrow> flow_action option" where
  "action_of action_id db = select1 (\<lambda>r. fa_action_id r = action_id) (fd_actions db)"

definition wait_of :: "string \<Rightarrow> flow_db \<Rightarrow> flow_wait option" where
  "wait_of wait_id db = select1 (\<lambda>r. fw_wait_id r = wait_id) (fd_waits db)"

definition command_of :: "string \<Rightarrow> string \<Rightarrow> flow_db \<Rightarrow> flow_command option" where
  "command_of owner key db =
    select1 (\<lambda>r. (fc_owner_subject r, fc_idempotency_key r) = (owner, key)) (fd_commands db)"

definition not_found :: flow_error where "not_found = FlowConflict ''not_found''"

text \<open>The row or the conflict \<open>not_found\<close>.\<close>

definition present :: "'r option \<Rightarrow> flow_error + 'r" where
  "present row = (case row of None \<Rightarrow> Inl not_found | Some r \<Rightarrow> Inr r)"

lemma present_Inr [simp]: "present row = Inr r \<longleftrightarrow> row = Some r"
  by (auto simp: present_def split: option.splits)

section \<open>Events\<close>

definition run_events :: "string \<Rightarrow> flow_db \<Rightarrow> flow_event list" where
  "run_events run_id db = filter (\<lambda>e. fe_run_id e = run_id) (fd_events db)"

definition last_event_number :: "string \<Rightarrow> flow_db \<Rightarrow> nat" where
  "last_event_number run_id db = foldr (\<lambda>e n. max (fe_sequence e) n) (run_events run_id db) 0"

text \<open>\<open>_append_event\<close>; the log refers to its run and its event ids are unique.\<close>

definition append_flow_event ::
  "flow_env \<Rightarrow> string \<Rightarrow> string \<Rightarrow> json \<Rightarrow> flow_db \<Rightarrow> flow_error + flow_db" where
  "append_flow_event E run_id event_type payload db =
    (let k = length (fd_events db) in
     bindE (flow_json (ek_lib E) FLOW_SMALL_LIMIT payload) (\<lambda>t.
     bindE (demand (run_of run_id db \<noteq> None \<and> column_fits t
              \<and> ek_new_id E k \<notin> fe_event_id ` set (fd_events db)) FlowIntegrity) (\<lambda>_.
     Inr (db\<lparr>fd_events := fd_events db @ [\<lparr>fe_run_id = run_id,
            fe_sequence = last_event_number run_id db + 1, fe_event_id = ek_new_id E k,
            fe_event_type = event_type, fe_payload = payload,
            fe_created_at = ek_event_now E k\<rparr>]\<rparr>))))"

definition row_now :: "flow_env \<Rightarrow> flow_db \<Rightarrow> string" where
  "row_now E db = ek_now E (length (fd_events db))"

section \<open>Reading\<close>

text \<open>\<open>ORDER BY stamp, key\<close>; a tie of the whole key keeps the order of insertion.\<close>

definition ordered_by :: "('r \<Rightarrow> string) \<Rightarrow> ('r \<Rightarrow> string) \<Rightarrow> 'r list \<Rightarrow> 'r list" where
  "ordered_by stamp key rows = sort_key stamp (sort_key key rows)"

definition latest :: "('r \<Rightarrow> string) \<Rightarrow> 'r list \<Rightarrow> 'r option" where
  "latest stamp rows = (case rev (sort_key stamp (rev rows)) of [] \<Rightarrow> None | r # _ \<Rightarrow> Some r)"

definition get_run :: "string \<Rightarrow> string \<Rightarrow> flow_db \<Rightarrow> flow_run option" where
  "get_run owner run_id db = owned_run owner run_id db"

definition list_runs :: "string \<Rightarrow> int \<Rightarrow> int \<Rightarrow> flow_db \<Rightarrow> flow_error + flow_run list" where
  "list_runs owner cursor limit db =
    (if cursor < 0 \<or> \<not> (1 \<le> limit \<and> limit \<le> 100) then Inl (FlowConflict ''invalid_request'')
     else Inr (take (nat limit) (drop (nat cursor)
       (rev (ordered_by fr_created_at fr_run_id
         (filter (\<lambda>r. fr_owner_subject r = owner) (fd_runs db)))))))"

definition list_steps :: "string \<Rightarrow> string \<Rightarrow> flow_db \<Rightarrow> flow_error + flow_step list" where
  "list_steps owner run_id db =
    bindE (present (get_run owner run_id db)) (\<lambda>_.
    Inr (ordered_by fs_created_at fs_step_id (sort_key fs_attempt
      (filter (\<lambda>r. fs_run_id r = run_id) (fd_steps db)))))"

definition list_actions :: "string \<Rightarrow> string \<Rightarrow> flow_db \<Rightarrow> flow_error + flow_action list" where
  "list_actions owner run_id db =
    bindE (present (get_run owner run_id db)) (\<lambda>_.
    Inr (ordered_by fa_created_at fa_action_id
      (filter (\<lambda>r. fa_run_id r = run_id) (fd_actions db))))"

definition current_wait :: "string \<Rightarrow> string \<Rightarrow> flow_db \<Rightarrow> flow_error + flow_wait option" where
  "current_wait owner run_id db =
    bindE (present (get_run owner run_id db)) (\<lambda>_.
    Inr (latest fw_created_at
      (filter (\<lambda>r. fw_run_id r = run_id \<and> fw_resolved_at r = None) (fd_waits db))))"

definition started_control_command ::
  "string \<Rightarrow> string \<Rightarrow> string \<Rightarrow> flow_db \<Rightarrow> flow_error + flow_command option" where
  "started_control_command owner run_id action db =
    bindE (present (get_run owner run_id db)) (\<lambda>_.
    Inr (case sort_key fc_created_at (filter (\<lambda>r. fc_owner_subject r = owner \<and> fc_run_id r = run_id
              \<and> fc_action r = action \<and> \<not> fc_completed r) (fd_commands db)) of
           [] \<Rightarrow> None | r # _ \<Rightarrow> Some r))"

definition list_nonterminal_runs :: "flow_db \<Rightarrow> flow_run list" where
  "list_nonterminal_runs db = ordered_by fr_updated_at fr_run_id
     (filter (\<lambda>r. fr_state r \<notin> set TERMINAL_RUN_STATES) (fd_runs db))"

definition list_actions_for_reconcile :: "flow_db \<Rightarrow> flow_action list" where
  "list_actions_for_reconcile db = ordered_by fa_updated_at fa_action_id
     (filter (\<lambda>r. fa_state r \<in> {ActStarted, ActOutcomeUnknown}) (fd_actions db))"

definition list_flow_events :: "string \<Rightarrow> string \<Rightarrow> nat \<Rightarrow> nat \<Rightarrow> flow_db \<Rightarrow> flow_event list" where
  "list_flow_events owner run_id cursor limit db =
    (if get_run owner run_id db = None then []
     else take limit (sort_key fe_sequence
       (filter (\<lambda>e. cursor < fe_sequence e) (run_events run_id db))))"

text \<open>
  SQLite's \<open>LIKE\<close>: a percent sign matches any text, an underscore one character, and ASCII letters
  match without regard to case.
\<close>

definition fold_case :: "char \<Rightarrow> char" where
  "fold_case c = (if is_upper c then char_of (of_char c + 32 :: nat) else c)"

function sql_like :: "string \<Rightarrow> string \<Rightarrow> bool" where
  "sql_like [] s = (s = [])"
| "sql_like (p # ps) s =
    (case s of
       [] \<Rightarrow> p = CHR ''%'' \<and> sql_like ps []
     | c # cs \<Rightarrow>
         if p = CHR ''%'' then sql_like ps s \<or> sql_like (p # ps) cs
         else if p = CHR ''_''
         then \<not> utf8_continuation c \<and> sql_like ps (dropWhile utf8_continuation cs)
         else fold_case p = fold_case c \<and> sql_like ps cs)"
  by pat_completeness auto
termination sql_like
  by (relation "measure (\<lambda>(p, s). length p + length s)")
    (auto intro: le_imp_less_Suc le_SucI length_dropWhile_le)

text \<open>\<open>wait_resolved_by_command\<close>, with the pattern around the key put into it as it is.\<close>

definition command_needle :: "string \<Rightarrow> string" where
  "command_needle key = [CHR ''%'', CHR 0x22] @ ''idempotency_key'' @ [CHR 0x22, CHR '':'', CHR 0x22]
     @ key @ [CHR 0x22, CHR ''%'']"

definition wait_resolved_by_command ::
  "pylib \<Rightarrow> string \<Rightarrow> string \<Rightarrow> string \<Rightarrow> flow_db \<Rightarrow> flow_error + flow_wait option" where
  "wait_resolved_by_command L owner run_id key db =
    bindE (present (get_run owner run_id db)) (\<lambda>_.
    Inr (latest fw_created_at
      (filter (\<lambda>r. fw_run_id r = run_id \<and> (case fw_resolution r of None \<Rightarrow> False
           | Some v \<Rightarrow> (case json_dumps L v of None \<Rightarrow> False
               | Some t \<Rightarrow> sql_like (command_needle key) t))) (fd_waits db))))"

section \<open>Lemmas\<close>

lemma append_flow_event_Inr:
  "append_flow_event E run_id ty payload db = Inr db' \<longleftrightarrow>
   (\<exists>e t. db' = db\<lparr>fd_events := fd_events db @ [e]\<rparr> \<and>
      flow_json (ek_lib E) FLOW_SMALL_LIMIT payload = Inr t \<and> run_of run_id db \<noteq> None \<and>
      column_fits t \<and> ek_new_id E (length (fd_events db)) \<notin> fe_event_id ` set (fd_events db) \<and>
      e = \<lparr>fe_run_id = run_id, fe_sequence = last_event_number run_id db + 1,
        fe_event_id = ek_new_id E (length (fd_events db)), fe_event_type = ty, fe_payload = payload,
        fe_created_at = ek_event_now E (length (fd_events db))\<rparr>)"
  by (auto simp: append_flow_event_def Let_def result_simps)

lemma flow_json_Inr:
  "flow_json L n v = Inr t \<longleftrightarrow> json_dumps L v = Some t \<and> length t \<le> n"
  by (auto simp: flow_json_def split: option.splits)

end
