(* ===== verification/WorkflowStore.thy ===== *)
theory WorkflowStore
  imports WorkflowTables
begin

text \<open>
  The writing operations of \<open>Phase9Repository\<close>, in the order of \<open>sqlite/phase9_repository.py\<close>: creating a
  run with its steps, control commands, waits, transitions of runs and steps, the outbox of leased
  actions and its recovery, and the operations that stop a run.
\<close>

section \<open>Creating a run\<close>

record step_request =
  fp_step_id :: string
  fp_attempt :: int
  fp_kind :: string
  fp_input_ref :: "json option"

record run_request =
  fq_owner_subject :: string
  fq_actor_issuer :: string
  fq_actor_subject :: string
  fq_run_id :: string
  fq_idempotency_key :: string
  fq_pins :: json
  fq_inputs :: json
  fq_device_id :: string
  fq_device_identity_generation :: int
  fq_initial_snapshot_id :: "string option"
  fq_initial_document_id :: "string option"
  fq_initial_document_revision :: "string option"
  fq_expires_at :: "string option"
  fq_steps :: "step_request list option"
  fq_first_step_id :: "string option"

definition required_pins :: "string list" where
  "required_pins = [''skill_id'', ''skill_version'', ''skill_digest'', ''workflow_id'',
     ''workflow_version'', ''workflow_digest'', ''catalog_epoch'', ''policy_epoch'',
     ''planner_registry_version'', ''planner_registry_hash'']"

definition identity_complete :: "run_request \<Rightarrow> bool" where
  "identity_complete q \<longleftrightarrow> fq_owner_subject q \<noteq> [] \<and> fq_actor_issuer q \<noteq> []
     \<and> fq_actor_subject q \<noteq> [] \<and> fq_run_id q \<noteq> [] \<and> fq_idempotency_key q \<noteq> []
     \<and> fq_device_id q \<noteq> [] \<and> 1 \<le> fq_device_identity_generation q"

definition steps_acceptable :: "run_request \<Rightarrow> bool" where
  "steps_acceptable q \<longleftrightarrow> (case fq_steps q of None \<Rightarrow> True
     | Some ss \<Rightarrow> ss \<noteq> [] \<and> length ss \<le> 64 \<and> fq_first_step_id q \<notin> {None, Some []}
         \<and> distinct (map fp_step_id ss))"

text \<open>The material of \<open>request_hash\<close>.\<close>

definition run_request_json :: "run_request \<Rightarrow> json" where
  "run_request_json q = JObj
     [(''actor_issuer'', JStr (fq_actor_issuer q)), (''actor_subject'', JStr (fq_actor_subject q)),
      (''pins'', fq_pins q), (''inputs'', fq_inputs q), (''device_id'', JStr (fq_device_id q)),
      (''device_identity_generation'', JInt (fq_device_identity_generation q)),
      (''initial_snapshot_id'', nullable_text (fq_initial_snapshot_id q)),
      (''initial_document_id'', nullable_text (fq_initial_document_id q)),
      (''initial_document_revision'', nullable_text (fq_initial_document_revision q))]"

text \<open>The pins as columns; the callers give texts and, for the epochs, integers.\<close>

fun text_pin :: "json \<Rightarrow> string option" where
  "text_pin (JStr s) = Some s" | "text_pin _ = None"

fun int_pin :: "json \<Rightarrow> int option" where
  "int_pin (JInt i) = Some i" | "int_pin _ = None"

definition pin_columns_of :: "json \<Rightarrow> pin_columns option" where
  "pin_columns_of pins =
    (case (all_some (map (\<lambda>k. text_pin (jget pins k)) [''skill_id'', ''skill_version'',
              ''skill_digest'', ''workflow_id'', ''workflow_version'', ''workflow_digest'',
              ''planner_registry_version'', ''planner_registry_hash'']),
           int_pin (jget pins ''catalog_epoch''), int_pin (jget pins ''policy_epoch'')) of
       (Some [a, b, c, d, e, f, g, h], Some i, Some j) \<Rightarrow>
         Some \<lparr>pc_skill_id = a, pc_skill_version = b, pc_skill_digest = c, pc_workflow_id = d,
           pc_workflow_version = e, pc_workflow_digest = f, pc_catalog_epoch = i,
           pc_policy_epoch = j, pc_planner_registry_version = g, pc_planner_registry_hash = h\<rparr>
     | _ \<Rightarrow> None)"

text \<open>Keys, foreign keys and checks of \<open>workflow_runs\<close>.\<close>

definition run_admissible :: "flow_run \<Rightarrow> string \<Rightarrow> string \<Rightarrow> flow_db \<Rightarrow> bool" where
  "run_admissible r pins_text inputs_text db \<longleftrightarrow>
     run_of (fr_run_id r) db = None
     \<and> \<not> list_ex (\<lambda>x. fr_owner_subject x = fr_owner_subject r
          \<and> fr_idempotency_key x = fr_idempotency_key r) (fd_runs db)
     \<and> (let c = fr_pin_columns r in
          (pc_skill_id c, pc_skill_version c) \<in> set (fd_skill_versions db)
          \<and> (pc_workflow_id c, pc_workflow_version c) \<in> set (fd_definitions db)
          \<and> 0 \<le> pc_catalog_epoch c \<and> 0 \<le> pc_policy_epoch c)
     \<and> column_fits pins_text \<and> column_fits inputs_text"

definition new_run ::
  "run_request \<Rightarrow> pin_columns \<Rightarrow> string \<Rightarrow> string \<Rightarrow> string \<Rightarrow> string \<Rightarrow> flow_run" where
  "new_run q cols pins_digest inputs_digest request_hash now =
    \<lparr>fr_run_id = fq_run_id q, fr_owner_subject = fq_owner_subject q,
     fr_actor_issuer = fq_actor_issuer q, fr_actor_subject = fq_actor_subject q,
     fr_pin_columns = cols, fr_pins = fq_pins q, fr_pins_digest = pins_digest,
     fr_inputs = fq_inputs q, fr_inputs_digest = inputs_digest, fr_device_id = fq_device_id q,
     fr_device_identity_generation = fq_device_identity_generation q,
     fr_initial_snapshot_id = fq_initial_snapshot_id q,
     fr_initial_document_id = fq_initial_document_id q,
     fr_initial_document_revision = fq_initial_document_revision q,
     fr_state = RunCreated, fr_state_version = 0, fr_current_step_id = None,
     fr_idempotency_key = fq_idempotency_key q, fr_request_hash = request_hash,
     fr_created_at = now, fr_updated_at = now, fr_expires_at = fq_expires_at q\<rparr>"

definition insert_run ::
  "flow_env \<Rightarrow> run_request \<Rightarrow> string \<Rightarrow> string \<Rightarrow> string \<Rightarrow> flow_db \<Rightarrow> flow_error + flow_db" where
  "insert_run E q pins_text inputs_text request_hash db =
    (let failed = FlowConflict ''workflow_run_create_failed'' in
     case pin_columns_of (fq_pins q) of
       None \<Rightarrow> Inl failed
     | Some cols \<Rightarrow>
         let r = new_run q cols (''sha256:'' @ sha256_hex (ek_lib E) pins_text)
               (''sha256:'' @ sha256_hex (ek_lib E) inputs_text) request_hash (row_now E db)
         in if run_admissible r pins_text inputs_text db then Inr (db\<lparr>fd_runs := fd_runs db @ [r]\<rparr>)
            else Inl failed)"

text \<open>A step that starts as pending, and its event.\<close>

definition step_key :: "flow_step \<Rightarrow> string \<times> string \<times> int" where
  "step_key r = (fs_run_id r, fs_step_id r, fs_attempt r)"

definition insert_step ::
  "flow_env \<Rightarrow> string \<Rightarrow> step_request \<Rightarrow> flow_db \<Rightarrow> flow_error + flow_db" where
  "insert_step E run_id p db =
    bindE (flow_json_option (ek_lib E) (fp_input_ref p)) (\<lambda>t.
    bindE (demand (run_of run_id db \<noteq> None \<and> 1 \<le> fp_attempt p \<and> opt_column_fits t
             \<and> (run_id, fp_step_id p, fp_attempt p) \<notin> step_key ` set (fd_steps db)) FlowIntegrity) (\<lambda>_.
    append_flow_event E run_id ''step_created''
      (JObj [(''step_id'', JStr (fp_step_id p)), (''attempt'', JInt (fp_attempt p))])
      (db\<lparr>fd_steps := fd_steps db @ [\<lparr>fs_run_id = run_id, fs_step_id = fp_step_id p,
          fs_attempt = fp_attempt p, fs_kind = fp_kind p, fs_state = StepPending,
          fs_state_version = 0, fs_input_ref = fp_input_ref p, fs_output_ref = None,
          fs_error_code = None, fs_created_at = row_now E db, fs_updated_at = row_now E db\<rparr>]\<rparr>)))"

fun insert_steps ::
  "flow_env \<Rightarrow> string \<Rightarrow> step_request list \<Rightarrow> flow_db \<Rightarrow> flow_error + flow_db" where
  "insert_steps E run_id [] db = Inr db"
| "insert_steps E run_id (p # ps) db =
     bindE (insert_step E run_id p db) (insert_steps E run_id ps)"

text \<open>The first step becomes ready and the run starts.\<close>

definition start_run :: "flow_env \<Rightarrow> string \<Rightarrow> string \<Rightarrow> flow_db \<Rightarrow> flow_error + flow_db" where
  "start_run E run_id first db =
    (let target = (\<lambda>r. (fs_run_id r, fs_step_id r, fs_attempt r) = (run_id, first, 1)
           \<and> fs_state r = StepPending \<and> fs_state_version r = 0) in
     bindE (demand (count_where target (fd_steps db) = 1)
              (FlowConflict ''workflow_first_step_invalid'')) (\<lambda>_.
     bindE (append_flow_event E run_id ''step_state''
              (JObj [(''step_id'', JStr first), (''from'', JStr ''pending''), (''to'', JStr ''ready'')])
              (db\<lparr>fd_steps := update_where target (\<lambda>r. r\<lparr>fs_state := StepReady,
                  fs_state_version := 1, fs_updated_at := row_now E db\<rparr>) (fd_steps db)\<rparr>)) (\<lambda>db1.
     append_flow_event E run_id ''started''
       (JObj [(''from'', JStr ''created''), (''to'', JStr ''running''), (''state_version'', JInt 1)])
       (db1\<lparr>fd_runs := update_where (\<lambda>r. fr_run_id r = run_id) (\<lambda>r. r\<lparr>fr_state := RunRunning,
           fr_state_version := 1, fr_current_step_id := Some first,
           fr_updated_at := row_now E db1\<rparr>) (fd_runs db1)\<rparr>))))"

text \<open>The replay check: the stored steps are the requested ones.\<close>

definition same_steps :: "string \<Rightarrow> step_request list \<Rightarrow> flow_db \<Rightarrow> bool" where
  "same_steps run_id ps db =
    (let rows = sort_key fs_step_id (sort_key fs_attempt
           (filter (\<lambda>r. fs_run_id r = run_id) (fd_steps db)));
         expected = sort_key fp_step_id ps
     in length rows = length expected
        \<and> list_all (\<lambda>(r, p). fs_step_id r = fp_step_id p \<and> fs_attempt r = fp_attempt p
             \<and> fs_kind r = fp_kind p \<and> opt_json_eq (fs_input_ref r) (fp_input_ref p))
           (zip rows expected))"

definition replay_run ::
  "run_request \<Rightarrow> string \<Rightarrow> flow_run \<Rightarrow> flow_db \<Rightarrow> flow_error + flow_run" where
  "replay_run q request_hash r db =
    (if fr_request_hash r \<noteq> request_hash then Inl (FlowConflict ''idempotency_conflict'')
     else case fq_steps q of
       None \<Rightarrow> Inr r
     | Some ps \<Rightarrow>
         if \<not> same_steps (fr_run_id r) ps db \<or> fr_state r = RunCreated
         then Inl (FlowConflict ''workflow_initialization_incomplete'') else Inr r)"

text \<open>The boolean of a creation says that the row already existed.\<close>

definition create_run ::
  "flow_env \<Rightarrow> run_request \<Rightarrow> flow_db \<Rightarrow> flow_error + ((flow_run \<times> bool) \<times> flow_db)" where
  "create_run E q db =
    bindE (demand (identity_complete q) (FlowConflict ''workflow_identity_invalid'')) (\<lambda>_.
    bindE (demand (list_all (\<lambda>k. k \<in> set (jkeys (fq_pins q))) required_pins)
             (FlowConflict ''workflow_pins_invalid'')) (\<lambda>_.
    bindE (demand (steps_acceptable q) (FlowConflict ''workflow_steps_invalid'')) (\<lambda>_.
    bindE (flow_json (ek_lib E) FLOW_JSON_LIMIT (fq_pins q)) (\<lambda>pins_text.
    bindE (flow_json (ek_lib E) FLOW_JSON_LIMIT (fq_inputs q)) (\<lambda>inputs_text.
    bindE (flow_digest (ek_lib E) (run_request_json q)) (\<lambda>request_hash.
    case select1 (\<lambda>r. fr_owner_subject r = fq_owner_subject q
           \<and> fr_idempotency_key r = fq_idempotency_key q) (fd_runs db) of
      Some r \<Rightarrow> bindE (replay_run q request_hash r db) (\<lambda>r. Inr ((r, True), db))
    | None \<Rightarrow>
        bindE (insert_run E q pins_text inputs_text request_hash db) (\<lambda>db1.
        bindE (append_flow_event E (fq_run_id q) ''created'' (JObj [(''state'', JStr ''created'')]) db1) (\<lambda>db2.
        bindE (case fq_steps q of
                 None \<Rightarrow> Inr db2
               | Some ps \<Rightarrow> bindE (insert_steps E (fq_run_id q) ps db2)
                   (start_run E (fq_run_id q) (column_text (fq_first_step_id q)))) (\<lambda>db3.
        bindE (present (run_of (fq_run_id q) db3)) (\<lambda>r. Inr ((r, False), db3))))))))))) "

section \<open>Control commands\<close>

record control_request =
  fz_owner_subject :: string
  fz_run_id :: string
  fz_action :: string
  fz_expected_state_version :: int
  fz_idempotency_key :: string
  fz_payload :: json

definition begin_control_command ::
  "flow_env \<Rightarrow> control_request \<Rightarrow> flow_db \<Rightarrow> flow_error + ((flow_command \<times> bool) \<times> flow_db)" where
  "begin_control_command E q db =
    bindE (flow_json (ek_lib E) FLOW_SMALL_LIMIT (fz_payload q)) (\<lambda>encoded.
    bindE (flow_digest (ek_lib E) (fz_payload q)) (\<lambda>digest.
    bindE (present (owned_run (fz_owner_subject q) (fz_run_id q) db)) (\<lambda>run.
    case command_of (fz_owner_subject q) (fz_idempotency_key q) db of
      Some c \<Rightarrow>
        if fc_run_id c = fz_run_id q \<and> fc_action c = fz_action q
           \<and> fc_expected_state_version c = fz_expected_state_version q
           \<and> fc_payload_digest c = digest
        then Inr ((c, True), db) else Inl (FlowConflict ''idempotency_conflict'')
    | None \<Rightarrow>
        bindE (demand (fr_state_version run = fz_expected_state_version q)
                 (FlowConflict ''stale_workflow_state'')) (\<lambda>_.
        bindE (demand (0 \<le> fz_expected_state_version q \<and> column_fits encoded) FlowIntegrity) (\<lambda>_.
        let c = \<lparr>fc_owner_subject = fz_owner_subject q, fc_run_id = fz_run_id q,
              fc_idempotency_key = fz_idempotency_key q, fc_action = fz_action q,
              fc_expected_state_version = fz_expected_state_version q, fc_payload = fz_payload q,
              fc_payload_digest = digest, fc_completed = False, fc_result = None,
              fc_created_at = row_now E db, fc_completed_at = None\<rparr>
        in bindE (append_flow_event E (fz_run_id q) ''control_started''
                    (JObj [(''action'', JStr (fz_action q)),
                           (''idempotency_key'', JStr (fz_idempotency_key q))])
                    (db\<lparr>fd_commands := fd_commands db @ [c]\<rparr>)) (\<lambda>db1.
           Inr ((c, False), db1)))))))"

definition complete_control_command ::
  "flow_env \<Rightarrow> string \<Rightarrow> string \<Rightarrow> json \<Rightarrow> flow_db \<Rightarrow> flow_error + (flow_command \<times> flow_db)" where
  "complete_control_command E owner key result db =
    bindE (flow_json (ek_lib E) FLOW_SMALL_LIMIT result) (\<lambda>encoded.
    bindE (present (command_of owner key db)) (\<lambda>c.
    if fc_completed c then
      (if opt_json_eq (fc_result c) (Some result) then Inr (c, db)
       else Inl (FlowConflict ''idempotency_conflict''))
    else
      bindE (demand (column_fits encoded) FlowIntegrity) (\<lambda>_.
      bindE (append_flow_event E (fc_run_id c) ''control_completed''
               (JObj [(''action'', JStr (fc_action c)), (''idempotency_key'', JStr key)])
               (db\<lparr>fd_commands := update_where
                   (\<lambda>r. (fc_owner_subject r, fc_idempotency_key r) = (owner, key) \<and> \<not> fc_completed r)
                   (\<lambda>r. r\<lparr>fc_completed := True, fc_result := Some result,
                      fc_completed_at := Some (row_now E db)\<rparr>) (fd_commands db)\<rparr>)) (\<lambda>db1.
      bindE (present (command_of owner key db1)) (\<lambda>c1. Inr (c1, db1))))))"

section \<open>Closing waits\<close>

text \<open>One turn of the loop of \<open>_resolve_open_waits\<close>, and the loop over the open waits of the run.\<close>

definition close_wait ::
  "flow_env \<Rightarrow> string \<Rightarrow> string \<Rightarrow> string \<Rightarrow> string \<Rightarrow> flow_db \<Rightarrow> flow_error + flow_db" where
  "close_wait E run_id reason now wait_id db =
    (let resolution = JObj [(''system'', JBool True), (''reason'', JStr reason)] in
     bindE (flow_json (ek_lib E) FLOW_JSON_LIMIT resolution) (\<lambda>t.
     bindE (demand (column_fits t) FlowIntegrity) (\<lambda>_.
     append_flow_event E run_id ''wait_resolved''
       (JObj [(''wait_id'', JStr wait_id), (''reason'', JStr reason)])
       (db\<lparr>fd_waits := update_where (\<lambda>r. fw_wait_id r = wait_id \<and> fw_resolved_at r = None)
           (\<lambda>r. r\<lparr>fw_resolved_at := Some now, fw_resolution := Some resolution\<rparr>) (fd_waits db)\<rparr>))))"

fun close_waits ::
  "flow_env \<Rightarrow> string \<Rightarrow> string \<Rightarrow> string \<Rightarrow> string list \<Rightarrow> flow_db \<Rightarrow> flow_error + flow_db" where
  "close_waits E run_id reason now [] db = Inr db"
| "close_waits E run_id reason now (w # ws) db =
     bindE (close_wait E run_id reason now w db) (close_waits E run_id reason now ws)"

definition open_waits :: "string \<Rightarrow> flow_db \<Rightarrow> string list" where
  "open_waits run_id db = map fw_wait_id
     (filter (\<lambda>r. fw_run_id r = run_id \<and> fw_resolved_at r = None) (fd_waits db))"

definition resolve_open_waits ::
  "flow_env \<Rightarrow> string \<Rightarrow> string \<Rightarrow> string \<Rightarrow> flow_db \<Rightarrow> flow_error + (nat \<times> flow_db)" where
  "resolve_open_waits E run_id reason now db =
    bindE (close_waits E run_id reason now (open_waits run_id db) db)
      (\<lambda>db1. Inr (length (open_waits run_id db), db1))"

definition resolve_open_waits_system ::
  "flow_env \<Rightarrow> string \<Rightarrow> string \<Rightarrow> string \<Rightarrow> flow_db \<Rightarrow> flow_error + (nat \<times> flow_db)" where
  "resolve_open_waits_system E owner run_id reason db =
    bindE (present (owned_run owner run_id db)) (\<lambda>_.
    resolve_open_waits E run_id reason (row_now E db) db)"

end
