(* ===== verification/WorkflowActions.thy ===== *)
theory WorkflowActions
  imports WorkflowStore
begin

text \<open>
  The writing operations of \<open>Phase9Repository\<close>, continued: transitions of runs and steps, the outbox
  of actions with its leases, the recovery of actions whose outcome is not known, waits for input, and
  the three operations that stop a run.
\<close>

section \<open>Runs and steps\<close>

definition run_is_terminal :: "flow_run \<Rightarrow> bool" where
  "run_is_terminal r \<longleftrightarrow> fr_state r \<in> set TERMINAL_RUN_STATES"

definition update_run :: "string \<Rightarrow> (flow_run \<Rightarrow> flow_run) \<Rightarrow> flow_db \<Rightarrow> flow_db" where
  "update_run run_id f db =
    db\<lparr>fd_runs := update_where (\<lambda>r. fr_run_id r = run_id) f (fd_runs db)\<rparr>"

text \<open>\<open>state = s, state_version = state_version + 1, updated_at = now\<close>.\<close>

definition move_run :: "run_state \<Rightarrow> string \<Rightarrow> flow_run \<Rightarrow> flow_run" where
  "move_run s now r = r\<lparr>fr_state := s, fr_state_version := fr_state_version r + 1, fr_updated_at := now\<rparr>"

record run_change =
  fx_owner_subject :: string
  fx_run_id :: string
  fx_expected_state :: string
  fx_expected_version :: int
  fx_target :: string
  fx_current_step_id :: "string option"
  fx_event_type :: string

definition transition_run ::
  "flow_env \<Rightarrow> run_change \<Rightarrow> flow_db \<Rightarrow> flow_error + (flow_run \<times> flow_db)" where
  "transition_run E x db =
    bindE (present (owned_run (fx_owner_subject x) (fx_run_id x) db)) (\<lambda>r.
    bindE (demand (\<not> run_is_terminal r) (FlowConflict ''terminal_immutable'')) (\<lambda>_.
    bindE (demand (run_state_name (fr_state r) = fx_expected_state x
             \<and> fr_state_version r = fx_expected_version x) (FlowConflict ''stale_workflow_state'')) (\<lambda>_.
    case (validate_run_transition (fx_expected_state x) (fx_target x), run_state_of (fx_target x)) of
      (Inr _, Some target) \<Rightarrow>
        bindE (append_flow_event E (fx_run_id x) (fx_event_type x)
                 (JObj [(''from'', JStr (fx_expected_state x)), (''to'', JStr (fx_target x)),
                        (''state_version'', JInt (fx_expected_version x + 1))])
                 (update_run (fx_run_id x)
                    (\<lambda>r. (move_run target (row_now E db) r)\<lparr>fr_current_step_id := fx_current_step_id x\<rparr>) db))
          (\<lambda>db1. bindE (present (run_of (fx_run_id x) db1)) (\<lambda>r1. Inr (r1, db1)))
    | _ \<Rightarrow> Inl (FlowConflict ''invalid_workflow_transition''))))"

definition create_step ::
  "flow_env \<Rightarrow> string \<Rightarrow> string \<Rightarrow> step_request \<Rightarrow> flow_db \<Rightarrow>
   flow_error + ((flow_step \<times> bool) \<times> flow_db)" where
  "create_step E owner run_id p db =
    bindE (present (owned_run owner run_id db)) (\<lambda>_.
    case step_of run_id (fp_step_id p) (fp_attempt p) db of
      Some r \<Rightarrow>
        if fs_kind r = fp_kind p \<and> opt_json_eq (fs_input_ref r) (fp_input_ref p)
        then Inr ((r, True), db) else Inl (FlowConflict ''workflow_step_conflict'')
    | None \<Rightarrow>
        bindE (insert_step E run_id p db) (\<lambda>db1.
        bindE (present (step_of run_id (fp_step_id p) (fp_attempt p) db1)) (\<lambda>r. Inr ((r, False), db1))))"

record step_change =
  fy_owner_subject :: string
  fy_run_id :: string
  fy_step_id :: string
  fy_attempt :: int
  fy_expected_state :: string
  fy_expected_version :: int
  fy_target :: string
  fy_output_ref :: "json option"
  fy_error_code :: "string option"

definition transition_step ::
  "flow_env \<Rightarrow> step_change \<Rightarrow> flow_db \<Rightarrow> flow_error + (flow_step \<times> flow_db)" where
  "transition_step E y db =
    (case (validate_step_transition (fy_expected_state y) (fy_target y), step_state_of (fy_target y)) of
       (Inr _, Some target) \<Rightarrow>
         bindE (present (owned_run (fy_owner_subject y) (fy_run_id y) db)) (\<lambda>_.
         bindE (present (step_of (fy_run_id y) (fy_step_id y) (fy_attempt y) db)) (\<lambda>r.
         bindE (demand (fs_state r \<notin> set TERMINAL_STEP_STATES) (FlowConflict ''terminal_immutable'')) (\<lambda>_.
         bindE (demand (step_state_name (fs_state r) = fy_expected_state y
                  \<and> fs_state_version r = fy_expected_version y)
                  (FlowConflict ''stale_workflow_state'')) (\<lambda>_.
         bindE (flow_json_option (ek_lib E) (fy_output_ref y)) (\<lambda>t.
         bindE (demand (opt_column_fits t) FlowIntegrity) (\<lambda>_.
         bindE (append_flow_event E (fy_run_id y) ''step_state''
                  (JObj [(''step_id'', JStr (fy_step_id y)), (''from'', JStr (fy_expected_state y)),
                         (''to'', JStr (fy_target y))])
                  (db\<lparr>fd_steps := update_where (\<lambda>r. step_key r = (fy_run_id y, fy_step_id y, fy_attempt y))
                      (\<lambda>r. r\<lparr>fs_state := target, fs_state_version := fs_state_version r + 1,
                         fs_output_ref := fy_output_ref y, fs_error_code := fy_error_code y,
                         fs_updated_at := row_now E db\<rparr>) (fd_steps db)\<rparr>)) (\<lambda>db1.
         bindE (present (step_of (fy_run_id y) (fy_step_id y) (fy_attempt y) db1)) (\<lambda>r1.
         Inr (r1, db1)))))))))
     | _ \<Rightarrow> Inl (FlowConflict ''invalid_workflow_step_transition''))"

section \<open>The outbox\<close>

record outbox_request =
  ft_owner_subject :: string
  ft_run_id :: string
  ft_step_id :: string
  ft_attempt :: int
  ft_action_kind :: string
  ft_payload :: json
  ft_retry_class :: string
  ft_effect_class :: string
  ft_source_digest :: "string option"

definition action_id_of :: "outbox_request \<Rightarrow> string" where
  "action_id_of q = ''wfa:'' @ join_with CHR '':''
     [ft_run_id q, ft_step_id q, int_text (ft_attempt q), ft_action_kind q]"

fun lift_key :: "child_key_error + 'a \<Rightarrow> flow_error + 'a" where
  "lift_key (Inl e) = Inl (FlowKeyError e)"
| "lift_key (Inr x) = Inr x"

lemma lift_key_Inr [simp]: "lift_key r = Inr x \<longleftrightarrow> r = Inr x"
  by (cases r) simp_all

definition new_action :: "outbox_request \<Rightarrow> string \<Rightarrow> string \<Rightarrow> string \<Rightarrow> flow_action" where
  "new_action q key payload_digest now =
    \<lparr>fa_action_id = action_id_of q, fa_run_id = ft_run_id q, fa_step_id = ft_step_id q,
     fa_attempt = ft_attempt q, fa_action_kind = ft_action_kind q, fa_payload = ft_payload q,
     fa_payload_digest = payload_digest, fa_idempotency_key = key,
     fa_retry_class = ft_retry_class q, fa_effect_class = ft_effect_class q, fa_state = ActPending,
     fa_lease_owner = None, fa_lease_expires_at = None, fa_dispatch_started_at = None,
     fa_child_state = None, fa_child_ref = None, fa_result = None, fa_error_code = None,
     fa_created_at = now, fa_updated_at = now\<rparr>"

text \<open>Keys, foreign key and check of \<open>workflow_actions\<close>.\<close>

definition action_admissible :: "flow_action \<Rightarrow> string \<Rightarrow> flow_db \<Rightarrow> bool" where
  "action_admissible a payload_text db \<longleftrightarrow>
     column_fits payload_text \<and> 1 \<le> fa_attempt a
     \<and> action_of (fa_action_id a) db = None
     \<and> \<not> list_ex (\<lambda>x. fa_run_id x = fa_run_id a
          \<and> ((fa_step_id x, fa_attempt x, fa_action_kind x) = (fa_step_id a, fa_attempt a, fa_action_kind a)
             \<or> fa_idempotency_key x = fa_idempotency_key a)) (fd_actions db)
     \<and> step_of (fa_run_id a) (fa_step_id a) (fa_attempt a) db \<noteq> None"

definition insert_action ::
  "flow_env \<Rightarrow> outbox_request \<Rightarrow> flow_db \<Rightarrow> flow_error + ((flow_action \<times> bool) \<times> flow_db)" where
  "insert_action E q db =
    bindE (demand (ft_retry_class q \<in> set [''pure'', ''read'', ''metadata'', ''not_started'']
             \<and> ft_effect_class q \<in> set [''read'', ''write'']) (FlowConflict ''workflow_action_invalid'')) (\<lambda>_.
    bindE (lift_key (child_idempotency_key (ek_lib E) (ft_run_id q) (ft_step_id q) (ft_attempt q)
             (ft_action_kind q) (ft_source_digest q))) (\<lambda>key.
    bindE (flow_json (ek_lib E) FLOW_JSON_LIMIT (ft_payload q)) (\<lambda>payload_text.
    bindE (present (owned_run (ft_owner_subject q) (ft_run_id q) db)) (\<lambda>_.
    case action_of (action_id_of q) db of
      Some a \<Rightarrow>
        if py_eq (fa_payload a) (ft_payload q) \<and> fa_retry_class a = ft_retry_class q
           \<and> fa_effect_class a = ft_effect_class q
        then Inr ((a, True), db) else Inl (FlowConflict ''workflow_action_conflict'')
    | None \<Rightarrow>
        let a = new_action q key (''sha256:'' @ sha256_hex (ek_lib E) payload_text) (row_now E db) in
        bindE (demand (action_admissible a payload_text db) FlowIntegrity) (\<lambda>_.
        bindE (append_flow_event E (ft_run_id q) ''action_inserted''
                 (JObj [(''action_id'', JStr (fa_action_id a)), (''step_id'', JStr (ft_step_id q))])
                 (db\<lparr>fd_actions := fd_actions db @ [a]\<rparr>)) (\<lambda>db1. Inr ((a, False), db1)))))))"

text \<open>\<open>lease_expires_at < datetime('now')\<close>, not true of a NULL.\<close>

definition lease_expired :: "flow_env \<Rightarrow> flow_action \<Rightarrow> bool" where
  "lease_expired E a =
    (case (fa_lease_expires_at a, ek_datetime E (ek_seconds E)) of
       (Some expires, Some now) \<Rightarrow> expires < now
     | _ \<Rightarrow> False)"

definition claimable :: "flow_env \<Rightarrow> flow_action \<Rightarrow> bool" where
  "claimable E a \<longleftrightarrow> fa_state a = ActPending
     \<or> fa_state a = ActClaimed \<and> lease_expired E a
     \<or> fa_state a = ActStarted \<and> fa_effect_class a = ''read'' \<and> lease_expired E a"

definition run_running :: "string \<Rightarrow> flow_db \<Rightarrow> bool" where
  "run_running run_id db \<longleftrightarrow> (case run_of run_id db of None \<Rightarrow> False | Some r \<Rightarrow> fr_state r = RunRunning)"

definition update_action :: "string \<Rightarrow> (flow_action \<Rightarrow> flow_action) \<Rightarrow> flow_db \<Rightarrow> flow_db" where
  "update_action action_id f db =
    db\<lparr>fd_actions := update_where (\<lambda>a. fa_action_id a = action_id) f (fd_actions db)\<rparr>"

definition action_event :: "string \<Rightarrow> json" where
  "action_event action_id = JObj [(''action_id'', JStr action_id)]"

text \<open>The next action of a running run, oldest first.\<close>

definition next_action :: "flow_env \<Rightarrow> flow_db \<Rightarrow> flow_action option" where
  "next_action E db =
    (case ordered_by fa_created_at fa_action_id
            (filter (\<lambda>a. run_running (fa_run_id a) db \<and> claimable E a) (fd_actions db)) of
       [] \<Rightarrow> None | a # _ \<Rightarrow> Some a)"

definition claim_action ::
  "flow_env \<Rightarrow> string \<Rightarrow> int \<Rightarrow> flow_db \<Rightarrow> flow_error + (flow_action option \<times> flow_db)" where
  "claim_action E worker lease_seconds db =
    (if worker = [] \<or> lease_seconds < 1 then Inl (FlowConflict ''workflow_lease_invalid'')
     else case next_action E db of
       None \<Rightarrow> Inr (None, db)
     | Some a \<Rightarrow>
         let db1 = update_action (fa_action_id a)
               (\<lambda>r. r\<lparr>fa_state := ActClaimed, fa_lease_owner := Some worker,
                  fa_lease_expires_at := ek_datetime E (ek_seconds E + lease_seconds),
                  fa_updated_at := row_now E db\<rparr>) db
         in bindE (present (action_of (fa_action_id a) db1)) (\<lambda>fresh.
            bindE (append_flow_event E (fa_run_id fresh) ''action_claimed'' (action_event (fa_action_id fresh)) db1)
              (\<lambda>db2. Inr (Some fresh, db2))))"

text \<open>An update of one action with its event; the row is read back in the same transaction.\<close>

definition settle_action ::
  "flow_env \<Rightarrow> flow_action \<Rightarrow> (flow_action \<Rightarrow> flow_action) \<Rightarrow> string \<Rightarrow> json \<Rightarrow> flow_db \<Rightarrow>
   flow_error + (flow_action \<times> flow_db)" where
  "settle_action E a f event_type payload db =
    bindE (append_flow_event E (fa_run_id a) event_type payload (update_action (fa_action_id a) f db)) (\<lambda>db1.
    bindE (present (action_of (fa_action_id a) db1)) (\<lambda>a1. Inr (a1, db1)))"

definition child_reference :: "flow_action \<Rightarrow> json" where
  "child_reference a = JObj [(''idempotency_key'', JStr (fa_idempotency_key a)), (''payload'', fa_payload a)]"

definition mark_dispatch_started ::
  "flow_env \<Rightarrow> string \<Rightarrow> string \<Rightarrow> flow_db \<Rightarrow> flow_error + (flow_action \<times> flow_db)" where
  "mark_dispatch_started E action_id worker db =
    bindE (present (action_of action_id db)) (\<lambda>a.
    if fa_state a = ActStarted then
      (if column_text (fa_lease_owner a) \<noteq> worker then Inl (FlowConflict ''workflow_lease_lost'')
       else Inr (a, db))
    else if fa_state a \<noteq> ActClaimed \<or> column_text (fa_lease_owner a) \<noteq> worker
    then Inl (FlowConflict ''workflow_lease_lost'')
    else
      bindE (flow_json (ek_lib E) FLOW_JSON_LIMIT (child_reference a)) (\<lambda>t.
      bindE (demand (column_fits t) FlowIntegrity) (\<lambda>_.
      settle_action E a (\<lambda>r. r\<lparr>fa_state := ActStarted, fa_dispatch_started_at := Some (row_now E db),
          fa_child_state := Some ''started'', fa_child_ref := Some (child_reference a),
          fa_updated_at := row_now E db\<rparr>)
        ''action_dispatch_started'' (action_event action_id) db)))"

text \<open>\<open>_finish_action\<close>; \<open>completed\<close> chooses between \<open>completed\<close> and \<open>failed\<close>.\<close>

definition finish_action ::
  "flow_env \<Rightarrow> string \<Rightarrow> string \<Rightarrow> bool \<Rightarrow> json option \<Rightarrow> string option \<Rightarrow> json option \<Rightarrow> flow_db \<Rightarrow>
   flow_error + (flow_action \<times> flow_db)" where
  "finish_action E action_id worker completed result error_code child_ref db =
    (let target = (if completed then ActCompleted else ActFailed) in
     bindE (present (action_of action_id db)) (\<lambda>a.
     if fa_state a \<in> {ActCompleted, ActFailed} then
       (if fa_state a = target \<and> opt_json_eq (fa_result a) result \<and> fa_error_code a = error_code
           \<and> (child_ref = None \<or> opt_json_eq (fa_child_ref a) child_ref)
        then Inr (a, db) else Inl (FlowConflict ''workflow_action_conflict''))
     else if fa_state a \<notin> {ActClaimed, ActStarted} \<or> column_text (fa_lease_owner a) \<noteq> worker
     then Inl (FlowConflict ''workflow_lease_lost'')
     else
       bindE (flow_json_option (ek_lib E) result) (\<lambda>t.
       bindE (flow_json_option (ek_lib E) child_ref) (\<lambda>u.
       bindE (demand (opt_column_fits t \<and> opt_column_fits u) FlowIntegrity) (\<lambda>_.
       settle_action E a (\<lambda>r. r\<lparr>fa_state := target, fa_result := result, fa_error_code := error_code,
           fa_child_state := Some (if completed then ''succeeded'' else ''failed''),
           fa_child_ref := (case child_ref of None \<Rightarrow> fa_child_ref r | Some v \<Rightarrow> Some v),
           fa_lease_owner := None, fa_lease_expires_at := None, fa_updated_at := row_now E db\<rparr>)
         (''action_'' @ action_state_name target)
         (JObj [(''action_id'', JStr action_id), (''error_code'', nullable_text error_code)]) db)))))"

definition complete_action ::
  "flow_env \<Rightarrow> string \<Rightarrow> string \<Rightarrow> json \<Rightarrow> json option \<Rightarrow> flow_db \<Rightarrow>
   flow_error + (flow_action \<times> flow_db)" where
  "complete_action E action_id worker result child_ref =
    finish_action E action_id worker True (Some result) None child_ref"

definition fail_action ::
  "flow_env \<Rightarrow> string \<Rightarrow> string \<Rightarrow> string \<Rightarrow> flow_db \<Rightarrow> flow_error + (flow_action \<times> flow_db)" where
  "fail_action E action_id worker error_code =
    finish_action E action_id worker False None (Some error_code) None"

section \<open>Outcomes that are not known\<close>

text \<open>The run of an action that is lost goes to \<open>waiting_for_recovery\<close>.\<close>

definition send_to_recovery ::
  "flow_env \<Rightarrow> string \<Rightarrow> string \<Rightarrow> string \<Rightarrow> flow_db \<Rightarrow> flow_error + flow_db" where
  "send_to_recovery E now run_id action_id db =
    (case run_of run_id db of
       None \<Rightarrow> Inr db
     | Some r \<Rightarrow>
         if run_is_terminal r then Inr db
         else (case validate_run_transition (run_state_name (fr_state r)) ''waiting_for_recovery'' of
             Inl _ \<Rightarrow> Inl (FlowConflict ''recovery_transition_invalid'')
           | Inr _ \<Rightarrow> append_flow_event E run_id ''waiting_for_recovery'' (action_event action_id)
               (update_run run_id (move_run RunWaitingForRecovery now) db)))"

definition mark_action_outcome_unknown ::
  "flow_env \<Rightarrow> string \<Rightarrow> string \<Rightarrow> string \<Rightarrow> flow_db \<Rightarrow> flow_error + (flow_action \<times> flow_db)" where
  "mark_action_outcome_unknown E action_id worker error_code db =
    bindE (present (action_of action_id db)) (\<lambda>a.
    if fa_state a \<in> {ActCompleted, ActFailed, ActOutcomeUnknown} then Inr (a, db)
    else if fa_state a \<noteq> ActStarted \<or> column_text (fa_lease_owner a) \<noteq> worker
    then Inl (FlowConflict ''workflow_lease_lost'')
    else
      bindE (send_to_recovery E (row_now E db) (fa_run_id a) action_id
               (update_action action_id (\<lambda>r. r\<lparr>fa_state := ActOutcomeUnknown,
                  fa_child_state := Some ''outcome_unknown'', fa_error_code := Some error_code,
                  fa_lease_owner := None, fa_lease_expires_at := None,
                  fa_updated_at := row_now E db\<rparr>) db)) (\<lambda>db1.
      bindE (append_flow_event E (fa_run_id a) ''action_outcome_unknown''
               (JObj [(''action_id'', JStr action_id), (''error_code'', JStr error_code)]) db1) (\<lambda>db2.
      bindE (present (action_of action_id db2)) (\<lambda>a1. Inr (a1, db2)))))"

text \<open>\<open>reclaim_expired_actions\<close>: expired claims and expired reads are pending again.\<close>

definition reclaimable :: "flow_env \<Rightarrow> flow_action \<Rightarrow> bool" where
  "reclaimable E a \<longleftrightarrow> (fa_state a = ActClaimed
     \<or> fa_state a = ActStarted \<and> fa_effect_class a = ''read'') \<and> lease_expired E a"

fun append_reclaimed :: "flow_env \<Rightarrow> flow_action list \<Rightarrow> flow_db \<Rightarrow> flow_error + flow_db" where
  "append_reclaimed E [] db = Inr db"
| "append_reclaimed E (a # rows) db =
     bindE (append_flow_event E (fa_run_id a) ''action_reclaimed'' (action_event (fa_action_id a)) db)
       (append_reclaimed E rows)"

definition reclaim_expired_actions :: "flow_env \<Rightarrow> flow_db \<Rightarrow> flow_error + (nat \<times> flow_db)" where
  "reclaim_expired_actions E db =
    (let rows = filter (reclaimable E) (fd_actions db) in
     bindE (append_reclaimed E rows
              (db\<lparr>fd_actions := update_where (reclaimable E)
                  (\<lambda>r. r\<lparr>fa_state := ActPending, fa_lease_owner := None, fa_lease_expires_at := None,
                     fa_updated_at := row_now E db\<rparr>) (fd_actions db)\<rparr>))
       (\<lambda>db1. Inr (length rows, db1)))"

definition evidence_keys :: "string list" where
  "evidence_keys = [''program_id'', ''program_revision'', ''preview_id'', ''intent_id'',
     ''consent_id'', ''job_id'', ''receipt_id'', ''recovery_id'', ''scene_id'', ''scene_digest'',
     ''source_digest'', ''source_snapshot_id'', ''document_revision'']"

text \<open>The loop over the evidence keys.\<close>

definition merge_evidence :: "json \<Rightarrow> json \<Rightarrow> json" where
  "merge_evidence result child_ref =
    foldl (\<lambda>ref k. if jget result k = JNull then ref else jput k (jget result k) ref)
      child_ref evidence_keys"

text \<open>The child reference after a reconciliation; an empty one is stored as NULL.\<close>

definition reconciled_ref :: "json \<Rightarrow> flow_action \<Rightarrow> json option" where
  "reconciled_ref result a =
    (let old_ref = (case fa_child_ref a of None \<Rightarrow> JObj [] | Some v \<Rightarrow> v);
         child_ref = (if result = JNull then old_ref else merge_evidence result old_ref)
     in if json_truthy child_ref then Some child_ref else None)"

fun reconciled_state :: "string \<Rightarrow> action_state" where
  "reconciled_state s = (if s = ''succeeded'' then ActCompleted
     else if s = ''outcome_unknown'' then ActOutcomeUnknown else ActFailed)"

definition reconciled_by ::
  "string \<Rightarrow> json option \<Rightarrow> json option \<Rightarrow> string \<Rightarrow> flow_action \<Rightarrow> flow_action" where
  "reconciled_by state result ref now r = r\<lparr>fa_state := reconciled_state state,
     fa_child_state := Some state, fa_result := result, fa_child_ref := ref, fa_updated_at := now\<rparr>"

definition outcome_state :: "json \<Rightarrow> flow_error + string" where
  "outcome_state outcome = (case jget outcome ''state'' of
     JStr s \<Rightarrow> if s \<in> set [''succeeded'', ''failed'', ''needs_attention'', ''outcome_unknown''] then Inr s
       else Inl (FlowConflict ''reconcile_outcome_invalid'')
   | JList _ \<Rightarrow> Inl FlowTypeError
   | JObj _ \<Rightarrow> Inl FlowTypeError
   | _ \<Rightarrow> Inl (FlowConflict ''reconcile_outcome_invalid''))"

definition needs_attention_where :: "string \<Rightarrow> string \<Rightarrow> flow_db \<Rightarrow> flow_db" where
  "needs_attention_where run_id now db =
    db\<lparr>fd_runs := update_where (\<lambda>r. fr_run_id r = run_id \<and> \<not> run_is_terminal r)
        (move_run RunNeedsAttention now) (fd_runs db)\<rparr>"

definition record_reconciled_outcome ::
  "flow_env \<Rightarrow> string \<Rightarrow> json \<Rightarrow> flow_db \<Rightarrow> flow_error + (flow_action \<times> flow_db)" where
  "record_reconciled_outcome E action_id outcome db =
    bindE (outcome_state outcome) (\<lambda>state.
    let result = jget outcome ''result'' in
    bindE (demand (result = JNull \<or> is_dict result) (FlowConflict ''reconcile_outcome_invalid'')) (\<lambda>_.
    bindE (present (action_of action_id db)) (\<lambda>a.
    if fa_state a \<notin> {ActStarted, ActOutcomeUnknown} then Inr (a, db)
    else
      let ref = reconciled_ref result a;
          new_result = (if result = JNull then None else Some result)
      in bindE (flow_json_option (ek_lib E) new_result) (\<lambda>t.
         bindE (flow_json_option (ek_lib E) ref) (\<lambda>u.
         bindE (demand (opt_column_fits t \<and> opt_column_fits u) FlowIntegrity) (\<lambda>_.
         let db1 = update_action action_id
               (reconciled_by state new_result ref (row_now E db)) db;
             db2 = (if state \<in> set [''failed'', ''needs_attention'']
               then needs_attention_where (fa_run_id a) (row_now E db) db1 else db1)
         in bindE (append_flow_event E (fa_run_id a) ''action_reconciled''
                     (JObj [(''action_id'', JStr action_id), (''child_state'', JStr state)]) db2) (\<lambda>db3.
            bindE (present (action_of action_id db3)) (\<lambda>a1. Inr (a1, db3)))))))))"

section \<open>Waits for input\<close>

record wait_request =
  fv_owner_subject :: string
  fv_run_id :: string
  fv_step_id :: string
  fv_wait_kind :: string
  fv_expected_state_version :: int
  fv_response_schema :: json
  fv_expires_at :: "string option"

text \<open>\<open>new_wait_id\<close> is the \<open>new_id\<close> of the wait.\<close>

definition create_wait ::
  "flow_env \<Rightarrow> string \<Rightarrow> wait_request \<Rightarrow> flow_db \<Rightarrow> flow_error + (flow_wait \<times> flow_db)" where
  "create_wait E new_wait_id q db =
    bindE (present (owned_run (fv_owner_subject q) (fv_run_id q) db)) (\<lambda>run.
    bindE (demand (fr_state_version run = fv_expected_state_version q)
             (FlowConflict ''stale_workflow_state'')) (\<lambda>_.
    bindE (flow_json (ek_lib E) FLOW_SMALL_LIMIT (fv_response_schema q)) (\<lambda>schema_text.
    bindE (flow_digest (ek_lib E) (fv_response_schema q)) (\<lambda>digest.
    case latest fw_created_at (filter (\<lambda>r. fw_run_id r = fv_run_id q \<and> fw_step_id r = fv_step_id q
           \<and> fw_wait_kind r = fv_wait_kind q \<and> fw_resolved_at r = None) (fd_waits db)) of
      Some r \<Rightarrow>
        if fw_expected_state_version r = fv_expected_state_version q
           \<and> fw_response_schema_digest r = digest \<and> fw_expires_at r = fv_expires_at q
        then Inr (r, db) else Inl (FlowConflict ''workflow_wait_conflict'')
    | None \<Rightarrow>
        bindE (demand (fv_wait_kind q \<in> set WAIT_KINDS \<and> 0 \<le> fv_expected_state_version q
                 \<and> column_fits schema_text \<and> wait_of new_wait_id db = None) FlowIntegrity) (\<lambda>_.
        let r = \<lparr>fw_wait_id = new_wait_id, fw_run_id = fv_run_id q, fw_step_id = fv_step_id q,
              fw_wait_kind = fv_wait_kind q,
              fw_expected_state_version = fv_expected_state_version q,
              fw_response_schema = fv_response_schema q, fw_response_schema_digest = digest,
              fw_expires_at = fv_expires_at q, fw_resolved_at = None, fw_resolution = None,
              fw_created_at = row_now E db\<rparr>
        in bindE (append_flow_event E (fv_run_id q) ''wait_created''
                    (JObj [(''wait_id'', JStr new_wait_id),
                           (''expected_state_version'', JInt (fv_expected_state_version q))])
                    (db\<lparr>fd_waits := fd_waits db @ [r]\<rparr>)) (\<lambda>db1. Inr (r, db1)))))))"

record wait_response =
  fu_owner_subject :: string
  fu_run_id :: string
  fu_wait_id :: string
  fu_expected_state_version :: int
  fu_response_schema_digest :: string
  fu_response :: json
  fu_idempotency_key :: string

text \<open>The check of \<open>resolve_wait\<close> against the type and the required names of the stored schema.\<close>

definition response_accepted :: "json \<Rightarrow> json \<Rightarrow> bool" where
  "response_accepted schema response \<longleftrightarrow>
     (jget schema ''type'' = JStr ''object'' \<longrightarrow> is_dict response)
     \<and> (case jget_default schema ''required'' (JList []) of
          JList items \<Rightarrow> list_all (\<lambda>i. is_str i \<and> jstr i \<in> set (jkeys response)) items
        | _ \<Rightarrow> False)"

definition wait_resolution :: "wait_response \<Rightarrow> json" where
  "wait_resolution u = JObj [(''idempotency_key'', JStr (fu_idempotency_key u)),
     (''response'', fu_response u)]"

definition resolve_wait ::
  "flow_env \<Rightarrow> wait_response \<Rightarrow> flow_db \<Rightarrow> flow_error + ((flow_wait \<times> bool) \<times> flow_db)" where
  "resolve_wait E u db =
    bindE (present (owned_run (fu_owner_subject u) (fu_run_id u) db)) (\<lambda>run.
    bindE (present (select1 (\<lambda>r. fw_wait_id r = fu_wait_id u \<and> fw_run_id r = fu_run_id u) (fd_waits db))) (\<lambda>w.
    case fw_resolution w of
      Some resolved \<Rightarrow>
        if py_eq (jget resolved ''idempotency_key'') (JStr (fu_idempotency_key u))
           \<and> py_eq (jget resolved ''response'') (fu_response u)
        then Inr ((w, True), db) else Inl (FlowConflict ''idempotency_conflict'')
    | None \<Rightarrow>
        bindE (demand (fr_state_version run = fu_expected_state_version u
                 \<and> fw_expected_state_version w = fu_expected_state_version u)
                 (FlowConflict ''stale_workflow_state'')) (\<lambda>_.
        bindE (demand (fw_response_schema_digest w = fu_response_schema_digest u)
                 (FlowConflict ''wait_schema_mismatch'')) (\<lambda>_.
        bindE (demand (response_accepted (fw_response_schema w) (fu_response u))
                 (FlowConflict ''wait_response_invalid'')) (\<lambda>_.
        bindE (flow_json (ek_lib E) FLOW_JSON_LIMIT (wait_resolution u)) (\<lambda>t.
        let target = (\<lambda>r. fw_wait_id r = fu_wait_id u \<and> fw_resolved_at r = None) in
        bindE (demand (column_fits t) FlowIntegrity) (\<lambda>_.
        bindE (demand (count_where target (fd_waits db) = 1) (FlowConflict ''stale_workflow_state'')) (\<lambda>_.
        bindE (append_flow_event E (fu_run_id u) ''wait_resolved''
                 (JObj [(''wait_id'', JStr (fu_wait_id u)),
                        (''state_version'', JInt (fu_expected_state_version u))])
                 (db\<lparr>fd_waits := update_where target (\<lambda>r. r\<lparr>fw_resolved_at := Some (row_now E db),
                     fw_resolution := Some (wait_resolution u)\<rparr>) (fd_waits db)\<rparr>)) (\<lambda>db1.
        bindE (present (wait_of (fu_wait_id u) db1)) (\<lambda>w1. Inr ((w1, False), db1)))))))))))"

section \<open>Stopping a run\<close>

definition cancel_unstarted :: "string \<Rightarrow> string \<Rightarrow> flow_db \<Rightarrow> flow_db" where
  "cancel_unstarted run_id now db =
    db\<lparr>fd_actions := update_where
        (\<lambda>a. fa_run_id a = run_id \<and> fa_state a \<in> {ActPending, ActClaimed})
        (\<lambda>a. a\<lparr>fa_state := ActCancelled, fa_lease_owner := None, fa_lease_expires_at := None,
           fa_updated_at := now\<rparr>) (fd_actions db)\<rparr>"

text \<open>A write of the run that an Agent may be executing.\<close>

definition write_in_flight :: "string \<Rightarrow> flow_db \<Rightarrow> bool" where
  "write_in_flight run_id db \<longleftrightarrow> list_ex (\<lambda>a. fa_run_id a = run_id \<and> fa_effect_class a = ''write''
     \<and> fa_state a \<in> {ActStarted, ActOutcomeUnknown}) (fd_actions db)"

definition cancel_run ::
  "flow_env \<Rightarrow> string \<Rightarrow> string \<Rightarrow> string \<Rightarrow> int \<Rightarrow> flow_db \<Rightarrow> flow_error + (flow_run \<times> flow_db)" where
  "cancel_run E owner run_id expected_state expected_version db =
    bindE (present (owned_run owner run_id db)) (\<lambda>r.
    let target = (if write_in_flight run_id db then RunWaitingForRecovery else RunCancelled) in
    bindE (demand (run_state_name (fr_state r) = expected_state \<and> fr_state_version r = expected_version)
             (FlowConflict ''stale_workflow_state'')) (\<lambda>_.
    bindE (demand (\<not> run_is_terminal r) (FlowConflict ''terminal_immutable'')) (\<lambda>_.
    bindE (if target = RunCancelled
           then (case validate_run_transition expected_state (run_state_name target) of
                   Inl e \<Rightarrow> Inl (FlowTransition e) | Inr _ \<Rightarrow> Inr ())
           else Inr ()) (\<lambda>_.
    bindE (append_flow_event E run_id ''cancel_requested'' (JObj [(''result'', JStr (run_state_name target))])
             (cancel_unstarted run_id (row_now E db) (update_run run_id (move_run target (row_now E db)) db)))
      (\<lambda>db1. bindE (present (run_of run_id db1)) (\<lambda>r1. Inr (r1, db1)))))))"

text \<open>The common body of \<open>security_revoke_run\<close> and \<open>mark_run_needs_attention\<close>.\<close>

definition stop_run ::
  "flow_env \<Rightarrow> string \<Rightarrow> string \<Rightarrow> string \<Rightarrow> string \<Rightarrow> (flow_run \<Rightarrow> json) \<Rightarrow> flow_db \<Rightarrow>
   flow_error + (flow_run \<times> flow_db)" where
  "stop_run E owner run_id reason event_type payload db =
    bindE (present (owned_run owner run_id db)) (\<lambda>r.
    if run_is_terminal r then Inr (r, db)
    else
      bindE (resolve_open_waits E run_id reason (row_now E db)
               (cancel_unstarted run_id (row_now E db) db)) (\<lambda>(n, db1).
      bindE (append_flow_event E run_id event_type (payload r)
               (update_run run_id (move_run RunNeedsAttention (row_now E db)) db1)) (\<lambda>db2.
      bindE (present (run_of run_id db2)) (\<lambda>r1. Inr (r1, db2)))))"

definition security_revoke_run ::
  "flow_env \<Rightarrow> string \<Rightarrow> string \<Rightarrow> flow_db \<Rightarrow> flow_error + (flow_run \<times> flow_db)" where
  "security_revoke_run E owner run_id =
    stop_run E owner run_id ''skill_security_revoked'' ''skill_security_revoked''
      (\<lambda>r. JObj [(''previous_state'', JStr (run_state_name (fr_state r)))])"

definition mark_run_needs_attention ::
  "flow_env \<Rightarrow> string \<Rightarrow> string \<Rightarrow> string \<Rightarrow> flow_db \<Rightarrow> flow_error + (flow_run \<times> flow_db)" where
  "mark_run_needs_attention E owner run_id reason =
    stop_run E owner run_id reason ''workflow_needs_attention''
      (\<lambda>r. JObj [(''previous_state'', JStr (run_state_name (fr_state r))), (''reason'', JStr reason)])"

end
