(* ===== verification/WorkflowLog.thy ===== *)
theory WorkflowLog
  imports WorkflowActions
begin

text \<open>
  The workflow tables as one system.  Each operation is a chain of changes of one table: a row with a
  fresh key is appended, rows are rewritten along a legal move, or an event is appended.  The legal
  moves are the state machines of runs, steps, actions, waits and control commands; \<open>flow_ok\<close> is the
  invariant of the tables.  A change of several tables in one transaction is several changes.
\<close>

section \<open>Tables of moving rows\<close>

inductive row_change ::
  "('r \<Rightarrow> bool) \<Rightarrow> ('r \<Rightarrow> 'k) \<Rightarrow> ('r \<Rightarrow> 'r \<Rightarrow> bool) \<Rightarrow> 'r list \<Rightarrow> 'r list \<Rightarrow> bool"
  for fresh key move rows where
  row_new: "fresh r \<Longrightarrow> key r \<notin> key ` set rows \<Longrightarrow> row_change fresh key move rows (rows @ [r])"
| row_move: "(\<And>r. r \<in> set rows \<Longrightarrow> p r \<Longrightarrow> move r (f r)) \<Longrightarrow>
    row_change fresh key move rows (update_where p f rows)"

text \<open>
  A table whose rows start as \<open>fresh\<close>, satisfy \<open>sound\<close> and only change by \<open>move\<close>.
\<close>

locale moving_rows =
  fixes fresh :: "'r \<Rightarrow> bool"
    and key :: "'r \<Rightarrow> 'k"
    and move :: "'r \<Rightarrow> 'r \<Rightarrow> bool"
    and sound :: "'r \<Rightarrow> bool"
  assumes fresh_sound: "fresh r \<Longrightarrow> sound r"
    and move_sound: "move r r' \<Longrightarrow> sound r \<Longrightarrow> sound r'"
    and move_key: "move r r' \<Longrightarrow> key r' = key r"
begin

definition table_ok :: "'r list \<Rightarrow> bool" where
  "table_ok rows \<longleftrightarrow> distinct (map key rows) \<and> (\<forall>r \<in> set rows. sound r)"

lemma unique: "table_ok rows \<Longrightarrow> r \<in> set rows \<Longrightarrow> s \<in> set rows \<Longrightarrow> key r = key s \<Longrightarrow> r = s"
  unfolding table_ok_def by (blast intro: key_unique)

lemma moved_keys:
  "(\<And>r. r \<in> set rows \<Longrightarrow> p r \<Longrightarrow> move r (f r)) \<Longrightarrow> map key (update_where p f rows) = map key rows"
  by (induction rows) (auto simp: move_key)

lemma change_ok: "row_change fresh key move rows rows' \<Longrightarrow> table_ok rows \<Longrightarrow> table_ok rows'"
proof (induction rule: row_change.induct)
  case (row_new r)
  then show ?case by (auto simp: table_ok_def fresh_sound)
next
  case (row_move p f)
  then have "distinct (map key (update_where p f rows))" by (simp add: moved_keys table_ok_def)
  moreover have "sound r" if "r \<in> set (update_where p f rows)" for r
    using that row_move by (auto simp: set_update_where table_ok_def intro: move_sound)
  ultimately show ?case by (simp add: table_ok_def)
qed

lemma moved_row:
  assumes "\<And>r. r \<in> set rows \<Longrightarrow> p r \<Longrightarrow> move r (f r)" "select1 (\<lambda>r. key r = k) rows = Some r"
  shows "select1 (\<lambda>r. key r = k) (update_where p f rows) = Some (if p r then f r else r)"
  using assms
proof (induction rows)
  case (Cons a rows)
  have "key (if p a then f a else a) = key a" using Cons.prems(1) [of a] move_key by auto
  with Cons show ?case by (auto split: if_splits)
qed simp

lemma change_row:
  assumes "row_change fresh key move rows rows'" "select1 (\<lambda>r. key r = k) rows = Some r"
  shows "\<exists>r'. select1 (\<lambda>r. key r = k) rows' = Some r' \<and> (r' = r \<or> move r r')"
  using assms(1)
proof cases
  case (row_new x)
  then show ?thesis using assms(2) by (simp add: select1_append)
next
  case (row_move p f)
  have "r \<in> set rows" using select1_Some [OF assms(2)] by simp
  with row_move(2) have "p r \<Longrightarrow> move r (f r)" by blast
  then show ?thesis using moved_row [OF row_move(2) assms(2)] row_move(1) by auto
qed

lemma change_old_row:
  assumes "row_change fresh key move rows rows'" "r' \<in> set rows'"
  shows "fresh r' \<or> (\<exists>r \<in> set rows. key r = key r' \<and> (r' = r \<or> move r r'))"
  using assms(1)
proof cases
  case (row_new r)
  then show ?thesis using assms(2) by auto
next
  case (row_move p f)
  then obtain r where r: "r \<in> set rows" "r' = (if p r then f r else r)"
    using assms(2) by (auto simp: set_update_where)
  then have "r' = r \<or> move r r'" using row_move(2) by auto
  then show ?thesis using r(1) move_key by metis
qed

text \<open>An update that names the key of a row.\<close>

lemma update_key:
  assumes "table_ok rows" "r \<in> set rows" "move r (f r)" "\<And>x. p x \<Longrightarrow> key x = key r"
  shows "row_change fresh key move rows (update_where p f rows)"
proof (rule row_change.row_move)
  fix x assume "x \<in> set rows" "p x"
  then have "x = r" using unique assms by blast
  then show "move x (f x)" using assms(3) by simp
qed

lemma append_fresh:
  "fresh r \<Longrightarrow> key r \<notin> key ` set rows \<Longrightarrow> row_change fresh key move rows (rows @ [r])"
  by (rule row_change.row_new)

end

section \<open>The legal moves\<close>

subsection \<open>Runs\<close>

definition run_pins :: "flow_run \<Rightarrow> flow_run" where
  "run_pins r = r\<lparr>fr_state := RunCreated, fr_state_version := 0, fr_current_step_id := None,
     fr_updated_at := []\<rparr>"

text \<open>
  The moves of a run.  Three operations bypass the table of \<open>workflows/state.py\<close>: stopping a run sends
  it to \<open>needs_attention\<close> and cancelling it with a write in flight to \<open>waiting_for_recovery\<close> from any
  state that is not terminal.
\<close>

definition run_targets :: "run_state \<Rightarrow> run_state list" where
  "run_targets s = (if s \<in> set TERMINAL_RUN_STATES then []
     else run_transitions s @ [RunNeedsAttention, RunWaitingForRecovery])"

definition run_move :: "flow_run \<Rightarrow> flow_run \<Rightarrow> bool" where
  "run_move r r' \<longleftrightarrow> run_pins r' = run_pins r \<and> fr_state r' \<in> set (run_targets (fr_state r))
     \<and> fr_state_version r' = fr_state_version r + 1"

definition run_fresh :: "flow_run \<Rightarrow> bool" where
  "run_fresh r \<longleftrightarrow> fr_state r = RunCreated \<and> fr_state_version r = 0 \<and> fr_current_step_id r = None"

lemma run_pins_fields:
  "run_pins r' = run_pins r \<Longrightarrow> fr_run_id r' = fr_run_id r \<and> fr_owner_subject r' = fr_owner_subject r
     \<and> fr_idempotency_key r' = fr_idempotency_key r"
proof -
  assume e: "run_pins r' = run_pins r"
  show ?thesis
    using arg_cong [OF e, of fr_run_id] arg_cong [OF e, of fr_owner_subject]
      arg_cong [OF e, of fr_idempotency_key] by (simp add: run_pins_def)
qed

lemma move_run_simps [simp]:
  "fr_state (move_run s now r) = s" "fr_state_version (move_run s now r) = fr_state_version r + 1"
  "run_pins (move_run s now r) = run_pins r" "run_pins (r\<lparr>fr_current_step_id := c\<rparr>) = run_pins r"
  by (simp_all add: move_run_def run_pins_def)

interpretation run_rows: moving_rows run_fresh fr_run_id run_move
    "\<lambda>r. 0 \<le> fr_state_version r \<and> (fr_state r = RunCreated \<longrightarrow> fr_state_version r = 0)"
proof unfold_locales
  fix r r' assume m: "run_move r r'"
  then show "fr_run_id r' = fr_run_id r" by (auto simp: run_move_def dest: run_pins_fields)
  have "fr_state r' \<noteq> RunCreated" using m
    by (cases "fr_state r") (auto simp: run_move_def run_targets_def split: if_splits)
  then show "0 \<le> fr_state_version r \<and> (fr_state r = RunCreated \<longrightarrow> fr_state_version r = 0) \<Longrightarrow>
      0 \<le> fr_state_version r' \<and> (fr_state r' = RunCreated \<longrightarrow> fr_state_version r' = 0)"
    using m by (simp add: run_move_def)
qed (simp add: run_fresh_def)

subsection \<open>Steps\<close>

definition step_move :: "flow_step \<Rightarrow> flow_step \<Rightarrow> bool" where
  "step_move r r' \<longleftrightarrow> step_key r' = step_key r \<and> fs_kind r' = fs_kind r
     \<and> fs_input_ref r' = fs_input_ref r \<and> fs_state r' \<in> set (step_transitions (fs_state r))
     \<and> fs_state_version r' = fs_state_version r + 1"

definition step_fresh :: "flow_step \<Rightarrow> bool" where
  "step_fresh r \<longleftrightarrow> fs_state r = StepPending \<and> fs_state_version r = 0 \<and> 1 \<le> fs_attempt r"

interpretation step_rows: moving_rows step_fresh step_key step_move
    "\<lambda>r. 0 \<le> fs_state_version r \<and> 1 \<le> fs_attempt r"
  by unfold_locales (auto simp: step_fresh_def step_move_def step_key_def)

subsection \<open>Actions\<close>

text \<open>The state machine of an action; only a read goes back once it has started.\<close>

fun action_moves :: "string \<Rightarrow> action_state \<Rightarrow> action_state list" where
  "action_moves effect ActPending = [ActClaimed, ActCancelled]"
| "action_moves effect ActClaimed =
     [ActClaimed, ActPending, ActStarted, ActCompleted, ActFailed, ActCancelled]"
| "action_moves effect ActStarted = (if effect = ''read'' then [ActClaimed, ActPending] else [])
     @ [ActCompleted, ActFailed, ActOutcomeUnknown]"
| "action_moves effect ActOutcomeUnknown = [ActCompleted, ActFailed, ActOutcomeUnknown]"
| "action_moves effect _ = []"

text \<open>What identifies an action and never changes.\<close>

definition action_pins :: "flow_action \<Rightarrow> flow_action" where
  "action_pins a = a\<lparr>fa_state := ActPending, fa_lease_owner := None, fa_lease_expires_at := None,
     fa_dispatch_started_at := None, fa_child_state := None, fa_child_ref := None, fa_result := None,
     fa_error_code := None, fa_updated_at := []\<rparr>"

definition action_move :: "flow_action \<Rightarrow> flow_action \<Rightarrow> bool" where
  "action_move a a' \<longleftrightarrow> action_pins a' = action_pins a
     \<and> fa_state a' \<in> set (action_moves (fa_effect_class a) (fa_state a))
     \<and> (if fa_state a = ActClaimed \<and> fa_state a' = ActStarted then fa_dispatch_started_at a' \<noteq> None
        else fa_dispatch_started_at a' = fa_dispatch_started_at a)
     \<and> (fa_state a' = ActClaimed \<longrightarrow> fa_lease_owner a' \<noteq> None)
     \<and> (fa_state a' = ActStarted \<longrightarrow> fa_lease_owner a' = fa_lease_owner a)"

definition action_fresh :: "flow_action \<Rightarrow> bool" where
  "action_fresh a \<longleftrightarrow> fa_state a = ActPending \<and> fa_dispatch_started_at a = None
     \<and> fa_effect_class a \<in> {''read'', ''write''}"

text \<open>
  A write that is not started yet has no dispatch time, one that is started has one, and a lease has
  an owner.
\<close>

definition action_sound :: "flow_action \<Rightarrow> bool" where
  "action_sound a \<longleftrightarrow> fa_effect_class a \<in> {''read'', ''write''}
     \<and> (fa_effect_class a = ''write'' \<and> fa_state a \<in> {ActPending, ActClaimed, ActCancelled} \<longrightarrow>
          fa_dispatch_started_at a = None)
     \<and> (fa_state a \<in> {ActStarted, ActOutcomeUnknown} \<longrightarrow> fa_dispatch_started_at a \<noteq> None)
     \<and> (fa_state a \<in> {ActClaimed, ActStarted} \<longrightarrow> fa_lease_owner a \<noteq> None)"

lemma action_pins_fields:
  "action_pins a' = action_pins a \<Longrightarrow> fa_action_id a' = fa_action_id a \<and> fa_run_id a' = fa_run_id a
     \<and> fa_effect_class a' = fa_effect_class a \<and> fa_payload a' = fa_payload a
     \<and> fa_idempotency_key a' = fa_idempotency_key a"
proof -
  assume e: "action_pins a' = action_pins a"
  show ?thesis
    using arg_cong [OF e, of fa_action_id] arg_cong [OF e, of fa_run_id]
      arg_cong [OF e, of fa_effect_class] arg_cong [OF e, of fa_payload]
      arg_cong [OF e, of fa_idempotency_key] by (simp add: action_pins_def)
qed

interpretation action_rows: moving_rows action_fresh fa_action_id action_move action_sound
proof unfold_locales
  fix a a' assume m: "action_move a a'"
  note p = action_pins_fields [of a' a]
  show "fa_action_id a' = fa_action_id a" using m p by (simp add: action_move_def)
  show "action_sound a'" if "action_sound a"
    using m that p by (cases "fa_state a") (auto simp: action_move_def action_sound_def split: if_splits)
qed (auto simp: action_fresh_def action_sound_def)

subsection \<open>Waits and commands\<close>

definition wait_open :: "flow_wait \<Rightarrow> bool" where
  "wait_open w \<longleftrightarrow> fw_resolved_at w = None"

definition wait_pins :: "flow_wait \<Rightarrow> flow_wait" where
  "wait_pins w = w\<lparr>fw_resolved_at := None, fw_resolution := None\<rparr>"

definition wait_move :: "flow_wait \<Rightarrow> flow_wait \<Rightarrow> bool" where
  "wait_move w w' \<longleftrightarrow> wait_open w \<and> fw_resolution w' \<noteq> None \<and> fw_resolved_at w' \<noteq> None
     \<and> wait_pins w' = wait_pins w"

definition wait_fresh :: "flow_wait \<Rightarrow> bool" where
  "wait_fresh w \<longleftrightarrow> wait_open w \<and> fw_resolution w = None \<and> fw_wait_kind w \<in> set WAIT_KINDS"

lemma wait_pins_fields:
  "wait_pins w' = wait_pins w \<Longrightarrow> fw_wait_id w' = fw_wait_id w \<and> fw_wait_kind w' = fw_wait_kind w
     \<and> fw_run_id w' = fw_run_id w"
proof -
  assume e: "wait_pins w' = wait_pins w"
  show ?thesis
    using arg_cong [OF e, of fw_wait_id] arg_cong [OF e, of fw_wait_kind] arg_cong [OF e, of fw_run_id]
    by (simp add: wait_pins_def)
qed

interpretation wait_rows: moving_rows wait_fresh fw_wait_id wait_move
    "\<lambda>w. (wait_open w \<longleftrightarrow> fw_resolution w = None) \<and> fw_wait_kind w \<in> set WAIT_KINDS"
  by unfold_locales (auto simp: wait_fresh_def wait_move_def wait_open_def dest: wait_pins_fields)

definition control_key :: "flow_command \<Rightarrow> string \<times> string" where
  "control_key c = (fc_owner_subject c, fc_idempotency_key c)"

definition command_pins :: "flow_command \<Rightarrow> flow_command" where
  "command_pins c = c\<lparr>fc_completed := False, fc_result := None, fc_completed_at := None\<rparr>"

definition command_move :: "flow_command \<Rightarrow> flow_command \<Rightarrow> bool" where
  "command_move c c' \<longleftrightarrow> \<not> fc_completed c \<and> fc_completed c' \<and> fc_result c' \<noteq> None
     \<and> command_pins c' = command_pins c"

definition command_sound :: "flow_command \<Rightarrow> bool" where
  "command_sound c \<longleftrightarrow> (fc_completed c \<longleftrightarrow> fc_result c \<noteq> None)"

definition command_fresh :: "flow_command \<Rightarrow> bool" where
  "command_fresh c \<longleftrightarrow> \<not> fc_completed c \<and> fc_result c = None"

lemma command_pins_fields:
  "command_pins c' = command_pins c \<Longrightarrow> control_key c' = control_key c \<and> fc_run_id c' = fc_run_id c
     \<and> fc_action c' = fc_action c"
proof -
  assume e: "command_pins c' = command_pins c"
  show ?thesis
    using arg_cong [OF e, of fc_owner_subject] arg_cong [OF e, of fc_idempotency_key]
      arg_cong [OF e, of fc_run_id] arg_cong [OF e, of fc_action]
    by (simp add: command_pins_def control_key_def)
qed

interpretation command_rows: moving_rows command_fresh control_key command_move
    command_sound
  by unfold_locales (auto simp: command_fresh_def command_move_def command_sound_def
      dest: command_pins_fields)

section \<open>The system\<close>

definition run_request_key :: "flow_run \<Rightarrow> string \<times> string" where
  "run_request_key r = (fr_owner_subject r, fr_idempotency_key r)"

inductive flow_change :: "flow_db \<Rightarrow> flow_db \<Rightarrow> bool" for db where
  change_runs: "row_change run_fresh fr_run_id run_move (fd_runs db) rows \<Longrightarrow>
    (distinct (map run_request_key (fd_runs db)) \<Longrightarrow> distinct (map run_request_key rows)) \<Longrightarrow>
    flow_change db (db\<lparr>fd_runs := rows\<rparr>)"
| change_steps: "row_change step_fresh step_key step_move (fd_steps db) ss \<Longrightarrow>
    flow_change db (db\<lparr>fd_steps := ss\<rparr>)"
| change_actions: "row_change action_fresh fa_action_id action_move (fd_actions db) as \<Longrightarrow>
    (\<And>a. a \<in> set as \<Longrightarrow> fa_state a = ActClaimed \<Longrightarrow>
       a \<in> set (fd_actions db) \<or> run_running (fa_run_id a) db) \<Longrightarrow>
    flow_change db (db\<lparr>fd_actions := as\<rparr>)"
| change_waits: "row_change wait_fresh fw_wait_id wait_move (fd_waits db) ws \<Longrightarrow>
    flow_change db (db\<lparr>fd_waits := ws\<rparr>)"
| change_commands: "row_change command_fresh control_key command_move (fd_commands db) cs \<Longrightarrow>
    flow_change db (db\<lparr>fd_commands := cs\<rparr>)"
| change_events: "fe_sequence e = last_event_number (fe_run_id e) db + 1 \<Longrightarrow>
    fe_event_id e \<notin> fe_event_id ` set (fd_events db) \<Longrightarrow>
    flow_change db (db\<lparr>fd_events := fd_events db @ [e]\<rparr>)"

text \<open>The events of every run are numbered from 1 without gaps.\<close>

definition events_numbered :: "flow_db \<Rightarrow> bool" where
  "events_numbered db \<longleftrightarrow> distinct (map fe_event_id (fd_events db))
     \<and> (\<forall>k. map fe_sequence (run_events k db) = [1..<Suc (length (run_events k db))])"

definition flow_ok :: "flow_db \<Rightarrow> bool" where
  "flow_ok db \<longleftrightarrow> run_rows.table_ok (fd_runs db) \<and> distinct (map run_request_key (fd_runs db))
     \<and> step_rows.table_ok (fd_steps db) \<and> action_rows.table_ok (fd_actions db)
     \<and> wait_rows.table_ok (fd_waits db) \<and> command_rows.table_ok (fd_commands db)
     \<and> events_numbered db"

lemma flow_okD:
  assumes "flow_ok db"
  shows "run_rows.table_ok (fd_runs db)" "distinct (map run_request_key (fd_runs db))"
    "step_rows.table_ok (fd_steps db)" "action_rows.table_ok (fd_actions db)"
    "wait_rows.table_ok (fd_waits db)" "command_rows.table_ok (fd_commands db)" "events_numbered db"
  using assms by (simp_all add: flow_ok_def)

lemma foldr_max_events: "foldr (\<lambda>e n. max (fe_sequence e) n) es 0 = foldr max (map fe_sequence es) 0"
  by (induction es) auto

lemma foldr_max_interval: "foldr max [1..<Suc n] 0 = n"
proof -
  have "foldr max (xs @ [k]) 0 = (k :: nat)" if "\<forall>x \<in> set xs. x \<le> k" for xs k
    using that by (induction xs) (auto simp: max_absorb2)
  from this [of "[1..<n]" n] show ?thesis by (cases n) auto
qed

lemma numbered_last:
  "events_numbered db \<Longrightarrow> last_event_number k db = length (run_events k db)"
  unfolding events_numbered_def last_event_number_def
  by (simp only: foldr_max_events foldr_max_interval)

lemma change_events_numbered:
  assumes "events_numbered db" "fe_sequence e = last_event_number (fe_run_id e) db + 1"
    and "fe_event_id e \<notin> fe_event_id ` set (fd_events db)"
  shows "events_numbered (db\<lparr>fd_events := fd_events db @ [e]\<rparr>)"
proof -
  have "map fe_sequence (run_events k (db\<lparr>fd_events := fd_events db @ [e]\<rparr>)) =
      [1..<Suc (length (run_events k (db\<lparr>fd_events := fd_events db @ [e]\<rparr>)))]" for k
  proof (cases "fe_run_id e = k")
    case True
    then show ?thesis
      using assms(1,2) numbered_last [OF assms(1), of k] by (simp add: events_numbered_def run_events_def)
  next
    case False
    then show ?thesis using assms(1) by (simp add: events_numbered_def run_events_def)
  qed
  then show ?thesis using assms(1,3) by (simp add: events_numbered_def)
qed

lemma numbered_updates:
  "events_numbered (db\<lparr>fd_runs := rs\<rparr>) = events_numbered db"
  "events_numbered (db\<lparr>fd_steps := ss\<rparr>) = events_numbered db"
  "events_numbered (db\<lparr>fd_actions := as\<rparr>) = events_numbered db"
  "events_numbered (db\<lparr>fd_waits := ws\<rparr>) = events_numbered db"
  "events_numbered (db\<lparr>fd_commands := cs\<rparr>) = events_numbered db"
  by (simp_all add: events_numbered_def run_events_def)

lemma change_flow_ok: "flow_change db db' \<Longrightarrow> flow_ok db \<Longrightarrow> flow_ok db'"
proof (induction rule: flow_change.induct)
  case (change_runs rows)
  then show ?case by (simp add: flow_ok_def numbered_updates run_rows.change_ok)
next
  case (change_steps ss)
  then show ?case by (simp add: flow_ok_def numbered_updates step_rows.change_ok)
next
  case (change_actions as)
  then show ?case by (simp add: flow_ok_def numbered_updates action_rows.change_ok)
next
  case (change_waits ws)
  then show ?case by (simp add: flow_ok_def numbered_updates wait_rows.change_ok)
next
  case (change_commands cs)
  then show ?case by (simp add: flow_ok_def numbered_updates command_rows.change_ok)
next
  case (change_events e)
  then show ?case by (simp add: flow_ok_def change_events_numbered)
qed

text \<open>Lookups by key after a change.\<close>

lemma change_run:
  assumes "flow_change db db'" "run_of k db = Some r"
  shows "\<exists>r'. run_of k db' = Some r' \<and> (r' = r \<or> run_move r r')"
  using assms by cases (auto simp: run_of_def dest: run_rows.change_row)

lemma change_step:
  assumes "flow_change db db'" "step_of x y z db = Some r"
  shows "\<exists>r'. step_of x y z db' = Some r' \<and> (r' = r \<or> step_move r r')"
  using assms by cases (auto simp: step_of_def step_key_def [symmetric] dest: step_rows.change_row)

lemma change_action:
  assumes "flow_change db db'" "action_of k db = Some a"
  shows "\<exists>a'. action_of k db' = Some a' \<and> (a' = a \<or> action_move a a')"
  using assms by cases (auto simp: action_of_def dest: action_rows.change_row)

lemma change_wait:
  assumes "flow_change db db'" "wait_of k db = Some w"
  shows "\<exists>w'. wait_of k db' = Some w' \<and> (w' = w \<or> wait_move w w')"
  using assms by cases (auto simp: wait_of_def dest: wait_rows.change_row)

lemma command_of_key: "command_of owner key db = select1 (\<lambda>c. control_key c = (owner, key)) (fd_commands db)"
  by (simp add: command_of_def control_key_def)

lemma change_command:
  assumes "flow_change db db'" "command_of owner key db = Some c"
  shows "\<exists>c'. command_of owner key db' = Some c' \<and> (c' = c \<or> command_move c c')"
  using assms by cases (auto simp: command_of_key dest: command_rows.change_row)

lemma change_event:
  assumes "flow_change db db'" "k < length (fd_events db)"
  shows "k < length (fd_events db') \<and> fd_events db' ! k = fd_events db ! k"
  using assms by cases (auto simp: nth_append)

section \<open>Operations as chains of changes\<close>

abbreviation flow_changes :: "flow_db \<Rightarrow> flow_db \<Rightarrow> bool" where
  "flow_changes \<equiv> steps flow_change"

interpretation flow: invariant_system flow_change flow_ok
  by unfold_locales (rule change_flow_ok)

lemma changes_step: "flow_change db db1 \<Longrightarrow> flow_changes db1 db2 \<Longrightarrow> flow_changes db db2"
  by (rule steps_trans [OF _ steps_single])

lemma event_change: "append_flow_event E k ty v db = Inr db' \<Longrightarrow> flow_change db db'"
  by (auto simp: append_flow_event_Inr intro: flow_change.change_events)

lemma event_changes: "append_flow_event E k ty v db = Inr db' \<Longrightarrow> flow_changes db db'"
  by (intro steps_single event_change)

lemma then_event: "flow_change db db1 \<Longrightarrow> append_flow_event E k ty v db1 = Inr db' \<Longrightarrow> flow_changes db db'"
  by (rule changes_step [OF _ event_changes])

text \<open>Rewriting the row of one key.\<close>

lemma owned_run_in: "owned_run owner k db = Some r \<Longrightarrow> r \<in> set (fd_runs db) \<and> fr_run_id r = k"
  by (auto simp: owned_run_def dest: select1_Some)

lemma run_of_in: "run_of k db = Some r \<Longrightarrow> r \<in> set (fd_runs db) \<and> fr_run_id r = k"
  by (auto simp: run_of_def dest: select1_Some)

lemma action_of_in: "action_of k db = Some a \<Longrightarrow> a \<in> set (fd_actions db) \<and> fa_action_id a = k"
  by (auto simp: action_of_def dest: select1_Some)

lemma update_run_change:
  assumes "flow_ok db" "r \<in> set (fd_runs db)" "fr_run_id r = k" "run_move r (f r)"
    and "\<And>x. run_request_key (f x) = run_request_key x" "\<And>x. p x \<Longrightarrow> fr_run_id x = k"
  shows "flow_change db (db\<lparr>fd_runs := update_where p f (fd_runs db)\<rparr>)"
proof (rule flow_change.change_runs)
  show "row_change run_fresh fr_run_id run_move (fd_runs db) (update_where p f (fd_runs db))"
    using assms by (intro run_rows.update_key [of _ r]) (auto simp: flow_okD)
  show "distinct (map run_request_key (update_where p f (fd_runs db)))"
    if "distinct (map run_request_key (fd_runs db))"
    using that assms(5) by (simp add: map_update_where)
qed

lemma update_action_change:
  assumes "flow_ok db" "action_of k db = Some a" "action_move a (f a)"
    and "fa_state (f a) = ActClaimed \<longrightarrow> run_running (fa_run_id a) db"
  shows "flow_change db (update_action k f db)"
  unfolding update_action_def
proof (rule flow_change.change_actions)
  note i = action_of_in [OF assms(2)]
  show "row_change action_fresh fa_action_id action_move (fd_actions db)
      (update_where (\<lambda>a. fa_action_id a = k) f (fd_actions db))"
    using assms i by (intro action_rows.update_key [of _ a]) (auto simp: flow_okD)
  fix b assume b: "b \<in> set (update_where (\<lambda>a. fa_action_id a = k) f (fd_actions db))" "fa_state b = ActClaimed"
  show "b \<in> set (fd_actions db) \<or> run_running (fa_run_id b) db"
  proof (cases "b \<in> set (fd_actions db)")
    case False
    then obtain c where c: "c \<in> set (fd_actions db)" "fa_action_id c = k" "b = f c"
      using b(1) by (auto simp: set_update_where)
    then have "c = a" using i assms(1) action_rows.unique flow_okD(4) by blast
    then show ?thesis using c b(2) assms(3,4) action_pins_fields [of "f a" a] by (simp add: action_move_def)
  qed simp
qed

lemma request_key_updates [simp]:
  "run_request_key (move_run s now r) = run_request_key r"
  "run_request_key (r\<lparr>fr_current_step_id := c\<rparr>) = run_request_key r"
  by (simp_all add: run_request_key_def move_run_def)

end
