(* ===== verification/WorkflowEffects.thy ===== *)
theory WorkflowEffects
  imports WorkflowLog
begin

text \<open>
  Every operation of the workflow store is a chain of legal changes: one lemma per operation, and the
  step relation \<open>flow_step\<close> of any successful call by any caller.  The contracts of \<open>Systems\<close> are
  interpreted on it.
\<close>

section \<open>Creating a run\<close>

lemma run_admissible_fresh:
  assumes "run_admissible r t u db"
  shows "fr_run_id r \<notin> fr_run_id ` set (fd_runs db)"
    and "run_request_key r \<notin> run_request_key ` set (fd_runs db)"
  using assms
  by (auto simp: run_admissible_def run_of_def select1_None run_request_key_def list_ex_iff)

lemma insert_run_change:
  assumes "insert_run E q t u h db = Inr db'"
  shows "flow_change db db' \<and> fd_steps db' = fd_steps db \<and> run_of (fq_run_id q) db = None
    \<and> (\<exists>r. fd_runs db' = fd_runs db @ [r] \<and> run_fresh r \<and> fr_run_id r = fq_run_id q
          \<and> fr_owner_subject r = fq_owner_subject q \<and> fr_idempotency_key r = fq_idempotency_key q
          \<and> fr_request_hash r = h)"
proof -
  obtain r where r: "run_admissible r t u db" "db' = db\<lparr>fd_runs := fd_runs db @ [r]\<rparr>" "run_fresh r"
    "fr_run_id r = fq_run_id q" "fr_owner_subject r = fq_owner_subject q"
    "fr_idempotency_key r = fq_idempotency_key q" "fr_request_hash r = h"
    using assms
    by (auto simp: insert_run_def Let_def new_run_def run_fresh_def split: option.splits if_splits)
  have "flow_change db db'" unfolding r(2)
    using run_admissible_fresh [OF r(1)] r(3)
    by (intro flow_change.change_runs run_rows.append_fresh) auto
  moreover have "run_of (fq_run_id q) db = None" using r(1,4) by (simp add: run_admissible_def)
  ultimately show ?thesis using r by simp
qed

lemma event_same:
  assumes "append_flow_event E k ty v db = Inr db'"
  shows "fd_runs db' = fd_runs db" "fd_steps db' = fd_steps db" "fd_actions db' = fd_actions db"
    "fd_waits db' = fd_waits db" "fd_commands db' = fd_commands db"
  using assms by (auto simp: append_flow_event_Inr)

lemma event_lookups:
  assumes "append_flow_event E k ty v db = Inr db'"
  shows "run_of x db' = run_of x db" "action_of x db' = action_of x db" "wait_of x db' = wait_of x db"
    "step_of x y z db' = step_of x y z db" "command_of x y db' = command_of x y db"
  by (simp_all add: run_of_def action_of_def wait_of_def step_of_def command_of_def
      event_same [OF assms])

lemma insert_step_changes:
  assumes "insert_step E k p db = Inr db'"
  shows "flow_changes db db' \<and> fd_runs db' = fd_runs db
    \<and> (\<exists>r. fd_steps db' = fd_steps db @ [r] \<and> step_fresh r \<and> step_key r = (k, fp_step_id p, fp_attempt p)
         \<and> fs_kind r = fp_kind p \<and> fs_input_ref r = fp_input_ref p)"
proof -
  define r where "r = \<lparr>fs_run_id = k, fs_step_id = fp_step_id p,
          fs_attempt = fp_attempt p, fs_kind = fp_kind p, fs_state = StepPending,
          fs_state_version = 0, fs_input_ref = fp_input_ref p, fs_output_ref = None,
          fs_error_code = None, fs_created_at = row_now E db, fs_updated_at = row_now E db\<rparr>"
  define db1 where db1: "db1 = db\<lparr>fd_steps := fd_steps db @ [r]\<rparr>"
  have ev: "append_flow_event E k ''step_created''
      (JObj [(''step_id'', JStr (fp_step_id p)), (''attempt'', JInt (fp_attempt p))]) db1 = Inr db'"
    and r: "(k, fp_step_id p, fp_attempt p) \<notin> step_key ` set (fd_steps db)" "1 \<le> fp_attempt p"
    using assms unfolding insert_step_def r_def db1 by (auto simp: result_simps)
  have r: "step_fresh r" "step_key r = (k, fp_step_id p, fp_attempt p)"
    "(k, fp_step_id p, fp_attempt p) \<notin> step_key ` set (fd_steps db)"
    "fs_kind r = fp_kind p" "fs_input_ref r = fp_input_ref p"
    using r by (simp_all add: r_def step_fresh_def step_key_def)
  have "flow_change db db1"
    unfolding db1 using r by (intro flow_change.change_steps step_rows.append_fresh) auto
  then show ?thesis using then_event [OF _ ev] r event_same [OF ev] by (auto simp: db1)
qed

lemma insert_steps_changes:
  "insert_steps E k ps db = Inr db' \<Longrightarrow> flow_changes db db' \<and> fd_runs db' = fd_runs db
     \<and> (\<exists>rs. fd_steps db' = fd_steps db @ rs \<and> map step_key rs = map (\<lambda>p. (k, fp_step_id p, fp_attempt p)) ps
          \<and> list_all2 (\<lambda>r p. fs_kind r = fp_kind p \<and> fs_input_ref r = fp_input_ref p) rs ps)"
proof (induction ps arbitrary: db)
  case Nil
  then show ?case by (auto intro: steps_refl)
next
  case (Cons p ps)
  from Cons.prems obtain db1 where d: "insert_step E k p db = Inr db1" "insert_steps E k ps db1 = Inr db'"
    by (auto simp: result_simps)
  from insert_step_changes [OF d(1)] obtain r where r: "flow_changes db db1" "fd_runs db1 = fd_runs db"
    "fd_steps db1 = fd_steps db @ [r]" "step_key r = (k, fp_step_id p, fp_attempt p)"
    "fs_kind r = fp_kind p" "fs_input_ref r = fp_input_ref p" by blast
  from Cons.IH [OF d(2)] obtain rs where rs: "flow_changes db1 db'" "fd_runs db' = fd_runs db1"
    "fd_steps db' = fd_steps db1 @ rs"
    "map step_key rs = map (\<lambda>p. (k, fp_step_id p, fp_attempt p)) ps"
    "list_all2 (\<lambda>r p. fs_kind r = fp_kind p \<and> fs_input_ref r = fp_input_ref p) rs ps" by blast
  have "flow_changes db db'" by (rule steps_trans [OF rs(1) r(1)])
  moreover have "fd_steps db' = fd_steps db @ (r # rs)" using rs(3) r(3) by simp
  ultimately show ?case using rs r by (intro conjI exI [of _ "r # rs"]) simp_all
qed

lemma start_run_changes:
  assumes "start_run E k first db = Inr db'" "flow_ok db" "run_of k db = Some r" "run_fresh r"
  shows "flow_changes db db'
    \<and> (\<exists>r'. run_of k db' = Some r' \<and> fr_state r' = RunRunning \<and> fr_state_version r' = 1
         \<and> fr_current_step_id r' = Some first \<and> run_pins r' = run_pins r)"
proof -
  define target :: "flow_step \<Rightarrow> bool" where "target = (\<lambda>r. (fs_run_id r, fs_step_id r, fs_attempt r) = (k, first, 1)
      \<and> fs_state r = StepPending \<and> fs_state_version r = 0)"
  define db0 where "db0 = db\<lparr>fd_steps := update_where target (\<lambda>r. r\<lparr>fs_state := StepReady,
      fs_state_version := 1, fs_updated_at := row_now E db\<rparr>) (fd_steps db)\<rparr>"
  obtain db1 where e1: "append_flow_event E k ''step_state'' (JObj [(''step_id'', JStr first),
      (''from'', JStr ''pending''), (''to'', JStr ''ready'')]) db0 = Inr db1"
    and e2: "append_flow_event E k ''started'' (JObj [(''from'', JStr ''created''), (''to'', JStr ''running''),
        (''state_version'', JInt 1)])
      (db1\<lparr>fd_runs := update_where (\<lambda>r. fr_run_id r = k) (\<lambda>r. r\<lparr>fr_state := RunRunning,
         fr_state_version := 1, fr_current_step_id := Some first,
         fr_updated_at := row_now E db1\<rparr>) (fd_runs db1)\<rparr>) = Inr db'"
    using assms(1) by (auto simp: start_run_def Let_def result_simps target_def db0_def)
  have "flow_change db db0" unfolding db0_def
    by (intro flow_change.change_steps row_change.row_move)
      (auto simp: target_def step_move_def step_key_def)
  then have c1: "flow_changes db db1" by (rule then_event [OF _ e1])
  then have ok1: "flow_ok db1" using flow.steps_inv assms(2) by blast
  have r1: "run_of k db1 = Some r" using assms(3) event_same [OF e1] by (simp add: run_of_def db0_def)
  have c2: "flow_change db1 (db1\<lparr>fd_runs := update_where (\<lambda>r. fr_run_id r = k) (\<lambda>r. r\<lparr>fr_state := RunRunning,
         fr_state_version := 1, fr_current_step_id := Some first,
         fr_updated_at := row_now E db1\<rparr>) (fd_runs db1)\<rparr>)"
    using run_of_in [OF r1] assms(4) ok1
    by (intro update_run_change [of _ r]) (auto simp: run_move_def run_fresh_def run_pins_def
        run_targets_def TERMINAL_RUN_STATES_def run_request_key_def)
  have "run_of k db' = Some (r\<lparr>fr_state := RunRunning,
         fr_state_version := 1, fr_current_step_id := Some first, fr_updated_at := row_now E db1\<rparr>)"
    using r1 event_same [OF e2] by (simp add: run_of_def select1_update_same)
  then show ?thesis
    using steps_trans [OF then_event [OF c2 e2] c1] by (simp add: run_pins_def)
qed

lemma create_run_new:
  assumes "create_run E q db = Inr ((r, False), db')" "flow_ok db"
  shows "flow_changes db db' \<and> run_of (fq_run_id q) db = None \<and> run_of (fq_run_id q) db' = Some r
    \<and> run_request_key r = (fq_owner_subject q, fq_idempotency_key q)
    \<and> flow_digest (ek_lib E) (run_request_json q) = Inr (fr_request_hash r)
    \<and> (case fq_steps q of None \<Rightarrow> run_fresh r | Some ps \<Rightarrow> fr_state r = RunRunning)"
proof -
  obtain t u h db1 db2 where i: "insert_run E q t u h db = Inr db1"
    and h: "flow_digest (ek_lib E) (run_request_json q) = Inr h"
    and e: "append_flow_event E (fq_run_id q) ''created'' (JObj [(''state'', JStr ''created'')]) db1 = Inr db2"
    and s: "(case fq_steps q of None \<Rightarrow> Inr db2
        | Some ps \<Rightarrow> bindE (insert_steps E (fq_run_id q) ps db2)
            (start_run E (fq_run_id q) (column_text (fq_first_step_id q)))) = Inr db'"
    and r: "run_of (fq_run_id q) db' = Some r"
    using assms(1) by (auto simp: create_run_def result_simps split: option.splits)
  from insert_run_change [OF i] obtain r0 where r0: "flow_change db db1" "run_of (fq_run_id q) db = None"
    "fd_runs db1 = fd_runs db @ [r0]" "run_fresh r0" "fr_run_id r0 = fq_run_id q"
    "fr_owner_subject r0 = fq_owner_subject q" "fr_idempotency_key r0 = fq_idempotency_key q"
    "fr_request_hash r0 = h" by blast
  have c2: "flow_changes db db2" by (rule then_event [OF r0(1) e])
  have "run_of (fq_run_id q) db1 = Some r0"
    using r0(2,3,5) by (simp add: run_of_def select1_append)
  then have r2: "run_of (fq_run_id q) db2 = Some r0" by (simp add: event_lookups [OF e])
  show ?thesis
  proof (cases "fq_steps q")
    case None
    then show ?thesis using s c2 r r2 r0 h by (simp add: run_request_key_def)
  next
    case (Some ps)
    then obtain db3 where d3: "insert_steps E (fq_run_id q) ps db2 = Inr db3"
      "start_run E (fq_run_id q) (column_text (fq_first_step_id q)) db3 = Inr db'"
      using s by (auto simp: result_simps)
    note c3 = steps_trans [OF conjunct1 [OF insert_steps_changes [OF d3(1)]] c2]
    have ok3: "flow_ok db3" using flow.steps_inv [OF c3] assms(2) by blast
    have r3: "run_of (fq_run_id q) db3 = Some r0"
      using insert_steps_changes [OF d3(1)] r2 by (simp add: run_of_def)
    from start_run_changes [OF d3(2) ok3 r3 r0(4)] r
    have s3: "flow_changes db3 db'" "fr_state r = RunRunning" "run_pins r = run_pins r0" by auto
    have "fr_request_hash r = fr_request_hash r0"
      using arg_cong [OF s3(3), of fr_request_hash] by (simp add: run_pins_def)
    then show ?thesis
      using steps_trans [OF s3(1) c3] run_pins_fields [OF s3(3)] s3(2) r r0 h Some
      by (simp add: run_request_key_def)
  qed
qed

lemma create_run_old:
  assumes "create_run E q db = Inr ((r, True), db')"
  shows "db' = db \<and> select1 (\<lambda>r. fr_owner_subject r = fq_owner_subject q
      \<and> fr_idempotency_key r = fq_idempotency_key q) (fd_runs db) = Some r
    \<and> flow_digest (ek_lib E) (run_request_json q) = Inr (fr_request_hash r)"
  using assms
  by (auto simp: create_run_def result_simps replay_run_def split: option.splits if_splits)

lemma create_run_changes:
  assumes "create_run E q db = Inr ((r, b), db')" "flow_ok db"
  shows "flow_changes db db'"
  using assms create_run_new [of E q db r db'] create_run_old [of E q db r db']
  by (cases b) (auto intro: steps_refl)

section \<open>Commands, waits, runs and steps\<close>

lemma begin_control_new:
  assumes "begin_control_command E q db = Inr ((c, False), db')" "flow_ok db"
  shows "flow_changes db db' \<and> command_of (fz_owner_subject q) (fz_idempotency_key q) db = None
    \<and> (\<exists>run. owned_run (fz_owner_subject q) (fz_run_id q) db = Some run
         \<and> fr_state_version run = fz_expected_state_version q)"
proof -
  let ?k = "(fz_owner_subject q, fz_idempotency_key q)"
  have none: "command_of (fz_owner_subject q) (fz_idempotency_key q) db = None"
    using assms(1)
    by (cases "command_of (fz_owner_subject q) (fz_idempotency_key q) db")
      (auto simp: begin_control_command_def result_simps split: if_splits)
  have d: "command_of (fz_owner_subject q) (fz_idempotency_key q) db = None"
    "\<exists>run. owned_run (fz_owner_subject q) (fz_run_id q) db = Some run
       \<and> fr_state_version run = fz_expected_state_version q"
    "control_key c = ?k" "command_fresh c"
    "append_flow_event E (fz_run_id q) ''control_started'' (JObj [(''action'', JStr (fz_action q)),
       (''idempotency_key'', JStr (fz_idempotency_key q))])
       (db\<lparr>fd_commands := fd_commands db @ [c]\<rparr>) = Inr db'"
    using assms(1) none
    by (auto simp: begin_control_command_def result_simps Let_def control_key_def command_fresh_def)
  have "control_key c \<notin> control_key ` set (fd_commands db)"
    using d(1,3) by (auto simp: command_of_key select1_None)
  then have "flow_change db (db\<lparr>fd_commands := fd_commands db @ [c]\<rparr>)"
    using d(4) by (intro flow_change.change_commands command_rows.append_fresh)
  then show ?thesis using then_event [OF _ d(5)] d by blast
qed

lemma begin_control_old:
  assumes "begin_control_command E q db = Inr ((c, True), db')"
  shows "db' = db \<and> command_of (fz_owner_subject q) (fz_idempotency_key q) db = Some c
    \<and> fc_run_id c = fz_run_id q \<and> fc_action c = fz_action q
    \<and> fc_expected_state_version c = fz_expected_state_version q
    \<and> flow_digest (ek_lib E) (fz_payload q) = Inr (fc_payload_digest c)"
  using assms by (auto simp: begin_control_command_def result_simps Let_def
      split: option.splits if_splits)

lemma complete_control_changes:
  assumes "complete_control_command E owner key v db = Inr (c, db')" "flow_ok db"
  shows "flow_changes db db' \<and> command_of owner key db' = Some c \<and> fc_completed c"
proof -
  from assms(1) obtain c0 where c0: "command_of owner key db = Some c0"
    by (auto simp: complete_control_command_def result_simps)
  show ?thesis
  proof (cases "fc_completed c0")
    case True
    then show ?thesis using assms(1) c0
      by (auto simp: complete_control_command_def result_simps intro: steps_refl split: if_splits)
  next
    case False
    define f where "f = (\<lambda>r :: flow_command. r\<lparr>fc_completed := True, fc_result := Some v,
        fc_completed_at := Some (row_now E db)\<rparr>)"
    define p where "p = (\<lambda>r :: flow_command. (fc_owner_subject r, fc_idempotency_key r) = (owner, key)
        \<and> \<not> fc_completed r)"
    have e: "append_flow_event E (fc_run_id c0) ''control_completed''
        (JObj [(''action'', JStr (fc_action c0)), (''idempotency_key'', JStr key)])
        (db\<lparr>fd_commands := update_where p f (fd_commands db)\<rparr>) = Inr db'"
      and c: "command_of owner key db' = Some c"
      using assms(1) c0 False unfolding complete_control_command_def p_def f_def
      by (auto simp: result_simps)
    have in0: "c0 \<in> set (fd_commands db)" "control_key c0 = (owner, key)"
      using c0 by (auto simp: command_of_key dest: select1_Some)
    have mv: "command_move c0 (f c0)" using False by (simp add: command_move_def f_def command_pins_def)
    have rc: "row_change command_fresh control_key command_move (fd_commands db)
        (update_where p f (fd_commands db))"
      using in0 mv assms(2)
      by (intro command_rows.update_key [of _ c0]) (auto simp: flow_okD p_def control_key_def)
    then have ch: "flow_change db (db\<lparr>fd_commands := update_where p f (fd_commands db)\<rparr>)"
      by (rule flow_change.change_commands)
    have "control_key (f r) = control_key r" for r by (simp add: f_def control_key_def)
    moreover have "p = (\<lambda>r. control_key r = (owner, key) \<and> \<not> fc_completed r)"
      by (auto simp: p_def control_key_def fun_eq_iff)
    ultimately have "select1 (\<lambda>c. control_key c = (owner, key)) (update_where p f rows)
        = map_option (\<lambda>r. if fc_completed r then r else f r)
            (select1 (\<lambda>c. control_key c = (owner, key)) rows)" for rows
      by (induction rows) auto
    then have "c = f c0" using c c0 False
      by (simp add: command_of_key event_same [OF e])
    then show ?thesis using then_event [OF ch e] c by (simp add: f_def)
  qed
qed

lemma close_wait_changes:
  assumes "close_wait E k reason now w db = Inr db'"
  shows "flow_changes db db' \<and> fd_runs db' = fd_runs db \<and> fd_actions db' = fd_actions db"
proof -
  define db1 where "db1 = db\<lparr>fd_waits := update_where (\<lambda>r. fw_wait_id r = w \<and> fw_resolved_at r = None)
      (\<lambda>r. r\<lparr>fw_resolved_at := Some now, fw_resolution :=
         Some (JObj [(''system'', JBool True), (''reason'', JStr reason)])\<rparr>) (fd_waits db)\<rparr>"
  have e: "append_flow_event E k ''wait_resolved''
       (JObj [(''wait_id'', JStr w), (''reason'', JStr reason)]) db1 = Inr db'"
    using assms unfolding close_wait_def db1_def Let_def by (auto simp: result_simps)
  have "flow_change db db1" unfolding db1_def
    by (intro flow_change.change_waits row_change.row_move)
      (auto simp: wait_move_def wait_open_def wait_pins_def)
  then show ?thesis using then_event [OF _ e] event_same [OF e] by (simp add: db1_def)
qed

lemma close_waits_changes:
  "close_waits E k reason now ws db = Inr db' \<Longrightarrow>
   flow_changes db db' \<and> fd_runs db' = fd_runs db \<and> fd_actions db' = fd_actions db"
proof (induction ws arbitrary: db)
  case Nil
  then show ?case by (auto intro: steps_refl)
next
  case (Cons w ws)
  then obtain db1 where d: "close_wait E k reason now w db = Inr db1"
    "close_waits E k reason now ws db1 = Inr db'" by (auto simp: result_simps)
  show ?case using close_wait_changes [OF d(1)] Cons.IH [OF d(2)] steps_trans by fastforce
qed

lemma resolve_open_waits_changes:
  "resolve_open_waits E k reason now db = Inr (n, db') \<Longrightarrow>
   flow_changes db db' \<and> fd_runs db' = fd_runs db \<and> fd_actions db' = fd_actions db"
  by (auto simp: resolve_open_waits_def result_simps dest: close_waits_changes)

lemma owned_run_of:
  assumes "flow_ok db" "owned_run owner k db = Some r"
  shows "run_of k db = Some r"
  using assms owned_run_in [OF assms(2)] unfolding run_of_def
  by (intro select1_key) (auto simp: flow_ok_def run_rows.table_ok_def)

lemma validated_run:
  assumes "validate_run_transition (run_state_name s) t = Inr ()"
  shows "\<exists>b. run_state_of t = Some b \<and> b \<in> set (run_transitions s)"
  using assms by (auto simp: validate_run_ok)

lemma run_targets_table: "b \<in> set (run_transitions s) \<Longrightarrow> b \<in> set (run_targets s)"
  by (cases s) (auto simp: run_targets_def TERMINAL_RUN_STATES_def)

lemma run_targets_stop:
  "s \<notin> set TERMINAL_RUN_STATES \<Longrightarrow> {RunNeedsAttention, RunWaitingForRecovery} \<subseteq> set (run_targets s)"
  by (simp add: run_targets_def)

lemma run_of_update:
  assumes "run_of k db = Some r" "\<And>r. fr_run_id (f r) = fr_run_id r"
  shows "run_of k (update_run k f db) = Some (f r)"
  using assms by (simp add: run_of_def update_run_def select1_update_same)

lemma moved_run_change:
  assumes "flow_ok db" "run_of k db = Some r" "s \<in> set (run_targets (fr_state r))"
  shows "flow_change db (update_run k (move_run s now) db)"
  unfolding update_run_def
  using assms run_of_in [OF assms(2)]
  by (intro update_run_change [of _ r]) (auto simp: run_move_def)

lemma transition_run_changes:
  assumes "transition_run E x db = Inr (r', db')" "flow_ok db"
  shows "flow_changes db db' \<and> run_of (fx_run_id x) db' = Some r' \<and>
    (\<exists>r. run_of (fx_run_id x) db = Some r \<and> run_pins r' = run_pins r
       \<and> fr_state r' \<in> set (run_transitions (fr_state r)) \<and> fr_state_version r' = fr_state_version r + 1
       \<and> run_state_name (fr_state r) = fx_expected_state x \<and> run_state_name (fr_state r') = fx_target x
       \<and> fr_state_version r = fx_expected_version x)"
proof -
  obtain r t where r: "owned_run (fx_owner_subject x) (fx_run_id x) db = Some r"
    "run_state_name (fr_state r) = fx_expected_state x" "fr_state_version r = fx_expected_version x"
    "validate_run_transition (fx_expected_state x) (fx_target x) = Inr ()"
    "run_state_of (fx_target x) = Some t"
    and e: "append_flow_event E (fx_run_id x) (fx_event_type x)
       (JObj [(''from'', JStr (fx_expected_state x)), (''to'', JStr (fx_target x)),
              (''state_version'', JInt (fx_expected_version x + 1))])
       (update_run (fx_run_id x)
          (\<lambda>r. (move_run t (row_now E db) r)\<lparr>fr_current_step_id := fx_current_step_id x\<rparr>) db) = Inr db'"
    and r': "run_of (fx_run_id x) db' = Some r'"
    using assms(1)
    by (auto simp: transition_run_def result_simps split: sum.splits option.splits)
  note ro = owned_run_of [OF assms(2) r(1)]
  have t: "t \<in> set (run_transitions (fr_state r))"
    using validated_run [of "fr_state r" "fx_target x"] r by auto
  have "flow_change db (update_run (fx_run_id x)
      (\<lambda>r. (move_run t (row_now E db) r)\<lparr>fr_current_step_id := fx_current_step_id x\<rparr>) db)"
    unfolding update_run_def using run_of_in [OF ro] assms(2) t
    by (intro update_run_change [of _ r])
      (auto simp: run_move_def run_targets_table)
  then have "flow_changes db db'" by (rule then_event [OF _ e])
  moreover have "r' = (move_run t (row_now E db) r)\<lparr>fr_current_step_id := fx_current_step_id x\<rparr>"
    using r' run_of_update [OF ro] event_lookups [OF e] by (simp add: move_run_def)
  moreover have "run_state_name t = fx_target x" using r(5) by (simp add: run_state_of_Some)
  ultimately show ?thesis using r ro r' t by auto
qed

lemma create_step_changes:
  assumes "create_step E owner k p db = Inr ((r, b), db')"
  shows "flow_changes db db'"
  using assms by (auto simp: create_step_def result_simps dest: insert_step_changes intro: steps_refl
      split: option.splits if_splits)

lemma transition_step_changes:
  assumes "transition_step E y db = Inr (r', db')" "flow_ok db"
  shows "flow_changes db db'"
proof -
  let ?k = "(fy_run_id y, fy_step_id y, fy_attempt y)"
  define f where "f t = (\<lambda>r :: flow_step. r\<lparr>fs_state := t, fs_state_version := fs_state_version r + 1,
     fs_output_ref := fy_output_ref y, fs_error_code := fy_error_code y, fs_updated_at := row_now E db\<rparr>)" for t
  obtain r t where r: "step_of (fy_run_id y) (fy_step_id y) (fy_attempt y) db = Some r"
    "step_state_name (fs_state r) = fy_expected_state y"
    "validate_step_transition (fy_expected_state y) (fy_target y) = Inr ()"
    "step_state_of (fy_target y) = Some t"
    and e: "append_flow_event E (fy_run_id y) ''step_state'' (JObj [(''step_id'', JStr (fy_step_id y)),
        (''from'', JStr (fy_expected_state y)), (''to'', JStr (fy_target y))])
       (db\<lparr>fd_steps := update_where (\<lambda>r. step_key r = ?k) (f t) (fd_steps db)\<rparr>) = Inr db'"
    using assms(1) unfolding transition_step_def f_def
    by (auto simp: result_simps split: sum.splits option.splits)
  have t: "t \<in> set (step_transitions (fs_state r))" using r(2-4)
    by (auto simp: validate_step_ok)
  have "r \<in> set (fd_steps db)" "step_key r = ?k"
    using r(1) by (auto simp: step_of_def step_key_def dest: select1_Some)
  then have "flow_change db (db\<lparr>fd_steps := update_where (\<lambda>r. step_key r = ?k) (f t) (fd_steps db)\<rparr>)"
    using assms(2) t
    by (intro flow_change.change_steps step_rows.update_key [of _ r])
      (auto simp: flow_okD step_move_def f_def step_key_def)
  then show ?thesis by (rule then_event [OF _ e])
qed

section \<open>The outbox\<close>

lemma set_ordered_by [simp]: "set (ordered_by stamp key rows) = set rows"
  by (simp add: ordered_by_def)

lemma action_lookup:
  assumes "flow_ok db" "a \<in> set (fd_actions db)"
  shows "action_of (fa_action_id a) db = Some a"
  using assms unfolding action_of_def
  by (intro select1_key) (auto simp: flow_ok_def action_rows.table_ok_def)

lemma action_of_update:
  assumes "action_of k db = Some a" "\<And>a. fa_action_id (f a) = fa_action_id a"
  shows "action_of k (update_action k f db) = Some (f a)"
  using assms by (simp add: action_of_def update_action_def select1_update_same)

lemma action_sound_of: "flow_ok db \<Longrightarrow> action_of k db = Some a \<Longrightarrow> action_sound a"
  using action_of_in by (auto simp: flow_ok_def action_rows.table_ok_def)

lemma settle_action_changes:
  assumes "settle_action E a f ty v db = Inr (a1, db')" "flow_ok db"
    and "action_of (fa_action_id a) db = Some a" "action_move a (f a)"
    and "\<And>r. fa_action_id (f r) = fa_action_id r" "fa_state (f a) \<noteq> ActClaimed"
  shows "flow_changes db db' \<and> a1 = f a \<and> action_of (fa_action_id a) db' = Some (f a)
    \<and> fd_runs db' = fd_runs db"
proof -
  have e: "append_flow_event E (fa_run_id a) ty v (update_action (fa_action_id a) f db) = Inr db'"
    and a1: "action_of (fa_action_id a) db' = Some a1"
    using assms(1) by (auto simp: settle_action_def result_simps)
  have ch: "flow_change db (update_action (fa_action_id a) f db)"
    using assms(2-4) by (rule update_action_change) (simp add: assms(6))
  show ?thesis
    using then_event [OF ch e] a1 action_of_update [OF assms(3), of f] assms(5) event_lookups [OF e]
      event_same [OF e] by (simp add: update_action_def)
qed

lemma insert_action_new:
  assumes "insert_action E q db = Inr ((a, False), db')"
  shows "flow_changes db db' \<and> action_of (action_id_of q) db = None \<and> action_fresh a
    \<and> fa_action_id a = action_id_of q \<and> action_of (action_id_of q) db' = Some a \<and> fd_runs db' = fd_runs db
    \<and> lift_key (child_idempotency_key (ek_lib E) (ft_run_id q) (ft_step_id q) (ft_attempt q)
          (ft_action_kind q) (ft_source_digest q)) = Inr (fa_idempotency_key a)"
proof -
  have none: "action_of (action_id_of q) db = None"
    using assms
    by (cases "action_of (action_id_of q) db") (auto simp: insert_action_def result_simps split: if_splits)
  have d: "action_fresh a" "fa_action_id a = action_id_of q"
    "lift_key (child_idempotency_key (ek_lib E) (ft_run_id q) (ft_step_id q) (ft_attempt q)
       (ft_action_kind q) (ft_source_digest q)) = Inr (fa_idempotency_key a)"
    "append_flow_event E (ft_run_id q) ''action_inserted'' (JObj [(''action_id'', JStr (fa_action_id a)),
       (''step_id'', JStr (ft_step_id q))]) (db\<lparr>fd_actions := fd_actions db @ [a]\<rparr>) = Inr db'"
    using assms none
    by (auto simp: insert_action_def result_simps Let_def new_action_def action_fresh_def)
  have "fa_action_id a \<notin> fa_action_id ` set (fd_actions db)"
    using none d(2) by (auto simp: action_of_def select1_None)
  then have "flow_change db (db\<lparr>fd_actions := fd_actions db @ [a]\<rparr>)"
    using d(1) by (intro flow_change.change_actions action_rows.append_fresh) (auto simp: action_fresh_def)
  then show ?thesis
    using then_event [OF _ d(4)] none d event_same [OF d(4)]
    by (simp add: action_of_def select1_append)
qed

lemma insert_action_old:
  assumes "insert_action E q db = Inr ((a, True), db')"
  shows "db' = db \<and> action_of (action_id_of q) db = Some a \<and> py_eq (fa_payload a) (ft_payload q)
    \<and> fa_retry_class a = ft_retry_class q \<and> fa_effect_class a = ft_effect_class q"
  using assms by (auto simp: insert_action_def result_simps Let_def split: option.splits if_splits)

lemma next_action_Some:
  assumes "next_action E db = Some a"
  shows "a \<in> set (fd_actions db) \<and> run_running (fa_run_id a) db \<and> claimable E a"
proof -
  let ?c = "filter (\<lambda>a. run_running (fa_run_id a) db \<and> claimable E a) (fd_actions db)"
  obtain as where "ordered_by fa_created_at fa_action_id ?c = a # as"
    using assms by (auto simp: next_action_def split: list.splits)
  then have "a \<in> set ?c" using set_ordered_by [of fa_created_at fa_action_id ?c] list.set_intros(1) by metis
  then show ?thesis by simp
qed

definition claimed_by :: "flow_env \<Rightarrow> string \<Rightarrow> int \<Rightarrow> flow_db \<Rightarrow> flow_action \<Rightarrow> flow_action" where
  "claimed_by E w n db r = r\<lparr>fa_state := ActClaimed, fa_lease_owner := Some w,
     fa_lease_expires_at := ek_datetime E (ek_seconds E + n), fa_updated_at := row_now E db\<rparr>"

lemma claim_move: "claimable E a \<Longrightarrow> action_move a (claimed_by E w n db a)"
  by (auto simp: action_move_def claimed_by_def action_pins_def claimable_def)

lemma claim_action_cases:
  assumes "claim_action E w n db = Inr (Some a', db')" "flow_ok db"
  shows "\<exists>a. next_action E db = Some a \<and> a' = claimed_by E w n db a \<and> flow_changes db db'
    \<and> action_of (fa_action_id a) db = Some a \<and> action_of (fa_action_id a) db' = Some a'
    \<and> fd_runs db' = fd_runs db"
proof -
  obtain a where a: "next_action E db = Some a"
    using assms(1) by (auto simp: claim_action_def split: option.splits if_splits)
  define db1 where "db1 = update_action (fa_action_id a) (claimed_by E w n db) db"
  note s = next_action_Some [OF a]
  note la = action_lookup [OF assms(2) conjunct1 [OF s]]
  have e: "append_flow_event E (fa_run_id a') ''action_claimed'' (action_event (fa_action_id a')) db1 = Inr db'"
    and a': "action_of (fa_action_id a) db1 = Some a'"
    using assms(1) a
    by (auto simp: claim_action_def Let_def result_simps db1_def claimed_by_def [abs_def] split: if_splits)
  have u: "action_of (fa_action_id a) db1 = Some (claimed_by E w n db a)"
    unfolding db1_def by (rule action_of_update [OF la]) (simp add: claimed_by_def)
  have "flow_change db db1" unfolding db1_def
    using assms(2) la claim_move by (rule update_action_change) (use s in simp_all)
  then show ?thesis
    using then_event [OF _ e] a la a' u event_lookups [OF e] event_same [OF e]
    by (auto simp: db1_def update_action_def)
qed

lemma claim_action_changes:
  "claim_action E w n db = Inr (x, db') \<Longrightarrow> flow_ok db \<Longrightarrow> flow_changes db db'"
proof (cases x)
  case None
  assume "claim_action E w n db = Inr (x, db')"
  then have "db' = db" using None
    by (auto simp: claim_action_def Let_def result_simps split: option.splits if_splits)
  then show ?thesis by (simp add: steps_refl)
next
  case (Some a')
  assume "claim_action E w n db = Inr (x, db')" "flow_ok db"
  then show ?thesis using claim_action_cases [of E w n db a' db'] Some by auto
qed

definition started_by :: "flow_env \<Rightarrow> flow_db \<Rightarrow> flow_action \<Rightarrow> flow_action \<Rightarrow> flow_action" where
  "started_by E db a r = r\<lparr>fa_state := ActStarted, fa_dispatch_started_at := Some (row_now E db),
     fa_child_state := Some ''started'', fa_child_ref := Some (child_reference a),
     fa_updated_at := row_now E db\<rparr>"

lemma mark_dispatch_cases:
  assumes "mark_dispatch_started E k w db = Inr (a', db')" "flow_ok db"
  shows "\<exists>a. action_of k db = Some a \<and> column_text (fa_lease_owner a) = w \<and>
    (if fa_state a = ActStarted then a' = a \<and> db' = db
     else fa_state a = ActClaimed \<and> a' = started_by E db a a \<and> flow_changes db db'
       \<and> action_of k db' = Some a' \<and> fd_runs db' = fd_runs db)"
proof -
  obtain a where a: "action_of k db = Some a"
    using assms(1) by (auto simp: mark_dispatch_started_def result_simps)
  have k: "fa_action_id a = k" using action_of_in [OF a] by simp
  show ?thesis
  proof (cases "fa_state a = ActStarted")
    case True
    then show ?thesis using assms(1) a
      by (auto simp: mark_dispatch_started_def result_simps split: if_splits)
  next
    case False
    have s: "settle_action E a (started_by E db a) ''action_dispatch_started'' (action_event k) db = Inr (a', db')"
      "fa_state a = ActClaimed" "column_text (fa_lease_owner a) = w"
      using assms(1) a False
      by (auto simp: mark_dispatch_started_def result_simps started_by_def [abs_def] split: if_splits)
    have "action_move a (started_by E db a a)"
      using s(2) by (simp add: action_move_def started_by_def action_pins_def)
    from settle_action_changes [OF s(1) assms(2) _ this] a k s False show ?thesis
      by (auto simp: started_by_def)
  qed
qed

lemma mark_dispatch_changes:
  "mark_dispatch_started E k w db = Inr (a', db') \<Longrightarrow> flow_ok db \<Longrightarrow> flow_changes db db'"
  by (frule (1) mark_dispatch_cases) (auto intro: steps_refl split: if_splits)

lemma finish_action_cases:
  assumes "finish_action E k w c res err ref db = Inr (a', db')" "flow_ok db"
  shows "\<exists>a. action_of k db = Some a \<and> fa_state a' = (if c then ActCompleted else ActFailed) \<and>
    (if fa_state a \<in> {ActCompleted, ActFailed} then a' = a \<and> db' = db
     else fa_state a \<in> {ActClaimed, ActStarted} \<and> column_text (fa_lease_owner a) = w \<and> flow_changes db db'
       \<and> action_of k db' = Some a' \<and> fd_runs db' = fd_runs db)"
proof -
  obtain a where a: "action_of k db = Some a"
    using assms(1) by (auto simp: finish_action_def result_simps Let_def)
  have k: "fa_action_id a = k" using action_of_in [OF a] by simp
  define f where "f = (\<lambda>r :: flow_action. r\<lparr>fa_state := (if c then ActCompleted else ActFailed),
      fa_result := res, fa_error_code := err,
      fa_child_state := Some (if c then ''succeeded'' else ''failed''),
      fa_child_ref := (case ref of None \<Rightarrow> fa_child_ref r | Some v \<Rightarrow> Some v),
      fa_lease_owner := None, fa_lease_expires_at := None, fa_updated_at := row_now E db\<rparr>)"
  show ?thesis
  proof (cases "fa_state a \<in> {ActCompleted, ActFailed}")
    case True
    then show ?thesis using assms(1) a
      by (auto simp: finish_action_def Let_def result_simps split: if_splits)
  next
    case False
    obtain ty v where s: "settle_action E a f ty v db = Inr (a', db')"
      "fa_state a \<in> {ActClaimed, ActStarted}" "column_text (fa_lease_owner a) = w"
      using assms(1) a False unfolding finish_action_def f_def
      by (auto simp: Let_def result_simps split: if_splits)
    have m: "action_move a (f a)"
      using s(2) by (auto simp: action_move_def f_def action_pins_def)
    have "fa_action_id (f r) = fa_action_id r" for r by (simp add: f_def)
    from settle_action_changes [OF s(1) assms(2) _ m this] a k s False show ?thesis
      by (auto simp: f_def)
  qed
qed

lemma finish_action_changes:
  "finish_action E k w c res err ref db = Inr (a', db') \<Longrightarrow> flow_ok db \<Longrightarrow> flow_changes db db'"
  by (frule (1) finish_action_cases) (auto intro: steps_refl split: if_splits)
section \<open>Recovery\<close>

definition lost_by :: "string \<Rightarrow> string \<Rightarrow> flow_action \<Rightarrow> flow_action" where
  "lost_by err now r = r\<lparr>fa_state := ActOutcomeUnknown, fa_child_state := Some ''outcome_unknown'',
     fa_error_code := Some err, fa_lease_owner := None, fa_lease_expires_at := None, fa_updated_at := now\<rparr>"

lemma send_to_recovery_changes:
  assumes "send_to_recovery E now k act db = Inr db'" "flow_ok db"
  shows "flow_changes db db' \<and> fd_actions db' = fd_actions db
    \<and> (\<forall>r. run_of k db = Some r \<and> \<not> run_is_terminal r \<longrightarrow> RunWaitingForRecovery \<in> set (run_transitions (fr_state r)))"
proof (cases "run_of k db")
  case None
  then show ?thesis using assms(1) by (auto simp: send_to_recovery_def intro: steps_refl)
next
  case (Some r)
  show ?thesis
  proof (cases "run_is_terminal r")
    case True
    then show ?thesis using assms(1) Some by (auto simp: send_to_recovery_def intro: steps_refl)
  next
    case False
    have e: "append_flow_event E k ''waiting_for_recovery'' (action_event act)
        (update_run k (move_run RunWaitingForRecovery now) db) = Inr db'"
      and v: "validate_run_transition (run_state_name (fr_state r)) ''waiting_for_recovery'' = Inr ()"
      using assms(1) Some False by (auto simp: send_to_recovery_def split: sum.splits)
    have s: "RunWaitingForRecovery \<in> set (run_transitions (fr_state r))"
      using v run_state_of_name [of RunWaitingForRecovery] by (auto dest: validated_run)
    have "flow_change db (update_run k (move_run RunWaitingForRecovery now) db)"
      using assms(2) Some run_targets_table [OF s] by (rule moved_run_change)
    then show ?thesis
      using then_event [OF _ e] Some s event_same [OF e] by (auto simp: update_run_def)
  qed
qed

lemma mark_unknown_cases:
  assumes "mark_action_outcome_unknown E k w err db = Inr (a', db')" "flow_ok db"
  shows "\<exists>a. action_of k db = Some a \<and>
    (if fa_state a \<in> {ActCompleted, ActFailed, ActOutcomeUnknown} then a' = a \<and> db' = db
     else fa_state a = ActStarted \<and> column_text (fa_lease_owner a) = w \<and> flow_changes db db'
       \<and> fa_state a' = ActOutcomeUnknown \<and> action_of k db' = Some a')"
proof -
  obtain a where a: "action_of k db = Some a"
    using assms(1) by (auto simp: mark_action_outcome_unknown_def result_simps)
  show ?thesis
  proof (cases "fa_state a \<in> {ActCompleted, ActFailed, ActOutcomeUnknown}")
    case True
    then show ?thesis using assms(1) a
      by (auto simp: mark_action_outcome_unknown_def result_simps)
  next
    case False
    let ?f = "lost_by err (row_now E db)"
    let ?db0 = "update_action k ?f db"
    obtain db1 db2 where s: "send_to_recovery E (row_now E db) (fa_run_id a) k ?db0 = Inr db1"
      "append_flow_event E (fa_run_id a) ''action_outcome_unknown''
         (JObj [(''action_id'', JStr k), (''error_code'', JStr err)]) db1 = Inr db2"
      "action_of k db2 = Some a'" "db' = db2" "fa_state a = ActStarted" "column_text (fa_lease_owner a) = w"
      using assms(1) a False
      by (auto simp: mark_action_outcome_unknown_def result_simps lost_by_def [abs_def] split: if_splits)
    have "action_move a (?f a)" using s(5) by (simp add: action_move_def lost_by_def action_pins_def)
    with assms(2) a have c0: "flow_change db ?db0"
      by (rule update_action_change) (simp add: lost_by_def)
    then have ok0: "flow_ok ?db0" using assms(2) by (rule change_flow_ok)
    note c1 = send_to_recovery_changes [OF s(1) ok0]
    have c2: "flow_changes db1 db2" using s(2) by (rule event_changes)
    have "flow_changes db db2"
      using changes_step [OF c0 conjunct1 [OF c1]] c2 steps_trans by metis
    moreover have "a' = ?f a"
      using s(3) event_lookups [OF s(2)] c1 action_of_update [OF a, of ?f]
      by (simp add: action_of_def lost_by_def)
    ultimately show ?thesis using a s False by (auto simp: lost_by_def)
  qed
qed

lemma mark_unknown_changes:
  "mark_action_outcome_unknown E k w err db = Inr (a', db') \<Longrightarrow> flow_ok db \<Longrightarrow> flow_changes db db'"
  by (frule (1) mark_unknown_cases) (auto intro: steps_refl split: if_splits)

lemma append_reclaimed_changes: "append_reclaimed E rows db = Inr db' \<Longrightarrow> flow_changes db db'"
proof (induction rows arbitrary: db)
  case Nil
  then show ?case by (simp add: steps_refl)
next
  case (Cons a rows)
  then show ?case by (auto simp: result_simps intro: changes_step event_change)
qed

lemma reclaim_changes:
  assumes "reclaim_expired_actions E db = Inr (n, db')"
  shows "flow_changes db db'"
proof -
  define f where "f = (\<lambda>r :: flow_action. r\<lparr>fa_state := ActPending, fa_lease_owner := None,
     fa_lease_expires_at := None, fa_updated_at := row_now E db\<rparr>)"
  define db1 where "db1 = db\<lparr>fd_actions := update_where (reclaimable E) f (fd_actions db)\<rparr>"
  have r: "append_reclaimed E (filter (reclaimable E) (fd_actions db)) db1 = Inr db'"
    using assms by (auto simp: reclaim_expired_actions_def Let_def result_simps db1_def f_def)
  have "action_move a (f a)" if "reclaimable E a" for a
    using that by (auto simp: action_move_def f_def action_pins_def reclaimable_def)
  then have "flow_change db db1" unfolding db1_def
    by (intro flow_change.change_actions row_change.row_move) (auto simp: set_update_where f_def)
  then show ?thesis using changes_step append_reclaimed_changes [OF r] by blast
qed

lemma stop_where_change:
  assumes "flow_ok db"
  shows "flow_change db (needs_attention_where k now db)"
  unfolding needs_attention_where_def
proof (rule flow_change.change_runs)
  show "row_change run_fresh fr_run_id run_move (fd_runs db)
      (update_where (\<lambda>r. fr_run_id r = k \<and> \<not> run_is_terminal r) (move_run RunNeedsAttention now) (fd_runs db))"
    by (intro row_change.row_move) (auto simp: run_move_def run_is_terminal_def dest: run_targets_stop)
  show "distinct (map run_request_key (fd_runs db)) \<Longrightarrow> distinct (map run_request_key
      (update_where (\<lambda>r. fr_run_id r = k \<and> \<not> run_is_terminal r) (move_run RunNeedsAttention now) (fd_runs db)))"
    by (simp add: map_update_where)
qed

lemma reconcile_changes:
  assumes "record_reconciled_outcome E k v db = Inr (a', db')" "flow_ok db"
  shows "flow_changes db db'"
proof -
  obtain a st where a: "action_of k db = Some a" and st: "outcome_state v = Inr st"
    using assms(1) by (auto simp: record_reconciled_outcome_def result_simps Let_def)
  show ?thesis
  proof (cases "fa_state a \<in> {ActStarted, ActOutcomeUnknown}")
    case False
    then have "db' = db" using assms(1) a
      by (auto simp: record_reconciled_outcome_def result_simps Let_def)
    then show ?thesis by (simp add: steps_refl)
  next
    case True
    define res where "res = (if jget v ''result'' = JNull then None else Some (jget v ''result''))"
    define f where "f = reconciled_by st res (reconciled_ref (jget v ''result'') a) (row_now E db)"
    define db2 where d2: "db2 = (if st \<in> set [''failed'', ''needs_attention'']
        then needs_attention_where (fa_run_id a) (row_now E db) (update_action k f db)
        else update_action k f db)"
    have e: "append_flow_event E (fa_run_id a) ''action_reconciled''
          (JObj [(''action_id'', JStr k), (''child_state'', JStr st)]) db2 = Inr db'"
      using assms(1) a st True
      unfolding record_reconciled_outcome_def Let_def d2 f_def res_def
      by (cases "jget v ''result'' = JNull"; cases "st \<in> set [''failed'', ''needs_attention'']")
        (auto simp: result_simps present_def simp del: set_simps)
    have "action_move a (f a)"
      using True by (auto simp: action_move_def f_def reconciled_by_def action_pins_def)
    with assms(2) a have c0: "flow_change db (update_action k f db)"
      by (rule update_action_change) (simp add: f_def reconciled_by_def)
    then have "flow_ok (update_action k f db)" using assms(2) by (rule change_flow_ok)
    then have "flow_changes (update_action k f db) db2"
      unfolding d2 by (auto intro: steps_single stop_where_change steps_refl)
    then show ?thesis
      using changes_step [OF c0] event_changes [OF e] steps_trans by metis
  qed
qed

section \<open>Input and stopping\<close>

lemma create_wait_changes:
  assumes "create_wait E i q db = Inr (w, db')"
  shows "flow_changes db db'"
proof (cases "latest fw_created_at (filter (\<lambda>r. fw_run_id r = fv_run_id q \<and> fw_step_id r = fv_step_id q
    \<and> fw_wait_kind r = fv_wait_kind q \<and> fw_resolved_at r = None) (fd_waits db))")
  case (Some x)
  then have "db' = db" using assms by (auto simp: create_wait_def result_simps split: if_splits)
  then show ?thesis by (simp add: steps_refl)
next
  case None
  have d: "wait_fresh w" "fw_wait_id w = i" "wait_of i db = None"
    "append_flow_event E (fv_run_id q) ''wait_created'' (JObj [(''wait_id'', JStr i),
       (''expected_state_version'', JInt (fv_expected_state_version q))])
       (db\<lparr>fd_waits := fd_waits db @ [w]\<rparr>) = Inr db'"
    using assms None
    by (auto simp: create_wait_def result_simps Let_def wait_fresh_def wait_open_def)
  have "fw_wait_id w \<notin> fw_wait_id ` set (fd_waits db)"
    using d(2,3) by (auto simp: wait_of_def select1_None)
  then have "flow_change db (db\<lparr>fd_waits := fd_waits db @ [w]\<rparr>)"
    using d(1) by (intro flow_change.change_waits wait_rows.append_fresh)
  then show ?thesis using then_event d(4) by blast
qed

lemma select1_sub:
  assumes "distinct (map key t)" "select1 (\<lambda>r. key r = k \<and> p r) t = Some r"
  shows "select1 (\<lambda>r. key r = k) t = Some r"
  using assms select1_Some [OF assms(2)] by (intro select1_key) auto

lemma resolve_wait_new:
  assumes "resolve_wait E u db = Inr ((w, False), db')" "flow_ok db"
  shows "flow_changes db db' \<and> wait_of (fu_wait_id u) db' = Some w
    \<and> fw_resolution w = Some (wait_resolution u)
    \<and> (\<exists>w0 run. wait_of (fu_wait_id u) db = Some w0 \<and> fw_run_id w0 = fu_run_id u \<and> wait_open w0
         \<and> owned_run (fu_owner_subject u) (fu_run_id u) db = Some run
         \<and> fr_state_version run = fu_expected_state_version u
         \<and> fw_expected_state_version w0 = fu_expected_state_version u
         \<and> fw_response_schema_digest w0 = fu_response_schema_digest u
         \<and> response_accepted (fw_response_schema w0) (fu_response u))"
proof -
  let ?target = "\<lambda>r. fw_wait_id r = fu_wait_id u \<and> fw_resolved_at r = None"
  define f where "f = (\<lambda>r :: flow_wait. r\<lparr>fw_resolved_at := Some (row_now E db),
      fw_resolution := Some (wait_resolution u)\<rparr>)"
  obtain run w0 where d0: "owned_run (fu_owner_subject u) (fu_run_id u) db = Some run"
    "select1 (\<lambda>r. fw_wait_id r = fu_wait_id u \<and> fw_run_id r = fu_run_id u) (fd_waits db) = Some w0"
    using assms(1) by (auto simp: resolve_wait_def result_simps)
  have n0: "fw_resolution w0 = None"
    using assms(1) d0
    by (cases "fw_resolution w0") (auto simp: resolve_wait_def result_simps split: if_splits)
  have d: "fr_state_version run = fu_expected_state_version u"
    "fw_expected_state_version w0 = fu_expected_state_version u"
    "fw_response_schema_digest w0 = fu_response_schema_digest u"
    "response_accepted (fw_response_schema w0) (fu_response u)"
    and e: "append_flow_event E (fu_run_id u) ''wait_resolved''
         (JObj [(''wait_id'', JStr (fu_wait_id u)), (''state_version'', JInt (fu_expected_state_version u))])
         (db\<lparr>fd_waits := update_where ?target f (fd_waits db)\<rparr>) = Inr db'"
    and w: "wait_of (fu_wait_id u) db' = Some w"
    using assms(1) d0 n0 unfolding resolve_wait_def f_def
    by (auto simp: result_simps Let_def)
  note d = d0 n0 d
  have ok: "wait_rows.table_ok (fd_waits db)" using assms(2) by (simp add: flow_okD)
  then have w0: "wait_of (fu_wait_id u) db = Some w0"
    unfolding wait_of_def wait_rows.table_ok_def
    using select1_sub [OF _ d(2)] by blast
  have in0: "w0 \<in> set (fd_waits db)" "fw_wait_id w0 = fu_wait_id u" "fw_run_id w0 = fu_run_id u"
    using select1_Some [OF d(2)] by auto
  have open0: "wait_open w0" using ok in0(1) d(3) by (auto simp: wait_rows.table_ok_def)
  have mv: "wait_move w0 (f w0)" using open0 by (simp add: wait_move_def f_def wait_pins_def)
  have "row_change wait_fresh fw_wait_id wait_move (fd_waits db) (update_where ?target f (fd_waits db))"
    using ok in0(1) mv by (rule wait_rows.update_key) (simp add: in0(2))
  then have ch: "flow_change db (db\<lparr>fd_waits := update_where ?target f (fd_waits db)\<rparr>)"
    by (rule flow_change.change_waits)
  have "wait_of (fu_wait_id u) (db\<lparr>fd_waits := update_where ?target f (fd_waits db)\<rparr>) = Some w"
    using w event_lookups [OF e] by simp
  moreover have "select1 (\<lambda>r. fw_wait_id r = fu_wait_id u) (update_where ?target f rows)
      = map_option (\<lambda>r. if fw_resolved_at r = None then f r else r)
          (select1 (\<lambda>r. fw_wait_id r = fu_wait_id u) rows)" for rows
    by (induction rows) (auto simp: f_def)
  ultimately have "w = f w0" using w0 open0 by (simp add: wait_of_def wait_open_def)
  then show ?thesis using then_event [OF ch e] w w0 d in0 open0 by (auto simp: f_def)
qed

lemma resolve_wait_old:
  assumes "resolve_wait E u db = Inr ((w, True), db')"
  shows "db' = db \<and> (\<exists>v. fw_resolution w = Some v
      \<and> py_eq (jget v ''idempotency_key'') (JStr (fu_idempotency_key u))
      \<and> py_eq (jget v ''response'') (fu_response u))"
  using assms by (auto simp: resolve_wait_def result_simps Let_def split: option.splits if_splits)

lemma resolve_wait_changes:
  "resolve_wait E u db = Inr ((w, b), db') \<Longrightarrow> flow_ok db \<Longrightarrow> flow_changes db db'"
  using resolve_wait_new [of E u db w db'] resolve_wait_old [of E u db w db']
  by (cases b) (auto intro: steps_refl)

lemma cancel_unstarted_change: "flow_change db (cancel_unstarted k now db)"
  unfolding cancel_unstarted_def
  by (intro flow_change.change_actions row_change.row_move)
    (auto simp: action_move_def action_pins_def set_update_where)

text \<open>No action of the run waits for a worker or is about to be dispatched.\<close>

definition run_quiet :: "string \<Rightarrow> flow_db \<Rightarrow> bool" where
  "run_quiet k db \<longleftrightarrow> (\<forall>a \<in> set (fd_actions db). fa_run_id a = k \<longrightarrow> fa_state a \<notin> {ActPending, ActClaimed})"

lemma cancel_unstarted_quiet: "run_quiet k (cancel_unstarted k now db)"
  by (simp add: run_quiet_def cancel_unstarted_def set_update_where ball_Un)

lemma cancel_run_cases:
  assumes "cancel_run E owner k st ver db = Inr (r', db')" "flow_ok db"
  shows "flow_changes db db' \<and> run_of k db' = Some r' \<and> run_quiet k db'
    \<and> (\<exists>r. owned_run owner k db = Some r \<and> \<not> run_is_terminal r \<and> run_state_name (fr_state r) = st
         \<and> fr_state_version r = ver \<and> run_pins r' = run_pins r \<and> fr_state_version r' = ver + 1
         \<and> fr_state r' = (if write_in_flight k db then RunWaitingForRecovery else RunCancelled)
         \<and> (write_in_flight k db \<or> RunCancelled \<in> set (run_transitions (fr_state r))))"
proof -
  define t where "t = (if write_in_flight k db then RunWaitingForRecovery else RunCancelled)"
  let ?db1 = "update_run k (move_run t (row_now E db)) db"
  obtain r where r: "owned_run owner k db = Some r" "run_state_name (fr_state r) = st"
    "fr_state_version r = ver" "\<not> run_is_terminal r"
    and v: "t = RunCancelled \<Longrightarrow> validate_run_transition st (run_state_name t) = Inr ()"
    and e: "append_flow_event E k ''cancel_requested'' (JObj [(''result'', JStr (run_state_name t))])
       (cancel_unstarted k (row_now E db) ?db1) = Inr db'"
    and r': "run_of k db' = Some r'"
    using assms(1) unfolding cancel_run_def Let_def t_def [symmetric]
    by (cases "t = RunCancelled") (auto simp: result_simps split: sum.splits)
  note ro = owned_run_of [OF assms(2) r(1)]
  have tt: "t = RunCancelled \<Longrightarrow> RunCancelled \<in> set (run_transitions (fr_state r))"
    using v r(2) run_state_of_name [of RunCancelled] by (auto dest: validated_run)
  then have t: "t \<in> set (run_targets (fr_state r))"
    using run_targets_stop [of "fr_state r"] r(4) run_targets_table
    by (cases "write_in_flight k db") (auto simp: t_def run_is_terminal_def)
  have "flow_change db ?db1" using assms(2) ro t by (rule moved_run_change)
  then have "flow_changes db db'"
    using changes_step then_event [OF cancel_unstarted_change e] by blast
  moreover have "run_quiet k db'"
    using cancel_unstarted_quiet [of k "row_now E db" ?db1] event_same [OF e] by (simp add: run_quiet_def)
  moreover have "r' = move_run t (row_now E db) r"
    using r' event_lookups [OF e] run_of_update [OF ro, of "move_run t (row_now E db)"]
    by (simp add: run_of_def cancel_unstarted_def move_run_def)
  ultimately show ?thesis using r r' tt by (cases "write_in_flight k db") (auto simp: t_def)
qed

lemma stop_run_cases:
  assumes "stop_run E owner k reason ty v db = Inr (r', db')" "flow_ok db"
  shows "flow_changes db db' \<and> (\<exists>r. owned_run owner k db = Some r \<and>
    (if run_is_terminal r then r' = r \<and> db' = db
     else run_of k db' = Some r' \<and> run_quiet k db' \<and> fr_state r' = RunNeedsAttention
       \<and> run_pins r' = run_pins r \<and> fr_state_version r' = fr_state_version r + 1))"
proof -
  obtain r where r: "owned_run owner k db = Some r"
    using assms(1) by (auto simp: stop_run_def result_simps)
  note ro = owned_run_of [OF assms(2) r]
  show ?thesis
  proof (cases "run_is_terminal r")
    case True
    then show ?thesis using assms(1) r by (auto simp: stop_run_def result_simps intro: steps_refl)
  next
    case False
    let ?now = "row_now E db" and ?db0 = "cancel_unstarted k (row_now E db) db"
    obtain n db1 where d: "resolve_open_waits E k reason ?now ?db0 = Inr (n, db1)"
      "append_flow_event E k ty (v r) (update_run k (move_run RunNeedsAttention ?now) db1) = Inr db'"
      "run_of k db' = Some r'"
      using assms(1) r False by (auto simp: stop_run_def result_simps split: prod.splits)
    note w = resolve_open_waits_changes [OF d(1)]
    have c1: "flow_changes db db1" using changes_step [OF cancel_unstarted_change] w by blast
    have ok1: "flow_ok db1" using flow.steps_inv [OF c1] assms(2) by blast
    have r1: "run_of k db1 = Some r" using ro w by (simp add: run_of_def cancel_unstarted_def)
    have "RunNeedsAttention \<in> set (run_targets (fr_state r))"
      using False run_targets_stop by (auto simp: run_is_terminal_def)
    with ok1 r1 have "flow_change db1 (update_run k (move_run RunNeedsAttention ?now) db1)"
      by (rule moved_run_change)
    then have "flow_changes db db'" using steps_trans [OF then_event [OF _ d(2)] c1] by blast
    moreover have "r' = move_run RunNeedsAttention ?now r"
      using d(3) event_lookups [OF d(2)] run_of_update [OF r1, of "move_run RunNeedsAttention ?now"]
      by (simp add: move_run_def)
    moreover have "run_quiet k db'"
      using cancel_unstarted_quiet [of k ?now db] w event_same [OF d(2)]
      by (simp add: run_quiet_def update_run_def)
    ultimately show ?thesis using r d(3) False by auto
  qed
qed

end
