(* ===== verification/WorkflowRunner.thy ===== *)
theory WorkflowRunner
  imports WorkflowEffects
begin

text \<open>
  \<open>workflows/runner.py\<close>: one turn of the outbox runner and its reconciliation after a restart.  Between
  two repository calls of a turn other tasks may change the store; \<open>rn_others i\<close> is what they do at the
  \<open>i\<close>-th such point.  The ports are functions that give an answer or the error code of an exception.  A
  turn returns the store, the calls of \<open>dispatch\<close> it made and what it returned or raised.
\<close>

section \<open>Ports\<close>

record flow_runner =
  rn_worker :: string
  rn_env :: "nat \<Rightarrow> flow_env"
  rn_others :: "nat \<Rightarrow> flow_db \<Rightarrow> flow_db"
  rn_scene_port :: bool
  rn_preflight :: "string \<Rightarrow> json \<Rightarrow> string option"
  rn_scene_preflight :: "string \<Rightarrow> json \<Rightarrow> string option"
  rn_dispatch :: "string \<Rightarrow> json \<Rightarrow> string \<Rightarrow> string + json"
  rn_reconcile :: "string \<Rightarrow> json \<Rightarrow> string \<Rightarrow> json option"

text \<open>\<open>getattr(error, "code", type(error).__name__)\<close>.\<close>

fun flow_error_code :: "flow_error \<Rightarrow> string" where
  "flow_error_code (FlowConflict code) = code"
| "flow_error_code (FlowTransition e) = ''InvalidWorkflowTransition''"
| "flow_error_code (FlowKeyError e) = ''ValueError''"
| "flow_error_code FlowIntegrity = ''IntegrityError''"
| "flow_error_code FlowTypeError = ''TypeError''"

section \<open>One turn\<close>

text \<open>What comes before the durable start: the retry rule, the preflights and the choice of the port.\<close>

definition prepare_dispatch :: "flow_runner \<Rightarrow> flow_action \<Rightarrow> string option" where
  "prepare_dispatch R a =
    (case validate_safe_retry (fa_retry_class a) (fa_child_state a) (fa_effect_class a) of
       Inl e \<Rightarrow> Some ''InvalidWorkflowTransition''
     | Inr _ \<Rightarrow>
         (case rn_preflight R (fa_action_kind a) (fa_payload a) of
            Some code \<Rightarrow> Some code
          | None \<Rightarrow>
              if fa_action_kind a \<notin> set SCENE_ACTIONS then None
              else if \<not> rn_scene_port R then Some ''ValueError''
              else rn_scene_preflight R (fa_action_kind a) (fa_payload a)))"

type_synonym turn = "flow_db \<times> flow_action list \<times> (flow_error + bool)"

text \<open>An exception before the durable start.\<close>

definition abandon :: "flow_runner \<Rightarrow> nat \<Rightarrow> flow_action \<Rightarrow> string \<Rightarrow> flow_db \<Rightarrow> turn" where
  "abandon R i a code db =
    (case fail_action (rn_env R i) (fa_action_id a) (rn_worker R) code (rn_others R i db) of
       Inl e \<Rightarrow> (rn_others R i db, [], Inl e)
     | Inr (_, db') \<Rightarrow> (db', [], Inr True))"

text \<open>An exception after it: a write is lost, a read has failed.\<close>

definition give_up :: "flow_runner \<Rightarrow> nat \<Rightarrow> flow_action \<Rightarrow> string \<Rightarrow> flow_db \<Rightarrow> turn" where
  "give_up R i a code db =
    (case (if fa_effect_class a = ''write''
           then mark_action_outcome_unknown (rn_env R i) (fa_action_id a) (rn_worker R) code (rn_others R i db)
           else fail_action (rn_env R i) (fa_action_id a) (rn_worker R) code (rn_others R i db)) of
       Inl e \<Rightarrow> (rn_others R i db, [a], Inl e)
     | Inr (_, db') \<Rightarrow> (db', [a], Inr True))"

text \<open>The evidence of the answer that is kept with the action.\<close>

definition answer_reference :: "flow_action \<Rightarrow> json \<Rightarrow> json" where
  "answer_reference a result =
    jput ''idempotency_key'' (JStr (fa_idempotency_key a)) (merge_evidence result (JObj []))"

definition finish_dispatch :: "flow_runner \<Rightarrow> flow_action \<Rightarrow> flow_db \<Rightarrow> turn" where
  "finish_dispatch R a db =
    (case rn_dispatch R (fa_action_kind a) (fa_payload a) (fa_idempotency_key a) of
       Inl code \<Rightarrow> give_up R 2 a code db
     | Inr result \<Rightarrow>
         if \<not> is_dict result then give_up R 2 a ''AttributeError'' db
         else
           let db1 = rn_others R 2 db in
           (case complete_action (rn_env R 2) (fa_action_id a) (rn_worker R) result
                   (Some (answer_reference a result)) db1 of
              Inl e \<Rightarrow> give_up R 3 a (flow_error_code e) db1
            | Inr (_, db') \<Rightarrow> (db', [a], Inr True)))"

definition run_once :: "flow_runner \<Rightarrow> int \<Rightarrow> flow_db \<Rightarrow> turn" where
  "run_once R lease_seconds db =
    (case claim_action (rn_env R 0) (rn_worker R) lease_seconds db of
       Inl e \<Rightarrow> (db, [], Inl e)
     | Inr (None, db1) \<Rightarrow> (db1, [], Inr False)
     | Inr (Some a, db1) \<Rightarrow>
         (case prepare_dispatch R a of
            Some code \<Rightarrow> abandon R 1 a code db1
          | None \<Rightarrow>
              let db2 = rn_others R 1 db1 in
              (case mark_dispatch_started (rn_env R 1) (fa_action_id a) (rn_worker R) db2 of
                 Inl e \<Rightarrow> abandon R 2 a (flow_error_code e) db2
               | Inr (a2, db3) \<Rightarrow> finish_dispatch R a2 db3)))"

section \<open>After a restart\<close>

text \<open>The port of an action; without a scene port the lookup of a scene action is skipped.\<close>

definition reconcile_action ::
  "flow_runner \<Rightarrow> nat \<Rightarrow> flow_action \<Rightarrow> flow_db \<Rightarrow> flow_error + flow_db" where
  "reconcile_action R i a db =
    (case fa_child_ref a of
       None \<Rightarrow> Inr db
     | Some child_ref \<Rightarrow>
         if fa_action_kind a \<in> set SCENE_ACTIONS \<and> \<not> rn_scene_port R then Inr db
         else (case rn_reconcile R (fa_action_kind a) child_ref (fa_idempotency_key a) of
             None \<Rightarrow> Inr db
           | Some outcome \<Rightarrow>
               bindE (record_reconciled_outcome (rn_env R i) (fa_action_id a) outcome (rn_others R i db))
                 (\<lambda>(_, db'). Inr db')))"

fun reconcile_actions ::
  "flow_runner \<Rightarrow> nat \<Rightarrow> flow_action list \<Rightarrow> flow_db \<Rightarrow> flow_db \<times> (flow_error + unit)" where
  "reconcile_actions R i [] db = (db, Inr ())"
| "reconcile_actions R i (a # as) db =
    (case reconcile_action R i a db of
       Inl e \<Rightarrow> (rn_others R i db, Inl e)
     | Inr db' \<Rightarrow> reconcile_actions R (Suc i) as db')"

definition reconcile_restart :: "flow_runner \<Rightarrow> flow_db \<Rightarrow> flow_db \<times> (flow_error + nat)" where
  "reconcile_restart R db =
    (case reclaim_expired_actions (rn_env R 0) db of
       Inl e \<Rightarrow> (db, Inl e)
     | Inr (n, db1) \<Rightarrow>
         (case reconcile_actions R 1 (list_actions_for_reconcile db1) db1 of
            (db2, Inl e) \<Rightarrow> (db2, Inl e)
          | (db2, Inr _) \<Rightarrow> (db2, Inr n)))"

end
