(* ===== verification/WorkflowProperties.thy ===== *)
theory WorkflowProperties
  imports WorkflowRunner
begin

text \<open>
  The step relation of the workflow store, the contracts of \<open>Systems\<close> interpreted on it, and the
  properties of runs, actions, waits, commands and the event log, and of the runner.
\<close>

section \<open>The step relation\<close>

text \<open>Any successful call of a writing operation, by any caller.\<close>

inductive flow_step :: "flow_db \<Rightarrow> flow_db \<Rightarrow> bool" where
  op_create: "create_run E q db = Inr (x, db') \<Longrightarrow> flow_step db db'"
| op_begin: "begin_control_command E c db = Inr (y, db') \<Longrightarrow> flow_step db db'"
| op_complete: "complete_control_command E owner key v db = Inr (z, db') \<Longrightarrow> flow_step db db'"
| op_close: "resolve_open_waits_system E owner k reason db = Inr (n, db') \<Longrightarrow> flow_step db db'"
| op_run: "transition_run E rx db = Inr (r, db') \<Longrightarrow> flow_step db db'"
| op_new_step: "create_step E owner k p db = Inr (s, db') \<Longrightarrow> flow_step db db'"
| op_step: "transition_step E sy db = Inr (t, db') \<Longrightarrow> flow_step db db'"
| op_insert: "insert_action E aq db = Inr (u, db') \<Longrightarrow> flow_step db db'"
| op_claim: "claim_action E w i db = Inr (ao, db') \<Longrightarrow> flow_step db db'"
| op_start: "mark_dispatch_started E k w db = Inr (a, db') \<Longrightarrow> flow_step db db'"
| op_finish: "finish_action E k w ok res err ref db = Inr (a, db') \<Longrightarrow> flow_step db db'"
| op_unknown: "mark_action_outcome_unknown E k w er db = Inr (a, db') \<Longrightarrow> flow_step db db'"
| op_reclaim: "reclaim_expired_actions E db = Inr (n, db') \<Longrightarrow> flow_step db db'"
| op_reconcile: "record_reconciled_outcome E k v db = Inr (a, db') \<Longrightarrow> flow_step db db'"
| op_wait: "create_wait E i' wq db = Inr (wt, db') \<Longrightarrow> flow_step db db'"
| op_resolve: "resolve_wait E wr db = Inr (wb, db') \<Longrightarrow> flow_step db db'"
| op_cancel: "cancel_run E owner k st ver db = Inr (r, db') \<Longrightarrow> flow_step db db'"
| op_stop: "stop_run E owner k reason ty pay db = Inr (r, db') \<Longrightarrow> flow_step db db'"

lemma begin_control_changes:
  "begin_control_command E q db = Inr ((c, b), db') \<Longrightarrow> flow_ok db \<Longrightarrow> flow_changes db db'"
  using begin_control_new [of E q db c db'] begin_control_old [of E q db c db']
  by (cases b) (auto intro: steps_refl)

lemma insert_action_changes:
  "insert_action E q db = Inr ((a, b), db') \<Longrightarrow> flow_changes db db'"
  using insert_action_new [of E q db a db'] insert_action_old [of E q db a db']
  by (cases b) (auto intro: steps_refl)

lemma flow_step_changes:
  assumes "flow_step db db'" "flow_ok db"
  shows "flow_changes db db'"
  using assms(1)
proof cases
  case (op_create E q x)
  then show ?thesis using assms(2) create_run_changes by (cases x) blast
next
  case (op_begin E c y)
  then show ?thesis using assms(2) begin_control_changes by (cases y) blast
next
  case (op_complete E owner key v z)
  then show ?thesis using assms(2) complete_control_changes by blast
next
  case (op_close E owner k reason n)
  then show ?thesis using resolve_open_waits_changes
    by (auto simp: resolve_open_waits_system_def result_simps)
next
  case (op_run E rx r)
  then show ?thesis using assms(2) transition_run_changes by blast
next
  case (op_new_step E owner k p s)
  then show ?thesis using create_step_changes by (cases s) blast
next
  case (op_step E sy t)
  then show ?thesis using assms(2) transition_step_changes by blast
next
  case (op_insert E aq u)
  then show ?thesis using insert_action_changes by (cases u) blast
next
  case (op_claim E w i ao)
  then show ?thesis using assms(2) claim_action_changes by blast
next
  case (op_start E k w a)
  then show ?thesis using assms(2) mark_dispatch_changes by blast
next
  case (op_finish E k w ok res err ref a)
  then show ?thesis using assms(2) finish_action_changes by blast
next
  case (op_unknown E k w er a)
  then show ?thesis using assms(2) mark_unknown_changes by blast
next
  case (op_reclaim E n)
  then show ?thesis using reclaim_changes by blast
next
  case (op_reconcile E k v a)
  then show ?thesis using assms(2) reconcile_changes by blast
next
  case (op_wait E i wq wt)
  then show ?thesis using create_wait_changes by blast
next
  case (op_resolve E wr wb)
  then show ?thesis using assms(2) resolve_wait_changes by (cases wb) blast
next
  case (op_cancel E owner k st ver r)
  then show ?thesis using assms(2) cancel_run_cases by blast
next
  case (op_stop E owner k reason ty pay r)
  then show ?thesis using assms(2) stop_run_cases by blast
qed

section \<open>Contracts\<close>

text \<open>What a finer relation keeps, every chain of its steps keeps.\<close>

context durable_system begin

lemma coarse_durable:
  assumes "\<And>s t. step' s t \<Longrightarrow> inv s \<Longrightarrow> steps step s t"
  shows "durable_system step' inv row final core"
proof unfold_locales
  show "step' s t \<Longrightarrow> inv s \<Longrightarrow> inv t" for s t using assms steps_inv by blast
  show "step' s t \<Longrightarrow> inv s \<Longrightarrow> row s k = Some r \<Longrightarrow> final r \<Longrightarrow>
      \<exists>r'. row t k = Some r' \<and> final r' \<and> core r' = core r" for s t k r
    using assms steps_final by blast
qed

end

lemma final_targets: "fr_state r \<in> set TERMINAL_RUN_STATES \<Longrightarrow> run_targets (fr_state r) = []"
  by (simp add: run_targets_def)

interpretation fine_finished_runs: durable_system flow_change flow_ok "\<lambda>db k. run_of k db"
    run_is_terminal "\<lambda>r. r"
  by unfold_locales (fastforce dest: change_run simp: run_move_def run_is_terminal_def final_targets)

interpretation finished_runs: durable_system flow_step flow_ok "\<lambda>db k. run_of k db"
    run_is_terminal "\<lambda>r. r"
  by (rule fine_finished_runs.coarse_durable) (rule flow_step_changes)

interpretation fine_pinned_runs: durable_system flow_change flow_ok "\<lambda>db k. run_of k db"
    "\<lambda>r. True" run_pins
  by unfold_locales (auto dest!: change_run simp: run_move_def)

interpretation pinned_runs: durable_system flow_step flow_ok "\<lambda>db k. run_of k db" "\<lambda>r. True" run_pins
  by (rule fine_pinned_runs.coarse_durable) (rule flow_step_changes)

definition action_settled :: "flow_action \<Rightarrow> bool" where
  "action_settled a \<longleftrightarrow> fa_state a \<in> {ActCompleted, ActFailed, ActCancelled}"

interpretation fine_settled_actions: durable_system flow_change flow_ok "\<lambda>db k. action_of k db"
    action_settled "\<lambda>a. a"
  by unfold_locales (fastforce dest: change_action simp: action_move_def action_settled_def)

interpretation settled_actions: durable_system flow_step flow_ok "\<lambda>db k. action_of k db"
    action_settled "\<lambda>a. a"
  by (rule fine_settled_actions.coarse_durable) (rule flow_step_changes)

text \<open>A write an Agent may have seen.\<close>

definition write_started :: "flow_action \<Rightarrow> bool" where
  "write_started a \<longleftrightarrow> fa_effect_class a = ''write'' \<and> fa_state a \<notin> {ActPending, ActClaimed, ActCancelled}"

lemma write_started_move:
  "action_move a a' \<Longrightarrow> write_started a \<Longrightarrow> write_started a' \<and> fa_state a' \<noteq> ActStarted
     \<and> (action_pins a', fa_dispatch_started_at a') = (action_pins a, fa_dispatch_started_at a)"
  by (cases "fa_state a") (auto simp: action_move_def write_started_def dest: action_pins_fields)

interpretation fine_started_writes: durable_system flow_change flow_ok "\<lambda>db k. action_of k db"
    write_started "\<lambda>a. (action_pins a, fa_dispatch_started_at a)"
  by unfold_locales (metis change_action write_started_move)

interpretation started_writes: durable_system flow_step flow_ok "\<lambda>db k. action_of k db"
    write_started "\<lambda>a. (action_pins a, fa_dispatch_started_at a)"
  by (rule fine_started_writes.coarse_durable) (rule flow_step_changes)

interpretation fine_resolved_waits: durable_system flow_change flow_ok "\<lambda>db k. wait_of k db"
    "\<lambda>w. \<not> wait_open w" "\<lambda>w. w"
  by unfold_locales (fastforce dest: change_wait simp: wait_move_def)

interpretation resolved_waits: durable_system flow_step flow_ok "\<lambda>db k. wait_of k db"
    "\<lambda>w. \<not> wait_open w" "\<lambda>w. w"
  by (rule fine_resolved_waits.coarse_durable) (rule flow_step_changes)

interpretation fine_done_commands: durable_system flow_change flow_ok
    "\<lambda>db (owner, key). command_of owner key db" fc_completed "\<lambda>c. c"
  by unfold_locales (fastforce dest: change_command simp: command_move_def split: prod.splits)

interpretation done_commands: durable_system flow_step flow_ok
    "\<lambda>db (owner, key). command_of owner key db" fc_completed "\<lambda>c. c"
  by (rule fine_done_commands.coarse_durable) (rule flow_step_changes)

definition event_at :: "flow_db \<Rightarrow> nat \<Rightarrow> flow_event option" where
  "event_at db i = (if i < length (fd_events db) then Some (fd_events db ! i) else None)"

interpretation fine_logged_events: durable_system flow_change flow_ok event_at "\<lambda>e. True" "\<lambda>e. e"
  by unfold_locales (auto simp: event_at_def dest!: change_event split: if_splits)

interpretation logged_events: durable_system flow_step flow_ok event_at "\<lambda>e. True" "\<lambda>e. e"
  by (rule fine_logged_events.coarse_durable) (rule flow_step_changes)

section \<open>Histories\<close>

abbreviation flow_run_to :: "flow_db \<Rightarrow> flow_db \<Rightarrow> bool" where
  "flow_run_to \<equiv> steps flow_step"

lemma flow_steps_changes: "flow_run_to db db' \<Longrightarrow> flow_ok db \<Longrightarrow> flow_changes db db'"
proof (induction rule: steps.induct)
  case (steps_snoc s t u)
  then have "flow_ok t" using flow.steps_inv by blast
  with steps_snoc show ?case using flow_step_changes steps_trans by metis
qed (simp add: steps_refl)

lemma flow_run_ok: "flow_run_to db db' \<Longrightarrow> flow_ok db \<Longrightarrow> flow_ok db'"
  using flow_steps_changes flow.steps_inv by blast

lemma changes_run:
  "flow_changes db db' \<Longrightarrow> run_of k db = Some r \<Longrightarrow>
   \<exists>r'. run_of k db' = Some r' \<and> run_pins r' = run_pins r \<and>
     (r' = r \<or> fr_state_version r < fr_state_version r' \<and> \<not> run_is_terminal r)"
proof (induction rule: steps.induct)
  case (steps_snoc s t u)
  then obtain r1 where r1: "run_of k t = Some r1" "run_pins r1 = run_pins r"
    "r1 = r \<or> fr_state_version r < fr_state_version r1 \<and> \<not> run_is_terminal r" by blast
  from change_run [OF steps_snoc(2) r1(1)] obtain r2 where r2: "run_of k u = Some r2"
    "r2 = r1 \<or> run_move r1 r2" by blast
  have "run_move r1 r2 \<Longrightarrow> run_pins r2 = run_pins r1 \<and> fr_state_version r2 = fr_state_version r1 + 1
      \<and> \<not> run_is_terminal r1"
    by (auto simp: run_move_def run_is_terminal_def final_targets)
  then show ?case using r1 r2 by auto
qed auto

lemma run_history:
  assumes "flow_ok db" "run_of k db = Some r" "flow_run_to db db'"
  shows "\<exists>r'. run_of k db' = Some r' \<and> run_pins r' = run_pins r
    \<and> fr_state_version r \<le> fr_state_version r'
    \<and> (fr_state_version r' = fr_state_version r \<longrightarrow> r' = r)
    \<and> (run_is_terminal r \<longrightarrow> r' = r)"
  using changes_run [OF flow_steps_changes [OF assms(3,1)] assms(2)] by auto

text \<open>C18. A version names a state of a run: over any run of the store a run keeps what it was created
  with, its version never goes back, the same version means the same row, and a finished run is never
  changed again.  This is what the compare-and-set of every transition rests on.\<close>

theorem run_version_names_state:
  assumes "flow_ok db" "run_of k db = Some r" "flow_run_to db db'"
  shows "\<exists>r'. run_of k db' = Some r' \<and> run_pins r' = run_pins r
    \<and> fr_state_version r \<le> fr_state_version r'
    \<and> (fr_state_version r' = fr_state_version r \<longrightarrow> r' = r)
    \<and> (run_is_terminal r \<longrightarrow> r' = r)"
  by (rule run_history [OF assms])

section \<open>The outbox\<close>

lemma changes_started_write:
  "flow_changes db db' \<Longrightarrow> action_of k db = Some a \<Longrightarrow> fa_state a = ActStarted \<Longrightarrow>
   fa_effect_class a = ''write'' \<Longrightarrow>
   \<exists>b. action_of k db' = Some b \<and> (b = a \<or> write_started b \<and> fa_state b \<noteq> ActStarted)"
proof (induction rule: steps.induct)
  case (steps_snoc s t u)
  then obtain b where b: "action_of k t = Some b" "b = a \<or> write_started b \<and> fa_state b \<noteq> ActStarted"
    by blast
  then have "write_started b" using steps_snoc.prems by (auto simp: write_started_def)
  with change_action [OF steps_snoc(2) b(1)] b(2) write_started_move show ?case by blast
qed auto

lemma started_row:
  assumes "flow_ok db" "mark_dispatch_started E k w db = Inr (a, db1)"
  shows "action_of k db1 = Some a" "fa_state a = ActStarted" "column_text (fa_lease_owner a) = w"
proof -
  from mark_dispatch_cases [OF assms(2,1)] obtain b where b: "action_of k db = Some b"
    "column_text (fa_lease_owner b) = w"
    "if fa_state b = ActStarted then a = b \<and> db1 = db
     else fa_state b = ActClaimed \<and> a = started_by E db b b \<and> flow_changes db db1
       \<and> action_of k db1 = Some a \<and> fd_runs db1 = fd_runs db" by blast
  show "action_of k db1 = Some a" "fa_state a = ActStarted" "column_text (fa_lease_owner a) = w"
    using b by (cases "fa_state b = ActStarted"; simp add: started_by_def)+
qed

lemma started_write_settled:
  assumes "flow_ok db" "mark_dispatch_started E k w db = Inr (a, db1)" "fa_effect_class a = ''write''"
    and "flow_run_to db1 db2"
  shows "(\<forall>E' w' n c db3. claim_action E' w' n db2 = Inr (Some c, db3) \<longrightarrow> fa_action_id c \<noteq> k)
    \<and> (\<forall>E' w' b db3. mark_dispatch_started E' k w' db2 = Inr (b, db3) \<longrightarrow> w' = w \<and> b = a \<and> db3 = db2)"
proof -
  note a1 = started_row [OF assms(1,2)]
  have ok1: "flow_ok db1" using flow.steps_inv [OF mark_dispatch_changes [OF assms(2,1)] assms(1)] .
  from changes_started_write [OF flow_steps_changes [OF assms(4) ok1] a1(1,2) assms(3)]
  obtain b where b: "action_of k db2 = Some b" "b = a \<or> write_started b \<and> fa_state b \<noteq> ActStarted" by blast
  have ok2: "flow_ok db2" using flow_run_ok [OF assms(4) ok1] .
  have ws: "write_started b" using b(2) a1(2) assms(3) by (auto simp: write_started_def)
  show ?thesis
  proof (intro conjI allI impI)
    fix E' w' n c db3 assume "claim_action E' w' n db2 = Inr (Some c, db3)"
    from claim_action_cases [OF this ok2] obtain d where d: "next_action E' db2 = Some d"
      "c = claimed_by E' w' n db2 d" "action_of (fa_action_id d) db2 = Some d" by blast
    have "claimable E' d" using next_action_Some [OF d(1)] by simp
    then have "d \<noteq> b" using ws by (auto simp: claimable_def write_started_def)
    then show "fa_action_id c \<noteq> k" using b(1) d(2,3) by (auto simp: claimed_by_def)
  next
    fix E' w' c db3 assume m: "mark_dispatch_started E' k w' db2 = Inr (c, db3)"
    then show "w' = w" "c = a" "db3 = db2"
      using mark_dispatch_cases [OF m ok2] b ws a1(3) by (auto simp: write_started_def split: if_splits)
  qed
qed

text \<open>C13. A write is dispatched once: after a worker has recorded the start of a write, no claim returns
  that action again, and a further start of it only succeeds for the same worker, as a replay that
  changes nothing.\<close>

theorem write_starts_once:
  assumes "flow_ok db" "mark_dispatch_started E k w db = Inr (a, db1)" "fa_effect_class a = ''write''"
    and "flow_run_to db1 db2"
  shows "(\<forall>E' w' n c db3. claim_action E' w' n db2 = Inr (Some c, db3) \<longrightarrow> fa_action_id c \<noteq> k)
    \<and> (\<forall>E' w' b db3. mark_dispatch_started E' k w' db2 = Inr (b, db3) \<longrightarrow> w' = w \<and> b = a \<and> db3 = db2)"
  by (rule started_write_settled [OF assms])

text \<open>The start of a dispatch is answered again for the same worker, whatever the clock says: two turns
  with one worker id can both go on to dispatch the same write.\<close>

theorem start_replayed_for_worker:
  assumes "flow_ok db" "mark_dispatch_started E k w db = Inr (a, db1)"
  shows "mark_dispatch_started E' k w db1 = Inr (a, db1)"
proof -
  show ?thesis using started_row [OF assms] by (simp add: mark_dispatch_started_def present_def)
qed

lemma sort_key_hd:
  assumes "sort_key f xs = x # ys"
  shows "\<forall>y \<in> set xs. f x \<le> f y"
proof -
  have "sorted (map f (x # ys))" using sorted_sort_key [of f xs] assms by simp
  moreover have "set xs = set (x # ys)" using assms by (metis set_sort)
  ultimately show ?thesis by auto
qed

lemma ordered_by_hd:
  assumes "ordered_by stamp key rows = x # ys" "y \<in> set rows"
  shows "stamp x < stamp y \<or> stamp x = stamp y \<and> key x \<le> key y"
proof -
  have le: "stamp x \<le> stamp y"
    using sort_key_hd [OF assms(1) [unfolded ordered_by_def]] assms(2) by simp
  show ?thesis
  proof (cases "stamp x = stamp y")
    case True
    let ?z = "filter (\<lambda>r. stamp r = stamp x)"
    have "?z (sort_key key rows) = ?z (x # ys)"
      using sort_key_stable [of stamp "stamp x" "sort_key key rows"] assms(1)
      by (simp add: ordered_by_def)
    moreover have "sort_key key (?z rows) = ?z (sort_key key rows)"
      by (simp add: filter_sort)
    ultimately have "sort_key key (?z rows) = x # ?z ys" by simp
    from sort_key_hd [OF this] assms(2) True show ?thesis by simp
  qed (use le in simp)
qed

text \<open>C21. A claim takes the oldest action that is due: its run is running, it is pending or its lease has
  run out, a started write is never taken, and no other due action of a running run is older.  The
  worker gets the lease for the requested time.\<close>

theorem claim_takes_oldest_due:
  assumes "flow_ok db" "claim_action E w n db = Inr (Some a', db')"
  shows "\<exists>a. action_of (fa_action_id a') db = Some a \<and> a' = claimed_by E w n db a
    \<and> action_of (fa_action_id a') db' = Some a'
    \<and> run_running (fa_run_id a) db
    \<and> (fa_state a = ActPending \<or> lease_expired E a
         \<and> (fa_state a = ActClaimed \<or> fa_state a = ActStarted \<and> fa_effect_class a = ''read''))
    \<and> (\<forall>b \<in> set (fd_actions db). run_running (fa_run_id b) db \<and> claimable E b \<longrightarrow>
         fa_created_at a < fa_created_at b
         \<or> fa_created_at a = fa_created_at b \<and> fa_action_id a \<le> fa_action_id b)"
proof -
  from claim_action_cases [OF assms(2,1)] obtain a where a: "next_action E db = Some a"
    "a' = claimed_by E w n db a" "action_of (fa_action_id a) db = Some a"
    "action_of (fa_action_id a) db' = Some a'" by blast
  let ?c = "filter (\<lambda>a. run_running (fa_run_id a) db \<and> claimable E a) (fd_actions db)"
  obtain as where o: "ordered_by fa_created_at fa_action_id ?c = a # as"
    using a(1) by (auto simp: next_action_def split: list.splits)
  have id: "fa_action_id a' = fa_action_id a" by (simp add: a(2) claimed_by_def)
  show ?thesis
  proof (intro exI [of _ a] conjI ballI impI)
    show "fa_state a = ActPending \<or> lease_expired E a
        \<and> (fa_state a = ActClaimed \<or> fa_state a = ActStarted \<and> fa_effect_class a = ''read'')"
      using next_action_Some [OF a(1)] by (auto simp: claimable_def)
    fix b assume "b \<in> set (fd_actions db)" "run_running (fa_run_id b) db \<and> claimable E b"
    then show "fa_created_at a < fa_created_at b
         \<or> fa_created_at a = fa_created_at b \<and> fa_action_id a \<le> fa_action_id b"
      using ordered_by_hd [OF o] by simp
  qed (use a id next_action_Some [OF a(1)] in auto)
qed

text \<open>After a stop nothing more is dispatched.\<close>

definition run_stopped :: "string \<Rightarrow> flow_db \<Rightarrow> bool" where
  "run_stopped k db \<longleftrightarrow> (\<exists>r. run_of k db = Some r \<and> run_is_terminal r)
     \<and> (\<forall>a \<in> set (fd_actions db). fa_run_id a = k \<longrightarrow> fa_state a \<noteq> ActClaimed)"

lemma terminal_not_running: "run_of k db = Some r \<Longrightarrow> run_is_terminal r \<Longrightarrow> \<not> run_running k db"
  by (auto simp: run_running_def run_is_terminal_def TERMINAL_RUN_STATES_def)

lemma stopped_change:
  assumes "flow_change db db'" "run_stopped k db"
  shows "run_stopped k db'"
proof -
  obtain r where r: "run_of k db = Some r" "run_is_terminal r"
    and q: "\<And>a. a \<in> set (fd_actions db) \<Longrightarrow> fa_run_id a = k \<Longrightarrow> fa_state a \<noteq> ActClaimed"
    using assms(2) by (auto simp: run_stopped_def)
  have "run_of k db' = Some r"
    using change_run [OF assms(1) r(1)] r(2) by (auto simp: run_move_def run_is_terminal_def final_targets)
  moreover have "fa_state a \<noteq> ActClaimed" if "a \<in> set (fd_actions db')" "fa_run_id a = k" for a
    using assms(1)
  proof cases
    case (change_actions as)
    then show ?thesis using that q terminal_not_running [OF r] by auto
  qed (use that q in auto)
  ultimately show ?thesis using r(2) by (auto simp: run_stopped_def)
qed

interpretation stopped: invariant_system flow_change "run_stopped k" for k
  by unfold_locales (rule stopped_change)

lemma stopped_quiet:
  assumes "flow_ok db" "run_stopped k db"
  shows "claim_action E w n db = Inr (Some c, db') \<Longrightarrow> fa_run_id c \<noteq> k"
    and "mark_dispatch_started E i w db = Inr (a, db'') \<Longrightarrow> fa_run_id a = k \<Longrightarrow> db'' = db"
proof -
  assume c: "claim_action E w n db = Inr (Some c, db')"
  from claim_action_cases [OF c assms(1)] obtain d where "next_action E db = Some d"
    "c = claimed_by E w n db d" by blast
  then show "fa_run_id c \<noteq> k"
    using next_action_Some [of E db d] terminal_not_running assms(2)
    by (auto simp: claimed_by_def run_stopped_def)
next
  assume m: "mark_dispatch_started E i w db = Inr (a, db'')" and k: "fa_run_id a = k"
  from mark_dispatch_cases [OF m assms(1)] obtain b where b: "action_of i db = Some b"
    "if fa_state b = ActStarted then a = b \<and> db'' = db
     else fa_state b = ActClaimed \<and> a = started_by E db b b" by (auto split: if_splits)
  have "fa_state b = ActClaimed \<Longrightarrow> a = started_by E db b b \<Longrightarrow> False"
    using k assms(2) action_of_in [OF b(1)] by (auto simp: started_by_def run_stopped_def)
  then show "db'' = db" using b(2) by (auto split: if_splits)
qed

text \<open>C15. A stopped run stays quiet: once a run is cancelled with no write in flight, revoked or sent to
  attention, then whatever else happens no worker ever claims an action of it and no dispatch of it is
  started.\<close>

theorem stopped_run_stays_quiet:
  assumes "flow_ok db"
    and "cancel_run E owner k st ver db = Inr (r, db1) \<and> fr_state r = RunCancelled
      \<or> security_revoke_run E owner k db = Inr (r, db1) \<and> \<not> (\<exists>r0. run_of k db = Some r0 \<and> run_is_terminal r0)
      \<or> mark_run_needs_attention E owner k reason db = Inr (r, db1)
        \<and> \<not> (\<exists>r0. run_of k db = Some r0 \<and> run_is_terminal r0)"
    and "flow_run_to db1 db2"
  shows "(\<forall>E' w n c db3. claim_action E' w n db2 = Inr (Some c, db3) \<longrightarrow> fa_run_id c \<noteq> k)
    \<and> (\<forall>E' i w a db3. mark_dispatch_started E' i w db2 = Inr (a, db3) \<and> fa_run_id a = k \<longrightarrow> db3 = db2)"
proof -
  have s: "flow_changes db db1 \<and> run_of k db1 = Some r \<and> run_quiet k db1 \<and> run_is_terminal r"
    using assms(2)
  proof (elim disjE conjE)
    assume "cancel_run E owner k st ver db = Inr (r, db1)" "fr_state r = RunCancelled"
    then show ?thesis using cancel_run_cases [of E owner k st ver db r db1] assms(1)
      by (auto simp: run_is_terminal_def TERMINAL_RUN_STATES_def)
  next
    assume m: "security_revoke_run E owner k db = Inr (r, db1)"
      and t: "\<not> (\<exists>r0. run_of k db = Some r0 \<and> run_is_terminal r0)"
    from stop_run_cases [OF m [unfolded security_revoke_run_def] assms(1)] t show ?thesis
      using owned_run_of [OF assms(1)]
      by (auto simp: run_is_terminal_def TERMINAL_RUN_STATES_def split: if_splits)
  next
    assume m: "mark_run_needs_attention E owner k reason db = Inr (r, db1)"
      and t: "\<not> (\<exists>r0. run_of k db = Some r0 \<and> run_is_terminal r0)"
    from stop_run_cases [OF m [unfolded mark_run_needs_attention_def] assms(1)] t show ?thesis
      using owned_run_of [OF assms(1)]
      by (auto simp: run_is_terminal_def TERMINAL_RUN_STATES_def split: if_splits)
  qed
  then have st: "run_stopped k db1" by (auto simp: run_stopped_def run_quiet_def)
  have ok1: "flow_ok db1" using s flow.steps_inv assms(1) by blast
  have "run_stopped k db2" using stopped.steps_inv [OF flow_steps_changes [OF assms(3) ok1] st] .
  then show ?thesis using stopped_quiet [OF flow_run_ok [OF assms(3) ok1]] by blast
qed
section \<open>Idempotency\<close>

text \<open>C19. A run is created once per idempotency key: after a creation, every later creation with the same
  owner and key that succeeds is a replay, answers with the same run, was made for the same request,
  and changes nothing.\<close>

theorem run_created_once:
  assumes "flow_ok db" "create_run E q db = Inr ((r, False), db1)" "flow_run_to db1 db2"
    and "create_run E' q' db2 = Inr ((r', b), db3)"
    and "fq_owner_subject q' = fq_owner_subject q" "fq_idempotency_key q' = fq_idempotency_key q"
  shows "b \<and> db3 = db2 \<and> run_pins r' = run_pins r
    \<and> flow_digest (ek_lib E') (run_request_json q') = flow_digest (ek_lib E) (run_request_json q)"
proof -
  from create_run_new [OF assms(2,1)] have n: "flow_changes db db1" "run_of (fq_run_id q) db1 = Some r"
    "run_request_key r = (fq_owner_subject q, fq_idempotency_key q)"
    "flow_digest (ek_lib E) (run_request_json q) = Inr (fr_request_hash r)" by blast+
  have ok1: "flow_ok db1" using flow.steps_inv [OF n(1) assms(1)] .
  note ok2 = flow_run_ok [OF assms(3) ok1]
  from run_history [OF ok1 n(2) assms(3)] obtain s where s: "run_of (fq_run_id q) db2 = Some s"
    "run_pins s = run_pins r" by blast
  have h: "fr_request_hash s = fr_request_hash r"
    using arg_cong [OF s(2), of fr_request_hash] by (simp add: run_pins_def)
  have key: "run_request_key s = (fq_owner_subject q', fq_idempotency_key q')"
    using run_pins_fields [OF s(2)] n(3) assms(5,6) by (simp add: run_request_key_def)
  have "select1 (\<lambda>x. run_request_key x = (fq_owner_subject q', fq_idempotency_key q')) (fd_runs db2) = Some s"
    using run_of_in [OF s(1)] key flow_okD(2) [OF ok2] by (intro select1_key) auto
  then have sel: "select1 (\<lambda>x. fr_owner_subject x = fq_owner_subject q'
      \<and> fr_idempotency_key x = fq_idempotency_key q') (fd_runs db2) = Some s"
    by (simp add: run_request_key_def)
  have b: "b" using assms(4) sel by (cases b) (auto simp: create_run_def result_simps)
  then show ?thesis using create_run_old [of E' q' db2 r' db3] assms(4) sel s(2) n(4) h by auto
qed

text \<open>C20. An answer is taken once: after a wait was resolved by a user, every later resolution of it that
  succeeds is the replay of the same key and response and changes nothing; every wait that is resolved
  stays as it is.\<close>

theorem wait_resolved_once:
  assumes "flow_ok db" "resolve_wait E u db = Inr ((w, False), db1)" "flow_run_to db1 db2"
  shows "wait_of (fu_wait_id u) db2 = Some w
    \<and> (\<forall>E' u' w' b db3. resolve_wait E' u' db2 = Inr ((w', b), db3) \<and> fu_wait_id u' = fu_wait_id u \<longrightarrow>
         b \<and> db3 = db2 \<and> fu_idempotency_key u' = fu_idempotency_key u
         \<and> py_eq (fu_response u) (fu_response u'))"
proof -
  from resolve_wait_new [OF assms(2,1)] have n: "flow_changes db db1" "wait_of (fu_wait_id u) db1 = Some w"
    "fw_resolution w = Some (wait_resolution u)" by blast+
  have ok1: "flow_ok db1" using flow.steps_inv [OF n(1) assms(1)] .
  have sound: "wait_open x \<longleftrightarrow> fw_resolution x = None" if "flow_ok d" "wait_of k d = Some x" for d k x
    using that select1_Some [of "\<lambda>r. fw_wait_id r = k" "fd_waits d" x]
    by (auto simp: flow_ok_def wait_rows.table_ok_def wait_of_def)
  have "\<not> wait_open w" using sound [OF ok1 n(2)] n(3) by simp
  from resolved_waits.steps_final [OF assms(3) ok1 n(2) this]
  have w2: "wait_of (fu_wait_id u) db2 = Some w" by auto
  have ok2: "flow_ok db2" using flow_run_ok [OF assms(3) ok1] .
  show ?thesis
  proof (intro conjI allI impI)
    fix E' u' w' b db3
    assume r: "resolve_wait E' u' db2 = Inr ((w', b), db3) \<and> fu_wait_id u' = fu_wait_id u"
    have b: "b"
    proof (rule ccontr)
      assume "\<not> b"
      then obtain w0 where "wait_of (fu_wait_id u) db2 = Some w0" "wait_open w0"
        using resolve_wait_new [of E' u' db2 w' db3] r ok2 by auto
      then show False using w2 \<open>\<not> wait_open w\<close> by simp
    qed
    have "select1 (\<lambda>x. fw_wait_id x = fu_wait_id u' \<and> fw_run_id x = fu_run_id u') (fd_waits db2) = Some w'"
      using r b by (auto simp: resolve_wait_def result_simps Let_def split: option.splits if_splits)
    then have "wait_of (fu_wait_id u') db2 = Some w'"
      unfolding wait_of_def using ok2 by (intro select1_sub) (auto simp: flow_ok_def wait_rows.table_ok_def)
    then have "w' = w" using w2 r by simp
    then show "b" "db3 = db2" "fu_idempotency_key u' = fu_idempotency_key u"
        "py_eq (fu_response u) (fu_response u')"
      using b resolve_wait_old [of E' u' db2 w' db3] r n(3)
      by (auto simp: wait_resolution_def jget_def jget_default_def jlookup_def)
  qed (rule w2)
qed

lemma begin_control_row:
  assumes "begin_control_command E q db = Inr ((c, False), db')"
  shows "command_of (fz_owner_subject q) (fz_idempotency_key q) db' = Some c"
proof -
  have none: "command_of (fz_owner_subject q) (fz_idempotency_key q) db = None"
    using assms
    by (cases "command_of (fz_owner_subject q) (fz_idempotency_key q) db")
      (auto simp: begin_control_command_def result_simps split: if_splits)
  have e: "append_flow_event E (fz_run_id q) ''control_started'' (JObj [(''action'', JStr (fz_action q)),
       (''idempotency_key'', JStr (fz_idempotency_key q))])
       (db\<lparr>fd_commands := fd_commands db @ [c]\<rparr>) = Inr db'"
    and k: "control_key c = (fz_owner_subject q, fz_idempotency_key q)"
    using assms none
    by (auto simp: begin_control_command_def result_simps Let_def control_key_def)
  show ?thesis using none k event_same [OF e] by (simp add: command_of_key select1_append)
qed

text \<open>A control command is taken once, at the version it names: a fresh command needs the run at the
  expected version; after it every later command of the same owner with the same key that is accepted
  is a replay of the same run, action, version and payload digest that changes nothing, and once it is
  completed its result is final.\<close>

theorem control_command_once:
  assumes "flow_ok db" "begin_control_command E q db = Inr ((c, False), db1)" "flow_run_to db1 db2"
  shows "(\<exists>run. run_of (fz_run_id q) db = Some run \<and> fr_state_version run = fz_expected_state_version q)
    \<and> (\<forall>E' q' c' b db3. begin_control_command E' q' db2 = Inr ((c', b), db3)
         \<and> fz_owner_subject q' = fz_owner_subject q \<and> fz_idempotency_key q' = fz_idempotency_key q \<longrightarrow>
         b \<and> db3 = db2 \<and> control_key c' = control_key c \<and> fz_run_id q' = fc_run_id c'
         \<and> fz_action q' = fc_action c' \<and> fz_expected_state_version q' = fc_expected_state_version c'
         \<and> flow_digest (ek_lib E') (fz_payload q') = Inr (fc_payload_digest c'))
    \<and> (\<forall>c' db3. command_of (fz_owner_subject q) (fz_idempotency_key q) db2 = Some c'
         \<and> fc_completed c' \<and> flow_run_to db2 db3 \<longrightarrow>
         command_of (fz_owner_subject q) (fz_idempotency_key q) db3 = Some c')"
proof -
  from begin_control_new [OF assms(2,1)] obtain run where n: "flow_changes db db1"
    "owned_run (fz_owner_subject q) (fz_run_id q) db = Some run"
    "fr_state_version run = fz_expected_state_version q" by blast
  have ok1: "flow_ok db1" using flow.steps_inv [OF n(1) assms(1)] .
  have ok2: "flow_ok db2" using flow_run_ok [OF assms(3) ok1] .
  let ?o = "fz_owner_subject q" and ?k = "fz_idempotency_key q"
  have c1: "command_of ?o ?k db1 = Some c" using begin_control_row [OF assms(2)] .
  have kept: "flow_changes x d \<Longrightarrow> \<exists>c. command_of ?o ?k x = Some c \<Longrightarrow> \<exists>c'. command_of ?o ?k d = Some c'" for x d
  proof (induction rule: steps.induct)
    case (steps_snoc s t u)
    then show ?case using change_command by blast
  qed
  from kept [OF flow_steps_changes [OF assms(3) ok1]] c1 obtain c2 where c2: "command_of ?o ?k db2 = Some c2" by blast
  have key: "control_key x = (?o, ?k)" if "command_of ?o ?k d = Some x" for d x
    using that select1_Some by (fastforce simp: command_of_key)
  show ?thesis
  proof (intro conjI allI impI)
    show "\<exists>run. run_of (fz_run_id q) db = Some run \<and> fr_state_version run = fz_expected_state_version q"
      using owned_run_of [OF assms(1) n(2)] n(3) by blast
  next
    fix E' q' c' b db3
    assume r: "begin_control_command E' q' db2 = Inr ((c', b), db3)
      \<and> fz_owner_subject q' = ?o \<and> fz_idempotency_key q' = ?k"
    have b: "b" using begin_control_new [of E' q' db2 c' db3] r ok2 c2 by (cases b) auto
    then show "b" "db3 = db2" "control_key c' = control_key c" "fz_run_id q' = fc_run_id c'"
        "fz_action q' = fc_action c'" "fz_expected_state_version q' = fc_expected_state_version c'"
        "flow_digest (ek_lib E') (fz_payload q') = Inr (fc_payload_digest c')"
      using begin_control_old [of E' q' db2 c' db3] r key c1 by auto
  next
    fix c' db3
    assume d: "command_of ?o ?k db2 = Some c' \<and> fc_completed c' \<and> flow_run_to db2 db3"
    then show "command_of ?o ?k db3 = Some c'"
      using done_commands.steps_final [of db2 db3 "(?o, ?k)" c'] ok2 by auto
  qed
qed

section \<open>The event log\<close>

definition empty_flow :: "(string \<times> string) list \<Rightarrow> (string \<times> string) list \<Rightarrow> flow_db" where
  "empty_flow skills definitions = \<lparr>fd_skill_versions = skills, fd_definitions = definitions,
     fd_runs = [], fd_steps = [], fd_actions = [], fd_waits = [], fd_commands = [], fd_events = []\<rparr>"

lemma empty_flow_ok: "flow_ok (empty_flow skills definitions)"
  by (simp add: flow_ok_def empty_flow_def run_rows.table_ok_def step_rows.table_ok_def
      action_rows.table_ok_def wait_rows.table_ok_def command_rows.table_ok_def
      events_numbered_def run_events_def)

lemma changes_events:
  "flow_changes db db' \<Longrightarrow> \<exists>es. fd_events db' = fd_events db @ es"
proof (induction rule: steps.induct)
  case (steps_snoc s t u)
  from steps_snoc(2) have "\<exists>es. fd_events u = fd_events t @ es" by cases auto
  then show ?case using steps_snoc.IH by auto
qed simp

lemma filter_interval:
  "map f es = [Suc k..<Suc k + length es] \<Longrightarrow> filter (\<lambda>e. k + c < f e) es = drop c es"
proof (induction es arbitrary: k c)
  case (Cons e es)
  have e: "f e = Suc k" "map f es = [Suc (Suc k)..<Suc (Suc k) + length es]"
    using Cons.prems by (simp_all add: upt_rec)
  show ?case
  proof (cases c)
    case 0
    have "k < f x" if "x \<in> set (e # es)" for x
    proof -
      have "f x \<in> f ` set (e # es)" using that by (rule imageI)
      then have "f x \<in> set [Suc k..<Suc k + length (e # es)]" unfolding set_map [symmetric] Cons.prems .
      then have "Suc k \<le> f x" unfolding set_upt atLeastLessThan_iff by (rule conjunct1)
      then show ?thesis by simp
    qed
    then show ?thesis using 0 by (simp add: filter_id_conv)
  next
    case (Suc d)
    then show ?thesis using Cons.IH [OF e(2), of d] e(1) by simp
  qed
qed simp

text \<open>C39. The log of a run is complete and in order: whatever happens, the log of a store that started
  empty only grows at its end, the events of every run are numbered from 1 without gaps, and a page
  after a cursor is exactly the events that follow it.\<close>

theorem flow_log_numbered:
  assumes "flow_run_to (empty_flow skills definitions) db" "flow_run_to db db'"
  shows "(\<exists>es. fd_events db' = fd_events db @ es)
    \<and> map fe_sequence (run_events k db') = [1..<Suc (length (run_events k db'))]
    \<and> (get_run owner k db' \<noteq> None \<longrightarrow>
         list_flow_events owner k cursor limit db' = take limit (drop cursor (run_events k db')))"
proof -
  have ok: "flow_ok db" using flow_run_ok [OF assms(1) empty_flow_ok] .
  have n: "map fe_sequence (run_events k db') = [1..<Suc (length (run_events k db'))]"
    using flow_okD(7) [OF flow_run_ok [OF assms(2) ok]] by (simp add: events_numbered_def)
  have f: "filter (\<lambda>e. cursor < fe_sequence e) (run_events k db') = drop cursor (run_events k db')"
    using filter_interval [of fe_sequence "run_events k db'" 0 cursor] n by simp
  have "sorted (map fe_sequence (drop cursor (run_events k db')))"
    unfolding drop_map [symmetric] n by (intro sorted_wrt_drop sorted_upt)
  then show ?thesis
    using changes_events [OF flow_steps_changes [OF assms(2) ok]] n f
    by (simp add: list_flow_events_def sort_key_id_if_sorted)
qed

section \<open>Errors\<close>

lemma write_in_flight_of:
  assumes "action_of k db = Some a" "fa_effect_class a = ''write''" "fa_state a = ActStarted"
  shows "write_in_flight (fa_run_id a) db"
  using assms action_of_in [OF assms(1)] by (auto simp: write_in_flight_def list_ex_iff)

lemma cancel_run_action:
  assumes "cancel_run E owner k st ver db = Inr (r, db')" "action_of i db = Some a"
    and "fa_state a \<notin> {ActPending, ActClaimed}"
  shows "action_of i db' = Some a"
proof -
  obtain t v where e: "append_flow_event E k ''cancel_requested'' v
      (cancel_unstarted k (row_now E db) (update_run k (move_run t (row_now E db)) db)) = Inr db'"
    using assms(1) unfolding cancel_run_def Let_def by (auto simp: result_simps split: if_splits sum.splits)
  have "select1 (\<lambda>a. fa_action_id a = i) (update_where p f rows) = Some a"
    if "select1 (\<lambda>a. fa_action_id a = i) rows = Some a" "\<not> p a"
      "\<And>x. fa_action_id (f x) = fa_action_id x" for p f rows
    using that by (induction rows) (auto split: if_splits)
  then show ?thesis using assms(2,3) event_same [OF e]
    by (simp add: action_of_def cancel_unstarted_def update_run_def)
qed

text \<open>C40. Cancelling a run while a write is being dispatched leaves the worker of that write without a way
  to report it lost: the run then waits for recovery, from where the transition to
  \<open>waiting_for_recovery\<close> is refused, so the report is rolled back and the action stays started.\<close>

theorem lost_write_after_cancel_refused:
  assumes "flow_ok db" "action_of k db = Some a" "fa_effect_class a = ''write''" "fa_state a = ActStarted"
    and "fa_lease_owner a = Some w" "cancel_run E owner (fa_run_id a) st ver db = Inr (r, db')"
  shows "fr_state r = RunWaitingForRecovery
    \<and> mark_action_outcome_unknown E' k w err db' = Inl (FlowConflict ''recovery_transition_invalid'')
    \<and> action_of k db' = Some a"
proof -
  note c = cancel_run_cases [OF assms(6,1)]
  have f: "write_in_flight (fa_run_id a) db" using write_in_flight_of assms(2-4) by blast
  have r: "run_of (fa_run_id a) db' = Some r" "fr_state r = RunWaitingForRecovery" using c f by auto
  have ws: "write_started a" using assms(3,4) by (simp add: write_started_def)
  have a: "action_of k db' = Some a" using cancel_run_action [OF assms(6,2)] assms(4) by simp
  have v: "validate_run_transition ''waiting_for_recovery'' ''waiting_for_recovery''
      = Inl (InvalidWorkflowTransition ''waiting_for_recovery'' ''waiting_for_recovery'')"
    by (simp add: validate_run_transition_def run_state_of_def RUN_STATES_def)
  have "run_of (fa_run_id a) (update_action k f db') = Some r" for f
    using r(1) by (simp add: run_of_def update_action_def)
  then show ?thesis using r a v assms(4,5)
    by (simp add: mark_action_outcome_unknown_def present_def column_text_def send_to_recovery_def
        run_is_terminal_def TERMINAL_RUN_STATES_def)
qed

text \<open>A run that waits for a job or for recovery and has no write in flight cannot be cancelled, and
  the call raises \<open>InvalidWorkflowTransition\<close> itself, not the \<open>RepositoryConflict\<close> its callers
  handle.\<close>

theorem cancel_of_waiting_run_raises:
  assumes "flow_ok db" "owned_run owner k db = Some r"
    and "fr_state r \<in> {RunWaitingForJob, RunWaitingForRecovery}" "\<not> write_in_flight k db"
  shows "cancel_run E owner k (run_state_name (fr_state r)) (fr_state_version r) db
    = Inl (FlowTransition (InvalidWorkflowTransition (run_state_name (fr_state r)) ''cancelled''))"
proof -
  have "validate_run_transition (run_state_name (fr_state r)) ''cancelled''
      = Inl (InvalidWorkflowTransition (run_state_name (fr_state r)) ''cancelled'')"
    using assms(3) by (auto simp: validate_run_transition_def run_state_of_def RUN_STATES_def)
  then show ?thesis using assms
    by (auto simp: cancel_run_def present_def Let_def demand_def run_is_terminal_def TERMINAL_RUN_STATES_def)
qed

section \<open>The runner\<close>

text \<open>Between its calls a runner only sees other operations of the store.\<close>

definition among_operations :: "flow_runner \<Rightarrow> bool" where
  "among_operations R \<longleftrightarrow> (\<forall>i d. flow_run_to d (rn_others R i d))"

lemma then_operation: "flow_run_to s t \<Longrightarrow> flow_step t u \<Longrightarrow> flow_run_to s u"
  by (rule steps_snoc)

lemma abandon_run:
  assumes "among_operations R" "abandon R i a code db = (db', calls, out)"
  shows "flow_run_to db db' \<and> calls = []"
proof -
  have o: "flow_run_to db (rn_others R i db)" using assms(1) by (simp add: among_operations_def)
  show ?thesis using assms(2) o then_operation [OF o op_finish]
    by (auto simp: abandon_def fail_action_def split: sum.splits prod.splits)
qed

lemma give_up_run:
  assumes "among_operations R" "give_up R i a code db = (db', calls, out)"
  shows "flow_run_to db db' \<and> calls = [a]"
proof -
  have o: "flow_run_to db (rn_others R i db)" using assms(1) by (simp add: among_operations_def)
  show ?thesis using assms(2) o then_operation [OF o op_finish] then_operation [OF o op_unknown]
    by (auto simp: give_up_def fail_action_def split: sum.splits prod.splits if_splits)
qed

lemma finish_dispatch_run:
  assumes "among_operations R" "finish_dispatch R a db = (db', calls, out)"
  shows "flow_run_to db db' \<and> calls = [a]"
proof -
  have o: "flow_run_to db (rn_others R 2 db)" using assms(1) by (simp add: among_operations_def)
  show ?thesis
    using assms(2) o give_up_run [OF assms(1)] then_operation [OF o op_finish] steps_trans [OF _ o]
    by (auto simp: finish_dispatch_def complete_action_def Let_def split: sum.splits prod.splits if_splits)
qed

lemma changes_dispatched:
  "flow_changes db db' \<Longrightarrow> \<exists>a. action_of k db = Some a \<and> action_pins a = p \<and> fa_dispatch_started_at a \<noteq> None \<Longrightarrow>
   \<exists>b. action_of k db' = Some b \<and> action_pins b = p \<and> fa_dispatch_started_at b \<noteq> None"
proof (induction rule: steps.induct)
  case (steps_snoc s t u)
  then obtain b where b: "action_of k t = Some b" "action_pins b = p" "fa_dispatch_started_at b \<noteq> None"
    by blast
  from change_action [OF steps_snoc(2) b(1)] b show ?case by (fastforce simp: action_move_def split: if_splits)
qed

text \<open>C14. One turn of the runner dispatches at most one action, and only after its start is in the store:
  whatever other operations run in between and however the turn ends, the store has moved by its
  operations only, the dispatched action carries the time of its start, and a write that was dispatched
  is never claimed again.\<close>

theorem dispatch_after_durable_start:
  assumes "flow_ok db" "among_operations R" "run_once R n db = (db', calls, out)"
  shows "flow_run_to db db' \<and> (calls = [] \<or> (\<exists>a b. calls = [a]
    \<and> action_of (fa_action_id a) db' = Some b \<and> action_pins b = action_pins a
    \<and> fa_dispatch_started_at b \<noteq> None
    \<and> (fa_effect_class a = ''write'' \<longrightarrow>
        (\<forall>db2 E w m c db3. flow_run_to db' db2 \<and> claim_action E w m db2 = Inr (Some c, db3) \<longrightarrow>
           fa_action_id c \<noteq> fa_action_id a))))"
proof (cases "claim_action (rn_env R 0) (rn_worker R) n db")
  case (Inl e)
  then show ?thesis using assms(3) by (auto simp: run_once_def intro: steps_refl)
next
  case (Inr x)
  obtain ao db1 where x: "x = (ao, db1)" by (cases x) auto
  have c1: "flow_run_to db db1" using Inr x by (intro steps_single op_claim) auto
  show ?thesis
  proof (cases ao)
    case None
    then show ?thesis using assms(3) Inr x c1 by (auto simp: run_once_def)
  next
    case (Some a)
    note run = assms(3) [unfolded run_once_def, unfolded Inr x Some, simplified]
    show ?thesis
    proof (cases "prepare_dispatch R a")
      case (Some code)
      then have "abandon R 1 a code db1 = (db', calls, out)" using run by simp
      note q = abandon_run [OF assms(2) this]
      show ?thesis using steps_trans [OF conjunct1 [OF q] c1] q by simp
    next
      case None
      let ?db2 = "rn_others R 1 db1"
      have "flow_run_to db1 ?db2" using assms(2) unfolding among_operations_def by blast
      then have c2: "flow_run_to db ?db2" using c1 by (rule steps_trans)
      show ?thesis
      proof (cases "mark_dispatch_started (rn_env R 1) (fa_action_id a) (rn_worker R) ?db2")
        case (Inl e)
        then have "abandon R 2 a (flow_error_code e) ?db2 = (db', calls, out)" using run None by (simp add: Let_def)
        note q = abandon_run [OF assms(2) this]
        show ?thesis using steps_trans [OF conjunct1 [OF q] c2] q by simp
      next
        case (Inr y)
        obtain a2 db3 where y: "y = (a2, db3)" by (cases y) auto
        note m = Inr [unfolded y]
        have f: "finish_dispatch R a2 db3 = (db', calls, out)" using run None m by (simp add: Let_def)
        note fd = finish_dispatch_run [OF assms(2) f]
        have ok2: "flow_ok ?db2" using flow_run_ok [OF c2 assms(1)] .
        have c3: "flow_run_to db db3" using then_operation [OF c2 op_start [OF m]] .
        have ok3: "flow_ok db3" using flow_run_ok [OF c3 assms(1)] .
        note st = started_row [OF ok2 m]
        have id: "fa_action_id a2 = fa_action_id a" using action_of_in [OF st(1)] by simp
        have "fa_dispatch_started_at a2 \<noteq> None"
          using action_sound_of [OF ok3 st(1)] st(2) by (auto simp: action_sound_def)
        then have "\<exists>b. action_of (fa_action_id a) db' = Some b \<and> action_pins b = action_pins a2
            \<and> fa_dispatch_started_at b \<noteq> None"
          using changes_dispatched [OF flow_steps_changes [OF conjunct1 [OF fd] ok3]] st(1) by blast
        moreover have "fa_action_id c \<noteq> fa_action_id a2"
          if "fa_effect_class a2 = ''write''" "flow_run_to db' db4" "claim_action E w k db4 = Inr (Some c, db5)"
          for db4 E w k c db5
          using conjunct1 [OF started_write_settled
              [OF ok2 m that(1) steps_trans [OF that(2) conjunct1 [OF fd]]]] that(3) unfolding id by blast
        ultimately show ?thesis using steps_trans [OF conjunct1 [OF fd] c3] fd id by auto
      qed
    qed
  qed
qed

end
