(* ===== verification/WorkflowSamples.thy ===== *)
theory WorkflowSamples
  imports WorkflowProperties Phase7Samples
begin

text \<open>
  A concrete workflow store for the witnesses: one running run with one step, one write action in
  several states, and one open wait.  The digest function is constant, the clock text of \<open>n\<close> seconds
  is a text of \<open>n\<close> letters, and the identifier of the \<open>k\<close>-th event is a text of \<open>k\<close> letters.
\<close>

section \<open>The environment\<close>

definition sample_flow_env :: "int \<Rightarrow> flow_env" where
  "sample_flow_env s = \<lparr>ek_lib = zero_lib, ek_now = (\<lambda>k. ''t''), ek_event_now = (\<lambda>k. ''t''),
     ek_new_id = (\<lambda>k. replicate k CHR ''e''), ek_seconds = s,
     ek_datetime = (\<lambda>n. Some (replicate (nat n) CHR ''s''))\<rparr>"

lemma sample_flow_env_simps [simp]:
  "ek_lib (sample_flow_env s) = zero_lib" "ek_new_id (sample_flow_env s) k = replicate k CHR ''e''"
  "ek_datetime (sample_flow_env s) n = Some (replicate (nat n) CHR ''s'')"
  "row_now (sample_flow_env s) db = ''t''" "ek_event_now (sample_flow_env s) k = ''t''"
  "ek_seconds (sample_flow_env s) = s"
  by (simp_all add: sample_flow_env_def row_now_def)

text \<open>Values that fit every column.\<close>

definition small :: "json \<Rightarrow> bool" where
  "small v \<longleftrightarrow> bounded_at 0 v = Inr () \<and> json_weight v \<le> FLOW_SMALL_LIMIT"

definition encoded :: "json \<Rightarrow> string" where
  "encoded v = the (json_dumps zero_lib v)"

lemma small_encoded:
  assumes "small v"
  shows "json_dumps zero_lib v = Some (encoded v)" "length (encoded v) \<le> FLOW_SMALL_LIMIT"
    "column_fits (encoded v)"
proof -
  obtain t where t: "json_dumps zero_lib v = Some t"
    using assms bounded_dumps [of 0 v zero_lib] by (auto simp: small_def)
  then show "json_dumps zero_lib v = Some (encoded v)" by (simp add: encoded_def)
  show l: "length (encoded v) \<le> FLOW_SMALL_LIMIT"
    using t dumps_weight [OF t] assms by (simp add: encoded_def small_def)
  show "column_fits (encoded v)" using py_len_le [of "encoded v"] l by (simp add: column_fits_def)
qed

lemma small_json:
  assumes "small v"
  shows "flow_json zero_lib FLOW_SMALL_LIMIT v = Inr (encoded v)"
    "flow_json zero_lib FLOW_JSON_LIMIT v = Inr (encoded v)"
    "flow_digest zero_lib v = Inr zero_hash"
  using small_encoded [OF assms]
  by (simp_all add: flow_json_def flow_digest_def FLOW_SMALL_LIMIT_def FLOW_JSON_LIMIT_def zero_lib_def zero_hash_def)

lemmas small_eval = small_def FLOW_SMALL_LIMIT_def bound_defs zero_hash_def

text \<open>An event of a run that exists.\<close>

definition flow_logged :: "string \<Rightarrow> string \<Rightarrow> json \<Rightarrow> flow_db \<Rightarrow> flow_db" where
  "flow_logged run_id ty v db = db\<lparr>fd_events := fd_events db @ [\<lparr>fe_run_id = run_id,
     fe_sequence = last_event_number run_id db + 1, fe_event_id = replicate (length (fd_events db)) CHR ''e'',
     fe_event_type = ty, fe_payload = v, fe_created_at = ''t''\<rparr>]\<rparr>"

definition ids_in_order :: "flow_db \<Rightarrow> bool" where
  "ids_in_order db \<longleftrightarrow> (\<forall>e \<in> set (fd_events db). length (fe_event_id e) < length (fd_events db))"

lemma sample_event:
  assumes "run_of k db \<noteq> None" "small v" "ids_in_order db"
  shows "append_flow_event (sample_flow_env s) k ty v db = Inr (flow_logged k ty v db)"
proof -
  have "x \<in> set (fd_events db) \<Longrightarrow> replicate (length (fd_events db)) CHR ''e'' \<noteq> fe_event_id x" for x
    using assms(3) by (metis ids_in_order_def length_replicate less_irrefl)
  then have "replicate (length (fd_events db)) CHR ''e'' \<notin> fe_event_id ` set (fd_events db)" by blast
  then show ?thesis using assms(1) small_json [OF assms(2)] small_encoded [OF assms(2)]
    by (simp add: append_flow_event_def Let_def flow_logged_def demand_def)
qed

lemma flow_logged_simps [simp]:
  "fd_runs (flow_logged k ty v db) = fd_runs db" "fd_steps (flow_logged k ty v db) = fd_steps db"
  "fd_actions (flow_logged k ty v db) = fd_actions db" "fd_waits (flow_logged k ty v db) = fd_waits db"
  "fd_commands (flow_logged k ty v db) = fd_commands db"
  "ids_in_order db \<Longrightarrow> ids_in_order (flow_logged k ty v db)"
  by (auto simp: flow_logged_def ids_in_order_def)

lemma flow_logged_lookups [simp]:
  "run_of i (flow_logged k ty v db) = run_of i db" "action_of i (flow_logged k ty v db) = action_of i db"
  "wait_of i (flow_logged k ty v db) = wait_of i db"
  by (simp_all add: run_of_def action_of_def wait_of_def)

section \<open>The store\<close>

definition sample_pin_columns :: pin_columns where
  "sample_pin_columns = \<lparr>pc_skill_id = ''s'', pc_skill_version = ''1'', pc_skill_digest = ''d'',
     pc_workflow_id = ''w'', pc_workflow_version = ''1'', pc_workflow_digest = ''d'',
     pc_catalog_epoch = 0, pc_policy_epoch = 0, pc_planner_registry_version = ''1'',
     pc_planner_registry_hash = ''h''\<rparr>"

definition sample_run :: flow_run where
  "sample_run = \<lparr>fr_run_id = ''r'', fr_owner_subject = ''o'', fr_actor_issuer = ''i'',
     fr_actor_subject = ''a'', fr_pin_columns = sample_pin_columns, fr_pins = JObj [], fr_pins_digest = ''d'',
     fr_inputs = JObj [], fr_inputs_digest = ''d'', fr_device_id = ''x'',
     fr_device_identity_generation = 1, fr_initial_snapshot_id = None, fr_initial_document_id = None,
     fr_initial_document_revision = None, fr_state = RunRunning, fr_state_version = 1,
     fr_current_step_id = Some ''p'', fr_idempotency_key = ''k'', fr_request_hash = ''d'',
     fr_created_at = ''t'', fr_updated_at = ''t'', fr_expires_at = None\<rparr>"

definition sample_write :: flow_action where
  "sample_write = \<lparr>fa_action_id = ''a1'', fa_run_id = ''r'', fa_step_id = ''p'', fa_attempt = 1,
     fa_action_kind = ''commit'', fa_payload = JObj [(''n'', JInt 1)], fa_payload_digest = ''d'',
     fa_idempotency_key = ''wf:r:p:1:commit'', fa_retry_class = ''not_started'',
     fa_effect_class = ''write'', fa_state = ActPending, fa_lease_owner = None,
     fa_lease_expires_at = None, fa_dispatch_started_at = None, fa_child_state = None,
     fa_child_ref = None, fa_result = None, fa_error_code = None, fa_created_at = ''t'', fa_updated_at = ''t''\<rparr>"

definition sample_wait :: flow_wait where
  "sample_wait = \<lparr>fw_wait_id = ''w1'', fw_run_id = ''r'', fw_step_id = ''p'', fw_wait_kind = ''user_input'',
     fw_expected_state_version = 1,
     fw_response_schema = JObj [(''type'', JStr ''object''), (''required'', JList [JStr ''ok''])],
     fw_response_schema_digest = ''d'', fw_expires_at = None, fw_resolved_at = None, fw_resolution = None,
     fw_created_at = ''t''\<rparr>"

definition sample_flow :: "flow_action \<Rightarrow> flow_db" where
  "sample_flow a = \<lparr>fd_skill_versions = [(''s'', ''1'')], fd_definitions = [(''w'', ''1'')],
     fd_runs = [sample_run], fd_steps = [], fd_actions = [a], fd_waits = [sample_wait],
     fd_commands = [], fd_events = []\<rparr>"

definition claimed_write :: flow_action where
  "claimed_write = sample_write\<lparr>fa_state := ActClaimed, fa_lease_owner := Some ''me'',
     fa_lease_expires_at := Some ''s''\<rparr>"

text \<open>The rows as \<open>mark_dispatch_started\<close> and \<open>cancel_run\<close> leave them.\<close>

definition started_write :: flow_action where
  "started_write = claimed_write\<lparr>fa_state := ActStarted, fa_dispatch_started_at := Some ''t'',
     fa_child_state := Some ''started'', fa_child_ref := Some (child_reference claimed_write)\<rparr>"

lemmas sample_rows = sample_run_def sample_write_def sample_wait_def claimed_write_def started_write_def

lemma sample_flow_ok:
  assumes "action_sound a"
  shows "flow_ok (sample_flow a)"
proof -
  have "wait_rows.table_ok [sample_wait]"
    unfolding wait_rows.table_ok_def by (simp add: sample_wait_def wait_open_def WAIT_KINDS_def)
  then show ?thesis using assms
    by (simp add: flow_ok_def sample_flow_def run_rows.table_ok_def step_rows.table_ok_def
        action_rows.table_ok_def command_rows.table_ok_def events_numbered_def run_events_def
        sample_run_def)
qed

lemma sample_actions_sound:
  "action_sound sample_write" "action_sound claimed_write" "action_sound started_write"
  by (simp_all add: action_sound_def sample_rows)

lemma sample_lookups [simp]:
  "run_of ''r'' (sample_flow a) = Some sample_run" "owned_run ''o'' ''r'' (sample_flow a) = Some sample_run"
  "fa_action_id a = ''a1'' \<Longrightarrow> action_of ''a1'' (sample_flow a) = Some a"
  "ids_in_order (sample_flow a)" "wait_of ''w1'' (sample_flow a) = Some sample_wait"
  by (simp_all add: run_of_def owned_run_def action_of_def wait_of_def sample_flow_def sample_run_def
      sample_wait_def ids_in_order_def)

lemma sample_ids [simp]:
  "fa_action_id sample_write = ''a1''" "fa_action_id claimed_write = ''a1''" "fa_action_id started_write = ''a1''"
  "fa_run_id sample_write = ''r''" "fa_run_id claimed_write = ''r''" "fa_run_id started_write = ''r''"
  by (simp_all add: sample_rows)

lemma sample_update [simp]:
  "fa_action_id a = ''a1'' \<Longrightarrow> update_action ''a1'' f (sample_flow a) = sample_flow (f a)"
  "update_action i f (flow_logged k ty v db) = flow_logged k ty v (update_action i f db)"
  by (simp_all add: update_action_def sample_flow_def flow_logged_def last_event_number_def run_events_def)

lemma stopped_lookups [simp]:
  "ids_in_order (cancel_unstarted k n db) = ids_in_order db"
  "ids_in_order (update_run k f db) = ids_in_order db"
  "run_of i (cancel_unstarted k n db) = run_of i db"
  by (simp_all add: ids_in_order_def cancel_unstarted_def update_run_def run_of_def)

lemma sample_moved [simp]:
  "run_of ''r'' (update_run ''r'' (move_run s n) (sample_flow a)) = Some (move_run s n sample_run)"
  by (simp add: run_of_def update_run_def sample_flow_def move_run_def sample_run_def)

lemma small_values:
  "small (action_event ''a1'')" "small (child_reference claimed_write)"
  "small (JObj [(''result'', JStr ''cancelled'')])"
  "small (JObj [(''result'', JStr ''waiting_for_recovery'')])"
  by (simp_all add: small_eval action_event_def child_reference_def sample_rows)

section \<open>The outbox\<close>

lemma sample_claim:
  "claim_action (sample_flow_env 0) ''me'' 1 (sample_flow sample_write)
   = Inr (Some claimed_write, flow_logged ''r'' ''action_claimed'' (action_event ''a1'') (sample_flow claimed_write))"
proof -
  have n: "next_action (sample_flow_env 0) (sample_flow sample_write) = Some sample_write"
    by (simp add: next_action_def ordered_by_def sample_flow_def run_running_def run_of_def
        sample_run_def sample_write_def claimable_def)
  have c: "sample_write\<lparr>fa_state := ActClaimed, fa_lease_owner := Some ''me'',
      fa_lease_expires_at := Some ''s'', fa_updated_at := ''t''\<rparr> = claimed_write"
    by (simp add: claimed_write_def sample_write_def)
  show ?thesis
    by (simp add: claim_action_def n c present_def sample_event small_values)
qed

lemma started_again: "claimed_write\<lparr>fa_state := ActStarted, fa_dispatch_started_at := Some ''t'',
    fa_child_state := Some ''started'', fa_child_ref := Some (child_reference claimed_write),
    fa_updated_at := ''t''\<rparr> = started_write"
  by (simp add: started_write_def claimed_write_def sample_write_def)

lemma sample_start:
  "mark_dispatch_started (sample_flow_env 0) ''a1'' ''me'' (sample_flow claimed_write)
   = Inr (started_write, flow_logged ''r'' ''action_dispatch_started'' (action_event ''a1'') (sample_flow started_write))"
  "mark_dispatch_started (sample_flow_env 0) ''a1'' ''me''
     (flow_logged ''r'' ''action_claimed'' (action_event ''a1'') (sample_flow claimed_write))
   = Inr (started_write, flow_logged ''r'' ''action_dispatch_started'' (action_event ''a1'')
       (flow_logged ''r'' ''action_claimed'' (action_event ''a1'') (sample_flow started_write)))"
proof -
  have s: "fa_state claimed_write = ActClaimed" "column_text (fa_lease_owner claimed_write) = ''me''"
    by (simp_all add: claimed_write_def column_text_def)
  show "mark_dispatch_started (sample_flow_env 0) ''a1'' ''me'' (sample_flow claimed_write)
   = Inr (started_write, flow_logged ''r'' ''action_dispatch_started'' (action_event ''a1'') (sample_flow started_write))"
   "mark_dispatch_started (sample_flow_env 0) ''a1'' ''me''
     (flow_logged ''r'' ''action_claimed'' (action_event ''a1'') (sample_flow claimed_write))
   = Inr (started_write, flow_logged ''r'' ''action_dispatch_started'' (action_event ''a1'')
       (flow_logged ''r'' ''action_claimed'' (action_event ''a1'') (sample_flow started_write)))"
    by (simp_all add: mark_dispatch_started_def s present_def settle_action_def sample_event
        small_values small_json small_encoded started_again demand_def)
qed

lemma started_write_fields:
  "fa_effect_class started_write = ''write''" "fa_state started_write = ActStarted"
  "fa_lease_owner started_write = Some ''me''"
  by (simp_all add: started_write_def claimed_write_def sample_write_def)

theorem write_starts_once_witness:
  "\<exists>db. mark_dispatch_started (sample_flow_env 0) ''a1'' ''me'' (sample_flow claimed_write)
        = Inr (started_write, db)
     \<and> \<not> (\<exists>E w n c db3. claim_action E w n db = Inr (Some c, db3) \<and> fa_action_id c = ''a1'')"
  using write_starts_once [OF sample_flow_ok [OF sample_actions_sound(2)] sample_start(1)
      started_write_fields(1) steps_refl] sample_start(1) by blast

theorem claim_takes_oldest_due_witness:
  "\<exists>db'. claim_action (sample_flow_env 0) ''me'' 1 (sample_flow sample_write) = Inr (Some claimed_write, db')
     \<and> action_of ''a1'' db' = Some claimed_write \<and> run_running ''r'' (sample_flow sample_write)"
  using claim_takes_oldest_due [OF sample_flow_ok [OF sample_actions_sound(1)] sample_claim] sample_claim
  by (auto simp: claimed_by_def)

section \<open>Stopping\<close>

lemma sample_cancel:
  "cancel_run (sample_flow_env 0) ''o'' ''r'' ''running'' 1 (sample_flow sample_write)
   = Inr (move_run RunCancelled ''t'' sample_run, flow_logged ''r'' ''cancel_requested''
       (JObj [(''result'', JStr ''cancelled'')])
       (cancel_unstarted ''r'' ''t'' (update_run ''r'' (move_run RunCancelled ''t'') (sample_flow sample_write))))"
  "cancel_run (sample_flow_env 0) ''o'' ''r'' ''running'' 1 (sample_flow started_write)
   = Inr (move_run RunWaitingForRecovery ''t'' sample_run, flow_logged ''r'' ''cancel_requested''
       (JObj [(''result'', JStr ''waiting_for_recovery'')])
       (cancel_unstarted ''r'' ''t'' (update_run ''r'' (move_run RunWaitingForRecovery ''t'') (sample_flow started_write))))"
proof -
  have f: "\<not> write_in_flight ''r'' (sample_flow sample_write)" "write_in_flight ''r'' (sample_flow started_write)"
    by (simp_all add: write_in_flight_def sample_flow_def sample_rows started_write_def)
  have r: "fr_state sample_run = RunRunning" "fr_state_version sample_run = 1"
    "\<not> run_is_terminal sample_run" "validate_run_transition ''running'' ''cancelled'' = Inr ()"
    by (simp_all add: sample_run_def run_is_terminal_def TERMINAL_RUN_STATES_def
        validate_run_transition_def run_state_of_def RUN_STATES_def)
  show "cancel_run (sample_flow_env 0) ''o'' ''r'' ''running'' 1 (sample_flow sample_write)
   = Inr (move_run RunCancelled ''t'' sample_run, flow_logged ''r'' ''cancel_requested''
       (JObj [(''result'', JStr ''cancelled'')])
       (cancel_unstarted ''r'' ''t'' (update_run ''r'' (move_run RunCancelled ''t'') (sample_flow sample_write))))"
    "cancel_run (sample_flow_env 0) ''o'' ''r'' ''running'' 1 (sample_flow started_write)
   = Inr (move_run RunWaitingForRecovery ''t'' sample_run, flow_logged ''r'' ''cancel_requested''
       (JObj [(''result'', JStr ''waiting_for_recovery'')])
       (cancel_unstarted ''r'' ''t'' (update_run ''r'' (move_run RunWaitingForRecovery ''t'') (sample_flow started_write))))"
    by (simp_all add: cancel_run_def present_def f r demand_def sample_event small_values)
qed

lemma moved_state: "fr_state (move_run s n r) = s" by (simp add: move_run_def)

theorem stopped_run_stays_quiet_witness:
  "\<exists>r db. cancel_run (sample_flow_env 0) ''o'' ''r'' ''running'' 1 (sample_flow sample_write) = Inr (r, db)
     \<and> fr_state r = RunCancelled
     \<and> \<not> (\<exists>E w n c db3. claim_action E w n db = Inr (Some c, db3) \<and> fa_run_id c = ''r'')"
proof -
  note c = sample_cancel(1)
  have "\<not> (\<exists>E w n d db3. claim_action E w n db = Inr (Some d, db3) \<and> fa_run_id d = ''r'')"
    if "cancel_run (sample_flow_env 0) ''o'' ''r'' ''running'' 1 (sample_flow sample_write) = Inr (r, db)"
      "fr_state r = RunCancelled" for r db
    using stopped_run_stays_quiet [OF sample_flow_ok [OF sample_actions_sound(1)]
        disjI1 [OF conjI [OF that]] steps_refl] by blast
  then show ?thesis using c moved_state by metis
qed

theorem run_version_names_state_witness:
  "\<exists>r db. cancel_run (sample_flow_env 0) ''o'' ''r'' ''running'' 1 (sample_flow sample_write) = Inr (r, db)
     \<and> (\<exists>s. run_of ''r'' db = Some s \<and> run_pins s = run_pins sample_run
          \<and> fr_state_version sample_run \<le> fr_state_version s)"
proof -
  have "flow_run_to (sample_flow sample_write) db"
    if "cancel_run (sample_flow_env 0) ''o'' ''r'' ''running'' 1 (sample_flow sample_write) = Inr (r, db)" for r db
    by (rule steps_single, rule op_cancel) (rule that)
  then show ?thesis
    using run_version_names_state [OF sample_flow_ok [OF sample_actions_sound(1)] sample_lookups(1)]
      sample_cancel(1) by blast
qed

theorem lost_write_after_cancel_refused_witness:
  "\<exists>r db. cancel_run (sample_flow_env 0) ''o'' ''r'' ''running'' 1 (sample_flow started_write) = Inr (r, db)
     \<and> mark_action_outcome_unknown (sample_flow_env 0) ''a1'' ''me'' ''timeout'' db
       = Inl (FlowConflict ''recovery_transition_invalid'')"
proof -
  have "cancel_run (sample_flow_env 0) ''o'' (fa_run_id started_write) ''running'' 1 (sample_flow started_write)
      = Inr (r, db) \<Longrightarrow> mark_action_outcome_unknown (sample_flow_env 0) ''a1'' ''me'' ''timeout'' db
       = Inl (FlowConflict ''recovery_transition_invalid'')" for r db
    using lost_write_after_cancel_refused [OF sample_flow_ok [OF sample_actions_sound(3)]
        sample_lookups(3) [OF sample_ids(3)] started_write_fields(1-3)] by blast
  then show ?thesis using sample_cancel(2) unfolding sample_ids by blast
qed

section \<open>A turn of the runner\<close>

definition sample_runner :: flow_runner where
  "sample_runner = \<lparr>rn_worker = ''me'', rn_env = (\<lambda>_. sample_flow_env 0), rn_others = (\<lambda>_ db. db),
     rn_scene_port = False, rn_preflight = (\<lambda>_ _. None), rn_scene_preflight = (\<lambda>_ _. None),
     rn_dispatch = (\<lambda>_ _ _. Inl ''timeout''), rn_reconcile = (\<lambda>_ _ _. None)\<rparr>"

lemma sample_runner_simps [simp]:
  "rn_worker sample_runner = ''me''" "rn_env sample_runner i = sample_flow_env 0"
  "rn_others sample_runner i db = db" "among_operations sample_runner"
  by (simp_all add: sample_runner_def among_operations_def steps_refl)

lemma sample_turn: "\<exists>db out. run_once sample_runner 1 (sample_flow sample_write) = (db, [started_write], out)"
proof -
  have p: "prepare_dispatch sample_runner claimed_write = None"
    by (simp add: prepare_dispatch_def validate_safe_retry_def sample_runner_def sample_rows SCENE_ACTIONS_def)
  obtain db out calls where f: "finish_dispatch sample_runner started_write
      (flow_logged ''r'' ''action_dispatch_started'' (action_event ''a1'')
       (flow_logged ''r'' ''action_claimed'' (action_event ''a1'') (sample_flow started_write))) = (db, calls, out)"
    by (metis prod_cases3)
  then have "calls = [started_write]" using finish_dispatch_run sample_runner_simps(4) by blast
  then show ?thesis using f by (simp add: run_once_def sample_claim sample_start p)
qed

theorem dispatch_after_durable_start_witness:
  "\<exists>db out. run_once sample_runner 1 (sample_flow sample_write) = (db, [started_write], out)
     \<and> (\<exists>b. action_of ''a1'' db = Some b \<and> fa_dispatch_started_at b \<noteq> None)
     \<and> \<not> (\<exists>E w m c db3. claim_action E w m db = Inr (Some c, db3) \<and> fa_action_id c = ''a1'')"
proof -
  obtain db out where t: "run_once sample_runner 1 (sample_flow sample_write) = (db, [started_write], out)"
    using sample_turn by blast
  from dispatch_after_durable_start [OF sample_flow_ok [OF sample_actions_sound(1)] sample_runner_simps(4) t]
  obtain b where "action_of ''a1'' db = Some b" "fa_dispatch_started_at b \<noteq> None"
    "\<forall>db2 E w m c db3. flow_run_to db db2 \<and> claim_action E w m db2 = Inr (Some c, db3) \<longrightarrow>
       fa_action_id c \<noteq> ''a1''"
    by (auto simp: started_write_fields(1))
  then show ?thesis using t steps_refl [of flow_step db] by blast
qed

section \<open>Creating a run\<close>

definition sample_pins :: json where
  "sample_pins = JObj [(''skill_id'', JStr ''s''), (''skill_version'', JStr ''1''),
     (''skill_digest'', JStr ''d''), (''workflow_id'', JStr ''w''), (''workflow_version'', JStr ''1''),
     (''workflow_digest'', JStr ''d''), (''catalog_epoch'', JInt 0), (''policy_epoch'', JInt 0),
     (''planner_registry_version'', JStr ''1''), (''planner_registry_hash'', JStr ''h'')]"

definition sample_run_request :: run_request where
  "sample_run_request = \<lparr>fq_owner_subject = ''o'', fq_actor_issuer = ''i'', fq_actor_subject = ''a'',
     fq_run_id = ''r'', fq_idempotency_key = ''k'', fq_pins = sample_pins, fq_inputs = JObj [],
     fq_device_id = ''x'', fq_device_identity_generation = 1, fq_initial_snapshot_id = None,
     fq_initial_document_id = None, fq_initial_document_revision = None, fq_expires_at = None,
     fq_steps = None, fq_first_step_id = None\<rparr>"

definition new_store :: flow_db where
  "new_store = empty_flow [(''s'', ''1'')] [(''w'', ''1'')]"

definition created_run :: flow_run where
  "created_run = new_run sample_run_request sample_pin_columns zero_hash zero_hash zero_hash ''t''"

definition created_store :: flow_db where
  "created_store = flow_logged ''r'' ''created'' (JObj [(''state'', JStr ''created'')])
     (new_store\<lparr>fd_runs := [created_run]\<rparr>)"

lemma request_fields [simp]:
  "fq_owner_subject sample_run_request = ''o''" "fq_run_id sample_run_request = ''r''"
  "fq_idempotency_key sample_run_request = ''k''" "fq_pins sample_run_request = sample_pins"
  "fq_inputs sample_run_request = JObj []" "fq_steps sample_run_request = None"
  by (simp_all add: sample_run_request_def)

lemma request_acceptable:
  "identity_complete sample_run_request" "steps_acceptable sample_run_request"
  "list_all (\<lambda>k. k \<in> set (jkeys sample_pins)) required_pins"
  by (simp_all add: sample_run_request_def identity_complete_def steps_acceptable_def
      sample_pins_def required_pins_def jkeys_def)

lemma sample_pin_columns_of: "pin_columns_of sample_pins = Some sample_pin_columns"
  by (simp add: pin_columns_of_def sample_pins_def jget_def jlookup_def jget_default_def sample_pin_columns_def)

lemma small_requests:
  "small sample_pins" "small (JObj [])" "small (run_request_json sample_run_request)"
  "small (JObj [(''state'', JStr ''created'')])"
  by (simp_all add: small_eval sample_pins_def run_request_json_def sample_run_request_def nullable_text_def)

lemma created_run_fields:
  "fr_run_id created_run = ''r''" "fr_owner_subject created_run = ''o''"
  "fr_idempotency_key created_run = ''k''" "fr_request_hash created_run = zero_hash"
  "fr_pin_columns created_run = sample_pin_columns"
  by (simp_all add: created_run_def new_run_def)

lemma sample_insert_run:
  "insert_run (sample_flow_env 0) sample_run_request (encoded sample_pins) (encoded (JObj [])) zero_hash new_store
   = Inr (new_store\<lparr>fd_runs := [created_run]\<rparr>)"
proof -
  have z: "''sha256:'' @ sha256_hex zero_lib t = zero_hash" for t by (simp add: zero_lib_def zero_hash_def)
  have e: "fd_runs new_store = []" "fd_skill_versions new_store = [(''s'', ''1'')]"
    "fd_definitions new_store = [(''w'', ''1'')]" by (simp_all add: new_store_def empty_flow_def)
  have "run_admissible created_run (encoded sample_pins) (encoded (JObj [])) new_store"
    using small_encoded(3) [OF small_requests(1)] small_encoded(3) [OF small_requests(2)]
    by (simp add: run_admissible_def run_of_def e created_run_fields sample_pin_columns_def)
  then show ?thesis
    by (simp add: insert_run_def sample_pin_columns_of z e created_run_def del: append_Cons append_Nil)
qed

lemma created_in_order: "ids_in_order (new_store\<lparr>fd_runs := [created_run]\<rparr>)"
  by (simp add: ids_in_order_def new_store_def empty_flow_def)

lemma sample_create:
  "create_run (sample_flow_env 0) sample_run_request new_store = Inr ((created_run, False), created_store)"
  "create_run (sample_flow_env 0) sample_run_request created_store = Inr ((created_run, True), created_store)"
proof -
  have e: "fd_runs new_store = []" "run_of ''r'' (new_store\<lparr>fd_runs := [created_run]\<rparr>) = Some created_run"
    "fd_runs created_store = [created_run]" "run_of ''r'' created_store = Some created_run"
    by (simp_all add: new_store_def empty_flow_def run_of_def created_run_fields created_store_def)
  show "create_run (sample_flow_env 0) sample_run_request new_store = Inr ((created_run, False), created_store)"
    by (simp add: create_run_def demand_def request_acceptable small_json small_requests e
        sample_insert_run sample_event created_in_order present_def created_store_def)
  show "create_run (sample_flow_env 0) sample_run_request created_store = Inr ((created_run, True), created_store)"
    by (simp add: create_run_def demand_def request_acceptable small_json small_requests e
        created_run_fields replay_run_def)
qed

lemma new_store_ok: "flow_ok new_store"
  unfolding new_store_def by (rule empty_flow_ok)

theorem run_created_once_witness:
  "\<exists>db. create_run (sample_flow_env 0) sample_run_request new_store = Inr ((created_run, False), db)
     \<and> create_run (sample_flow_env 0) sample_run_request db = Inr ((created_run, True), db)
     \<and> \<not> (\<exists>q r b db3. create_run (sample_flow_env 0) q db = Inr ((r, b), db3)
          \<and> fq_owner_subject q = ''o'' \<and> fq_idempotency_key q = ''k'' \<and> db3 \<noteq> db)"
  using run_created_once [OF new_store_ok sample_create(1) steps_refl] sample_create
  by (metis request_fields(1,3))

theorem flow_log_numbered_witness:
  "\<exists>x db. create_run (sample_flow_env 0) sample_run_request (empty_flow [(''s'', ''1'')] [(''w'', ''1'')]) = Inr (x, db)
     \<and> map fe_sequence (run_events ''r'' db) = [1] \<and> list_flow_events ''o'' ''r'' 1 10 db = []"
proof -
  have c: "create_run (sample_flow_env 0) sample_run_request (empty_flow [(''s'', ''1'')] [(''w'', ''1'')])
      = Inr ((created_run, False), created_store)"
    using sample_create(1) unfolding new_store_def .
  then have r: "flow_run_to (empty_flow [(''s'', ''1'')] [(''w'', ''1'')]) created_store"
    by (intro steps_single op_create)
  have l: "length (run_events ''r'' created_store) = 1" "get_run ''o'' ''r'' created_store \<noteq> None"
    by (simp_all add: run_events_def created_store_def new_store_def empty_flow_def flow_logged_def
        get_run_def owned_run_def created_run_fields)
  show ?thesis
    using flow_log_numbered [OF r steps_refl, of "''r''" "''o''" 1 10] c l by auto
qed

section \<open>Answering a wait\<close>

definition sample_answer :: wait_response where
  "sample_answer = \<lparr>fu_owner_subject = ''o'', fu_run_id = ''r'', fu_wait_id = ''w1'',
     fu_expected_state_version = 1, fu_response_schema_digest = ''d'',
     fu_response = JObj [(''ok'', JBool True)], fu_idempotency_key = ''c''\<rparr>"

lemma sample_resolve:
  "\<exists>w db. resolve_wait (sample_flow_env 0) sample_answer (sample_flow sample_write) = Inr ((w, False), db)"
proof -
  have w: "small (wait_resolution sample_answer)"
    "small (JObj [(''wait_id'', JStr ''w1''), (''state_version'', JInt 1)])"
    by (simp_all add: small_eval wait_resolution_def sample_answer_def)
  have r: "response_accepted (fw_response_schema sample_wait) (fu_response sample_answer)"
    by (simp add: response_accepted_def sample_wait_def sample_answer_def jget_def jget_default_def
        jlookup_def jkeys_def)
  have f: "fu_owner_subject sample_answer = ''o''" "fu_run_id sample_answer = ''r''"
    "fu_wait_id sample_answer = ''w1''" "fu_expected_state_version sample_answer = 1"
    "fu_response_schema_digest sample_answer = ''d''" by (simp_all add: sample_answer_def)
  have s: "fw_wait_id sample_wait = ''w1''" "fw_run_id sample_wait = ''r''" "fw_resolution sample_wait = None"
    "fw_resolved_at sample_wait = None" "fw_expected_state_version sample_wait = 1"
    "fw_response_schema_digest sample_wait = ''d''" "fr_state_version sample_run = 1"
    "fd_waits (sample_flow sample_write) = [sample_wait]"
    by (simp_all add: sample_wait_def sample_run_def sample_flow_def)
  have k: "run_of ''r'' (sample_flow a\<lparr>fd_waits := ws\<rparr>) = Some sample_run"
    "ids_in_order (sample_flow a\<lparr>fd_waits := ws\<rparr>)" for a ws
    by (simp_all add: run_of_def sample_flow_def sample_run_def ids_in_order_def)
  show ?thesis
    by (simp add: resolve_wait_def present_def demand_def f s r w small_json small_encoded sample_event k
        wait_of_def count_where_def)
qed

theorem wait_resolved_once_witness:
  "\<exists>w db. resolve_wait (sample_flow_env 0) sample_answer (sample_flow sample_write) = Inr ((w, False), db)
     \<and> wait_of ''w1'' db = Some w
     \<and> \<not> (\<exists>E u w' db3. resolve_wait E u db = Inr ((w', False), db3) \<and> fu_wait_id u = ''w1'')"
proof -
  obtain w db where r: "resolve_wait (sample_flow_env 0) sample_answer (sample_flow sample_write) = Inr ((w, False), db)"
    using sample_resolve by blast
  have e: "fu_wait_id sample_answer = ''w1''" by (simp add: sample_answer_def)
  note once = wait_resolved_once [OF sample_flow_ok [OF sample_actions_sound(1)] r steps_refl, unfolded e]
  have "\<not> (\<exists>E u w' db3. resolve_wait E u db = Inr ((w', False), db3) \<and> fu_wait_id u = ''w1'')"
    using conjunct2 [OF once] by blast
  then show ?thesis using r conjunct1 [OF once] by blast
qed

end
