(* ===== verification/Spec2Isabelle.thy ===== *)
theory Spec2Isabelle
  imports Jobs Contracts Registry Workflow Ledger ProgramProperties Observation JobSamples Phase7Samples WorkflowSamples
begin

text \<open>
  Verification library of the AutoCAD MCP gateway and its desktop Agent.

  The program.  A gateway (\<open>services/gateway\<close>) offers CAD tools to remote clients.  Work on a drawing
  is a durable job in its SQLite store; an Agent on the user's machine (\<open>apps/desktop_agent\<close>) keeps one
  WebSocket session open, receives commands, executes them at most once by its own ledger, and reports
  acknowledgements, progress, results and, after a reconnect, reconciliation answers.  Contracts shared
  by both sides are in \<open>packages/contracts\<close>.  A write that may have started must never be sent again, a
  preview is committed at most once, and a document has one writer.

  Foundations.  Prelude: results \<open>error + 'a\<close>, tables as lists of rows, text.  PyValue: JSON values with
  Python's equality and texts.  Systems: the shared contracts as locales over a step relation (an
  invariant, durable records, a measure that never goes down); each component interprets them.

  Theories and the code they model.
  \<^item> Jobs: \<open>domain/jobs.py\<close>, the job state machine.
  \<^item> Contracts: \<open>autocad_contracts\<close> bounded JSON, canonical text and digests, capability and package
    manifests, and the document revision of \<open>snapshots.py\<close>.
  \<^item> Registry: \<open>connection_registry.py\<close>, connections, sequence windows, replacement and cleanup.
  \<^item> Workflow: \<open>workflows/state.py\<close>.
  \<^item> Ledger: the Agent's \<open>ledger.py\<close>: received commands, transitions, evidence, restart recovery.
  \<^item> StoreTables, StoreSessions, StoreJobs: \<open>sqlite/repositories.py\<close>: devices and sessions; creation,
    claim, transition, cancellation, progress, finalisation, the event log and its pages.  StoreLog: the
    effect of every operation on a job and its log.  Store: the step relation and its invariant.
    StoreProperties: the properties.
  \<^item> ProgramTables, ProgramStore: \<open>sqlite/program_repository.py\<close>: programs, previews, receipts,
    idempotency and the document write lock, on the same store (the last component of its record).
    ProgramLog, ProgramProperties: effects, step relation, properties.
  \<^item> Observation: the evidence checks of \<open>application/job_service.py\<close> and \<open>RuntimeEvidence\<close>.
  \<^item> Dispatch, Service, JobService: \<open>application/job_service.py\<close>: the dispatch checks, messages and
    results of the Agent; the execution of asynchronous methods; every method that moves a job.
  \<^item> JobSteps, JobGuarantee, JobHandlers: each repository call of the service is a step of the store,
    and each method keeps a guarantee whatever other tasks do at its suspensions (a rely-guarantee
    argument, one rule per combinator and one lemma per method, in the locale \<open>fair_service\<close>).
  \<^item> JobConcurrency: the service among its own tasks, an interpretation of that locale, and the runs of
    the whole gateway.  JobProperties: what holds of every run.  JobRuns: what single methods do when no
    other task interferes.  JobSamples: a concrete gateway and the witnesses.
  \<^item> Phase7Records: \<open>autocad_contracts/phase7.py\<close>: the strict records of approvals, evidence, recovery
    and rollback, their validators, dumps and digests.
  \<^item> Phase7Tables, Phase7Store, Phase7Recovery: \<open>sqlite/phase7_repository.py\<close>: rows, unique keys and
    reads; intents, consents and the release of an intent, which creates its job; evidence, recovery
    cases and rollbacks.  The tables are the component \<open>pt_more\<close> of the program tables.
  \<^item> Phase7Log: the effect of every operation (on tables with several unique keys, the locale
    \<open>keyed_table\<close>), the step relation and the invariant \<open>phase7_ok\<close>.  Phase7Invariant: every step keeps it.
    Phase7Properties: the properties.  Phase7Samples: a concrete store and the witnesses.
  \<^item> WorkflowTables, WorkflowStore, WorkflowActions: \<open>sqlite/phase9_repository.py\<close>: runs, steps, the event
    log, commands and waits; creation and replay of runs; transitions, the outbox of leased actions,
    recovery, answers to waits and the operations that stop a run.
  \<^item> WorkflowLog: what one change may do to a row, with a locale \<open>moving_rows\<close> interpreted on every
    table, and the invariant \<open>flow_ok\<close>.  WorkflowEffects: every operation is a chain of such changes.
    WorkflowRunner: \<open>workflows/runner.py\<close>, one turn and the reconciliation after a restart.
    WorkflowProperties: the step relation, the contracts of Systems on it, and the properties.
    WorkflowSamples: a concrete store and runner and the witnesses.

  Modelling.  A repository method is one transaction, a function from the store to an error or a
  result and the next store.  A method of the service is a function of the task's state; at each
  \<open>await\<close> the function \<open>sv_others\<close> changes the shared state, and the clock, new identifiers and failing
  sends are read at a counter of suspensions.  The dispatch lock is not modelled, so the model admits
  more interleavings than the code.  \<open>concurrent d plan S\<close> lets other whole methods run at every
  suspension, themselves interrupted to depth \<open>d\<close>; the theorems hold for every \<open>d\<close> and plan.  The loops
  with retries are bounded as in the code: three attempts for a cancellation and for a reconciliation
  answer.  A record of Phase 7 is a HOL record with its dump; a row holds the record it decodes to, and
  reading a row validates it again.  The terminal hooks that insert evidence and rollback receipts
  inside a finalisation are the steps of both, one after the other.  In a turn of the runner
  \<open>rn_others\<close> changes the workflow store between two repository calls.  All other recursion is structural or terminates by a measure, so no fuel is needed.

  What the lemmas show.  Store: finished jobs are frozen, claims exclusive, the log complete and
  numbered, pages contiguous, sessions unique.  Programs: one receipt per preview, one writer per
  document, success and receipt atomic.  Service: a command is sent at most once per return to the
  queue and never for a started write, only to a connection that passes every check at that moment;
  the gateway refines an abstract board of jobs; disconnects, deadlines, foreign messages and dispatch
  do what their contracts say.  Phase 7: an intent is released once, with the consent it needs, to one job that holds the lock of its
  document; decisions and digested material are frozen, records stay valid, parsing inverts dumping.
  Workflows: a version names a state of a run, a started write is claimed and dispatched no second
  time by a lease, a stopped run dispatches nothing more, runs, commands and answers are taken once,
  and a turn dispatches only after its durable start; the error theorems show where a lost write
  after a cancellation and the cancellation of a waiting run are refused.
  Agent ledger: results immutable, commands received once.

  Parameters.  SHA-256, float texts, the ISO time parser, new identifiers, pydantic models of messages
  and the Phase 7 hooks of the service are arguments of the definitions that use them (records \<open>pylib\<close>,
  \<open>program_lib\<close>, \<open>service\<close>, \<open>phase7\<close>, \<open>flow_env\<close> with the clocks of the workflow store, \<open>flow_runner\<close> with its ports, the function type \<open>iso_reader\<close>); they are code outside the modelled files or of the standard
  library, and the theorems hold for every choice.

  Not modelled.  Native hosts (C#), AutoLISP, the web portal (TypeScript), scripts and proofs of
  concept; process start, HTTP and OAuth endpoints, logging, telemetry; the user interface of the
  Agent; the admission service of Phase 7 and the stores of Phase 8, whose tables any step may change;
  the workflow service that plans the steps of a run, scenes and the local tools; SQL as such (a statement is its effect on lists of rows, a transaction is atomic).  The
  component list of the manifest names each part that is left out and why.
\<close>

end
